(* ===== verification/Prelude.thy ===== *)
theory Prelude
  imports Main "HOL-Library.Word" "HOL-Library.List_Lexorder" "HOL-Library.Char_ord"
begin

text \<open>
  Shared vocabulary of the development: the Go integer types as words, byte strings, the
  fixed-width integer codecs of \<open>encoding/binary\<close>, hexadecimal and decimal text
  (\<open>encoding/hex\<close>, \<open>strconv\<close>), the anchored regular expressions of the sources as
  predicates, and the two codec interfaces (\<open>prefix_free\<close>, \<open>positional_codec\<close>) that the
  wire formats of the components are instances of.
\<close>

named_theorems codec_simps
named_theorems pattern_simps

section \<open>Types\<close>

type_synonym byte = "8 word"
type_synonym bytes = "byte list"
type_synonym uint8 = "8 word"
type_synonym uint16 = "16 word"
type_synonym uint32 = "32 word"
type_synonym uint64 = "64 word"

text \<open>A Go \<open>int64\<close> is a 64-bit word read with \<^const>\<open>sint\<close>; comparisons are signed.\<close>

type_synonym int64 = "64 word"

text \<open>A Go \<open>[]byte\<close> that may be \<open>nil\<close>, where the code tells \<open>nil\<close> from empty.\<close>

type_synonym nullable_bytes = "bytes option"

text \<open>\<open>[]byte(s)\<close>: a Go string is its bytes.\<close>

definition bytes_of :: "string \<Rightarrow> bytes" where
  "bytes_of s = map of_char s"

definition string_of :: "bytes \<Rightarrow> string" where
  "string_of b = map (\<lambda>x. char_of (unat x)) b"

lemma unat_width: "unat (w :: 'a::len word) < 2 ^ LENGTH('a)"
  by (rule unsigned_less)

lemma unat_of_nat_byte: "n < 256 \<Longrightarrow> unat (of_nat n :: byte) = n"
  by (simp add: unat_of_nat)

lemma unat_of_char [simp]: "unat (of_char c :: byte) = (of_char c :: nat)"
proof -
  have "(of_char c :: byte) = of_nat (of_char c)"
    by (simp add: of_char_def horner_sum_of_bool_2_less)
  then show ?thesis
    by (simp add: unat_of_nat)
qed

text \<open>The verb \<^verbatim>\<open>%q\<close> of \<open>fmt\<close> on printable text.\<close>

definition quoted :: "string \<Rightarrow> string" where
  "quoted s = CHR 0x22 # s @ [CHR 0x22]"

lemma string_of_bytes_of [simp]: "string_of (bytes_of s) = s"
  by (simp add: string_of_def bytes_of_def comp_def map_idI)

lemma of_char_char_of_byte [simp]: "of_char (char_of (unat (b :: byte))) = b"
  using unat_width[of b] by (simp add: word_unat_eq_iff)

lemma bytes_of_string_of [simp]: "bytes_of (string_of b) = b"
  by (simp add: string_of_def bytes_of_def comp_def map_idI)

lemma length_bytes_of [simp]: "length (bytes_of s) = length s"
  by (simp add: bytes_of_def)

lemma bytes_of_append [simp]: "bytes_of (s @ t) = bytes_of s @ bytes_of t"
  by (simp add: bytes_of_def)

lemma bytes_of_inject [simp]: "bytes_of s = bytes_of t \<longleftrightarrow> s = t"
  by (metis string_of_bytes_of)

section \<open>Fixed-width integers as bytes\<close>

text \<open>\<open>binary.LittleEndian\<close> and \<open>binary.BigEndian\<close> at any width.\<close>

fun le_bytes :: "nat \<Rightarrow> nat \<Rightarrow> bytes" where
  "le_bytes 0 v = []"
| "le_bytes (Suc n) v = of_nat (v mod 256) # le_bytes n (v div 256)"

fun le_nat :: "bytes \<Rightarrow> nat" where
  "le_nat [] = 0"
| "le_nat (b # bs) = unat b + 256 * le_nat bs"

definition be_bytes :: "nat \<Rightarrow> nat \<Rightarrow> bytes" where
  "be_bytes n v = rev (le_bytes n v)"

definition be_nat :: "bytes \<Rightarrow> nat" where
  "be_nat bs = le_nat (rev bs)"

lemma length_le_bytes [simp, codec_simps]: "length (le_bytes n v) = n"
  by (induction n arbitrary: v) auto

lemma length_be_bytes [simp, codec_simps]: "length (be_bytes n v) = n"
  by (simp add: be_bytes_def)

lemma le_nat_le_bytes [simp, codec_simps]: "le_nat (le_bytes n v) = v mod 256 ^ n"
proof (induction n arbitrary: v)
  case (Suc n)
  have "unat (of_nat (v mod 256) :: byte) = v mod 256"
    by (simp add: unat_of_nat)
  then show ?case
    using Suc by (simp add: mod_mult2_eq ac_simps)
qed simp

lemma be_nat_be_bytes [simp, codec_simps]: "be_nat (be_bytes n v) = v mod 256 ^ n"
  by (simp add: be_nat_def be_bytes_def)

lemma le_nat_bound: "le_nat bs < 256 ^ length bs"
proof (induction bs)
  case (Cons b bs)
  have "unat b < 256"
    using unat_width[of b] by simp
  then show ?case
    using Cons by simp
qed simp

lemma le_nat_append: "le_nat (xs @ ys) = le_nat xs + 256 ^ length xs * le_nat ys"
  by (induction xs) (auto simp: algebra_simps)

lemma be_nat_bound: "be_nat bs < 256 ^ length bs"
  using le_nat_bound[of "rev bs"] by (simp add: be_nat_def)

lemma le_bytes_le_nat [simp, codec_simps]: "le_bytes (length bs) (le_nat bs) = bs"
proof (induction bs)
  case (Cons b bs)
  have "unat b < 256"
    using unat_width[of b] by simp
  then have "(unat b + 256 * le_nat bs) mod 256 = unat b"
    and "(unat b + 256 * le_nat bs) div 256 = le_nat bs"
    by simp_all
  then show ?case
    using Cons by simp
qed simp

lemma be_bytes_be_nat [simp, codec_simps]: "be_bytes (length bs) (be_nat bs) = bs"
  using le_bytes_le_nat[of "rev bs"] by (simp add: be_bytes_def be_nat_def)

lemma le_bytes_inject:
  "u < 256 ^ n \<Longrightarrow> v < 256 ^ n \<Longrightarrow> le_bytes n u = le_bytes n v \<longleftrightarrow> u = v"
  by (metis le_nat_le_bytes mod_less)

lemma be_bytes_inject:
  "u < 256 ^ n \<Longrightarrow> v < 256 ^ n \<Longrightarrow> be_bytes n u = be_bytes n v \<longleftrightarrow> u = v"
  by (simp add: be_bytes_def le_bytes_inject)

text \<open>The widths the sources use.\<close>

definition u16_le :: "uint16 \<Rightarrow> bytes" where "u16_le w = le_bytes 2 (unat w)"
definition u32_le :: "uint32 \<Rightarrow> bytes" where "u32_le w = le_bytes 4 (unat w)"
definition u64_le :: "uint64 \<Rightarrow> bytes" where "u64_le w = le_bytes 8 (unat w)"
definition u16_be :: "uint16 \<Rightarrow> bytes" where "u16_be w = be_bytes 2 (unat w)"
definition u32_be :: "uint32 \<Rightarrow> bytes" where "u32_be w = be_bytes 4 (unat w)"
definition u64_be :: "uint64 \<Rightarrow> bytes" where "u64_be w = be_bytes 8 (unat w)"

definition get_u32_le :: "bytes \<Rightarrow> uint32" where "get_u32_le b = of_nat (le_nat (take 4 b))"
definition get_u64_le :: "bytes \<Rightarrow> uint64" where "get_u64_le b = of_nat (le_nat (take 8 b))"
definition get_u64_be :: "bytes \<Rightarrow> uint64" where "get_u64_be b = of_nat (be_nat (take 8 b))"

lemmas word_bytes_defs =
  u16_le_def u32_le_def u64_le_def u16_be_def u32_be_def u64_be_def

lemma length_word_bytes [simp, codec_simps]:
  "length (u16_le a) = 2" "length (u32_le b) = 4" "length (u64_le c) = 8"
  "length (u16_be a) = 2" "length (u32_be b) = 4" "length (u64_be c) = 8"
  by (simp_all add: word_bytes_defs)

lemma unat_less_256_powers:
  "unat (a :: uint16) < 256 ^ 2" "unat (b :: uint32) < 256 ^ 4" "unat (c :: uint64) < 256 ^ 8"
  using unat_width[of a] unat_width[of b] unat_width[of c] by simp_all

lemma word_bytes_inject [simp, codec_simps]:
  "u16_le a = u16_le a' \<longleftrightarrow> a = a'" "u32_le b = u32_le b' \<longleftrightarrow> b = b'"
  "u64_le c = u64_le c' \<longleftrightarrow> c = c'"
  "u16_be a = u16_be a' \<longleftrightarrow> a = a'" "u32_be b = u32_be b' \<longleftrightarrow> b = b'"
  "u64_be c = u64_be c' \<longleftrightarrow> c = c'"
  by (simp_all only: word_bytes_defs le_bytes_inject be_bytes_inject unat_less_256_powers
      word_unat_eq_iff)

lemma get_u32_le_append [simp, codec_simps]: "get_u32_le (u32_le w @ r) = w"
proof -
  have "unat w mod 256 ^ 4 = unat w"
    using unat_less_256_powers(2)[of w] by (rule mod_less)
  then show ?thesis
    by (simp only: get_u32_le_def u32_le_def take_append length_le_bytes) (simp del: power_numeral)
qed

lemma get_u64_le_append [simp, codec_simps]: "get_u64_le (u64_le w @ r) = w"
proof -
  have "unat w mod 256 ^ 8 = unat w"
    using unat_less_256_powers(3)[of w] by (rule mod_less)
  then show ?thesis
    by (simp only: get_u64_le_def u64_le_def take_append length_le_bytes) (simp del: power_numeral)
qed

lemma get_u64_be_append [simp, codec_simps]: "get_u64_be (u64_be w @ r) = w"
proof -
  have "unat w mod 256 ^ 8 = unat w"
    using unat_less_256_powers(3)[of w] by (rule mod_less)
  then show ?thesis
    by (simp only: get_u64_be_def u64_be_def take_append length_be_bytes) (simp del: power_numeral)
qed

text \<open>Two strings of known equal lengths that agree after a suffix agree on both parts.\<close>

text \<open>Reading a field and writing it again gives the bytes that were read.\<close>

lemma u32_le_get [codec_simps]: "4 \<le> length b \<Longrightarrow> u32_le (get_u32_le b) = take 4 b"
proof -
  assume "4 \<le> length b"
  then have l: "length (take 4 b) = 4" by simp
  have "unat (of_nat (le_nat (take 4 b)) :: uint32) = le_nat (take 4 b)"
    using le_nat_bound [of "take 4 b"] l by (simp add: unat_of_nat)
  then show ?thesis using le_bytes_le_nat [of "take 4 b"] l by (simp add: u32_le_def get_u32_le_def)
qed

lemma u64_le_get [codec_simps]: "8 \<le> length b \<Longrightarrow> u64_le (get_u64_le b) = take 8 b"
proof -
  assume "8 \<le> length b"
  then have l: "length (take 8 b) = 8" by simp
  have "unat (of_nat (le_nat (take 8 b)) :: uint64) = le_nat (take 8 b)"
    using le_nat_bound [of "take 8 b"] l by (simp add: unat_of_nat)
  then show ?thesis using le_bytes_le_nat [of "take 8 b"] l by (simp add: u64_le_def get_u64_le_def)
qed

lemma append_eq_split:
  "length a = length b \<Longrightarrow> a @ r = b @ s \<longleftrightarrow> a = b \<and> r = s"
  by simp

lemma word_bytes_append [simp, codec_simps]:
  "u16_le a @ r = u16_le a' @ s \<longleftrightarrow> a = a' \<and> r = s"
  "u32_le b @ r = u32_le b' @ s \<longleftrightarrow> b = b' \<and> r = s"
  "u64_le c @ r = u64_le c' @ s \<longleftrightarrow> c = c' \<and> r = s"
  "u16_be a @ r = u16_be a' @ s \<longleftrightarrow> a = a' \<and> r = s"
  "u32_be b @ r = u32_be b' @ s \<longleftrightarrow> b = b' \<and> r = s"
  "u64_be c @ r = u64_be c' @ s \<longleftrightarrow> c = c' \<and> r = s"
  by simp_all


section \<open>Hexadecimal text\<close>

definition hex_char :: "nat \<Rightarrow> char" where
  "hex_char n = ''0123456789abcdef'' ! n"

definition hex_val :: "char \<Rightarrow> nat option" where
  "hex_val c =
     (if CHR ''0'' \<le> c \<and> c \<le> CHR ''9'' then Some (of_char c - 48)
      else if CHR ''a'' \<le> c \<and> c \<le> CHR ''f'' then Some (of_char c - 87)
      else if CHR ''A'' \<le> c \<and> c \<le> CHR ''F'' then Some (of_char c - 55)
      else None)"

text \<open>\<open>hex.EncodeToString\<close> and \<open>hex.DecodeString\<close> (\<open>None\<close> is its error).\<close>

definition hex_encode :: "bytes \<Rightarrow> string" where
  "hex_encode bs = concat (map (\<lambda>b. [hex_char (unat b div 16), hex_char (unat b mod 16)]) bs)"

fun hex_decode :: "string \<Rightarrow> bytes option" where
  "hex_decode [] = Some []"
| "hex_decode [c] = None"
| "hex_decode (c # d # cs) =
     (case (hex_val c, hex_val d) of
        (Some h, Some l) \<Rightarrow> map_option (\<lambda>bs. of_nat (16 * h + l) # bs) (hex_decode cs)
      | _ \<Rightarrow> None)"

definition lower_hex :: "char \<Rightarrow> bool" where
  "lower_hex c \<longleftrightarrow> (CHR ''0'' \<le> c \<and> c \<le> CHR ''9'') \<or> (CHR ''a'' \<le> c \<and> c \<le> CHR ''f'')"

text \<open>\<^verbatim>\<open>^[0-9a-f]{64}$\<close>.\<close>

definition sha_pattern :: "string \<Rightarrow> bool" where
  "sha_pattern s \<longleftrightarrow> length s = 64 \<and> list_all lower_hex s"

lemma hex_val_hex_char_all:
  "list_all (\<lambda>n. hex_val (hex_char n) = Some n \<and> lower_hex (hex_char n)) [0..<16]"
  by code_simp

lemma hex_val_hex_char: "n < 16 \<Longrightarrow> hex_val (hex_char n) = Some n \<and> lower_hex (hex_char n)"
  using hex_val_hex_char_all by (auto simp only: list_all_iff set_upt atLeastLessThan_iff)

lemma byte_nibbles: "unat (b :: byte) div 16 < 16" "unat b mod 16 < 16"
  using unat_width[of b] by simp_all

lemma hex_encode_Nil [simp]: "hex_encode [] = []"
  by (simp add: hex_encode_def)

lemma hex_encode_Cons [simp]:
  "hex_encode (b # bs) = hex_char (unat b div 16) # hex_char (unat b mod 16) # hex_encode bs"
  by (simp add: hex_encode_def)

lemma hex_decode_encode [simp]: "hex_decode (hex_encode bs) = Some bs"
proof (induction bs)
  case (Cons b bs)
  have "of_nat (16 * (unat b div 16) + unat b mod 16) = b"
    by simp
  then show ?case
    using Cons by (simp add: hex_val_hex_char byte_nibbles)
qed simp

lemma length_hex_encode [simp]: "length (hex_encode bs) = 2 * length bs"
  by (induction bs) auto

lemma lower_hex_encode: "list_all lower_hex (hex_encode bs)"
  by (induction bs) (auto simp: hex_val_hex_char byte_nibbles)

lemma hex_encode_inject [simp]: "hex_encode a = hex_encode b \<longleftrightarrow> a = b"
  by (metis hex_decode_encode option.inject)

lemma sha_pattern_hex_encode [simp]: "sha_pattern (hex_encode b) \<longleftrightarrow> length b = 32"
  by (simp add: sha_pattern_def lower_hex_encode)

definition lower_hex_codes :: "nat list" where
  "lower_hex_codes = [48..<58] @ [97..<103]"

lemma lower_hex_val_all:
  "list_all (\<lambda>m. case hex_val (char_of m) of None \<Rightarrow> False
     | Some n \<Rightarrow> n < 16 \<and> hex_char n = char_of m) lower_hex_codes"
  by code_simp

lemma lower_hex_val:
  assumes "lower_hex c"
  obtains n where "hex_val c = Some n" "n < 16" "hex_char n = c"
proof -
  have "48 \<le> (of_char c :: nat) \<and> (of_char c :: nat) \<le> 57 \<or> 97 \<le> (of_char c :: nat) \<and> (of_char c :: nat) \<le> 102"
    using assms by (simp add: lower_hex_def less_eq_char_def)
  then have "of_char c \<in> set lower_hex_codes"
    by (auto simp only: lower_hex_codes_def set_append set_upt Un_iff atLeastLessThan_iff)
  then have "case hex_val c of None \<Rightarrow> False | Some n \<Rightarrow> n < 16 \<and> hex_char n = c"
    using lower_hex_val_all by (auto simp only: list_all_iff char_of_char dest!: bspec)
  then show ?thesis
    using that by (auto split: option.splits)
qed

lemma hex_encode_decode:
  assumes "list_all lower_hex s" and "even (length s)"
  shows "\<exists>b. hex_decode s = Some b \<and> hex_encode b = s"
  using assms
proof (induction s rule: hex_decode.induct)
  case (3 c d cs)
  obtain h where h: "hex_val c = Some h" "h < 16" "hex_char h = c"
    using 3(2) by (auto elim: lower_hex_val)
  obtain l where l: "hex_val d = Some l" "l < 16" "hex_char l = d"
    using 3(2) by (auto elim: lower_hex_val)
  note hl = h l
  obtain b where b: "hex_decode cs = Some b" "hex_encode b = cs"
    using 3 hl by auto
  have "unat (of_nat (16 * h + l) :: byte) = 16 * h + l"
    using hl by (intro unat_of_nat_byte) simp
  then show ?case
    using b hl by simp
qed auto

lemma sha_pattern_decode:
  assumes "sha_pattern s"
  obtains b where "hex_decode s = Some b" "length b = 32" "hex_encode b = s"
proof -
  obtain b where b: "hex_decode s = Some b" "hex_encode b = s"
    using assms hex_encode_decode[of s] by (auto simp: sha_pattern_def)
  moreover have "length b = 32"
    using assms b(2) by (auto simp: sha_pattern_def)
  ultimately show ?thesis
    using that by blast
qed

section \<open>Decimal text\<close>

definition is_digit :: "char \<Rightarrow> bool" where
  "is_digit c \<longleftrightarrow> CHR ''0'' \<le> c \<and> c \<le> CHR ''9''"

definition digit_char :: "nat \<Rightarrow> char" where
  "digit_char n = char_of (48 + n)"

definition digit_val :: "char \<Rightarrow> nat" where
  "digit_val c = of_char c - 48"

text \<open>\<open>strconv.FormatUint\<close> and \<open>big.Int.String\<close> on naturals, \<open>FormatInt\<close> on integers.\<close>

fun nat_str :: "nat \<Rightarrow> string" where
  "nat_str n = (if n < 10 then [digit_char n] else nat_str (n div 10) @ [digit_char (n mod 10)])"

declare nat_str.simps [simp del]

definition int_str :: "int \<Rightarrow> string" where
  "int_str i = (if i < 0 then CHR ''-'' # nat_str (nat (- i)) else nat_str (nat i))"

fun digits_val :: "nat \<Rightarrow> string \<Rightarrow> nat option" where
  "digits_val acc [] = Some acc"
| "digits_val acc (c # cs) =
     (if is_digit c then digits_val (10 * acc + digit_val c) cs else None)"

text \<open>\<open>strconv.ParseUint(s, 10, bits)\<close> and \<open>strconv.ParseInt(s, 10, bits)\<close>; \<open>None\<close> is an error.\<close>

definition parse_uint :: "nat \<Rightarrow> string \<Rightarrow> nat option" where
  "parse_uint bits s =
     (if s = [] then None
      else case digits_val 0 s of
        None \<Rightarrow> None
      | Some n \<Rightarrow> if n < 2 ^ bits then Some n else None)"

definition parse_int :: "nat \<Rightarrow> string \<Rightarrow> int option" where
  "parse_int bits s =
     (case s of
        [] \<Rightarrow> None
      | c # cs \<Rightarrow>
          (let neg = (c = CHR ''-''); body = (if c = CHR ''+'' \<or> c = CHR ''-'' then cs else s)
           in if body = [] then None
              else case digits_val 0 body of
                None \<Rightarrow> None
              | Some n \<Rightarrow>
                  if \<not> neg \<and> 2 ^ (bits - 1) \<le> n then None
                  else if neg \<and> 2 ^ (bits - 1) < n then None
                  else Some (if neg then - int n else int n)))"

lemma digit_char_digit [simp]:
  "n < 10 \<Longrightarrow> is_digit (digit_char n)" "n < 10 \<Longrightarrow> digit_val (digit_char n) = n"
  by (simp_all add: is_digit_def digit_char_def digit_val_def less_eq_char_def)

lemma digits_val_append:
  "digits_val acc (s @ t) = (case digits_val acc s of None \<Rightarrow> None | Some n \<Rightarrow> digits_val n t)"
  by (induction acc s rule: digits_val.induct) auto

lemma digits_val_nat_str [simp]: "digits_val 0 (nat_str n) = Some n"
proof (induction n rule: nat_str.induct)
  case (1 n)
  then show ?case
    by (subst nat_str.simps) (simp add: digits_val_append)
qed

lemma nat_str_nonempty [simp]: "nat_str n \<noteq> []"
  by (subst nat_str.simps) simp

lemma nat_str_inject [simp]: "nat_str m = nat_str n \<longleftrightarrow> m = n"
  by (metis digits_val_nat_str option.inject)

lemma list_all_digit_nat_str [simp]: "list_all is_digit (nat_str n)"
proof (induction n rule: nat_str.induct)
  case (1 n)
  then show ?case
    by (subst nat_str.simps) simp
qed

lemma parse_uint_nat_str: "parse_uint bits (nat_str n) = (if n < 2 ^ bits then Some n else None)"
  by (simp add: parse_uint_def)

lemma hd_nat_str_digit: "is_digit (hd (nat_str n))"
  by (metis hd_in_set list_all_digit_nat_str list_all_iff nat_str_nonempty)

lemma not_digit_sign [simp]: "\<not> is_digit CHR ''-''" "\<not> is_digit CHR ''+''" "\<not> is_digit CHR ''.''"
  by (simp_all add: is_digit_def)

lemma parse_int_int_str:
  assumes "- (2 ^ (bits - 1)) \<le> i" and "i < 2 ^ (bits - 1)"
  shows "parse_int bits (int_str i) = Some i"
proof (cases "i < 0")
  case True
  have "nat (- i) \<le> 2 ^ (bits - 1)"
    using assms(1) by (simp add: nat_le_iff)
  then show ?thesis
    using True by (simp add: parse_int_def int_str_def Let_def)
next
  case False
  obtain c cs where c: "nat_str (nat i) = c # cs"
    by (cases "nat_str (nat i)") auto
  then have "is_digit c"
    using hd_nat_str_digit[of "nat i"] by simp
  then have "c \<noteq> CHR ''-''" "c \<noteq> CHR ''+''"
    using not_digit_sign by blast+
  moreover have "digits_val 0 (c # cs) = Some (nat i)"
    using digits_val_nat_str[of "nat i"] c by (simp only:)
  moreover have "nat i < 2 ^ (bits - 1)"
    using False assms(2) by (simp add: nat_less_iff)
  ultimately show ?thesis
    using False c by (simp add: parse_int_def int_str_def Let_def del: digits_val.simps)
qed

section \<open>Anchored patterns\<close>

definition is_lower :: "char \<Rightarrow> bool" where
  "is_lower c \<longleftrightarrow> CHR ''a'' \<le> c \<and> c \<le> CHR ''z''"

definition is_upper :: "char \<Rightarrow> bool" where
  "is_upper c \<longleftrightarrow> CHR ''A'' \<le> c \<and> c \<le> CHR ''Z''"

text \<open>\<open>c{lo,hi}\<close> for one character class over the whole text.\<close>

definition class_pattern :: "(char \<Rightarrow> bool) \<Rightarrow> nat \<Rightarrow> nat \<Rightarrow> string \<Rightarrow> bool" where
  "class_pattern cls lo hi s \<longleftrightarrow> lo \<le> length s \<and> length s \<le> hi \<and> list_all cls s"

lemma class_pattern_length [pattern_simps]:
  "class_pattern cls lo hi s \<Longrightarrow> lo \<le> length s \<and> length s \<le> hi"
  by (simp add: class_pattern_def)

section \<open>Bounded loops over a byte position\<close>

text \<open>
  A Go loop that decodes \<open>n\<close> items one after the other, each decoder call taking the whole
  input and a position and returning the next position; an item error is wrapped with the
  item's index and ends the loop.
\<close>

fun pos_loop :: "(nat \<Rightarrow> 'e \<Rightarrow> 'f) \<Rightarrow> (bytes \<Rightarrow> nat \<Rightarrow> 'e + ('a \<times> nat)) \<Rightarrow> nat \<Rightarrow> nat
    \<Rightarrow> bytes \<Rightarrow> nat \<Rightarrow> 'f + ('a list \<times> nat)" where
  "pos_loop wrap dec i 0 w p = Inr ([], p)"
| "pos_loop wrap dec i (Suc n) w p =
     (case dec w p of
        Inl e \<Rightarrow> Inl (wrap i e)
      | Inr (v, q) \<Rightarrow>
          (case pos_loop wrap dec (Suc i) n w q of
             Inl e \<Rightarrow> Inl e
           | Inr (vs, r) \<Rightarrow> Inr (v # vs, r)))"

section \<open>Codec interfaces\<close>

text \<open>A set of encodings none of which is a proper prefix of another, as hash inputs need.\<close>

locale prefix_free =
  fixes enc :: "'a \<Rightarrow> bytes"
    and ok :: "'a \<Rightarrow> bool"
  assumes enc_split: "ok x \<Longrightarrow> ok y \<Longrightarrow> enc x @ r = enc y @ s \<Longrightarrow> x = y \<and> r = s"
begin

lemma enc_inject: "ok x \<Longrightarrow> ok y \<Longrightarrow> enc x = enc y \<Longrightarrow> x = y"
  using enc_split[of x y "[]" "[]"] by simp

lemma concat_split:
  "list_all ok xs \<Longrightarrow> list_all ok ys \<Longrightarrow> length xs = length ys \<Longrightarrow>
   concat (map enc xs) @ r = concat (map enc ys) @ s \<Longrightarrow> xs = ys \<and> r = s"
proof (induction xs arbitrary: ys)
  case (Cons x xs)
  then obtain y ys' where y: "ys = y # ys'"
    by (cases ys) auto
  have ok: "ok x" "ok y" "list_all ok xs" "list_all ok ys'" "length xs = length ys'"
    using Cons.prems y by simp_all
  have "enc x @ (concat (map enc xs) @ r) = enc y @ (concat (map enc ys') @ s)"
    using Cons.prems(4) y by simp
  from enc_split[OF ok(1,2) this] have "x = y" "concat (map enc xs) @ r = concat (map enc ys') @ s"
    by simp_all
  with Cons.IH[OF ok(3,4,5)] y show ?case
    by simp
qed simp

end

text \<open>
  A wire format read at a position of a larger buffer. \<open>dec_enc\<close>: an encoded item is read
  back wherever it stands, and the position after it is returned. \<open>dec_canonical\<close>: what a
  successful read consumed is the encoding of what it returned, inside the buffer.
\<close>

locale positional_codec =
  fixes enc :: "'a \<Rightarrow> bytes"
    and ok :: "'a \<Rightarrow> bool"
    and dec :: "bytes \<Rightarrow> nat \<Rightarrow> 'e + ('a \<times> nat)"
  assumes dec_enc: "ok x \<Longrightarrow> dec (pre @ enc x @ post) (length pre) = Inr (x, length pre + length (enc x))"
    and dec_canonical: "dec w p = Inr (x, q) \<Longrightarrow> p \<le> length w \<Longrightarrow>
      ok x \<and> q \<le> length w \<and> q = p + length (enc x) \<and> take (length (enc x)) (drop p w) = enc x"
begin

lemma enc_split': "ok x \<Longrightarrow> ok y \<Longrightarrow> enc x @ r = enc y @ s \<Longrightarrow> x = y \<and> r = s"
  using dec_enc[of x "[]" r] dec_enc[of y "[]" s] by auto

lemma loop_enc:
  "list_all ok xs \<Longrightarrow>
   pos_loop wrap dec i (length xs) (pre @ concat (map enc xs) @ post) (length pre)
     = Inr (xs, length pre + length (concat (map enc xs)))"
proof (induction xs arbitrary: i pre)
  case (Cons x xs)
  have "dec (pre @ enc x @ concat (map enc xs) @ post) (length pre) = Inr (x, length (pre @ enc x))"
    using dec_enc[of x pre "concat (map enc xs) @ post"] Cons.prems by simp
  moreover have "pos_loop wrap dec (Suc i) (length xs) ((pre @ enc x) @ concat (map enc xs) @ post)
      (length (pre @ enc x)) = Inr (xs, length (pre @ enc x) + length (concat (map enc xs)))"
    using Cons.prems by (intro Cons.IH) simp
  ultimately show ?case
    by simp
qed simp

lemma loop_canonical:
  "pos_loop wrap dec i n w p = Inr (xs, q) \<Longrightarrow> p \<le> length w \<Longrightarrow>
   list_all ok xs \<and> length xs = n \<and> q \<le> length w \<and> q = p + length (concat (map enc xs))
   \<and> take (length (concat (map enc xs))) (drop p w) = concat (map enc xs)"
proof (induction n arbitrary: i p xs)
  case (Suc n)
  from Suc.prems(1) obtain x m ys where x: "dec w p = Inr (x, m)"
    and ys: "pos_loop wrap dec (Suc i) n w m = Inr (ys, q)" and xs: "xs = x # ys"
    by (auto split: sum.splits prod.splits)
  from dec_canonical[OF x Suc.prems(2)] have
    d: "ok x" "m \<le> length w" "m = p + length (enc x)" "take (length (enc x)) (drop p w) = enc x"
    by auto
  from Suc.IH[OF ys d(2)] have
    l: "list_all ok ys" "length ys = n" "q \<le> length w" "q = m + length (concat (map enc ys))"
      "take (length (concat (map enc ys))) (drop m w) = concat (map enc ys)"
    by auto
  have "drop m w = drop (length (enc x)) (drop p w)"
    by (simp add: d(3) add.commute)
  then have "take (length (enc x) + length (concat (map enc ys))) (drop p w)
      = enc x @ concat (map enc ys)"
    using d(4) l(5) by (simp add: take_add)
  then show ?case
    using d l xs by simp
qed simp

end

sublocale positional_codec \<subseteq> prefix_free enc ok
  by unfold_locales (rule enc_split')

section \<open>Length-prefixed byte strings\<close>

text \<open>A 32-bit length and the bytes, as the digests (little endian or big endian) write them.\<close>

definition len_bytes_le :: "bytes \<Rightarrow> bytes" where
  "len_bytes_le b = u32_le (of_nat (length b)) @ b"

definition len_bytes_be :: "bytes \<Rightarrow> bytes" where
  "len_bytes_be b = u32_be (of_nat (length b)) @ b"

definition fits_u32 :: "bytes \<Rightarrow> bool" where
  "fits_u32 b \<longleftrightarrow> length b < 2 ^ 32"

lemma of_nat_u32_inject: "m < 2 ^ 32 \<Longrightarrow> n < 2 ^ 32 \<Longrightarrow> (of_nat m :: uint32) = of_nat n \<longleftrightarrow> m = n"
  by (simp add: word_unat_eq_iff unat_of_nat)

interpretation lp_le: prefix_free len_bytes_le fits_u32
  by unfold_locales (auto simp: len_bytes_le_def fits_u32_def of_nat_u32_inject)

interpretation lp_be: prefix_free len_bytes_be fits_u32
  by unfold_locales (auto simp: len_bytes_be_def fits_u32_def of_nat_u32_inject)

end
