(* ===== verification/SHA256.thy ===== *)
theory SHA256
  imports Prelude
begin

text \<open>
  SHA-256 as the sources use it through \<open>crypto/sha256\<close>: \<open>sha256.Sum256\<close> of a byte string, and
  \<open>sha256.New\<close> with several \<open>Write\<close> calls, which digests the concatenation of what was
  written. The function is executable; the development uses of it that a digest has 32 bytes
  and that equal inputs have equal digests. Where a statement needs that two inputs do not
  collide, the two inputs are named in the statement.
\<close>

unbundle bit_operations_syntax

text \<open>
  The constants: the first 32 bits of the fractional parts of the cube roots of the first 64 primes
  and of the square roots of the first 8. \<open>root_search b e n r\<close> is the largest value that extends \<open>r\<close>
  by \<open>b\<close> low bits and whose power \<open>e\<close> is at most \<open>n\<close>.
\<close>

fun root_search :: "nat \<Rightarrow> nat \<Rightarrow> nat \<Rightarrow> nat \<Rightarrow> nat" where
  "root_search 0 e n r = r"
| "root_search (Suc b) e n r = root_search b e n (if (r + 2 ^ b) ^ e \<le> n then r + 2 ^ b else r)"

definition root_fraction :: "nat \<Rightarrow> nat \<Rightarrow> uint32" where
  "root_fraction e p = of_nat (root_search 36 e (p * 2 ^ (32 * e)) 0)"

definition sha_primes :: "nat list" where
  "sha_primes = filter (\<lambda>p. list_all (\<lambda>d. p mod d \<noteq> 0) [2..<p]) [2..<312]"

definition sha_k :: "uint32 list" where
  "sha_k = map (root_fraction 3) sha_primes"

type_synonym sha_state = "uint32 \<times> uint32 \<times> uint32 \<times> uint32 \<times> uint32 \<times> uint32 \<times> uint32 \<times> uint32"

definition sha_init :: sha_state where
  "sha_init = (root_fraction 2 2, root_fraction 2 3, root_fraction 2 5, root_fraction 2 7,
      root_fraction 2 11, root_fraction 2 13, root_fraction 2 17, root_fraction 2 19)"

definition rotr32 :: "nat \<Rightarrow> uint32 \<Rightarrow> uint32" where
  "rotr32 n x = drop_bit n x OR push_bit (32 - n) x"

definition sha_word :: "bytes \<Rightarrow> uint32" where
  "sha_word b = of_nat (be_nat b)"

text \<open>The message schedule, newest word first.\<close>

fun sha_extend :: "nat \<Rightarrow> uint32 list \<Rightarrow> uint32 list" where
  "sha_extend 0 ws = ws"
| "sha_extend (Suc n) ws =
     (let w15 = ws ! 14; w2 = ws ! 1;
          s0 = rotr32 7 w15 XOR rotr32 18 w15 XOR drop_bit 3 w15;
          s1 = rotr32 17 w2 XOR rotr32 19 w2 XOR drop_bit 10 w2
      in sha_extend n ((ws ! 15 + s0 + ws ! 6 + s1) # ws))"

definition sha_schedule :: "bytes \<Rightarrow> uint32 list" where
  "sha_schedule block =
     rev (sha_extend 48 (rev (map (\<lambda>i. sha_word (take 4 (drop (4 * i) block))) [0..<16])))"

fun sha_round :: "sha_state \<Rightarrow> uint32 \<times> uint32 \<Rightarrow> sha_state" where
  "sha_round (a, b, c, d, e, f, g, h) (k, w) =
     (let s1 = rotr32 6 e XOR rotr32 11 e XOR rotr32 25 e;
          ch = (e AND f) XOR (NOT e AND g);
          t1 = h + s1 + ch + k + w;
          s0 = rotr32 2 a XOR rotr32 13 a XOR rotr32 22 a;
          maj = (a AND b) XOR (a AND c) XOR (b AND c);
          t2 = s0 + maj
      in (t1 + t2, a, b, c, d + t1, e, f, g))"

fun sha_add :: "sha_state \<Rightarrow> sha_state \<Rightarrow> sha_state" where
  "sha_add (a, b, c, d, e, f, g, h) (a', b', c', d', e', f', g', h') =
     (a + a', b + b', c + c', d + d', e + e', f + f', g + g', h + h')"

definition sha_compress :: "sha_state \<Rightarrow> bytes \<Rightarrow> sha_state" where
  "sha_compress st block = sha_add st (foldl sha_round st (zip sha_k (sha_schedule block)))"

definition sha_pad :: "bytes \<Rightarrow> bytes" where
  "sha_pad m = m @ [0x80] @ replicate ((119 - length m mod 64) mod 64) 0
     @ u64_be (of_nat (8 * length m))"

fun sha_chunks :: "nat \<Rightarrow> bytes \<Rightarrow> bytes list" where
  "sha_chunks 0 m = []"
| "sha_chunks (Suc n) m = take 64 m # sha_chunks n (drop 64 m)"

fun sha_output :: "sha_state \<Rightarrow> bytes" where
  "sha_output (a, b, c, d, e, f, g, h) =
     u32_be a @ u32_be b @ u32_be c @ u32_be d @ u32_be e @ u32_be f @ u32_be g @ u32_be h"

definition sha256 :: "bytes \<Rightarrow> bytes" where
  "sha256 m = (let p = sha_pad m
     in sha_output (foldl sha_compress sha_init (sha_chunks (length p div 64) p)))"

lemma length_sha_output [simp]: "length (sha_output st) = 32"
  by (cases st rule: sha_output.cases) simp

lemma length_sha256 [simp]: "length (sha256 m) = 32"
  by (simp add: sha256_def Let_def)

lemma sha_pad_zeros:
  assumes "(r :: nat) < 64"
  shows "(119 - r) mod 64 = (if r < 56 then 55 - r else 119 - r)"
proof (cases "r < 56")
  case True
  then have "119 - r = 55 - r + 64"
    by simp
  then show ?thesis
    using True by (simp only: mod_add_self2 if_True) simp
next
  case False
  then show ?thesis
    using assms by simp
qed

lemma sha_pad_blocks:
  "length (sha_pad m) = 64 * (length m div 64 + (if length m mod 64 < 56 then 1 else 2))"
proof -
  define r where "r = length m mod 64"
  have r: "r < 64" "length m = 64 * (length m div 64) + r"
    by (simp_all add: r_def)
  have "length (sha_pad m) = length m + 9 + (119 - r) mod 64"
    by (simp add: sha_pad_def r_def)
  also have "\<dots> = 64 * (length m div 64) + 64 * (if r < 56 then 1 else 2)"
    using r by (simp add: sha_pad_zeros) linarith
  finally show ?thesis
    by (simp add: r_def)
qed

text \<open>The digest of a message as the sources store it.\<close>

definition sha256_hex :: "bytes \<Rightarrow> string" where
  "sha256_hex m = hex_encode (sha256 m)"

lemma sha_pattern_sha256_hex [simp]: "sha_pattern (sha256_hex m)"
  by (simp add: sha256_hex_def)

text \<open>Two different messages with the same digest.\<close>

definition hash_collision :: "bytes \<times> bytes \<Rightarrow> bool" where
  "hash_collision mm \<longleftrightarrow> fst mm \<noteq> snd mm \<and> sha256 (fst mm) = sha256 (snd mm)"

end
