(* ===== verification/Errors.thy ===== *)
theory Errors
  imports Prelude
begin

text \<open>
  The machine-readable error envelope of the SDK (\<open>internal/serverprotocol/errors.go\<close> and the
  root package's \<open>errors.go\<close>): the closed set of SDK error codes, Go error values as a datatype
  (the SDK's own envelope, plain errors, wrapped and joined errors, two errors wrapped around a text, the two
  context errors),
  \<open>errors.As\<close> and \<open>errors.Is\<close> over them, and the mapping of the Core's machine codes. A Go
  call that returns a value and an error is a sum: \<open>Inl\<close> of the error or \<open>Inr\<close> of the value.
\<close>

text \<open>\<open>CodeNone\<close> is the empty string, the zero value of the Go type.\<close>

datatype ErrorCode =
    CodeNone
  | CodeInvalidArgument
  | CodeDatabaseClosed
  | CodeNativeVerification
  | CodeNativeLoad
  | CodeProtocolViolation
  | CodeNativeUnclassified
  | CodeCapabilityUnavailable
  | CodeResultIndeterminate
  | CodeNativeConflict
  | CodeNativeNotFound
  | CodeNativeNotLeader
  | CodeNativeNoQuorum
  | CodeNativeUnavailable
  | CodeNativeFenced
  | CodeNativeTimeout
  | CodeNativePersistence
  | CodeSnapshotNotAvailable
  | CodeCorruptStream
  | CodeNativeUnsupportedVersion
  | CodeNativeInvalidNamespace
  | CodeNativeInvalidRequest
  | CodeNativeRequestTooLarge
  | CodeNativeResultTooLarge
  | CodeNativeCursorMismatch
  | CodeNativeCursorUnavailable
  | CodeNativeResourceExhausted
  | CodeNativeCorruptState
  | CodeNativeStorage
  | CodeNativeUnsupportedAction
  | CodeNativeNotConfigured
  | CodeNativeDecimalOutOfRange

fun code_text :: "ErrorCode \<Rightarrow> string" where
  "code_text CodeNone = ''''"
| "code_text CodeInvalidArgument = ''sdk_invalid_argument''"
| "code_text CodeDatabaseClosed = ''sdk_database_closed''"
| "code_text CodeNativeVerification = ''sdk_native_verification_failed''"
| "code_text CodeNativeLoad = ''sdk_native_load_failed''"
| "code_text CodeProtocolViolation = ''sdk_protocol_violation''"
| "code_text CodeNativeUnclassified = ''native_unclassified''"
| "code_text CodeCapabilityUnavailable = ''sdk_capability_unavailable''"
| "code_text CodeResultIndeterminate = ''native.uncertain''"
| "code_text CodeNativeConflict = ''native.conflict''"
| "code_text CodeNativeNotFound = ''native.not_found''"
| "code_text CodeNativeNotLeader = ''native.not_leader''"
| "code_text CodeNativeNoQuorum = ''native.no_quorum''"
| "code_text CodeNativeUnavailable = ''native.unavailable''"
| "code_text CodeNativeFenced = ''native.fenced''"
| "code_text CodeNativeTimeout = ''native.timeout''"
| "code_text CodeNativePersistence = ''native.persistence_failed''"
| "code_text CodeSnapshotNotAvailable = ''native.snapshot_not_available''"
| "code_text CodeCorruptStream = ''native.corrupt_stream''"
| "code_text CodeNativeUnsupportedVersion = ''native.unsupported_version''"
| "code_text CodeNativeInvalidNamespace = ''native.invalid_namespace''"
| "code_text CodeNativeInvalidRequest = ''native.invalid_request''"
| "code_text CodeNativeRequestTooLarge = ''native.request_too_large''"
| "code_text CodeNativeResultTooLarge = ''native.result_too_large''"
| "code_text CodeNativeCursorMismatch = ''native.cursor_mismatch''"
| "code_text CodeNativeCursorUnavailable = ''native.cursor_unavailable''"
| "code_text CodeNativeResourceExhausted = ''native.resource_exhausted''"
| "code_text CodeNativeCorruptState = ''native.corrupt_state''"
| "code_text CodeNativeStorage = ''native.storage_error''"
| "code_text CodeNativeUnsupportedAction = ''native.unsupported_action''"
| "code_text CodeNativeNotConfigured = ''native.not_configured''"
| "code_text CodeNativeDecimalOutOfRange = ''native.decimal_out_of_range''"

record NativeLeaderHint =
  NodeID :: string
  Address :: "string option"

datatype go_error =
    TalonError (Code: ErrorCode) (NativeCode: string) (Operation: string) (Message: string)
      (Cause: "go_error option") (Term: "uint64 option") (LeaderHint: "NativeLeaderHint option")
  | ErrorString string
  | WrapError string go_error
  | WrapPair go_error string go_error
  | JoinError "go_error list"
  | ContextCanceled
  | ContextDeadlineExceeded

type_synonym 'a result = "go_error + 'a"

text \<open>The text \<open>Error()\<close> gives; \<open>JoinError\<close> separates with newlines.\<close>

fun error_text :: "go_error \<Rightarrow> string" where
  "error_text (TalonError c nc op msg cause t h) =
     (if op = '''' then msg else op @ '': '' @ msg)"
| "error_text (ErrorString s) = s"
| "error_text (WrapError s e) = s @ error_text e"
| "error_text (WrapPair a s b) = error_text a @ s @ error_text b"
| "error_text (JoinError es) =
     (case map error_text es of [] \<Rightarrow> [] | x # xs \<Rightarrow> x @ concat (map (\<lambda>y. CHR 0x0A # y) xs))"
| "error_text ContextCanceled = ''context canceled''"
| "error_text ContextDeadlineExceeded = ''context deadline exceeded''"

text \<open>
  \<open>errors.As(err, &target)\<close> for a \<open>*TalonError\<close> target: the first envelope found walking the
  \<open>Unwrap\<close> tree depth first. An envelope stops the search.
\<close>

fun first_some :: "'a option list \<Rightarrow> 'a option" where
  "first_some [] = None"
| "first_some (Some x # xs) = Some x"
| "first_some (None # xs) = first_some xs"

fun errors_as :: "go_error \<Rightarrow> go_error option" where
  "errors_as (TalonError c nc op msg cause t h) = Some (TalonError c nc op msg cause t h)"
| "errors_as (ErrorString s) = None"
| "errors_as (WrapError s e) = errors_as e"
| "errors_as (WrapPair a s b) = (case errors_as a of Some t \<Rightarrow> Some t | None \<Rightarrow> errors_as b)"
| "errors_as (JoinError es) = first_some (map errors_as es)"
| "errors_as ContextCanceled = None"
| "errors_as ContextDeadlineExceeded = None"

definition ErrorCodeOf :: "go_error \<Rightarrow> ErrorCode" where
  "ErrorCodeOf e = (case errors_as e of Some t \<Rightarrow> Code t | None \<Rightarrow> CodeNone)"

definition NativeCodeOf :: "go_error \<Rightarrow> string" where
  "NativeCodeOf e = (case errors_as e of Some t \<Rightarrow> NativeCode t | None \<Rightarrow> '''')"

text \<open>
  \<open>errors.Is(err, &TalonError{Code: c})\<close>: some envelope of the whole tree, causes included,
  carries the non-empty code (method \<open>Is\<close>).
\<close>

fun errors_is_code :: "ErrorCode \<Rightarrow> go_error \<Rightarrow> bool" where
  "errors_is_code c (TalonError c' nc op msg cause t h) =
     ((c \<noteq> CodeNone \<and> c' = c) \<or> (case cause of None \<Rightarrow> False | Some e \<Rightarrow> errors_is_code c e))"
| "errors_is_code c (ErrorString s) = False"
| "errors_is_code c (WrapError s e) = errors_is_code c e"
| "errors_is_code c (WrapPair a s b) = (errors_is_code c a \<or> errors_is_code c b)"
| "errors_is_code c (JoinError es) = list_ex (errors_is_code c) es"
| "errors_is_code c ContextCanceled = False"
| "errors_is_code c ContextDeadlineExceeded = False"

definition newError :: "ErrorCode \<Rightarrow> string \<Rightarrow> string \<Rightarrow> go_error option \<Rightarrow> go_error" where
  "newError code operation message cause = TalonError code '''' operation message cause None None"

text \<open>\<^verbatim>\<open>^[a-z][a-z0-9_]{0,63}$\<close>.\<close>

definition nativeCodePattern :: "string \<Rightarrow> bool" where
  "nativeCodePattern s =
     (case s of [] \<Rightarrow> False
      | c # cs \<Rightarrow> is_lower c \<and> length cs \<le> 63
          \<and> list_all (\<lambda>x. is_lower x \<or> is_digit x \<or> x = CHR ''_'') cs)"

text \<open>The \<open>switch\<close> of \<open>newNativeError\<close> in the cgo-free package, in source order.\<close>

definition native_code_table :: "(string \<times> ErrorCode) list" where
  "native_code_table = [
      (''uncertain'', CodeResultIndeterminate),
      (''conflict'', CodeNativeConflict),
      (''not_found'', CodeNativeNotFound),
      (''not_leader'', CodeNativeNotLeader),
      (''no_quorum'', CodeNativeNoQuorum),
      (''unavailable'', CodeNativeUnavailable),
      (''fenced'', CodeNativeFenced),
      (''timeout'', CodeNativeTimeout),
      (''persistence_failed'', CodeNativePersistence),
      (''snapshot_not_available'', CodeSnapshotNotAvailable),
      (''corrupt_stream'', CodeCorruptStream),
      (''unsupported_version'', CodeNativeUnsupportedVersion),
      (''invalid_namespace'', CodeNativeInvalidNamespace),
      (''invalid_request'', CodeNativeInvalidRequest),
      (''request_too_large'', CodeNativeRequestTooLarge),
      (''result_too_large'', CodeNativeResultTooLarge),
      (''cursor_mismatch'', CodeNativeCursorMismatch),
      (''cursor_unavailable'', CodeNativeCursorUnavailable),
      (''resource_exhausted'', CodeNativeResourceExhausted),
      (''corrupt_state'', CodeNativeCorruptState),
      (''storage_error'', CodeNativeStorage),
      (''unsupported_action'', CodeNativeUnsupportedAction),
      (''not_configured'', CodeNativeNotConfigured),
      (''decimal_out_of_range'', CodeNativeDecimalOutOfRange)]"

text \<open>The root package's own \<open>switch\<close>, which knows two more machine codes.\<close>

definition root_code_table :: "(string \<times> ErrorCode) list" where
  "root_code_table = [
      (''uncertain'', CodeResultIndeterminate),
      (''result_indeterminate'', CodeResultIndeterminate),
      (''conflict'', CodeNativeConflict),
      (''not_found'', CodeNativeNotFound),
      (''not_leader'', CodeNativeNotLeader),
      (''no_quorum'', CodeNativeNoQuorum),
      (''unavailable'', CodeNativeUnavailable),
      (''fenced'', CodeNativeFenced),
      (''timeout'', CodeNativeTimeout),
      (''deadline_exceeded'', CodeNativeTimeout),
      (''persistence_failed'', CodeNativePersistence),
      (''snapshot_not_available'', CodeSnapshotNotAvailable),
      (''corrupt_stream'', CodeCorruptStream),
      (''unsupported_version'', CodeNativeUnsupportedVersion),
      (''invalid_namespace'', CodeNativeInvalidNamespace),
      (''invalid_request'', CodeNativeInvalidRequest),
      (''request_too_large'', CodeNativeRequestTooLarge),
      (''result_too_large'', CodeNativeResultTooLarge),
      (''cursor_mismatch'', CodeNativeCursorMismatch),
      (''cursor_unavailable'', CodeNativeCursorUnavailable),
      (''resource_exhausted'', CodeNativeResourceExhausted),
      (''corrupt_state'', CodeNativeCorruptState),
      (''storage_error'', CodeNativeStorage),
      (''unsupported_action'', CodeNativeUnsupportedAction),
      (''not_configured'', CodeNativeNotConfigured),
      (''decimal_out_of_range'', CodeNativeDecimalOutOfRange)]"

definition classify :: "(string \<times> ErrorCode) list \<Rightarrow> string \<Rightarrow> ErrorCode" where
  "classify table nativeCode =
     (case map_of table nativeCode of Some c \<Rightarrow> c | None \<Rightarrow> CodeNativeUnclassified)"

definition native_error_with :: "(string \<times> ErrorCode) list \<Rightarrow> string \<Rightarrow> string \<Rightarrow> string \<Rightarrow> go_error" where
  "native_error_with table operation message nativeCode =
     (if nativeCode \<noteq> '''' \<and> \<not> nativeCodePattern nativeCode
      then TalonError CodeProtocolViolation '''' operation
             ''native returned an invalid machine error code'' (Some (ErrorString message)) None None
      else TalonError (classify table nativeCode) nativeCode operation message None None None)"

definition server_newNativeError :: "string \<Rightarrow> string \<Rightarrow> string \<Rightarrow> go_error" where
  "server_newNativeError = native_error_with native_code_table"

definition newNativeError :: "string \<Rightarrow> string \<Rightarrow> string \<Rightarrow> go_error" where
  "newNativeError = native_error_with root_code_table"

text \<open>
  \<open>newNativeResponseError\<close> attaches the routing metadata to the envelope \<open>errors.As\<close> finds,
  which is the error itself.
\<close>

definition attach_routing :: "go_error \<Rightarrow> uint64 option \<Rightarrow> NativeLeaderHint option \<Rightarrow> go_error" where
  "attach_routing e term hint =
     (case e of
        TalonError c nc op msg cause t h \<Rightarrow>
          TalonError c nc op msg cause (if term = None then t else term) (if hint = None then h else hint)
      | _ \<Rightarrow> e)"

definition server_newNativeResponseError ::
    "string \<Rightarrow> string \<Rightarrow> string \<Rightarrow> uint64 option \<Rightarrow> NativeLeaderHint option \<Rightarrow> go_error" where
  "server_newNativeResponseError operation message nativeCode term hint =
     attach_routing (server_newNativeError operation message nativeCode) term hint"

definition newNativeResponseError ::
    "string \<Rightarrow> string \<Rightarrow> string \<Rightarrow> uint64 option \<Rightarrow> NativeLeaderHint option \<Rightarrow> go_error" where
  "newNativeResponseError operation message nativeCode term hint =
     attach_routing (newNativeError operation message nativeCode) term hint"

section \<open>Facts\<close>

text \<open>The stable texts tell the codes apart.\<close>

lemma code_text_inject: "code_text a = code_text b \<Longrightarrow> a = b"
  by (cases a; cases b; simp)

lemma ErrorCodeOf_newError [simp]: "ErrorCodeOf (newError c op msg cause) = c"
  by (simp add: ErrorCodeOf_def newError_def)

lemma errors_is_newError [simp]:
  "errors_is_code c (newError c' op msg cause) \<longleftrightarrow>
     (c \<noteq> CodeNone \<and> c' = c) \<or> (case cause of None \<Rightarrow> False | Some e \<Rightarrow> errors_is_code c e)"
  by (simp add: newError_def)

lemma first_some_Some: "first_some xs = Some y \<Longrightarrow> Some y \<in> set xs"
  by (induction xs rule: first_some.induct) auto

text \<open>What \<open>ErrorCodeOf\<close> reports can always be matched with \<open>errors.Is\<close>.\<close>

lemma errors_as_is_code:
  "errors_as e = Some t \<Longrightarrow> Code t \<noteq> CodeNone \<Longrightarrow> errors_is_code (Code t) e"
proof (induction e rule: errors_as.induct)
  case (5 es)
  then have "Some t \<in> set (map errors_as es)"
    by (intro first_some_Some) simp
  then obtain x where x: "x \<in> set es" "errors_as x = Some t"
    by auto
  then have "errors_is_code (Code t) x"
    using 5 by blast
  then show ?case
    using x(1) by (auto simp: list_ex_iff)
qed (auto split: option.splits)

section \<open>Early returns\<close>

text \<open>A step that returned a value: the steps before it did, and the guards before it did not fire.\<close>

lemma bind_InrE:
  assumes "(case r of Inl e \<Rightarrow> Inl (f e) | Inr x \<Rightarrow> k x) = Inr z"
  obtains x where "r = Inr x" "k x = Inr z"
  using assms by (cases r) auto

lemma guard_InrE:
  assumes "(if c then Inl e else k) = Inr z"
  obtains "\<not> c" "k = Inr z"
  using assms by (auto split: if_splits)

lemma option_InrE:
  assumes "(case v of None \<Rightarrow> Inl e | Some x \<Rightarrow> k x) = Inr z"
  obtains x where "v = Some x" "k x = Inr z"
  using assms by (cases v) auto

lemmas result_elims = bind_InrE guard_InrE option_InrE

lemma bind_unit_iff: "(case r of Inl e \<Rightarrow> Inl (f e) | Inr (_ :: unit) \<Rightarrow> s) = Inr () \<longleftrightarrow> r = Inr () \<and> s = Inr ()"
  by (cases r) simp_all

end
