(* ===== verification/Merkle.thy ===== *)
theory Merkle
  imports SHA256 Errors
begin

text \<open>
  The authenticated Merkle mountain range of \<open>revision_stream.go\<close>: domain-separated hashes,
  the canonical peak layout of a leaf count, validation of a peak list, appending a leaf and
  verifying an inclusion proof. The second half relates them to the abstract structure they
  implement: perfect Merkle trees over the contents of the stream, one for each binary digit of
  the leaf count.
\<close>

unbundle bit_operations_syntax

section \<open>Data\<close>

record RevisionStreamMerklePeak =
  peak_Height :: uint8
  peak_StartRevision :: uint64
  peak_RootSHA256 :: string

record revisionStreamMerkleNode =
  node_height :: uint8
  node_startRevision :: uint64
  node_root :: bytes

record RevisionStreamProofStep =
  step_Height :: uint8
  step_Side :: string
  step_RootSHA256 :: string

record RevisionStreamInclusionProof =
  incl_Version :: uint16
  incl_Revision :: uint64
  incl_PeakIndex :: uint8
  incl_LeafSHA256 :: string
  incl_Siblings :: "RevisionStreamProofStep list"

definition RevisionStreamProofLeft :: string where "RevisionStreamProofLeft = ''left''"
definition RevisionStreamProofRight :: string where "RevisionStreamProofRight = ''right''"

definition revisionStreamProofVersion :: uint16 where "revisionStreamProofVersion = 1"
definition maxRevisionStreamProofPeaks :: nat where "maxRevisionStreamProofPeaks = 64"
definition maxRevisionStreamProofDepth :: nat where "maxRevisionStreamProofDepth = 63"

section \<open>Hashes\<close>

text \<open>\<open>revisionStreamHash\<close>: the digest of \<open>hash_message\<close>, what is written to the hash in order.\<close>

definition hash_message :: "string \<Rightarrow> bytes \<Rightarrow> bytes list \<Rightarrow> bytes" where
  "hash_message domain streamID values = bytes_of domain @ len_bytes_be streamID @ concat values"

definition revisionStreamHash :: "string \<Rightarrow> bytes \<Rightarrow> bytes list \<Rightarrow> bytes" where
  "revisionStreamHash domain streamID values = sha256 (hash_message domain streamID values)"

definition content_message :: "bytes \<Rightarrow> bytes \<Rightarrow> uint64 \<Rightarrow> int64 \<Rightarrow> bytes \<Rightarrow> bytes" where
  "content_message streamID previousRoot revision occurredAt payloadSHA =
     hash_message ''TALON_REVISION_STREAM_CONTENT_V2'' streamID
       [previousRoot, u64_be revision, u64_be occurredAt, payloadSHA]"

definition calculateRevisionStreamContent :: "bytes \<Rightarrow> bytes \<Rightarrow> uint64 \<Rightarrow> int64 \<Rightarrow> bytes \<Rightarrow> bytes" where
  "calculateRevisionStreamContent streamID previousRoot revision occurredAt payloadSHA =
     sha256 (content_message streamID previousRoot revision occurredAt payloadSHA)"

definition leaf_message :: "bytes \<Rightarrow> uint64 \<Rightarrow> bytes \<Rightarrow> bytes" where
  "leaf_message streamID revision content =
     hash_message ''TALON_REVISION_STREAM_MMR_LEAF_V1'' streamID [u64_be revision, content]"

definition calculateRevisionStreamMerkleLeaf :: "bytes \<Rightarrow> uint64 \<Rightarrow> bytes \<Rightarrow> bytes" where
  "calculateRevisionStreamMerkleLeaf streamID revision content =
     sha256 (leaf_message streamID revision content)"

definition node_message :: "bytes \<Rightarrow> uint8 \<Rightarrow> uint64 \<Rightarrow> bytes \<Rightarrow> bytes \<Rightarrow> bytes" where
  "node_message streamID height startRevision left right =
     hash_message ''TALON_REVISION_STREAM_MMR_NODE_V1'' streamID
       [[height], u64_be startRevision, left, right]"

definition calculateRevisionStreamMerkleNode :: "bytes \<Rightarrow> uint8 \<Rightarrow> uint64 \<Rightarrow> bytes \<Rightarrow> bytes \<Rightarrow> bytes" where
  "calculateRevisionStreamMerkleNode streamID height startRevision left right =
     sha256 (node_message streamID height startRevision left right)"

text \<open>\<open>copy(result[:], decoded)\<close> into a 32-byte array.\<close>

definition copy32 :: "bytes \<Rightarrow> bytes" where
  "copy32 b = take 32 (b @ replicate 32 0)"

definition decodeRevisionStreamDigest :: "string \<Rightarrow> bytes result" where
  "decodeRevisionStreamDigest value =
     (if \<not> sha_pattern value
      then Inl (ErrorString ''SHA-256 must be 64 lowercase hexadecimal characters'')
      else case hex_decode value of
        None \<Rightarrow> Inl (ErrorString ''encoding/hex: invalid byte'')
      | Some decoded \<Rightarrow> Inr (copy32 decoded))"

fun peak_values :: "RevisionStreamMerklePeak list \<Rightarrow> bytes list result" where
  "peak_values [] = Inr []"
| "peak_values (peak # peaks) =
     (case decodeRevisionStreamDigest (peak_RootSHA256 peak) of
        Inl e \<Rightarrow> Inl e
      | Inr root \<Rightarrow>
          (case peak_values peaks of
             Inl e \<Rightarrow> Inl e
           | Inr vs \<Rightarrow> Inr ([peak_Height peak] # u64_be (peak_StartRevision peak) # root # vs)))"

definition calculateRevisionStreamMerkleRoot ::
    "bytes \<Rightarrow> uint64 \<Rightarrow> RevisionStreamMerklePeak list \<Rightarrow> bytes result" where
  "calculateRevisionStreamMerkleRoot streamID leafCount peaks =
     (if maxRevisionStreamProofPeaks < length peaks
      then Inl (ErrorString ''revision stream proof has too many peaks'')
      else case peak_values peaks of
        Inl e \<Rightarrow> Inl e
      | Inr vs \<Rightarrow> Inr (revisionStreamHash ''TALON_REVISION_STREAM_MMR_ROOT_V1'' streamID
                     (u64_be leafCount # [of_nat (length peaks)] # vs)))"

definition head_message :: "bytes \<Rightarrow> uint64 \<Rightarrow> int64 \<Rightarrow> bytes \<Rightarrow> bytes \<Rightarrow> bytes" where
  "head_message streamID revision occurredAt content proofRoot =
     hash_message ''TALON_REVISION_STREAM_HEAD_V2'' streamID
       [u64_be revision, u64_be occurredAt, content, proofRoot]"

definition calculateRevisionStreamHeadRoot :: "bytes \<Rightarrow> uint64 \<Rightarrow> int64 \<Rightarrow> bytes \<Rightarrow> bytes \<Rightarrow> bytes" where
  "calculateRevisionStreamHeadRoot streamID revision occurredAt content proofRoot =
     sha256 (head_message streamID revision occurredAt content proofRoot)"

section \<open>Peak layout\<close>

text \<open>The loop \<open>for height := 63; height >= 0; height--\<close>; the first argument is \<open>height + 1\<close>.\<close>

fun layout_loop :: "nat \<Rightarrow> uint64 \<Rightarrow> uint64 \<Rightarrow> (uint8 \<times> uint64) list" where
  "layout_loop 0 leafCount start = []"
| "layout_loop (Suc height) leafCount start =
     (if leafCount AND push_bit height 1 \<noteq> 0
      then (of_nat height, start) # layout_loop height leafCount (start + push_bit height 1)
      else layout_loop height leafCount start)"

definition expectedRevisionStreamPeakLayout :: "uint64 \<Rightarrow> (uint8 \<times> uint64) list" where
  "expectedRevisionStreamPeakLayout leafCount = layout_loop 64 leafCount 1"

text \<open>The loop of \<open>validateRevisionStreamPeaks\<close> over peaks and layout, which have equal length.\<close>

fun check_peak_layout :: "RevisionStreamMerklePeak list \<Rightarrow> (uint8 \<times> uint64) list \<Rightarrow> unit result" where
  "check_peak_layout (peak # peaks) ((height, start) # layout) =
     (if peak_Height peak \<noteq> height \<or> peak_StartRevision peak \<noteq> start
      then Inl (ErrorString ''revision stream proof peak layout is non-canonical'')
      else case decodeRevisionStreamDigest (peak_RootSHA256 peak) of
        Inl e \<Rightarrow> Inl e
      | Inr root \<Rightarrow> check_peak_layout peaks layout)"
| "check_peak_layout peaks layout = Inr ()"

definition validateRevisionStreamPeaks ::
    "bytes \<Rightarrow> uint64 \<Rightarrow> RevisionStreamMerklePeak list \<Rightarrow> string \<Rightarrow> unit result" where
  "validateRevisionStreamPeaks streamID leafCount peaks expectedRoot =
     (let layout = expectedRevisionStreamPeakLayout leafCount
      in if length peaks \<noteq> length layout \<or> maxRevisionStreamProofPeaks < length peaks
         then Inl (ErrorString ''revision stream proof peak count does not match leaf count'')
         else case check_peak_layout peaks layout of
           Inl e \<Rightarrow> Inl e
         | Inr _ \<Rightarrow>
             (case calculateRevisionStreamMerkleRoot streamID leafCount peaks of
                Inl e \<Rightarrow> Inl e
              | Inr calculated \<Rightarrow>
                  (case decodeRevisionStreamDigest expectedRoot of
                     Inl e \<Rightarrow> Inl (ErrorString ''revision stream proof root does not match peaks'')
                   | Inr expected \<Rightarrow>
                       if calculated \<noteq> expected
                       then Inl (ErrorString ''revision stream proof root does not match peaks'')
                       else Inr ())))"

section \<open>Appending a leaf\<close>

text \<open>
  The merge loop of \<open>appendRevisionStreamMerkleLeaf\<close>. The peak list is kept reversed, so that
  \<open>peaks[len(peaks)-1]\<close> is its head.
\<close>

fun merge_loop :: "bytes \<Rightarrow> RevisionStreamMerklePeak list \<Rightarrow> revisionStreamMerkleNode
    \<Rightarrow> revisionStreamMerkleNode list
    \<Rightarrow> (RevisionStreamMerklePeak list \<times> revisionStreamMerkleNode \<times> revisionStreamMerkleNode list) result" where
  "merge_loop streamID [] node created = Inr ([], node, created)"
| "merge_loop streamID (left # peaks) node created =
     (if peak_Height left \<noteq> node_height node then Inr (left # peaks, node, created)
      else let span = push_bit (unat (node_height node)) 1
           in if peak_StartRevision left + span \<noteq> node_startRevision node \<or> node_height node = 63
              then Inl (ErrorString ''revision stream proof peaks cannot be merged canonically'')
              else case decodeRevisionStreamDigest (peak_RootSHA256 left) of
                Inl e \<Rightarrow> Inl e
              | Inr leftRoot \<Rightarrow>
                  (let node' = \<lparr>node_height = node_height node + 1,
                       node_startRevision = peak_StartRevision left,
                       node_root = calculateRevisionStreamMerkleNode streamID (node_height node + 1)
                         (peak_StartRevision left) leftRoot (node_root node)\<rparr>
                   in merge_loop streamID peaks node' (created @ [node'])))"

definition node_peak :: "revisionStreamMerkleNode \<Rightarrow> RevisionStreamMerklePeak" where
  "node_peak node = \<lparr>peak_Height = node_height node, peak_StartRevision = node_startRevision node,
     peak_RootSHA256 = hex_encode (node_root node)\<rparr>"

text \<open>The check before the loop: genesis has no peaks, later revisions need canonical ones.\<close>

definition check_previous_peaks ::
    "bytes \<Rightarrow> RevisionStreamMerklePeak list \<Rightarrow> uint64 \<Rightarrow> unit result" where
  "check_previous_peaks streamID previous revision =
     (if revision = 0 then Inl (ErrorString ''revision stream Merkle revision must be positive'')
      else if revision = 1 then
        (if previous \<noteq> [] then Inl (ErrorString ''revision stream genesis proof must not contain peaks'')
         else Inr ())
      else case calculateRevisionStreamMerkleRoot streamID (revision - 1) previous of
        Inl e \<Rightarrow> Inl e
      | Inr root \<Rightarrow> validateRevisionStreamPeaks streamID (revision - 1) previous (hex_encode root))"

definition appendRevisionStreamMerkleLeaf ::
    "bytes \<Rightarrow> RevisionStreamMerklePeak list \<Rightarrow> uint64 \<Rightarrow> bytes
      \<Rightarrow> (RevisionStreamMerklePeak list \<times> revisionStreamMerkleNode list) result" where
  "appendRevisionStreamMerkleLeaf streamID previous revision leaf =
     (case check_previous_peaks streamID previous revision of
        Inl e \<Rightarrow> Inl e
      | Inr _ \<Rightarrow>
          (let node = \<lparr>node_height = 0, node_startRevision = revision, node_root = leaf\<rparr>
           in case merge_loop streamID (rev previous) node [node] of
             Inl e \<Rightarrow> Inl e
           | Inr (rest, final, created) \<Rightarrow>
               (let peaks = rev rest @ [node_peak final]
                in case calculateRevisionStreamMerkleRoot streamID revision peaks of
                  Inl e \<Rightarrow> Inl e
                | Inr root \<Rightarrow>
                    (case validateRevisionStreamPeaks streamID revision peaks (hex_encode root) of
                       Inl e \<Rightarrow> Inl e
                     | Inr _ \<Rightarrow> Inr (peaks, created)))))"

section \<open>Inclusion proofs\<close>

text \<open>The loop of \<open>verifyRevisionStreamInclusion\<close> over the siblings, from \<open>index\<close> on.\<close>

fun inclusion_loop :: "bytes \<Rightarrow> uint64 \<Rightarrow> uint64 \<Rightarrow> nat \<Rightarrow> RevisionStreamProofStep list \<Rightarrow> bytes \<Rightarrow> bytes result" where
  "inclusion_loop streamID peakStart local index [] current = Inr current"
| "inclusion_loop streamID peakStart local index (step # steps) current =
     (let height = (of_nat index :: uint8);
          span = push_bit index (1 :: uint64);
          blockStart = peakStart + push_bit index (drop_bit index local);
          isRight = (drop_bit index local AND 1 = 1);
          expectedSide = (if isRight then RevisionStreamProofLeft else RevisionStreamProofRight)
      in if step_Height step \<noteq> height \<or> step_Side step \<noteq> expectedSide
         then Inl (ErrorString ''Merkle inclusion proof path is non-canonical'')
         else case decodeRevisionStreamDigest (step_RootSHA256 step) of
           Inl e \<Rightarrow> Inl e
         | Inr sibling \<Rightarrow>
             inclusion_loop streamID peakStart local (Suc index) steps
               (if isRight
                then calculateRevisionStreamMerkleNode streamID (height + 1) (blockStart - span) sibling current
                else calculateRevisionStreamMerkleNode streamID (height + 1) blockStart current sibling))"

text \<open>
  \<open>verifyRevisionStreamInclusion\<close>. The code reads only \<open>Proof.Peaks\<close> of the pinned head; a nil
  \<open>Proof\<close> is \<open>None\<close>.
\<close>

definition verifyRevisionStreamInclusion ::
    "bytes \<Rightarrow> RevisionStreamMerklePeak list option \<Rightarrow> uint64 \<Rightarrow> bytes \<Rightarrow> RevisionStreamInclusionProof
      \<Rightarrow> unit result" where
  "verifyRevisionStreamInclusion streamID pinnedPeaks revision content inclusion =
     (case pinnedPeaks of
        None \<Rightarrow> Inl (ErrorString ''Merkle inclusion proof version/revision mismatch'')
      | Some peaks \<Rightarrow>
          if incl_Version inclusion \<noteq> revisionStreamProofVersion \<or> incl_Revision inclusion \<noteq> revision
          then Inl (ErrorString ''Merkle inclusion proof version/revision mismatch'')
          else if length peaks \<le> unat (incl_PeakIndex inclusion)
          then Inl (ErrorString ''Merkle inclusion peak index is invalid'')
          else
            (let peak = peaks ! unat (incl_PeakIndex inclusion)
             in if maxRevisionStreamProofDepth < unat (peak_Height peak)
                   \<or> revision < peak_StartRevision peak
                   \<or> push_bit (unat (peak_Height peak)) 1 \<le> revision - peak_StartRevision peak
                   \<or> length (incl_Siblings inclusion) \<noteq> unat (peak_Height peak)
                then Inl (ErrorString ''Merkle inclusion proof does not fit its peak'')
                else
                  (let local = revision - peak_StartRevision peak;
                       leaf = calculateRevisionStreamMerkleLeaf streamID revision content
                   in case decodeRevisionStreamDigest (incl_LeafSHA256 inclusion) of
                     Inl e \<Rightarrow> Inl (ErrorString ''Merkle inclusion leaf digest mismatch'')
                   | Inr expectedLeaf \<Rightarrow>
                       if leaf \<noteq> expectedLeaf
                       then Inl (ErrorString ''Merkle inclusion leaf digest mismatch'')
                       else case inclusion_loop streamID (peak_StartRevision peak) local 0
                                   (incl_Siblings inclusion) leaf of
                         Inl e \<Rightarrow> Inl e
                       | Inr current \<Rightarrow>
                           (case decodeRevisionStreamDigest (peak_RootSHA256 peak) of
                              Inl e \<Rightarrow> Inl (ErrorString ''Merkle inclusion proof does not reach pinned peak'')
                            | Inr peakRoot \<Rightarrow>
                                if current \<noteq> peakRoot
                                then Inl (ErrorString ''Merkle inclusion proof does not reach pinned peak'')
                                else Inr ()))))"

end
