(* ===== verification/MerkleRange.thy ===== *)
theory MerkleRange
  imports Merkle
begin

text \<open>
  What the routines of \<open>Merkle\<close> implement. Over the contents of a stream (a function from
  revisions to content digests) \<open>subtree\<close> is the root of a perfect Merkle tree and
  \<open>mountain_range\<close> the peak list of a leaf count: one tree for each binary digit of the count. The
  lemmas give the peak layout in closed form, show that appending a leaf is binary increment on
  that layout, and that verification accepts the honest inclusion proofs and, up to an explicit
  SHA-256 collision, nothing else.
\<close>

unbundle bit_operations_syntax

section \<open>Digests\<close>

lemma digest_hex_encode [simp]:
  "length b = 32 \<Longrightarrow> decodeRevisionStreamDigest (hex_encode b) = Inr b"
  by (simp add: decodeRevisionStreamDigest_def copy32_def)

lemma digest_Inr:
  "decodeRevisionStreamDigest s = Inr b \<longleftrightarrow> length b = 32 \<and> s = hex_encode b"
proof
  assume *: "decodeRevisionStreamDigest s = Inr b"
  then have "sha_pattern s" by (simp add: decodeRevisionStreamDigest_def split: if_splits)
  then obtain d where "length d = 32" "s = hex_encode d" using sha_pattern_decode by metis
  with * show "length b = 32 \<and> s = hex_encode b" by simp
qed simp

lemma length_merkle_hashes [simp]:
  "length (calculateRevisionStreamMerkleLeaf sid r c) = 32"
  "length (calculateRevisionStreamMerkleNode sid h s a b) = 32"
  "length (calculateRevisionStreamContent sid p r t c) = 32"
  "length (calculateRevisionStreamHeadRoot sid r t c p) = 32"
  by (simp_all add: calculateRevisionStreamMerkleLeaf_def calculateRevisionStreamMerkleNode_def
      calculateRevisionStreamContent_def calculateRevisionStreamHeadRoot_def)

section \<open>The layout in closed form\<close>

text \<open>The heights of the peaks over \<open>n\<close> leaves, and the first leaf below the peak at a height.\<close>

definition peak_heights :: "nat \<Rightarrow> nat list" where
  "peak_heights n = filter (bit n) (rev [0..<64])"

definition tree_start :: "nat \<Rightarrow> nat \<Rightarrow> nat" where
  "tree_start n h = 2 ^ Suc h * (n div 2 ^ Suc h) + 1"

lemma nat_div_bit_step:
  "(n :: nat) div 2 ^ h = 2 * (n div 2 ^ Suc h) + of_bool (bit n h)"
proof -
  have "n div 2 ^ Suc h = n div 2 ^ h div 2" by (simp only: power_Suc2 div_mult2_eq)
  moreover have "bit n h \<longleftrightarrow> odd (n div 2 ^ h)" by (simp add: bit_iff_odd)
  ultimately show ?thesis by (cases "odd (n div 2 ^ h)") (auto elim!: oddE evenE)
qed

lemma tree_start_next:
  "2 ^ h * (n div 2 ^ h) + 1 = tree_start n h + (if bit n h then 2 ^ h else 0)"
  by (subst nat_div_bit_step) (simp add: tree_start_def algebra_simps)

lemma uint64_test_bit:
  "(of_nat n :: uint64) AND 2 ^ h = 0 \<longleftrightarrow> \<not> (h < 64 \<and> bit n h)"
  by (simp add: and_exp_eq_0_iff_not_bit bit_of_nat_iff exp_eq_zero_iff not_less)

lemma layout_loop_closed:
  "h \<le> 64 \<Longrightarrow>
   layout_loop h (of_nat n) (of_nat (2 ^ h * (n div 2 ^ h) + 1)) =
     map (\<lambda>k. (of_nat k, of_nat (tree_start n k))) (filter (bit n) (rev [0..<h]))"
proof (induction h)
  case (Suc h)
  have s: "2 ^ Suc h * (n div 2 ^ Suc h) + 1 = tree_start n h" by (simp add: tree_start_def)
  have p: "(of_nat (tree_start n h) :: uint64) + 2 ^ h = of_nat (tree_start n h + 2 ^ h)" by simp
  have "layout_loop h (of_nat n) (of_nat (tree_start n h + (if bit n h then 2 ^ h else 0))) =
      map (\<lambda>k. (of_nat k, of_nat (tree_start n k))) (filter (bit n) (rev [0..<h]))"
    using Suc by (simp only: tree_start_next [symmetric] Suc_leD)
  then show ?case
    using Suc.prems unfolding s by (cases "bit n h") (simp_all add: uint64_test_bit p del: of_nat_add)
qed simp

lemma layout_closed:
  "n < 2 ^ 64 \<Longrightarrow> expectedRevisionStreamPeakLayout (of_nat n) =
     map (\<lambda>k. (of_nat k, of_nat (tree_start n k))) (peak_heights n)"
  using layout_loop_closed [of 64 n] by (simp add: expectedRevisionStreamPeakLayout_def peak_heights_def)

lemma length_peak_heights: "length (peak_heights n) \<le> 64"
  using length_filter_le [of "bit n" "rev [0..<64]"] by (simp add: peak_heights_def)

section \<open>Binary increment\<close>

text \<open>Appending leaf \<open>n + 1\<close> merges as many peaks as \<open>n\<close> has trailing ones.\<close>

function trailing_ones :: "nat \<Rightarrow> nat" where
  "trailing_ones n = (if odd n then Suc (trailing_ones (n div 2)) else 0)"
  by auto
termination by (relation "measure id") (auto elim: oddE)

declare trailing_ones.simps [simp del]

lemma trailing_ones_split:
  "n + 1 = 2 ^ trailing_ones n * (2 * (n div 2 ^ Suc (trailing_ones n)) + 1)"
proof (induction n rule: trailing_ones.induct)
  case (1 n)
  show ?case
  proof (cases "odd n")
    case True
    let ?t = "trailing_ones (n div 2)"
    have "n + 1 = 2 * (n div 2 + 1)" using True by (auto elim!: oddE)
    also have "n div 2 + 1 = 2 ^ ?t * (2 * (n div 2 div 2 ^ Suc ?t) + 1)" using 1 True by blast
    finally show ?thesis
      using True by (subst (1 2) trailing_ones.simps) (simp add: div_mult2_eq mult.assoc flip: div_mult2_eq [of n 2 2, simplified])
  qed (simp add: trailing_ones.simps [of n])
qed

lemma div_pow_split: "j \<le> t \<Longrightarrow> (2 :: nat) ^ t * a div 2 ^ j = 2 ^ (t - j) * a"
  by (simp add: power_diff dvd_div_mult le_imp_power_dvd)

lemma div_pow_pred:
  assumes "j \<le> t" "0 < a" "n + 1 = 2 ^ t * a"
  shows "n div 2 ^ j = 2 ^ (t - j) * a - (1 :: nat)"
proof (rule div_nat_eqI)
  let ?b = "2 ^ (t - j) * a"
  have e: "2 ^ j * ?b = n + 1"
    using assms(1,3) by (simp flip: power_add mult.assoc)
  have "1 \<le> (2 :: nat) ^ j" by simp
  then show "2 ^ j * (?b - 1) \<le> n" unfolding diff_mult_distrib2 e by linarith
  show "n < 2 ^ j * Suc (?b - 1)" using e assms(2) by (simp add: Suc_diff_1)
qed

lemma trailing_ones_bits:
  fixes n :: nat
  defines "t \<equiv> trailing_ones n"
  shows "j < t \<Longrightarrow> bit n j" and "\<not> bit n t" and "\<not> (j < t \<and> bit (n + 1) j)" and "bit (n + 1) t"
proof -
  let ?a = "2 * (n div 2 ^ Suc t) + 1"
  have s: "n + 1 = 2 ^ t * ?a" unfolding t_def by (rule trailing_ones_split)
  show "bit n j" if "j < t"
  proof -
    have "n div 2 ^ j = 2 ^ (t - j) * ?a - 1" using that s by (intro div_pow_pred) auto
    moreover have "even (2 ^ (t - j) * ?a)" "0 < 2 ^ (t - j) * ?a" using that by auto
    ultimately show ?thesis by (simp add: bit_iff_odd del: mult_Suc_right)
  qed
  have "n div 2 ^ t = 2 ^ (t - t) * ?a - 1" using s by (intro div_pow_pred) auto
  then show "\<not> bit n t" by (simp add: bit_iff_odd)
  show "\<not> (j < t \<and> bit (n + 1) j)"
    using div_pow_split [of j t ?a] unfolding s by (auto simp: bit_iff_odd)
  show "bit (n + 1) t"
    using div_pow_split [of t t ?a] unfolding s by (simp add: bit_iff_odd)
qed

lemma trailing_ones_above:
  "trailing_ones n < h \<Longrightarrow> (n + 1) div 2 ^ h = n div 2 ^ h"
proof -
  assume h: "trailing_ones n < h"
  let ?t = "trailing_ones n"
  obtain d where d: "h = Suc ?t + d" using h less_iff_Suc_add by auto
  have "(n + 1) div 2 ^ Suc ?t = 2 ^ ?t * (2 * (n div 2 ^ Suc ?t) + 1) div (2 ^ ?t * 2)"
    by (subst trailing_ones_split) (simp add: mult.commute)
  also have "\<dots> = n div 2 ^ Suc ?t" by (subst div_mult_mult1) simp_all
  finally show ?thesis unfolding d power_add div_mult2_eq by simp
qed

lemma trailing_ones_bound: "n + 1 < 2 ^ 64 \<Longrightarrow> trailing_ones n \<le> 63"
proof (rule ccontr)
  assume "n + 1 < 2 ^ 64" "\<not> trailing_ones n \<le> 63"
  moreover have "2 ^ trailing_ones n \<le> n + 1"
    using trailing_ones_split [of n] by (metis le_add2 mult_le_mono2 nat_mult_1_right)
  moreover have "(2 :: nat) ^ 64 \<le> 2 ^ trailing_ones n" if "64 \<le> trailing_ones n"
    using that by (intro power_increasing) auto
  ultimately show False by simp
qed

lemma bit_increment:
  "bit (n + 1) h \<longleftrightarrow> h = trailing_ones n \<or> trailing_ones n < h \<and> bit n h" for n :: nat
  using trailing_ones_bits [of n] trailing_ones_bits(3) [of h n] trailing_ones_above [of n h]
  by (cases h "trailing_ones n" rule: linorder_cases) (auto simp: bit_iff_odd)

lemma ascending_heights_increment:
  assumes "n + 1 < 2 ^ 64"
  shows "filter (bit (n + 1)) [0..<64] = trailing_ones n # filter (bit n) [Suc (trailing_ones n)..<64]"
proof -
  let ?t = "trailing_ones n"
  have t: "?t < 64" using trailing_ones_bound [OF assms] by simp
  then have "[0..<64] = [0..<?t] @ ?t # [Suc ?t..<64]"
    by (metis le_add1 plus_nat.add_0 upt_add_eq_append upt_conv_Cons less_imp_le le_add_diff_inverse)
  moreover have "filter (bit (n + 1)) [0..<?t] = []" using trailing_ones_bits(3) [of _ n] by (auto simp: filter_empty_conv)
  moreover have "filter (bit (n + 1)) [Suc ?t..<64] = filter (bit n) [Suc ?t..<64]"
    by (intro filter_cong) (auto simp: bit_increment simp del: add_Suc_right Suc_eq_plus1_left One_nat_def)
  ultimately show ?thesis using trailing_ones_bits(4) [of n] by simp
qed

section \<open>Canonical peak lists\<close>

definition canonical_peaks :: "uint64 \<Rightarrow> RevisionStreamMerklePeak list \<Rightarrow> bool" where
  "canonical_peaks leafCount peaks \<longleftrightarrow>
     map (\<lambda>p. (peak_Height p, peak_StartRevision p)) peaks = expectedRevisionStreamPeakLayout leafCount
     \<and> list_all (\<lambda>p. sha_pattern (peak_RootSHA256 p)) peaks"

lemma sha_pattern_digest: "sha_pattern s \<longleftrightarrow> (\<exists>b. decodeRevisionStreamDigest s = Inr b)"
  using sha_pattern_decode [of s] by (metis digest_Inr sha_pattern_hex_encode)

lemma check_peak_layout_iff:
  "length peaks = length layout \<Longrightarrow>
   check_peak_layout peaks layout = Inr () \<longleftrightarrow>
     map (\<lambda>p. (peak_Height p, peak_StartRevision p)) peaks = layout
     \<and> list_all (\<lambda>p. sha_pattern (peak_RootSHA256 p)) peaks"
proof (induction peaks layout rule: check_peak_layout.induct)
  case (1 peak peaks height start layout)
  then show ?case
    by (cases "decodeRevisionStreamDigest (peak_RootSHA256 peak)") (auto simp: sha_pattern_digest)
qed auto

lemma peak_values_iff:
  "(\<exists>vs. peak_values peaks = Inr vs) \<longleftrightarrow> list_all (\<lambda>p. sha_pattern (peak_RootSHA256 p)) peaks"
proof (induction peaks)
  case (Cons p ps)
  then show ?case
    by (cases "decodeRevisionStreamDigest (peak_RootSHA256 p)"; cases "peak_values ps")
      (auto simp: sha_pattern_digest)
qed simp

lemma root_iff:
  "(\<exists>r. calculateRevisionStreamMerkleRoot sid n peaks = Inr r) \<longleftrightarrow>
     length peaks \<le> 64 \<and> list_all (\<lambda>p. sha_pattern (peak_RootSHA256 p)) peaks"
  using peak_values_iff [of peaks]
  by (auto simp: calculateRevisionStreamMerkleRoot_def maxRevisionStreamProofPeaks_def split: sum.splits)

lemma length_root:
  "calculateRevisionStreamMerkleRoot sid n peaks = Inr r \<Longrightarrow> length r = 32"
  by (auto simp: calculateRevisionStreamMerkleRoot_def revisionStreamHash_def split: if_splits sum.splits)

lemma length_layout_loop: "length (layout_loop h n s) \<le> h"
  by (induction h n s rule: layout_loop.induct) (auto intro: le_SucI)

lemma canonical_length:
  assumes "canonical_peaks n peaks"
  shows "length peaks = length (expectedRevisionStreamPeakLayout n)" and "length peaks \<le> 64"
proof -
  show l: "length peaks = length (expectedRevisionStreamPeakLayout n)"
    using assms [unfolded canonical_peaks_def, THEN conjunct1, THEN arg_cong, of length] by simp
  show "length peaks \<le> 64"
    unfolding l expectedRevisionStreamPeakLayout_def by (rule length_layout_loop)
qed

lemma canonical_root:
  assumes "canonical_peaks n peaks"
  obtains r where "calculateRevisionStreamMerkleRoot sid m peaks = Inr r" "length r = 32"
  using assms canonical_length(2) [OF assms] root_iff [of sid m peaks] length_root
  by (auto simp: canonical_peaks_def)

lemma validate_peaks_iff:
  "validateRevisionStreamPeaks sid n peaks expected = Inr () \<longleftrightarrow>
     canonical_peaks n peaks
     \<and> (\<exists>r. calculateRevisionStreamMerkleRoot sid n peaks = Inr r \<and> expected = hex_encode r)"
proof -
  let ?L = "expectedRevisionStreamPeakLayout n"
  have "validateRevisionStreamPeaks sid n peaks expected = Inr () \<longleftrightarrow>
      length peaks = length ?L \<and> length peaks \<le> 64 \<and> check_peak_layout peaks ?L = Inr ()
      \<and> (\<exists>r. calculateRevisionStreamMerkleRoot sid n peaks = Inr r
            \<and> decodeRevisionStreamDigest expected = Inr r)"
    by (auto simp: validateRevisionStreamPeaks_def maxRevisionStreamProofPeaks_def Let_def
        split: sum.splits if_splits)
  then show ?thesis
    using canonical_length [of n peaks] check_peak_layout_iff [of peaks ?L] length_root [of sid n peaks]
    by (auto simp: digest_Inr canonical_peaks_def)
qed

lemma check_previous_iff:
  "check_previous_peaks sid previous revision = Inr () \<longleftrightarrow>
     revision \<noteq> 0 \<and> canonical_peaks (revision - 1) previous"
proof -
  have "expectedRevisionStreamPeakLayout 0 = []" by code_simp
  moreover have "check_previous_peaks sid previous revision = Inr () \<longleftrightarrow>
      canonical_peaks (revision - 1) previous" if "revision \<noteq> 0" "revision \<noteq> 1"
    using that canonical_root [of "revision - 1" previous sid "revision - 1"]
    by (cases "calculateRevisionStreamMerkleRoot sid (revision - 1) previous")
      (auto simp: check_previous_peaks_def validate_peaks_iff)
  ultimately show ?thesis
    by (cases "revision = 1") (auto simp: check_previous_peaks_def canonical_peaks_def)
qed

text \<open>The canonical peak lists over \<open>n\<close> leaves are those with a digest \<open>R h\<close> for each height.\<close>

definition peak_at :: "nat \<Rightarrow> (nat \<Rightarrow> bytes) \<Rightarrow> nat \<Rightarrow> RevisionStreamMerklePeak" where
  "peak_at n R h = \<lparr>peak_Height = of_nat h, peak_StartRevision = of_nat (tree_start n h),
     peak_RootSHA256 = hex_encode (R h)\<rparr>"

lemma distinct_peak_heights: "distinct (peak_heights n)"
  by (simp add: peak_heights_def)

lemma choose_along:
  assumes "list_all2 (\<lambda>h p. \<exists>b. Q b \<and> p = g h b) hs ps" "distinct hs" "Q d"
  shows "\<exists>R. (\<forall>h. Q (R h)) \<and> ps = map (\<lambda>h. g h (R h)) hs"
  using assms
proof (induction hs ps rule: list_all2_induct)
  case (Cons h hs p ps)
  then obtain R b where "\<forall>h. Q (R h)" "ps = map (\<lambda>h. g h (R h)) hs" "Q b" "p = g h b" by auto
  then show ?case using Cons.prems by (intro exI [of _ "R(h := b)"]) auto
qed auto

lemma canonical_peaks_over:
  assumes "n < 2 ^ 64"
  shows "canonical_peaks (of_nat n) peaks \<longleftrightarrow>
    (\<exists>R. (\<forall>h. length (R h) = 32) \<and> peaks = map (peak_at n R) (peak_heights n))"
proof
  let ?g = "\<lambda>h b. \<lparr>peak_Height = of_nat h, peak_StartRevision = of_nat (tree_start n h),
     peak_RootSHA256 = hex_encode b\<rparr>"
  assume c: "canonical_peaks (of_nat n) peaks"
  let ?f = "\<lambda>p. (peak_Height p, peak_StartRevision p)"
  have m: "map ?f peaks = map (\<lambda>k. (of_nat k, of_nat (tree_start n k))) (peak_heights n)"
    using c assms by (simp add: canonical_peaks_def layout_closed)
  have "list_all2 (\<lambda>h p. \<exists>b. length b = 32 \<and> p = ?g h b) (peak_heights n) peaks"
  proof (rule list_all2_all_nthI)
    show l: "length (peak_heights n) = length peaks" using arg_cong [OF m, of length] by simp
    fix i assume i: "i < length (peak_heights n)"
    then have "sha_pattern (peak_RootSHA256 (peaks ! i))"
      using c l by (simp add: canonical_peaks_def list_all_length)
    then obtain b where "length b = 32" "peak_RootSHA256 (peaks ! i) = hex_encode b"
      by (auto simp: sha_pattern_digest digest_Inr)
    moreover have "?f (peaks ! i) = (of_nat (peak_heights n ! i), of_nat (tree_start n (peak_heights n ! i)))"
      using arg_cong [OF m, of "\<lambda>xs. xs ! i"] i l by simp
    ultimately show "\<exists>b. length b = 32 \<and> peaks ! i = ?g (peak_heights n ! i) b" by (intro exI [of _ b]) simp
  qed
  from choose_along [OF this distinct_peak_heights, of "replicate 32 0"]
  show "\<exists>R. (\<forall>h. length (R h) = 32) \<and> peaks = map (peak_at n R) (peak_heights n)"
    by (simp add: peak_at_def [abs_def])
next
  assume "\<exists>R. (\<forall>h. length (R h) = 32) \<and> peaks = map (peak_at n R) (peak_heights n)"
  then show "canonical_peaks (of_nat n) peaks"
    using assms by (auto simp: canonical_peaks_def layout_closed peak_at_def list_all_iff)
qed

section \<open>Appending is binary increment\<close>

text \<open>
  The node of height \<open>j\<close> created by appending leaf \<open>n + 1\<close> to peaks with digests \<open>R\<close>, and the
  digests of the peaks afterwards.
\<close>

fun merged_root :: "bytes \<Rightarrow> nat \<Rightarrow> (nat \<Rightarrow> bytes) \<Rightarrow> bytes \<Rightarrow> nat \<Rightarrow> bytes" where
  "merged_root sid n R leaf 0 = leaf"
| "merged_root sid n R leaf (Suc j) =
     calculateRevisionStreamMerkleNode sid (of_nat (Suc j)) (of_nat (tree_start n j)) (R j)
       (merged_root sid n R leaf j)"

definition created_node :: "bytes \<Rightarrow> nat \<Rightarrow> (nat \<Rightarrow> bytes) \<Rightarrow> bytes \<Rightarrow> nat \<Rightarrow> revisionStreamMerkleNode" where
  "created_node sid n R leaf j = \<lparr>node_height = of_nat j,
     node_startRevision = of_nat (2 ^ j * (n div 2 ^ j) + 1), node_root = merged_root sid n R leaf j\<rparr>"

definition next_roots :: "bytes \<Rightarrow> nat \<Rightarrow> (nat \<Rightarrow> bytes) \<Rightarrow> bytes \<Rightarrow> nat \<Rightarrow> bytes" where
  "next_roots sid n R leaf =
     R(trailing_ones n := merged_root sid n R leaf (trailing_ones n))"

lemma length_merged_root: "length leaf = 32 \<Longrightarrow> length (merged_root sid n R leaf j) = 32"
  by (cases j) simp_all

lemma length_next_roots:
  "\<forall>h. length (R h) = 32 \<Longrightarrow> length leaf = 32 \<Longrightarrow> length (next_roots sid n R leaf h) = 32"
  by (simp add: next_roots_def length_merged_root)

lemma unat_of_nat_uint64: "m < 2 ^ 64 \<Longrightarrow> unat (of_nat m :: uint64) = m"
  by (simp add: unat_of_nat)

lemma uint8_heights_distinct: "j < 64 \<Longrightarrow> k < 64 \<Longrightarrow> (of_nat j :: uint8) = of_nat k \<longleftrightarrow> j = k"
proof -
  assume "j < 64" "k < 64"
  then have "unat (of_nat j :: uint8) = j" "unat (of_nat k :: uint8) = k" by (intro unat_of_nat_byte; simp)+
  then show ?thesis by metis
qed

lemma merge_loop_end:
  assumes "t < 64" "\<not> bit n t"
  shows "merge_loop sid (map (peak_at n R) (filter (bit n) [t..<64])) (created_node sid n R leaf t) created =
    Inr (map (peak_at n R) (filter (bit n) [Suc t..<64]), created_node sid n R leaf t, created)"
proof -
  have f: "filter (bit n) [t..<64] = filter (bit n) [Suc t..<64]"
    using assms by (simp add: upt_conv_Cons)
  show ?thesis
  proof (cases "filter (bit n) [Suc t..<64]")
    case (Cons h hs)
    then have "h \<in> set (filter (bit n) [Suc t..<64])" by simp
    then have "t < h" "h < 64" by auto
    then have "(of_nat h :: uint8) \<noteq> of_nat t" using assms(1) by (simp add: uint8_heights_distinct)
    then show ?thesis unfolding f Cons by (simp add: peak_at_def created_node_def)
  qed (simp add: f)
qed

lemma merge_loop_step:
  assumes "bit n k" "k < 63" "\<forall>h. length (R h) = 32"
  shows "merge_loop sid (map (peak_at n R) (filter (bit n) [k..<64])) (created_node sid n R leaf k) created =
    merge_loop sid (map (peak_at n R) (filter (bit n) [Suc k..<64])) (created_node sid n R leaf (Suc k))
      (created @ [created_node sid n R leaf (Suc k)])"
proof -
  have f: "filter (bit n) [k..<64] = k # filter (bit n) [Suc k..<64]"
    using assms by (simp add: upt_conv_Cons)
  have s: "(of_nat (tree_start n k) :: uint64) + 2 ^ k = of_nat (2 ^ k * (n div 2 ^ k) + 1)"
    unfolding tree_start_next using assms(1) by simp
  have w: "(of_nat k + 1 :: uint8) = of_nat (Suc k)" by simp
  have h: "(of_nat k :: uint8) \<noteq> 63" "unat (of_nat k :: uint8) = k"
    using uint8_heights_distinct [of k 63] assms(2) by (simp_all add: unat_of_nat_byte)
  have n': "created_node sid n R leaf (Suc k) = \<lparr>node_height = of_nat (Suc k),
      node_startRevision = of_nat (tree_start n k),
      node_root = calculateRevisionStreamMerkleNode sid (of_nat (Suc k)) (of_nat (tree_start n k)) (R k)
         (merged_root sid n R leaf k)\<rparr>"
    by (simp add: created_node_def tree_start_def)
  show ?thesis
    unfolding f n' using s assms(3)
    by (simp add: peak_at_def created_node_def Let_def h w del: of_nat_Suc of_nat_add)
qed

lemma merge_loop_increment:
  assumes "k \<le> t" "t < 64" "\<forall>j<t. bit n j" "\<not> bit n t" "\<forall>h. length (R h) = 32"
  shows "merge_loop sid (map (peak_at n R) (filter (bit n) [k..<64])) (created_node sid n R leaf k) created =
    Inr (map (peak_at n R) (filter (bit n) [Suc t..<64]), created_node sid n R leaf t,
         created @ map (created_node sid n R leaf) [Suc k..<Suc t])"
  using assms(1)
proof (induction k arbitrary: created rule: inc_induct)
  case base
  then show ?case using merge_loop_end assms by simp
next
  case (step k)
  then have "[Suc k..<Suc t] = Suc k # [Suc (Suc k)..<Suc t]" by (simp add: upt_conv_Cons)
  with step show ?case using merge_loop_step [of n k R] assms by simp
qed

lemma peaks_next:
  assumes "n + 1 < 2 ^ 64"
  shows "map (peak_at (n + 1) (next_roots sid n R leaf)) (peak_heights (n + 1)) =
    rev (map (peak_at n R) (filter (bit n) [Suc (trailing_ones n)..<64]))
      @ [node_peak (created_node sid n R leaf (trailing_ones n))]"
proof -
  let ?t = "trailing_ones n"
  have a: "peak_at (n + 1) (next_roots sid n R leaf) h = peak_at n R h" if "?t < h" for h
    using that trailing_ones_above [of n "Suc h"] by (simp add: peak_at_def next_roots_def tree_start_def)
  have "n div 2 ^ ?t = 2 * (n div 2 ^ Suc ?t)"
    using trailing_ones_bits(2) [of n] nat_div_bit_step [of n ?t] by simp
  then have "tree_start (n + 1) ?t = 2 ^ ?t * (n div 2 ^ ?t) + 1"
    unfolding tree_start_def trailing_ones_above [OF lessI] by (simp add: mult.assoc)
  then have "peak_at (n + 1) (next_roots sid n R leaf) ?t = node_peak (created_node sid n R leaf ?t)"
    by (simp add: peak_at_def node_peak_def created_node_def next_roots_def)
  moreover have "map (peak_at (n + 1) (next_roots sid n R leaf)) (filter (bit n) [Suc ?t..<64])
      = map (peak_at n R) (filter (bit n) [Suc ?t..<64])"
    by (rule map_cong) (use a in \<open>auto simp: Suc_le_eq\<close>)
  ultimately show ?thesis
    unfolding peak_heights_def rev_filter [symmetric] ascending_heights_increment [OF assms] by (simp add: rev_map)
qed

lemma append_leaf_canonical:
  assumes "n + 1 < 2 ^ 64" "\<forall>h. length (R h) = 32" "length leaf = 32"
  shows "appendRevisionStreamMerkleLeaf sid (map (peak_at n R) (peak_heights n)) (of_nat (n + 1)) leaf =
    Inr (map (peak_at (n + 1) (next_roots sid n R leaf)) (peak_heights (n + 1)),
         map (created_node sid n R leaf) [0..<Suc (trailing_ones n)])"
proof -
  let ?t = "trailing_ones n" and ?node = "created_node sid n R leaf"
  let ?prev = "map (peak_at n R) (peak_heights n)"
  let ?next = "map (peak_at (n + 1) (next_roots sid n R leaf)) (peak_heights (n + 1))"
  have nz: "(of_nat (n + 1) :: uint64) \<noteq> 0"
    using assms(1) unat_of_nat_uint64 [of "n + 1"] by (metis add_is_0 unat_0 zero_neq_one)
  have c: "canonical_peaks (of_nat n) ?prev" "canonical_peaks (of_nat (n + 1)) ?next"
    using assms length_next_roots canonical_peaks_over by (metis add_lessD1)+
  have m1: "(of_nat (n + 1) :: uint64) - 1 = of_nat n" by simp
  have prev: "check_previous_peaks sid ?prev (of_nat (n + 1)) = Inr ()"
    using c(1) nz by (simp only: check_previous_iff m1 simp_thms)
  obtain r where r: "calculateRevisionStreamMerkleRoot sid (of_nat (n + 1)) ?next = Inr r"
    using canonical_root [OF c(2)] by blast
  have v: "validateRevisionStreamPeaks sid (of_nat (n + 1)) ?next (hex_encode r) = Inr ()"
    using c(2) r by (simp only: validate_peaks_iff) blast
  have "rev ?prev = map (peak_at n R) (filter (bit n) [0..<64])"
    unfolding peak_heights_def rev_filter [symmetric] rev_map rev_rev_ident ..
  moreover have "\<lparr>node_height = 0, node_startRevision = of_nat (n + 1), node_root = leaf\<rparr> = ?node 0"
    by (simp add: created_node_def)
  ultimately have loop: "merge_loop sid (rev ?prev)
      \<lparr>node_height = 0, node_startRevision = of_nat (n + 1), node_root = leaf\<rparr>
      [\<lparr>node_height = 0, node_startRevision = of_nat (n + 1), node_root = leaf\<rparr>]
      = Inr (map (peak_at n R) (filter (bit n) [Suc ?t..<64]), ?node ?t, map ?node [0..<Suc ?t])"
    using merge_loop_increment [of 0 ?t n R sid leaf "[?node 0]"] trailing_ones_bits(1) [of _ n] trailing_ones_bits(2) [of n]
      trailing_ones_bound [OF assms(1)] assms(2)
    by (simp add: upt_conv_Cons del: upt_Suc)
  show ?thesis
    unfolding appendRevisionStreamMerkleLeaf_def prev loop Let_def sum.case prod.case
      peaks_next [OF assms(1), symmetric] r v by simp
qed

end
