(* ===== verification/MerkleProofs.thy ===== *)
theory MerkleProofs
  imports MerkleRange
begin

text \<open>
  The abstract stream behind the peak lists: \<open>subtree\<close> and \<open>mountain_range\<close> over the content
  digests of the revisions, the refinement of \<open>appendRevisionStreamMerkleLeaf\<close> to it, and the
  inclusion proofs: \<open>verifyRevisionStreamInclusion\<close> accepts what an honest server builds, and when
  it accepts a content that is not the stream's, two messages hashed on the way collide.
\<close>

section \<open>The abstract mountain range\<close>

text \<open>\<open>subtree sid c h i\<close>: the tree of height \<open>h\<close> over revisions \<open>i * 2 ^ h + 1 .. (i + 1) * 2 ^ h\<close>.\<close>

fun subtree :: "bytes \<Rightarrow> (nat \<Rightarrow> bytes) \<Rightarrow> nat \<Rightarrow> nat \<Rightarrow> bytes" where
  "subtree sid c 0 i = calculateRevisionStreamMerkleLeaf sid (of_nat (i + 1)) (c (i + 1))"
| "subtree sid c (Suc h) i =
     calculateRevisionStreamMerkleNode sid (of_nat (Suc h)) (of_nat (2 ^ Suc h * i + 1))
       (subtree sid c h (2 * i)) (subtree sid c h (2 * i + 1))"

definition range_root :: "bytes \<Rightarrow> (nat \<Rightarrow> bytes) \<Rightarrow> nat \<Rightarrow> nat \<Rightarrow> bytes" where
  "range_root sid c n h = subtree sid c h (2 * (n div 2 ^ Suc h))"

definition mountain_range :: "bytes \<Rightarrow> (nat \<Rightarrow> bytes) \<Rightarrow> nat \<Rightarrow> RevisionStreamMerklePeak list" where
  "mountain_range sid c n = map (peak_at n (range_root sid c n)) (peak_heights n)"

definition spine :: "bytes \<Rightarrow> (nat \<Rightarrow> bytes) \<Rightarrow> nat \<Rightarrow> revisionStreamMerkleNode list" where
  "spine sid c n = map (\<lambda>j. \<lparr>node_height = of_nat j, node_startRevision = of_nat (2 ^ j * (n div 2 ^ j) + 1),
     node_root = subtree sid c j (n div 2 ^ j)\<rparr>) [0..<Suc (trailing_ones n)]"

lemma length_subtree [simp]: "length (subtree sid c h i) = 32"
  by (cases h) simp_all

lemma length_range_root [simp]: "length (range_root sid c n h) = 32"
  by (simp add: range_root_def)

lemma canonical_mountain_range: "n < 2 ^ 64 \<Longrightarrow> canonical_peaks (of_nat n) (mountain_range sid c n)"
  unfolding mountain_range_def canonical_peaks_over by (intro exI [of _ "range_root sid c n"]) simp

lemma merged_root_subtree:
  assumes "j \<le> trailing_ones n"
  shows "merged_root sid n (range_root sid c n) (calculateRevisionStreamMerkleLeaf sid (of_nat (n + 1)) (c (n + 1))) j
    = subtree sid c j (n div 2 ^ j)"
  using assms
proof (induction j)
  case (Suc j)
  then have "n div 2 ^ j = 2 * (n div 2 ^ Suc j) + 1"
    using trailing_ones_bits(1) [of j n] nat_div_bit_step [of n j] by simp
  with Suc show ?case by (simp add: range_root_def tree_start_def)
qed simp

lemma next_roots_range:
  assumes "h \<ge> trailing_ones n"
  shows "next_roots sid n (range_root sid c n) (calculateRevisionStreamMerkleLeaf sid (of_nat (n + 1)) (c (n + 1))) h
    = range_root sid c (n + 1) h"
proof (cases "h = trailing_ones n")
  case True
  then show ?thesis
    using trailing_ones_bits(2) [of n] nat_div_bit_step [of n h] trailing_ones_above [of n "Suc h"]
      merged_root_subtree [of h n sid c]
    by (simp add: next_roots_def range_root_def)
next
  case False
  then show ?thesis using assms trailing_ones_above [of n "Suc h"]
    by (simp add: next_roots_def range_root_def)
qed

lemma peak_heights_above: "h \<in> set (peak_heights (n + 1)) \<Longrightarrow> trailing_ones n \<le> h"
  by (auto simp: peak_heights_def bit_increment simp del: Suc_eq_plus1 One_nat_def add_Suc_right)

lemma append_mountain_range:
  assumes "n + 1 < 2 ^ 64"
  shows "appendRevisionStreamMerkleLeaf sid (mountain_range sid c n) (of_nat (n + 1))
      (calculateRevisionStreamMerkleLeaf sid (of_nat (n + 1)) (c (n + 1)))
    = Inr (mountain_range sid c (n + 1), spine sid c n)"
proof -
  let ?leaf = "calculateRevisionStreamMerkleLeaf sid (of_nat (n + 1)) (c (n + 1))"
  let ?R = "range_root sid c n"
  have "map (peak_at (n + 1) (next_roots sid n ?R ?leaf)) (peak_heights (n + 1)) = mountain_range sid c (n + 1)"
    unfolding mountain_range_def
    by (rule map_cong) (use next_roots_range peak_heights_above in \<open>auto simp: peak_at_def simp del: Suc_eq_plus1 One_nat_def add_Suc_right\<close>)
  moreover have "map (created_node sid n ?R ?leaf) [0..<Suc (trailing_ones n)] = spine sid c n"
    unfolding spine_def by (rule map_cong) (auto simp: created_node_def merged_root_subtree simp del: of_nat_Suc of_nat_add Suc_eq_plus1 One_nat_def add_Suc_right)
  ultimately show ?thesis
    using append_leaf_canonical [OF assms, of ?R ?leaf sid] unfolding mountain_range_def by simp
qed

section \<open>Paths\<close>

text \<open>
  The loop of the verifier over natural numbers: \<open>r\<close> is the revision, \<open>(r - 1) div 2 ^ j\<close> the
  index of the tree of height \<open>j\<close> above it.
\<close>

definition path_side :: "nat \<Rightarrow> nat \<Rightarrow> string" where
  "path_side r j = (if odd ((r - 1) div 2 ^ j) then RevisionStreamProofLeft else RevisionStreamProofRight)"

definition path_message :: "bytes \<Rightarrow> nat \<Rightarrow> nat \<Rightarrow> bytes \<Rightarrow> bytes \<Rightarrow> bytes" where
  "path_message sid r j sibling current =
     node_message sid (of_nat (Suc j)) (of_nat (2 ^ Suc j * ((r - 1) div 2 ^ Suc j) + 1))
       (if odd ((r - 1) div 2 ^ j) then sibling else current)
       (if odd ((r - 1) div 2 ^ j) then current else sibling)"

fun path_loop :: "bytes \<Rightarrow> nat \<Rightarrow> nat \<Rightarrow> RevisionStreamProofStep list \<Rightarrow> bytes \<Rightarrow> bytes result" where
  "path_loop sid r j [] current = Inr current"
| "path_loop sid r j (step # steps) current =
     (if step_Height step \<noteq> of_nat j \<or> step_Side step \<noteq> path_side r j
      then Inl (ErrorString ''Merkle inclusion proof path is non-canonical'')
      else case decodeRevisionStreamDigest (step_RootSHA256 step) of
        Inl e \<Rightarrow> Inl e
      | Inr sibling \<Rightarrow> path_loop sid r (Suc j) steps (sha256 (path_message sid r j sibling current)))"

lemma tree_index_split:
  fixes h j q r :: nat
  assumes "j \<le> h" "2 ^ h * q + 1 \<le> r"
  shows "(r - 1) div 2 ^ j = 2 ^ (h - j) * q + (r - (2 ^ h * q + 1)) div 2 ^ j"
proof -
  have "2 ^ h * q = 2 ^ j * (2 ^ (h - j) * q)" using assms(1) by (simp flip: power_add mult.assoc)
  moreover have "r - 1 = 2 ^ h * q + (r - (2 ^ h * q + 1))" using assms(2) by simp
  ultimately show ?thesis by (metis div_mult_self4 power_not_zero zero_neq_numeral)
qed

lemma drop_bit_of_nat_uint64:
  assumes "m < 2 ^ 64"
  shows "drop_bit j (of_nat m :: uint64) = of_nat (m div 2 ^ j)"
proof (rule bit_word_eqI)
  fix k assume "k < LENGTH(64)"
  have "\<not> bit m i" if "64 \<le> i" for i
  proof -
    have "m < 2 ^ i" using assms power_increasing [OF that, of "2 :: nat"] by linarith
    then show ?thesis by (simp add: bit_iff_odd)
  qed
  then show "bit (drop_bit j (of_nat m :: uint64)) k \<longleftrightarrow> bit (of_nat (m div 2 ^ j) :: uint64) k"
    using \<open>k < LENGTH(64)\<close>
    by (auto simp: bit_simps simp flip: drop_bit_eq_div intro: ccontr [of "j + k < 64"])
qed

lemma word_path_facts:
  fixes h j q r :: nat
  defines "s \<equiv> 2 ^ h * q + 1" and "i \<equiv> (r - 1) div 2 ^ j"
  assumes "j < h" "s \<le> r" "r < 2 ^ 64"
  shows "drop_bit j (of_nat (r - s) :: uint64) AND 1 = 1 \<longleftrightarrow> odd i"
    and "(of_nat s :: uint64) + push_bit j (drop_bit j (of_nat (r - s))) = of_nat (2 ^ j * i + 1)"
    and "odd i \<Longrightarrow> (of_nat (2 ^ j * i + 1) :: uint64) - push_bit j 1 = of_nat (2 ^ Suc j * (i div 2) + 1)"
    and "even i \<Longrightarrow> 2 ^ j * i + 1 = 2 ^ Suc j * (i div 2) + 1"
proof -
  have d: "drop_bit j (of_nat (r - s) :: uint64) = of_nat ((r - s) div 2 ^ j)"
    using assms by (intro drop_bit_of_nat_uint64) simp
  have i: "i = 2 ^ (h - j) * q + (r - s) div 2 ^ j"
    using tree_index_split [of j h q r] assms by (simp add: i_def s_def)
  have "even (2 ^ (h - j) * q)" using assms by simp
  then have "odd i \<longleftrightarrow> odd ((r - s) div 2 ^ j)" using i by simp
  moreover have "(w AND 1 = 1) \<longleftrightarrow> odd w" for w :: uint64 by (simp add: and_one_eq odd_iff_mod_2_eq_one)
  moreover have "odd (of_nat m :: uint64) \<longleftrightarrow> odd m" for m by simp
  ultimately show "drop_bit j (of_nat (r - s) :: uint64) AND 1 = 1 \<longleftrightarrow> odd i" unfolding d by blast
  have "2 ^ j * i + 1 = s + 2 ^ j * ((r - s) div 2 ^ j)"
    using assms(3) unfolding i s_def by (simp add: distrib_left flip: power_add mult.assoc)
  then show "(of_nat s :: uint64) + push_bit j (drop_bit j (of_nat (r - s))) = of_nat (2 ^ j * i + 1)"
    unfolding d by (simp add: push_bit_eq_mult mult.commute)
  show "(of_nat (2 ^ j * i + 1) :: uint64) - push_bit j 1 = of_nat (2 ^ Suc j * (i div 2) + 1)" if "odd i"
  proof -
    have "2 ^ j * i + 1 = (2 ^ Suc j * (i div 2) + 1) + 2 ^ j" using that by (auto elim!: oddE simp: algebra_simps)
    then show ?thesis by (simp only: of_nat_add push_bit_of_1) simp
  qed
  show "2 ^ j * i + 1 = 2 ^ Suc j * (i div 2) + 1" if "even i" using that by auto
qed

lemma inclusion_loop_path:
  fixes h j q r :: nat
  defines "s \<equiv> 2 ^ h * q + 1"
  assumes "j + length steps \<le> h" "s \<le> r" "r < 2 ^ 64"
  shows "inclusion_loop sid (of_nat s) (of_nat (r - s)) j steps current = path_loop sid r j steps current"
  using assms(2)
proof (induction steps arbitrary: j current)
  case (Cons step steps)
  then have "j < h" by simp
  note f = word_path_facts [OF this, of q r, folded s_def, OF assms(3,4)]
  have e: "(r - 1) div 2 ^ Suc j = (r - 1) div 2 ^ j div 2" by (simp only: power_Suc2 div_mult2_eq)
  have w: "(of_nat j + 1 :: uint8) = of_nat (Suc j)" by simp
  note IH = Cons.IH [of "Suc j"]
  have "(if odd ((r - 1) div 2 ^ j)
      then calculateRevisionStreamMerkleNode sid (of_nat (Suc j)) (of_nat (2 ^ j * ((r - 1) div 2 ^ j) + 1) - push_bit j 1) sibling current
      else calculateRevisionStreamMerkleNode sid (of_nat (Suc j)) (of_nat (2 ^ j * ((r - 1) div 2 ^ j) + 1)) current sibling)
    = sha256 (path_message sid r j sibling current)" for sibling
    unfolding path_message_def calculateRevisionStreamMerkleNode_def e
    by (cases "odd ((r - 1) div 2 ^ j)") (simp_all only: f(3) f(4) if_True if_False simp_thms)
  then show ?case
    using Cons.prems
    by (simp only: inclusion_loop.simps path_loop.simps Let_def f(1,2) w path_side_def [symmetric]) (simp add: IH split: sum.split)
qed simp

section \<open>What the verifier accepts\<close>

lemma peak_height_facts:
  assumes "h \<in> set (peak_heights n)"
  shows "h < 64" and "bit n h" and "tree_start n h + 2 ^ h \<le> n + 1"
proof -
  show "h < 64" and b: "bit n h" using assms by (auto simp: peak_heights_def)
  have "tree_start n h + 2 ^ h = 2 ^ h * (n div 2 ^ h) + 1" using tree_start_next [of h n] b by simp
  then show "tree_start n h + 2 ^ h \<le> n + 1" using times_div_less_eq_dividend [of "2 ^ h" n] by linarith
qed

lemma uint64_le: "a < 2 ^ 64 \<Longrightarrow> b < 2 ^ 64 \<Longrightarrow> (of_nat a :: uint64) \<le> of_nat b \<longleftrightarrow> a \<le> b"
  by (simp add: word_le_nat_alt unat_of_nat_uint64)

lemma uint64_less: "a < 2 ^ 64 \<Longrightarrow> b < 2 ^ 64 \<Longrightarrow> (of_nat a :: uint64) < of_nat b \<longleftrightarrow> a < b"
  by (simp add: word_less_nat_alt unat_of_nat_uint64)

definition accepted_path :: "bytes \<Rightarrow> nat \<Rightarrow> (nat \<Rightarrow> bytes) \<Rightarrow> nat \<Rightarrow> bytes \<Rightarrow> RevisionStreamInclusionProof \<Rightarrow> bool" where
  "accepted_path sid n R r content p \<longleftrightarrow>
     (let i = unat (incl_PeakIndex p); h = peak_heights n ! i;
          leaf = calculateRevisionStreamMerkleLeaf sid (of_nat r) content
      in incl_Version p = revisionStreamProofVersion \<and> incl_Revision p = of_nat r
         \<and> i < length (peak_heights n) \<and> tree_start n h \<le> r \<and> r < tree_start n h + 2 ^ h
         \<and> length (incl_Siblings p) = h \<and> incl_LeafSHA256 p = hex_encode leaf
         \<and> path_loop sid r 0 (incl_Siblings p) leaf = Inr (R h))"

lemma verify_fits_peak:
  assumes "h \<in> set (peak_heights n)" "n < 2 ^ 64" "r < 2 ^ 64"
  shows "(maxRevisionStreamProofDepth < unat (of_nat h :: uint8)
      \<or> (of_nat r :: uint64) < of_nat (tree_start n h)
      \<or> push_bit (unat (of_nat h :: uint8)) 1 \<le> (of_nat r :: uint64) - of_nat (tree_start n h)
      \<or> len \<noteq> unat (of_nat h :: uint8))
    \<longleftrightarrow> \<not> (tree_start n h \<le> r \<and> r < tree_start n h + 2 ^ h \<and> len = h)"
proof -
  note h = peak_height_facts [OF assms(1)]
  have u: "unat (of_nat h :: uint8) = h" using h(1) by (intro unat_of_nat_byte) simp
  have "(1 :: nat) \<le> 2 ^ h" by simp
  then have s: "tree_start n h < 2 ^ 64" using h(3) assms(2) by linarith
  have p: "(2 :: nat) ^ h < 2 ^ 64" using h(1) by (intro power_strict_increasing) auto
  have "push_bit h 1 \<le> (of_nat r :: uint64) - of_nat (tree_start n h) \<longleftrightarrow> 2 ^ h \<le> r - tree_start n h"
    if "tree_start n h \<le> r"
  proof -
    have "push_bit h 1 = (of_nat (2 ^ h) :: uint64)" by (simp add: push_bit_of_1)
    moreover have "(of_nat r :: uint64) - of_nat (tree_start n h) = of_nat (r - tree_start n h)"
      using that by (simp add: of_nat_diff)
    ultimately show ?thesis using p assms(3) by (simp only: uint64_le less_imp_diff_less)
  qed
  then show ?thesis
    using h(1) s assms(3) unfolding u by (auto simp: maxRevisionStreamProofDepth_def uint64_less)
qed

lemma verify_iff:
  assumes "n < 2 ^ 64" "r < 2 ^ 64" "\<forall>h. length (R h) = 32"
  shows "verifyRevisionStreamInclusion sid (Some (map (peak_at n R) (peak_heights n))) (of_nat r) content p = Inr ()
    \<longleftrightarrow> accepted_path sid n R r content p"
proof (cases "unat (incl_PeakIndex p) < length (peak_heights n)")
  case True
  define h where "h = peak_heights n ! unat (incl_PeakIndex p)"
  have h: "h \<in> set (peak_heights n)" using True by (simp add: h_def)
  have s: "tree_start n h = 2 ^ h * (2 * (n div 2 ^ Suc h)) + 1" by (simp add: tree_start_def mult.assoc)
  let ?leaf = "calculateRevisionStreamMerkleLeaf sid (of_nat r) content"
  have u: "unat (of_nat h :: uint8) = h" using peak_height_facts(1) [OF h] by (intro unat_of_nat_byte) simp
  have loop: "inclusion_loop sid (of_nat (tree_start n h)) (of_nat r - of_nat (tree_start n h)) 0 (incl_Siblings p) ?leaf
      = path_loop sid r 0 (incl_Siblings p) ?leaf" if "tree_start n h \<le> r" "length (incl_Siblings p) = h"
    using that inclusion_loop_path [of 0 "incl_Siblings p" h "2 * (n div 2 ^ Suc h)" r sid ?leaf] assms(2)
    unfolding s by (simp add: of_nat_diff)
  have pk: "map (peak_at n R) (peak_heights n) ! unat (incl_PeakIndex p) = peak_at n R h"
    using True by (simp add: h_def)
  let ?fit = "tree_start n h \<le> r \<and> r < tree_start n h + 2 ^ h \<and> length (incl_Siblings p) = h"
  have "verifyRevisionStreamInclusion sid (Some (map (peak_at n R) (peak_heights n))) (of_nat r) content p = Inr ()
    \<longleftrightarrow> incl_Version p = revisionStreamProofVersion \<and> incl_Revision p = of_nat r \<and> ?fit
        \<and> decodeRevisionStreamDigest (incl_LeafSHA256 p) = Inr ?leaf
        \<and> path_loop sid r 0 (incl_Siblings p) ?leaf = Inr (R h)"
    using True assms(3) loop
    unfolding verifyRevisionStreamInclusion_def option.case Let_def pk
    by (simp only: peak_at_def RevisionStreamMerklePeak.simps verify_fits_peak [OF h assms(1,2)])
      (auto split: sum.split)
  then show ?thesis using True by (auto simp: accepted_path_def Let_def digest_Inr h_def)
qed (simp add: verifyRevisionStreamInclusion_def accepted_path_def Let_def)

section \<open>Honest proofs\<close>

text \<open>The peak above revision \<open>r\<close>: the first one that does not end before \<open>r\<close>.\<close>

definition peak_index :: "nat \<Rightarrow> nat \<Rightarrow> nat" where
  "peak_index n r = length (takeWhile (\<lambda>h. tree_start n h + 2 ^ h \<le> r) (peak_heights n))"

definition sibling_index :: "nat \<Rightarrow> nat" where
  "sibling_index i = (if odd i then i - 1 else i + 1)"

definition honest_step :: "bytes \<Rightarrow> (nat \<Rightarrow> bytes) \<Rightarrow> nat \<Rightarrow> nat \<Rightarrow> RevisionStreamProofStep" where
  "honest_step sid c r j =
     \<lparr>step_Height = of_nat j, step_Side = path_side r j,
      step_RootSHA256 = hex_encode (subtree sid c j (sibling_index ((r - 1) div 2 ^ j)))\<rparr>"

definition honest_inclusion :: "bytes \<Rightarrow> (nat \<Rightarrow> bytes) \<Rightarrow> nat \<Rightarrow> nat \<Rightarrow> RevisionStreamInclusionProof" where
  "honest_inclusion sid c n r =
     \<lparr>incl_Version = revisionStreamProofVersion, incl_Revision = of_nat r,
      incl_PeakIndex = of_nat (peak_index n r),
      incl_LeafSHA256 = hex_encode (calculateRevisionStreamMerkleLeaf sid (of_nat r) (c r)),
      incl_Siblings = map (honest_step sid c r) [0..<peak_heights n ! peak_index n r]\<rparr>"

lemma covering_peak:
  "\<lbrakk>2 ^ H * (n div 2 ^ H) < r; r \<le> n\<rbrakk> \<Longrightarrow>
   (let hs = filter (bit n) (rev [0..<H]);
        k = length (takeWhile (\<lambda>h. tree_start n h + 2 ^ h \<le> r) hs)
    in k < length hs \<and> tree_start n (hs ! k) \<le> r \<and> r < tree_start n (hs ! k) + 2 ^ (hs ! k))"
proof (induction H)
  case (Suc H)
  have s: "tree_start n H \<le> r" using Suc.prems by (simp add: tree_start_def)
  have "2 ^ H * (n div 2 ^ H) < r" if "bit n H \<longrightarrow> tree_start n H + 2 ^ H \<le> r"
    using that s tree_start_next [of H n] by (auto split: if_splits)
  with Suc s show ?case by (auto simp: Let_def)
qed simp

lemma peak_index_covers:
  assumes "1 \<le> r" "r \<le> n" "n < 2 ^ 64"
  shows "peak_index n r < length (peak_heights n)"
    and "tree_start n (peak_heights n ! peak_index n r) \<le> r"
    and "r < tree_start n (peak_heights n ! peak_index n r) + 2 ^ (peak_heights n ! peak_index n r)"
  using covering_peak [of 64 n r] assms by (simp_all add: peak_index_def peak_heights_def Let_def)

lemma covered_index:
  assumes "tree_start n h \<le> r" "r < tree_start n h + 2 ^ h"
  shows "(r - 1) div 2 ^ h = 2 * (n div 2 ^ Suc h)"
  using tree_index_split [of h h "2 * (n div 2 ^ Suc h)" r] assms
  by (simp add: tree_start_def mult.assoc)

text \<open>The message hashed at the node of height \<open>Suc j\<close> above revision \<open>r\<close> in the stream's tree.\<close>

definition honest_message :: "bytes \<Rightarrow> (nat \<Rightarrow> bytes) \<Rightarrow> nat \<Rightarrow> nat \<Rightarrow> bytes" where
  "honest_message sid c r j = (let i = (r - 1) div 2 ^ Suc j in
     node_message sid (of_nat (Suc j)) (of_nat (2 ^ Suc j * i + 1))
       (subtree sid c j (2 * i)) (subtree sid c j (2 * i + 1)))"

lemma subtree_honest_message:
  "subtree sid c (Suc j) ((r - 1) div 2 ^ Suc j) = sha256 (honest_message sid c r j)"
  by (simp add: honest_message_def calculateRevisionStreamMerkleNode_def Let_def)

lemma path_message_honest:
  "path_message sid r j (subtree sid c j (sibling_index ((r - 1) div 2 ^ j)))
     (subtree sid c j ((r - 1) div 2 ^ j)) = honest_message sid c r j"
  using nat_div_bit_step [of "r - 1" j]
  by (cases "odd ((r - 1) div 2 ^ j)")
    (auto simp: path_message_def honest_message_def Let_def bit_iff_odd sibling_index_def)

lemma path_loop_honest:
  "j \<le> h \<Longrightarrow> path_loop sid r j (map (honest_step sid c r) [j..<h]) (subtree sid c j ((r - 1) div 2 ^ j))
     = Inr (subtree sid c h ((r - 1) div 2 ^ h))"
proof (induction j rule: inc_induct)
  case (step j)
  then have upt: "[j..<h] = j # [Suc j..<h]" by (simp add: upt_conv_Cons)
  have "decodeRevisionStreamDigest (step_RootSHA256 (honest_step sid c r j))
      = Inr (subtree sid c j (sibling_index ((r - 1) div 2 ^ j)))"
    "step_Height (honest_step sid c r j) = of_nat j" "step_Side (honest_step sid c r j) = path_side r j"
    by (simp_all add: honest_step_def)
  then show ?case
    using step.IH by (simp only: upt list.map path_loop.simps sum.case path_message_honest
        subtree_honest_message simp_thms if_False)
qed simp

lemma honest_inclusion_accepted:
  assumes "1 \<le> r" "r \<le> n" "n < 2 ^ 64"
  shows "verifyRevisionStreamInclusion sid (Some (mountain_range sid c n)) (of_nat r) (c r)
    (honest_inclusion sid c n r) = Inr ()"
proof -
  note k = peak_index_covers [OF assms]
  have u: "unat (of_nat (peak_index n r) :: uint8) = peak_index n r"
    using k(1) length_peak_heights [of n] by (intro unat_of_nat_byte) simp
  let ?h = "peak_heights n ! peak_index n r"
  have "subtree sid c 0 ((r - 1) div 2 ^ 0) = calculateRevisionStreamMerkleLeaf sid (of_nat r) (c r)"
    using assms(1) by simp
  then have "path_loop sid r 0 (map (honest_step sid c r) [0..<?h]) (calculateRevisionStreamMerkleLeaf sid (of_nat r) (c r))
      = Inr (range_root sid c n ?h)"
    using path_loop_honest [of 0 ?h sid r c] covered_index [OF k(2,3)] by (simp add: range_root_def)
  then have "accepted_path sid n (range_root sid c n) r (c r) (honest_inclusion sid c n r)"
    using k u by (simp add: accepted_path_def honest_inclusion_def Let_def)
  then show ?thesis
    using verify_iff [of n r "range_root sid c n" sid "c r"] assms by (simp add: mountain_range_def)
qed

section \<open>Soundness up to a collision\<close>

text \<open>The messages the verifier hashes along a proof, and those of the stream's own tree.\<close>

fun path_messages :: "bytes \<Rightarrow> nat \<Rightarrow> nat \<Rightarrow> RevisionStreamProofStep list \<Rightarrow> bytes \<Rightarrow> bytes list" where
  "path_messages sid r j [] current = []"
| "path_messages sid r j (step # steps) current =
     (case decodeRevisionStreamDigest (step_RootSHA256 step) of
        Inl e \<Rightarrow> []
      | Inr sibling \<Rightarrow> (let m = path_message sid r j sibling current
                      in m # path_messages sid r (Suc j) steps (sha256 m)))"

definition verifier_messages :: "bytes \<Rightarrow> nat \<Rightarrow> bytes \<Rightarrow> RevisionStreamInclusionProof \<Rightarrow> bytes list" where
  "verifier_messages sid r content p =
     leaf_message sid (of_nat r) content
     # path_messages sid r 0 (incl_Siblings p) (calculateRevisionStreamMerkleLeaf sid (of_nat r) content)"

definition stream_messages :: "bytes \<Rightarrow> (nat \<Rightarrow> bytes) \<Rightarrow> nat \<Rightarrow> RevisionStreamInclusionProof \<Rightarrow> bytes list" where
  "stream_messages sid c r p =
     leaf_message sid (of_nat r) (c r) # map (honest_message sid c r) [0..<length (incl_Siblings p)]"

lemma node_message_inject:
  "\<lbrakk>node_message sid h s a b = node_message sid h s a' b'; length a = length a'\<rbrakk> \<Longrightarrow> a = a' \<and> b = b'"
  by (simp add: node_message_def hash_message_def)

lemma leaf_message_inject: "leaf_message sid r a = leaf_message sid r b \<longleftrightarrow> a = b"
  by (simp add: leaf_message_def hash_message_def)

lemma path_message_inject:
  assumes "path_message sid r j sibling current = honest_message sid c r j"
    "length sibling = 32" "length current = 32"
  shows "current = subtree sid c j ((r - 1) div 2 ^ j)"
proof -
  let ?i = "(r - 1) div 2 ^ j"
  have "path_message sid r j sibling current
      = path_message sid r j (subtree sid c j (sibling_index ?i)) (subtree sid c j ?i)"
    unfolding path_message_honest by (rule assms(1))
  then show ?thesis
    using assms(2,3) unfolding path_message_def
    by (cases "odd ?i") (simp_all only: if_True if_False simp_thms; drule node_message_inject; simp)+
qed

lemma path_loop_sound:
  assumes "path_loop sid r j steps current = Inr (subtree sid c (j + length steps) ((r - 1) div 2 ^ (j + length steps)))"
    "length current = 32"
  shows "current = subtree sid c j ((r - 1) div 2 ^ j)
    \<or> (\<exists>mm \<in> set (zip (path_messages sid r j steps current)
          (map (honest_message sid c r) [j..<j + length steps])). hash_collision mm)"
  using assms
proof (induction steps arbitrary: j current)
  case (Cons step steps)
  from Cons.prems obtain sibling where sib: "decodeRevisionStreamDigest (step_RootSHA256 step) = Inr sibling"
    by (auto split: if_splits sum.splits)
  let ?m = "path_message sid r j sibling current" and ?hm = "honest_message sid c r j"
  have loop: "path_loop sid r (Suc j) steps (sha256 ?m)
      = Inr (subtree sid c (Suc j + length steps) ((r - 1) div 2 ^ (Suc j + length steps)))"
    using Cons.prems(1) sib by (simp split: if_splits)
  have upt: "[j..<j + length (step # steps)] = j # [Suc j..<Suc j + length steps]"
    by (subst upt_conv_Cons) simp_all
  from Cons.IH [OF loop] consider "sha256 ?m = subtree sid c (Suc j) ((r - 1) div 2 ^ Suc j)"
    | "\<exists>mm \<in> set (zip (path_messages sid r (Suc j) steps (sha256 ?m))
          (map (honest_message sid c r) [Suc j..<Suc j + length steps])). hash_collision mm" by auto
  then show ?case
  proof cases
    case 1
    then have e: "sha256 ?m = sha256 ?hm" by (simp only: subtree_honest_message)
    have "length sibling = 32" using sib by (simp add: digest_Inr)
    then have "?m = ?hm \<Longrightarrow> current = subtree sid c j ((r - 1) div 2 ^ j)"
      using path_message_inject Cons.prems(2) by blast
    then show ?thesis using e sib unfolding upt by (auto simp: hash_collision_def Let_def)
  qed (use sib in \<open>unfold upt, auto simp: Let_def simp del: upt_Suc\<close>)
qed simp

lemma accepted_inclusion_collision:
  assumes "n < 2 ^ 64" "r < 2 ^ 64"
    "verifyRevisionStreamInclusion sid (Some (mountain_range sid c n)) (of_nat r) content p = Inr ()"
  shows "1 \<le> r \<and> r \<le> n \<and> (content = c r \<or>
    (\<exists>mm \<in> set (zip (verifier_messages sid r content p) (stream_messages sid c r p)). hash_collision mm))"
proof -
  let ?h = "peak_heights n ! unat (incl_PeakIndex p)"
  let ?leaf = "calculateRevisionStreamMerkleLeaf sid (of_nat r) content"
  have "accepted_path sid n (range_root sid c n) r content p"
    using assms verify_iff [of n r "range_root sid c n"] by (simp add: mountain_range_def)
  then have a: "?h \<in> set (peak_heights n)" "tree_start n ?h \<le> r" "r < tree_start n ?h + 2 ^ ?h"
    "length (incl_Siblings p) = ?h" "path_loop sid r 0 (incl_Siblings p) ?leaf = Inr (range_root sid c n ?h)"
    by (auto simp: accepted_path_def Let_def)
  have r: "1 \<le> r" "r \<le> n" using a(2,3) peak_height_facts(3) [OF a(1)] by (auto simp: tree_start_def)
  have "path_loop sid r 0 (incl_Siblings p) ?leaf
      = Inr (subtree sid c (0 + length (incl_Siblings p)) ((r - 1) div 2 ^ (0 + length (incl_Siblings p))))"
    using a covered_index [OF a(2,3)] by (simp add: range_root_def)
  from path_loop_sound [OF this] have "?leaf = subtree sid c 0 (r - 1)
    \<or> (\<exists>mm \<in> set (zip (path_messages sid r 0 (incl_Siblings p) ?leaf)
          (map (honest_message sid c r) [0..<length (incl_Siblings p)])). hash_collision mm)" by simp
  moreover have "hash_collision (leaf_message sid (of_nat r) content, leaf_message sid (of_nat r) (c r))"
    if "?leaf = subtree sid c 0 (r - 1)" "content \<noteq> c r"
    using that r by (auto simp: hash_collision_def leaf_message_inject calculateRevisionStreamMerkleLeaf_def)
  ultimately show ?thesis using r by (auto simp: verifier_messages_def stream_messages_def)
qed

section \<open>Properties\<close>

lemma append_leaf_total:
  assumes "length leaf = 32"
  shows "if revision \<noteq> 0 \<and> canonical_peaks (revision - 1) previous
    then \<exists>peaks created. appendRevisionStreamMerkleLeaf sid previous revision leaf = Inr (peaks, created)
           \<and> canonical_peaks revision peaks
    else \<exists>e. appendRevisionStreamMerkleLeaf sid previous revision leaf = Inl e"
proof (cases "revision \<noteq> 0 \<and> canonical_peaks (revision - 1) previous")
  case True
  define n where "n = unat (revision - 1)"
  have "unat revision < 2 ^ 64" "unat revision \<noteq> 0"
    using True unat_width [of revision] by (auto simp: unat_eq_0)
  then have n: "n + 1 < 2 ^ 64" "of_nat (n + 1) = revision" "of_nat n = revision - 1"
    using True by (auto simp: n_def unat_minus_one)
  obtain R where R: "\<forall>h. length (R h) = 32" "previous = map (peak_at n R) (peak_heights n)"
    using True n canonical_peaks_over [of n previous] by auto
  have "canonical_peaks (of_nat (n + 1))
      (map (peak_at (n + 1) (next_roots sid n R leaf)) (peak_heights (n + 1)))"
    using canonical_peaks_over [of "n + 1"] n(1) length_next_roots [OF R(1) assms] by blast
  then show ?thesis
    using append_leaf_canonical [OF n(1) R(1) assms, of sid] True unfolding n(2) R(2) by auto
next
  case False
  then have "check_previous_peaks sid previous revision \<noteq> Inr ()" by (auto simp: check_previous_iff)
  with False show ?thesis
    by (cases "check_previous_peaks sid previous revision") (auto simp: appendRevisionStreamMerkleLeaf_def)
qed

text \<open>
  C1: \<open>appendRevisionStreamMerkleLeaf\<close> succeeds exactly when the revision is positive and the peaks
  it is given are the canonical peak list of the previous revision, whatever digests they carry; the
  new peaks are then canonical for the revision, so the merge loop never takes its error returns and
  the final validation never fails.
\<close>

theorem append_leaf_succeeds_iff_canonical:
  assumes "length leaf = 32"
  shows "(revision \<noteq> 0 \<and> canonical_peaks (revision - 1) previous \<longrightarrow>
      (\<exists>peaks created. appendRevisionStreamMerkleLeaf sid previous revision leaf = Inr (peaks, created)
           \<and> canonical_peaks revision peaks))
    \<and> (\<not> (revision \<noteq> 0 \<and> canonical_peaks (revision - 1) previous) \<longrightarrow>
      (\<exists>e. appendRevisionStreamMerkleLeaf sid previous revision leaf = Inl e))"
  using append_leaf_total [OF assms] by presburger

theorem append_leaf_succeeds_iff_canonical_witness:
  "\<exists>peaks created. appendRevisionStreamMerkleLeaf [115] (mountain_range [115] (\<lambda>_. []) 3) 4 (replicate 32 7)
     = Inr (peaks, created) \<and> canonical_peaks 4 peaks"
  using append_leaf_succeeds_iff_canonical [of "replicate 32 7" 4 "mountain_range [115] (\<lambda>_. []) 3" "[115]"]
    canonical_mountain_range [of 3 "[115]" "\<lambda>_. []"] by simp

text \<open>
  C2: refinement. Appending the leaf of revision \<open>n + 1\<close> to the mountain range of the first \<open>n\<close>
  contents gives the mountain range of \<open>n + 1\<close> contents, and the nodes it reports as created (the
  ones that are written to the store) are exactly the subtrees that end at that revision.
\<close>

theorem append_refines_mountain_range:
  assumes "n + 1 < 2 ^ 64"
  shows "appendRevisionStreamMerkleLeaf sid (mountain_range sid c n) (of_nat (n + 1))
      (calculateRevisionStreamMerkleLeaf sid (of_nat (n + 1)) (c (n + 1)))
    = Inr (mountain_range sid c (n + 1), spine sid c n)"
  by (rule append_mountain_range [OF assms])

theorem append_refines_mountain_range_witness:
  "appendRevisionStreamMerkleLeaf [115] (mountain_range [115] (\<lambda>r. replicate 32 (of_nat r)) 5) 6
      (calculateRevisionStreamMerkleLeaf [115] 6 (replicate 32 6))
    = Inr (mountain_range [115] (\<lambda>r. replicate 32 (of_nat r)) 6, spine [115] (\<lambda>r. replicate 32 (of_nat r)) 5)"
  using append_refines_mountain_range [of 5 "[115]" "\<lambda>r. replicate 32 (of_nat r)"] by simp

text \<open>
  C6: completeness. For every revision of the stream the proof built from the stream's own trees is
  accepted against the peaks pinned by any later head.
\<close>

theorem inclusion_complete:
  assumes "1 \<le> r" "r \<le> n" "n < 2 ^ 64"
  shows "verifyRevisionStreamInclusion sid (Some (mountain_range sid c n)) (of_nat r) (c r)
    (honest_inclusion sid c n r) = Inr ()"
  by (rule honest_inclusion_accepted [OF assms])

theorem inclusion_complete_witness:
  "verifyRevisionStreamInclusion [115] (Some (mountain_range [115] (\<lambda>r. replicate 32 (of_nat r)) 11)) 5
    (replicate 32 5) (honest_inclusion [115] (\<lambda>r. replicate 32 (of_nat r)) 11 5) = Inr ()"
  using inclusion_complete [of 5 11 "[115]" "\<lambda>r. replicate 32 (of_nat r)"] by simp

text \<open>
  C7: soundness. If a proof is accepted against the peaks of the stream, its revision is one of the
  stream and its content is the stream's content, or two messages at the same place of the proof and
  of the stream's tree are different and have the same SHA-256 digest.
\<close>

theorem inclusion_sound_or_collision:
  assumes "n < 2 ^ 64" "r < 2 ^ 64"
    "verifyRevisionStreamInclusion sid (Some (mountain_range sid c n)) (of_nat r) content p = Inr ()"
  shows "1 \<le> r \<and> r \<le> n \<and> (content = c r \<or>
    (\<exists>mm \<in> set (zip (verifier_messages sid r content p) (stream_messages sid c r p)). hash_collision mm))"
  by (rule accepted_inclusion_collision [OF assms])

theorem inclusion_sound_or_collision_witness:
  "(1 :: nat) \<le> 5 \<and> (5 :: nat) \<le> 11 \<and> (replicate 32 (5 :: byte) = replicate 32 (of_nat 5) \<or>
    (\<exists>mm \<in> set (zip (verifier_messages [115] 5 (replicate 32 5)
         (honest_inclusion [115] (\<lambda>r. replicate 32 (of_nat r)) 11 5))
       (stream_messages [115] (\<lambda>r. replicate 32 (of_nat r)) 5
         (honest_inclusion [115] (\<lambda>r. replicate 32 (of_nat r)) 11 5))). hash_collision mm))"
  using inclusion_sound_or_collision [of 11 5 "[115]" "\<lambda>r. replicate 32 (of_nat r)" "replicate 32 5"
      "honest_inclusion [115] (\<lambda>r. replicate 32 (of_nat r)) 11 5"]
    honest_inclusion_accepted [of 5 11 "[115]" "\<lambda>r. replicate 32 (of_nat r)"] by simp

text \<open>
  C12: the peak layout of a leaf count has one peak for each set bit of the count, from the highest
  down, each starting where the taller ones end; the loop's wrapping additions never wrap into a
  different layout.
\<close>

theorem peak_layout_closed_form:
  "expectedRevisionStreamPeakLayout leafCount =
     map (\<lambda>h. (of_nat h, of_nat (2 ^ Suc h * (unat leafCount div 2 ^ Suc h) + 1)))
       (filter (bit (unat leafCount)) (rev [0..<64]))"
  using layout_closed [of "unat leafCount"] unat_width [of leafCount]
  by (simp add: tree_start_def [abs_def] peak_heights_def)

end
