(* ===== verification/Json.thy ===== *)
theory Json
  imports Errors
begin

text \<open>
  JSON as the client reads it. The first half models what the code uses of Go's \<open>encoding/json\<close>:
  the syntax (\<open>parse_json\<close>), the compact encoder (\<open>print_json\<close>) and decoding into typed
  destinations (\<open>json_string\<close>, \<open>json_uint\<close>, \<open>json_ptr\<close>, \<open>json_slice\<close>, \<open>decode_struct\<close>), which
  write into the value that is already there, keep it on \<open>null\<close>, refuse unknown fields and match
  field names exactly or else without regard to case. The second half is
  \<open>internal/serverprotocol/strictjson.go\<close>: \<open>decodeStrictJSON\<close> with its refusal of duplicate keys and
  of deep nesting, and the wire scalars built on it. A \<open>json.RawMessage\<close> is the syntax tree of its
  bytes (\<open>None\<close> when the field is absent). Texts of errors raised by \<open>encoding/json\<close> itself are
  not modelled beyond their being errors.
\<close>

section \<open>Syntax trees\<close>

datatype json =
    JNull
  | JBool bool
  | JNum string
  | JStr string
  | JArr "json list"
  | JObj "(string \<times> json) list"

type_synonym raw_message = "json option"

definition is_space :: "char \<Rightarrow> bool" where
  "is_space c \<longleftrightarrow> c = CHR '' '' \<or> c = CHR 0x0A \<or> c = CHR 0x0D \<or> c = CHR 0x09"

definition skip_space :: "string \<Rightarrow> string" where
  "skip_space s = dropWhile is_space s"

subsection \<open>UTF-8\<close>

definition continuation :: "nat \<Rightarrow> nat \<Rightarrow> char \<Rightarrow> bool" where
  "continuation lo hi c \<longleftrightarrow> lo \<le> of_char c \<and> of_char c \<le> hi"

text \<open>\<open>utf8.Valid\<close>: the ranges of well-formed sequences.\<close>

fun utf8_valid :: "string \<Rightarrow> bool" where
  "utf8_valid [] = True"
| "utf8_valid (c # s) =
     (let b = (of_char c :: nat); tail = continuation 0x80 0xBF in
      if b < 0x80 then utf8_valid s
      else case s of
        [] \<Rightarrow> False
      | c1 # s1 \<Rightarrow>
          if 0xC2 \<le> b \<and> b \<le> 0xDF then tail c1 \<and> utf8_valid s1
          else case s1 of
            [] \<Rightarrow> False
          | c2 # s2 \<Rightarrow>
              if 0xE0 \<le> b \<and> b \<le> 0xEF then
                continuation (if b = 0xE0 then 0xA0 else 0x80) (if b = 0xED then 0x9F else 0xBF) c1
                \<and> tail c2 \<and> utf8_valid s2
              else case s2 of
                [] \<Rightarrow> False
              | c3 # s3 \<Rightarrow>
                  0xF0 \<le> b \<and> b \<le> 0xF4
                  \<and> continuation (if b = 0xF0 then 0x90 else 0x80) (if b = 0xF4 then 0x8F else 0xBF) c1
                  \<and> tail c2 \<and> tail c3 \<and> utf8_valid s3)"

definition utf8_encode :: "nat \<Rightarrow> string" where
  "utf8_encode r =
     (if r < 0x80 then [char_of r]
      else if r < 0x800 then [char_of (0xC0 + r div 64), char_of (0x80 + r mod 64)]
      else if r < 0x10000 then
        [char_of (0xE0 + r div 4096), char_of (0x80 + r div 64 mod 64), char_of (0x80 + r mod 64)]
      else [char_of (0xF0 + r div 262144), char_of (0x80 + r div 4096 mod 64),
            char_of (0x80 + r div 64 mod 64), char_of (0x80 + r mod 64)])"

subsection \<open>Strings\<close>

definition hex_digit :: "char \<Rightarrow> nat option" where
  "hex_digit c =
     (if is_digit c then Some (digit_val c)
      else if CHR ''a'' \<le> c \<and> c \<le> CHR ''f'' then Some (of_char c - 87)
      else if CHR ''A'' \<le> c \<and> c \<le> CHR ''F'' then Some (of_char c - 55)
      else None)"

fun hex4 :: "string \<Rightarrow> (nat \<times> string) option" where
  "hex4 (a # b # c # d # s) =
     (case (hex_digit a, hex_digit b, hex_digit c, hex_digit d) of
        (Some p, Some q, Some r, Some t) \<Rightarrow> Some (((p * 16 + q) * 16 + r) * 16 + t, s)
      | _ \<Rightarrow> None)"
| "hex4 _ = None"

text \<open>The code unit of an escape \<open>\u....\<close> that follows, if one does (\<open>getu4\<close>).\<close>

fun next_unit :: "string \<Rightarrow> (nat \<times> string) option" where
  "next_unit (a # b # s) = (if a = CHR 0x5C \<and> b = CHR ''u'' then hex4 s else None)"
| "next_unit _ = None"

definition surrogate :: "nat \<Rightarrow> bool" where
  "surrogate r \<longleftrightarrow> 0xD800 \<le> r \<and> r \<le> 0xDFFF"

text \<open>One code unit, paired with the next one when both are a surrogate pair.\<close>

definition unescape_unit :: "nat \<Rightarrow> string \<Rightarrow> string \<times> string" where
  "unescape_unit r s =
     (if \<not> surrogate r then (utf8_encode r, s)
      else case next_unit s of
        Some (r1, s1) \<Rightarrow>
          if r < 0xDC00 \<and> 0xDC00 \<le> r1 \<and> r1 \<le> 0xDFFF
          then (utf8_encode ((r - 0xD800) * 1024 + (r1 - 0xDC00) + 0x10000), s1)
          else (utf8_encode 0xFFFD, s)
      | None \<Rightarrow> (utf8_encode 0xFFFD, s))"

definition simple_escape :: "char \<Rightarrow> char option" where
  "simple_escape c =
     (if c = CHR 0x22 \<or> c = CHR 0x5C \<or> c = CHR ''/'' then Some c
      else if c = CHR ''b'' then Some (CHR 0x08)
      else if c = CHR ''f'' then Some (CHR 0x0C)
      else if c = CHR ''n'' then Some (CHR 0x0A)
      else if c = CHR ''r'' then Some (CHR 0x0D)
      else if c = CHR ''t'' then Some (CHR 0x09)
      else None)"

lemma hex4_shorter: "hex4 s = Some (r, t) \<Longrightarrow> length t < length s"
  by (induction s rule: hex4.induct) (auto split: option.splits prod.splits)

lemma next_unit_shorter: "next_unit s = Some (r, t) \<Longrightarrow> length t < length s"
  by (induction s rule: next_unit.induct) (auto split: if_splits dest: hex4_shorter)

lemma unescape_unit_shorter: "unescape_unit r s = (u, t) \<Longrightarrow> length t \<le> length s"
  by (auto simp: unescape_unit_def split: if_splits option.splits dest!: next_unit_shorter)

text \<open>The body of a string literal after its opening quote, with the rest of the input.\<close>

function (sequential) parse_string :: "string \<Rightarrow> (string \<times> string) option" where
  "parse_string [] = None"
| "parse_string (c # s) =
     (if c = CHR 0x22 then Some ([], s)
      else if (of_char c :: nat) < 0x20 then None
      else if c \<noteq> CHR 0x5C then map_option (apfst (Cons c)) (parse_string s)
      else case s of
        [] \<Rightarrow> None
      | e # s1 \<Rightarrow>
          (if e = CHR ''u'' then
             (case hex4 s1 of
                None \<Rightarrow> None
              | Some (r, s2) \<Rightarrow>
                  map_option (apfst (append (fst (unescape_unit r s2)))) (parse_string (snd (unescape_unit r s2))))
           else case simple_escape e of
             None \<Rightarrow> None
           | Some x \<Rightarrow> map_option (apfst (Cons x)) (parse_string s1)))"
  by pat_completeness auto
termination
  by (relation "measure length")
    (auto dest!: hex4_shorter simp: less_Suc_eq_le intro: le_trans [OF unescape_unit_shorter [OF surjective_pairing]])

subsection \<open>Numbers\<close>

definition take_digits :: "string \<Rightarrow> string \<times> string" where
  "take_digits s = (takeWhile is_digit s, dropWhile is_digit s)"

text \<open>\<open>-?(0|[1-9][0-9]*)(\.[0-9]+)?([eE][+-]?[0-9]+)?\<close>: the literal and the rest of the input.\<close>

definition parse_fraction :: "string \<Rightarrow> (string \<times> string) option" where
  "parse_fraction s =
     (case s of
        [] \<Rightarrow> Some ([], s)
      | c # s1 \<Rightarrow>
          if c \<noteq> CHR ''.'' then Some ([], s)
          else if fst (take_digits s1) = [] then None
          else Some (c # fst (take_digits s1), snd (take_digits s1)))"

definition parse_exponent :: "string \<Rightarrow> (string \<times> string) option" where
  "parse_exponent s =
     (case s of
        [] \<Rightarrow> Some ([], s)
      | c # s1 \<Rightarrow>
          if c \<noteq> CHR ''e'' \<and> c \<noteq> CHR ''E'' then Some ([], s)
          else
            (let (sign, s2) = (case s1 of [] \<Rightarrow> ([], s1)
                 | x # r \<Rightarrow> if x = CHR ''+'' \<or> x = CHR ''-'' then ([x], r) else ([], s1))
             in if fst (take_digits s2) = [] then None
                else Some (c # sign @ fst (take_digits s2), snd (take_digits s2))))"

definition parse_integer :: "string \<Rightarrow> (string \<times> string) option" where
  "parse_integer s =
     (case s of
        [] \<Rightarrow> None
      | c # s1 \<Rightarrow>
          if c = CHR ''0'' then Some ([c], s1)
          else if is_digit c then Some (c # fst (take_digits s1), snd (take_digits s1))
          else None)"

definition parse_number :: "string \<Rightarrow> (string \<times> string) option" where
  "parse_number s =
     (let (sign, s1) = (case s of [] \<Rightarrow> ([], s)
          | c # r \<Rightarrow> if c = CHR ''-'' then ([c], r) else ([], s))
      in case parse_integer s1 of
           None \<Rightarrow> None
         | Some (i, s2) \<Rightarrow>
             (case parse_fraction s2 of
                None \<Rightarrow> None
              | Some (f, s3) \<Rightarrow>
                  (case parse_exponent s3 of
                     None \<Rightarrow> None
                   | Some (e, s4) \<Rightarrow> Some (sign @ i @ f @ e, s4))))"

subsection \<open>Values\<close>

definition parse_literal :: "string \<Rightarrow> json \<Rightarrow> string \<Rightarrow> (json \<times> string) option" where
  "parse_literal text v s =
     (if take (length text) s = text then Some (v, drop (length text) s) else None)"

text \<open>
  A value, the elements of an array and the members of an object, after leading space. The first
  argument bounds the recursion; \<open>parse_json\<close> gives it more than the length of the input, and every
  recursive call has consumed a character.
\<close>

fun parse_value :: "nat \<Rightarrow> string \<Rightarrow> (json \<times> string) option"
and parse_elements :: "nat \<Rightarrow> string \<Rightarrow> (json list \<times> string) option"
and parse_members :: "nat \<Rightarrow> string \<Rightarrow> ((string \<times> json) list \<times> string) option" where
  "parse_value 0 s = None"
| "parse_value (Suc n) s =
     (case skip_space s of
        [] \<Rightarrow> None
      | c # s1 \<Rightarrow>
          if c = CHR ''{'' then
            (case skip_space s1 of
               [] \<Rightarrow> None
             | d # s2 \<Rightarrow> if d = CHR ''}'' then Some (JObj [], s2)
                        else map_option (apfst JObj) (parse_members n (d # s2)))
          else if c = CHR ''['' then
            (case skip_space s1 of
               [] \<Rightarrow> None
             | d # s2 \<Rightarrow> if d = CHR '']'' then Some (JArr [], s2)
                        else map_option (apfst JArr) (parse_elements n (d # s2)))
          else if c = CHR 0x22 then map_option (apfst JStr) (parse_string s1)
          else if c = CHR ''n'' then parse_literal ''null'' JNull (c # s1)
          else if c = CHR ''t'' then parse_literal ''true'' (JBool True) (c # s1)
          else if c = CHR ''f'' then parse_literal ''false'' (JBool False) (c # s1)
          else map_option (apfst JNum) (parse_number (c # s1)))"
| "parse_elements 0 s = None"
| "parse_elements (Suc n) s =
     (case parse_value n s of
        None \<Rightarrow> None
      | Some (v, s1) \<Rightarrow>
          (case skip_space s1 of
             [] \<Rightarrow> None
           | d # s2 \<Rightarrow>
               if d = CHR '']'' then Some ([v], s2)
               else if d = CHR '','' then map_option (apfst (Cons v)) (parse_elements n s2)
               else None))"
| "parse_members 0 s = None"
| "parse_members (Suc n) s =
     (case skip_space s of
        [] \<Rightarrow> None
      | q # s1 \<Rightarrow>
          if q \<noteq> CHR 0x22 then None
          else case parse_string s1 of
            None \<Rightarrow> None
          | Some (k, s2) \<Rightarrow>
              (case skip_space s2 of
                 [] \<Rightarrow> None
               | d # s3 \<Rightarrow>
                   if d \<noteq> CHR '':'' then None
                   else case parse_value n s3 of
                     None \<Rightarrow> None
                   | Some (v, s4) \<Rightarrow>
                       (case skip_space s4 of
                          [] \<Rightarrow> None
                        | e # s5 \<Rightarrow>
                            if e = CHR ''}'' then Some ([(k, v)], s5)
                            else if e = CHR '','' then map_option (apfst (Cons (k, v))) (parse_members n s5)
                            else None)))"

definition parse_json :: "string \<Rightarrow> json option" where
  "parse_json s =
     (case parse_value (2 * length s + 2) s of
        None \<Rightarrow> None
      | Some (v, s1) \<Rightarrow> if skip_space s1 = [] then Some v else None)"

subsection \<open>The encoder\<close>

fun join :: "string \<Rightarrow> string list \<Rightarrow> string" where
  "join sep [] = []"
| "join sep [x] = x"
| "join sep (x # y # xs) = x @ sep @ join sep (y # xs)"

definition hex_lower :: "nat \<Rightarrow> char" where
  "hex_lower n = (if n < 10 then digit_char n else char_of (n + 87))"

text \<open>
  \<open>print_chars\<close> is the encoder's string escaping with HTML escaping off, on valid UTF-8: quote,
  backslash and control characters, and the line separators U+2028 and U+2029.
\<close>

definition print_char :: "char \<Rightarrow> string" where
  "print_char c =
     (if c = CHR 0x22 \<or> c = CHR 0x5C then [CHR 0x5C, c]
      else if c = CHR 0x0A then [CHR 0x5C, CHR ''n'']
      else if c = CHR 0x0D then [CHR 0x5C, CHR ''r'']
      else if c = CHR 0x09 then [CHR 0x5C, CHR ''t'']
      else if (of_char c :: nat) < 0x20 then
        [CHR 0x5C, CHR ''u'', CHR ''0'', CHR ''0'', hex_lower (of_char c div 16), hex_lower (of_char c mod 16)]
      else [c])"

fun print_chars :: "string \<Rightarrow> string" where
  "print_chars [] = []"
| "print_chars (c # s) =
     (if c = CHR 0xE2 \<and> take 2 s = [CHR 0x80, CHR 0xA8] then CHR 0x5C # ''u2028'' @ print_chars (drop 2 s)
      else if c = CHR 0xE2 \<and> take 2 s = [CHR 0x80, CHR 0xA9] then CHR 0x5C # ''u2029'' @ print_chars (drop 2 s)
      else print_char c @ print_chars s)"

definition print_string :: "string \<Rightarrow> string" where
  "print_string s = CHR 0x22 # print_chars s @ [CHR 0x22]"

fun print_json :: "json \<Rightarrow> string" where
  "print_json JNull = ''null''"
| "print_json (JBool b) = (if b then ''true'' else ''false'')"
| "print_json (JNum t) = t"
| "print_json (JStr s) = print_string s"
| "print_json (JArr vs) = ''['' @ join '','' (map print_json vs) @ '']''"
| "print_json (JObj kvs) =
     ''{'' @ join '','' (map (\<lambda>(k, v). print_string k @ '':'' @ print_json v) kvs) @ ''}''"

text \<open>
  \<open>json.Marshal\<close> keeps HTML escaping on: angle brackets and the ampersand are escaped too, and every
  byte that does not start a well-formed rune becomes the escape of U+FFFD. Strings are escaped as in
  Go 1.21, the version the module names. \<open>rune_width\<close> is the size of the rune a string starts with, 0
  when it is not well formed.
\<close>

definition rune_width :: "string \<Rightarrow> nat" where
  "rune_width s =
     (if s = [] then 0
      else if (of_char (hd s) :: nat) < 0x80 then 1
      else if (of_char (hd s) :: nat) \<le> 0xDF then (if 2 \<le> length s \<and> utf8_valid (take 2 s) then 2 else 0)
      else if (of_char (hd s) :: nat) \<le> 0xEF then (if 3 \<le> length s \<and> utf8_valid (take 3 s) then 3 else 0)
      else if 4 \<le> length s \<and> utf8_valid (take 4 s) then 4 else 0)"

definition html_char :: "char \<Rightarrow> string" where
  "html_char c =
     (if c = CHR ''<'' then CHR 0x5C # ''u003c'' else if c = CHR ''>'' then CHR 0x5C # ''u003e''
      else if c = CHR ''&'' then CHR 0x5C # ''u0026'' else print_char c)"

definition html_rune :: "string \<Rightarrow> string" where
  "html_rune u =
     (if u = [CHR 0xE2, CHR 0x80, CHR 0xA8] then CHR 0x5C # ''u2028''
      else if u = [CHR 0xE2, CHR 0x80, CHR 0xA9] then CHR 0x5C # ''u2029''
      else u)"

function html_chars :: "string \<Rightarrow> string" where
  "html_chars s =
     (if s = [] then []
      else if rune_width s = 0 then (CHR 0x5C # ''ufffd'') @ html_chars (tl s)
      else if rune_width s = 1 then html_char (hd s) @ html_chars (tl s)
      else html_rune (take (rune_width s) s) @ html_chars (drop (rune_width s) s))"
  by pat_completeness auto
termination by (relation "measure length") auto

declare html_chars.simps [simp del]

text \<open>The encoder over any escaping of strings; \<open>print_json\<close> and \<open>marshal_json\<close> are its two uses.\<close>

fun print_with :: "(string \<Rightarrow> string) \<Rightarrow> json \<Rightarrow> string" where
  "print_with chars JNull = ''null''"
| "print_with chars (JBool b) = (if b then ''true'' else ''false'')"
| "print_with chars (JNum t) = t"
| "print_with chars (JStr s) = CHR 0x22 # chars s @ [CHR 0x22]"
| "print_with chars (JArr vs) = ''['' @ join '','' (map (print_with chars) vs) @ '']''"
| "print_with chars (JObj kvs) =
     ''{'' @ join '','' (map (\<lambda>(k, v). CHR 0x22 # chars k @ CHR 0x22 # CHR '':'' # print_with chars v) kvs) @ ''}''"

definition marshal_json :: "json \<Rightarrow> string" where
  "marshal_json = print_with html_chars"

lemma print_json_with: "print_json v = print_with print_chars v"
  by (induction v) (auto simp: print_string_def intro!: arg_cong2 [where f = join] map_cong)

section \<open>Typed destinations\<close>

type_synonym 'a decoder = "'a \<Rightarrow> json \<Rightarrow> 'a result"

definition json_error :: "'a result" where
  "json_error = Inl (ErrorString ''json: cannot unmarshal value'')"

definition json_string :: "string decoder" where
  "json_string old j = (case j of JNull \<Rightarrow> Inr old | JStr s \<Rightarrow> Inr s | _ \<Rightarrow> json_error)"

definition json_bool :: "bool decoder" where
  "json_bool old j = (case j of JNull \<Rightarrow> Inr old | JBool b \<Rightarrow> Inr b | _ \<Rightarrow> json_error)"

text \<open>Unsigned integers of a width: \<open>ParseUint\<close> of the literal, which refuses \<open>1.0\<close> and \<open>1e2\<close>.\<close>

definition json_uint :: "'w::len word decoder" where
  "json_uint old j =
     (case j of
        JNull \<Rightarrow> Inr old
      | JNum t \<Rightarrow> (case parse_uint (LENGTH('w)) t of None \<Rightarrow> json_error | Some n \<Rightarrow> Inr (of_nat n))
      | _ \<Rightarrow> json_error)"

definition json_raw :: "raw_message decoder" where
  "json_raw old j = Inr (Some j)"

text \<open>A pointer: \<open>null\<close> is nil, anything else goes to the pointee, a fresh one if there is none.\<close>

definition json_ptr :: "'a \<Rightarrow> 'a decoder \<Rightarrow> 'a option decoder" where
  "json_ptr zero dec old j =
     (case j of
        JNull \<Rightarrow> Inr None
      | _ \<Rightarrow> (case dec (case old of None \<Rightarrow> zero | Some x \<Rightarrow> x) j of
               Inl e \<Rightarrow> Inl e | Inr x \<Rightarrow> Inr (Some x)))"

text \<open>
  A slice, nil as \<open>None\<close>: elements are decoded into the ones the slice already has. (Storage beyond
  the length of the slice, which a third spelling of the same field could reach, is not tracked.)
\<close>

fun decode_elements :: "'a \<Rightarrow> 'a decoder \<Rightarrow> 'a list \<Rightarrow> json list \<Rightarrow> 'a list result" where
  "decode_elements zero dec old [] = Inr []"
| "decode_elements zero dec old (j # js) =
     (case dec (case old of [] \<Rightarrow> zero | x # xs \<Rightarrow> x) j of
        Inl e \<Rightarrow> Inl e
      | Inr y \<Rightarrow> (case decode_elements zero dec (tl old) js of Inl e \<Rightarrow> Inl e | Inr ys \<Rightarrow> Inr (y # ys)))"

definition json_slice :: "'a \<Rightarrow> 'a decoder \<Rightarrow> 'a list option decoder" where
  "json_slice zero dec old j =
     (case j of
        JNull \<Rightarrow> Inr None
      | JArr js \<Rightarrow> (case decode_elements zero dec (case old of None \<Rightarrow> [] | Some xs \<Rightarrow> xs) js of
                     Inl e \<Rightarrow> Inl e | Inr ys \<Rightarrow> Inr (Some ys))
      | _ \<Rightarrow> json_error)"

text \<open>
  Field names are matched exactly, or else after folding case; besides the ASCII letters only
  U+017F and U+212A fold to an ASCII letter.
\<close>

fun fold_name :: "string \<Rightarrow> string" where
  "fold_name [] = []"
| "fold_name (c # s) =
     (if is_lower c then char_of ((of_char c :: nat) - 32) # fold_name s
      else if c = CHR 0xC5 \<and> take 1 s = [CHR 0xBF] then CHR ''S'' # fold_name (drop 1 s)
      else if c = CHR 0xE2 \<and> take 2 s = [CHR 0x84, CHR 0xAA] then CHR ''K'' # fold_name (drop 2 s)
      else c # fold_name s)"

definition find_field :: "string list \<Rightarrow> string \<Rightarrow> string option" where
  "find_field names k =
     (if k \<in> set names then Some k else find (\<lambda>f. fold_name f = fold_name k) names)"

fun decode_members :: "string list \<Rightarrow> (string \<Rightarrow> 'a decoder) \<Rightarrow> 'a \<Rightarrow> (string \<times> json) list \<Rightarrow> 'a result" where
  "decode_members names set_field old [] = Inr old"
| "decode_members names set_field old ((k, j) # kvs) =
     (case find_field names k of
        None \<Rightarrow> Inl (ErrorString ''json: unknown field'')
      | Some f \<Rightarrow>
          (case set_field f old j of
             Inl e \<Rightarrow> Inl e
           | Inr new \<Rightarrow> decode_members names set_field new kvs))"

definition decode_struct :: "string list \<Rightarrow> (string \<Rightarrow> 'a decoder) \<Rightarrow> 'a decoder" where
  "decode_struct names set_field old j =
     (case j of
        JNull \<Rightarrow> Inr old
      | JObj kvs \<Rightarrow> decode_members names set_field old kvs
      | _ \<Rightarrow> json_error)"

text \<open>Decoding one field: the getter and setter of the record field with the decoder of its type.\<close>

definition field :: "('a \<Rightarrow> 'f) \<Rightarrow> (('f \<Rightarrow> 'f) \<Rightarrow> 'a \<Rightarrow> 'a) \<Rightarrow> 'f decoder \<Rightarrow> 'a decoder" where
  "field sel upd dec old j =
     (case dec (sel old) j of Inl e \<Rightarrow> Inl e | Inr x \<Rightarrow> Inr (upd (\<lambda>_. x) old))"

section \<open>strictjson.go\<close>

definition maxNativeJSONRequestBytes :: nat where "maxNativeJSONRequestBytes = 32 * 2 ^ 20"
definition maxNativeJSONResultBytes :: nat where "maxNativeJSONResultBytes = 16 * 2 ^ 20"
definition revisionStreamInternalKeyspace :: string where
  "revisionStreamInternalKeyspace = ''__revision_stream_v1__''"

text \<open>\<open>duplicateKeyScanner.visit\<close> on the syntax tree of the scanned value.\<close>

fun visit :: "nat \<Rightarrow> json \<Rightarrow> unit result"
and visit_elements :: "nat \<Rightarrow> json list \<Rightarrow> unit result"
and visit_members :: "nat \<Rightarrow> string list \<Rightarrow> (string \<times> json) list \<Rightarrow> unit result" where
  "visit depth j =
     (if 128 < depth then Inl (ErrorString ''JSON nesting exceeds 128 levels'')
      else case j of
        JObj kvs \<Rightarrow> visit_members depth [] kvs
      | JArr js \<Rightarrow> visit_elements depth js
      | _ \<Rightarrow> Inr ())"
| "visit_elements depth [] = Inr ()"
| "visit_elements depth (j # js) =
     (case visit (Suc depth) j of Inl e \<Rightarrow> Inl e | Inr _ \<Rightarrow> visit_elements depth js)"
| "visit_members depth seen [] = Inr ()"
| "visit_members depth seen ((k, j) # kvs) =
     (if k \<in> set seen then Inl (ErrorString (''duplicate JSON key '' @ quoted k))
      else case visit (Suc depth) j of
        Inl e \<Rightarrow> Inl e
      | Inr _ \<Rightarrow> visit_members depth (k # seen) kvs)"

text \<open>\<open>decodeStrictJSON\<close> on a raw message, whose bytes are one value, and on received bytes.\<close>

definition decodeStrictRaw :: "'a decoder \<Rightarrow> 'a decoder" where
  "decodeStrictRaw dec old j = (case visit 0 j of Inl e \<Rightarrow> Inl e | Inr _ \<Rightarrow> dec old j)"

definition decodeStrictJSON :: "'a decoder \<Rightarrow> 'a \<Rightarrow> string \<Rightarrow> 'a result" where
  "decodeStrictJSON dec old data =
     (if \<not> utf8_valid data then Inl (ErrorString ''JSON is not valid UTF-8'')
      else case parse_json data of
        None \<Rightarrow> Inl (ErrorString ''invalid JSON'')
      | Some j \<Rightarrow> decodeStrictRaw dec old j)"

end
