(* ===== verification/JsonRoundtrip.thy ===== *)
theory JsonRoundtrip
  imports Json
begin

text \<open>
  The encoder and the parser of \<open>Json\<close> are inverse: what \<open>print_json\<close> writes, \<open>parse_json\<close> reads
  back, for every tree whose numbers are decimal integers. In particular the recursion bound of
  \<open>parse_json\<close> is enough for every such text.
\<close>

section \<open>Strings\<close>

lemma hex_digit_lower_all: "\<forall>n\<in>{0..<16}. hex_digit (hex_lower n) = Some n"
  by code_simp

lemma hex_digit_lower: "n < 16 \<Longrightarrow> hex_digit (hex_lower n) = Some n"
  using hex_digit_lower_all by simp

lemma control_escape:
  assumes "(of_char c :: nat) < 32"
  shows "hex4 (CHR ''0'' # CHR ''0'' # hex_lower (of_char c div 16) # hex_lower (of_char c mod 16) # r)
      = Some (of_char c, r)"
    and "unescape_unit (of_char c) r = ([c], r)"
proof -
  have "of_char c div 16 < (16 :: nat)" "of_char c mod 16 < (16 :: nat)" using assms by simp_all
  moreover have "hex_digit (CHR ''0'') = Some 0" by code_simp
  ultimately show "hex4 (CHR ''0'' # CHR ''0'' # hex_lower (of_char c div 16) # hex_lower (of_char c mod 16) # r)
      = Some (of_char c, r)" by (simp add: hex_digit_lower)
  show "unescape_unit (of_char c) r = ([c], r)"
    using assms by (simp add: unescape_unit_def surrogate_def utf8_encode_def)
qed

lemma append_single: "(@) [c] = (#) c"
  by auto

lemma parse_print_char:
  "parse_string (print_char c @ r) = map_option (apfst (Cons c)) (parse_string r)"
proof -
  consider "c = CHR 0x22" | "c = CHR 0x5C" | "c = CHR 0x0A" | "c = CHR 0x0D" | "c = CHR 0x09"
    | "(of_char c :: nat) < 32" "c \<notin> {CHR 0x22, CHR 0x5C, CHR 0x0A, CHR 0x0D, CHR 0x09}"
    | "\<not> (of_char c :: nat) < 32" "c \<notin> {CHR 0x22, CHR 0x5C, CHR 0x0A, CHR 0x0D, CHR 0x09}" by auto
  then show ?thesis
  proof cases
    case 6
    then have "print_char c = [CHR 0x5C, CHR ''u'', CHR ''0'', CHR ''0'', hex_lower (of_char c div 16), hex_lower (of_char c mod 16)]"
      by (simp add: print_char_def)
    then show ?thesis
      using control_escape [OF 6(1)] by (simp add: append_single del: hex4.simps)
  qed (simp_all add: print_char_def simple_escape_def)
qed

lemma hex_digit_values:
  "hex_digit (CHR ''0'') = Some 0" "hex_digit (CHR ''2'') = Some 2"
  "hex_digit (CHR ''8'') = Some 8" "hex_digit (CHR ''9'') = Some 9"
  by (simp_all add: hex_digit_def is_digit_def digit_val_def)

lemma line_separators:
  "hex4 (CHR ''2'' # CHR ''0'' # CHR ''2'' # CHR ''8'' # r) = Some (0x2028, r)"
  "hex4 (CHR ''2'' # CHR ''0'' # CHR ''2'' # CHR ''9'' # r) = Some (0x2029, r)"
  by (simp_all add: hex_digit_values)

lemma line_separator_chars:
  "utf8_encode 0x2028 = [CHR 0xE2, CHR 0x80, CHR 0xA8]" "utf8_encode 0x2029 = [CHR 0xE2, CHR 0x80, CHR 0xA9]"
  by (simp_all add: utf8_encode_def char_of_def bit_Suc_0_iff)

lemma unescape_line_separators:
  "unescape_unit 0x2028 r = (utf8_encode 0x2028, r)" "unescape_unit 0x2029 r = (utf8_encode 0x2029, r)"
  by (simp_all add: unescape_unit_def surrogate_def)

lemma parse_string_quote: "parse_string (CHR 0x22 # r) = Some ([], r)"
  by simp

lemma take2_drop: "take 2 s = [a, b] \<Longrightarrow> s = a # b # drop 2 s"
  by (metis append_Cons append_Nil append_take_drop_id)

lemma parse_print_chars: "parse_string (print_chars s @ CHR 0x22 # r) = Some (s, r)"
proof (induction s rule: print_chars.induct)
  case (2 c s)
  note pc = parse_print_char [of c "print_chars s @ CHR 0x22 # r"]
  consider "c = CHR 0xE2" "take 2 s = [CHR 0x80, CHR 0xA8]" | "c = CHR 0xE2" "take 2 s = [CHR 0x80, CHR 0xA9]"
    | "print_chars (c # s) = print_char c @ print_chars s"
      "\<not> (c = CHR 0xE2 \<and> take 2 s = [CHR 0x80, CHR 0xA8])" "\<not> (c = CHR 0xE2 \<and> take 2 s = [CHR 0x80, CHR 0xA9])"
    by auto
  then show ?case
  proof cases
    case 1
    with 2(1) show ?thesis
      using take2_drop [OF 1(2)] by (simp add: line_separators line_separator_chars unescape_line_separators del: hex4.simps)
  next
    case 2
    with "2.IH"(2) show ?thesis
      using take2_drop [OF 2(2)] by (simp add: line_separators line_separator_chars unescape_line_separators del: hex4.simps)
  next
    case 3
    then show ?thesis using pc "2.IH"(3) by (simp only: append.assoc simp_thms) simp
  qed
qed simp

section \<open>Numbers\<close>

definition ends_number :: "string \<Rightarrow> bool" where
  "ends_number r \<longleftrightarrow> (case r of [] \<Rightarrow> True | c # _ \<Rightarrow> c = CHR '','' \<or> c = CHR '']'' \<or> c = CHR ''}'')"

lemma ends_number_fraction: "ends_number r \<Longrightarrow> parse_fraction r = Some ([], r) \<and> parse_exponent r = Some ([], r)"
  by (auto simp: ends_number_def parse_fraction_def parse_exponent_def split: list.splits)

lemma ends_number_digits: "ends_number r \<Longrightarrow> list_all is_digit ds \<Longrightarrow> take_digits (ds @ r) = (ds, r)"
  by (induction ds) (auto simp: ends_number_def take_digits_def is_digit_def split: list.splits)

lemma hd_nat_str_zero: "hd (nat_str n) = CHR ''0'' \<Longrightarrow> n = 0"
proof (induction n rule: nat_str.induct)
  case (1 n)
  have "hd (nat_str n) = (if n < 10 then digit_char n else hd (nat_str (n div 10)))"
    by (subst nat_str.simps) simp
  moreover have "digit_char n = CHR ''0'' \<Longrightarrow> n < 10 \<Longrightarrow> n = 0"
    using digit_char_digit(2) [of n] by (simp add: digit_val_def)
  ultimately show ?case using 1 by (auto split: if_splits)
qed

lemma nat_str_0 [simp]: "nat_str 0 = ''0''"
  by code_simp

lemma parse_integer_nat_str:
  assumes "ends_number r"
  shows "parse_integer (nat_str n @ r) = Some (nat_str n, r)"
proof (cases "n = 0")
  case False
  obtain c cs where c: "nat_str n = c # cs" by (cases "nat_str n") auto
  have "is_digit c" "list_all is_digit cs" using list_all_digit_nat_str [of n] c by auto
  moreover have "c \<noteq> CHR ''0''" using hd_nat_str_zero [of n] c False by auto
  ultimately show ?thesis using assms c by (simp add: parse_integer_def ends_number_digits)
qed (simp add: parse_integer_def)

lemma parse_number_int_str:
  assumes "ends_number r"
  shows "parse_number (int_str i @ r) = Some (int_str i, r)"
proof (cases "i < 0")
  case True
  then show ?thesis
    using parse_integer_nat_str [OF assms] ends_number_fraction [OF assms]
    by (simp add: parse_number_def int_str_def)
next
  case False
  obtain c cs where c: "nat_str (nat i) = c # cs" by (cases "nat_str (nat i)") auto
  then have "c \<noteq> CHR ''-''" using hd_nat_str_digit [of "nat i"] not_digit_sign(1) by auto
  then show ?thesis
    using False c parse_integer_nat_str [OF assms, of "nat i"] ends_number_fraction [OF assms]
    by (simp add: parse_number_def int_str_def)
qed

section \<open>Values\<close>

text \<open>Trees with decimal integers only.\<close>

fun printable :: "json \<Rightarrow> bool" where
  "printable (JNum t) = (\<exists>i. t = int_str i)"
| "printable (JArr vs) = (\<forall>v\<in>set vs. printable v)"
| "printable (JObj kvs) = (\<forall>kv\<in>set kvs. printable (snd kv))"
| "printable _ = True"

text \<open>The strings of a tree, member names included, satisfy a predicate.\<close>

fun json_strings :: "(string \<Rightarrow> bool) \<Rightarrow> json \<Rightarrow> bool" where
  "json_strings good (JStr s) = good s"
| "json_strings good (JArr vs) = (\<forall>v\<in>set vs. json_strings good v)"
| "json_strings good (JObj kvs) = (\<forall>kv\<in>set kvs. good (fst kv) \<and> json_strings good (snd kv))"
| "json_strings good _ = True"

abbreviation print_member :: "(string \<Rightarrow> string) \<Rightarrow> string \<times> json \<Rightarrow> string" where
  "print_member chars \<equiv> \<lambda>(k, v). CHR 0x22 # chars k @ CHR 0x22 # CHR '':'' # print_with chars v"

definition json_reads_back :: "(string \<Rightarrow> string) \<Rightarrow> json \<Rightarrow> bool" where
  "json_reads_back chars v \<longleftrightarrow> (\<forall>n r. length (print_with chars v) \<le> n \<longrightarrow> ends_number r \<longrightarrow>
     parse_value n (print_with chars v @ r) = Some (v, r))"

lemma int_str_first: "\<exists>c cs. int_str i = c # cs \<and> (c = CHR ''-'' \<or> is_digit c)"
proof (cases "i < 0")
  case False
  obtain c cs where "nat_str (nat i) = c # cs" by (cases "nat_str (nat i)") auto
  then show ?thesis using False hd_nat_str_digit [of "nat i"] by (auto simp: int_str_def)
qed (simp add: int_str_def)

lemma digit_not_special:
  "is_digit c \<or> c = CHR ''-'' \<Longrightarrow> c \<notin> {CHR ''{'', CHR ''['', CHR 0x22, CHR ''n'', CHR ''t'', CHR ''f'', CHR '']'', CHR ''}''} \<and> \<not> is_space c"
  by (auto simp: is_digit_def is_space_def)

lemma skip_space_cons: "\<not> is_space c \<Longrightarrow> skip_space (c # s) = c # s"
  by (simp add: skip_space_def)

lemma skip_space_ends: "ends_number r \<Longrightarrow> skip_space r = r"
  by (auto simp: ends_number_def skip_space_def is_space_def split: list.splits)

lemma join_cons: "js \<noteq> [] \<Longrightarrow> join sep (x # js) = x @ sep @ join sep js"
  by (cases js) simp_all

text \<open>What the encoder needs of an escaping: the parser reads every good string back up to the closing quote.\<close>

locale string_escaping =
  fixes chars :: "string \<Rightarrow> string"
    and good :: "string \<Rightarrow> bool"
  assumes parse_chars: "good s \<Longrightarrow> parse_string (chars s @ CHR 0x22 # r) = Some (s, r)"
begin

lemma print_first:
  assumes "printable v"
  obtains c cs where "print_with chars v = c # cs" "\<not> is_space c" "c \<noteq> CHR '']''" "c \<noteq> CHR ''}''"
proof (cases v)
  case (JNum t)
  then obtain i where i: "t = int_str i" using assms by auto
  obtain c cs where c: "int_str i = c # cs" "c = CHR ''-'' \<or> is_digit c" using int_str_first by blast
  show ?thesis
  proof (rule that)
    show "print_with chars v = c # cs" using JNum i c(1) by simp
    show "\<not> is_space c" "c \<noteq> CHR '']''" "c \<noteq> CHR ''}''" using digit_not_special [of c] c(2) by blast+
  qed
next
  case (JBool b)
  then show ?thesis by (cases b) (auto intro: that simp: is_space_def)
qed (auto intro: that simp: is_space_def)

lemma reads_back_scalars:
  "json_reads_back chars JNull" "json_reads_back chars (JBool b)" "good s \<Longrightarrow> json_reads_back chars (JStr s)" "json_reads_back chars (JNum (int_str i))"
proof -
  have *: "\<exists>m. n = Suc m" if "Suc k \<le> n" for n k :: nat using that by (cases n) auto
  show "json_reads_back chars JNull" "json_reads_back chars (JBool b)"
    unfolding json_reads_back_def by (auto dest!: * simp: skip_space_cons is_space_def parse_literal_def)
  show "good s \<Longrightarrow> json_reads_back chars (JStr s)"
    unfolding json_reads_back_def
    by (auto dest!: * simp: skip_space_cons is_space_def parse_chars)
  obtain c cs where c: "int_str i = c # cs" "c = CHR ''-'' \<or> is_digit c" using int_str_first by blast
  have "parse_number (c # cs @ r) = Some (c # cs, r)" if "ends_number r" for r
    using parse_number_int_str [OF that, of i] c(1) by simp
  then show "json_reads_back chars (JNum (int_str i))"
    unfolding json_reads_back_def using c digit_not_special [of c] by (auto dest!: * simp: skip_space_cons)
qed

lemma parse_elements_join:
  assumes "js \<noteq> []" "\<forall>v\<in>set js. json_reads_back chars v" "length (join '','' (map (print_with chars) js)) < n"
  shows "parse_elements n (join '','' (map (print_with chars) js) @ CHR '']'' # r) = Some (js, r)"
  using assms
proof (induction js arbitrary: n)
  case (Cons v js)
  obtain m where m: "n = Suc m" using Cons.prems(3) by (cases n) auto
  let ?rest = "if js = [] then CHR '']'' # r else CHR '','' # join '','' (map (print_with chars) js) @ CHR '']'' # r"
  have j: "join '','' (map (print_with chars) (v # js)) @ CHR '']'' # r = print_with chars v @ ?rest"
    by (cases js) simp_all
  have l: "length (print_with chars v) \<le> m" "js \<noteq> [] \<Longrightarrow> length (join '','' (map (print_with chars) js)) < m"
    using Cons.prems(3) m by (cases js; simp)+
  have e: "ends_number ?rest" by (simp add: ends_number_def)
  have "parse_value m (print_with chars v @ ?rest) = Some (v, ?rest)"
    using Cons.prems(2) l(1) e unfolding json_reads_back_def by auto
  then show ?case
    unfolding j m using Cons l(2) skip_space_ends [OF e] by (auto split: if_splits)
qed simp

lemma parse_members_join:
  assumes "kvs \<noteq> []" "\<forall>kv\<in>set kvs. good (fst kv) \<and> json_reads_back chars (snd kv)" "length (join '','' (map (print_member chars) kvs)) < n"
  shows "parse_members n (join '','' (map (print_member chars) kvs) @ CHR ''}'' # r) = Some (kvs, r)"
  using assms
proof (induction kvs arbitrary: n)
  case (Cons kv kvs)
  obtain k v where kv: "kv = (k, v)" by (cases kv)
  obtain m where m: "n = Suc m" using Cons.prems(3) by (cases n) auto
  let ?rest = "if kvs = [] then CHR ''}'' # r else CHR '','' # join '','' (map (print_member chars) kvs) @ CHR ''}'' # r"
  have j: "join '','' (map (print_member chars) (kv # kvs)) @ CHR ''}'' # r
      = CHR 0x22 # chars k @ CHR 0x22 # CHR '':'' # print_with chars v @ ?rest"
    by (cases kvs) (simp_all add: kv print_string_def)
  have l: "length (print_with chars v) \<le> m" "kvs \<noteq> [] \<Longrightarrow> length (join '','' (map (print_member chars) kvs)) < m"
    using Cons.prems(3) m by (cases kvs; simp add: kv print_string_def)+
  have e: "ends_number ?rest" by (simp add: ends_number_def)
  have "parse_value m (print_with chars v @ ?rest) = Some (v, ?rest)"
    using Cons.prems(2) l(1) e kv unfolding json_reads_back_def by auto
  then show ?case
    unfolding j m using Cons kv l(2) skip_space_ends [OF e]
    by (auto simp: skip_space_cons is_space_def parse_chars split: if_splits)
qed simp

lemma join_first:
  assumes "js \<noteq> []" "\<forall>v\<in>set js. printable v"
  obtains c cs where "join '','' (map (print_with chars) js) = c # cs" "\<not> is_space c" "c \<noteq> CHR '']''"
proof (cases js)
  case (Cons v vs)
  then obtain c cs where "print_with chars v = c # cs" "\<not> is_space c" "c \<noteq> CHR '']''"
    using assms print_first [of v] by (metis list.set_intros(1))
  then show ?thesis using that Cons by (cases vs) auto
qed (use assms in simp)

lemma reads_back_arr:
  assumes "\<forall>v\<in>set vs. json_reads_back chars v" "\<forall>v\<in>set vs. printable v"
  shows "json_reads_back chars (JArr vs)"
proof (cases "vs = []")
  case True
  then show ?thesis
    unfolding json_reads_back_def
    by (auto simp: skip_space_cons is_space_def dest!: Suc_le_D)
next
  case False
  show ?thesis unfolding json_reads_back_def
  proof (intro allI impI)
    fix n r assume "length (print_with chars (JArr vs)) \<le> n"
    then obtain m where m: "n = Suc m" "length (join '','' (map (print_with chars) vs)) < m" by (cases n) auto
    obtain c cs where c: "join '','' (map (print_with chars) vs) = c # cs" "\<not> is_space c" "c \<noteq> CHR '']''"
      using join_first [OF False assms(2)] by blast
    have "parse_elements m (c # cs @ CHR '']'' # r) = Some (vs, r)"
      using parse_elements_join [OF False assms(1) m(2)] c(1) by simp
    then show "parse_value n (print_with chars (JArr vs) @ r) = Some (JArr vs, r)"
      using c by (simp add: m(1) skip_space_cons is_space_def)
  qed
qed

lemma reads_back_obj:
  assumes "\<forall>kv\<in>set kvs. good (fst kv) \<and> json_reads_back chars (snd kv)"
  shows "json_reads_back chars (JObj kvs)"
proof (cases "kvs = []")
  case True
  then show ?thesis
    unfolding json_reads_back_def
    by (auto simp: skip_space_cons is_space_def dest!: Suc_le_D)
next
  case False
  show ?thesis unfolding json_reads_back_def
  proof (intro allI impI)
    fix n r assume "length (print_with chars (JObj kvs)) \<le> n"
    then obtain m where m: "n = Suc m" "length (join '','' (map (print_member chars) kvs)) < m" by (cases n) auto
    obtain cs where c: "join '','' (map (print_member chars) kvs) = CHR 0x22 # cs"
      using False by (cases kvs; cases "tl kvs") (auto simp: split: prod.splits)
    have "parse_members m (CHR 0x22 # cs @ CHR ''}'' # r) = Some (kvs, r)"
      using parse_members_join [OF False assms m(2)] c by simp
    then show "parse_value n (print_with chars (JObj kvs) @ r) = Some (JObj kvs, r)"
      using c by (simp add: m(1) skip_space_cons is_space_def)
  qed
qed

lemma printable_reads_back: "printable v \<Longrightarrow> json_strings good v \<Longrightarrow> json_reads_back chars v"
proof (induction v)
  case (JArr vs)
  then show ?case by (intro reads_back_arr) auto
next
  case (JObj kvs)
  then show ?case by (intro reads_back_obj) (fastforce simp: snds.simps)
qed (auto simp: reads_back_scalars)

lemma parse_print_with:
  assumes "printable v" "json_strings good v"
  shows "parse_json (print_with chars v) = Some v"
proof -
  have "parse_value (2 * length (print_with chars v) + 2) (print_with chars v @ []) = Some (v, [])"
    by (rule printable_reads_back [OF assms, unfolded json_reads_back_def, rule_format]) (simp_all add: ends_number_def)
  then show ?thesis by (simp only: parse_json_def append_Nil2) (simp add: skip_space_def)
qed

end

interpretation plain: string_escaping print_chars "\<lambda>_. True"
  by unfold_locales (rule parse_print_chars)

lemma json_strings_True [simp]: "json_strings (\<lambda>_. True) v"
  by (induction v) auto

lemma parse_print_json: "printable v \<Longrightarrow> parse_json (print_json v) = Some v"
  by (simp add: print_json_with plain.parse_print_with)

section \<open>HTML escaping\<close>

lemma valid_head:
  assumes "utf8_valid s" "s \<noteq> []" "\<not> (of_char (hd s) :: nat) < 0x80"
  obtains c c1 r where "s = [c, c1] @ r" "(of_char c :: nat) \<le> 0xDF" "utf8_valid [c, c1]" "utf8_valid r"
  | c c1 c2 r where "s = [c, c1, c2] @ r" "0xDF < (of_char c :: nat)" "(of_char c :: nat) \<le> 0xEF" "utf8_valid [c, c1, c2]" "utf8_valid r"
  | c c1 c2 c3 r where "s = [c, c1, c2, c3] @ r" "0xEF < (of_char c :: nat)" "utf8_valid [c, c1, c2, c3]" "utf8_valid r"
proof -
  obtain c t where s: "s = c # t" using assms(2) by (cases s) auto
  consider "(of_char c :: nat) \<le> 0xDF" | "0xDF < (of_char c :: nat)" "(of_char c :: nat) \<le> 0xEF" | "0xEF < (of_char c :: nat)" by linarith
  then show thesis
  proof cases
    case 1
    then obtain c1 r where "t = c1 # r" using assms by (cases t) (simp_all add: s)
    moreover from this have "0xC2 \<le> (of_char c :: nat)" using assms 1 by (auto simp: s Let_def split: list.splits if_splits)
    ultimately show thesis using assms 1 by (intro that(1)) (auto simp: s Let_def)
  next
    case 2
    then obtain c1 c2 r where "t = c1 # c2 # r" using assms(1) unfolding s by (simp add: Let_def split: list.splits)
    moreover from this have "utf8_valid [c, c1, c2] \<and> utf8_valid r" using assms(1) 2 unfolding s by (simp add: Let_def)
    ultimately show thesis using 2 by (intro that(2)) (auto simp only: s append.simps)
  next
    case 3
    then have "3 \<le> length t" using assms(1) unfolding s by (simp add: Let_def split: list.splits)
    then obtain c1 c2 c3 r where "t = c1 # c2 # c3 # r" by (auto simp: numeral_3_eq_3 Suc_le_length_iff)
    moreover from this have "utf8_valid [c, c1, c2, c3] \<and> utf8_valid r" using assms(1) 3 unfolding s by (simp add: Let_def del: One_nat_def)
    ultimately show thesis using 3 by (intro that(3)) (auto simp only: s append.simps)
  qed
qed

text \<open>A rune of more than one byte, and induction over the runes of well-formed text.\<close>

definition wide_rune :: "string \<Rightarrow> bool" where
  "wide_rune u \<longleftrightarrow> utf8_valid u \<and> list_all (\<lambda>c. 0x80 \<le> (of_char c :: nat)) u \<and> 2 \<le> length u
     \<and> (\<forall>t. rune_width (u @ t) = length u \<and> utf8_valid (u @ t) = utf8_valid t)"

lemma wide_rune_head:
  assumes "utf8_valid s" "s \<noteq> []" "\<not> (of_char (hd s) :: nat) < 0x80"
  obtains u r where "s = u @ r" "wide_rune u" "utf8_valid r"
  using assms
proof (cases rule: valid_head)
  case (1 c c1 r)
  then have "wide_rune [c, c1]" using assms(3) by (auto simp: wide_rune_def rune_width_def continuation_def Let_def split: if_splits)
  then show thesis using that 1 by blast
next
  case (2 c c1 c2 r)
  then have "wide_rune [c, c1, c2]" by (simp add: wide_rune_def rune_width_def continuation_def Let_def split: if_splits)
  then show thesis using that 2 by blast
next
  case (3 c c1 c2 c3 r)
  moreover have "240 \<le> (of_char c :: nat)" using 3(2) by simp
  ultimately have "wide_rune [c, c1, c2, c3]" by (simp add: wide_rune_def rune_width_def continuation_def Let_def split: if_splits)
  then show thesis using that 3 by blast
qed

lemma utf8_induct [consumes 1, case_names Empty Ascii Wide]:
  assumes "utf8_valid s" "P []" "\<And>c s. (of_char c :: nat) < 0x80 \<Longrightarrow> utf8_valid s \<Longrightarrow> P s \<Longrightarrow> P (c # s)"
    "\<And>u s. wide_rune u \<Longrightarrow> utf8_valid s \<Longrightarrow> P s \<Longrightarrow> P (u @ s)"
  shows "P s"
  using assms(1)
proof (induction "length s" arbitrary: s rule: less_induct)
  case less
  consider "s = []" | c r where "s = c # r" "(of_char c :: nat) < 0x80" | "s \<noteq> []" "\<not> (of_char (hd s) :: nat) < 0x80"
    by (cases s) auto
  then show ?case
  proof cases
    case (2 c r)
    then show ?thesis using less by (intro ssubst [OF 2(1), of P] assms(3)) simp_all
  next
    case 3
    obtain u r where u: "s = u @ r" "wide_rune u" "utf8_valid r" using wide_rune_head [OF less.prems 3] .
    then have "length r < length s" by (auto simp: wide_rune_def)
    then have "P r" using less.hyps u(3) by blast
    then show ?thesis using assms(4) u by blast
  qed (simp add: assms(2))
qed

lemma utf8_valid_append: "utf8_valid s \<Longrightarrow> utf8_valid (s @ t) = utf8_valid t"
  by (induction s rule: utf8_induct) (auto simp: wide_rune_def)

lemma html_chars_simps:
  "html_chars [] = []" "(of_char c :: nat) < 0x80 \<Longrightarrow> html_chars (c # s) = html_char c @ html_chars s"
  "wide_rune u \<Longrightarrow> html_chars (u @ s) = html_rune u @ html_chars s"
proof -
  show "html_chars [] = []" by (simp add: html_chars.simps)
  show "(of_char c :: nat) < 0x80 \<Longrightarrow> html_chars (c # s) = html_char c @ html_chars s"
    by (subst html_chars.simps) (simp add: rune_width_def)
  assume "wide_rune u"
  then have "rune_width (u @ s) = length u" "u \<noteq> []" "2 \<le> length u" by (auto simp: wide_rune_def)
  then show "html_chars (u @ s) = html_rune u @ html_chars s" by (subst html_chars.simps) simp
qed

lemma parse_high_chars:
  "list_all (\<lambda>c. 0x80 \<le> (of_char c :: nat)) xs \<Longrightarrow> parse_string (xs @ r) = map_option (apfst (append xs)) (parse_string r)"
  by (induction xs) (auto simp: map_option_case apfst_def split: option.splits)

lemma parse_html_char:
  "parse_string (html_char c @ r) = map_option (apfst (Cons c)) (parse_string r)"
proof -
  have "hex_digit (CHR ''0'') = Some 0" "hex_digit (CHR ''2'') = Some 2" "hex_digit (CHR ''3'') = Some 3" "hex_digit (CHR ''6'') = Some 6"
    "hex_digit (CHR ''c'') = Some 12" "hex_digit (CHR ''e'') = Some 14" by code_simp+
  then have "hex4 (''003c'' @ r) = Some (60, r)" "hex4 (''003e'' @ r) = Some (62, r)" "hex4 (''0026'' @ r) = Some (38, r)" by simp_all
  moreover have "unescape_unit 60 r = ([CHR ''<''], r)" "unescape_unit 62 r = ([CHR ''>''], r)" "unescape_unit 38 r = ([CHR ''&''], r)"
    by (simp_all add: unescape_unit_def surrogate_def utf8_encode_def char_of_def bit_Suc_0_iff)
  ultimately show ?thesis using parse_print_char [of c r] by (auto simp: html_char_def append_single simp del: hex4.simps)
qed

lemma parse_html_rune:
  assumes "wide_rune u" shows "parse_string (html_rune u @ r) = map_option (apfst (append u)) (parse_string r)"
  using assms parse_high_chars [of u r]
  by (auto simp: html_rune_def wide_rune_def line_separators line_separator_chars unescape_line_separators simp del: hex4.simps)

lemma html_chars_parse: "utf8_valid s \<Longrightarrow> parse_string (html_chars s @ CHR 0x22 # r) = Some (s, r)"
  by (induction s rule: utf8_induct) (simp_all add: html_chars_simps parse_html_char parse_html_rune)

section \<open>ASCII texts\<close>

definition ascii :: "string \<Rightarrow> bool" where
  "ascii s \<longleftrightarrow> list_all (\<lambda>c. (of_char c :: nat) < 128) s"

lemma ascii_simps [simp]: "ascii []" "ascii (c # s) \<longleftrightarrow> (of_char c :: nat) < 128 \<and> ascii s"
  "ascii (s @ t) \<longleftrightarrow> ascii s \<and> ascii t"
  by (auto simp: ascii_def)

lemma utf8_valid_ascii: "ascii s \<Longrightarrow> utf8_valid s"
  by (induction s) (simp_all add: Let_def)

fun ascii_json :: "json \<Rightarrow> bool" where
  "ascii_json (JStr s) = ascii s"
| "ascii_json (JArr vs) = (\<forall>v\<in>set vs. ascii_json v)"
| "ascii_json (JObj kvs) = (\<forall>kv\<in>set kvs. ascii (fst kv) \<and> ascii_json (snd kv))"
| "ascii_json _ = True"

lemma hex_lower_ascii: "n < 16 \<Longrightarrow> (of_char (hex_lower n) :: nat) < 128"
  by (auto simp: hex_lower_def digit_char_def)

lemma print_char_ascii:
  assumes "(of_char c :: nat) < 128"
  shows "ascii (print_char c)"
proof -
  have "(of_char c :: nat) div 16 < 16" "(of_char c :: nat) mod 16 < 16" using assms by simp_all
  then show ?thesis using assms by (auto simp: print_char_def hex_lower_ascii)
qed

lemma print_chars_ascii: "ascii s \<Longrightarrow> ascii (print_chars s)"
proof (induction s)
  case (Cons c s)
  then have "c \<noteq> CHR 0xE2" by auto
  with Cons show ?case by (simp add: print_char_ascii)
qed simp

lemma nat_str_ascii: "ascii (nat_str n)"
  using list_all_digit_nat_str [of n] by (auto simp: ascii_def list_all_iff is_digit_def less_eq_char_def)

lemma join_ascii: "ascii sep \<Longrightarrow> list_all ascii xs \<Longrightarrow> ascii (join sep xs)"
  by (induction sep xs rule: join.induct) auto

lemma print_json_ascii: "printable v \<Longrightarrow> ascii_json v \<Longrightarrow> ascii (print_json v)"
proof (induction v)
  case (JNum t)
  then show ?case by (auto simp: int_str_def nat_str_ascii)
next
  case (JArr vs)
  then show ?case by (auto simp: list_all_iff intro!: join_ascii)
next
  case (JObj kvs)
  then show ?case
    by (auto simp: list_all_iff print_string_def snds.simps intro!: join_ascii print_chars_ascii) fastforce+
qed (auto simp: print_string_def print_chars_ascii)

text \<open>On the text of an ASCII tree, \<open>decodeStrictJSON\<close> decodes the tree.\<close>

lemma decodeStrictJSON_print:
  "printable v \<Longrightarrow> ascii_json v \<Longrightarrow> decodeStrictJSON dec old (print_json v) = decodeStrictRaw dec old v"
  by (simp add: decodeStrictJSON_def utf8_valid_ascii print_json_ascii parse_print_json)

section \<open>Texts in UTF-8\<close>

lemma join_utf8: "utf8_valid sep \<Longrightarrow> list_all utf8_valid xs \<Longrightarrow> utf8_valid (join sep xs)"
  by (induction sep xs rule: join.induct) (auto simp: utf8_valid_append)

text \<open>An escaping that keeps the text well formed: then \<open>decodeStrictJSON\<close> of the text decodes the tree.\<close>

locale utf8_escaping = string_escaping +
  assumes chars_valid: "good s \<Longrightarrow> utf8_valid (chars s)"
begin

lemma print_with_valid: "printable v \<Longrightarrow> json_strings good v \<Longrightarrow> utf8_valid (print_with chars v)"
proof (induction v)
  case (JNum t)
  then show ?case by (auto simp: int_str_def nat_str_ascii intro!: utf8_valid_ascii)
next
  case (JArr vs)
  then have "utf8_valid (join '','' (map (print_with chars) vs))" by (intro join_utf8) (auto simp: list_all_iff)
  then show ?case by (simp add: utf8_valid_append)
next
  case (JObj kvs)
  then have "utf8_valid (join '','' (map (print_member chars) kvs))"
    by (intro join_utf8) (simp, fastforce simp: list_all_iff snds.simps utf8_valid_append chars_valid)
  then show ?case by (simp add: utf8_valid_append)
qed (auto simp: chars_valid utf8_valid_append)

lemma decode_print_with:
  "printable v \<Longrightarrow> json_strings good v \<Longrightarrow> decodeStrictJSON dec old (print_with chars v) = decodeStrictRaw dec old v"
  by (simp add: decodeStrictJSON_def print_with_valid parse_print_with)

end

lemma html_char_ascii: "(of_char c :: nat) < 128 \<Longrightarrow> ascii (html_char c)"
  by (auto simp: html_char_def print_char_ascii)

lemma html_rune_valid: "wide_rune u \<Longrightarrow> utf8_valid (html_rune u)"
  by (auto simp: html_rune_def wide_rune_def)

interpretation html: utf8_escaping html_chars utf8_valid
proof
  show "utf8_valid s \<Longrightarrow> parse_string (html_chars s @ CHR 0x22 # r) = Some (s, r)" for s r by (rule html_chars_parse)
  show "utf8_valid s \<Longrightarrow> utf8_valid (html_chars s)" for s
    by (induction s rule: utf8_induct)
      (simp_all add: html_chars_simps utf8_valid_append utf8_valid_ascii html_char_ascii html_rune_valid)
qed

lemmas marshal_json_reads_back = html.parse_print_with [folded marshal_json_def] html.decode_print_with [folded marshal_json_def]

text \<open>Escaping makes a string at most six times longer.\<close>

lemma html_chars_length: "length (html_chars s) \<le> 6 * length s"
proof (induction s rule: html_chars.induct)
  case (1 s)
  have c: "length (html_char c) \<le> 6" for c by (auto simp: html_char_def print_char_def)
  have u: "length (html_rune u) \<le> 6 * length u" for u by (auto simp: html_rune_def)
  consider "s = []" | "s \<noteq> []" "rune_width s = 0" | "s \<noteq> []" "rune_width s = 1" | "s \<noteq> []" "2 \<le> rune_width s" by linarith
  then show ?case
  proof cases
    case 4
    let ?w = "rune_width s"
    have "?w \<le> length s" by (cases s) (auto simp: rune_width_def)
    moreover have "length (html_chars (drop ?w s)) \<le> 6 * length (drop ?w s)" using 4 "1.IH"(3) by simp
    moreover have "html_chars s = html_rune (take ?w s) @ html_chars (drop ?w s)" using 4 by (subst html_chars.simps) simp
    ultimately show ?thesis using u [of "take ?w s"] by (simp add: min_absorb2)
  next
    case 2
    then have "html_chars s = (CHR 0x5C # ''ufffd'') @ html_chars (tl s)" by (subst html_chars.simps) simp
    then show ?thesis using "1.IH"(1) 2 by (cases s) simp_all
  next
    case 3
    then have "html_chars s = html_char (hd s) @ html_chars (tl s)" by (subst html_chars.simps) simp
    then show ?thesis using "1.IH"(2) 3 c [of "hd s"] by (cases s) auto
  qed (simp add: html_chars.simps)
qed

text \<open>A bound on the length of the encoded text of a tree.\<close>

fun json_weight :: "json \<Rightarrow> nat" where
  "json_weight JNull = 4"
| "json_weight (JBool b) = 5"
| "json_weight (JNum t) = length t"
| "json_weight (JStr s) = 6 * length s + 2"
| "json_weight (JArr vs) = 2 + sum_list (map (\<lambda>v. Suc (json_weight v)) vs)"
| "json_weight (JObj kvs) = 2 + sum_list (map (\<lambda>(k, v). 6 * length k + 4 + json_weight v) kvs)"

lemma join_length: "length (join '','' xs) \<le> sum_list (map (\<lambda>x. Suc (length x)) xs)"
  by (induction "'','' :: string" xs rule: join.induct) simp_all

lemma marshal_weight: "length (marshal_json v) \<le> json_weight v"
  unfolding marshal_json_def
proof (induction v)
  case (JStr s)
  then show ?case using html_chars_length [of s] by simp
next
  case (JArr vs)
  have "sum_list (map (\<lambda>x. Suc (length x)) (map (print_with html_chars) vs)) \<le> sum_list (map (\<lambda>v. Suc (json_weight v)) vs)"
    unfolding map_map by (rule sum_list_mono) (simp add: JArr)
  then show ?case using join_length [of "map (print_with html_chars) vs"] by simp
next
  case (JObj kvs)
  let ?m = "\<lambda>(k, v). CHR 0x22 # html_chars k @ [CHR 0x22, CHR 0x3A] @ print_with html_chars v"
  have "Suc (length (?m kv)) \<le> (\<lambda>(k, v). 6 * length k + 4 + json_weight v) kv" if "kv \<in> set kvs" for kv
  proof (cases kv)
    case (Pair k v)
    then show ?thesis using that JObj [of kv v] html_chars_length [of k] by simp
  qed
  then have "sum_list (map (\<lambda>x. Suc (length x)) (map ?m kvs)) \<le> sum_list (map (\<lambda>(k, v). 6 * length k + 4 + json_weight v) kvs)"
    unfolding map_map by (intro sum_list_mono) simp
  then show ?case using join_length [of "map ?m kvs"] by simp
qed simp_all

text \<open>Hexadecimal text, digests among it, is well formed.\<close>

lemma lower_hex_text: "list_all lower_hex s \<Longrightarrow> utf8_valid s"
  by (rule utf8_valid_ascii) (auto simp: ascii_def list_all_iff lower_hex_def less_eq_char_def)

lemma sha_pattern_text: "sha_pattern s \<Longrightarrow> utf8_valid s"
  by (simp add: sha_pattern_def lower_hex_text)

end
