(* ===== verification/Wire.thy ===== *)
theory Wire
  imports JsonRoundtrip
begin

text \<open>
  The wire scalars of \<open>internal/serverprotocol\<close>: byte arrays as JSON arrays of numbers, and integers
  as canonical decimal strings, with their marshallers and unmarshallers. An unmarshaller is called
  for \<open>null\<close> too and writes into the value already there, so that \<open>Null\<close>, once set, stays set.
\<close>

section \<open>Byte arrays\<close>

record wireBytes =
  wb_Value :: bytes
  wb_Present :: bool
  wb_Null :: bool

definition zero_wireBytes :: wireBytes where
  "zero_wireBytes = \<lparr>wb_Value = [], wb_Present = False, wb_Null = False\<rparr>"

definition presentWireBytes :: "bytes \<Rightarrow> wireBytes" where
  "presentWireBytes value = \<lparr>wb_Value = value, wb_Present = True, wb_Null = False\<rparr>"

definition nullableWireBytes :: "nullable_bytes \<Rightarrow> wireBytes" where
  "nullableWireBytes value =
     (case value of
        None \<Rightarrow> \<lparr>wb_Value = [], wb_Present = True, wb_Null = True\<rparr>
      | Some v \<Rightarrow> presentWireBytes v)"

definition wireBytes_MarshalJSON :: "wireBytes \<Rightarrow> json" where
  "wireBytes_MarshalJSON value =
     (if wb_Null value then JNull
      else JArr (map (\<lambda>item. JNum (nat_str (unat item))) (wb_Value value)))"

text \<open>The loop over \<open>numbers\<close>; a number is refused unless its text is its canonical decimal.\<close>

fun decode_byte_items :: "json list \<Rightarrow> bytes result" where
  "decode_byte_items [] = Inr []"
| "decode_byte_items (raw # raws) =
     (case decodeStrictRaw json_uint (0 :: uint16) raw of
        Inl e \<Rightarrow> Inl (ErrorString ''byte array item exceeds 255'')
      | Inr number \<Rightarrow>
          if raw \<noteq> JNum (nat_str (unat number)) \<or> 255 < unat number
          then Inl (ErrorString ''byte array item exceeds 255'')
          else case decode_byte_items raws of
            Inl e \<Rightarrow> Inl e
          | Inr items \<Rightarrow> Inr (of_nat (unat number) # items))"

definition wireBytes_UnmarshalJSON :: "wireBytes decoder" where
  "wireBytes_UnmarshalJSON value data =
     (if data = JNull
      then Inr (value\<lparr>wb_Present := True, wb_Null := True, wb_Value := []\<rparr>)
      else case decodeStrictRaw (json_slice None json_raw) None data of
        Inl e \<Rightarrow> Inl (WrapError ''byte array: '' e)
      | Inr numbers \<Rightarrow>
          (case numbers of
             None \<Rightarrow> Inl (ErrorString ''byte array is null or exceeds the response bound'')
           | Some raws \<Rightarrow>
               if maxNativeJSONResultBytes < length raws
               then Inl (ErrorString ''byte array is null or exceeds the response bound'')
               else case decode_byte_items (map the raws) of
                 Inl e \<Rightarrow> Inl e
               | Inr items \<Rightarrow> Inr (value\<lparr>wb_Present := True, wb_Value := items\<rparr>)))"

definition cloneNullableBytes :: "wireBytes \<Rightarrow> nullable_bytes" where
  "cloneNullableBytes value = (if wb_Null value then None else Some (wb_Value value))"

section \<open>Canonical integers\<close>

record canonicalUint64 =
  cu_Value :: uint64
  cu_Present :: bool

definition zero_canonicalUint64 :: canonicalUint64 where
  "zero_canonicalUint64 = \<lparr>cu_Value = 0, cu_Present = False\<rparr>"

definition canonicalUint64_UnmarshalJSON :: "canonicalUint64 decoder" where
  "canonicalUint64_UnmarshalJSON value data =
     (case decodeStrictRaw json_string [] data of
        Inl e \<Rightarrow> Inl (WrapError ''canonical u64 must be a JSON string: '' e)
      | Inr text \<Rightarrow>
          (case parse_uint 64 text of
             None \<Rightarrow> Inl (ErrorString (''invalid canonical u64 '' @ quoted text))
           | Some parsed \<Rightarrow>
               if nat_str parsed \<noteq> text then Inl (ErrorString (''invalid canonical u64 '' @ quoted text))
               else Inr \<lparr>cu_Value = of_nat parsed, cu_Present = True\<rparr>))"

definition canonicalUint64_MarshalJSON :: "canonicalUint64 \<Rightarrow> json" where
  "canonicalUint64_MarshalJSON value = JStr (nat_str (unat (cu_Value value)))"

record canonicalInt64 =
  ci_Value :: int64
  ci_Present :: bool

definition zero_canonicalInt64 :: canonicalInt64 where
  "zero_canonicalInt64 = \<lparr>ci_Value = 0, ci_Present = False\<rparr>"

definition canonicalInt64_UnmarshalJSON :: "canonicalInt64 decoder" where
  "canonicalInt64_UnmarshalJSON value data =
     (case decodeStrictRaw json_string [] data of
        Inl e \<Rightarrow> Inl (WrapError ''canonical i64 must be a JSON string: '' e)
      | Inr text \<Rightarrow>
          (case parse_int 64 text of
             None \<Rightarrow> Inl (ErrorString (''invalid canonical i64 '' @ quoted text))
           | Some parsed \<Rightarrow>
               if int_str parsed \<noteq> text then Inl (ErrorString (''invalid canonical i64 '' @ quoted text))
               else Inr \<lparr>ci_Value = of_int parsed, ci_Present = True\<rparr>))"

definition canonicalInt64_MarshalJSON :: "canonicalInt64 \<Rightarrow> json" where
  "canonicalInt64_MarshalJSON value = JStr (int_str (sint (ci_Value value)))"

record wireNullableCanonicalUint64 =
  nu_Value :: uint64
  nu_Present :: bool
  nu_Null :: bool

definition zero_nullableUint64 :: wireNullableCanonicalUint64 where
  "zero_nullableUint64 = \<lparr>nu_Value = 0, nu_Present = False, nu_Null = False\<rparr>"

definition nullableUint64_MarshalJSON :: "wireNullableCanonicalUint64 \<Rightarrow> json" where
  "nullableUint64_MarshalJSON value =
     (if nu_Null value then JNull else JStr (nat_str (unat (nu_Value value))))"

definition nullableUint64_UnmarshalJSON :: "wireNullableCanonicalUint64 decoder" where
  "nullableUint64_UnmarshalJSON value data =
     (if data = JNull then Inr (value\<lparr>nu_Present := True, nu_Null := True, nu_Value := 0\<rparr>)
      else case decodeStrictRaw canonicalUint64_UnmarshalJSON zero_canonicalUint64 data of
        Inl e \<Rightarrow> Inl e
      | Inr canonical \<Rightarrow> Inr (value\<lparr>nu_Present := True, nu_Value := cu_Value canonical\<rparr>))"

section \<open>Optional raw messages\<close>

definition decodeOptionalBool :: "raw_message \<Rightarrow> bool option result" where
  "decodeOptionalBool data =
     (case data of
        None \<Rightarrow> Inr None
      | Some raw \<Rightarrow>
          if raw = JNull then Inl (ErrorString ''optional bool must be omitted, not null'')
          else case decodeStrictRaw json_bool False raw of Inl e \<Rightarrow> Inl e | Inr v \<Rightarrow> Inr (Some v))"

definition decodeOptionalCanonicalInt64 :: "raw_message \<Rightarrow> int64 option result" where
  "decodeOptionalCanonicalInt64 data =
     (case data of
        None \<Rightarrow> Inr None
      | Some raw \<Rightarrow>
          if raw = JNull then Inl (ErrorString ''optional i64 must be omitted, not null'')
          else case decodeStrictRaw canonicalInt64_UnmarshalJSON zero_canonicalInt64 raw of
            Inl e \<Rightarrow> Inl e
          | Inr v \<Rightarrow> Inr (Some (ci_Value v)))"

definition decodeNullableSHA256 :: "raw_message \<Rightarrow> string option result" where
  "decodeNullableSHA256 data =
     (case data of
        None \<Rightarrow> Inl (ErrorString ''result_sha256 is missing'')
      | Some raw \<Rightarrow>
          if raw = JNull then Inr None
          else case decodeStrictRaw json_string [] raw of
            Inl e \<Rightarrow> Inl (ErrorString ''invalid optional SHA-256'')
          | Inr value \<Rightarrow>
              if \<not> sha_pattern value then Inl (ErrorString ''invalid optional SHA-256'')
              else Inr (Some value))"

section \<open>Round trips\<close>

lemma decode_byte_items_print:
  "decode_byte_items (map (\<lambda>item. JNum (nat_str (unat item))) bs) = Inr bs"
proof (induction bs)
  case (Cons b bs)
  have "unat b < 256" using unat_width [of b] by simp
  moreover from this have "unat (ucast b :: uint16) = unat b"
    by (simp add: unsigned_ucast_eq take_bit_nat_eq_self_iff)
  ultimately show ?case
    using Cons by (simp add: decodeStrictRaw_def json_uint_def parse_uint_nat_str)
qed simp

lemma visit_scalars [simp]: "visit 0 JNull = Inr ()" "visit 0 (JBool b) = Inr ()" "visit 0 (JNum t) = Inr ()"
  "visit 0 (JStr s) = Inr ()"
  by simp_all

lemma visit_numbers: "visit_elements 0 (map (\<lambda>item. JNum (f item)) bs) = Inr ()"
  by (induction bs) simp_all

lemma decode_raw_elements: "decode_elements None json_raw old js = Inr (map Some js)"
  by (induction js arbitrary: old) (simp_all add: json_raw_def)

lemma wireBytes_roundtrip:
  "length v \<le> maxNativeJSONResultBytes \<Longrightarrow>
   wireBytes_UnmarshalJSON zero_wireBytes (wireBytes_MarshalJSON (presentWireBytes v)) = Inr (presentWireBytes v)"
  "wireBytes_UnmarshalJSON zero_wireBytes (wireBytes_MarshalJSON (nullableWireBytes None)) = Inr (nullableWireBytes None)"
  by (simp_all add: wireBytes_UnmarshalJSON_def wireBytes_MarshalJSON_def presentWireBytes_def zero_wireBytes_def
      nullableWireBytes_def decodeStrictRaw_def visit_numbers json_slice_def decode_raw_elements
      decode_byte_items_print comp_def)

lemma canonicalUint64_roundtrip:
  "canonicalUint64_UnmarshalJSON old (canonicalUint64_MarshalJSON v) = Inr (v\<lparr>cu_Present := True\<rparr>)"
  using unat_width [of "cu_Value v"]
  by (simp add: canonicalUint64_UnmarshalJSON_def canonicalUint64_MarshalJSON_def decodeStrictRaw_def
      json_string_def parse_uint_nat_str)

lemma canonicalUint64_exact:
  "canonicalUint64_UnmarshalJSON old j = Inr v \<longleftrightarrow> j = canonicalUint64_MarshalJSON v \<and> cu_Present v"
proof
  assume "canonicalUint64_UnmarshalJSON old j = Inr v"
  then obtain n where n: "parse_uint 64 (nat_str n) = Some n" "v = \<lparr>cu_Value = of_nat n, cu_Present = True\<rparr>"
    and j: "j = JStr (nat_str n)"
    by (cases j) (auto simp: canonicalUint64_UnmarshalJSON_def decodeStrictRaw_def json_string_def json_error_def
        parse_uint_def split: option.splits if_splits sum.splits)
  then have "n < 2 ^ 64" by (simp add: parse_uint_nat_str split: if_splits)
  then show "j = canonicalUint64_MarshalJSON v \<and> cu_Present v"
    using n j by (simp add: canonicalUint64_MarshalJSON_def unat_of_nat)
qed (simp add: canonicalUint64_roundtrip)

lemma canonicalInt64_roundtrip:
  "canonicalInt64_UnmarshalJSON old (canonicalInt64_MarshalJSON v) = Inr (v\<lparr>ci_Present := True\<rparr>)"
  using sint_greater_eq [of "ci_Value v"] sint_less [of "ci_Value v"] parse_int_int_str [of 64 "sint (ci_Value v)"]
  by (simp add: canonicalInt64_UnmarshalJSON_def canonicalInt64_MarshalJSON_def decodeStrictRaw_def json_string_def)

end
