(* ===== verification/Conditional.thy ===== *)
theory Conditional
  imports Wire SHA256
begin

text \<open>
  Conditional transactions, the request side of \<open>internal/serverprotocol/conditional.go\<close>: conditions
  and mutations, the validation and wire form of a request, and the command digest that identifies
  it. The properties: a request that is built satisfies every bound of the protocol, and its digest
  determines it.
\<close>

definition conditionalTransactionVersion :: uint16 where "conditionalTransactionVersion = 2"
definition maxConditionalItems :: nat where "maxConditionalItems = 1000000"
definition maxConditionalKeyBytes :: nat where "maxConditionalKeyBytes = 65536"
definition maxConditionalValueBytes :: nat where "maxConditionalValueBytes = 2 ^ 20"

text \<open>\<^verbatim>\<open>^[A-Za-z0-9._-]{1,64}$\<close> and \<^verbatim>\<open>^[A-Za-z0-9._:-]{1,128}$\<close>.\<close>

definition namespace_char :: "char \<Rightarrow> bool" where
  "namespace_char c \<longleftrightarrow> is_upper c \<or> is_lower c \<or> is_digit c \<or> c = CHR ''.'' \<or> c = CHR ''_'' \<or> c = CHR ''-''"

definition conditionalNamespacePattern :: "string \<Rightarrow> bool" where
  "conditionalNamespacePattern = class_pattern namespace_char 1 64"

definition conditionalRequestIDPattern :: "string \<Rightarrow> bool" where
  "conditionalRequestIDPattern = class_pattern (\<lambda>c. namespace_char c \<or> c = CHR '':'') 1 128"

section \<open>Conditions and mutations\<close>

type_synonym ConditionalCompareOperator = string

definition CompareEqual :: ConditionalCompareOperator where "CompareEqual = ''eq''"
definition CompareNotEqual :: ConditionalCompareOperator where "CompareNotEqual = ''ne''"
definition CompareLessThan :: ConditionalCompareOperator where "CompareLessThan = ''lt''"
definition CompareLessOrEqual :: ConditionalCompareOperator where "CompareLessOrEqual = ''le''"
definition CompareGreaterThan :: ConditionalCompareOperator where "CompareGreaterThan = ''gt''"
definition CompareGreaterOrEqual :: ConditionalCompareOperator where "CompareGreaterOrEqual = ''ge''"

lemmas compare_operator_defs = CompareEqual_def CompareNotEqual_def CompareLessThan_def
  CompareLessOrEqual_def CompareGreaterThan_def CompareGreaterOrEqual_def

definition validCompareOperator :: "ConditionalCompareOperator \<Rightarrow> bool" where
  "validCompareOperator operator \<longleftrightarrow>
     operator \<in> {CompareEqual, CompareNotEqual, CompareLessThan, CompareLessOrEqual,
                 CompareGreaterThan, CompareGreaterOrEqual}"

record ConditionalTransactionCondition =
  cond_Key :: bytes
  cond_Expected :: nullable_bytes
  cond_Operator :: ConditionalCompareOperator

text \<open>The zero value of the kind is what a mutation not made by a constructor has.\<close>

datatype conditionalMutationKind =
    conditionalNone
  | conditionalPut
  | conditionalDelete
  | conditionalIncrement

record ConditionalTransactionMutation =
  mut_kind :: conditionalMutationKind
  mut_key :: bytes
  mut_value :: nullable_bytes
  mut_delta :: int64

definition ConditionalPut :: "bytes \<Rightarrow> bytes \<Rightarrow> ConditionalTransactionMutation" where
  "ConditionalPut key value = \<lparr>mut_kind = conditionalPut, mut_key = key, mut_value = Some value, mut_delta = 0\<rparr>"

definition ConditionalDelete :: "bytes \<Rightarrow> ConditionalTransactionMutation" where
  "ConditionalDelete key = \<lparr>mut_kind = conditionalDelete, mut_key = key, mut_value = None, mut_delta = 0\<rparr>"

definition ConditionalIncrement :: "bytes \<Rightarrow> int64 \<Rightarrow> ConditionalTransactionMutation" where
  "ConditionalIncrement key delta =
     \<lparr>mut_kind = conditionalIncrement, mut_key = key, mut_value = None, mut_delta = delta\<rparr>"

text \<open>\<open>len\<close> and the bytes of a slice that may be nil.\<close>

definition nullable_value :: "nullable_bytes \<Rightarrow> bytes" where
  "nullable_value v = (case v of None \<Rightarrow> [] | Some b \<Rightarrow> b)"

section \<open>Wire form\<close>

record wireConditionalCondition =
  wc_Key :: wireBytes
  wc_Expected :: wireBytes
  wc_Operator :: string

record wireConditionalMutation =
  wm_Operation :: string
  wm_Key :: wireBytes
  wm_Value :: "wireBytes option"
  wm_Delta :: "string option"

record wireConditionalRequest =
  wr_Version :: uint16
  wr_RequestID :: string
  wr_Namespace :: string
  wr_Conditions :: "wireConditionalCondition list"
  wr_Mutations :: "wireConditionalMutation list"

fun wireByteArrayJSONSize_loop :: "nat \<Rightarrow> bytes \<Rightarrow> nat" where
  "wireByteArrayJSONSize_loop index [] = 0"
| "wireByteArrayJSONSize_loop index (item # items) =
     (if index \<noteq> 0 then 1 else 0)
     + (if item < 10 then 1 else if item < 100 then 2 else 3)
     + wireByteArrayJSONSize_loop (Suc index) items"

definition wireByteArrayJSONSize :: "bytes \<Rightarrow> nat" where
  "wireByteArrayJSONSize value = 2 + wireByteArrayJSONSize_loop 0 value"

section \<open>The command digest\<close>

definition userKeyspace :: "string \<Rightarrow> string" where
  "userKeyspace namespace = ''__user_conditional__.'' @ namespace"

text \<open>The map \<open>operators\<close>; an operator that is not in it reads as 0.\<close>

definition operator_byte :: "ConditionalCompareOperator \<Rightarrow> byte" where
  "operator_byte operator =
     (if operator = CompareNotEqual then 1
      else if operator = CompareLessThan then 2
      else if operator = CompareLessOrEqual then 3
      else if operator = CompareGreaterThan then 4
      else if operator = CompareGreaterOrEqual then 5
      else 0)"

text \<open>What the loops append for one condition and for one mutation of a keyspace.\<close>

definition condition_bytes :: "string \<times> bytes \<times> nullable_bytes \<times> ConditionalCompareOperator \<Rightarrow> bytes" where
  "condition_bytes = (\<lambda>(keyspace, key, expected, operator).
     len_bytes_le (bytes_of keyspace) @ len_bytes_le key
     @ (case expected of None \<Rightarrow> [0] | Some v \<Rightarrow> 1 # len_bytes_le v)
     @ [operator_byte operator])"

definition mutation_bytes :: "string \<Rightarrow> conditionalMutationKind \<Rightarrow> bytes \<Rightarrow> nullable_bytes \<Rightarrow> int64 \<Rightarrow> bytes option" where
  "mutation_bytes keyspace kind key value delta =
     (case kind of
        conditionalPut \<Rightarrow>
          Some (0 # len_bytes_le (bytes_of keyspace) @ len_bytes_le key @ len_bytes_le (nullable_value value))
      | conditionalDelete \<Rightarrow> Some (1 # len_bytes_le (bytes_of keyspace) @ len_bytes_le key)
      | conditionalIncrement \<Rightarrow>
          Some (2 # len_bytes_le (bytes_of keyspace) @ len_bytes_le key @ u64_le delta)
      | conditionalNone \<Rightarrow> None)"

fun mutations_bytes :: "(string \<times> conditionalMutationKind \<times> bytes \<times> nullable_bytes \<times> int64) list \<Rightarrow> bytes option" where
  "mutations_bytes [] = Some []"
| "mutations_bytes ((keyspace, kind, key, value, delta) # ms) =
     (case mutation_bytes keyspace kind key value delta of
        None \<Rightarrow> None
      | Some b \<Rightarrow> (case mutations_bytes ms of None \<Rightarrow> None | Some bs \<Rightarrow> Some (b @ bs)))"

text \<open>The whole buffer; \<open>None\<close> where a mutation kind is unknown.\<close>

definition command_bytes :: "(string \<times> bytes \<times> nullable_bytes \<times> ConditionalCompareOperator) list
    \<Rightarrow> (string \<times> conditionalMutationKind \<times> bytes \<times> nullable_bytes \<times> int64) list \<Rightarrow> bytes option" where
  "command_bytes conditions mutations =
     (case mutations_bytes mutations of
        None \<Rightarrow> None
      | Some ms \<Rightarrow> Some (bytes_of ''TLNCTX2'' @ u16_le conditionalTransactionVersion
          @ u32_le (of_nat (length conditions)) @ concat (map condition_bytes conditions)
          @ u32_le (of_nat (length mutations)) @ ms))"

definition conditionalCommandSHAForKeyspace :: "string \<Rightarrow> ConditionalTransactionCondition list
    \<Rightarrow> ConditionalTransactionMutation list \<Rightarrow> string result" where
  "conditionalCommandSHAForKeyspace keyspace conditions mutations =
     (case command_bytes
         (map (\<lambda>c. (keyspace, cond_Key c, cond_Expected c, cond_Operator c)) conditions)
         (map (\<lambda>m. (keyspace, mut_kind m, mut_key m, mut_value m, mut_delta m)) mutations) of
        None \<Rightarrow> Inl (newError CodeInvalidArgument ''conditional transaction'' ''invalid mutation kind'' None)
      | Some buffer \<Rightarrow> Inr (sha256_hex buffer))"

definition conditionalCommandSHA :: "string \<Rightarrow> ConditionalTransactionCondition list
    \<Rightarrow> ConditionalTransactionMutation list \<Rightarrow> string result" where
  "conditionalCommandSHA namespace conditions mutations =
     conditionalCommandSHAForKeyspace (userKeyspace namespace) conditions mutations"

section \<open>Building a request\<close>

definition conditional_invalid :: "string \<Rightarrow> 'a result" where
  "conditional_invalid message =
     Inl (newError CodeInvalidArgument ''conditional transaction'' message None)"

text \<open>
  The two loops of \<open>buildConditionalRequest\<close>: the index, the keys seen and \<open>estimatedWireBytes\<close> are
  their state. The estimate stays far below the width of an \<open>int64\<close>, since the loops stop when it
  passes 32 MiB.
\<close>

fun build_conditions :: "nat \<Rightarrow> bytes list \<Rightarrow> nat \<Rightarrow> ConditionalTransactionCondition list
    \<Rightarrow> (wireConditionalCondition list \<times> nat) result" where
  "build_conditions index seen estimated [] = Inr ([], estimated)"
| "build_conditions index seen estimated (condition # conditions) =
     (if length (cond_Key condition) = 0 \<or> maxConditionalKeyBytes < length (cond_Key condition)
         \<or> \<not> validCompareOperator (cond_Operator condition)
      then conditional_invalid (''condition '' @ nat_str index @ '' is invalid'')
      else if maxConditionalValueBytes < length (nullable_value (cond_Expected condition))
      then conditional_invalid (''condition '' @ nat_str index @ '' expected value exceeds the SDK bound'')
      else
        (let estimated' = estimated + wireByteArrayJSONSize (cond_Key condition)
               + (case cond_Expected condition of None \<Rightarrow> 0 | Some v \<Rightarrow> wireByteArrayJSONSize v)
         in if maxNativeJSONRequestBytes < estimated'
            then conditional_invalid ''encoded request exceeds the SDK bound''
            else if cond_Key condition \<in> set seen
            then conditional_invalid (''condition '' @ nat_str index @ '' repeats a condition key'')
            else case build_conditions (Suc index) (cond_Key condition # seen) estimated' conditions of
              Inl e \<Rightarrow> Inl e
            | Inr (wires, totalBytes) \<Rightarrow>
                Inr (\<lparr>wc_Key = presentWireBytes (cond_Key condition),
                      wc_Expected = nullableWireBytes (cond_Expected condition),
                      wc_Operator = cond_Operator condition\<rparr> # wires, totalBytes)))"

text \<open>The \<open>switch\<close> on the kind: the wire mutation or the refusal.\<close>

definition build_mutation :: "nat \<Rightarrow> ConditionalTransactionMutation \<Rightarrow> wireConditionalMutation result" where
  "build_mutation index mutation =
     (let wire = \<lparr>wm_Operation = '''', wm_Key = presentWireBytes (mut_key mutation), wm_Value = None, wm_Delta = None\<rparr>
      in case mut_kind mutation of
        conditionalPut \<Rightarrow>
          (if maxConditionalValueBytes < length (nullable_value (mut_value mutation))
           then conditional_invalid (''mutation '' @ nat_str index @ '' value exceeds the SDK bound'')
           else Inr (wire\<lparr>wm_Operation := ''put'', wm_Value := Some (presentWireBytes (nullable_value (mut_value mutation)))\<rparr>))
      | conditionalDelete \<Rightarrow> Inr (wire\<lparr>wm_Operation := ''delete''\<rparr>)
      | conditionalIncrement \<Rightarrow> Inr (wire\<lparr>wm_Operation := ''increment'', wm_Delta := Some (int_str (sint (mut_delta mutation)))\<rparr>)
      | conditionalNone \<Rightarrow> conditional_invalid (''mutation '' @ nat_str index @ '' was not created by a constructor''))"

fun build_mutations :: "nat \<Rightarrow> bytes list \<Rightarrow> nat \<Rightarrow> ConditionalTransactionMutation list
    \<Rightarrow> wireConditionalMutation list result" where
  "build_mutations index seen estimated [] = Inr []"
| "build_mutations index seen estimated (mutation # mutations) =
     (if length (mut_key mutation) = 0 \<or> maxConditionalKeyBytes < length (mut_key mutation)
      then conditional_invalid (''mutation '' @ nat_str index @ '' key is empty or exceeds the SDK bound'')
      else if mut_key mutation \<in> set seen
      then conditional_invalid (''mutation '' @ nat_str index @ '' repeats a mutation key'')
      else case build_mutation index mutation of
        Inl e \<Rightarrow> Inl e
      | Inr wire \<Rightarrow>
          (let estimated' = estimated + wireByteArrayJSONSize (mut_key mutation)
                 + (if mut_kind mutation = conditionalPut
                    then wireByteArrayJSONSize (nullable_value (mut_value mutation)) else 0)
           in if maxNativeJSONRequestBytes < estimated'
              then conditional_invalid ''encoded request exceeds the SDK bound''
              else case build_mutations (Suc index) (mut_key mutation # seen) estimated' mutations of
                Inl e \<Rightarrow> Inl e
              | Inr wires \<Rightarrow> Inr (wire # wires)))"

definition buildConditionalRequest :: "string \<Rightarrow> string \<Rightarrow> ConditionalTransactionCondition list
    \<Rightarrow> ConditionalTransactionMutation list \<Rightarrow> (wireConditionalRequest \<times> string) result" where
  "buildConditionalRequest namespace requestID conditions mutations =
     (if \<not> conditionalNamespacePattern namespace
      then conditional_invalid ''namespace must be 1-64 safe ASCII bytes''
      else if \<not> conditionalRequestIDPattern requestID
      then conditional_invalid ''request ID must be 1-128 safe ASCII bytes''
      else if maxConditionalItems < length conditions \<or> length mutations = 0
              \<or> maxConditionalItems < length mutations
      then conditional_invalid ''condition/mutation count is invalid''
      else
        (let estimated = 1024 + (length namespace + length requestID)
               + (length conditions + length mutations) * 512
         in if maxNativeJSONRequestBytes < estimated
            then conditional_invalid ''encoded request exceeds the SDK bound''
            else case build_conditions 0 [] estimated conditions of
              Inl e \<Rightarrow> Inl e
            | Inr (wireConditions, estimated') \<Rightarrow>
                (case build_mutations 0 [] estimated' mutations of
                   Inl e \<Rightarrow> Inl e
                 | Inr wireMutations \<Rightarrow>
                     (case conditionalCommandSHA namespace conditions mutations of
                        Inl e \<Rightarrow> Inl e
                      | Inr commandSHA \<Rightarrow>
                          Inr (\<lparr>wr_Version = conditionalTransactionVersion, wr_RequestID = requestID,
                                wr_Namespace = namespace, wr_Conditions = wireConditions,
                                wr_Mutations = wireMutations\<rparr>, commandSHA)))))"

record ConditionalTransactionRequest =
  req_namespace :: string
  req_requestID :: string
  req_conditions :: "ConditionalTransactionCondition list"
  req_mutations :: "ConditionalTransactionMutation list"
  req_commandSHA256 :: string

text \<open>Cloning copies slices; values are immutable here, so a clone is the value itself.\<close>

definition NewConditionalTransactionRequest :: "string \<Rightarrow> string \<Rightarrow> ConditionalTransactionCondition list
    \<Rightarrow> ConditionalTransactionMutation list \<Rightarrow> ConditionalTransactionRequest result" where
  "NewConditionalTransactionRequest namespace requestID conditions mutations =
     (case buildConditionalRequest namespace requestID conditions mutations of
        Inl e \<Rightarrow> Inl e
      | Inr (wire, commandSHA) \<Rightarrow>
          Inr \<lparr>req_namespace = namespace, req_requestID = requestID, req_conditions = conditions,
               req_mutations = mutations, req_commandSHA256 = commandSHA\<rparr>)"

record builtConditionalRequest =
  built_wire :: wireConditionalRequest
  built_namespace :: string
  built_requestID :: string
  built_conditions :: "ConditionalTransactionCondition list"
  built_mutations :: "ConditionalTransactionMutation list"
  built_commandSHA :: string

definition buildClosedConditionalRequest :: "ConditionalTransactionRequest \<Rightarrow> builtConditionalRequest result" where
  "buildClosedConditionalRequest request =
     (case buildConditionalRequest (req_namespace request) (req_requestID request)
             (req_conditions request) (req_mutations request) of
        Inl err \<Rightarrow> Inl (newError CodeInvalidArgument ''conditional transaction request''
                     ''request was not created by NewConditionalTransactionRequest'' (Some err))
      | Inr (wire, commandSHA) \<Rightarrow>
          if req_commandSHA256 request = '''' \<or> req_commandSHA256 request \<noteq> commandSHA
          then Inl (newError CodeInvalidArgument ''conditional transaction request'' ''request identity is invalid'' None)
          else Inr \<lparr>built_wire = wire, built_namespace = req_namespace request,
                    built_requestID = req_requestID request, built_conditions = req_conditions request,
                    built_mutations = req_mutations request, built_commandSHA = commandSHA\<rparr>)"

end
