(* ===== verification/CommandDigest.thy ===== *)
theory CommandDigest
  imports Conditional
begin

text \<open>
  What a built conditional request guarantees: the bounds of the protocol, that the size estimate
  made while building really bounds the encoded request, and that the command digest determines
  namespace, conditions and mutations (the digest does not cover the request ID).
\<close>

section \<open>Bounds of a built request\<close>

definition condition_ok :: "ConditionalTransactionCondition \<Rightarrow> bool" where
  "condition_ok c \<longleftrightarrow> cond_Key c \<noteq> [] \<and> length (cond_Key c) \<le> maxConditionalKeyBytes
     \<and> validCompareOperator (cond_Operator c)
     \<and> length (nullable_value (cond_Expected c)) \<le> maxConditionalValueBytes"

definition mutation_ok :: "ConditionalTransactionMutation \<Rightarrow> bool" where
  "mutation_ok m \<longleftrightarrow> mut_key m \<noteq> [] \<and> length (mut_key m) \<le> maxConditionalKeyBytes
     \<and> mut_kind m \<noteq> conditionalNone
     \<and> (mut_kind m = conditionalPut \<longrightarrow> length (nullable_value (mut_value m)) \<le> maxConditionalValueBytes)"

definition conditions_size :: "ConditionalTransactionCondition list \<Rightarrow> nat" where
  "conditions_size cs = (\<Sum>c\<leftarrow>cs. wireByteArrayJSONSize (cond_Key c)
     + (case cond_Expected c of None \<Rightarrow> 0 | Some v \<Rightarrow> wireByteArrayJSONSize v))"

definition mutations_size :: "ConditionalTransactionMutation list \<Rightarrow> nat" where
  "mutations_size ms = (\<Sum>m\<leftarrow>ms. wireByteArrayJSONSize (mut_key m)
     + (if mut_kind m = conditionalPut then wireByteArrayJSONSize (nullable_value (mut_value m)) else 0))"

definition wire_condition :: "ConditionalTransactionCondition \<Rightarrow> wireConditionalCondition" where
  "wire_condition c = \<lparr>wc_Key = presentWireBytes (cond_Key c), wc_Expected = nullableWireBytes (cond_Expected c),
     wc_Operator = cond_Operator c\<rparr>"

definition wire_mutation :: "ConditionalTransactionMutation \<Rightarrow> wireConditionalMutation" where
  "wire_mutation m = \<lparr>wm_Operation = (case mut_kind m of conditionalPut \<Rightarrow> ''put'' | conditionalDelete \<Rightarrow> ''delete''
       | conditionalIncrement \<Rightarrow> ''increment'' | conditionalNone \<Rightarrow> ''''),
     wm_Key = presentWireBytes (mut_key m),
     wm_Value = (if mut_kind m = conditionalPut then Some (presentWireBytes (nullable_value (mut_value m))) else None),
     wm_Delta = (if mut_kind m = conditionalIncrement then Some (int_str (sint (mut_delta m))) else None)\<rparr>"

lemma build_conditions_iff:
  "build_conditions index seen est cs = Inr (ws, t) \<longleftrightarrow>
     list_all condition_ok cs \<and> distinct (map cond_Key cs) \<and> set (map cond_Key cs) \<inter> set seen = {}
     \<and> t = est + conditions_size cs \<and> (cs = [] \<or> t \<le> maxNativeJSONRequestBytes) \<and> ws = map wire_condition cs"
proof (induction index seen est cs arbitrary: ws t rule: build_conditions.induct)
  case (2 index seen est c cs)
  show ?case (is "?L \<longleftrightarrow> ?R")
  proof (cases "condition_ok c \<and> cond_Key c \<notin> set seen")
    case True
    let ?e = "est + wireByteArrayJSONSize (cond_Key c)
      + (case cond_Expected c of None \<Rightarrow> 0 | Some v \<Rightarrow> wireByteArrayJSONSize v)"
    have sz: "?e + conditions_size cs = est + conditions_size (c # cs)" by (simp add: conditions_size_def)
    show ?thesis
    proof (cases "?e \<le> maxNativeJSONRequestBytes")
      case e: True
      have "?L \<longleftrightarrow> (\<exists>ws'. build_conditions (Suc index) (cond_Key c # seen) ?e cs = Inr (ws', t) \<and> ws = wire_condition c # ws')"
        using True e by (auto simp: condition_ok_def conditional_invalid_def Let_def wire_condition_def split: sum.splits)
      then show ?thesis
        using True e sz 2 by (auto simp: condition_ok_def conditional_invalid_def Let_def)
    next
      case False
      then have "\<not> est + conditions_size (c # cs) \<le> maxNativeJSONRequestBytes" using sz by linarith
      with True False show ?thesis
        by (auto simp: condition_ok_def conditional_invalid_def Let_def)
    qed
  qed (auto simp: condition_ok_def conditional_invalid_def Let_def split: if_splits)
qed (auto simp: conditions_size_def)

lemma build_mutation_iff:
  "build_mutation index m = Inr w \<longleftrightarrow> mut_kind m \<noteq> conditionalNone
     \<and> (mut_kind m = conditionalPut \<longrightarrow> length (nullable_value (mut_value m)) \<le> maxConditionalValueBytes)
     \<and> w = wire_mutation m"
  by (auto simp: build_mutation_def wire_mutation_def conditional_invalid_def Let_def
      split: conditionalMutationKind.splits if_splits)

lemma build_mutations_iff:
  "build_mutations index seen est ms = Inr ws \<longleftrightarrow>
     list_all mutation_ok ms \<and> distinct (map mut_key ms) \<and> set (map mut_key ms) \<inter> set seen = {}
     \<and> (ms = [] \<or> est + mutations_size ms \<le> maxNativeJSONRequestBytes) \<and> ws = map wire_mutation ms"
proof (induction index seen est ms arbitrary: ws rule: build_mutations.induct)
  case (2 index seen est m ms)
  show ?case (is "?L \<longleftrightarrow> ?R")
  proof (cases "mutation_ok m \<and> mut_key m \<notin> set seen")
    case True
    let ?e = "est + wireByteArrayJSONSize (mut_key m)
      + (if mut_kind m = conditionalPut then wireByteArrayJSONSize (nullable_value (mut_value m)) else 0)"
    have w: "build_mutation index m = Inr (wire_mutation m)"
      using True unfolding build_mutation_iff by (simp add: mutation_ok_def)
    have sz: "?e + mutations_size ms = est + mutations_size (m # ms)" by (simp add: mutations_size_def)
    show ?thesis
    proof (cases "?e \<le> maxNativeJSONRequestBytes")
      case e: True
      have "?L \<longleftrightarrow> (\<exists>ws'. build_mutations (Suc index) (mut_key m # seen) ?e ms = Inr ws' \<and> ws = wire_mutation m # ws')"
        using True e w by (auto simp: mutation_ok_def conditional_invalid_def Let_def split: sum.splits)
      moreover have "build_mutations (Suc index) (mut_key m # seen) ?e ms = Inr ws' \<longleftrightarrow>
          list_all mutation_ok ms \<and> distinct (map mut_key ms) \<and> set (map mut_key ms) \<inter> set (mut_key m # seen) = {}
          \<and> (ms = [] \<or> ?e + mutations_size ms \<le> maxNativeJSONRequestBytes) \<and> ws' = map wire_mutation ms" for ws'
        by (rule 2) (use True e w in \<open>auto simp: mutation_ok_def\<close>)
      moreover have "ms = [] \<Longrightarrow> est + mutations_size (m # ms) \<le> maxNativeJSONRequestBytes"
        using e by (simp add: mutations_size_def)
      ultimately show ?thesis
        using True e unfolding sz by auto
    next
      case False
      then have "\<not> est + mutations_size (m # ms) \<le> maxNativeJSONRequestBytes" using sz by linarith
      with True False w show ?thesis
        by (auto simp: mutation_ok_def conditional_invalid_def Let_def)
    qed
  next
    case False
    have "build_mutation index m = Inr w \<Longrightarrow> mut_key m \<noteq> [] \<Longrightarrow> length (mut_key m) \<le> maxConditionalKeyBytes
        \<Longrightarrow> mutation_ok m" for w
      unfolding build_mutation_iff by (simp add: mutation_ok_def)
    with False show ?thesis
      by (auto simp: mutation_ok_def conditional_invalid_def Let_def split: if_splits sum.splits)
  qed
qed auto

definition estimated_size :: "string \<Rightarrow> string \<Rightarrow> ConditionalTransactionCondition list
    \<Rightarrow> ConditionalTransactionMutation list \<Rightarrow> nat" where
  "estimated_size ns rid cs ms = 1024 + (length ns + length rid) + (length cs + length ms) * 512
     + conditions_size cs + mutations_size ms"

definition request_ok :: "string \<Rightarrow> string \<Rightarrow> ConditionalTransactionCondition list
    \<Rightarrow> ConditionalTransactionMutation list \<Rightarrow> bool" where
  "request_ok ns rid cs ms \<longleftrightarrow>
     conditionalNamespacePattern ns \<and> conditionalRequestIDPattern rid
     \<and> length cs \<le> maxConditionalItems \<and> ms \<noteq> [] \<and> length ms \<le> maxConditionalItems
     \<and> list_all condition_ok cs \<and> distinct (map cond_Key cs)
     \<and> list_all mutation_ok ms \<and> distinct (map mut_key ms)
     \<and> estimated_size ns rid cs ms \<le> maxNativeJSONRequestBytes"

lemma mutations_bytes_total:
  "list_all mutation_ok ms \<Longrightarrow>
   \<exists>b. mutations_bytes (map (\<lambda>m. (ks, mut_kind m, mut_key m, mut_value m, mut_delta m)) ms) = Some b"
proof (induction ms)
  case (Cons m ms)
  then show ?case
    by (cases "mut_kind m") (auto simp: mutation_ok_def mutation_bytes_def)
qed simp

lemma command_sha_total:
  "list_all mutation_ok ms \<Longrightarrow> \<exists>sha. conditionalCommandSHA ns cs ms = Inr sha"
  using mutations_bytes_total [of ms "userKeyspace ns"]
  by (auto simp: conditionalCommandSHA_def conditionalCommandSHAForKeyspace_def command_bytes_def)

lemma build_request_iff:
  "buildConditionalRequest ns rid cs ms = Inr (w, sha) \<longleftrightarrow>
     request_ok ns rid cs ms \<and> conditionalCommandSHA ns cs ms = Inr sha
     \<and> w = \<lparr>wr_Version = conditionalTransactionVersion, wr_RequestID = rid, wr_Namespace = ns,
            wr_Conditions = map wire_condition cs, wr_Mutations = map wire_mutation ms\<rparr>"
  (is "?L \<longleftrightarrow> ?R")
proof -
  let ?est = "1024 + (length ns + length rid) + (length cs + length ms) * 512"
  have "?L \<longleftrightarrow> conditionalNamespacePattern ns \<and> conditionalRequestIDPattern rid
      \<and> length cs \<le> maxConditionalItems \<and> ms \<noteq> [] \<and> length ms \<le> maxConditionalItems
      \<and> ?est \<le> maxNativeJSONRequestBytes
      \<and> (\<exists>wcs t wms. build_conditions 0 [] ?est cs = Inr (wcs, t) \<and> build_mutations 0 [] t ms = Inr wms
          \<and> conditionalCommandSHA ns cs ms = Inr sha
          \<and> w = \<lparr>wr_Version = conditionalTransactionVersion, wr_RequestID = rid, wr_Namespace = ns,
            wr_Conditions = wcs, wr_Mutations = wms\<rparr>)"
    by (auto simp: buildConditionalRequest_def conditional_invalid_def Let_def split: sum.splits prod.splits)
  also have "\<dots> \<longleftrightarrow> ?R"
    unfolding build_conditions_iff build_mutations_iff request_ok_def estimated_size_def by auto
  finally show ?thesis .
qed

section \<open>The estimate bounds the encoded request\<close>

definition wireConditionalCondition_json :: "wireConditionalCondition \<Rightarrow> json" where
  "wireConditionalCondition_json c = JObj [(''key'', wireBytes_MarshalJSON (wc_Key c)),
     (''expected'', wireBytes_MarshalJSON (wc_Expected c)), (''operator'', JStr (wc_Operator c))]"

definition wireConditionalMutation_json :: "wireConditionalMutation \<Rightarrow> json" where
  "wireConditionalMutation_json m = JObj ([(''op'', JStr (wm_Operation m)), (''key'', wireBytes_MarshalJSON (wm_Key m))]
     @ (case wm_Value m of None \<Rightarrow> [] | Some v \<Rightarrow> [(''value'', wireBytes_MarshalJSON v)])
     @ (case wm_Delta m of None \<Rightarrow> [] | Some d \<Rightarrow> [(''delta'', JStr d)]))"

definition wireConditionalRequest_json :: "wireConditionalRequest \<Rightarrow> json" where
  "wireConditionalRequest_json r = JObj [(''version'', JNum (nat_str (unat (wr_Version r)))),
     (''request_id'', JStr (wr_RequestID r)), (''namespace'', JStr (wr_Namespace r)),
     (''conditions'', JArr (map wireConditionalCondition_json (wr_Conditions r))),
     (''mutations'', JArr (map wireConditionalMutation_json (wr_Mutations r)))]"

lemma length_nat_str:
  "n < 10 \<Longrightarrow> length (nat_str n) = 1" "10 \<le> n \<Longrightarrow> n < 100 \<Longrightarrow> length (nat_str n) = 2"
  "100 \<le> n \<Longrightarrow> n < 1000 \<Longrightarrow> length (nat_str n) = 3"
proof -
  have s: "length (nat_str n) = (if n < 10 then 1 else Suc (length (nat_str (n div 10))))" for n
    by (subst nat_str.simps) simp
  show "n < 10 \<Longrightarrow> length (nat_str n) = 1" by (simp add: s)
  show two: "10 \<le> n \<Longrightarrow> n < 100 \<Longrightarrow> length (nat_str n) = 2" for n by (simp add: s)
  show "100 \<le> n \<Longrightarrow> n < 1000 \<Longrightarrow> length (nat_str n) = 3"
    using two [of "n div 10"] by (subst s) simp
qed

lemma length_byte_str:
  "length (nat_str (unat b)) = (if b < 10 then 1 else if b < 100 then 2 else (3 :: nat))" for b :: byte
proof -
  have "unat b < 256" using unat_width [of b] by simp
  then show ?thesis
    using length_nat_str [of "unat b"] by (auto simp: word_less_nat_alt)
qed

lemma length_join: "length (join sep xs) = sum_list (map length xs) + (length xs - 1) * length sep"
  by (induction sep xs rule: join.induct) auto

lemma wireByteArrayJSONSize_loop_Suc:
  "wireByteArrayJSONSize_loop (Suc i) bs = (\<Sum>b\<leftarrow>bs. Suc (length (nat_str (unat b))))"
  by (induction bs arbitrary: i) (simp_all add: length_byte_str)

lemma wireByteArrayJSONSize_exact:
  "wireByteArrayJSONSize bs = length (print_json (wireBytes_MarshalJSON (presentWireBytes bs)))"
proof (cases bs)
  case (Cons b bs')
  then show ?thesis
    by (simp add: wireByteArrayJSONSize_def wireBytes_MarshalJSON_def presentWireBytes_def length_join comp_def
        wireByteArrayJSONSize_loop_Suc length_byte_str sum_list_Suc)
qed (simp add: wireByteArrayJSONSize_def wireBytes_MarshalJSON_def presentWireBytes_def)

lemma print_char_plain:
  assumes "namespace_char c \<or> c = CHR '':''"
  shows "print_char c = [c]" and "c \<noteq> CHR 0xE2"
proof -
  have "33 \<le> (of_char c :: nat)" "(of_char c :: nat) < 128" "c \<noteq> CHR 0x22" "c \<noteq> CHR 0x5C"
    using assms by (auto simp: namespace_char_def is_upper_def is_lower_def is_digit_def less_eq_char_def)
  then show "print_char c = [c]" "c \<noteq> CHR 0xE2" by (auto simp: print_char_def)
qed

lemma print_chars_plain:
  "list_all (\<lambda>c. namespace_char c \<or> c = CHR '':'') s \<Longrightarrow> print_chars s = s"
proof (induction s)
  case (Cons c s)
  then show ?case using print_char_plain [of c] by simp
qed simp

lemma print_string_plain:
  "conditionalNamespacePattern s \<or> conditionalRequestIDPattern s \<Longrightarrow> length (print_string s) = length s + 2"
  using print_chars_plain [of s]
  by (auto simp: print_string_def conditionalNamespacePattern_def conditionalRequestIDPattern_def class_pattern_def
      list_all_iff)

lemma print_string_operator: "validCompareOperator op \<Longrightarrow> length (print_string op) = 4"
  by (auto simp: validCompareOperator_def compare_operator_defs print_string_def print_char_def)

lemma length_int64_str:
  assumes "- (2 ^ 63) \<le> i" "i < (2 ^ 63 :: int)"
  shows "length (int_str i) \<le> 20"
proof -
  have bound: "n < 10 ^ k \<Longrightarrow> length (nat_str n) \<le> max 1 k" for n k
  proof (induction n arbitrary: k rule: nat_str.induct)
    case (1 n)
    show ?case
    proof (cases "n < 10")
      case True
      then show ?thesis using length_nat_str(1) by simp
    next
      case False
      obtain k' where k: "k = Suc k'" using 1(2) False by (cases k) auto
      then have "n div 10 < 10 ^ k'" using 1(2) by (simp add: div_less_iff_less_mult mult.commute)
      moreover have "k' \<noteq> 0" using k 1(2) False by (cases k') auto
      ultimately have "length (nat_str (n div 10)) \<le> k'" using 1(1) [OF False, of k'] by simp
      then show ?thesis using False k by (subst nat_str.simps) simp
    qed
  qed
  have "nat (- i) < 10 ^ 19" "nat i < 10 ^ 19" using assms by (simp_all add: nat_less_iff)
  then have "length (nat_str (nat (- i))) \<le> 19" "length (nat_str (nat i)) \<le> 19"
    using bound [of _ 19] by simp_all
  then show ?thesis by (simp add: int_str_def)
qed

lemma print_delta: "length (print_string (int_str (sint (d :: int64)))) \<le> 22"
proof -
  have p: "print_char c = [c] \<and> c \<noteq> CHR 0xE2" if "is_digit c \<or> c = CHR ''-''" for c
    using that print_char_plain [of c] by (auto simp: namespace_char_def)
  have "list_all (\<lambda>c. namespace_char c \<or> c = CHR '':'') (int_str i)" for i
    using list_all_digit_nat_str by (auto simp: int_str_def namespace_char_def list_all_iff)
  then have "print_chars (int_str (sint d)) = int_str (sint d)" by (rule print_chars_plain)
  then show ?thesis
    using length_int64_str [of "sint d"] sint_greater_eq [of d] sint_less [of d] by (simp add: print_string_def)
qed

lemma nullable_wire_size:
  "length (print_json (wireBytes_MarshalJSON (nullableWireBytes v)))
     = (case v of None \<Rightarrow> 4 | Some b \<Rightarrow> wireByteArrayJSONSize b)"
  by (cases v) (simp_all add: nullableWireBytes_def wireByteArrayJSONSize_exact wireBytes_MarshalJSON_def)

lemma condition_json_size:
  assumes "condition_ok c"
  shows "length (print_json (wireConditionalCondition_json (wire_condition c)))
    \<le> 40 + wireByteArrayJSONSize (cond_Key c) + (case cond_Expected c of None \<Rightarrow> 0 | Some v \<Rightarrow> wireByteArrayJSONSize v)"
  using assms print_string_operator [of "cond_Operator c"]
  by (simp add: wireConditionalCondition_json_def wire_condition_def length_join nullable_wire_size
      wireByteArrayJSONSize_exact condition_ok_def print_string_def print_char_def split: option.split)

lemma mutation_json_size:
  assumes "mutation_ok m"
  shows "length (print_json (wireConditionalMutation_json (wire_mutation m)))
    \<le> 80 + wireByteArrayJSONSize (mut_key m)
      + (if mut_kind m = conditionalPut then wireByteArrayJSONSize (nullable_value (mut_value m)) else 0)"
  using assms print_delta [of "mut_delta m"]
  by (cases "mut_kind m") (simp_all add: wireConditionalMutation_json_def wire_mutation_def length_join
      wireByteArrayJSONSize_exact mutation_ok_def print_string_def print_char_def)

lemma sum_list_bound: "(\<And>x. x \<in> set xs \<Longrightarrow> f x \<le> k + g x) \<Longrightarrow> sum_list (map f xs) \<le> k * length xs + sum_list (map g xs)"
  for f g :: "'a \<Rightarrow> nat"
proof (induction xs)
  case (Cons x xs)
  then have "f x \<le> k + g x" "sum_list (map f xs) \<le> k * length xs + sum_list (map g xs)" by simp_all
  then show ?case by simp
qed simp

lemma encoded_size_bound:
  assumes "request_ok ns rid cs ms" "buildConditionalRequest ns rid cs ms = Inr (w, sha)"
  shows "length (print_json (wireConditionalRequest_json w)) \<le> estimated_size ns rid cs ms"
proof -
  let ?c = "\<lambda>c. length (print_json (wireConditionalCondition_json (wire_condition c)))"
  let ?m = "\<lambda>m. length (print_json (wireConditionalMutation_json (wire_mutation m)))"
  have w: "w = \<lparr>wr_Version = conditionalTransactionVersion, wr_RequestID = rid, wr_Namespace = ns,
      wr_Conditions = map wire_condition cs, wr_Mutations = map wire_mutation ms\<rparr>"
    using assms(2) by (simp add: build_request_iff)
  have ok: "list_all condition_ok cs" "list_all mutation_ok ms" "conditionalNamespacePattern ns"
    "conditionalRequestIDPattern rid" using assms(1) by (simp_all add: request_ok_def)
  have "sum_list (map ?c cs) \<le> 40 * length cs + conditions_size cs"
    unfolding conditions_size_def using ok(1) condition_json_size
    by (intro sum_list_bound) (force simp: list_all_iff)
  moreover have "sum_list (map ?m ms) \<le> 80 * length ms + mutations_size ms"
    unfolding mutations_size_def using ok(2) mutation_json_size
    by (intro sum_list_bound) (force simp: list_all_iff)
  moreover have "length (nat_str (unat conditionalTransactionVersion)) = 1"
    by (simp add: conditionalTransactionVersion_def length_nat_str)
  moreover have "length (print_string rid) = length rid + 2" "length (print_string ns) = length ns + 2"
    using ok print_string_plain by blast+
  ultimately show ?thesis
    by (simp add: w wireConditionalRequest_json_def length_join comp_def estimated_size_def
        print_string_def print_char_def)
qed

section \<open>The command digest determines the request\<close>

definition condition_fits :: "string \<times> bytes \<times> nullable_bytes \<times> ConditionalCompareOperator \<Rightarrow> bool" where
  "condition_fits = (\<lambda>(keyspace, key, expected, operator). fits_u32 (bytes_of keyspace) \<and> fits_u32 key
     \<and> (case expected of None \<Rightarrow> True | Some v \<Rightarrow> fits_u32 v) \<and> validCompareOperator operator)"

lemma operator_byte_inject:
  "validCompareOperator a \<Longrightarrow> validCompareOperator b \<Longrightarrow> operator_byte a = operator_byte b \<longleftrightarrow> a = b"
  by (auto simp: validCompareOperator_def operator_byte_def compare_operator_defs)

lemma expected_split:
  assumes "case e of None \<Rightarrow> True | Some v \<Rightarrow> fits_u32 v" "case e' of None \<Rightarrow> True | Some v \<Rightarrow> fits_u32 v"
    "(case e of None \<Rightarrow> [0] | Some v \<Rightarrow> 1 # len_bytes_le v) @ r = (case e' of None \<Rightarrow> [0] | Some v \<Rightarrow> 1 # len_bytes_le v) @ s"
  shows "e = e' \<and> r = s"
proof (cases e; cases e')
  fix v v' assume "e = Some v" "e' = Some v'"
  with assms show ?thesis using lp_le.enc_split [of v v' r s] by simp
qed (use assms in simp_all)

interpretation command_condition: prefix_free condition_bytes condition_fits
proof (unfold_locales, goal_cases)
  case (1 x y r s)
  obtain ks k e op where x: "x = (ks, k, e, op)" by (cases x)
  obtain ks' k' e' op' where y: "y = (ks', k', e', op')" by (cases y)
  have f: "fits_u32 (bytes_of ks)" "fits_u32 (bytes_of ks')" "fits_u32 k" "fits_u32 k'"
    and e: "case e of None \<Rightarrow> True | Some v \<Rightarrow> fits_u32 v" "case e' of None \<Rightarrow> True | Some v \<Rightarrow> fits_u32 v"
    and op: "validCompareOperator op" "validCompareOperator op'"
    using 1(1,2) x y by (simp_all add: condition_fits_def)
  note eq = 1(3) [unfolded x y condition_bytes_def prod.case append_assoc]
  from lp_le.enc_split [OF f(1,2) eq] have ks: "ks = ks'" and eq2: "len_bytes_le k
      @ (case e of None \<Rightarrow> [0] | Some v \<Rightarrow> 1 # len_bytes_le v) @ [operator_byte op] @ r
    = len_bytes_le k' @ (case e' of None \<Rightarrow> [0] | Some v \<Rightarrow> 1 # len_bytes_le v) @ [operator_byte op'] @ s" by simp_all
  from lp_le.enc_split [OF f(3,4) eq2] have k: "k = k'" and eq3:
    "(case e of None \<Rightarrow> [0] | Some v \<Rightarrow> 1 # len_bytes_le v) @ [operator_byte op] @ r
    = (case e' of None \<Rightarrow> [0] | Some v \<Rightarrow> 1 # len_bytes_le v) @ [operator_byte op'] @ s" by simp_all
  from expected_split [OF e eq3] show ?case using ks k op operator_byte_inject x y by simp
qed

text \<open>A mutation as a constructor makes it, with fields that fit their length prefixes.\<close>

definition mutation_fits :: "string \<times> conditionalMutationKind \<times> bytes \<times> nullable_bytes \<times> int64 \<Rightarrow> bool" where
  "mutation_fits = (\<lambda>(keyspace, kind, key, value, delta). fits_u32 (bytes_of keyspace) \<and> fits_u32 key
     \<and> (case kind of
          conditionalPut \<Rightarrow> (\<exists>v. value = Some v \<and> fits_u32 v) \<and> delta = 0
        | conditionalDelete \<Rightarrow> value = None \<and> delta = 0
        | conditionalIncrement \<Rightarrow> value = None
        | conditionalNone \<Rightarrow> False))"

definition mutation_enc :: "string \<times> conditionalMutationKind \<times> bytes \<times> nullable_bytes \<times> int64 \<Rightarrow> bytes" where
  "mutation_enc = (\<lambda>(keyspace, kind, key, value, delta). the (mutation_bytes keyspace kind key value delta))"

lemma mutations_bytes_enc: "list_all mutation_fits ms \<Longrightarrow> mutations_bytes ms = Some (concat (map mutation_enc ms))"
proof (induction ms rule: mutations_bytes.induct)
  case (2 ks kind key v d ms)
  then show ?case by (cases kind) (auto simp: mutation_fits_def mutation_enc_def mutation_bytes_def)
qed simp

interpretation command_mutation: prefix_free mutation_enc mutation_fits
proof (unfold_locales, goal_cases)
  case (1 x y r s)
  obtain ks kind k v d where x: "x = (ks, kind, k, v, d)" by (cases x)
  obtain ks' kind' k' v' d' where y: "y = (ks', kind', k', v', d')" by (cases y)
  have f: "fits_u32 (bytes_of ks)" "fits_u32 (bytes_of ks')" "fits_u32 k" "fits_u32 k'"
    using 1(1,2) x y by (simp_all add: mutation_fits_def)
  have head: "ks = ks' \<and> k = k' \<and> t = u"
    if "len_bytes_le (bytes_of ks) @ len_bytes_le k @ t = len_bytes_le (bytes_of ks') @ len_bytes_le k' @ u" for t u
    using lp_le.enc_split [OF f(1,2) that] lp_le.enc_split [OF f(3,4)] by auto
  have kinds: "kind = kind'"
    using 1 unfolding x y
    by (cases kind; cases kind') (simp_all add: mutation_fits_def mutation_enc_def mutation_bytes_def)
  show ?case
  proof (cases kind)
    case conditionalPut
    then obtain a b where v: "v = Some a" "v' = Some b" "fits_u32 a" "fits_u32 b" "d = 0" "d' = 0"
      using 1(1,2) kinds x y by (auto simp: mutation_fits_def)
    then have "len_bytes_le (bytes_of ks) @ len_bytes_le k @ len_bytes_le a @ r
        = len_bytes_le (bytes_of ks') @ len_bytes_le k' @ len_bytes_le b @ s"
      using 1(3) kinds conditionalPut x y by (simp add: mutation_enc_def mutation_bytes_def nullable_value_def)
    from head [OF this] lp_le.enc_split [OF v(3,4), of r s] show ?thesis using v kinds x y by simp
  next
    case conditionalDelete
    with 1 kinds head [of r s] show ?thesis unfolding x y
      by (simp add: mutation_fits_def mutation_enc_def mutation_bytes_def)
  next
    case conditionalIncrement
    with 1 kinds head [of "u64_le d @ r" "u64_le d' @ s"] show ?thesis unfolding x y
      by (simp add: mutation_fits_def mutation_enc_def mutation_bytes_def)
  qed (use 1(1) x in \<open>simp add: mutation_fits_def\<close>)
qed

lemma command_bytes_inject:
  assumes "list_all condition_fits cs" "list_all condition_fits cs'" "list_all mutation_fits ms" "list_all mutation_fits ms'"
    "length cs < 2 ^ 32" "length cs' < 2 ^ 32" "length ms < 2 ^ 32" "length ms' < 2 ^ 32"
    "command_bytes cs ms = command_bytes cs' ms'"
  shows "cs = cs' \<and> ms = ms'"
proof -
  have eq: "length cs = length cs'" "concat (map condition_bytes cs) @ u32_le (of_nat (length ms)) @ concat (map mutation_enc ms)
      = concat (map condition_bytes cs') @ u32_le (of_nat (length ms')) @ concat (map mutation_enc ms')"
    using assms(9) mutations_bytes_enc [OF assms(3)] mutations_bytes_enc [OF assms(4)] of_nat_u32_inject [OF assms(5,6)]
    by (simp_all add: command_bytes_def)
  from command_condition.concat_split [OF assms(1,2) eq] have c: "cs = cs'"
    and eq2: "u32_le (of_nat (length ms)) @ concat (map mutation_enc ms) = u32_le (of_nat (length ms')) @ concat (map mutation_enc ms')"
    by simp_all
  then have "length ms = length ms'" "concat (map mutation_enc ms) @ [] = concat (map mutation_enc ms') @ []"
    using of_nat_u32_inject [OF assms(7,8)] by simp_all
  from command_mutation.concat_split [OF assms(3,4) this] c show ?thesis by simp
qed

definition made_by_constructor :: "ConditionalTransactionMutation \<Rightarrow> bool" where
  "made_by_constructor m \<longleftrightarrow>
     (\<exists>k v. m = ConditionalPut k v) \<or> (\<exists>k. m = ConditionalDelete k) \<or> (\<exists>k d. m = ConditionalIncrement k d)"

definition request_command :: "string \<Rightarrow> ConditionalTransactionCondition list
    \<Rightarrow> ConditionalTransactionMutation list \<Rightarrow> bytes" where
  "request_command ns cs ms = the (command_bytes
     (map (\<lambda>c. (userKeyspace ns, cond_Key c, cond_Expected c, cond_Operator c)) cs)
     (map (\<lambda>m. (userKeyspace ns, mut_kind m, mut_key m, mut_value m, mut_delta m)) ms))"

lemma request_fits:
  assumes "request_ok ns rid cs ms" "list_all made_by_constructor ms"
  shows "list_all condition_fits (map (\<lambda>c. (userKeyspace ns, cond_Key c, cond_Expected c, cond_Operator c)) cs)"
    and "list_all mutation_fits (map (\<lambda>m. (userKeyspace ns, mut_kind m, mut_key m, mut_value m, mut_delta m)) ms)"
    and "length cs < 2 ^ 32" and "length ms < 2 ^ 32"
proof -
  have "length ns \<le> 64" using assms(1) by (simp add: request_ok_def conditionalNamespacePattern_def class_pattern_def)
  then have ks: "fits_u32 (bytes_of (userKeyspace ns))" by (simp add: fits_u32_def userKeyspace_def)
  show "list_all condition_fits (map (\<lambda>c. (userKeyspace ns, cond_Key c, cond_Expected c, cond_Operator c)) cs)"
    using assms(1) ks by (auto simp: request_ok_def condition_fits_def condition_ok_def list_all_iff fits_u32_def
        maxConditionalKeyBytes_def maxConditionalValueBytes_def nullable_value_def split: option.splits)
  show "list_all mutation_fits (map (\<lambda>m. (userKeyspace ns, mut_kind m, mut_key m, mut_value m, mut_delta m)) ms)"
    using assms ks by (fastforce simp: request_ok_def mutation_fits_def mutation_ok_def list_all_iff fits_u32_def
        maxConditionalKeyBytes_def maxConditionalValueBytes_def nullable_value_def made_by_constructor_def
        ConditionalPut_def ConditionalDelete_def ConditionalIncrement_def)
  show "length cs < 2 ^ 32" "length ms < 2 ^ 32" using assms(1) by (simp_all add: request_ok_def maxConditionalItems_def)
qed

lemma userKeyspace_inject: "userKeyspace a = userKeyspace b \<longleftrightarrow> a = b"
  by (simp add: userKeyspace_def)

lemma request_command_inject:
  assumes "request_ok ns rid cs ms" "request_ok ns' rid' cs' ms'"
    "list_all made_by_constructor ms" "list_all made_by_constructor ms'"
    "request_command ns cs ms = request_command ns' cs' ms'"
  shows "ns = ns' \<and> cs = cs' \<and> ms = ms'"
proof -
  note f = request_fits [OF assms(1,3)] and f' = request_fits [OF assms(2,4)]
  let ?C = "\<lambda>ns. map (\<lambda>c. (userKeyspace ns, cond_Key c, cond_Expected c, cond_Operator c))"
  let ?M = "\<lambda>ns. map (\<lambda>m. (userKeyspace ns, mut_kind m, mut_key m, mut_value m, mut_delta m))"
  have "command_bytes (?C ns cs) (?M ns ms) = command_bytes (?C ns' cs') (?M ns' ms')"
    using assms(5) mutations_bytes_enc [OF f(2)] mutations_bytes_enc [OF f'(2)]
    by (simp add: request_command_def command_bytes_def)
  from command_bytes_inject [OF f(1) f'(1) f(2) f'(2) _ _ _ _ this]
  have eq: "?C ns cs = ?C ns' cs'" "?M ns ms = ?M ns' ms'" using f(3,4) f'(3,4) by simp_all
  have "ms \<noteq> []" using assms(1) by (simp add: request_ok_def)
  then have ns: "ns = ns'" using eq(2) by (cases ms; cases ms') (auto simp: userKeyspace_inject)
  have "inj (\<lambda>c :: ConditionalTransactionCondition. (userKeyspace ns, cond_Key c, cond_Expected c, cond_Operator c))"
    "inj (\<lambda>m :: ConditionalTransactionMutation. (userKeyspace ns, mut_kind m, mut_key m, mut_value m, mut_delta m))"
    by (auto intro!: injI ConditionalTransactionCondition.equality ConditionalTransactionMutation.equality)
  then show ?thesis using eq unfolding ns [symmetric] by (simp add: inj_map_eq_map)
qed

lemma new_request_iff:
  "NewConditionalTransactionRequest ns rid cs ms = Inr r \<longleftrightarrow>
     request_ok ns rid cs ms \<and> (\<exists>sha. conditionalCommandSHA ns cs ms = Inr sha
       \<and> r = \<lparr>req_namespace = ns, req_requestID = rid, req_conditions = cs, req_mutations = ms, req_commandSHA256 = sha\<rparr>)"
proof -
  have "NewConditionalTransactionRequest ns rid cs ms = Inr r \<longleftrightarrow>
      (\<exists>w sha. buildConditionalRequest ns rid cs ms = Inr (w, sha)
       \<and> r = \<lparr>req_namespace = ns, req_requestID = rid, req_conditions = cs, req_mutations = ms, req_commandSHA256 = sha\<rparr>)"
    by (auto simp: NewConditionalTransactionRequest_def split: sum.splits prod.splits)
  then show ?thesis unfolding build_request_iff by blast
qed

lemma command_sha_eq:
  assumes "list_all mutation_ok ms" "conditionalCommandSHA ns cs ms = Inr sha"
  shows "sha = hex_encode (sha256 (request_command ns cs ms))"
  using assms mutations_bytes_total [of ms "userKeyspace ns"]
  by (auto simp: conditionalCommandSHA_def conditionalCommandSHAForKeyspace_def request_command_def sha256_hex_def
      split: option.splits)

section \<open>Properties\<close>

text \<open>A small request for the witnesses.\<close>

definition demo_condition :: ConditionalTransactionCondition where
  "demo_condition = \<lparr>cond_Key = [1], cond_Expected = None, cond_Operator = CompareEqual\<rparr>"

lemma demo_request_ok:
  "request_ok ''ns'' ''r1'' [demo_condition] [ConditionalPut [1] [2, 3], ConditionalIncrement [4] 7]"
  by (simp add: request_ok_def conditionalNamespacePattern_def conditionalRequestIDPattern_def class_pattern_def
      namespace_char_def is_lower_def is_upper_def is_digit_def demo_condition_def condition_ok_def mutation_ok_def
      validCompareOperator_def compare_operator_defs maxConditionalItems_def maxConditionalKeyBytes_def
      maxConditionalValueBytes_def nullable_value_def ConditionalPut_def ConditionalIncrement_def
      estimated_size_def conditions_size_def mutations_size_def wireByteArrayJSONSize_def
      maxNativeJSONRequestBytes_def)

lemma build_request_total: "request_ok ns rid cs ms \<Longrightarrow> \<exists>w sha. buildConditionalRequest ns rid cs ms = Inr (w, sha)"
  using command_sha_total [of ms ns cs] by (auto simp: build_request_iff request_ok_def)


text \<open>
  C14: the running estimate of \<open>buildConditionalRequest\<close> is sound: the JSON encoding of a request that
  was built is at most 32 MiB long.
\<close>

theorem built_request_fits_bound:
  assumes "buildConditionalRequest ns rid cs ms = Inr (w, sha)"
  shows "length (print_json (wireConditionalRequest_json w)) \<le> maxNativeJSONRequestBytes"
  using encoded_size_bound [OF _ assms] assms
  by (auto simp: build_request_iff request_ok_def intro: le_trans)

theorem built_request_fits_bound_witness:
  "\<exists>w sha. buildConditionalRequest ''ns'' ''r1'' [demo_condition] [ConditionalPut [1] [2, 3], ConditionalIncrement [4] 7]
      = Inr (w, sha) \<and> length (print_json (wireConditionalRequest_json w)) \<le> maxNativeJSONRequestBytes"
  using build_request_total [OF demo_request_ok] built_request_fits_bound by blast

text \<open>
  C15: the command digest identifies the request. Two requests with equal digests have the same
  namespace, conditions and mutations, or their command encodings are a SHA-256 collision.
\<close>

theorem command_digest_determines_request:
  assumes "NewConditionalTransactionRequest ns rid cs ms = Inr r"
    "NewConditionalTransactionRequest ns' rid' cs' ms' = Inr r'"
    "list_all made_by_constructor ms" "list_all made_by_constructor ms'"
    "req_commandSHA256 r = req_commandSHA256 r'"
  shows "(ns = ns' \<and> cs = cs' \<and> ms = ms')
    \<or> hash_collision (request_command ns cs ms, request_command ns' cs' ms')"
proof -
  have ok: "request_ok ns rid cs ms" "request_ok ns' rid' cs' ms'" using assms(1,2) by (simp_all add: new_request_iff)
  have "req_commandSHA256 r = hex_encode (sha256 (request_command ns cs ms))"
    "req_commandSHA256 r' = hex_encode (sha256 (request_command ns' cs' ms'))"
    using assms(1,2) ok by (auto simp: new_request_iff request_ok_def intro: command_sha_eq)
  then have "sha256 (request_command ns cs ms) = sha256 (request_command ns' cs' ms')"
    using assms(5) by (metis hex_encode_inject)
  then show ?thesis using request_command_inject [OF ok assms(3,4)] by (auto simp: hash_collision_def)
qed

theorem command_digest_determines_request_witness:
  "\<exists>r. NewConditionalTransactionRequest ''ns'' ''r1'' [demo_condition] [ConditionalPut [1] [2, 3], ConditionalIncrement [4] 7] = Inr r
    \<and> ((''ns'' = ''ns'' \<and> [demo_condition] = [demo_condition]
          \<and> [ConditionalPut [1] [2, 3], ConditionalIncrement [4] 7] = [ConditionalPut [1] [2, 3], ConditionalIncrement [4] 7])
       \<or> hash_collision
           (request_command ''ns'' [demo_condition] [ConditionalPut [1] [2, 3], ConditionalIncrement [4] 7],
            request_command ''ns'' [demo_condition] [ConditionalPut [1] [2, 3], ConditionalIncrement [4] 7]))"
proof -
  let ?ms = "[ConditionalPut [1] [2, 3], ConditionalIncrement [4] 7]"
  have "list_all mutation_ok ?ms" using demo_request_ok by (simp add: request_ok_def)
  then obtain r where r: "NewConditionalTransactionRequest ''ns'' ''r1'' [demo_condition] ?ms = Inr r"
    using command_sha_total [of ?ms "''ns''" "[demo_condition]"] demo_request_ok
    by (simp only: new_request_iff) blast
  have "list_all made_by_constructor ?ms" by (auto simp: made_by_constructor_def)
  from command_digest_determines_request [OF r r this this refl] r show ?thesis by blast
qed

end
