(* ===== verification/ConditionalReceipt.thy ===== *)
theory ConditionalReceipt
  imports Conditional
begin

text \<open>
  Conditional transactions, the response side of \<open>internal/serverprotocol/conditional.go\<close>: decoding
  results, receipt lookups, receipts, conflicts, observations and quorum receipts from JSON, the
  canonical digest of a receipt, and \<open>validateReceiptAgainstRequest\<close>, which checks the evidence of a
  receipt against the request.
\<close>

definition protocolError :: "string \<Rightarrow> go_error \<Rightarrow> go_error" where
  "protocolError operation cause = newError CodeProtocolViolation operation
     ''native conditional transaction response violated its typed contract'' (Some cause)"

abbreviation protocol_failure :: "string \<Rightarrow> string \<Rightarrow> 'a result" where
  "protocol_failure operation text \<equiv> Inl (protocolError operation (ErrorString text))"

section \<open>Typed results\<close>

definition ConditionalOutcomeApplied :: string where "ConditionalOutcomeApplied = ''applied''"
definition ConditionalOutcomeConflict :: string where "ConditionalOutcomeConflict = ''conflict''"
definition ConditionalResultApplied :: string where "ConditionalResultApplied = ''applied''"
definition ConditionalResultDuplicate :: string where "ConditionalResultDuplicate = ''duplicate''"
definition ConditionalResultConflict :: string where "ConditionalResultConflict = ''conflict''"
definition ConditionalConflictConditionFailed :: string where "ConditionalConflictConditionFailed = ''condition_failed''"
definition ConditionalConflictCounterInvalid :: string where "ConditionalConflictCounterInvalid = ''counter_invalid''"
definition ConditionalConflictCounterOverflow :: string where "ConditionalConflictCounterOverflow = ''counter_overflow''"
definition ConditionalConflictCounterUnderflow :: string where "ConditionalConflictCounterUnderflow = ''counter_underflow''"
definition QuorumReceiptAccepted :: string where "QuorumReceiptAccepted = ''accepted''"
definition QuorumReceiptCommitted :: string where "QuorumReceiptCommitted = ''committed''"
definition QuorumReceiptApplied :: string where "QuorumReceiptApplied = ''applied''"
definition QuorumDurabilityNone :: string where "QuorumDurabilityNone = ''none''"
definition QuorumDurabilityLocalFsync :: string where "QuorumDurabilityLocalFsync = ''local_fsync''"
definition QuorumDurabilityQuorumFsync :: string where "QuorumDurabilityQuorumFsync = ''quorum_fsync''"
definition ConditionalReceiptFound :: string where "ConditionalReceiptFound = ''receipt''"
definition ConditionalReceiptIndeterminate :: string where "ConditionalReceiptIndeterminate = ''indeterminate''"

lemmas receipt_enum_defs = ConditionalOutcomeApplied_def ConditionalOutcomeConflict_def
  ConditionalResultApplied_def ConditionalResultDuplicate_def ConditionalResultConflict_def
  ConditionalConflictConditionFailed_def ConditionalConflictCounterInvalid_def
  ConditionalConflictCounterOverflow_def ConditionalConflictCounterUnderflow_def
  QuorumReceiptAccepted_def QuorumReceiptCommitted_def QuorumReceiptApplied_def
  QuorumDurabilityNone_def QuorumDurabilityLocalFsync_def QuorumDurabilityQuorumFsync_def
  ConditionalReceiptFound_def ConditionalReceiptIndeterminate_def

record ConditionalTransactionConflict =
  cf_Kind :: string
  cf_Index :: uint64

record ConditionalTransactionObservation =
  obs_Index :: uint64
  obs_Keyspace :: string
  obs_Key :: bytes
  obs_Before :: nullable_bytes
  obs_After :: nullable_bytes
  obs_Matched :: "bool option"
  obs_BeforeI64 :: "int64 option"
  obs_AfterI64 :: "int64 option"

record ConditionalTransactionReceipt =
  rc_Version :: uint16
  rc_RequestID :: string
  rc_CommandSHA256 :: string
  rc_Revision :: uint64
  rc_Outcome :: string
  rc_Conflict :: "ConditionalTransactionConflict option"
  rc_Conditions :: "ConditionalTransactionObservation list"
  rc_Mutations :: "ConditionalTransactionObservation list"
  rc_ReceiptSHA256 :: string

record ConditionalQuorumReceipt =
  q_Version :: uint16
  q_RequestID :: string
  q_Index :: uint64
  q_Term :: uint64
  q_Stage :: string
  q_Durability :: string
  q_CommandSHA256 :: string
  q_ResultSHA256 :: "string option"

record ConditionalTransactionResult =
  res_Result :: string
  res_OriginalResult :: string
  res_Applied :: bool
  res_Rejected :: bool
  res_Duplicate :: bool
  res_Revision :: uint64
  res_Receipt :: ConditionalTransactionReceipt
  res_QuorumReceipt :: "ConditionalQuorumReceipt option"

record ConditionalReceiptLookup =
  lk_Status :: string
  lk_RequestID :: string
  lk_Revision :: "uint64 option"
  lk_Receipt :: "ConditionalTransactionReceipt option"
  lk_QuorumReceipt :: "ConditionalQuorumReceipt option"

section \<open>Wire structures\<close>

record wireConditionalConflict =
  wcf_Kind :: string
  wcf_Index :: "uint64 option"

definition wireConditionalConflict_decoder :: "wireConditionalConflict decoder" where
  "wireConditionalConflict_decoder = decode_struct [''kind'', ''index'']
     (\<lambda>f. if f = ''kind'' then field wcf_Kind wcf_Kind_update json_string
          else field wcf_Index wcf_Index_update (json_ptr 0 json_uint))"

definition zero_wireConflict :: wireConditionalConflict where
  "zero_wireConflict = \<lparr>wcf_Kind = [], wcf_Index = None\<rparr>"

record wireConditionalObservation =
  wo_Index :: "uint64 option"
  wo_Keyspace :: string
  wo_Key :: wireBytes
  wo_Before :: wireBytes
  wo_After :: wireBytes
  wo_Matched :: raw_message
  wo_BeforeI64 :: raw_message
  wo_AfterI64 :: raw_message

definition wireConditionalObservation_decoder :: "wireConditionalObservation decoder" where
  "wireConditionalObservation_decoder = decode_struct
     [''index'', ''keyspace'', ''key'', ''before'', ''after'', ''matched'', ''before_i64'', ''after_i64'']
     (\<lambda>f. if f = ''index'' then field wo_Index wo_Index_update (json_ptr 0 json_uint)
          else if f = ''keyspace'' then field wo_Keyspace wo_Keyspace_update json_string
          else if f = ''key'' then field wo_Key wo_Key_update wireBytes_UnmarshalJSON
          else if f = ''before'' then field wo_Before wo_Before_update wireBytes_UnmarshalJSON
          else if f = ''after'' then field wo_After wo_After_update wireBytes_UnmarshalJSON
          else if f = ''matched'' then field wo_Matched wo_Matched_update json_raw
          else if f = ''before_i64'' then field wo_BeforeI64 wo_BeforeI64_update json_raw
          else field wo_AfterI64 wo_AfterI64_update json_raw)"

definition zero_wireObservation :: wireConditionalObservation where
  "zero_wireObservation = \<lparr>wo_Index = None, wo_Keyspace = [], wo_Key = zero_wireBytes, wo_Before = zero_wireBytes,
     wo_After = zero_wireBytes, wo_Matched = None, wo_BeforeI64 = None, wo_AfterI64 = None\<rparr>"

record wireConditionalReceipt =
  wrc_Version :: uint16
  wrc_RequestID :: string
  wrc_CommandSHA256 :: string
  wrc_Revision :: canonicalUint64
  wrc_Outcome :: string
  wrc_Conflict :: raw_message
  wrc_Conditions :: "wireConditionalObservation list option"
  wrc_Mutations :: "wireConditionalObservation list option"
  wrc_ReceiptSHA256 :: string

definition wireConditionalReceipt_decoder :: "wireConditionalReceipt decoder" where
  "wireConditionalReceipt_decoder = decode_struct
     [''version'', ''request_id'', ''command_sha256'', ''revision'', ''outcome'', ''conflict'', ''conditions'',
      ''mutations'', ''receipt_sha256'']
     (\<lambda>f. if f = ''version'' then field wrc_Version wrc_Version_update json_uint
          else if f = ''request_id'' then field wrc_RequestID wrc_RequestID_update json_string
          else if f = ''command_sha256'' then field wrc_CommandSHA256 wrc_CommandSHA256_update json_string
          else if f = ''revision'' then field wrc_Revision wrc_Revision_update canonicalUint64_UnmarshalJSON
          else if f = ''outcome'' then field wrc_Outcome wrc_Outcome_update json_string
          else if f = ''conflict'' then field wrc_Conflict wrc_Conflict_update json_raw
          else if f = ''conditions'' then field wrc_Conditions wrc_Conditions_update
            (json_slice zero_wireObservation wireConditionalObservation_decoder)
          else if f = ''mutations'' then field wrc_Mutations wrc_Mutations_update
            (json_slice zero_wireObservation wireConditionalObservation_decoder)
          else field wrc_ReceiptSHA256 wrc_ReceiptSHA256_update json_string)"

definition zero_wireReceipt :: wireConditionalReceipt where
  "zero_wireReceipt = \<lparr>wrc_Version = 0, wrc_RequestID = [], wrc_CommandSHA256 = [], wrc_Revision = zero_canonicalUint64,
     wrc_Outcome = [], wrc_Conflict = None, wrc_Conditions = None, wrc_Mutations = None, wrc_ReceiptSHA256 = []\<rparr>"

record wireConditionalResult =
  wrs_Result :: string
  wrs_OriginalResult :: string
  wrs_Applied :: "bool option"
  wrs_Duplicate :: "bool option"
  wrs_Revision :: canonicalUint64
  wrs_Receipt :: raw_message
  wrs_QuorumReceipt :: raw_message

definition wireConditionalResult_decoder :: "wireConditionalResult decoder" where
  "wireConditionalResult_decoder = decode_struct
     [''result'', ''original_result'', ''applied'', ''duplicate'', ''revision'', ''receipt'', ''quorum_receipt'']
     (\<lambda>f. if f = ''result'' then field wrs_Result wrs_Result_update json_string
          else if f = ''original_result'' then field wrs_OriginalResult wrs_OriginalResult_update json_string
          else if f = ''applied'' then field wrs_Applied wrs_Applied_update (json_ptr False json_bool)
          else if f = ''duplicate'' then field wrs_Duplicate wrs_Duplicate_update (json_ptr False json_bool)
          else if f = ''revision'' then field wrs_Revision wrs_Revision_update canonicalUint64_UnmarshalJSON
          else if f = ''receipt'' then field wrs_Receipt wrs_Receipt_update json_raw
          else field wrs_QuorumReceipt wrs_QuorumReceipt_update json_raw)"

definition zero_wireResult :: wireConditionalResult where
  "zero_wireResult = \<lparr>wrs_Result = [], wrs_OriginalResult = [], wrs_Applied = None, wrs_Duplicate = None,
     wrs_Revision = zero_canonicalUint64, wrs_Receipt = None, wrs_QuorumReceipt = None\<rparr>"

record wireConditionalLookup =
  wlk_Result :: string
  wlk_RequestID :: string
  wlk_Revision :: canonicalUint64
  wlk_Receipt :: raw_message
  wlk_StreamReceipt :: raw_message
  wlk_QuorumReceipt :: raw_message

definition wireConditionalLookup_decoder :: "wireConditionalLookup decoder" where
  "wireConditionalLookup_decoder = decode_struct
     [''result'', ''request_id'', ''revision'', ''receipt'', ''stream_receipt'', ''quorum_receipt'']
     (\<lambda>f. if f = ''result'' then field wlk_Result wlk_Result_update json_string
          else if f = ''request_id'' then field wlk_RequestID wlk_RequestID_update json_string
          else if f = ''revision'' then field wlk_Revision wlk_Revision_update canonicalUint64_UnmarshalJSON
          else if f = ''receipt'' then field wlk_Receipt wlk_Receipt_update json_raw
          else if f = ''stream_receipt'' then field wlk_StreamReceipt wlk_StreamReceipt_update json_raw
          else field wlk_QuorumReceipt wlk_QuorumReceipt_update json_raw)"

definition zero_wireLookup :: wireConditionalLookup where
  "zero_wireLookup = \<lparr>wlk_Result = [], wlk_RequestID = [], wlk_Revision = zero_canonicalUint64, wlk_Receipt = None,
     wlk_StreamReceipt = None, wlk_QuorumReceipt = None\<rparr>"

record wireQuorumReceipt =
  wq_Version :: uint16
  wq_RequestID :: string
  wq_Index :: canonicalUint64
  wq_Term :: canonicalUint64
  wq_Stage :: string
  wq_Durability :: string
  wq_CommandSHA256 :: string
  wq_ResultSHA256 :: raw_message

definition wireQuorumReceipt_decoder :: "wireQuorumReceipt decoder" where
  "wireQuorumReceipt_decoder = decode_struct
     [''version'', ''request_id'', ''index'', ''term'', ''stage'', ''durability'', ''command_sha256'', ''result_sha256'']
     (\<lambda>f. if f = ''version'' then field wq_Version wq_Version_update json_uint
          else if f = ''request_id'' then field wq_RequestID wq_RequestID_update json_string
          else if f = ''index'' then field wq_Index wq_Index_update canonicalUint64_UnmarshalJSON
          else if f = ''term'' then field wq_Term wq_Term_update canonicalUint64_UnmarshalJSON
          else if f = ''stage'' then field wq_Stage wq_Stage_update json_string
          else if f = ''durability'' then field wq_Durability wq_Durability_update json_string
          else if f = ''command_sha256'' then field wq_CommandSHA256 wq_CommandSHA256_update json_string
          else field wq_ResultSHA256 wq_ResultSHA256_update json_raw)"

definition zero_wireQuorum :: wireQuorumReceipt where
  "zero_wireQuorum = \<lparr>wq_Version = 0, wq_RequestID = [], wq_Index = zero_canonicalUint64, wq_Term = zero_canonicalUint64,
     wq_Stage = [], wq_Durability = [], wq_CommandSHA256 = [], wq_ResultSHA256 = None\<rparr>"

section \<open>Conflicts and observations\<close>

definition decodeOptionalWireConflict :: "raw_message \<Rightarrow> wireConditionalConflict option result" where
  "decodeOptionalWireConflict data =
     (case data of
        None \<Rightarrow> Inr None
      | Some raw \<Rightarrow>
          if raw = JNull
          then protocol_failure ''decode conditional receipt'' ''conflict must be omitted, not null''
          else case decodeStrictRaw wireConditionalConflict_decoder zero_wireConflict raw of
            Inl err \<Rightarrow> Inl (protocolError ''decode conditional receipt'' err)
          | Inr conflict \<Rightarrow> Inr (Some conflict))"

definition decodeConditionalConflict :: "wireConditionalConflict option \<Rightarrow> nat \<Rightarrow> nat
    \<Rightarrow> ConditionalTransactionConflict option result" where
  "decodeConditionalConflict wire conditionCount mutationCount =
     (case wire of
        None \<Rightarrow> Inr None
      | Some w \<Rightarrow>
          (case wcf_Index w of
             None \<Rightarrow> protocol_failure ''decode conditional receipt'' ''conflict index is missing''
           | Some index \<Rightarrow>
               if wcf_Kind w \<noteq> ConditionalConflictConditionFailed
                  \<and> wcf_Kind w \<noteq> ConditionalConflictCounterInvalid
                  \<and> wcf_Kind w \<noteq> ConditionalConflictCounterOverflow
                  \<and> wcf_Kind w \<noteq> ConditionalConflictCounterUnderflow
               then protocol_failure ''decode conditional receipt'' (''unknown conflict kind '' @ quoted (wcf_Kind w))
               else if of_nat (if wcf_Kind w = ConditionalConflictConditionFailed
                               then conditionCount else mutationCount) \<le> index
               then protocol_failure ''decode conditional receipt'' ''conflict index is out of range''
               else Inr (Some \<lparr>cf_Kind = wcf_Kind w, cf_Index = index\<rparr>)))"

text \<open>\<open>int64(binary.BigEndian.Uint64(value)) == expected\<close> on 8 bytes; an absent value counts as 0.\<close>

definition wireBytesMatchesI64 :: "wireBytes \<Rightarrow> int64 \<Rightarrow> bool" where
  "wireBytesMatchesI64 value expected =
     (if wb_Null value then expected = 0
      else length (wb_Value value) = 8 \<and> get_u64_be (wb_Value value) = expected)"

definition bytesMatchI64 :: "nullable_bytes \<Rightarrow> int64 \<Rightarrow> bool" where
  "bytesMatchI64 value expected =
     (case value of
        None \<Rightarrow> expected = 0
      | Some v \<Rightarrow> length v = 8 \<and> get_u64_be v = expected)"

definition user_keyspace_ok :: "string \<Rightarrow> bool" where
  "user_keyspace_ok keyspace \<longleftrightarrow>
     take 21 keyspace = ''__user_conditional__.'' \<and> conditionalNamespacePattern (drop 21 keyspace)"

definition decode_observation :: "nat \<Rightarrow> bool \<Rightarrow> nat \<Rightarrow> bool \<Rightarrow> wireConditionalObservation
    \<Rightarrow> ConditionalTransactionObservation result" where
  "decode_observation index conditions maxValueBytes allowRevisionStreamInternal wire =
     (if wo_Index wire \<noteq> Some (of_nat index)
         \<or> (\<not> user_keyspace_ok (wo_Keyspace wire)
            \<and> \<not> (allowRevisionStreamInternal \<and> wo_Keyspace wire = revisionStreamInternalKeyspace))
         \<or> \<not> wb_Present (wo_Key wire) \<or> wb_Null (wo_Key wire)
         \<or> \<not> wb_Present (wo_Before wire) \<or> \<not> wb_Present (wo_After wire)
         \<or> maxConditionalKeyBytes < length (wb_Value (wo_Key wire))
         \<or> maxValueBytes < length (wb_Value (wo_Before wire))
         \<or> maxValueBytes < length (wb_Value (wo_After wire))
      then protocol_failure ''decode conditional receipt'' (''observation '' @ nat_str index @ '' has invalid required fields'')
      else case decodeOptionalBool (wo_Matched wire) of
        Inl err \<Rightarrow> Inl (protocolError ''decode conditional receipt'' err)
      | Inr matched \<Rightarrow>
          if (conditions \<and> matched = None) \<or> (\<not> conditions \<and> matched \<noteq> None)
          then protocol_failure ''decode conditional receipt'' (''observation '' @ nat_str index @ '' matched field is invalid'')
          else case decodeOptionalCanonicalInt64 (wo_BeforeI64 wire) of
            Inl err \<Rightarrow> Inl (protocolError ''decode conditional receipt'' err)
          | Inr beforeI64 \<Rightarrow>
              (case decodeOptionalCanonicalInt64 (wo_AfterI64 wire) of
                 Inl err \<Rightarrow> Inl (protocolError ''decode conditional receipt'' err)
               | Inr afterI64 \<Rightarrow>
                   if (beforeI64 = None) \<noteq> (afterI64 = None)
                   then protocol_failure ''decode conditional receipt'' (''observation '' @ nat_str index @ '' i64 fields are inconsistent'')
                   else if \<not> (case (beforeI64, afterI64) of
                       (Some b, Some a) \<Rightarrow> wireBytesMatchesI64 (wo_Before wire) b \<and> wireBytesMatchesI64 (wo_After wire) a
                     | _ \<Rightarrow> True)
                   then protocol_failure ''decode conditional receipt'' (''observation '' @ nat_str index @ '' i64 fields do not match byte values'')
                   else Inr \<lparr>obs_Index = of_nat index, obs_Keyspace = wo_Keyspace wire, obs_Key = wb_Value (wo_Key wire),
                       obs_Before = cloneNullableBytes (wo_Before wire), obs_After = cloneNullableBytes (wo_After wire),
                       obs_Matched = matched, obs_BeforeI64 = beforeI64, obs_AfterI64 = afterI64\<rparr>))"

fun decode_observations_loop :: "nat \<Rightarrow> bool \<Rightarrow> nat \<Rightarrow> bool \<Rightarrow> wireConditionalObservation list
    \<Rightarrow> ConditionalTransactionObservation list result" where
  "decode_observations_loop index conditions maxValueBytes allow [] = Inr []"
| "decode_observations_loop index conditions maxValueBytes allow (wire # wires) =
     (case decode_observation index conditions maxValueBytes allow wire of
        Inl e \<Rightarrow> Inl e
      | Inr observation \<Rightarrow>
          (case decode_observations_loop (Suc index) conditions maxValueBytes allow wires of
             Inl e \<Rightarrow> Inl e
           | Inr observations \<Rightarrow> Inr (observation # observations)))"

definition decodeConditionalObservations :: "wireConditionalObservation list \<Rightarrow> bool \<Rightarrow> nat \<Rightarrow> bool
    \<Rightarrow> ConditionalTransactionObservation list result" where
  "decodeConditionalObservations values conditions maxValueBytes allow =
     decode_observations_loop 0 conditions maxValueBytes allow values"

section \<open>The receipt digest\<close>

text \<open>The objects are Go maps, whose keys the encoder sorts; dereferencing a nil index panics.\<close>

definition nil_dereference :: "'a result" where
  "nil_dereference = Inl (ErrorString ''invalid memory address or nil pointer dereference'')"

definition observation_member :: "string \<Rightarrow> raw_message \<Rightarrow> (string \<times> json) list result" where
  "observation_member name raw =
     (case raw of
        None \<Rightarrow> Inr []
      | Some r \<Rightarrow>
          (case decodeStrictRaw canonicalInt64_UnmarshalJSON zero_canonicalInt64 r of
             Inl e \<Rightarrow> Inl e
           | Inr number \<Rightarrow> Inr [(name, JStr (int_str (sint (ci_Value number))))]))"

definition matched_member :: "raw_message \<Rightarrow> (string \<times> json) list result" where
  "matched_member raw =
     (case raw of
        None \<Rightarrow> Inr []
      | Some r \<Rightarrow> (case decodeStrictRaw json_bool False r of Inl e \<Rightarrow> Inl e | Inr b \<Rightarrow> Inr [(''matched'', JBool b)]))"

definition observationValue :: "wireConditionalObservation \<Rightarrow> json result" where
  "observationValue observation =
     (case wo_Index observation of
        None \<Rightarrow> nil_dereference
      | Some index \<Rightarrow>
          (case matched_member (wo_Matched observation) of
             Inl e \<Rightarrow> Inl e
           | Inr matched \<Rightarrow>
               (case observation_member ''before_i64'' (wo_BeforeI64 observation) of
                  Inl e \<Rightarrow> Inl e
                | Inr beforeI64 \<Rightarrow>
                    (case observation_member ''after_i64'' (wo_AfterI64 observation) of
                       Inl e \<Rightarrow> Inl e
                     | Inr afterI64 \<Rightarrow>
                         Inr (JObj ([(''after'', wireBytes_MarshalJSON (wo_After observation))] @ afterI64
                           @ [(''before'', wireBytes_MarshalJSON (wo_Before observation))] @ beforeI64
                           @ [(''index'', JNum (nat_str (unat index))),
                              (''key'', wireBytes_MarshalJSON (wo_Key observation)),
                              (''keyspace'', JStr (wo_Keyspace observation))] @ matched))))))"

fun observation_values :: "wireConditionalObservation list \<Rightarrow> json list result" where
  "observation_values [] = Inr []"
| "observation_values (observation # observations) =
     (case observationValue observation of
        Inl e \<Rightarrow> Inl e
      | Inr j \<Rightarrow> (case observation_values observations of Inl e \<Rightarrow> Inl e | Inr js \<Rightarrow> Inr (j # js)))"

definition conflict_member :: "wireConditionalConflict option \<Rightarrow> (string \<times> json) list result" where
  "conflict_member conflict =
     (case conflict of
        None \<Rightarrow> Inr []
      | Some c \<Rightarrow>
          (case wcf_Index c of
             None \<Rightarrow> nil_dereference
           | Some index \<Rightarrow> Inr [(''conflict'', JObj [(''index'', JNum (nat_str (unat index))), (''kind'', JStr (wcf_Kind c))])]))"

abbreviation slice_items :: "'a list option \<Rightarrow> 'a list" where
  "slice_items xs \<equiv> (case xs of None \<Rightarrow> [] | Some ys \<Rightarrow> ys)"

definition conditionalReceiptCanonicalJSON :: "wireConditionalReceipt \<Rightarrow> string \<Rightarrow> bytes result" where
  "conditionalReceiptCanonicalJSON receipt receiptSHA =
     (case decodeOptionalWireConflict (wrc_Conflict receipt) of
        Inl e \<Rightarrow> Inl e
      | Inr conflict \<Rightarrow>
          (case observation_values (slice_items (wrc_Conditions receipt)) of
             Inl e \<Rightarrow> Inl e
           | Inr conditions \<Rightarrow>
               (case observation_values (slice_items (wrc_Mutations receipt)) of
                  Inl e \<Rightarrow> Inl e
                | Inr mutations \<Rightarrow>
                    (case conflict_member conflict of
                       Inl e \<Rightarrow> Inl e
                     | Inr conflictMember \<Rightarrow>
                         Inr (bytes_of (print_json (JObj
                           ([(''command_sha256'', JStr (wrc_CommandSHA256 receipt)), (''conditions'', JArr conditions)]
                            @ conflictMember
                            @ [(''mutations'', JArr mutations), (''outcome'', JStr (wrc_Outcome receipt)),
                               (''receipt_sha256'', JStr receiptSHA), (''request_id'', JStr (wrc_RequestID receipt)),
                               (''revision'', JStr (nat_str (unat (cu_Value (wrc_Revision receipt))))),
                               (''version'', JNum (nat_str (unat (wrc_Version receipt))))]))))))))"

definition conditionalReceiptSHA :: "wireConditionalReceipt \<Rightarrow> string result" where
  "conditionalReceiptSHA receipt =
     (case conditionalReceiptCanonicalJSON receipt '''' of
        Inl e \<Rightarrow> Inl e
      | Inr data \<Rightarrow> Inr (sha256_hex data))"

section \<open>Receipts\<close>

definition nullableBytesEqual :: "nullable_bytes \<Rightarrow> nullable_bytes \<Rightarrow> bool" where
  "nullableBytesEqual left right \<longleftrightarrow>
     (left = None) = (right = None) \<and> nullable_value left = nullable_value right"

text \<open>The loop over the conditions of a conflict receipt: the first rejected index, or an error.\<close>

fun first_rejected :: "nat \<Rightarrow> nat option \<Rightarrow> ConditionalTransactionObservation list \<Rightarrow> nat option result" where
  "first_rejected index firstRejected [] = Inr firstRejected"
| "first_rejected index firstRejected (observation # observations) =
     (if \<not> nullableBytesEqual (obs_Before observation) (obs_After observation)
      then protocol_failure ''decode conditional receipt'' (''conflict receipt changed condition observation '' @ nat_str index)
      else first_rejected (Suc index)
        (if firstRejected = None \<and> obs_Matched observation = Some False then Some index else firstRejected) observations)"

definition check_outcome_evidence :: "string \<Rightarrow> ConditionalTransactionConflict option
    \<Rightarrow> ConditionalTransactionObservation list \<Rightarrow> unit result" where
  "check_outcome_evidence outcome conflict conditions =
     (if outcome = ConditionalOutcomeApplied then
        (if list_ex (\<lambda>observation. obs_Matched observation \<noteq> Some True) conditions
         then protocol_failure ''decode conditional receipt'' ''applied receipt contains a rejected condition''
         else Inr ())
      else case first_rejected 0 None conditions of
        Inl e \<Rightarrow> Inl e
      | Inr (Some firstRejected) \<Rightarrow>
          (if conflict \<noteq> Some \<lparr>cf_Kind = ConditionalConflictConditionFailed, cf_Index = of_nat firstRejected\<rparr>
           then protocol_failure ''decode conditional receipt'' ''condition conflict does not identify the first rejected observation''
           else Inr ())
      | Inr None \<Rightarrow>
          (if (case conflict of None \<Rightarrow> False | Some c \<Rightarrow> cf_Kind c = ConditionalConflictConditionFailed)
           then protocol_failure ''decode conditional receipt'' ''condition conflict has no rejected observation''
           else Inr ()))"

definition decodeConditionalReceiptWithLimit :: "json \<Rightarrow> string \<Rightarrow> nat \<Rightarrow> bool
    \<Rightarrow> (wireConditionalReceipt \<times> ConditionalTransactionReceipt) result" where
  "decodeConditionalReceiptWithLimit data requestID maxValueBytes allowRevisionStreamInternal =
     (case decodeStrictRaw wireConditionalReceipt_decoder zero_wireReceipt data of
        Inl err \<Rightarrow> Inl (protocolError ''decode conditional receipt'' err)
      | Inr wire \<Rightarrow>
          if wrc_Version wire \<noteq> conditionalTransactionVersion \<or> wrc_RequestID wire \<noteq> requestID
             \<or> \<not> conditionalRequestIDPattern (wrc_RequestID wire)
             \<or> \<not> cu_Present (wrc_Revision wire) \<or> cu_Value (wrc_Revision wire) = 0
             \<or> \<not> sha_pattern (wrc_CommandSHA256 wire) \<or> \<not> sha_pattern (wrc_ReceiptSHA256 wire)
             \<or> wrc_Conditions wire = None \<or> slice_items (wrc_Mutations wire) = []
          then protocol_failure ''decode conditional receipt'' ''receipt identity or required fields are invalid''
          else if wrc_Outcome wire \<noteq> ConditionalOutcomeApplied \<and> wrc_Outcome wire \<noteq> ConditionalOutcomeConflict
          then protocol_failure ''decode conditional receipt'' (''unknown receipt outcome '' @ quoted (wrc_Outcome wire))
          else case decodeOptionalWireConflict (wrc_Conflict wire) of
            Inl err \<Rightarrow> Inl err
          | Inr conflictWire \<Rightarrow>
              if (wrc_Outcome wire = ConditionalOutcomeApplied) \<noteq> (conflictWire = None)
              then protocol_failure ''decode conditional receipt'' ''receipt outcome/conflict fields are inconsistent''
              else case decodeConditionalConflict conflictWire (length (slice_items (wrc_Conditions wire)))
                          (length (slice_items (wrc_Mutations wire))) of
                Inl err \<Rightarrow> Inl err
              | Inr conflict \<Rightarrow>
                  (case decodeConditionalObservations (slice_items (wrc_Conditions wire)) True maxValueBytes
                          allowRevisionStreamInternal of
                     Inl err \<Rightarrow> Inl err
                   | Inr conditions \<Rightarrow>
                       (case decodeConditionalObservations (slice_items (wrc_Mutations wire)) False maxValueBytes
                               allowRevisionStreamInternal of
                          Inl err \<Rightarrow> Inl err
                        | Inr mutations \<Rightarrow>
                            (case check_outcome_evidence (wrc_Outcome wire) conflict conditions of
                               Inl err \<Rightarrow> Inl err
                             | Inr _ \<Rightarrow>
                                 (case conditionalReceiptSHA wire of
                                    Inl err \<Rightarrow> Inl (protocolError ''decode conditional receipt'' err)
                                  | Inr expectedHash \<Rightarrow>
                                      if expectedHash \<noteq> wrc_ReceiptSHA256 wire
                                      then protocol_failure ''decode conditional receipt'' ''receipt SHA-256 mismatch''
                                      else Inr (wire, \<lparr>rc_Version = wrc_Version wire, rc_RequestID = wrc_RequestID wire,
                                        rc_CommandSHA256 = wrc_CommandSHA256 wire, rc_Revision = cu_Value (wrc_Revision wire),
                                        rc_Outcome = wrc_Outcome wire, rc_Conflict = conflict, rc_Conditions = conditions,
                                        rc_Mutations = mutations, rc_ReceiptSHA256 = wrc_ReceiptSHA256 wire\<rparr>))))))"

definition decodeConditionalReceipt :: "json \<Rightarrow> string \<Rightarrow> (wireConditionalReceipt \<times> ConditionalTransactionReceipt) result" where
  "decodeConditionalReceipt data requestID =
     decodeConditionalReceiptWithLimit data requestID maxConditionalValueBytes False"

section \<open>Quorum receipts\<close>

definition decodeOptionalQuorumReceipt :: "raw_message \<Rightarrow> string \<Rightarrow> string \<Rightarrow> wireConditionalReceipt option \<Rightarrow> uint64
    \<Rightarrow> ConditionalQuorumReceipt option result" where
  "decodeOptionalQuorumReceipt data requestID commandSHA conditional revision =
     (case data of
        None \<Rightarrow> Inr None
      | Some raw \<Rightarrow>
          if raw = JNull
          then protocol_failure ''decode quorum receipt'' ''quorum_receipt must be omitted, not null''
          else case decodeStrictRaw wireQuorumReceipt_decoder zero_wireQuorum raw of
            Inl err \<Rightarrow> Inl (protocolError ''decode quorum receipt'' err)
          | Inr wire \<Rightarrow>
              if wq_Version wire \<noteq> 1 \<or> wq_RequestID wire \<noteq> requestID \<or> wq_CommandSHA256 wire \<noteq> commandSHA
                 \<or> \<not> cu_Present (wq_Index wire) \<or> cu_Value (wq_Index wire) = 0 \<or> \<not> cu_Present (wq_Term wire)
                 \<or> \<not> sha_pattern (wq_CommandSHA256 wire)
              then protocol_failure ''decode quorum receipt'' ''quorum receipt identity is invalid''
              else if wq_Stage wire \<noteq> QuorumReceiptAccepted \<and> wq_Stage wire \<noteq> QuorumReceiptCommitted
                      \<and> wq_Stage wire \<noteq> QuorumReceiptApplied
              then protocol_failure ''decode quorum receipt'' (''unknown quorum stage '' @ quoted (wq_Stage wire))
              else if wq_Durability wire \<noteq> QuorumDurabilityNone \<and> wq_Durability wire \<noteq> QuorumDurabilityLocalFsync
                      \<and> wq_Durability wire \<noteq> QuorumDurabilityQuorumFsync
              then protocol_failure ''decode quorum receipt'' (''unknown quorum durability '' @ quoted (wq_Durability wire))
              else if (wq_Stage wire = QuorumReceiptAccepted \<and> wq_Durability wire \<noteq> QuorumDurabilityLocalFsync)
                      \<or> (wq_Stage wire \<noteq> QuorumReceiptAccepted \<and> wq_Durability wire \<noteq> QuorumDurabilityQuorumFsync)
              then protocol_failure ''decode quorum receipt'' ''quorum stage/durability fields are inconsistent''
              else case decodeNullableSHA256 (wq_ResultSHA256 wire) of
                Inl err \<Rightarrow> Inl (protocolError ''decode quorum receipt'' err)
              | Inr resultSHA \<Rightarrow>
                  (let quorum = Inr (Some \<lparr>q_Version = wq_Version wire, q_RequestID = wq_RequestID wire,
                         q_Index = cu_Value (wq_Index wire), q_Term = cu_Value (wq_Term wire), q_Stage = wq_Stage wire,
                         q_Durability = wq_Durability wire, q_CommandSHA256 = wq_CommandSHA256 wire,
                         q_ResultSHA256 = resultSHA\<rparr>)
                   in case conditional of
                     None \<Rightarrow> quorum
                   | Some receipt \<Rightarrow>
                       (case resultSHA of
                          None \<Rightarrow> protocol_failure ''decode quorum receipt'' ''applied quorum receipt is inconsistent with transaction receipt''
                        | Some result \<Rightarrow>
                            if cu_Value (wq_Index wire) \<noteq> revision \<or> wq_Stage wire \<noteq> QuorumReceiptApplied
                               \<or> wq_Durability wire \<noteq> QuorumDurabilityQuorumFsync
                            then protocol_failure ''decode quorum receipt'' ''applied quorum receipt is inconsistent with transaction receipt''
                            else case conditionalReceiptCanonicalJSON receipt (wrc_ReceiptSHA256 receipt) of
                              Inl err \<Rightarrow> Inl (protocolError ''decode quorum receipt'' err)
                            | Inr encoded \<Rightarrow>
                                if sha256_hex encoded \<noteq> result
                                then protocol_failure ''decode quorum receipt'' ''quorum result SHA-256 differs from the conditional receipt''
                                else quorum)))"

section \<open>Evidence against the request\<close>

text \<open>\<open>addInt64\<close>: Go addition wraps; the flag compares the wrapped sum with the left operand.\<close>

definition addInt64 :: "int64 \<Rightarrow> int64 \<Rightarrow> int64 \<times> bool" where
  "addInt64 left right =
     (let value = left + right
      in (value, (0 < sint right \<and> sint value < sint left) \<or> (sint right < 0 \<and> sint left < sint value)))"

text \<open>\<open>bytes.Compare\<close>.\<close>

fun compareBytes :: "bytes \<Rightarrow> bytes \<Rightarrow> int" where
  "compareBytes [] [] = 0"
| "compareBytes [] (b # bs) = - 1"
| "compareBytes (a # as) [] = 1"
| "compareBytes (a # as) (b # bs) = (if a < b then - 1 else if b < a then 1 else compareBytes as bs)"

definition compareNullableBytes :: "nullable_bytes \<Rightarrow> nullable_bytes \<Rightarrow> int" where
  "compareNullableBytes left right =
     (case left of
        None \<Rightarrow> (case right of None \<Rightarrow> 0 | Some _ \<Rightarrow> - 1)
      | Some l \<Rightarrow> (case right of None \<Rightarrow> 1 | Some r \<Rightarrow> compareBytes l r))"

definition conditionalValueMatches :: "nullable_bytes \<Rightarrow> nullable_bytes \<Rightarrow> ConditionalCompareOperator \<Rightarrow> bool" where
  "conditionalValueMatches actual expected operator =
     (let comparison = compareNullableBytes actual expected
      in if operator = CompareEqual then comparison = 0
         else if operator = CompareNotEqual then comparison \<noteq> 0
         else if operator = CompareLessThan then comparison < 0
         else if operator = CompareLessOrEqual then comparison \<le> 0
         else if operator = CompareGreaterThan then comparison > 0
         else if operator = CompareGreaterOrEqual then comparison \<ge> 0
         else False)"

fun validate_conditions :: "nat \<Rightarrow> string \<Rightarrow> ConditionalTransactionObservation list
    \<Rightarrow> ConditionalTransactionCondition list \<Rightarrow> unit result" where
  "validate_conditions index keyspace (observation # observations) (condition # conditions) =
     (case obs_Matched observation of
        None \<Rightarrow> Inl (ErrorString (''condition observation '' @ nat_str index @ '' differs from request''))
      | Some matched \<Rightarrow>
          if obs_Index observation \<noteq> of_nat index \<or> obs_Keyspace observation \<noteq> keyspace
             \<or> obs_Key observation \<noteq> cond_Key condition
             \<or> obs_BeforeI64 observation \<noteq> None \<or> obs_AfterI64 observation \<noteq> None
          then Inl (ErrorString (''condition observation '' @ nat_str index @ '' differs from request''))
          else if matched \<noteq> conditionalValueMatches (obs_Before observation) (cond_Expected condition) (cond_Operator condition)
          then Inl (ErrorString (''condition observation '' @ nat_str index @ '' matched flag is false evidence''))
          else validate_conditions (Suc index) keyspace observations conditions)"
| "validate_conditions index keyspace observations conditions = Inr ()"

text \<open>The evidence of a counter conflict that names this mutation.\<close>

definition validate_counter_conflict :: "nat \<Rightarrow> string \<Rightarrow> ConditionalTransactionObservation
    \<Rightarrow> ConditionalTransactionMutation \<Rightarrow> unit result" where
  "validate_counter_conflict index kind observation mutation =
     (if mut_kind mutation \<noteq> conditionalIncrement
      then Inl (ErrorString (''counter conflict '' @ nat_str index @ '' does not identify an increment''))
      else if kind = ConditionalConflictCounterInvalid then
        (if obs_Before observation = None \<or> length (nullable_value (obs_Before observation)) = 8
            \<or> obs_BeforeI64 observation \<noteq> None \<or> obs_AfterI64 observation \<noteq> None
         then Inl (ErrorString (''counter-invalid conflict '' @ nat_str index @ '' has invalid evidence''))
         else Inr ())
      else if kind = ConditionalConflictCounterOverflow \<or> kind = ConditionalConflictCounterUnderflow then
        (case (obs_BeforeI64 observation, obs_AfterI64 observation) of
           (Some before, Some after) \<Rightarrow>
             (if before \<noteq> after
              then Inl (ErrorString (''counter range conflict '' @ nat_str index @ '' has invalid numeric evidence''))
              else if \<not> snd (addInt64 before (mut_delta mutation))
                      \<or> (kind = ConditionalConflictCounterOverflow) \<noteq> (0 < sint (mut_delta mutation))
                      \<or> (kind = ConditionalConflictCounterUnderflow) \<noteq> (sint (mut_delta mutation) < 0)
              then Inl (ErrorString (''counter range conflict '' @ nat_str index @ '' does not match the requested delta''))
              else Inr ())
         | _ \<Rightarrow> Inl (ErrorString (''counter range conflict '' @ nat_str index @ '' has invalid numeric evidence'')))
      else Inr ())"

definition validate_applied_mutation :: "nat \<Rightarrow> ConditionalTransactionObservation
    \<Rightarrow> ConditionalTransactionMutation \<Rightarrow> unit result" where
  "validate_applied_mutation index observation mutation =
     (case mut_kind mutation of
        conditionalPut \<Rightarrow>
          (if obs_After observation = None
              \<or> nullable_value (obs_After observation) \<noteq> nullable_value (mut_value mutation)
           then Inl (ErrorString (''put mutation '' @ nat_str index @ '' after value is invalid''))
           else Inr ())
      | conditionalDelete \<Rightarrow>
          (if obs_After observation \<noteq> None
           then Inl (ErrorString (''delete mutation '' @ nat_str index @ '' after value is not absent''))
           else Inr ())
      | conditionalIncrement \<Rightarrow>
          (case (obs_BeforeI64 observation, obs_AfterI64 observation) of
             (Some before, Some after) \<Rightarrow>
               (if \<not> bytesMatchI64 (obs_Before observation) before \<or> \<not> bytesMatchI64 (obs_After observation) after
                then Inl (ErrorString (''increment mutation '' @ nat_str index @ '' evidence is invalid''))
                else case addInt64 before (mut_delta mutation) of
                  (expected, overflow) \<Rightarrow>
                    if overflow \<or> expected \<noteq> after
                    then Inl (ErrorString (''increment mutation '' @ nat_str index @ '' delta evidence is invalid''))
                    else Inr ())
           | _ \<Rightarrow> Inl (ErrorString (''increment mutation '' @ nat_str index @ '' evidence is invalid'')))
      | conditionalNone \<Rightarrow> Inr ())"

fun validate_mutations :: "nat \<Rightarrow> string \<Rightarrow> string \<Rightarrow> ConditionalTransactionConflict option
    \<Rightarrow> ConditionalTransactionObservation list \<Rightarrow> ConditionalTransactionMutation list \<Rightarrow> unit result" where
  "validate_mutations index keyspace outcome conflict (observation # observations) (mutation # mutations) =
     (if obs_Index observation \<noteq> of_nat index \<or> obs_Keyspace observation \<noteq> keyspace
         \<or> obs_Key observation \<noteq> mut_key mutation \<or> obs_Matched observation \<noteq> None
      then Inl (ErrorString (''mutation observation '' @ nat_str index @ '' differs from request''))
      else if mut_kind mutation \<noteq> conditionalIncrement
              \<and> (obs_BeforeI64 observation \<noteq> None \<or> obs_AfterI64 observation \<noteq> None)
      then Inl (ErrorString (''non-increment mutation '' @ nat_str index @ '' included i64 fields''))
      else if outcome = ConditionalOutcomeConflict then
        (if \<not> nullableBytesEqual (obs_Before observation) (obs_After observation)
         then Inl (ErrorString (''rejected mutation '' @ nat_str index @ '' changed state''))
         else case (case conflict of
               None \<Rightarrow> Inr ()
             | Some c \<Rightarrow>
                 if cf_Index c = of_nat index \<and> cf_Kind c \<noteq> ConditionalConflictConditionFailed
                 then validate_counter_conflict index (cf_Kind c) observation mutation
                 else Inr ()) of
           Inl e \<Rightarrow> Inl e
         | Inr _ \<Rightarrow> validate_mutations (Suc index) keyspace outcome conflict observations mutations)
      else case validate_applied_mutation index observation mutation of
        Inl e \<Rightarrow> Inl e
      | Inr _ \<Rightarrow> validate_mutations (Suc index) keyspace outcome conflict observations mutations)"
| "validate_mutations index keyspace outcome conflict observations mutations = Inr ()"

definition validateReceiptAgainstRequest :: "ConditionalTransactionReceipt \<Rightarrow> string
    \<Rightarrow> ConditionalTransactionCondition list \<Rightarrow> ConditionalTransactionMutation list \<Rightarrow> unit result" where
  "validateReceiptAgainstRequest receipt namespace conditions mutations =
     (if length (rc_Conditions receipt) \<noteq> length conditions \<or> length (rc_Mutations receipt) \<noteq> length mutations
      then Inl (ErrorString ''receipt observation counts differ from request'')
      else case validate_conditions 0 (userKeyspace namespace) (rc_Conditions receipt) conditions of
        Inl e \<Rightarrow> Inl e
      | Inr _ \<Rightarrow> validate_mutations 0 (userKeyspace namespace) (rc_Outcome receipt) (rc_Conflict receipt)
                  (rc_Mutations receipt) mutations)"

section \<open>Results and lookups\<close>

definition decodeConditionalTransactionResult :: "json \<Rightarrow> builtConditionalRequest \<Rightarrow> ConditionalTransactionResult result" where
  "decodeConditionalTransactionResult data request =
     (case decodeStrictRaw wireConditionalResult_decoder zero_wireResult data of
        Inl err \<Rightarrow> Inl (protocolError ''decode conditional transaction'' err)
      | Inr wire \<Rightarrow>
          (case (wrs_Applied wire, wrs_Duplicate wire, wrs_Receipt wire) of
             (Some applied, Some duplicate, Some receiptRaw) \<Rightarrow>
               (if \<not> cu_Present (wrs_Revision wire) \<or> receiptRaw = JNull
                then protocol_failure ''decode conditional transaction'' ''required result fields are missing''
                else case decodeConditionalReceipt receiptRaw (built_requestID request) of
                  Inl err \<Rightarrow> Inl err
                | Inr (receiptWire, receipt) \<Rightarrow>
                    if cu_Value (wrs_Revision wire) \<noteq> rc_Revision receipt
                       \<or> rc_CommandSHA256 receipt \<noteq> built_commandSHA request
                    then protocol_failure ''decode conditional transaction'' ''top-level revision or command hash differs from receipt''
                    else if (wrs_Result wire \<noteq> ConditionalResultApplied \<and> wrs_Result wire \<noteq> ConditionalResultDuplicate
                             \<and> wrs_Result wire \<noteq> ConditionalResultConflict)
                            \<or> (wrs_OriginalResult wire \<noteq> ConditionalOutcomeApplied
                               \<and> wrs_OriginalResult wire \<noteq> ConditionalOutcomeConflict)
                    then protocol_failure ''decode conditional transaction'' ''unknown result enum''
                    else if wrs_OriginalResult wire \<noteq> rc_Outcome receipt
                            \<or> applied \<noteq> (wrs_OriginalResult wire = ConditionalOutcomeApplied)
                            \<or> duplicate \<noteq> (wrs_Result wire = ConditionalResultDuplicate)
                            \<or> (\<not> duplicate \<and> wrs_Result wire \<noteq> wrs_OriginalResult wire)
                    then protocol_failure ''decode conditional transaction'' ''result/original_result/applied/duplicate fields are inconsistent''
                    else case validateReceiptAgainstRequest receipt (built_namespace request)
                                (built_conditions request) (built_mutations request) of
                      Inl err \<Rightarrow> Inl (protocolError ''decode conditional transaction'' err)
                    | Inr _ \<Rightarrow>
                        (case decodeOptionalQuorumReceipt (wrs_QuorumReceipt wire) (built_requestID request)
                                (built_commandSHA request) (Some receiptWire) (rc_Revision receipt) of
                           Inl err \<Rightarrow> Inl err
                         | Inr quorum \<Rightarrow>
                             Inr \<lparr>res_Result = wrs_Result wire, res_OriginalResult = wrs_OriginalResult wire,
                                  res_Applied = applied, res_Rejected = (\<not> applied), res_Duplicate = duplicate,
                                  res_Revision = cu_Value (wrs_Revision wire), res_Receipt = receipt,
                                  res_QuorumReceipt = quorum\<rparr>))
           | _ \<Rightarrow> protocol_failure ''decode conditional transaction'' ''required result fields are missing''))"

definition decodeConditionalReceiptLookup :: "json \<Rightarrow> builtConditionalRequest \<Rightarrow> ConditionalReceiptLookup result" where
  "decodeConditionalReceiptLookup data request =
     (case decodeStrictRaw wireConditionalLookup_decoder zero_wireLookup data of
        Inl err \<Rightarrow> Inl (protocolError ''decode conditional receipt'' err)
      | Inr wire \<Rightarrow>
          if wlk_RequestID wire \<noteq> built_requestID request
          then protocol_failure ''decode conditional receipt'' ''request ID mismatch''
          else if wlk_StreamReceipt wire \<noteq> None
          then protocol_failure ''decode conditional receipt'' ''generic receipt lookup cannot consume a revision stream receipt''
          else if wlk_Result wire = ConditionalReceiptIndeterminate then
            (if cu_Present (wlk_Revision wire) \<or> wlk_Receipt wire \<noteq> None
             then protocol_failure ''decode conditional receipt'' ''indeterminate lookup included a receipt''
             else case decodeOptionalQuorumReceipt (wlk_QuorumReceipt wire) (built_requestID request)
                         (built_commandSHA request) None 0 of
               Inl err \<Rightarrow> Inl err
             | Inr None \<Rightarrow> protocol_failure ''decode conditional receipt'' ''indeterminate lookup omitted quorum receipt''
             | Inr (Some quorum) \<Rightarrow>
                 if q_ResultSHA256 quorum \<noteq> None \<or> q_Stage quorum = QuorumReceiptApplied
                 then protocol_failure ''decode conditional receipt'' ''indeterminate lookup included an applied result''
                 else Inr \<lparr>lk_Status = ConditionalReceiptIndeterminate, lk_RequestID = built_requestID request,
                           lk_Revision = None, lk_Receipt = None, lk_QuorumReceipt = Some quorum\<rparr>)
          else if wlk_Result wire = ConditionalReceiptFound then
            (case wlk_Receipt wire of
               None \<Rightarrow> protocol_failure ''decode conditional receipt'' ''receipt lookup omitted receipt or revision''
             | Some receiptRaw \<Rightarrow>
                 if \<not> cu_Present (wlk_Revision wire) \<or> receiptRaw = JNull
                 then protocol_failure ''decode conditional receipt'' ''receipt lookup omitted receipt or revision''
                 else case decodeConditionalReceipt receiptRaw (built_requestID request) of
                   Inl err \<Rightarrow> Inl err
                 | Inr (receiptWire, receipt) \<Rightarrow>
                     if cu_Value (wlk_Revision wire) \<noteq> rc_Revision receipt
                        \<or> rc_CommandSHA256 receipt \<noteq> built_commandSHA request
                     then protocol_failure ''decode conditional receipt'' ''receipt identity differs from exact transaction request''
                     else case validateReceiptAgainstRequest receipt (built_namespace request)
                                 (built_conditions request) (built_mutations request) of
                       Inl err \<Rightarrow> Inl (protocolError ''decode conditional receipt'' err)
                     | Inr _ \<Rightarrow>
                         (case decodeOptionalQuorumReceipt (wlk_QuorumReceipt wire) (built_requestID request)
                                 (built_commandSHA request) (Some receiptWire) (rc_Revision receipt) of
                            Inl err \<Rightarrow> Inl err
                          | Inr quorum \<Rightarrow>
                              Inr \<lparr>lk_Status = ConditionalReceiptFound, lk_RequestID = built_requestID request,
                                   lk_Revision = Some (rc_Revision receipt), lk_Receipt = Some receipt,
                                   lk_QuorumReceipt = quorum\<rparr>))
          else protocol_failure ''decode conditional receipt'' (''unknown receipt lookup result '' @ quoted (wlk_Result wire)))"

end
