(* ===== verification/RevisionStream.thy ===== *)
theory RevisionStream
  imports Merkle ConditionalReceipt
begin

text \<open>
  Appending to a revision stream, \<open>revision_stream.go\<close>: heads and their validation, store keys and
  encodings, the construction of the append transaction (the new head, the exact conditions and
  mutations of the conditional transaction behind it and its command digest), and the validation
  and decoding of its receipts.
\<close>

unbundle bit_operations_syntax

definition revisionStreamVersion :: uint16 where "revisionStreamVersion = 2"
definition maxRevisionStreamIDBytes :: nat where "maxRevisionStreamIDBytes = 1024"
definition maxRevisionStreamPayloadBytes :: nat where "maxRevisionStreamPayloadBytes = 2 ^ 20"
definition maxRevisionStreamSidePayloadBytes :: nat where "maxRevisionStreamSidePayloadBytes = 4 * 2 ^ 20"
definition maxRevisionStreamSideItems :: nat where "maxRevisionStreamSideItems = 128"

definition revisionStreamZeroRoot :: bytes where "revisionStreamZeroRoot = replicate 32 0"

definition revisionStreamProtocolError :: "string \<Rightarrow> go_error \<Rightarrow> go_error" where
  "revisionStreamProtocolError operation cause = newError CodeProtocolViolation operation
     ''native revision stream response violated its typed contract'' (Some cause)"

abbreviation stream_failure :: "string \<Rightarrow> string \<Rightarrow> 'a result" where
  "stream_failure operation text \<equiv> Inl (revisionStreamProtocolError operation (ErrorString text))"

section \<open>Heads\<close>

record RevisionStreamProofHead =
  ph_Version :: uint16
  ph_LeafCount :: uint64
  ph_RootSHA256 :: string
  ph_LastContentSHA256 :: string
  ph_Peaks :: "RevisionStreamMerklePeak list"

record RevisionStreamHead =
  hd_Revision :: uint64
  hd_LastOccurredAt :: int64
  hd_RootSHA256 :: string
  hd_Proof :: "RevisionStreamProofHead option"

definition validateRevisionStreamHead :: "bytes \<Rightarrow> RevisionStreamHead \<Rightarrow> unit result" where
  "validateRevisionStreamHead streamID head =
     (if hd_Revision head = 0 then Inl (ErrorString ''revision must be positive'')
      else case decodeRevisionStreamDigest (hd_RootSHA256 head) of
        Inl err \<Rightarrow> Inl err
      | Inr root \<Rightarrow>
          (case hd_Proof head of
             None \<Rightarrow> Inl (ErrorString ''revision stream v2 head requires matching authenticated proof'')
           | Some proof \<Rightarrow>
               if ph_Version proof \<noteq> revisionStreamProofVersion \<or> ph_LeafCount proof \<noteq> hd_Revision head
               then Inl (ErrorString ''revision stream v2 head requires matching authenticated proof'')
               else case validateRevisionStreamPeaks streamID (ph_LeafCount proof) (ph_Peaks proof) (ph_RootSHA256 proof) of
                 Inl err \<Rightarrow> Inl err
               | Inr _ \<Rightarrow>
                   (case decodeRevisionStreamDigest (ph_LastContentSHA256 proof) of
                      Inl err \<Rightarrow> Inl err
                    | Inr content \<Rightarrow>
                        (case decodeRevisionStreamDigest (ph_RootSHA256 proof) of
                           Inl err \<Rightarrow> Inl err
                         | Inr proofRoot \<Rightarrow>
                             if calculateRevisionStreamHeadRoot streamID (hd_Revision head) (hd_LastOccurredAt head)
                                  content proofRoot \<noteq> root
                             then Inl (ErrorString ''revision stream v2 head does not bind its proof root'')
                             else Inr ()))))"

definition revisionStreamHeadsEqual :: "RevisionStreamHead \<Rightarrow> RevisionStreamHead \<Rightarrow> bool" where
  "revisionStreamHeadsEqual left right =
     (if hd_Revision left \<noteq> hd_Revision right \<or> hd_LastOccurredAt left \<noteq> hd_LastOccurredAt right
         \<or> hd_RootSHA256 left \<noteq> hd_RootSHA256 right \<or> (hd_Proof left = None) \<noteq> (hd_Proof right = None)
      then False
      else case (hd_Proof left, hd_Proof right) of
        (Some l, Some r) \<Rightarrow>
          ph_Version l = ph_Version r \<and> ph_LeafCount l = ph_LeafCount r \<and> ph_RootSHA256 l = ph_RootSHA256 r
          \<and> ph_LastContentSHA256 l = ph_LastContentSHA256 r \<and> length (ph_Peaks l) = length (ph_Peaks r)
          \<and> list_all (\<lambda>(a, b). a = b) (zip (ph_Peaks l) (ph_Peaks r))
      | _ \<Rightarrow> True)"

section \<open>Keys and encodings\<close>

definition revisionStreamKey :: "bytes \<Rightarrow> bytes \<Rightarrow> bytes" where
  "revisionStreamKey tag streamID = tag @ u32_be (of_nat (length streamID)) @ streamID"

definition appendRevisionStreamUint64 :: "bytes \<Rightarrow> uint64 \<Rightarrow> bytes" where
  "appendRevisionStreamUint64 target value = target @ u64_be value"

definition revisionStreamMerkleKey :: "bytes \<Rightarrow> uint8 \<Rightarrow> uint64 \<Rightarrow> bytes" where
  "revisionStreamMerkleKey streamID height startRevision =
     revisionStreamKey (bytes_of ''MRS2'') streamID @ [height] @ u64_be startRevision"

text \<open>\<open>root, _ := decodeRevisionStreamDigest(...)\<close>: on error the array keeps its zero value.\<close>

definition digest_or_zero :: "string \<Rightarrow> bytes" where
  "digest_or_zero s = (case decodeRevisionStreamDigest s of Inl _ \<Rightarrow> revisionStreamZeroRoot | Inr root \<Rightarrow> root)"

text \<open>\<open>encodeRevisionStreamHead\<close>; \<open>None\<close> is the panic on a head without a proof.\<close>

definition encodeRevisionStreamHead :: "RevisionStreamHead \<Rightarrow> bytes option" where
  "encodeRevisionStreamHead head =
     (case hd_Proof head of
        None \<Rightarrow> None
      | Some proof \<Rightarrow> Some (bytes_of ''TLNRSH2'' @ u64_be (hd_Revision head) @ u64_be (hd_LastOccurredAt head)
          @ digest_or_zero (hd_RootSHA256 head) @ digest_or_zero (ph_LastContentSHA256 proof)
          @ digest_or_zero (ph_RootSHA256 proof) @ [of_nat (length (ph_Peaks proof))]
          @ concat (map (\<lambda>peak. [peak_Height peak] @ u64_be (peak_StartRevision peak)
              @ digest_or_zero (peak_RootSHA256 peak)) (ph_Peaks proof))))"

definition encodeRevisionStreamEvent :: "int64 \<Rightarrow> bytes \<Rightarrow> bytes \<Rightarrow> bytes \<Rightarrow> bytes \<Rightarrow> bytes \<Rightarrow> bytes \<Rightarrow> bytes" where
  "encodeRevisionStreamEvent occurredAt previousRoot payloadSHA content proofRoot root payload =
     bytes_of ''TLNRSE2'' @ u64_be occurredAt @ previousRoot @ payloadSHA @ content @ proofRoot @ root
     @ u32_be (of_nat (length payload)) @ payload"

section \<open>The append transaction\<close>

record RevisionStreamAppendRequest =
  ap_requestID :: string
  ap_namespace :: string
  ap_streamID :: bytes
  ap_expectedHead :: "RevisionStreamHead option"
  ap_revision :: uint64
  ap_occurredAt :: int64
  ap_payload :: bytes
  ap_sideConditions :: "ConditionalTransactionCondition list"
  ap_sideMutations :: "ConditionalTransactionMutation list"

record revisionStreamExpectedCondition =
  ec_keyspace :: string
  ec_key :: bytes
  ec_expected :: nullable_bytes
  ec_operator :: ConditionalCompareOperator

record revisionStreamExpectedMutation =
  em_kind :: conditionalMutationKind
  em_keyspace :: string
  em_key :: bytes
  em_value :: nullable_bytes
  em_delta :: int64
  em_strictBefore :: bool
  em_expectedBefore :: nullable_bytes

text \<open>
  The wire form. Present canonical integers are their values; the expected head is sent as it is
  (\<open>toWireRevisionStreamHead\<close>).
\<close>

record wireRevisionStreamAppendRequest =
  wa_Version :: uint16
  wa_RequestID :: string
  wa_Namespace :: string
  wa_StreamID :: wireBytes
  wa_ExpectedHead :: "RevisionStreamHead option"
  wa_Revision :: canonicalUint64
  wa_OccurredAt :: canonicalInt64
  wa_Payload :: wireBytes
  wa_SideConditions :: "wireConditionalCondition list"
  wa_SideMutations :: "wireConditionalMutation list"

record builtRevisionStreamAppend =
  bs_wire :: wireRevisionStreamAppendRequest
  bs_request :: RevisionStreamAppendRequest
  bs_head :: RevisionStreamHead
  bs_payloadSHA :: string
  bs_commandSHA :: string
  bs_conditions :: "revisionStreamExpectedCondition list"
  bs_mutations :: "revisionStreamExpectedMutation list"

definition append_invalid :: "string \<Rightarrow> 'a result" where
  "append_invalid message = Inl (newError CodeInvalidArgument ''revision stream append'' message None)"

fun addRevisionStreamSideBytes :: "nat \<Rightarrow> nat list \<Rightarrow> nat option" where
  "addRevisionStreamSideBytes sideBytes [] = Some sideBytes"
| "addRevisionStreamSideBytes sideBytes (value # values) =
     (if int maxRevisionStreamSidePayloadBytes - int value < int sideBytes then None
      else addRevisionStreamSideBytes (sideBytes + value) values)"

fun build_side_conditions :: "string \<Rightarrow> nat \<Rightarrow> bytes list \<Rightarrow> nat \<Rightarrow> ConditionalTransactionCondition list
    \<Rightarrow> ((wireConditionalCondition list \<times> revisionStreamExpectedCondition list) \<times> nat) result" where
  "build_side_conditions keyspace index seen sideBytes [] = Inr (([], []), sideBytes)"
| "build_side_conditions keyspace index seen sideBytes (condition # conditions) =
     (if length (cond_Key condition) = 0 \<or> maxConditionalKeyBytes < length (cond_Key condition)
         \<or> \<not> validCompareOperator (cond_Operator condition)
      then append_invalid (''side condition '' @ nat_str index @ '' is invalid'')
      else if cond_Key condition \<in> set seen
      then append_invalid (''side condition '' @ nat_str index @ '' repeats a condition key'')
      else case addRevisionStreamSideBytes sideBytes
                  [length keyspace, length (cond_Key condition), length (nullable_value (cond_Expected condition))] of
        None \<Rightarrow> append_invalid ''side payload exceeds 4 MiB''
      | Some sideBytes' \<Rightarrow>
          (case build_side_conditions keyspace (Suc index) (cond_Key condition # seen) sideBytes' conditions of
             Inl e \<Rightarrow> Inl e
           | Inr ((wires, expecteds), bytes') \<Rightarrow>
               Inr ((\<lparr>wc_Key = presentWireBytes (cond_Key condition),
                     wc_Expected = nullableWireBytes (cond_Expected condition),
                     wc_Operator = cond_Operator condition\<rparr> # wires,
                    \<lparr>ec_keyspace = keyspace, ec_key = cond_Key condition, ec_expected = cond_Expected condition,
                     ec_operator = cond_Operator condition\<rparr> # expecteds), bytes')))"

text \<open>The \<open>switch\<close> on the kind of a side mutation, with what it adds to the side bytes.\<close>

definition build_side_mutation :: "string \<Rightarrow> nat \<Rightarrow> nat \<Rightarrow> ConditionalTransactionMutation
    \<Rightarrow> ((wireConditionalMutation \<times> revisionStreamExpectedMutation) \<times> nat) result" where
  "build_side_mutation keyspace index sideBytes mutation =
     (let key = mut_key mutation; value = nullable_value (mut_value mutation);
          wire = \<lparr>wm_Operation = '''', wm_Key = presentWireBytes key, wm_Value = None, wm_Delta = None\<rparr>;
          expected = \<lparr>em_kind = mut_kind mutation, em_keyspace = keyspace, em_key = key, em_value = None,
            em_delta = mut_delta mutation, em_strictBefore = False, em_expectedBefore = None\<rparr>
      in case mut_kind mutation of
        conditionalPut \<Rightarrow>
          (case addRevisionStreamSideBytes sideBytes [length keyspace, length key, length value] of
             None \<Rightarrow> append_invalid ''side payload exceeds 4 MiB''
           | Some bytes' \<Rightarrow> Inr ((wire\<lparr>wm_Operation := ''put'', wm_Value := Some (presentWireBytes value)\<rparr>,
                              expected\<lparr>em_value := Some value\<rparr>), bytes'))
      | conditionalDelete \<Rightarrow>
          (case addRevisionStreamSideBytes sideBytes [length keyspace, length key] of
             None \<Rightarrow> append_invalid ''side payload exceeds 4 MiB''
           | Some bytes' \<Rightarrow> Inr ((wire\<lparr>wm_Operation := ''delete''\<rparr>, expected), bytes'))
      | conditionalIncrement \<Rightarrow>
          (case addRevisionStreamSideBytes sideBytes [length keyspace, length key] of
             None \<Rightarrow> append_invalid ''side payload exceeds 4 MiB''
           | Some bytes' \<Rightarrow> Inr ((wire\<lparr>wm_Operation := ''increment'', wm_Delta := Some (int_str (sint (mut_delta mutation)))\<rparr>,
                              expected), bytes'))
      | conditionalNone \<Rightarrow> append_invalid (''side mutation '' @ nat_str index @ '' was not created by a constructor''))"

fun build_side_mutations :: "string \<Rightarrow> nat \<Rightarrow> bytes list \<Rightarrow> nat \<Rightarrow> ConditionalTransactionMutation list
    \<Rightarrow> (wireConditionalMutation list \<times> revisionStreamExpectedMutation list) result" where
  "build_side_mutations keyspace index seen sideBytes [] = Inr ([], [])"
| "build_side_mutations keyspace index seen sideBytes (mutation # mutations) =
     (if length (mut_key mutation) = 0 \<or> maxConditionalKeyBytes < length (mut_key mutation)
      then append_invalid (''side mutation '' @ nat_str index @ '' key is invalid'')
      else if mut_key mutation \<in> set seen
      then append_invalid (''side mutation '' @ nat_str index @ '' repeats a mutation key'')
      else case build_side_mutation keyspace index sideBytes mutation of
        Inl e \<Rightarrow> Inl e
      | Inr ((wire, expected), bytes') \<Rightarrow>
          (case build_side_mutations keyspace (Suc index) (mut_key mutation # seen) bytes' mutations of
             Inl e \<Rightarrow> Inl e
           | Inr (wires, expecteds) \<Rightarrow> Inr (wire # wires, expected # expecteds)))"

text \<open>
  \<open>revisionStreamCommandSHA\<close>: the same encoding as \<open>conditionalCommandSHAForKeyspace\<close>, with a keyspace
  for each item. A field over 4 GiB or a mutation of no known kind ends it with an error, the first one met.
\<close>

definition condition_too_large :: "revisionStreamExpectedCondition \<Rightarrow> bool" where
  "condition_too_large c \<longleftrightarrow> 2 ^ 32 \<le> length (ec_keyspace c) \<or> 2 ^ 32 \<le> length (ec_key c)
     \<or> 2 ^ 32 \<le> length (nullable_value (ec_expected c))"

definition mutation_too_large :: "revisionStreamExpectedMutation \<Rightarrow> bool" where
  "mutation_too_large m \<longleftrightarrow> 2 ^ 32 \<le> length (em_keyspace m) \<or> 2 ^ 32 \<le> length (em_key m)
     \<or> em_kind m = conditionalPut \<and> 2 ^ 32 \<le> length (nullable_value (em_value m))"

fun check_stream_mutations :: "revisionStreamExpectedMutation list \<Rightarrow> unit result" where
  "check_stream_mutations [] = Inr ()"
| "check_stream_mutations (m # ms) =
     (if em_kind m = conditionalNone then Inl (ErrorString ''unknown conditional mutation'')
      else if mutation_too_large m then Inl (ErrorString ''conditional transaction field is too large'')
      else check_stream_mutations ms)"

definition stream_command_bytes :: "revisionStreamExpectedCondition list \<Rightarrow> revisionStreamExpectedMutation list \<Rightarrow> bytes option" where
  "stream_command_bytes conditions mutations = command_bytes
     (map (\<lambda>c. (ec_keyspace c, ec_key c, ec_expected c, ec_operator c)) conditions)
     (map (\<lambda>m. (em_keyspace m, em_kind m, em_key m, em_value m, em_delta m)) mutations)"

definition revisionStreamCommandSHA :: "revisionStreamExpectedCondition list \<Rightarrow> revisionStreamExpectedMutation list
    \<Rightarrow> string result" where
  "revisionStreamCommandSHA conditions mutations =
     (if list_ex condition_too_large conditions
      then Inl (ErrorString ''conditional transaction field is too large'')
      else case check_stream_mutations mutations of
        Inl e \<Rightarrow> Inl e
      | Inr _ \<Rightarrow>
          (case stream_command_bytes conditions mutations of
             None \<Rightarrow> Inl (ErrorString ''unknown conditional mutation'')
           | Some encoded \<Rightarrow> Inr (sha256_hex encoded)))"

text \<open>The guards of \<open>buildRevisionStreamAppend\<close> on the request itself.\<close>

definition check_append_request :: "RevisionStreamAppendRequest \<Rightarrow> unit result" where
  "check_append_request request =
     (if \<not> conditionalRequestIDPattern (ap_requestID request)
      then append_invalid ''request ID must be 1-128 safe ASCII bytes''
      else if \<not> conditionalNamespacePattern (ap_namespace request)
      then append_invalid ''namespace must be 1-64 safe ASCII bytes''
      else if length (ap_streamID request) = 0 \<or> maxRevisionStreamIDBytes < length (ap_streamID request)
      then append_invalid ''stream ID must be 1-1024 bytes''
      else if maxRevisionStreamPayloadBytes < length (ap_payload request)
      then append_invalid ''payload exceeds 1 MiB''
      else if maxRevisionStreamSideItems < length (ap_sideConditions request)
              \<or> maxRevisionStreamSideItems < length (ap_sideMutations request)
      then append_invalid ''side condition/mutation count exceeds 128''
      else case ap_expectedHead request of
        None \<Rightarrow> (if ap_revision request \<noteq> 1 then append_invalid ''genesis revision must be 1'' else Inr ())
      | Some head \<Rightarrow>
          (case validateRevisionStreamHead (ap_streamID request) head of
             Inl err \<Rightarrow> append_invalid (''expected head is invalid: '' @ error_text err)
           | Inr _ \<Rightarrow>
               if hd_Revision head = - 1 \<or> ap_revision request \<noteq> hd_Revision head + 1
               then append_invalid ''revision stream head overflow or revision mismatch''
               else if sint (ap_occurredAt request) < sint (hd_LastOccurredAt head)
               then append_invalid ''occurred_at must not precede expected head''
               else Inr ()))"

text \<open>
  What is known of the expected head: previous root, previous peaks and its encoding (nil at genesis).
\<close>

definition previous_state :: "RevisionStreamHead option
    \<Rightarrow> (bytes \<times> RevisionStreamMerklePeak list \<times> nullable_bytes) result" where
  "previous_state expectedHead =
     (case expectedHead of
        None \<Rightarrow> Inr (revisionStreamZeroRoot, [], None)
      | Some head \<Rightarrow>
          (case (hd_Proof head, encodeRevisionStreamHead head) of
             (Some proof, Some encoded) \<Rightarrow> Inr (digest_or_zero (hd_RootSHA256 head), ph_Peaks proof, Some encoded)
           | _ \<Rightarrow> nil_dereference))"

abbreviation internal_condition :: "bytes \<Rightarrow> nullable_bytes \<Rightarrow> revisionStreamExpectedCondition" where
  "internal_condition key expected \<equiv> \<lparr>ec_keyspace = revisionStreamInternalKeyspace, ec_key = key,
     ec_expected = expected, ec_operator = CompareEqual\<rparr>"

abbreviation internal_put :: "bytes \<Rightarrow> bytes \<Rightarrow> nullable_bytes \<Rightarrow> revisionStreamExpectedMutation" where
  "internal_put key value before \<equiv> \<lparr>em_kind = conditionalPut, em_keyspace = revisionStreamInternalKeyspace,
     em_key = key, em_value = Some value, em_delta = 0, em_strictBefore = True, em_expectedBefore = before\<rparr>"

definition head_key :: "bytes \<Rightarrow> bytes" where
  "head_key streamID = revisionStreamKey (bytes_of ''HRS1'') streamID"

definition event_key :: "bytes \<Rightarrow> uint64 \<Rightarrow> bytes" where
  "event_key streamID revision =
     appendRevisionStreamUint64 (revisionStreamKey (bytes_of ''ERS1'') streamID) revision"

definition time_key :: "bytes \<Rightarrow> int64 \<Rightarrow> uint64 \<Rightarrow> bytes" where
  "time_key streamID occurredAt revision =
     appendRevisionStreamUint64
       (appendRevisionStreamUint64 (revisionStreamKey (bytes_of ''TRS1'') streamID) (occurredAt XOR push_bit 63 1))
       revision"

text \<open>The internal conditions and mutations: event, time index and head, then the created tree nodes.\<close>

definition internal_conditions :: "RevisionStreamAppendRequest \<Rightarrow> nullable_bytes \<Rightarrow> revisionStreamMerkleNode list
    \<Rightarrow> revisionStreamExpectedCondition list" where
  "internal_conditions request expectedHeadBytes nodes =
     [internal_condition (head_key (ap_streamID request)) expectedHeadBytes,
      internal_condition (event_key (ap_streamID request) (ap_revision request)) None,
      internal_condition (time_key (ap_streamID request) (ap_occurredAt request) (ap_revision request)) None]
     @ map (\<lambda>node. internal_condition
         (revisionStreamMerkleKey (ap_streamID request) (node_height node) (node_startRevision node)) None) nodes"

definition internal_mutations :: "RevisionStreamAppendRequest \<Rightarrow> nullable_bytes \<Rightarrow> bytes \<Rightarrow> bytes \<Rightarrow> bytes
    \<Rightarrow> revisionStreamMerkleNode list \<Rightarrow> revisionStreamExpectedMutation list" where
  "internal_mutations request expectedHeadBytes eventValue root headValue nodes =
     [internal_put (event_key (ap_streamID request) (ap_revision request)) eventValue None,
      internal_put (time_key (ap_streamID request) (ap_occurredAt request) (ap_revision request)) root None,
      internal_put (head_key (ap_streamID request)) headValue expectedHeadBytes]
     @ map (\<lambda>node. internal_put
         (revisionStreamMerkleKey (ap_streamID request) (node_height node) (node_startRevision node))
         (node_root node) None) nodes"

definition new_head :: "RevisionStreamAppendRequest \<Rightarrow> bytes \<Rightarrow> bytes \<Rightarrow> RevisionStreamMerklePeak list \<Rightarrow> bytes \<times> RevisionStreamHead" where
  "new_head request content proofRoot peaks =
     (let root = calculateRevisionStreamHeadRoot (ap_streamID request) (ap_revision request) (ap_occurredAt request)
            content proofRoot
      in (root, \<lparr>hd_Revision = ap_revision request, hd_LastOccurredAt = ap_occurredAt request,
            hd_RootSHA256 = hex_encode root,
            hd_Proof = Some \<lparr>ph_Version = revisionStreamProofVersion, ph_LeafCount = ap_revision request,
              ph_RootSHA256 = hex_encode proofRoot, ph_LastContentSHA256 = hex_encode content, ph_Peaks = peaks\<rparr>\<rparr>))"

definition buildRevisionStreamAppend :: "RevisionStreamAppendRequest \<Rightarrow> builtRevisionStreamAppend result" where
  "buildRevisionStreamAppend request =
     (case check_append_request request of
        Inl e \<Rightarrow> Inl e
      | Inr _ \<Rightarrow>
     (case build_side_conditions (userKeyspace (ap_namespace request)) 0 [] 0 (ap_sideConditions request) of
        Inl e \<Rightarrow> Inl e
      | Inr ((wireConditions, sideConditions), sideBytes) \<Rightarrow>
     (case build_side_mutations (userKeyspace (ap_namespace request)) 0 [] sideBytes (ap_sideMutations request) of
        Inl e \<Rightarrow> Inl e
      | Inr (wireMutations, sideMutations) \<Rightarrow>
     (case previous_state (ap_expectedHead request) of
        Inl e \<Rightarrow> Inl e
      | Inr (previousRoot, previousPeaks, expectedHeadBytes) \<Rightarrow>
          (let streamID = ap_streamID request;
               payloadDigest = sha256 (ap_payload request);
               content = calculateRevisionStreamContent streamID previousRoot (ap_revision request)
                           (ap_occurredAt request) payloadDigest;
               leaf = calculateRevisionStreamMerkleLeaf streamID (ap_revision request) content
           in case appendRevisionStreamMerkleLeaf streamID previousPeaks (ap_revision request) leaf of
             Inl err \<Rightarrow> append_invalid (error_text err)
           | Inr (peaks, merkleNodes) \<Rightarrow>
          (case calculateRevisionStreamMerkleRoot streamID (ap_revision request) peaks of
             Inl err \<Rightarrow> append_invalid (error_text err)
           | Inr proofRoot \<Rightarrow>
          (case new_head request content proofRoot peaks of
             (root, head) \<Rightarrow>
          (case encodeRevisionStreamHead head of
             None \<Rightarrow> nil_dereference
           | Some headValue \<Rightarrow>
               (let eventValue = encodeRevisionStreamEvent (ap_occurredAt request) previousRoot payloadDigest content
                      proofRoot root (ap_payload request);
                    conditions = sideConditions @ internal_conditions request expectedHeadBytes merkleNodes;
                    mutations = sideMutations
                      @ internal_mutations request expectedHeadBytes eventValue root headValue merkleNodes
                in case revisionStreamCommandSHA conditions mutations of
                  Inl err \<Rightarrow> append_invalid (error_text err)
                | Inr commandSHA \<Rightarrow>
                    Inr \<lparr>bs_wire = \<lparr>wa_Version = revisionStreamVersion, wa_RequestID = ap_requestID request,
                           wa_Namespace = ap_namespace request, wa_StreamID = presentWireBytes streamID,
                           wa_ExpectedHead = ap_expectedHead request,
                           wa_Revision = \<lparr>cu_Value = ap_revision request, cu_Present = True\<rparr>,
                           wa_OccurredAt = \<lparr>ci_Value = ap_occurredAt request, ci_Present = True\<rparr>,
                           wa_Payload = presentWireBytes (ap_payload request),
                           wa_SideConditions = wireConditions, wa_SideMutations = wireMutations\<rparr>,
                         bs_request = request, bs_head = head, bs_payloadSHA = hex_encode payloadDigest,
                         bs_commandSHA = commandSHA, bs_conditions = conditions, bs_mutations = mutations\<rparr>)))))))))"

text \<open>
  \<open>cloneRevisionStreamMutations\<close> rebuilds each mutation with its constructor; one of no known kind
  becomes the zero value.
\<close>

definition cloneRevisionStreamMutation :: "ConditionalTransactionMutation \<Rightarrow> ConditionalTransactionMutation" where
  "cloneRevisionStreamMutation value =
     (case mut_kind value of
        conditionalPut \<Rightarrow> ConditionalPut (mut_key value) (nullable_value (mut_value value))
      | conditionalDelete \<Rightarrow> ConditionalDelete (mut_key value)
      | conditionalIncrement \<Rightarrow> ConditionalIncrement (mut_key value) (mut_delta value)
      | conditionalNone \<Rightarrow> \<lparr>mut_kind = conditionalNone, mut_key = [], mut_value = None, mut_delta = 0\<rparr>)"

definition NewRevisionStreamAppendRequest :: "string \<Rightarrow> string \<Rightarrow> bytes \<Rightarrow> RevisionStreamHead option \<Rightarrow> int64 \<Rightarrow> bytes
    \<Rightarrow> ConditionalTransactionCondition list \<Rightarrow> ConditionalTransactionMutation list
    \<Rightarrow> RevisionStreamAppendRequest result" where
  "NewRevisionStreamAppendRequest requestID namespace streamID expectedHead occurredAt payload sideConditions sideMutations =
     (let revision = (case expectedHead of
            None \<Rightarrow> 1
          | Some head \<Rightarrow> if hd_Revision head \<noteq> - 1 then hd_Revision head + 1 else 0);
          request = \<lparr>ap_requestID = requestID, ap_namespace = namespace, ap_streamID = streamID,
            ap_expectedHead = expectedHead, ap_revision = revision, ap_occurredAt = occurredAt, ap_payload = payload,
            ap_sideConditions = sideConditions, ap_sideMutations = map cloneRevisionStreamMutation sideMutations\<rparr>
      in case buildRevisionStreamAppend request of
           Inl e \<Rightarrow> Inl e
         | Inr _ \<Rightarrow> Inr request)"

end
