(* ===== verification/RevisionLog.thy ===== *)
theory RevisionLog
  imports MerkleProofs RevisionStream
begin

text \<open>
  What an append builds. A validated head is characterised, the guards of \<open>buildRevisionStreamAppend\<close> are
  turned into one predicate on the request, and the construction refines an abstract log of events:
  the head it computes is the head of the log with the event added.
\<close>

section \<open>Validated heads\<close>

lemma valid_head_iff:
  "validateRevisionStreamHead sid head = Inr () \<longleftrightarrow> hd_Revision head \<noteq> 0
     \<and> (\<exists>proof content proofRoot. hd_Proof head = Some proof \<and> ph_Version proof = revisionStreamProofVersion
          \<and> ph_LeafCount proof = hd_Revision head \<and> canonical_peaks (hd_Revision head) (ph_Peaks proof)
          \<and> calculateRevisionStreamMerkleRoot sid (hd_Revision head) (ph_Peaks proof) = Inr proofRoot
          \<and> ph_RootSHA256 proof = hex_encode proofRoot
          \<and> ph_LastContentSHA256 proof = hex_encode content \<and> length content = 32
          \<and> hd_RootSHA256 head = hex_encode (calculateRevisionStreamHeadRoot sid (hd_Revision head)
               (hd_LastOccurredAt head) content proofRoot))"
  (is "?L \<longleftrightarrow> ?R")
proof
  assume ?L
  then show ?R
    unfolding validateRevisionStreamHead_def
    by (elim result_elims) (auto simp: validate_peaks_iff digest_Inr split: option.splits if_splits sum.splits)
next
  assume R: ?R
  then obtain pf proofRoot where "hd_Proof head = Some pf" "length proofRoot = 32"
    "calculateRevisionStreamMerkleRoot sid (hd_Revision head) (ph_Peaks pf) = Inr proofRoot"
    "validateRevisionStreamPeaks sid (hd_Revision head) (ph_Peaks pf) (hex_encode proofRoot) = Inr ()"
    using length_root [of sid "hd_Revision head"] validate_peaks_iff by metis
  with R show ?L by (auto simp: validateRevisionStreamHead_def)
qed

section \<open>The side items\<close>

definition side_condition_ok :: "ConditionalTransactionCondition \<Rightarrow> bool" where
  "side_condition_ok c \<longleftrightarrow> 0 < length (cond_Key c) \<and> length (cond_Key c) \<le> maxConditionalKeyBytes
     \<and> validCompareOperator (cond_Operator c)"

definition side_mutation_ok :: "ConditionalTransactionMutation \<Rightarrow> bool" where
  "side_mutation_ok m \<longleftrightarrow> 0 < length (mut_key m) \<and> length (mut_key m) \<le> maxConditionalKeyBytes
     \<and> mut_kind m \<noteq> conditionalNone"

definition side_condition_bytes :: "string \<Rightarrow> ConditionalTransactionCondition \<Rightarrow> nat" where
  "side_condition_bytes keyspace c = length keyspace + length (cond_Key c) + length (nullable_value (cond_Expected c))"

definition side_mutation_bytes :: "string \<Rightarrow> ConditionalTransactionMutation \<Rightarrow> nat" where
  "side_mutation_bytes keyspace m = length keyspace + length (mut_key m)
     + (if mut_kind m = conditionalPut then length (nullable_value (mut_value m)) else 0)"

definition side_condition :: "string \<Rightarrow> ConditionalTransactionCondition \<Rightarrow> revisionStreamExpectedCondition" where
  "side_condition keyspace c = \<lparr>ec_keyspace = keyspace, ec_key = cond_Key c, ec_expected = cond_Expected c,
     ec_operator = cond_Operator c\<rparr>"

definition side_mutation :: "string \<Rightarrow> ConditionalTransactionMutation \<Rightarrow> revisionStreamExpectedMutation" where
  "side_mutation keyspace m = \<lparr>em_kind = mut_kind m, em_keyspace = keyspace, em_key = mut_key m,
     em_value = (if mut_kind m = conditionalPut then Some (nullable_value (mut_value m)) else None),
     em_delta = mut_delta m, em_strictBefore = False, em_expectedBefore = None\<rparr>"

lemma add_side_bytes:
  "b \<le> maxRevisionStreamSidePayloadBytes \<Longrightarrow> addRevisionStreamSideBytes b vs
     = (if b + sum_list vs \<le> maxRevisionStreamSidePayloadBytes then Some (b + sum_list vs) else None)"
  by (induction b vs rule: addRevisionStreamSideBytes.induct) (auto simp: maxRevisionStreamSidePayloadBytes_def)

lemma side_conditions_result:
  assumes "b \<le> maxRevisionStreamSidePayloadBytes"
  shows "(\<exists>ws. build_side_conditions ks i seen b conds = Inr ((ws, es), b'))
    \<longleftrightarrow> list_all side_condition_ok conds \<and> distinct (map cond_Key conds) \<and> set (map cond_Key conds) \<inter> set seen = {}
      \<and> b + sum_list (map (side_condition_bytes ks) conds) \<le> maxRevisionStreamSidePayloadBytes
      \<and> es = map (side_condition ks) conds \<and> b' = b + sum_list (map (side_condition_bytes ks) conds)"
  using assms
proof (induction conds arbitrary: i seen b es)
  case (Cons c conds)
  let ?n = "side_condition_bytes ks c"
  show ?case
  proof (cases "side_condition_ok c \<and> cond_Key c \<notin> set seen \<and> b + ?n \<le> maxRevisionStreamSidePayloadBytes")
    case True
    then have "(\<exists>ws. build_side_conditions ks i seen b (c # conds) = Inr ((ws, es), b')) \<longleftrightarrow>
        (\<exists>ws es'. build_side_conditions ks (Suc i) (cond_Key c # seen) (b + ?n) conds = Inr ((ws, es'), b')
           \<and> es = side_condition ks c # es')"
      using add_side_bytes [OF Cons.prems]
      by (auto simp: side_condition_ok_def side_condition_bytes_def side_condition_def add.assoc not_less split: sum.splits)
    then show ?thesis using True Cons.IH [of "b + ?n" "Suc i" "cond_Key c # seen"] by (auto simp: add.assoc)
  next
    case False
    then show ?thesis using add_side_bytes [OF Cons.prems]
      by (auto simp: side_condition_ok_def side_condition_bytes_def append_invalid_def add.assoc not_less)
  qed
qed auto

lemma side_mutation_result:
  assumes "b \<le> maxRevisionStreamSidePayloadBytes"
  shows "(\<exists>w. build_side_mutation ks i b m = Inr ((w, e), b')) \<longleftrightarrow> mut_kind m \<noteq> conditionalNone
    \<and> b + side_mutation_bytes ks m \<le> maxRevisionStreamSidePayloadBytes \<and> e = side_mutation ks m
    \<and> b' = b + side_mutation_bytes ks m"
  using add_side_bytes [OF assms]
  by (cases "mut_kind m") (auto simp: build_side_mutation_def side_mutation_bytes_def side_mutation_def append_invalid_def
      Let_def add.assoc)

lemma side_mutations_result:
  assumes "b \<le> maxRevisionStreamSidePayloadBytes"
  shows "(\<exists>ws. build_side_mutations ks i seen b muts = Inr (ws, es))
    \<longleftrightarrow> list_all side_mutation_ok muts \<and> distinct (map mut_key muts) \<and> set (map mut_key muts) \<inter> set seen = {}
      \<and> b + sum_list (map (side_mutation_bytes ks) muts) \<le> maxRevisionStreamSidePayloadBytes
      \<and> es = map (side_mutation ks) muts"
  using assms
proof (induction muts arbitrary: i seen b es)
  case (Cons m muts)
  let ?n = "side_mutation_bytes ks m"
  have m: "build_side_mutation ks i b m = Inr ((w, e), b') \<Longrightarrow> mut_kind m \<noteq> conditionalNone
    \<and> b + ?n \<le> maxRevisionStreamSidePayloadBytes \<and> e = side_mutation ks m \<and> b' = b + ?n" for w e b'
    using side_mutation_result [OF Cons.prems, of ks i m e b'] by blast
  show ?case
  proof (cases "side_mutation_ok m \<and> mut_key m \<notin> set seen \<and> b + ?n \<le> maxRevisionStreamSidePayloadBytes")
    case True
    then obtain w where w: "build_side_mutation ks i b m = Inr ((w, side_mutation ks m), b + ?n)"
      using side_mutation_result [OF Cons.prems, of ks i m "side_mutation ks m" "b + ?n"] by (auto simp: side_mutation_ok_def)
    with True have "(\<exists>ws. build_side_mutations ks i seen b (m # muts) = Inr (ws, es)) \<longleftrightarrow>
        (\<exists>ws es'. build_side_mutations ks (Suc i) (mut_key m # seen) (b + ?n) muts = Inr (ws, es')
           \<and> es = side_mutation ks m # es')"
      by (auto simp: side_mutation_ok_def split: sum.splits)
    then show ?thesis using True Cons.IH [of "b + ?n" "Suc i" "mut_key m # seen"] by (auto simp: add.assoc)
  next
    case False
    then have "build_side_mutations ks i seen b (m # muts) \<noteq> Inr (ws, es)" for ws
      using m by (auto simp: side_mutation_ok_def append_invalid_def split: sum.splits)
    then show ?thesis using False by (auto simp: side_mutation_ok_def)
  qed
qed auto

section \<open>When an append can be built\<close>

text \<open>A request continues a head: it is the genesis request, or the next revision of a valid head, no earlier in time.\<close>

definition continues_head :: "RevisionStreamAppendRequest \<Rightarrow> bool" where
  "continues_head request \<longleftrightarrow>
     (case ap_expectedHead request of
        None \<Rightarrow> ap_revision request = 1
      | Some head \<Rightarrow> validateRevisionStreamHead (ap_streamID request) head = Inr ()
          \<and> unat (ap_revision request) = unat (hd_Revision head) + 1
          \<and> sint (hd_LastOccurredAt head) \<le> sint (ap_occurredAt request))"

definition side_items_ok :: "RevisionStreamAppendRequest \<Rightarrow> bool" where
  "side_items_ok request \<longleftrightarrow>
     (let ks = userKeyspace (ap_namespace request); conds = ap_sideConditions request; muts = ap_sideMutations request
      in list_all side_condition_ok conds \<and> distinct (map cond_Key conds)
         \<and> list_all side_mutation_ok muts \<and> distinct (map mut_key muts)
         \<and> sum_list (map (side_condition_bytes ks) conds) + sum_list (map (side_mutation_bytes ks) muts)
             \<le> maxRevisionStreamSidePayloadBytes)"

definition append_ok :: "RevisionStreamAppendRequest \<Rightarrow> bool" where
  "append_ok request \<longleftrightarrow> conditionalRequestIDPattern (ap_requestID request)
     \<and> conditionalNamespacePattern (ap_namespace request)
     \<and> 0 < length (ap_streamID request) \<and> length (ap_streamID request) \<le> maxRevisionStreamIDBytes
     \<and> length (ap_payload request) \<le> maxRevisionStreamPayloadBytes
     \<and> length (ap_sideConditions request) \<le> maxRevisionStreamSideItems
     \<and> length (ap_sideMutations request) \<le> maxRevisionStreamSideItems
     \<and> continues_head request \<and> side_items_ok request"

lemma uint64_successor: "unat (r :: uint64) = unat (h :: uint64) + 1 \<longleftrightarrow> h \<noteq> - 1 \<and> r = h + 1"
proof
  assume u: "unat r = unat h + 1"
  then have "(of_nat (unat r) :: uint64) = of_nat (unat h + 1)" by (rule arg_cong)
  then have r: "r = h + 1" by simp
  with u show "h \<noteq> - 1 \<and> r = h + 1" by auto
next
  assume "h \<noteq> - 1 \<and> r = h + 1"
  then have "r \<noteq> 0" "h = r - 1" by (auto simp: add_eq_0_iff2)
  then show "unat r = unat h + 1" using unat_minus_one [of r] by (simp add: unat_gt_0)
qed

lemma check_append_iff:
  "check_append_request request = Inr () \<longleftrightarrow> conditionalRequestIDPattern (ap_requestID request)
     \<and> conditionalNamespacePattern (ap_namespace request)
     \<and> 0 < length (ap_streamID request) \<and> length (ap_streamID request) \<le> maxRevisionStreamIDBytes
     \<and> length (ap_payload request) \<le> maxRevisionStreamPayloadBytes
     \<and> length (ap_sideConditions request) \<le> maxRevisionStreamSideItems
     \<and> length (ap_sideMutations request) \<le> maxRevisionStreamSideItems
     \<and> continues_head request"
  unfolding check_append_request_def continues_head_def uint64_successor
  by (auto simp: append_invalid_def not_less split: option.splits sum.splits)

lemma command_sha_sizes:
  assumes "list_all (\<lambda>c. length (ec_keyspace c) < 2 ^ 32 \<and> length (ec_key c) < 2 ^ 32
      \<and> length (nullable_value (ec_expected c)) < 2 ^ 32) conditions"
    "list_all (\<lambda>m. em_kind m \<noteq> conditionalNone \<and> length (em_keyspace m) < 2 ^ 32 \<and> length (em_key m) < 2 ^ 32
      \<and> length (nullable_value (em_value m)) < 2 ^ 32) mutations"
  shows "\<exists>encoded. stream_command_bytes conditions mutations = Some encoded
    \<and> revisionStreamCommandSHA conditions mutations = Inr (sha256_hex encoded)"
proof -
  have "\<not> list_ex condition_too_large conditions"
    using assms(1) by (induction conditions) (auto simp: condition_too_large_def)
  moreover have "check_stream_mutations mutations = Inr ()"
    using assms(2) by (induction mutations) (auto simp: mutation_too_large_def)
  moreover have "\<exists>ms. mutations_bytes (map (\<lambda>m. (em_keyspace m, em_kind m, em_key m, em_value m, em_delta m)) mutations) = Some ms"
    using assms(2)
    by (induction mutations) (auto simp: mutation_bytes_def split: conditionalMutationKind.splits)
  ultimately show ?thesis
    by (auto simp: revisionStreamCommandSHA_def stream_command_bytes_def command_bytes_def)
qed

lemma length_digest_or_zero [simp]: "length (digest_or_zero s) = 32"
  by (simp add: digest_or_zero_def revisionStreamZeroRoot_def digest_Inr split: sum.splits)

lemma digest_or_zero_hex [simp]: "length b = 32 \<Longrightarrow> digest_or_zero (hex_encode b) = b"
  by (simp add: digest_or_zero_def)

lemma length_encoded_head:
  assumes "encodeRevisionStreamHead head = Some v" "hd_Proof head = Some p"
  shows "length v = 120 + 41 * length (ph_Peaks p)"
proof -
  have "length (concat (map (\<lambda>peak. [peak_Height peak] @ u64_be (peak_StartRevision peak)
      @ digest_or_zero (peak_RootSHA256 peak)) ps)) = 41 * length ps" for ps
    by (induction ps) auto
  with assms show ?thesis by (auto simp: encodeRevisionStreamHead_def)
qed

lemma previous_state_valid:
  assumes "continues_head request"
  obtains root peaks encoded where "previous_state (ap_expectedHead request) = Inr (root, peaks, encoded)"
    "length root = 32" "ap_revision request \<noteq> 0" "canonical_peaks (ap_revision request - 1) peaks"
    "length (nullable_value encoded) < 2 ^ 32"
proof (cases "ap_expectedHead request")
  case None
  have "expectedRevisionStreamPeakLayout 0 = []" by code_simp
  with None assms that show ?thesis
    by (simp add: previous_state_def continues_head_def revisionStreamZeroRoot_def canonical_peaks_def nullable_value_def)
next
  case (Some head)
  with assms have v: "validateRevisionStreamHead (ap_streamID request) head = Inr ()"
    and r: "hd_Revision head \<noteq> - 1" "ap_revision request = hd_Revision head + 1"
    using uint64_successor [of "ap_revision request" "hd_Revision head"] by (auto simp: continues_head_def)
  obtain p where p: "hd_Proof head = Some p" "canonical_peaks (hd_Revision head) (ph_Peaks p)"
    using v by (auto simp: valid_head_iff)
  then obtain e where e: "encodeRevisionStreamHead head = Some e" by (simp add: encodeRevisionStreamHead_def)
  have "length e < 2 ^ 32" using length_encoded_head [OF e p(1)] canonical_length(2) [OF p(2)] by simp
  moreover have "ap_revision request \<noteq> 0" using r by (auto simp: add_eq_0_iff2)
  ultimately show ?thesis
    using Some p e r by (intro that [of "digest_or_zero (hd_RootSHA256 head)" "ph_Peaks p" "Some e"])
      (auto simp: previous_state_def nullable_value_def)
qed

definition append_content :: "RevisionStreamAppendRequest \<Rightarrow> bytes \<Rightarrow> bytes" where
  "append_content request previousRoot = calculateRevisionStreamContent (ap_streamID request) previousRoot
     (ap_revision request) (ap_occurredAt request) (sha256 (ap_payload request))"

definition append_leaf :: "RevisionStreamAppendRequest \<Rightarrow> bytes \<Rightarrow> bytes" where
  "append_leaf request content = calculateRevisionStreamMerkleLeaf (ap_streamID request) (ap_revision request) content"

lemma length_append_hashes [simp]:
  "length (append_content request previousRoot) = 32" "length (append_leaf request content) = 32"
  by (simp_all add: append_content_def append_leaf_def)

text \<open>The conditions and mutations of the transaction: those of the caller, then the stream's own.\<close>

definition append_conditions :: "RevisionStreamAppendRequest \<Rightarrow> nullable_bytes \<Rightarrow> revisionStreamMerkleNode list
    \<Rightarrow> revisionStreamExpectedCondition list" where
  "append_conditions request expectedHeadBytes nodes =
     map (side_condition (userKeyspace (ap_namespace request))) (ap_sideConditions request)
     @ internal_conditions request expectedHeadBytes nodes"

definition append_mutations :: "RevisionStreamAppendRequest \<Rightarrow> nullable_bytes \<Rightarrow> bytes \<Rightarrow> bytes \<Rightarrow> bytes
    \<Rightarrow> revisionStreamMerkleNode list \<Rightarrow> revisionStreamExpectedMutation list" where
  "append_mutations request expectedHeadBytes eventValue root headValue nodes =
     map (side_mutation (userKeyspace (ap_namespace request))) (ap_sideMutations request)
     @ internal_mutations request expectedHeadBytes eventValue root headValue nodes"

lemma side_results:
  "side_items_ok request \<longleftrightarrow> (\<exists>wc wm b.
     build_side_conditions (userKeyspace (ap_namespace request)) 0 [] 0 (ap_sideConditions request)
       = Inr ((wc, map (side_condition (userKeyspace (ap_namespace request))) (ap_sideConditions request)), b)
     \<and> build_side_mutations (userKeyspace (ap_namespace request)) 0 [] b (ap_sideMutations request)
       = Inr (wm, map (side_mutation (userKeyspace (ap_namespace request))) (ap_sideMutations request)))"
  (is "?L \<longleftrightarrow> (\<exists>wc wm b. ?C wc b \<and> ?M wm b)")
proof -
  let ?ks = "userKeyspace (ap_namespace request)"
  let ?n = "sum_list (map (side_condition_bytes ?ks) (ap_sideConditions request))"
  have c: "(\<exists>wc. ?C wc b) \<longleftrightarrow> list_all side_condition_ok (ap_sideConditions request)
      \<and> distinct (map cond_Key (ap_sideConditions request)) \<and> ?n \<le> maxRevisionStreamSidePayloadBytes \<and> b = ?n" for b
    using side_conditions_result [of 0 ?ks 0 "[]" "ap_sideConditions request" _ b] by simp
  have m: "?n \<le> maxRevisionStreamSidePayloadBytes \<Longrightarrow> (\<exists>wm. ?M wm ?n) \<longleftrightarrow>
      list_all side_mutation_ok (ap_sideMutations request) \<and> distinct (map mut_key (ap_sideMutations request))
      \<and> ?n + sum_list (map (side_mutation_bytes ?ks) (ap_sideMutations request)) \<le> maxRevisionStreamSidePayloadBytes"
    using side_mutations_result [of ?n ?ks 0 "[]" "ap_sideMutations request"] by simp
  have "(\<exists>wc wm b. ?C wc b \<and> ?M wm b) \<longleftrightarrow> (\<exists>b. (\<exists>wc. ?C wc b) \<and> (\<exists>wm. ?M wm b))" by blast
  also have "\<dots> \<longleftrightarrow> (\<exists>wc. ?C wc ?n) \<and> (\<exists>wm. ?M wm ?n)" unfolding c by blast
  also have "\<dots> \<longleftrightarrow> ?L" using c [of ?n] m by (auto simp: side_items_ok_def Let_def)
  finally show ?thesis by blast
qed

lemma namespace_bound: "conditionalNamespacePattern ns \<Longrightarrow> length (userKeyspace ns) < 2 ^ 32"
  by (simp add: conditionalNamespacePattern_def class_pattern_def userKeyspace_def)

lemma length_internal_keys:
  "length (head_key sid) = 8 + length sid" "length (event_key sid r) = 16 + length sid"
  "length (time_key sid t r) = 24 + length sid" "length (revisionStreamMerkleKey sid h st) = 17 + length sid"
  by (simp_all add: head_key_def event_key_def time_key_def revisionStreamMerkleKey_def revisionStreamKey_def
      appendRevisionStreamUint64_def)

lemma summand_le: "x \<in> set xs \<Longrightarrow> f x \<le> sum_list (map f xs)" for f :: "'a \<Rightarrow> nat"
  by (simp add: member_le_sum_list)

lemma append_sizes:
  assumes ok: "append_ok request" and e: "length (nullable_value e) < 2 ^ 32"
    and vals: "length ev < 2 ^ 32" "length root < 2 ^ 32" "length hv < 2 ^ 32"
    and nodes: "list_all (\<lambda>n. length (node_root n) < 2 ^ 32) nodes"
  shows "\<exists>encoded. stream_command_bytes (append_conditions request e nodes) (append_mutations request e ev root hv nodes) = Some encoded
    \<and> revisionStreamCommandSHA (append_conditions request e nodes) (append_mutations request e ev root hv nodes)
      = Inr (sha256_hex encoded)"
proof (rule command_sha_sizes)
  let ?ks = "userKeyspace (ap_namespace request)"
  have ks: "length ?ks < 2 ^ 32" and sid: "length (ap_streamID request) \<le> 1024"
    using ok namespace_bound by (auto simp: append_ok_def maxRevisionStreamIDBytes_def)
  have iks: "length revisionStreamInternalKeyspace < 2 ^ 32" by (simp add: revisionStreamInternalKeyspace_def)
  have side: "list_all side_condition_ok (ap_sideConditions request)" "list_all side_mutation_ok (ap_sideMutations request)"
    "sum_list (map (side_condition_bytes ?ks) (ap_sideConditions request))
      + sum_list (map (side_mutation_bytes ?ks) (ap_sideMutations request)) \<le> maxRevisionStreamSidePayloadBytes"
    using ok by (auto simp: append_ok_def side_items_ok_def Let_def)
  have c: "length (cond_Key c) < 2 ^ 32 \<and> length (nullable_value (cond_Expected c)) < 2 ^ 32"
    if "c \<in> set (ap_sideConditions request)" for c
    using side(3) summand_le [OF that, of "side_condition_bytes ?ks"]
    by (simp add: side_condition_bytes_def maxRevisionStreamSidePayloadBytes_def)
  have m: "length (mut_key m) < 2 ^ 32 \<and> (mut_kind m = conditionalPut \<longrightarrow> length (nullable_value (mut_value m)) < 2 ^ 32)"
    if "m \<in> set (ap_sideMutations request)" for m
    using side(3) summand_le [OF that, of "side_mutation_bytes ?ks"]
    by (auto simp: side_mutation_bytes_def maxRevisionStreamSidePayloadBytes_def)
  show "list_all (\<lambda>c. length (ec_keyspace c) < 2 ^ 32 \<and> length (ec_key c) < 2 ^ 32
      \<and> length (nullable_value (ec_expected c)) < 2 ^ 32) (append_conditions request e nodes)"
    using c ks iks e sid
    by (auto simp: append_conditions_def side_condition_def internal_conditions_def length_internal_keys list_all_iff
        nullable_value_def)
  show "list_all (\<lambda>m. em_kind m \<noteq> conditionalNone \<and> length (em_keyspace m) < 2 ^ 32 \<and> length (em_key m) < 2 ^ 32
      \<and> length (nullable_value (em_value m)) < 2 ^ 32) (append_mutations request e ev root hv nodes)"
    using m ks iks sid vals nodes side(2)
    by (auto simp: append_mutations_def side_mutation_def side_mutation_ok_def internal_mutations_def length_internal_keys
        list_all_iff nullable_value_def)
qed

lemma append_leaf_shape:
  assumes "length leaf = 32" "revision \<noteq> 0" "canonical_peaks (revision - 1) previous"
  obtains peaks R where "appendRevisionStreamMerkleLeaf sid previous revision leaf
      = Inr (peaks, map (created_node sid (unat (revision - 1)) R leaf) [0..<Suc (trailing_ones (unat (revision - 1)))])"
    "canonical_peaks revision peaks" "\<forall>h. length (R h) = 32"
proof -
  define n where "n = unat (revision - 1)"
  have "unat revision < 2 ^ 64" "unat revision \<noteq> 0" using assms(2) unat_width [of revision] by (auto simp: unat_eq_0)
  then have n: "n + 1 < 2 ^ 64" "of_nat (n + 1) = revision" "of_nat n = revision - 1"
    using assms(2) by (auto simp: n_def unat_minus_one)
  obtain R where R: "\<forall>h. length (R h) = 32" "previous = map (peak_at n R) (peak_heights n)"
    using assms(3) n canonical_peaks_over [of n previous] by auto
  have "canonical_peaks (of_nat (n + 1)) (map (peak_at (n + 1) (next_roots sid n R leaf)) (peak_heights (n + 1)))"
    using canonical_peaks_over [of "n + 1"] n(1) length_next_roots [OF R(1) assms(1)] by blast
  then show ?thesis
    using that [folded n_def] append_leaf_canonical [OF n(1) R(1) assms(1), of sid] R(1) unfolding n(2) R(2) by blast
qed

definition append_root :: "RevisionStreamAppendRequest \<Rightarrow> bytes \<Rightarrow> bytes \<Rightarrow> bytes" where
  "append_root request previousRoot proofRoot = calculateRevisionStreamHeadRoot (ap_streamID request) (ap_revision request)
     (ap_occurredAt request) (append_content request previousRoot) proofRoot"

definition append_event :: "RevisionStreamAppendRequest \<Rightarrow> bytes \<Rightarrow> bytes \<Rightarrow> bytes" where
  "append_event request previousRoot proofRoot = encodeRevisionStreamEvent (ap_occurredAt request) previousRoot
     (sha256 (ap_payload request)) (append_content request previousRoot) proofRoot
     (append_root request previousRoot proofRoot) (ap_payload request)"

definition append_head :: "RevisionStreamAppendRequest \<Rightarrow> bytes \<Rightarrow> bytes \<Rightarrow> RevisionStreamMerklePeak list \<Rightarrow> RevisionStreamHead" where
  "append_head request previousRoot proofRoot peaks = snd (new_head request (append_content request previousRoot) proofRoot peaks)"

text \<open>A built append in terms of the parts it is computed from.\<close>

definition append_parts :: "RevisionStreamAppendRequest \<Rightarrow> builtRevisionStreamAppend \<Rightarrow> bytes \<Rightarrow> RevisionStreamMerklePeak list
    \<Rightarrow> nullable_bytes \<Rightarrow> RevisionStreamMerklePeak list \<Rightarrow> revisionStreamMerkleNode list \<Rightarrow> bytes \<Rightarrow> bytes \<Rightarrow> bool" where
  "append_parts request b previousRoot previousPeaks expectedHeadBytes peaks nodes proofRoot headValue \<longleftrightarrow>
     previous_state (ap_expectedHead request) = Inr (previousRoot, previousPeaks, expectedHeadBytes)
     \<and> appendRevisionStreamMerkleLeaf (ap_streamID request) previousPeaks (ap_revision request)
         (append_leaf request (append_content request previousRoot)) = Inr (peaks, nodes)
     \<and> calculateRevisionStreamMerkleRoot (ap_streamID request) (ap_revision request) peaks = Inr proofRoot
     \<and> encodeRevisionStreamHead (append_head request previousRoot proofRoot peaks) = Some headValue
     \<and> bs_request b = request \<and> bs_head b = append_head request previousRoot proofRoot peaks
     \<and> bs_payloadSHA b = sha256_hex (ap_payload request)
     \<and> bs_conditions b = append_conditions request expectedHeadBytes nodes
     \<and> bs_mutations b = append_mutations request expectedHeadBytes (append_event request previousRoot proofRoot)
         (append_root request previousRoot proofRoot) headValue nodes
     \<and> revisionStreamCommandSHA (bs_conditions b) (bs_mutations b) = Inr (bs_commandSHA b)"

lemma new_head_parts:
  "new_head request (append_content request previousRoot) proofRoot peaks
     = (append_root request previousRoot proofRoot, append_head request previousRoot proofRoot peaks)"
  by (simp add: new_head_def append_head_def append_root_def Let_def)

lemmas append_defs = append_content_def [symmetric] append_leaf_def [symmetric] new_head_parts

lemma pair_InrE:
  assumes "(case p of (x, y) \<Rightarrow> k x y) = Inr z"
  obtains x y where "p = (x, y)" "k x y = Inr z"
  using assms by (cases p) auto

lemma build_append_parts:
  assumes "buildRevisionStreamAppend request = Inr b"
  shows "append_ok request"
    and "\<exists>previousRoot previousPeaks expectedHeadBytes peaks nodes proofRoot headValue.
      append_parts request b previousRoot previousPeaks expectedHeadBytes peaks nodes proofRoot headValue"
proof -
  let ?ks = "userKeyspace (ap_namespace request)"
  obtain wc cs n wm ms previousRoot previousPeaks expectedHeadBytes peaks nodes proofRoot headValue where
    check: "check_append_request request = Inr ()"
    and c: "build_side_conditions ?ks 0 [] 0 (ap_sideConditions request) = Inr ((wc, cs), n)"
    and m: "build_side_mutations ?ks 0 [] n (ap_sideMutations request) = Inr (wm, ms)"
    and p: "previous_state (ap_expectedHead request) = Inr (previousRoot, previousPeaks, expectedHeadBytes)"
    and l: "appendRevisionStreamMerkleLeaf (ap_streamID request) previousPeaks (ap_revision request)
         (append_leaf request (append_content request previousRoot)) = Inr (peaks, nodes)"
    and r: "calculateRevisionStreamMerkleRoot (ap_streamID request) (ap_revision request) peaks = Inr proofRoot"
    and h: "encodeRevisionStreamHead (append_head request previousRoot proofRoot peaks) = Some headValue"
    and b: "bs_request b = request" "bs_head b = append_head request previousRoot proofRoot peaks"
      "bs_payloadSHA b = sha256_hex (ap_payload request)"
      "bs_conditions b = cs @ internal_conditions request expectedHeadBytes nodes"
      "bs_mutations b = ms @ internal_mutations request expectedHeadBytes (append_event request previousRoot proofRoot)
         (append_root request previousRoot proofRoot) headValue nodes"
      "revisionStreamCommandSHA (bs_conditions b) (bs_mutations b) = Inr (bs_commandSHA b)"
    using assms unfolding buildRevisionStreamAppend_def Let_def append_defs prod.case append_invalid_def nil_dereference_def
    by (elim bind_InrE option_InrE pair_InrE) (auto simp: sha256_hex_def append_event_def new_head_parts)
  have cs: "cs = map (side_condition ?ks) (ap_sideConditions request)"
    and n: "n \<le> maxRevisionStreamSidePayloadBytes"
    using side_conditions_result [of 0 ?ks 0 "[]" "ap_sideConditions request" cs n] c by auto
  have ms: "ms = map (side_mutation ?ks) (ap_sideMutations request)"
    using side_mutations_result [OF n, of ?ks 0 "[]" "ap_sideMutations request" ms] m by auto
  show "append_ok request"
    using check c m side_results [of request] unfolding cs ms by (auto simp: append_ok_def check_append_iff)
  show "\<exists>previousRoot previousPeaks expectedHeadBytes peaks nodes proofRoot headValue.
      append_parts request b previousRoot previousPeaks expectedHeadBytes peaks nodes proofRoot headValue"
    using p l r h b unfolding append_parts_def append_conditions_def append_mutations_def cs ms by metis
qed

lemma encode_append_head:
  assumes "canonical_peaks revision peaks"
  obtains v where "encodeRevisionStreamHead (append_head request previousRoot proofRoot peaks) = Some v" "length v < 2 ^ 32"
proof -
  obtain v where v: "encodeRevisionStreamHead (append_head request previousRoot proofRoot peaks) = Some v"
    by (simp add: encodeRevisionStreamHead_def append_head_def new_head_def Let_def)
  moreover have "length v < 2 ^ 32"
    using length_encoded_head [OF v] canonical_length(2) [OF assms] by (simp add: append_head_def new_head_def Let_def)
  ultimately show ?thesis using that by blast
qed

lemma build_append_total:
  assumes ok: "append_ok request"
  shows "\<exists>b. buildRevisionStreamAppend request = Inr b"
proof -
  have check: "check_append_request request = Inr ()" using ok by (simp add: check_append_iff append_ok_def)
  obtain wc wm n where side:
    "build_side_conditions (userKeyspace (ap_namespace request)) 0 [] 0 (ap_sideConditions request)
       = Inr ((wc, map (side_condition (userKeyspace (ap_namespace request))) (ap_sideConditions request)), n)"
    "build_side_mutations (userKeyspace (ap_namespace request)) 0 [] n (ap_sideMutations request)
       = Inr (wm, map (side_mutation (userKeyspace (ap_namespace request))) (ap_sideMutations request))"
    using ok side_results [of request] by (auto simp: append_ok_def)
  obtain previousRoot previousPeaks e where prev:
    "previous_state (ap_expectedHead request) = Inr (previousRoot, previousPeaks, e)" "length previousRoot = 32"
    "ap_revision request \<noteq> 0" "canonical_peaks (ap_revision request - 1) previousPeaks" "length (nullable_value e) < 2 ^ 32"
    using previous_state_valid [of request] ok by (auto simp: append_ok_def)
  let ?leaf = "append_leaf request (append_content request previousRoot)"
  obtain peaks R where leaf: "appendRevisionStreamMerkleLeaf (ap_streamID request) previousPeaks (ap_revision request) ?leaf
      = Inr (peaks, map (created_node (ap_streamID request) (unat (ap_revision request - 1)) R ?leaf)
          [0..<Suc (trailing_ones (unat (ap_revision request - 1)))])" (is "_ = Inr (_, ?nodes)")
    and peaks: "canonical_peaks (ap_revision request) peaks"
    using append_leaf_shape [OF length_append_hashes(2) prev(3,4), of "ap_streamID request"] by blast
  obtain proofRoot where root: "calculateRevisionStreamMerkleRoot (ap_streamID request) (ap_revision request) peaks = Inr proofRoot"
    "length proofRoot = 32" using canonical_root [OF peaks] by blast
  obtain hv where hv: "encodeRevisionStreamHead (append_head request previousRoot proofRoot peaks) = Some hv" "length hv < 2 ^ 32"
    using encode_append_head [OF peaks] by blast
  have "length (append_event request previousRoot proofRoot) < 2 ^ 32" "length (append_root request previousRoot proofRoot) < 2 ^ 32"
    using ok root prev(2) by (simp_all add: append_event_def append_root_def encodeRevisionStreamEvent_def
      append_ok_def maxRevisionStreamPayloadBytes_def)
  then obtain sha where sha: "revisionStreamCommandSHA (append_conditions request e ?nodes)
      (append_mutations request e (append_event request previousRoot proofRoot) (append_root request previousRoot proofRoot) hv ?nodes)
      = Inr sha"
    using append_sizes [OF ok prev(5) _ _ hv(2), of "append_event request previousRoot proofRoot"
        "append_root request previousRoot proofRoot" ?nodes] length_merged_root
    by (auto simp: list_all_iff created_node_def)
  show ?thesis
    using check side prev(1) leaf root(1) hv(1) sha
    unfolding buildRevisionStreamAppend_def append_defs
    by (simp add: Let_def append_defs append_conditions_def append_mutations_def append_event_def del: upt_Suc)
qed

lemma built_head_valid:
  assumes b: "buildRevisionStreamAppend request = Inr b"
  shows "validateRevisionStreamHead (ap_streamID request) (bs_head b) = Inr ()
    \<and> hd_Revision (bs_head b) = ap_revision request \<and> hd_LastOccurredAt (bs_head b) = ap_occurredAt request"
proof -
  obtain previousRoot previousPeaks e peaks nodes proofRoot headValue where
    parts: "append_parts request b previousRoot previousPeaks e peaks nodes proofRoot headValue"
    using build_append_parts(2) [OF b] by blast
  have c: "continues_head request" using build_append_parts(1) [OF b] by (simp add: append_ok_def)
  have "ap_revision request \<noteq> 0" "canonical_peaks (ap_revision request - 1) previousPeaks"
    using previous_state_valid [OF c] parts by (auto simp: append_parts_def)
  then have "canonical_peaks (ap_revision request) peaks"
    using append_leaf_total [of "append_leaf request (append_content request previousRoot)" "ap_revision request" previousPeaks
      "ap_streamID request"] parts by (auto simp: append_parts_def)
  with parts \<open>ap_revision request \<noteq> 0\<close> show ?thesis
    by (auto simp: append_parts_def valid_head_iff append_head_def new_head_def Let_def length_root)
qed

section \<open>The abstract log\<close>

text \<open>
  The events of a stream, newest first: when each occurred and its payload. \<open>log_chain\<close> gives the
  content digests (newest first) and the head root after the last event.
\<close>

type_synonym stream_event = "int64 \<times> bytes"

definition revision_content :: "bytes list \<Rightarrow> nat \<Rightarrow> bytes" where
  "revision_content contents r = rev contents ! (r - 1)"

definition range_digest :: "bytes \<Rightarrow> (nat \<Rightarrow> bytes) \<Rightarrow> nat \<Rightarrow> bytes" where
  "range_digest sid c n = projr (calculateRevisionStreamMerkleRoot sid (of_nat n) (mountain_range sid c n))"

fun log_chain :: "bytes \<Rightarrow> stream_event list \<Rightarrow> bytes list \<times> bytes" where
  "log_chain sid [] = ([], revisionStreamZeroRoot)"
| "log_chain sid ((occurredAt, payload) # older) =
     (let (contents, previousRoot) = log_chain sid older; n = Suc (length older);
          content = calculateRevisionStreamContent sid previousRoot (of_nat n) occurredAt (sha256 payload);
          proofRoot = range_digest sid (revision_content (content # contents)) n
      in (content # contents, calculateRevisionStreamHeadRoot sid (of_nat n) occurredAt content proofRoot))"

definition log_head :: "bytes \<Rightarrow> stream_event list \<Rightarrow> RevisionStreamHead option" where
  "log_head sid log =
     (case log of
        [] \<Rightarrow> None
      | (occurredAt, _) # _ \<Rightarrow>
          (let (contents, root) = log_chain sid log; n = length log; c = revision_content contents
           in Some \<lparr>hd_Revision = of_nat n, hd_LastOccurredAt = occurredAt, hd_RootSHA256 = hex_encode root,
                hd_Proof = Some \<lparr>ph_Version = revisionStreamProofVersion, ph_LeafCount = of_nat n,
                  ph_RootSHA256 = hex_encode (range_digest sid c n), ph_LastContentSHA256 = hex_encode (hd contents),
                  ph_Peaks = mountain_range sid c n\<rparr>\<rparr>))"

lemma length_log_contents [simp]: "length (fst (log_chain sid log)) = length log"
  by (induction sid log rule: log_chain.induct) (auto simp: Let_def split: prod.splits)

lemma length_log_root [simp]: "length (snd (log_chain sid log)) = 32"
  by (cases "(sid, log)" rule: log_chain.cases) (auto simp: Let_def revisionStreamZeroRoot_def split: prod.splits)

lemma subtree_cong:
  "(\<And>r. 2 ^ h * i < r \<Longrightarrow> r \<le> 2 ^ h * (i + 1) \<Longrightarrow> c r = d r) \<Longrightarrow> subtree sid c h i = subtree sid d h i"
proof (induction h arbitrary: i)
  case (Suc h)
  have "subtree sid c h (2 * i) = subtree sid d h (2 * i)" "subtree sid c h (2 * i + 1) = subtree sid d h (2 * i + 1)"
    by (intro Suc.IH Suc.prems; simp add: algebra_simps)+
  then show ?case by simp
qed simp

lemma mountain_range_cong:
  assumes "\<And>r. 1 \<le> r \<Longrightarrow> r \<le> n \<Longrightarrow> c r = d r"
  shows "mountain_range sid c n = mountain_range sid d n"
  unfolding mountain_range_def
proof (rule map_cong [OF refl])
  fix h assume h: "h \<in> set (peak_heights n)"
  have "tree_start n h + 2 ^ h = 2 ^ h * (2 * (n div 2 ^ Suc h) + 1) + 1" by (simp add: tree_start_def algebra_simps)
  then have "2 ^ h * (2 * (n div 2 ^ Suc h) + 1) \<le> n" using peak_height_facts(3) [OF h] by linarith
  then have "subtree sid c h (2 * (n div 2 ^ Suc h)) = subtree sid d h (2 * (n div 2 ^ Suc h))"
    by (intro subtree_cong assms) auto
  then show "peak_at n (range_root sid c n) h = peak_at n (range_root sid d n) h"
    by (simp add: peak_at_def range_root_def)
qed

lemma mountain_range_extend:
  assumes "length contents = n" "n + 1 < 2 ^ 64"
  shows "appendRevisionStreamMerkleLeaf sid (mountain_range sid (revision_content contents) n) (of_nat (n + 1))
      (calculateRevisionStreamMerkleLeaf sid (of_nat (n + 1)) content)
    = Inr (mountain_range sid (revision_content (content # contents)) (n + 1), spine sid (revision_content (content # contents)) n)"
proof -
  have "mountain_range sid (revision_content contents) n = mountain_range sid (revision_content (content # contents)) n"
    using assms(1) by (intro mountain_range_cong) (auto simp: revision_content_def nth_append)
  moreover have "revision_content (content # contents) (n + 1) = content"
    using assms(1) by (simp add: revision_content_def nth_append)
  ultimately show ?thesis
    using append_mountain_range [OF assms(2), of sid "revision_content (content # contents)"] by simp
qed

lemma range_digest_root:
  "n < 2 ^ 64 \<Longrightarrow> calculateRevisionStreamMerkleRoot sid (of_nat n) (mountain_range sid c n) = Inr (range_digest sid c n)
     \<and> length (range_digest sid c n) = 32"
  unfolding range_digest_def using canonical_root [OF canonical_mountain_range] by (metis sum.sel(2))

lemma log_head_Cons:
  "log_head sid ((t, payload) # older) =
     (let contents = fst (log_chain sid ((t, payload) # older)); root = snd (log_chain sid ((t, payload) # older));
          n = Suc (length older); c = revision_content contents
      in Some \<lparr>hd_Revision = of_nat n, hd_LastOccurredAt = t, hd_RootSHA256 = hex_encode root,
                hd_Proof = Some \<lparr>ph_Version = revisionStreamProofVersion, ph_LeafCount = of_nat n,
                  ph_RootSHA256 = hex_encode (range_digest sid c n), ph_LastContentSHA256 = hex_encode (hd contents),
                  ph_Peaks = mountain_range sid c n\<rparr>\<rparr>)"
  by (simp add: log_head_def Let_def split: prod.splits)

lemma log_previous_state:
  assumes "length log < 2 ^ 64"
  obtains e where "previous_state (log_head sid log) = Inr (snd (log_chain sid log),
      mountain_range sid (revision_content (fst (log_chain sid log))) (length log), e)"
proof (cases log)
  case Nil
  have "filter (bit (0::nat)) xs = []" for xs by (induction xs) auto
  with Nil that show ?thesis by (simp add: log_head_def previous_state_def mountain_range_def peak_heights_def)
next
  case (Cons e older)
  with that show ?thesis
    by (cases e) (simp add: log_head_Cons Let_def previous_state_def encodeRevisionStreamHead_def del: log_chain.simps)
qed

lemma log_append_head:
  assumes head: "ap_expectedHead request = log_head (ap_streamID request) log" and n: "length log + 1 < 2 ^ 64"
    and build: "buildRevisionStreamAppend request = Inr b"
  shows "log_head (ap_streamID request) ((ap_occurredAt request, ap_payload request) # log) = Some (bs_head b)"
proof -
  let ?sid = "ap_streamID request" and ?n = "length log"
  let ?prev = "snd (log_chain ?sid log)" and ?cs = "fst (log_chain ?sid log)"
  have "continues_head request" using build_append_parts(1) [OF build] by (simp add: append_ok_def)
  then have r: "ap_revision request = of_nat (?n + 1)"
    using head uint64_successor [of "ap_revision request"]
    by (cases log) (auto simp: continues_head_def log_head_def Let_def split: prod.splits)
  obtain e where p: "previous_state (ap_expectedHead request) = Inr (?prev, mountain_range ?sid (revision_content ?cs) ?n, e)"
    using log_previous_state [of log ?sid] n head by auto
  let ?cs' = "append_content request ?prev # ?cs"
  obtain peaks nodes proofRoot where
    a: "appendRevisionStreamMerkleLeaf ?sid (mountain_range ?sid (revision_content ?cs) ?n) (ap_revision request)
          (append_leaf request (append_content request ?prev)) = Inr (peaks, nodes)"
    and root: "calculateRevisionStreamMerkleRoot ?sid (ap_revision request) peaks = Inr proofRoot"
    and h: "bs_head b = append_head request ?prev proofRoot peaks"
    using build_append_parts(2) [OF build] p by (auto simp: append_parts_def)
  have peaks: "peaks = mountain_range ?sid (revision_content ?cs') (?n + 1)"
    using a mountain_range_extend [of ?cs ?n ?sid "append_content request ?prev"] n by (simp add: r append_leaf_def)
  have "proofRoot = range_digest ?sid (revision_content ?cs') (?n + 1)"
    using root range_digest_root [OF n, of ?sid "revision_content ?cs'"] by (simp add: r peaks)
  then show ?thesis
    using h r peaks
    by (cases "log_chain ?sid log") (simp add: log_head_Cons Let_def append_head_def new_head_def append_content_def)
qed

lemma log_head_valid:
  assumes "log_head sid log = Some head" "length log < 2 ^ 64"
  shows "validateRevisionStreamHead sid head = Inr () \<and> hd_Revision head = of_nat (length log)
    \<and> hd_RootSHA256 head = hex_encode (snd (log_chain sid log)) \<and> hd_LastOccurredAt head = fst (hd log)"
proof -
  obtain t payload older where log: "log = (t, payload) # older" using assms(1) by (cases log) (auto simp: log_head_def)
  let ?n = "Suc (length older)"
  have n: "?n < 2 ^ 64" using assms(2) log by simp
  have nz: "(of_nat ?n :: uint64) \<noteq> 0" using unat_of_nat_uint64 [OF n] by (metis nat.simps(3) unat_0)
  obtain cs r where c: "log_chain sid older = (cs, r)" by fastforce
  show ?thesis
    using assms(1) range_digest_root [OF n] canonical_mountain_range [OF n] nz unfolding log log_head_Cons
    by (auto simp: Let_def c valid_head_iff simp del: of_nat_Suc)
qed

section \<open>The head root determines the log\<close>

lemma head_message_inject:
  "length c = length c' \<Longrightarrow> head_message sid r t c p = head_message sid r' t' c' p' \<longleftrightarrow> r = r' \<and> t = t' \<and> c = c' \<and> p = p'"
  by (auto simp: head_message_def hash_message_def)

lemma content_message_inject:
  "length p = length p' \<Longrightarrow>
   content_message sid p r t d = content_message sid p' r' t' d' \<longleftrightarrow> p = p' \<and> r = r' \<and> t = t' \<and> d = d'"
  by (auto simp: content_message_def hash_message_def)

text \<open>The messages hashed along the chain: for each event, newest first, the head, the content and the payload.\<close>

fun log_messages :: "bytes \<Rightarrow> stream_event list \<Rightarrow> bytes list" where
  "log_messages sid [] = []"
| "log_messages sid ((t, payload) # older) =
     (let (contents, previousRoot) = log_chain sid older; n = Suc (length older);
          content = calculateRevisionStreamContent sid previousRoot (of_nat n) t (sha256 payload)
      in [head_message sid (of_nat n) t content (range_digest sid (revision_content (content # contents)) n),
          content_message sid previousRoot (of_nat n) t (sha256 payload), payload] @ log_messages sid older)"

lemma equal_or_collision: "sha256 a = sha256 b \<Longrightarrow> a = b \<or> hash_collision (a, b)"
  by (simp add: hash_collision_def)

text \<open>One event: the root fixes the event and the root before it, unless one of its three messages collides.\<close>

lemma log_messages_step:
  assumes root: "snd (log_chain sid ((t1, p1) # o1)) = snd (log_chain sid ((t2, p2) # o2))"
    and len: "length o1 + 1 < 2 ^ 64" "length o2 + 1 < 2 ^ 64"
  shows "t1 = t2 \<and> p1 = p2 \<and> length o1 = length o2 \<and> snd (log_chain sid o1) = snd (log_chain sid o2)
    \<or> (\<exists>mm \<in> set (zip (log_messages sid ((t1, p1) # o1)) (log_messages sid ((t2, p2) # o2))). hash_collision mm)"
proof (rule disjCI)
  obtain cs1 r1 where c1: "log_chain sid o1 = (cs1, r1)" by fastforce
  obtain cs2 r2 where c2: "log_chain sid o2 = (cs2, r2)" by fastforce
  define m where "m r n t p = content_message sid r (of_nat (Suc n)) t (sha256 p)" for r n t p
  define h where "h cs r n t p = head_message sid (of_nat (Suc n)) t (sha256 (m r n t p))
    (range_digest sid (revision_content (sha256 (m r n t p) # cs)) (Suc n))" for cs r n t p
  let ?n1 = "length o1" and ?n2 = "length o2"
  assume "\<not> (\<exists>mm \<in> set (zip (log_messages sid ((t1, p1) # o1)) (log_messages sid ((t2, p2) # o2))). hash_collision mm)"
  then have nc: "\<not> hash_collision (h cs1 r1 ?n1 t1 p1, h cs2 r2 ?n2 t2 p2)"
    "\<not> hash_collision (m r1 ?n1 t1 p1, m r2 ?n2 t2 p2)" "\<not> hash_collision (p1, p2)"
    by (simp_all add: c1 c2 Let_def h_def m_def calculateRevisionStreamContent_def del: of_nat_Suc)
  have "sha256 (h cs1 r1 ?n1 t1 p1) = sha256 (h cs2 r2 ?n2 t2 p2)"
    using root by (simp add: c1 c2 Let_def h_def m_def calculateRevisionStreamHeadRoot_def
        calculateRevisionStreamContent_def del: of_nat_Suc)
  then have "h cs1 r1 ?n1 t1 p1 = h cs2 r2 ?n2 t2 p2" using equal_or_collision nc(1) by blast
  then have eq: "(of_nat (Suc ?n1) :: uint64) = of_nat (Suc ?n2)" "t1 = t2" "sha256 (m r1 ?n1 t1 p1) = sha256 (m r2 ?n2 t2 p2)"
    unfolding h_def by (subst (asm) head_message_inject; simp only: length_sha256)+
  have "unat (of_nat (Suc ?n1) :: uint64) = Suc ?n1" "unat (of_nat (Suc ?n2) :: uint64) = Suc ?n2"
    using len by (intro unat_of_nat_uint64; linarith)+
  with eq(1) have n: "?n1 = ?n2" by simp
  have "m r1 ?n1 t1 p1 = m r2 ?n2 t2 p2" using eq(3) equal_or_collision nc(2) by blast
  moreover have "length r1 = length r2" using length_log_root [of sid o1] length_log_root [of sid o2] by (simp add: c1 c2)
  ultimately have "r1 = r2" "sha256 p1 = sha256 p2" by (simp_all add: m_def content_message_inject del: of_nat_Suc)
  then show "t1 = t2 \<and> p1 = p2 \<and> ?n1 = ?n2 \<and> snd (log_chain sid o1) = snd (log_chain sid o2)"
    using eq(2) n equal_or_collision nc(3) c1 c2 by auto
qed

lemma zip_log_messages_Cons:
  "set (zip (log_messages sid o1) (log_messages sid o2))
     \<subseteq> set (zip (log_messages sid ((t1, p1) # o1)) (log_messages sid ((t2, p2) # o2)))"
  by (auto simp: Let_def split: prod.splits)

lemma root_determines_log:
  assumes "snd (log_chain sid l1) = snd (log_chain sid l2)" "l1 \<noteq> []" "l2 \<noteq> []" "length l1 < 2 ^ 64" "length l2 < 2 ^ 64"
  shows "l1 = l2 \<or> (\<exists>mm \<in> set (zip (log_messages sid l1) (log_messages sid l2)). hash_collision mm)"
  using assms
proof (induction l1 arbitrary: l2)
  case (Cons e1 o1)
  obtain t1 p1 where e1: "e1 = (t1, p1)" by fastforce
  obtain t2 p2 o2 where l2: "l2 = (t2, p2) # o2" using Cons.prems by (metis list.exhaust prod.exhaust)
  show ?case
  proof (cases "\<exists>mm \<in> set (zip (log_messages sid (e1 # o1)) (log_messages sid l2)). hash_collision mm")
    case no: False
    then have step: "t1 = t2" "p1 = p2" "length o1 = length o2" "snd (log_chain sid o1) = snd (log_chain sid o2)"
      using log_messages_step [of sid t1 p1 o1 t2 p2 o2] Cons.prems unfolding e1 l2 by (simp_all del: log_chain.simps log_messages.simps)
    have "o1 = o2"
    proof (cases "o1 = []")
      case False
      then have "o1 = o2 \<or> (\<exists>mm \<in> set (zip (log_messages sid o1) (log_messages sid o2)). hash_collision mm)"
        using Cons.IH [OF step(4)] Cons.prems(4,5) step(3) by (fastforce simp: l2)
      then show ?thesis using no zip_log_messages_Cons [of sid o1 o2 t1 p1 t2 p2] unfolding e1 l2 by blast
    qed (use step(3) in simp)
    with step show ?thesis by (simp add: e1 l2)
  qed blast
qed simp

section \<open>Properties\<close>

text \<open>
  C4: \<open>buildRevisionStreamAppend\<close> succeeds exactly on the requests \<open>append_ok\<close> describes: the identifiers
  and sizes within their bounds, the side items well formed with distinct keys and at most 4 MiB, and
  the request continuing a valid head (or being the first). No later step fails: the tree append, the
  digests and the encodings are total on such a request. The head it computes validates, is the next
  revision and carries the request's time.
\<close>

theorem append_build_succeeds_iff:
  "(\<exists>b. buildRevisionStreamAppend request = Inr b \<and> validateRevisionStreamHead (ap_streamID request) (bs_head b) = Inr ()
      \<and> hd_Revision (bs_head b) = ap_revision request \<and> hd_LastOccurredAt (bs_head b) = ap_occurredAt request)
    \<longleftrightarrow> append_ok request"
  (is "(\<exists>b. ?P b) \<longleftrightarrow> ?ok")
proof
  assume "\<exists>b. ?P b"
  then show ?ok using build_append_parts(1) by blast
next
  assume ok: ?ok
  then obtain b where b: "buildRevisionStreamAppend request = Inr b" using build_append_total by blast
  then show "\<exists>b. ?P b" using built_head_valid [OF b] by blast
qed

definition demo_append :: "RevisionStreamHead option \<Rightarrow> uint64 \<Rightarrow> RevisionStreamAppendRequest" where
  "demo_append head revision = \<lparr>ap_requestID = ''r1'', ap_namespace = ''ns'', ap_streamID = [1], ap_expectedHead = head,
     ap_revision = revision, ap_occurredAt = 6, ap_payload = [3], ap_sideConditions = [], ap_sideMutations = []\<rparr>"

lemma demo_append_ok: "continues_head (demo_append head revision) \<Longrightarrow> append_ok (demo_append head revision)"
  by (simp add: append_ok_def demo_append_def conditionalRequestIDPattern_def conditionalNamespacePattern_def class_pattern_def
      namespace_char_def is_lower_def is_upper_def is_digit_def maxRevisionStreamIDBytes_def maxRevisionStreamPayloadBytes_def
      maxRevisionStreamSideItems_def side_items_ok_def Let_def)

text \<open>
  C3: refinement. When the expected head of a request is the head of a log of events, the head that
  \<open>buildRevisionStreamAppend\<close> computes is the head of the log with the new event: the revision
  counter, the chained content digests, the mountain range over all of them and the head root.
\<close>

theorem append_refines_log:
  assumes "ap_expectedHead request = log_head (ap_streamID request) log" "length log + 1 < 2 ^ 64"
    "buildRevisionStreamAppend request = Inr b"
  shows "log_head (ap_streamID request) ((ap_occurredAt request, ap_payload request) # log) = Some (bs_head b)"
  by (rule log_append_head [OF assms])

theorem append_refines_log_witness:
  "\<exists>b. buildRevisionStreamAppend (demo_append (log_head [1] [(5, [2])]) 2) = Inr b
    \<and> log_head [1] [(6, [3]), (5, [2])] = Some (bs_head b)"
proof -
  let ?r = "demo_append (log_head [1] [(5, [2])]) 2"
  obtain h where h: "log_head [1] [(5, [2])] = Some h" by (simp add: log_head_Cons Let_def)
  have "continues_head ?r" using log_head_valid [OF h] by (simp add: continues_head_def demo_append_def h)
  then obtain b where b: "buildRevisionStreamAppend ?r = Inr b" using build_append_total demo_append_ok by blast
  have "ap_streamID ?r = [1]" "ap_expectedHead ?r = log_head [1] [(5, [2])]" "ap_occurredAt ?r = 6" "ap_payload ?r = [3]"
    by (simp_all add: demo_append_def)
  then show ?thesis using append_refines_log [of ?r "[(5, [2])]" b] b by (simp del: log_chain.simps)
qed

text \<open>
  C5: the head root determines the whole history. Two logs of a stream with the same head root are
  the same events in the same order, or two of the messages hashed at the same place of their chains
  are different with the same SHA-256 digest.
\<close>

theorem head_root_determines_log:
  assumes "log_head sid log1 = Some head1" "log_head sid log2 = Some head2" "hd_RootSHA256 head1 = hd_RootSHA256 head2"
    "length log1 < 2 ^ 64" "length log2 < 2 ^ 64"
  shows "log1 = log2 \<or> (\<exists>mm \<in> set (zip (log_messages sid log1) (log_messages sid log2)). hash_collision mm)"
proof (rule root_determines_log)
  show "snd (log_chain sid log1) = snd (log_chain sid log2)"
    using assms log_head_valid [OF assms(1,4)] log_head_valid [OF assms(2,5)] by simp
qed (use assms in \<open>auto simp: log_head_def\<close>)

theorem head_root_determines_log_witness:
  "[(5, [2])] = [(5 :: int64, [2 :: byte])]
    \<or> (\<exists>mm \<in> set (zip (log_messages [1] [(5, [2])]) (log_messages [1] [(5, [2])])). hash_collision mm)"
proof -
  obtain h where h: "log_head [1] [(5, [2])] = Some h" by (simp add: log_head_Cons Let_def)
  show ?thesis by (rule head_root_determines_log [OF h h]) simp_all
qed

end
