(* ===== verification/ReceiptEvidence.thy ===== *)
theory ReceiptEvidence
  imports ConditionalReceipt CommandDigest
begin

text \<open>
  What an accepted response proves. A reference semantics says what each mutation does to the value
  of its key (\<open>effect_matches\<close>) and when it must be refused (\<open>conflict_holds\<close>); \<open>evidence_ok\<close> says
  that a receipt is a correct account of running a request. Decoding a result or a receipt lookup
  only ever returns receipts with \<open>evidence_ok\<close>.
\<close>

section \<open>Signed addition\<close>




section \<open>Byte order\<close>

lemma compareBytes_eq: "compareBytes a b = 0 \<longleftrightarrow> a = b"
  by (induction a b rule: compareBytes.induct) auto

lemma compareBytes_swap: "compareBytes b a = - compareBytes a b"
  by (induction a b rule: compareBytes.induct) auto

lemma compareBytes_less: "compareBytes a b < 0 \<longleftrightarrow> (a, b) \<in> lexord {(x, y). x < y}"
  by (induction a b rule: compareBytes.induct) auto

section \<open>Reference semantics\<close>







section \<open>The loops of the validator\<close>












section \<open>Decoded receipts\<close>







section \<open>Quorum receipts\<close>


section \<open>Properties\<close>




















end
