(* ===== verification/RevisionReceipt.thy ===== *)
theory RevisionReceipt
  imports RevisionStream
begin

text \<open>
  The responses to an append: \<open>validateRevisionStreamTransactionReceipt\<close>, which checks the receipt of
  the transaction against the expected conditions and mutations, the decoding of heads, stream
  receipts, append results and receipt lookups (\<open>revision_stream.go\<close>).
\<close>

section \<open>The transaction receipt\<close>

fun validate_stream_conditions :: "nat \<Rightarrow> ConditionalTransactionObservation list
    \<Rightarrow> revisionStreamExpectedCondition list \<Rightarrow> unit result" where
  "validate_stream_conditions index (observation # observations) (expected # expecteds) =
     (case obs_Matched observation of
        None \<Rightarrow> Inl (ErrorString (''condition observation '' @ nat_str index @ '' differs from append request''))
      | Some matched \<Rightarrow>
          if obs_Index observation \<noteq> of_nat index \<or> obs_Keyspace observation \<noteq> ec_keyspace expected
             \<or> obs_Key observation \<noteq> ec_key expected
             \<or> obs_BeforeI64 observation \<noteq> None \<or> obs_AfterI64 observation \<noteq> None
             \<or> \<not> nullableBytesEqual (obs_Before observation) (obs_After observation)
          then Inl (ErrorString (''condition observation '' @ nat_str index @ '' differs from append request''))
          else if matched \<noteq> conditionalValueMatches (obs_Before observation) (ec_expected expected) (ec_operator expected)
          then Inl (ErrorString (''condition observation '' @ nat_str index @ '' contains false comparison evidence''))
          else validate_stream_conditions (Suc index) observations expecteds)"
| "validate_stream_conditions index observations expecteds = Inr ()"

text \<open>The numeric check of an applied increment, with the bounds as the code writes them.\<close>

definition delta_out_of_range :: "int64 \<Rightarrow> int64 \<Rightarrow> bool" where
  "delta_out_of_range before delta \<longleftrightarrow>
     (0 < sint delta \<and> 2 ^ 63 - 1 - sint delta < sint before)
     \<or> (sint delta < 0 \<and> sint before < - (2 ^ 63) - sint delta)"

definition validate_stream_applied :: "nat \<Rightarrow> ConditionalTransactionObservation
    \<Rightarrow> revisionStreamExpectedMutation \<Rightarrow> unit result" where
  "validate_stream_applied index observation expected =
     (if em_strictBefore expected \<and> \<not> nullableBytesEqual (obs_Before observation) (em_expectedBefore expected)
      then Inl (ErrorString (''internal mutation '' @ nat_str index @ '' has an impossible before value''))
      else case em_kind expected of
        conditionalPut \<Rightarrow>
          (if \<not> nullableBytesEqual (obs_After observation) (em_value expected)
           then Inl (ErrorString (''put mutation '' @ nat_str index @ '' has an incorrect after value''))
           else Inr ())
      | conditionalDelete \<Rightarrow>
          (if obs_After observation \<noteq> None
           then Inl (ErrorString (''delete mutation '' @ nat_str index @ '' has a present after value''))
           else Inr ())
      | conditionalIncrement \<Rightarrow>
          (case (obs_BeforeI64 observation, obs_AfterI64 observation) of
             (Some before, Some after) \<Rightarrow>
               (if \<not> bytesMatchI64 (obs_Before observation) before \<or> \<not> bytesMatchI64 (obs_After observation) after
                then Inl (ErrorString (''increment mutation '' @ nat_str index @ '' has invalid numeric evidence''))
                else if delta_out_of_range before (em_delta expected) \<or> after \<noteq> before + em_delta expected
                then Inl (ErrorString (''increment mutation '' @ nat_str index @ '' does not match requested delta''))
                else Inr ())
           | _ \<Rightarrow> Inl (ErrorString (''increment mutation '' @ nat_str index @ '' has invalid numeric evidence'')))
      | conditionalNone \<Rightarrow> Inl (ErrorString (''mutation '' @ nat_str index @ '' has an unknown kind'')))"

fun validate_stream_mutations :: "nat \<Rightarrow> string \<Rightarrow> ConditionalTransactionObservation list
    \<Rightarrow> revisionStreamExpectedMutation list \<Rightarrow> unit result" where
  "validate_stream_mutations index outcome (observation # observations) (expected # expecteds) =
     (if obs_Index observation \<noteq> of_nat index \<or> obs_Keyspace observation \<noteq> em_keyspace expected
         \<or> obs_Key observation \<noteq> em_key expected \<or> obs_Matched observation \<noteq> None
      then Inl (ErrorString (''mutation observation '' @ nat_str index @ '' differs from append request''))
      else if em_kind expected \<noteq> conditionalIncrement
              \<and> (obs_BeforeI64 observation \<noteq> None \<or> obs_AfterI64 observation \<noteq> None)
      then Inl (ErrorString (''non-increment mutation '' @ nat_str index @ '' contains i64 evidence''))
      else if outcome = ConditionalOutcomeConflict
      then (if \<not> nullableBytesEqual (obs_Before observation) (obs_After observation)
            then Inl (ErrorString (''rejected mutation '' @ nat_str index @ '' changed state''))
            else validate_stream_mutations (Suc index) outcome observations expecteds)
      else case validate_stream_applied index observation expected of
        Inl e \<Rightarrow> Inl e
      | Inr _ \<Rightarrow> validate_stream_mutations (Suc index) outcome observations expecteds)"
| "validate_stream_mutations index outcome observations expecteds = Inr ()"

text \<open>The counter conflict of a rejected append: it names a side increment, with its evidence.\<close>

definition validate_stream_conflict :: "ConditionalTransactionReceipt \<Rightarrow> builtRevisionStreamAppend \<Rightarrow> unit result" where
  "validate_stream_conflict receipt built =
     (case rc_Conflict receipt of
        None \<Rightarrow> Inr ()
      | Some conflict \<Rightarrow>
          if rc_Outcome receipt \<noteq> ConditionalOutcomeConflict \<or> cf_Kind conflict = ConditionalConflictConditionFailed
          then Inr ()
          else
            (let index = unat (cf_Index conflict)
             in if length (ap_sideMutations (bs_request built)) \<le> index
                   \<or> em_kind (bs_mutations built ! index) \<noteq> conditionalIncrement
                then Inl (ErrorString ''counter conflict does not identify a side increment'')
                else
                  (let observation = rc_Mutations receipt ! index; delta = em_delta (bs_mutations built ! index)
                   in if cf_Kind conflict = ConditionalConflictCounterInvalid then
                        (if obs_Before observation = None \<or> length (nullable_value (obs_Before observation)) = 8
                            \<or> obs_BeforeI64 observation \<noteq> None \<or> obs_AfterI64 observation \<noteq> None
                         then Inl (ErrorString ''counter-invalid conflict has false evidence'')
                         else Inr ())
                      else
                        (case (obs_BeforeI64 observation, obs_AfterI64 observation) of
                           (Some before, Some after) \<Rightarrow>
                             (if before \<noteq> after
                              then Inl (ErrorString ''counter range conflict has invalid evidence'')
                              else if \<not> snd (addInt64 before delta)
                                 \<or> (cf_Kind conflict = ConditionalConflictCounterOverflow) \<noteq> (0 < sint delta)
                                 \<or> (cf_Kind conflict = ConditionalConflictCounterUnderflow) \<noteq> (sint delta < 0)
                              then Inl (ErrorString ''counter range conflict does not match the requested delta'')
                              else Inr ())
                         | _ \<Rightarrow> Inl (ErrorString ''counter range conflict has invalid evidence'')))))"

definition validateRevisionStreamTransactionReceipt :: "ConditionalTransactionReceipt \<Rightarrow> builtRevisionStreamAppend
    \<Rightarrow> unit result" where
  "validateRevisionStreamTransactionReceipt receipt built =
     (if length (rc_Conditions receipt) \<noteq> length (bs_conditions built)
         \<or> length (rc_Mutations receipt) \<noteq> length (bs_mutations built)
      then Inl (ErrorString ''transaction receipt item counts differ from append request'')
      else case validate_stream_conditions 0 (rc_Conditions receipt) (bs_conditions built) of
        Inl e \<Rightarrow> Inl e
      | Inr _ \<Rightarrow>
          (case validate_stream_mutations 0 (rc_Outcome receipt) (rc_Mutations receipt) (bs_mutations built) of
             Inl e \<Rightarrow> Inl e
           | Inr _ \<Rightarrow> validate_stream_conflict receipt built))"

section \<open>Heads from the wire\<close>

record wireRevisionStreamMerklePeak =
  wp_Height :: uint8
  wp_StartRevision :: canonicalUint64
  wp_RootSHA256 :: string

definition wirePeak_decoder :: "wireRevisionStreamMerklePeak decoder" where
  "wirePeak_decoder = decode_struct [''height'', ''start_revision'', ''root_sha256'']
     (\<lambda>f. if f = ''height'' then field wp_Height wp_Height_update json_uint
          else if f = ''start_revision'' then field wp_StartRevision wp_StartRevision_update canonicalUint64_UnmarshalJSON
          else field wp_RootSHA256 wp_RootSHA256_update json_string)"

definition zero_wirePeak :: wireRevisionStreamMerklePeak where
  "zero_wirePeak = \<lparr>wp_Height = 0, wp_StartRevision = zero_canonicalUint64, wp_RootSHA256 = []\<rparr>"

record wireRevisionStreamProofHead =
  wph_Version :: uint16
  wph_LeafCount :: canonicalUint64
  wph_RootSHA256 :: string
  wph_LastContentSHA256 :: string
  wph_Peaks :: "wireRevisionStreamMerklePeak list option"

definition wireProofHead_decoder :: "wireRevisionStreamProofHead decoder" where
  "wireProofHead_decoder = decode_struct [''version'', ''leaf_count'', ''root_sha256'', ''last_content_sha256'', ''peaks'']
     (\<lambda>f. if f = ''version'' then field wph_Version wph_Version_update json_uint
          else if f = ''leaf_count'' then field wph_LeafCount wph_LeafCount_update canonicalUint64_UnmarshalJSON
          else if f = ''root_sha256'' then field wph_RootSHA256 wph_RootSHA256_update json_string
          else if f = ''last_content_sha256'' then field wph_LastContentSHA256 wph_LastContentSHA256_update json_string
          else field wph_Peaks wph_Peaks_update (json_slice zero_wirePeak wirePeak_decoder))"

definition zero_wireProofHead :: wireRevisionStreamProofHead where
  "zero_wireProofHead = \<lparr>wph_Version = 0, wph_LeafCount = zero_canonicalUint64, wph_RootSHA256 = [],
     wph_LastContentSHA256 = [], wph_Peaks = None\<rparr>"

record wireRevisionStreamHead =
  wh_Revision :: canonicalUint64
  wh_LastOccurredAt :: canonicalInt64
  wh_RootSHA256 :: string
  wh_Proof :: "wireRevisionStreamProofHead option"

definition wireHead_decoder :: "wireRevisionStreamHead decoder" where
  "wireHead_decoder = decode_struct [''revision'', ''last_occurred_at'', ''root_sha256'', ''proof'']
     (\<lambda>f. if f = ''revision'' then field wh_Revision wh_Revision_update canonicalUint64_UnmarshalJSON
          else if f = ''last_occurred_at'' then field wh_LastOccurredAt wh_LastOccurredAt_update canonicalInt64_UnmarshalJSON
          else if f = ''root_sha256'' then field wh_RootSHA256 wh_RootSHA256_update json_string
          else field wh_Proof wh_Proof_update (json_ptr zero_wireProofHead wireProofHead_decoder))"

definition zero_wireHead :: wireRevisionStreamHead where
  "zero_wireHead = \<lparr>wh_Revision = zero_canonicalUint64, wh_LastOccurredAt = zero_canonicalInt64, wh_RootSHA256 = [],
     wh_Proof = None\<rparr>"

definition decodeWireRevisionStreamHead :: "bytes \<Rightarrow> wireRevisionStreamHead \<Rightarrow> RevisionStreamHead result" where
  "decodeWireRevisionStreamHead streamID wire =
     (if \<not> cu_Present (wh_Revision wire) \<or> \<not> ci_Present (wh_LastOccurredAt wire)
      then stream_failure ''decode revision stream head'' ''head omitted canonical integer fields''
      else case wh_Proof wire of
        None \<Rightarrow> stream_failure ''decode revision stream head'' ''v2 head omitted proof fields''
      | Some proof \<Rightarrow>
          (case wph_Peaks proof of
             None \<Rightarrow> stream_failure ''decode revision stream head'' ''v2 head omitted proof fields''
           | Some wirePeaks \<Rightarrow>
               if \<not> cu_Present (wph_LeafCount proof)
               then stream_failure ''decode revision stream head'' ''v2 head omitted proof fields''
               else if list_ex (\<lambda>peak. \<not> cu_Present (wp_StartRevision peak)) wirePeaks
               then stream_failure ''decode revision stream head'' ''proof peak omitted canonical start revision''
               else
                 (let head = \<lparr>hd_Revision = cu_Value (wh_Revision wire), hd_LastOccurredAt = ci_Value (wh_LastOccurredAt wire),
                        hd_RootSHA256 = wh_RootSHA256 wire,
                        hd_Proof = Some \<lparr>ph_Version = wph_Version proof, ph_LeafCount = cu_Value (wph_LeafCount proof),
                          ph_RootSHA256 = wph_RootSHA256 proof, ph_LastContentSHA256 = wph_LastContentSHA256 proof,
                          ph_Peaks = map (\<lambda>peak. \<lparr>peak_Height = wp_Height peak,
                            peak_StartRevision = cu_Value (wp_StartRevision peak),
                            peak_RootSHA256 = wp_RootSHA256 peak\<rparr>) wirePeaks\<rparr>\<rparr>
                  in case validateRevisionStreamHead streamID head of
                    Inl err \<Rightarrow> Inl (revisionStreamProtocolError ''decode revision stream head'' err)
                  | Inr _ \<Rightarrow> Inr head)))"

section \<open>Stream receipts, results and lookups\<close>

record RevisionStreamReceipt =
  sr_Version :: uint16
  sr_StreamID :: bytes
  sr_Head :: RevisionStreamHead
  sr_PayloadSHA256 :: string

record wireRevisionStreamReceipt =
  wsr_Version :: uint16
  wsr_StreamID :: wireBytes
  wsr_Head :: wireRevisionStreamHead
  wsr_PayloadSHA256 :: string

definition wireStreamReceipt_decoder :: "wireRevisionStreamReceipt decoder" where
  "wireStreamReceipt_decoder = decode_struct [''version'', ''stream_id'', ''head'', ''payload_sha256'']
     (\<lambda>f. if f = ''version'' then field wsr_Version wsr_Version_update json_uint
          else if f = ''stream_id'' then field wsr_StreamID wsr_StreamID_update wireBytes_UnmarshalJSON
          else if f = ''head'' then field wsr_Head wsr_Head_update wireHead_decoder
          else field wsr_PayloadSHA256 wsr_PayloadSHA256_update json_string)"

definition zero_wireStreamReceipt :: wireRevisionStreamReceipt where
  "zero_wireStreamReceipt = \<lparr>wsr_Version = 0, wsr_StreamID = zero_wireBytes, wsr_Head = zero_wireHead,
     wsr_PayloadSHA256 = []\<rparr>"

definition decodeRevisionStreamReceipt :: "json \<Rightarrow> builtRevisionStreamAppend \<Rightarrow> RevisionStreamReceipt result" where
  "decodeRevisionStreamReceipt data built =
     (case decodeStrictRaw wireStreamReceipt_decoder zero_wireStreamReceipt data of
        Inl err \<Rightarrow> Inl (revisionStreamProtocolError ''decode revision stream receipt'' err)
      | Inr wire \<Rightarrow>
          (case decodeWireRevisionStreamHead (ap_streamID (bs_request built)) (wsr_Head wire) of
             Inl err \<Rightarrow> Inl err
           | Inr head \<Rightarrow>
               if wsr_Version wire \<noteq> revisionStreamVersion
                  \<or> \<not> wb_Present (wsr_StreamID wire) \<or> wb_Null (wsr_StreamID wire)
                  \<or> wb_Value (wsr_StreamID wire) \<noteq> ap_streamID (bs_request built)
                  \<or> \<not> revisionStreamHeadsEqual head (bs_head built)
                  \<or> wsr_PayloadSHA256 wire \<noteq> bs_payloadSHA built
               then stream_failure ''decode revision stream receipt'' ''stream receipt differs from the exact append request''
               else Inr \<lparr>sr_Version = wsr_Version wire, sr_StreamID = wb_Value (wsr_StreamID wire), sr_Head = head,
                         sr_PayloadSHA256 = wsr_PayloadSHA256 wire\<rparr>))"

record RevisionStreamAppendResult =
  ar_Result :: string
  ar_OriginalResult :: string
  ar_Applied :: bool
  ar_Rejected :: bool
  ar_Duplicate :: bool
  ar_Revision :: uint64
  ar_TransactionReceipt :: ConditionalTransactionReceipt
  ar_StreamReceipt :: "RevisionStreamReceipt option"
  ar_QuorumReceipt :: "ConditionalQuorumReceipt option"

record RevisionStreamAppendReceiptLookup =
  al_Status :: string
  al_RequestID :: string
  al_Revision :: "uint64 option"
  al_TransactionReceipt :: "ConditionalTransactionReceipt option"
  al_StreamReceipt :: "RevisionStreamReceipt option"
  al_QuorumReceipt :: "ConditionalQuorumReceipt option"

record wireRevisionStreamAppendResult =
  war_Result :: string
  war_OriginalResult :: string
  war_Applied :: "bool option"
  war_Duplicate :: "bool option"
  war_Revision :: canonicalUint64
  war_Receipt :: raw_message
  war_StreamReceipt :: raw_message
  war_QuorumReceipt :: raw_message

definition wireAppendResult_decoder :: "wireRevisionStreamAppendResult decoder" where
  "wireAppendResult_decoder = decode_struct
     [''result'', ''original_result'', ''applied'', ''duplicate'', ''revision'', ''receipt'', ''stream_receipt'', ''quorum_receipt'']
     (\<lambda>f. if f = ''result'' then field war_Result war_Result_update json_string
          else if f = ''original_result'' then field war_OriginalResult war_OriginalResult_update json_string
          else if f = ''applied'' then field war_Applied war_Applied_update (json_ptr False json_bool)
          else if f = ''duplicate'' then field war_Duplicate war_Duplicate_update (json_ptr False json_bool)
          else if f = ''revision'' then field war_Revision war_Revision_update canonicalUint64_UnmarshalJSON
          else if f = ''receipt'' then field war_Receipt war_Receipt_update json_raw
          else if f = ''stream_receipt'' then field war_StreamReceipt war_StreamReceipt_update json_raw
          else field war_QuorumReceipt war_QuorumReceipt_update json_raw)"

definition zero_wireAppendResult :: wireRevisionStreamAppendResult where
  "zero_wireAppendResult = \<lparr>war_Result = [], war_OriginalResult = [], war_Applied = None, war_Duplicate = None,
     war_Revision = zero_canonicalUint64, war_Receipt = None, war_StreamReceipt = None, war_QuorumReceipt = None\<rparr>"

text \<open>The stream receipt: required when the append was applied, refused when it was rejected.\<close>

definition decode_applied_stream_receipt :: "string \<Rightarrow> string \<Rightarrow> string \<Rightarrow> string \<Rightarrow> raw_message
    \<Rightarrow> builtRevisionStreamAppend \<Rightarrow> RevisionStreamReceipt option result" where
  "decode_applied_stream_receipt operation outcome omitted included data built =
     (if outcome = ConditionalOutcomeApplied then
        (case data of
           None \<Rightarrow> stream_failure operation omitted
         | Some raw \<Rightarrow>
             if raw = JNull then stream_failure operation omitted
             else case decodeRevisionStreamReceipt raw built of
               Inl err \<Rightarrow> Inl err
             | Inr decoded \<Rightarrow> Inr (Some decoded))
      else if data \<noteq> None then stream_failure operation included
      else Inr None)"

definition decodeRevisionStreamAppendResult :: "json \<Rightarrow> builtRevisionStreamAppend \<Rightarrow> RevisionStreamAppendResult result" where
  "decodeRevisionStreamAppendResult data built =
     (case decodeStrictRaw wireAppendResult_decoder zero_wireAppendResult data of
        Inl err \<Rightarrow> Inl (revisionStreamProtocolError ''decode revision stream append'' err)
      | Inr wire \<Rightarrow>
     (case (war_Applied wire, war_Duplicate wire, war_Receipt wire) of
        (Some applied, Some duplicate, Some receiptRaw) \<Rightarrow>
          (if \<not> cu_Present (war_Revision wire) \<or> receiptRaw = JNull
           then stream_failure ''decode revision stream append'' ''required result fields are missing''
           else case decodeConditionalReceiptWithLimit receiptRaw (ap_requestID (bs_request built)) maxNativeJSONResultBytes True of
             Inl err \<Rightarrow> Inl err
           | Inr (receiptWire, receipt) \<Rightarrow>
               if cu_Value (war_Revision wire) \<noteq> rc_Revision receipt \<or> rc_CommandSHA256 receipt \<noteq> bs_commandSHA built
               then stream_failure ''decode revision stream append'' ''top-level revision or command hash differs from request/receipt''
               else if (war_Result wire \<noteq> ConditionalResultApplied \<and> war_Result wire \<noteq> ConditionalResultDuplicate
                        \<and> war_Result wire \<noteq> ConditionalResultConflict)
                       \<or> (war_OriginalResult wire \<noteq> ConditionalOutcomeApplied \<and> war_OriginalResult wire \<noteq> ConditionalOutcomeConflict)
               then stream_failure ''decode revision stream append'' ''unknown result enum''
               else if war_OriginalResult wire \<noteq> rc_Outcome receipt
                       \<or> applied \<noteq> (war_OriginalResult wire = ConditionalOutcomeApplied)
                       \<or> duplicate \<noteq> (war_Result wire = ConditionalResultDuplicate)
                       \<or> (\<not> duplicate \<and> war_Result wire \<noteq> war_OriginalResult wire)
               then stream_failure ''decode revision stream append'' ''result convenience fields are inconsistent''
               else case validateRevisionStreamTransactionReceipt receipt built of
                 Inl err \<Rightarrow> Inl (revisionStreamProtocolError ''decode revision stream append'' err)
               | Inr _ \<Rightarrow>
                   (case decode_applied_stream_receipt ''decode revision stream append'' (war_OriginalResult wire)
                           ''applied result omitted stream receipt'' ''rejected result included stream receipt''
                           (war_StreamReceipt wire) built of
                      Inl err \<Rightarrow> Inl err
                    | Inr streamReceipt \<Rightarrow>
                        (case decodeOptionalQuorumReceipt (war_QuorumReceipt wire) (ap_requestID (bs_request built))
                                (bs_commandSHA built) (Some receiptWire) (rc_Revision receipt) of
                           Inl err \<Rightarrow> Inl err
                         | Inr quorum \<Rightarrow>
                             Inr \<lparr>ar_Result = war_Result wire, ar_OriginalResult = war_OriginalResult wire,
                                  ar_Applied = applied, ar_Rejected = (\<not> applied), ar_Duplicate = duplicate,
                                  ar_Revision = cu_Value (war_Revision wire), ar_TransactionReceipt = receipt,
                                  ar_StreamReceipt = streamReceipt, ar_QuorumReceipt = quorum\<rparr>)))
      | _ \<Rightarrow> stream_failure ''decode revision stream append'' ''required result fields are missing''))"

definition decodeRevisionStreamAppendReceiptLookup :: "json \<Rightarrow> builtRevisionStreamAppend
    \<Rightarrow> RevisionStreamAppendReceiptLookup result" where
  "decodeRevisionStreamAppendReceiptLookup data built =
     (case decodeStrictRaw wireConditionalLookup_decoder zero_wireLookup data of
        Inl err \<Rightarrow> Inl (revisionStreamProtocolError ''decode revision stream receipt lookup'' err)
      | Inr wire \<Rightarrow>
          if wlk_RequestID wire \<noteq> ap_requestID (bs_request built)
          then stream_failure ''decode revision stream receipt lookup'' ''request ID mismatch''
          else if wlk_Result wire = ConditionalReceiptIndeterminate then
            (if cu_Present (wlk_Revision wire) \<or> wlk_Receipt wire \<noteq> None \<or> wlk_StreamReceipt wire \<noteq> None
             then stream_failure ''decode revision stream receipt lookup'' ''indeterminate lookup included a transaction receipt''
             else case decodeOptionalQuorumReceipt (wlk_QuorumReceipt wire) (ap_requestID (bs_request built))
                         (bs_commandSHA built) None 0 of
               Inl err \<Rightarrow> Inl err
             | Inr None \<Rightarrow> stream_failure ''decode revision stream receipt lookup'' ''indeterminate lookup omitted quorum receipt''
             | Inr (Some quorum) \<Rightarrow>
                 if q_ResultSHA256 quorum \<noteq> None \<or> q_Stage quorum = QuorumReceiptApplied
                 then stream_failure ''decode revision stream receipt lookup'' ''indeterminate lookup contains an applied result''
                 else Inr \<lparr>al_Status = ConditionalReceiptIndeterminate, al_RequestID = ap_requestID (bs_request built),
                           al_Revision = None, al_TransactionReceipt = None, al_StreamReceipt = None,
                           al_QuorumReceipt = Some quorum\<rparr>)
          else if wlk_Result wire = ConditionalReceiptFound then
            (case wlk_Receipt wire of
               None \<Rightarrow> stream_failure ''decode revision stream receipt lookup'' ''found lookup omitted receipt or revision''
             | Some receiptRaw \<Rightarrow>
                 if \<not> cu_Present (wlk_Revision wire) \<or> receiptRaw = JNull
                 then stream_failure ''decode revision stream receipt lookup'' ''found lookup omitted receipt or revision''
                 else case decodeConditionalReceiptWithLimit receiptRaw (ap_requestID (bs_request built)) maxNativeJSONResultBytes True of
                   Inl err \<Rightarrow> Inl err
                 | Inr (receiptWire, receipt) \<Rightarrow>
                     if cu_Value (wlk_Revision wire) \<noteq> rc_Revision receipt \<or> rc_CommandSHA256 receipt \<noteq> bs_commandSHA built
                     then stream_failure ''decode revision stream receipt lookup'' ''receipt identity differs from exact append request''
                     else case validateRevisionStreamTransactionReceipt receipt built of
                       Inl err \<Rightarrow> Inl (revisionStreamProtocolError ''decode revision stream receipt lookup'' err)
                     | Inr _ \<Rightarrow>
                         (case decode_applied_stream_receipt ''decode revision stream receipt lookup'' (rc_Outcome receipt)
                                 ''applied lookup omitted stream receipt'' ''conflict lookup included stream receipt''
                                 (wlk_StreamReceipt wire) built of
                            Inl err \<Rightarrow> Inl err
                          | Inr streamReceipt \<Rightarrow>
                              (case decodeOptionalQuorumReceipt (wlk_QuorumReceipt wire) (ap_requestID (bs_request built))
                                      (bs_commandSHA built) (Some receiptWire) (rc_Revision receipt) of
                                 Inl err \<Rightarrow> Inl err
                               | Inr quorum \<Rightarrow>
                                   Inr \<lparr>al_Status = ConditionalReceiptFound, al_RequestID = ap_requestID (bs_request built),
                                        al_Revision = Some (rc_Revision receipt), al_TransactionReceipt = Some receipt,
                                        al_StreamReceipt = streamReceipt, al_QuorumReceipt = quorum\<rparr>)))
          else stream_failure ''decode revision stream receipt lookup'' (''unknown lookup result '' @ quoted (wlk_Result wire)))"

end
