(* ===== verification/RevisionEvidence.thy ===== *)
theory RevisionEvidence
  imports RevisionKeys RevisionReceipt
begin

text \<open>
  What an accepted receipt of an append shows. The transaction is a compare-and-swap of the stored
  head: when it was applied, the store held the encoding of the expected head and now holds the
  encoding of the new one, and the event, the time index entry and the tree nodes were absent before.
\<close>

section \<open>Effects of the expected mutations\<close>


definition stream_condition :: "revisionStreamExpectedCondition \<Rightarrow> ConditionalTransactionObservation \<Rightarrow> bool" where
  "stream_condition c o' \<longleftrightarrow> obs_Keyspace o' = ec_keyspace c \<and> obs_Key o' = ec_key c
     \<and> obs_Matched o' = Some (conditionalValueMatches (obs_Before o') (ec_expected c) (ec_operator c))"

lemma stream_conditions_evidence:
  "length os = length cs \<Longrightarrow> validate_stream_conditions i os cs = Inr () \<Longrightarrow> list_all2 stream_condition cs os"
  by (induction i os cs rule: validate_stream_conditions.induct)
    (auto simp: stream_condition_def split: option.splits if_splits)






section \<open>The honest receipt\<close>









section \<open>Properties\<close>



end
