(* ===== verification/Database.thy ===== *)
theory Database
  imports JsonRoundtrip
begin

text \<open>
  The embedded database handle, \<open>talon.go\<close>: the \<open>DB\<close> with its native handle, the capability gates
  (\<open>RequireCapability\<close>), the generic command path (\<open>execute\<close>, \<open>decodeCommandResult\<close>), \<open>Persist\<close> and
  \<open>Close\<close>. The native library is not part of the repository: a native function is an argument of the
  definitions that call it, from the state behind the handle to that state after the call and a reply.
\<close>

section \<open>Identity and capabilities\<close>

record NativeCapabilityLimits =
  MaxConditions :: uint64
  MaxMutations :: uint64
  MaxKeyBytes :: uint64
  MaxReceiptBytes :: uint64
  ServerHTTPMaxRequestBytes :: uint64
  AllowedConditionOperators :: "string list"
  ReceiptAuthentication :: string

text \<open>A Go \<open>int\<close> holds the version.\<close>

record NativeCapability =
  cap_Name :: string
  cap_Version :: int
  cap_Status :: string
  cap_Reason :: "string option"
  cap_Limits :: "NativeCapabilityLimits option"

record CapabilityGate =
  gate_Status :: string
  gate_Reason :: string

record NativeInfo =
  Admission :: string
  CoreGitDirty :: bool
  BuildProfile :: string
  BuildProfileSource :: string
  DevelopmentLibraryPath :: string
  DevelopmentHeaderPath :: string
  DevelopmentManifestPath :: string
  DevelopmentManifestSHA256 :: string
  Platform :: string
  ReleaseTag :: string
  TalonBinCommit :: string
  CoreRepository :: string
  CoreTag :: string
  CoreCommit :: string
  CoreVersion :: string
  ABIProfile :: string
  ABIVersion :: int
  HeaderSHA256 :: string
  LibrarySHA256 :: string
  KeyID :: string
  KeySHA256 :: string
  Features :: "string list"
  Capabilities :: "NativeCapability list"
  Gates :: "string \<rightharpoonup> CapabilityGate"

text \<open>The handle is nil after \<open>Close\<close>; otherwise it stands for the state the library keeps behind it.\<close>

record 'h DB =
  db_handle :: "'h option"
  db_nativeInfo :: NativeInfo
  db_nativePolicyHash :: bytes

text \<open>A native call: an error code string when the return code is not zero, or an output pointer.\<close>

datatype 'a native_reply = NativeFailed string | NativeOutput "'a option"

definition nativeFailure :: "string \<Rightarrow> string \<Rightarrow> string \<Rightarrow> go_error" where
  "nativeFailure operation fallback nativeCode = newNativeError operation fallback nativeCode"

section \<open>Capability gates\<close>

definition ErrStorageConditionalBatchUnavailable :: go_error where
  "ErrStorageConditionalBatchUnavailable = newError CodeCapabilityUnavailable ''storage conditional batch''
     ''storage_conditional_batch_v1 is not implemented by this SDK/Core ABI'' None"

definition ErrStableNativeErrorCodesUnavailable :: go_error where
  "ErrStableNativeErrorCodesUnavailable = newError CodeCapabilityUnavailable ''native error classification''
     ''the loaded Core bundle does not attest stable machine-readable error codes'' None"

definition capability_unavailable :: "string \<Rightarrow> 'a result" where
  "capability_unavailable message = Inl (newError CodeCapabilityUnavailable ''require capability'' message None)"

definition findNativeCapability :: "NativeCapability list \<Rightarrow> string \<Rightarrow> int \<Rightarrow> NativeCapability option" where
  "findNativeCapability capabilities name version = find (\<lambda>c. cap_Name c = name \<and> cap_Version c = version) capabilities"

definition reason_suffix :: "string option \<Rightarrow> string" where
  "reason_suffix reason = (case reason of None \<Rightarrow> [] | Some r \<Rightarrow> '': '' @ r)"

definition requireConditionalSnapshotReadVersion :: "NativeInfo \<Rightarrow> uint16 \<Rightarrow> unit result" where
  "requireConditionalSnapshotReadVersion info version =
     (if version \<noteq> 1 \<and> version \<noteq> 2
      then capability_unavailable (''conditional snapshot-read version '' @ nat_str (unat version) @ '' is not implemented by this SDK'')
      else case findNativeCapability (Capabilities info) ''storage_conditional_snapshot_read'' (uint version) of
        None \<Rightarrow> capability_unavailable (''loaded Core did not attest capability '' @ quoted ''storage_conditional_snapshot_read''
                  @ '' version '' @ nat_str (unat version))
      | Some capability \<Rightarrow>
          if cap_Status capability \<noteq> ''available''
          then capability_unavailable (''storage_conditional_snapshot_read v'' @ nat_str (unat version) @ '' is ''
                 @ cap_Status capability @ reason_suffix (cap_Reason capability))
          else
            (let feature = ''storage_conditional_snapshot_read_v'' @ nat_str (unat version)
             in if feature \<notin> set (Features info)
                then capability_unavailable (''loaded Core omitted feature '' @ quoted feature)
                else Inr ()))"

text \<open>The last checks of \<open>RequireCapability\<close>: the version and the features an implemented capability needs.\<close>

definition capability_implemented :: "string \<Rightarrow> int \<Rightarrow> string list \<Rightarrow> bool" where
  "capability_implemented name version features \<longleftrightarrow>
     (name = ''native_conditional_transaction_v2'' \<and> name \<in> set features
        \<and> ''conditional_transaction_command_digest_v1'' \<in> set features)
     \<or> (name = ''native_sql_context'' \<and> version = 1 \<and> ''native_sql_context_v1'' \<in> set features)
     \<or> (name = ''native_sql_session'' \<and> version = 1 \<and> ''native_sql_session_v1'' \<in> set features)
     \<or> (name = ''native_shared_core'' \<and> version = 1 \<and> ''native_shared_core_v1'' \<in> set features)
     \<or> (name = ''native_sql_result'' \<and> version = 2 \<and> ''native_sql_result_v2'' \<in> set features)
     \<or> (name = ''native_kv_read'' \<and> version = 1 \<and> ''native_kv_read_v1'' \<in> set features)
     \<or> (name = ''storage_conditional_point_read'' \<and> version = 1 \<and> ''storage_conditional_point_read_v1'' \<in> set features)
     \<or> (name = ''revision_stream'' \<and> version = 2 \<and> ''revision_stream_v1'' \<in> set features
        \<and> ''revision_stream_v2_mmr_proof'' \<in> set features)"

definition require_attested :: "NativeInfo \<Rightarrow> string \<Rightarrow> unit result" where
  "require_attested info name =
     (if name = ''storage_conditional_batch_v1'' then Inl ErrStorageConditionalBatchUnavailable
      else if name = ''storage_conditional_snapshot_read_v2'' then requireConditionalSnapshotReadVersion info 2
      else if name = ''storage_conditional_snapshot_read'' then requireConditionalSnapshotReadVersion info 1
      else case find (\<lambda>c. cap_Name c = name) (Capabilities info) of
        None \<Rightarrow> capability_unavailable (''loaded Core did not attest capability '' @ quoted name)
      | Some coreCapability \<Rightarrow>
          if cap_Status coreCapability \<noteq> ''available''
          then capability_unavailable (name @ '' is '' @ cap_Status coreCapability @ reason_suffix (cap_Reason coreCapability))
          else if capability_implemented name (cap_Version coreCapability) (Features info) then Inr ()
          else capability_unavailable (''capability '' @ quoted name @ '' is not implemented by this SDK''))"

definition RequireCapability :: "NativeInfo \<Rightarrow> string \<Rightarrow> unit result" where
  "RequireCapability info name =
     (case Gates info name of
        Some gate \<Rightarrow>
          if gate_Status gate \<noteq> ''available''
          then capability_unavailable (name @ '' is '' @ gate_Status gate @ '': '' @ gate_Reason gate)
          else require_attested info name
      | None \<Rightarrow> require_attested info name)"

definition RequireStableNativeErrorCodes :: "NativeInfo \<Rightarrow> unit result" where
  "RequireStableNativeErrorCodes info =
     (if ''native_error_codes_v1'' \<in> set (Features info) then Inr () else Inl ErrStableNativeErrorCodesUnavailable)"

section \<open>The lifetime of a handle\<close>

text \<open>\<open>Close\<close>: the library's own \<open>talon_close\<close> ends the state behind the handle.\<close>

definition Close :: "'h DB \<Rightarrow> 'h DB" where
  "Close db = db\<lparr>db_handle := None\<rparr>"

definition closed_error :: "string \<Rightarrow> 'a result" where
  "closed_error operation = Inl (newError CodeDatabaseClosed operation ''database is closed'' None)"

definition Persist :: "('h \<Rightarrow> 'h \<times> unit native_reply) \<Rightarrow> 'h DB \<Rightarrow> 'h DB \<times> unit result" where
  "Persist talon_persist db =
     (case db_handle db of
        None \<Rightarrow> (db, closed_error ''persist'')
      | Some handle \<Rightarrow>
          (case talon_persist handle of
             (handle', NativeFailed code) \<Rightarrow>
               (db\<lparr>db_handle := Some handle'\<rparr>, Inl (nativeFailure ''persist'' ''native persist failed'' code))
           | (handle', NativeOutput _) \<Rightarrow> (db\<lparr>db_handle := Some handle'\<rparr>, Inr ())))"

definition CheckedNativeInfo :: "'h DB \<Rightarrow> NativeInfo result" where
  "CheckedNativeInfo db =
     (case db_handle db of None \<Rightarrow> closed_error ''native identity'' | Some _ \<Rightarrow> Inr (db_nativeInfo db))"

section \<open>Commands\<close>

record cmdResult =
  cmd_OK :: "bool option"
  cmd_Data :: raw_message
  cmd_Code :: string
  cmd_Error :: string
  cmd_Term :: "uint64 option"
  cmd_LeaderHint :: raw_message

definition cmdResult_decoder :: "cmdResult decoder" where
  "cmdResult_decoder = decode_struct [''ok'', ''data'', ''code'', ''error'', ''term'', ''leader_hint'']
     (\<lambda>f. if f = ''ok'' then field cmd_OK cmd_OK_update (json_ptr False json_bool)
          else if f = ''data'' then field cmd_Data cmd_Data_update json_raw
          else if f = ''code'' then field cmd_Code cmd_Code_update json_string
          else if f = ''error'' then field cmd_Error cmd_Error_update json_string
          else if f = ''term'' then field cmd_Term cmd_Term_update (json_ptr 0 json_uint)
          else field cmd_LeaderHint cmd_LeaderHint_update json_raw)"

definition zero_cmdResult :: cmdResult where
  "zero_cmdResult = \<lparr>cmd_OK = None, cmd_Data = None, cmd_Code = [], cmd_Error = [], cmd_Term = None, cmd_LeaderHint = None\<rparr>"

text \<open>\<open>strings.TrimSpace(s) == ""\<close>: nothing but the white space of Unicode, in UTF-8.\<close>

fun blank :: "string \<Rightarrow> bool" where
  "blank [] = True"
| "blank (c # s) =
     (if c \<in> {CHR 0x20, CHR 0x09, CHR 0x0A, CHR 0x0B, CHR 0x0C, CHR 0x0D} then blank s
      else case s of
        [] \<Rightarrow> False
      | c1 # s1 \<Rightarrow>
          if c = CHR 0xC2 then c1 \<in> {CHR 0x85, CHR 0xA0} \<and> blank s1
          else case s1 of
            [] \<Rightarrow> False
          | c2 # s2 \<Rightarrow>
              ((c, c1, c2) \<in> {(CHR 0xE1, CHR 0x9A, CHR 0x80), (CHR 0xE2, CHR 0x80, CHR 0xA8), (CHR 0xE2, CHR 0x80, CHR 0xA9),
                 (CHR 0xE2, CHR 0x80, CHR 0xAF), (CHR 0xE2, CHR 0x81, CHR 0x9F), (CHR 0xE3, CHR 0x80, CHR 0x80)}
               \<or> c = CHR 0xE2 \<and> c1 = CHR 0x80 \<and> 0x80 \<le> (of_char c2 :: nat) \<and> (of_char c2 :: nat) \<le> 0x8A) \<and> blank s2)"

definition leaderHint_decoder :: "NativeLeaderHint decoder" where
  "leaderHint_decoder = decode_struct [''node_id'', ''address'']
     (\<lambda>f. if f = ''node_id'' then field NodeID NodeID_update json_string
          else field Address Address_update (json_ptr [] json_string))"

definition decodeNativeLeaderHint :: "raw_message \<Rightarrow> NativeLeaderHint option result" where
  "decodeNativeLeaderHint data =
     (case data of
        None \<Rightarrow> Inr None
      | Some raw \<Rightarrow>
          if raw = JNull then Inr None
          else case decodeStrictRaw leaderHint_decoder \<lparr>NodeID = [], Address = None\<rparr> raw of
            Inl err \<Rightarrow> Inl err
          | Inr hint \<Rightarrow>
              (case Address hint of
                 None \<Rightarrow> Inl (ErrorString ''leader_hint requires non-empty node_id and address'')
               | Some address \<Rightarrow>
                   if blank (NodeID hint) \<or> blank address
                   then Inl (ErrorString ''leader_hint requires non-empty node_id and address'')
                   else Inr (Some hint)))"

text \<open>The message of the error for a success without data, in the source's encoding.\<close>

definition missing_data_message :: string where
  "missing_data_message = ''talon_execute '' @ [CHR 0xE6, CHR 0x88, CHR 0x90, CHR 0xE5, CHR 0x8A, CHR 0x9F, CHR 0xE5, CHR 0x93,
     CHR 0x8D, CHR 0xE5, CHR 0xBA, CHR 0x94, CHR 0xE7, CHR 0xBC, CHR 0xBA, CHR 0xE5, CHR 0xB0, CHR 0x91] @ '' data ''
     @ [CHR 0xE5, CHR 0xAD, CHR 0x97, CHR 0xE6, CHR 0xAE, CHR 0xB5]"

definition encode_request_message :: string where
  "encode_request_message = [CHR 0xE6, CHR 0x97, CHR 0xA0, CHR 0xE6, CHR 0xB3, CHR 0x95, CHR 0xE7, CHR 0xBC, CHR 0x96, CHR 0xE7,
     CHR 0xA0, CHR 0x81] @ '' talon_execute '' @ [CHR 0xE8, CHR 0xAF, CHR 0xB7, CHR 0xE6, CHR 0xB1, CHR 0x82]"

abbreviation execute_violation :: "string \<Rightarrow> go_error option \<Rightarrow> 'a result" where
  "execute_violation message cause \<equiv> Inl (newError CodeProtocolViolation ''execute'' message cause)"

definition decodeCommandResult :: "string \<Rightarrow> string \<Rightarrow> string \<Rightarrow> json result" where
  "decodeCommandResult outBytes module action =
     (case decodeStrictJSON cmdResult_decoder zero_cmdResult outBytes of
        Inl err \<Rightarrow> execute_violation ''invalid native JSON response'' (Some err)
      | Inr result \<Rightarrow>
          (case cmd_OK result of
             None \<Rightarrow> execute_violation ''native JSON response omitted ok'' None
           | Some ok \<Rightarrow>
               if \<not> ok then
                 (if cmd_Data result \<noteq> None then execute_violation ''failed native response included data'' None
                  else
                    (let msg = (if cmd_Error result = [] then ''native operation failed without a diagnostic'' else cmd_Error result)
                     in case decodeNativeLeaderHint (cmd_LeaderHint result) of
                       Inl err \<Rightarrow> execute_violation ''native error response included an invalid leader_hint'' (Some err)
                     | Inr leaderHint \<Rightarrow>
                         Inl (newNativeResponseError ''execute'' msg (cmd_Code result) (cmd_Term result) leaderHint)))
               else
                 (case cmd_Data result of
                    None \<Rightarrow> execute_violation ''successful native response omitted data'' None
                  | Some data \<Rightarrow>
                      if cmd_Code result \<noteq> [] \<or> cmd_Error result \<noteq> [] \<or> cmd_Term result \<noteq> None \<or> cmd_LeaderHint result \<noteq> None
                      then execute_violation ''successful native response mixed error fields into its envelope'' None
                      else if data = JNull
                      then Inl (newError CodeProtocolViolation (module @ ''.'' @ action) missing_data_message None)
                      else Inr data)))"

text \<open>
  The request is a Go map, whose keys the encoder sorts. Parameters are nil or a value with what
  \<open>json.Marshal\<close> makes of it. The reply is the C string behind the output pointer, up to its NUL.
\<close>

definition command_json :: "string \<Rightarrow> string \<Rightarrow> json \<Rightarrow> json" where
  "command_json module action params = JObj [(''action'', JStr action), (''module'', JStr module), (''params'', params)]"

definition boundedCString :: "string \<Rightarrow> nat \<Rightarrow> string result" where
  "boundedCString out maxLength =
     (if maxLength < length out
      then Inl (ErrorString (''C string is not NUL-terminated within '' @ nat_str maxLength @ '' bytes''))
      else if 2 ^ 31 \<le> length out then Inl (ErrorString ''C string exceeds the Go copy bound'')
      else Inr out)"

definition execute :: "('h \<Rightarrow> string \<Rightarrow> 'h \<times> string native_reply) \<Rightarrow> 'h DB \<Rightarrow> string \<Rightarrow> string \<Rightarrow> json result option
    \<Rightarrow> 'h DB \<times> json result" where
  "execute talon_execute db module action params =
     (case db_handle db of
        None \<Rightarrow> (db, closed_error ''execute'')
      | Some handle \<Rightarrow>
          (case (case params of None \<Rightarrow> Inr (JObj []) | Some encoded \<Rightarrow> encoded) of
             Inl err \<Rightarrow> (db, Inl (newError CodeProtocolViolation (module @ ''.'' @ action) encode_request_message (Some err)))
           | Inr value \<Rightarrow>
               (let cmdBytes = marshal_json (command_json module action value)
                in if maxNativeJSONRequestBytes < length cmdBytes
                   then (db, Inl (newError CodeInvalidArgument ''execute'' ''native JSON request exceeds the SDK bound'' None))
                   else case talon_execute handle cmdBytes of
                     (handle', reply) \<Rightarrow>
                       (db\<lparr>db_handle := Some handle'\<rparr>,
                        (case reply of
                           NativeFailed code \<Rightarrow> Inl (nativeFailure ''execute'' ''talon_execute failed'' code)
                         | NativeOutput None \<Rightarrow> execute_violation ''talon_execute returned a null result'' None
                         | NativeOutput (Some out) \<Rightarrow>
                             (case boundedCString out maxNativeJSONResultBytes of
                                Inl err \<Rightarrow> execute_violation ''native JSON response exceeds the SDK bound or is unterminated'' (Some err)
                              | Inr outBytes \<Rightarrow> decodeCommandResult outBytes module action))))))"


text \<open>An identity with nothing attested, and an open database over it, for the examples.\<close>

definition plain_info :: NativeInfo where
  "plain_info = \<lparr>Admission = [], CoreGitDirty = False, BuildProfile = [], BuildProfileSource = [], DevelopmentLibraryPath = [],
     DevelopmentHeaderPath = [], DevelopmentManifestPath = [], DevelopmentManifestSHA256 = [], Platform = [], ReleaseTag = [],
     TalonBinCommit = [], CoreRepository = [], CoreTag = [], CoreCommit = [], CoreVersion = [], ABIProfile = [], ABIVersion = 1,
     HeaderSHA256 = [], LibrarySHA256 = [], KeyID = [], KeySHA256 = [], Features = [], Capabilities = [], Gates = Map.empty\<rparr>"

definition plain_db :: "'h \<Rightarrow> 'h DB" where
  "plain_db handle = \<lparr>db_handle = Some handle, db_nativeInfo = plain_info, db_nativePolicyHash = []\<rparr>"

end
