(* ===== verification/WireValue.thy ===== *)
theory WireValue
  imports Database
begin

text \<open>
  The typed SQL values of \<open>talon_query.go\<close>: the closed \<open>Value\<close> with its constructors and accessors, the
  binary encoding of parameters and the decoding of result rows. A Go float is its IEEE 754 bit
  pattern, which \<open>math.Float64bits\<close> and \<open>math.Float64frombits\<close> convert without loss; comparisons read
  the pattern. The value grammar and the row grammar are instances of \<open>positional_codec\<close>.
\<close>

unbundle bit_operations_syntax

definition maxVectorDimensions :: nat where "maxVectorDimensions = 4096"
definition maxNativeResultBytes :: nat where "maxNativeResultBytes = 256 * 2 ^ 20"
definition maxWireItems :: nat where "maxWireItems = 2 ^ 20"
definition maxWireCellBytes :: nat where "maxWireCellBytes = 2 ^ 20"
definition maxTimeNanos :: int where "maxTimeNanos = 86399999999999"
definition maxDecimalPrecision :: nat where "maxDecimalPrecision = 38"

lemmas wire_bounds = maxVectorDimensions_def maxNativeResultBytes_def maxWireItems_def maxWireCellBytes_def
  maxTimeNanos_def maxDecimalPrecision_def

section \<open>Floats\<close>

type_synonym int32 = "32 word"
type_synonym float64 = "64 word"
type_synonym float32 = "32 word"

text \<open>\<open>IsNaN || IsInf\<close>: the exponent bits are all ones.\<close>

definition finite64 :: "float64 \<Rightarrow> bool" where
  "finite64 x \<longleftrightarrow> take_bit 11 (drop_bit 52 x) \<noteq> 0x7FF"

definition finite32 :: "float32 \<Rightarrow> bool" where
  "finite32 x \<longleftrightarrow> take_bit 8 (drop_bit 23 x) \<noteq> 0xFF"

text \<open>Finite floats are ordered as sign and magnitude; both zeros are equal.\<close>

definition float_rank :: "float64 \<Rightarrow> int" where
  "float_rank x = (if bit x 63 then - uint (take_bit 63 x) else uint (take_bit 63 x))"

definition float_less :: "float64 \<Rightarrow> float64 \<Rightarrow> bool" where
  "float_less x y \<longleftrightarrow> float_rank x < float_rank y"

definition float_90 :: float64 where "float_90 = 0x4056800000000000"
definition float_180 :: float64 where "float_180 = 0x4066800000000000"
definition float_neg :: "float64 \<Rightarrow> float64" where "float_neg x = x XOR push_bit 63 1"

section \<open>Values\<close>

type_synonym ValueKind = uint8

definition KindNull :: ValueKind where "KindNull = 0"
definition KindInteger :: ValueKind where "KindInteger = 1"
definition KindFloat :: ValueKind where "KindFloat = 2"
definition KindText :: ValueKind where "KindText = 3"
definition KindBlob :: ValueKind where "KindBlob = 4"
definition KindBoolean :: ValueKind where "KindBoolean = 5"
definition KindJSON :: ValueKind where "KindJSON = 6"
definition KindVector :: ValueKind where "KindVector = 7"
definition KindTimestamp :: ValueKind where "KindTimestamp = 8"
definition KindGeoPoint :: ValueKind where "KindGeoPoint = 9"
definition KindDate :: ValueKind where "KindDate = 10"
definition KindTime :: ValueKind where "KindTime = 11"
definition KindDecimal :: ValueKind where "KindDecimal = 12"

lemmas kind_defs = KindNull_def KindInteger_def KindFloat_def KindText_def KindBlob_def KindBoolean_def KindJSON_def
  KindVector_def KindTimestamp_def KindGeoPoint_def KindDate_def KindTime_def KindDecimal_def

record GeoPoint =
  Latitude :: float64
  Longitude :: float64

record Decimal =
  Coefficient :: int
  Scale :: uint8

record Value =
  v_kind :: ValueKind
  v_integer :: int64
  v_float :: float64
  v_text :: string
  v_bytes :: bytes
  v_vector :: "float32 list"
  v_geo :: GeoPoint
  v_date :: int32
  v_decimal :: bytes
  v_scale :: uint8

text \<open>The zero value of the struct; the decimal is an array of sixteen bytes.\<close>

definition zero_Value :: Value where
  "zero_Value = \<lparr>v_kind = 0, v_integer = 0, v_float = 0, v_text = [], v_bytes = [], v_vector = [],
     v_geo = \<lparr>Latitude = 0, Longitude = 0\<rparr>, v_date = 0, v_decimal = replicate 16 0, v_scale = 0\<rparr>"

definition NullValue :: Value where "NullValue = zero_Value\<lparr>v_kind := KindNull\<rparr>"

definition IntegerValue :: "int64 \<Rightarrow> Value" where
  "IntegerValue value = zero_Value\<lparr>v_kind := KindInteger, v_integer := value\<rparr>"

definition BooleanValue :: "bool \<Rightarrow> Value" where
  "BooleanValue value = zero_Value\<lparr>v_kind := KindBoolean, v_integer := (if value then 1 else 0)\<rparr>"

definition TimestampValue :: "int64 \<Rightarrow> Value" where
  "TimestampValue value = zero_Value\<lparr>v_kind := KindTimestamp, v_integer := value\<rparr>"

definition DateValue :: "int32 \<Rightarrow> Value" where
  "DateValue value = zero_Value\<lparr>v_kind := KindDate, v_date := value\<rparr>"

definition construct_error :: "string \<Rightarrow> string \<Rightarrow> 'a result" where
  "construct_error operation message = Inl (newError CodeInvalidArgument operation message None)"

definition FloatValue :: "float64 \<Rightarrow> Value result" where
  "FloatValue value =
     (if \<not> finite64 value then construct_error ''construct float value'' ''non-finite float is not a valid Talon wire value''
      else Inr (zero_Value\<lparr>v_kind := KindFloat, v_float := value\<rparr>))"

definition TextValue :: "string \<Rightarrow> Value result" where
  "TextValue value =
     (if \<not> utf8_valid value then construct_error ''construct text value'' ''text is not valid UTF-8''
      else Inr (zero_Value\<lparr>v_kind := KindText, v_text := value\<rparr>))"

definition BlobValue :: "bytes \<Rightarrow> Value" where
  "BlobValue value = zero_Value\<lparr>v_kind := KindBlob, v_bytes := value\<rparr>"

section \<open>Strict JSON payloads\<close>

text \<open>
  \<open>validateJSONNumbers\<close>, for a value decoded without a target type: numbers with a fraction or an
  exponent must be finite as a float, integers must fit i64 or u64. \<open>ParseFloat\<close> overflows from
  halfway between the largest float and its successor on; its exponent is read up to five digits.
\<close>

fun clamped_exponent :: "nat \<Rightarrow> string \<Rightarrow> nat" where
  "clamped_exponent e [] = e"
| "clamped_exponent e (c # cs) = clamped_exponent (if e < 10000 then e * 10 + digit_val c else e) cs"

definition split_exponent :: "string \<Rightarrow> string \<times> int" where
  "split_exponent text =
     (let mantissa = takeWhile (\<lambda>c. c \<noteq> CHR ''e'' \<and> c \<noteq> CHR ''E'') text;
          rest = drop (length mantissa + 1) text
      in (mantissa,
          (case rest of
             [] \<Rightarrow> 0
           | c # cs \<Rightarrow> if c = CHR ''-'' then - int (clamped_exponent 0 cs)
                      else if c = CHR ''+'' then int (clamped_exponent 0 cs)
                      else int (clamped_exponent 0 rest))))"

definition finite_literal :: "string \<Rightarrow> bool" where
  "finite_literal text =
     (let (mantissa, e) = split_exponent text;
          unsigned = filter (\<lambda>c. c \<noteq> CHR ''-'') mantissa;
          whole = takeWhile (\<lambda>c. c \<noteq> CHR ''.'') unsigned;
          frac = drop (length whole + 1) unsigned
      in case digits_val 0 (whole @ frac) of
           None \<Rightarrow> False
         | Some m \<Rightarrow>
             (let scale = e - int (length frac); bound = (2 ^ 1024 - 2 ^ 970 :: nat)
              in if 0 \<le> scale then m * 10 ^ nat scale < bound else m < bound * 10 ^ nat (- scale)))"

definition validate_number :: "string \<Rightarrow> unit result" where
  "validate_number text =
     (if list_ex (\<lambda>c. c \<in> {CHR ''.'', CHR ''e'', CHR ''E''}) text
      then (if finite_literal text then Inr ()
            else Inl (ErrorString (''JSON number '' @ quoted text @ '' is outside the finite f64 range'')))
      else if take 1 text = ''-''
      then (if parse_int 64 text = None
            then Inl (ErrorString (''JSON integer '' @ quoted text @ '' is outside the i64 range'')) else Inr ())
      else if parse_uint 64 text = None
      then Inl (ErrorString (''JSON integer '' @ quoted text @ '' is outside the u64 range'')) else Inr ())"

fun validateJSONNumbers :: "json \<Rightarrow> unit result"
and validate_items :: "json list \<Rightarrow> unit result"
and validate_members :: "(string \<times> json) list \<Rightarrow> unit result" where
  "validateJSONNumbers (JNum text) = validate_number text"
| "validateJSONNumbers (JArr js) = validate_items js"
| "validateJSONNumbers (JObj kvs) = validate_members kvs"
| "validateJSONNumbers JNull = Inr ()"
| "validateJSONNumbers (JBool b) = Inr ()"
| "validateJSONNumbers (JStr s) = Inr ()"
| "validate_items [] = Inr ()"
| "validate_items (j # js) = (case validateJSONNumbers j of Inl e \<Rightarrow> Inl e | Inr _ \<Rightarrow> validate_items js)"
| "validate_members [] = Inr ()"
| "validate_members ((k, j) # kvs) = (case validateJSONNumbers j of Inl e \<Rightarrow> Inl e | Inr _ \<Rightarrow> validate_members kvs)"

text \<open>\<open>decodeStrictJSON\<close> into an empty interface, as a check of the bytes.\<close>

definition strict_json :: "string \<Rightarrow> unit result" where
  "strict_json data = decodeStrictJSON (\<lambda>_ j. validateJSONNumbers j) () data"

definition JSONValue :: "bytes \<Rightarrow> Value result" where
  "JSONValue value =
     (if length value = 0 then construct_error ''construct JSON value'' ''JSON value is empty''
      else case strict_json (string_of value) of
        Inl err \<Rightarrow> Inl (newError CodeInvalidArgument ''construct JSON value'' ''JSON value is not strict JSON'' (Some err))
      | Inr _ \<Rightarrow> Inr (zero_Value\<lparr>v_kind := KindJSON, v_bytes := value\<rparr>))"

definition VectorValue :: "float32 list \<Rightarrow> Value result" where
  "VectorValue value =
     (if length value = 0 \<or> maxVectorDimensions < length value
      then construct_error ''construct vector value'' ''vector dimension must be in 1..4096''
      else if \<not> list_all finite32 value
      then construct_error ''construct vector value'' ''vector contains a non-finite value''
      else Inr (zero_Value\<lparr>v_kind := KindVector, v_vector := value\<rparr>))"

definition wgs84 :: "float64 \<Rightarrow> float64 \<Rightarrow> bool" where
  "wgs84 latitude longitude \<longleftrightarrow> finite64 latitude \<and> finite64 longitude
     \<and> \<not> float_less latitude (float_neg float_90) \<and> \<not> float_less float_90 latitude
     \<and> \<not> float_less longitude (float_neg float_180) \<and> \<not> float_less float_180 longitude"

definition GeoPointValue :: "float64 \<Rightarrow> float64 \<Rightarrow> Value result" where
  "GeoPointValue latitude longitude =
     (if \<not> wgs84 latitude longitude
      then construct_error ''construct geospatial value'' ''latitude or longitude is outside WGS-84 bounds''
      else Inr (zero_Value\<lparr>v_kind := KindGeoPoint, v_geo := \<lparr>Latitude = latitude, Longitude = longitude\<rparr>\<rparr>))"

definition TimeValue :: "int64 \<Rightarrow> Value result" where
  "TimeValue nanoseconds =
     (if sint nanoseconds < 0 \<or> maxTimeNanos < sint nanoseconds
      then construct_error ''construct time value'' ''time is outside one day in nanoseconds''
      else Inr (zero_Value\<lparr>v_kind := KindTime, v_integer := nanoseconds\<rparr>))"

section \<open>Decimals\<close>

definition decimalPrecision :: "int \<Rightarrow> nat" where
  "decimalPrecision value = (if value = 0 then 1 else length (nat_str (nat \<bar>value\<bar>)))"

definition encodeI128LittleEndian :: "int \<Rightarrow> bytes option" where
  "encodeI128LittleEndian value =
     (if value < - (2 ^ 127) \<or> 2 ^ 127 - 1 < value then None
      else
        (let unsigned = (if value < 0 then value + 2 ^ 128 else value)
         in Some (rev (be_bytes 16 (nat unsigned)))))"

definition decodeI128LittleEndian :: "bytes \<Rightarrow> int" where
  "decodeI128LittleEndian value =
     (let result = int (be_nat (rev value))
      in if (value ! 15) AND 0x80 \<noteq> 0 then result - 2 ^ 128 else result)"

text \<open>The coefficient is a pointer, nil as \<open>None\<close>.\<close>

definition DecimalValue :: "int option \<Rightarrow> uint8 \<Rightarrow> Value result" where
  "DecimalValue coefficient scale =
     (case coefficient of
        None \<Rightarrow> construct_error ''construct decimal value'' ''decimal coefficient is nil''
      | Some c \<Rightarrow>
          if maxDecimalPrecision < unat scale \<or> maxDecimalPrecision < decimalPrecision c
          then construct_error ''construct decimal value'' ''decimal precision or scale exceeds 38''
          else case encodeI128LittleEndian c of
            None \<Rightarrow> construct_error ''construct decimal value'' ''decimal coefficient is outside signed i128''
          | Some encoded \<Rightarrow> Inr (zero_Value\<lparr>v_kind := KindDecimal, v_decimal := encoded, v_scale := scale\<rparr>))"

section \<open>Accessors\<close>

text \<open>An accessor returns the payload and true, or the zero value and false: an option.\<close>

definition Integer :: "Value \<Rightarrow> int64 option" where
  "Integer value = (if v_kind value \<noteq> KindInteger then None else Some (v_integer value))"

definition Float64 :: "Value \<Rightarrow> float64 option" where
  "Float64 value = (if v_kind value \<noteq> KindFloat then None else Some (v_float value))"

definition String :: "Value \<Rightarrow> string option" where
  "String value = (if v_kind value \<noteq> KindText then None else Some (v_text value))"

definition Blob :: "Value \<Rightarrow> bytes option" where
  "Blob value = (if v_kind value \<noteq> KindBlob then None else Some (v_bytes value))"

definition Boolean :: "Value \<Rightarrow> bool option" where
  "Boolean value = (if v_kind value \<noteq> KindBoolean then None else Some (v_integer value = 1))"

definition JSON :: "Value \<Rightarrow> bytes option" where
  "JSON value = (if v_kind value \<noteq> KindJSON then None else Some (v_bytes value))"

definition Vector :: "Value \<Rightarrow> float32 list option" where
  "Vector value = (if v_kind value \<noteq> KindVector then None else Some (v_vector value))"

definition Timestamp :: "Value \<Rightarrow> int64 option" where
  "Timestamp value = (if v_kind value \<noteq> KindTimestamp then None else Some (v_integer value))"

definition Value_GeoPoint :: "Value \<Rightarrow> GeoPoint option" where
  "Value_GeoPoint value = (if v_kind value \<noteq> KindGeoPoint then None else Some (v_geo value))"

definition Date :: "Value \<Rightarrow> int32 option" where
  "Date value = (if v_kind value \<noteq> KindDate then None else Some (v_date value))"

definition Time :: "Value \<Rightarrow> int64 option" where
  "Time value = (if v_kind value \<noteq> KindTime then None else Some (v_integer value))"

definition Value_Decimal :: "Value \<Rightarrow> (int \<times> uint8) option" where
  "Value_Decimal value =
     (if v_kind value \<noteq> KindDecimal then None else Some (decodeI128LittleEndian (v_decimal value), v_scale value))"

definition IsNull :: "Value \<Rightarrow> bool" where
  "IsNull value \<longleftrightarrow> v_kind value = KindNull"

lemmas accessor_defs = Integer_def Float64_def String_def Blob_def Boolean_def JSON_def Vector_def Timestamp_def
  Value_GeoPoint_def Date_def Time_def Value_Decimal_def IsNull_def

text \<open>The projection to Go types: one constructor per dynamic type.\<close>

datatype go_value =
    GoNil
  | GoInt64 int64
  | GoFloat64 float64
  | GoString string
  | GoBytes bytes
  | GoBool bool
  | GoRawMessage bytes
  | GoFloat32s "float32 list"
  | GoGeoPoint GeoPoint
  | GoInt32 int32
  | GoDecimal Decimal

definition GoValue :: "Value \<Rightarrow> go_value" where
  "GoValue value =
     (let kind = v_kind value
      in if kind = KindNull then GoNil
         else if kind = KindInteger then GoInt64 (v_integer value)
         else if kind = KindFloat then GoFloat64 (v_float value)
         else if kind = KindText then GoString (v_text value)
         else if kind = KindBlob then GoBytes (v_bytes value)
         else if kind = KindBoolean then GoBool (v_integer value = 1)
         else if kind = KindJSON then GoRawMessage (v_bytes value)
         else if kind = KindVector then GoFloat32s (v_vector value)
         else if kind = KindTimestamp \<or> kind = KindTime then GoInt64 (v_integer value)
         else if kind = KindGeoPoint then GoGeoPoint (v_geo value)
         else if kind = KindDate then GoInt32 (v_date value)
         else if kind = KindDecimal
         then GoDecimal \<lparr>Coefficient = decodeI128LittleEndian (v_decimal value), Scale = v_scale value\<rparr>
         else GoNil)"

type_synonym Row = "Value list"

text \<open>\<open>Row.Value\<close> with a Go index, and the accessors of a row.\<close>

definition Row_Value :: "Row \<Rightarrow> int \<Rightarrow> Value option" where
  "Row_Value row index = (if index < 0 \<or> int (length row) \<le> index then None else Some (row ! nat index))"

definition row_get :: "string \<Rightarrow> string \<Rightarrow> (Value \<Rightarrow> 'a option) \<Rightarrow> Row \<Rightarrow> int \<Rightarrow> 'a result" where
  "row_get operation mismatch get row index =
     (case Row_Value row index of
        None \<Rightarrow> Inl (newError CodeInvalidArgument operation ''column index is out of range'' None)
      | Some value \<Rightarrow>
          (case get value of
             None \<Rightarrow> Inl (newError CodeProtocolViolation operation mismatch None)
           | Some x \<Rightarrow> Inr x))"

definition GetInt64 :: "Row \<Rightarrow> int \<Rightarrow> int64 result" where
  "GetInt64 = row_get ''row.int64'' ''column is not INTEGER'' Integer"

definition GetString :: "Row \<Rightarrow> int \<Rightarrow> string result" where
  "GetString = row_get ''row.string'' ''column is not TEXT'' String"

definition GetBool :: "Row \<Rightarrow> int \<Rightarrow> bool result" where
  "GetBool = row_get ''row.bool'' ''column is not BOOLEAN'' Boolean"

definition row_or_zero :: "'a \<Rightarrow> (Value \<Rightarrow> 'a option) \<Rightarrow> Row \<Rightarrow> int \<Rightarrow> 'a" where
  "row_or_zero zero get row index =
     (case Row_Value row index of
        None \<Rightarrow> zero
      | Some value \<Rightarrow> (case get value of None \<Rightarrow> zero | Some x \<Rightarrow> x))"

definition Row_Str :: "Row \<Rightarrow> int \<Rightarrow> string" where "Row_Str = row_or_zero [] String"
definition Row_Int :: "Row \<Rightarrow> int \<Rightarrow> int64" where "Row_Int = row_or_zero 0 Integer"
definition Row_Float :: "Row \<Rightarrow> int \<Rightarrow> float64" where "Row_Float = row_or_zero 0 Float64"
definition Row_Bool :: "Row \<Rightarrow> int \<Rightarrow> bool" where "Row_Bool = row_or_zero False Boolean"

definition Row_Decimal :: "Row \<Rightarrow> int \<Rightarrow> (int \<times> uint8) option" where
  "Row_Decimal row index = (case Row_Value row index of None \<Rightarrow> None | Some value \<Rightarrow> Value_Decimal value)"

definition Row_IsNull :: "Row \<Rightarrow> int \<Rightarrow> bool" where
  "Row_IsNull row index \<longleftrightarrow> (case Row_Value row index of None \<Rightarrow> True | Some value \<Rightarrow> IsNull value)"

section \<open>Encoding parameters\<close>

definition appendLengthBytes :: "bytes \<Rightarrow> bytes \<Rightarrow> bytes result" where
  "appendLengthBytes buffer value =
     (if 2 ^ 32 \<le> length value then Inl (ErrorString ''payload exceeds u32 wire length'')
      else Inr (buffer @ len_bytes_le value))"

definition appendWireValue :: "bytes \<Rightarrow> Value \<Rightarrow> bytes result" where
  "appendWireValue buffer0 value =
     (let buffer = buffer0 @ [v_kind value]; kind = v_kind value
      in if kind = KindNull then Inr buffer
         else if kind = KindInteger \<or> kind = KindTimestamp \<or> kind = KindTime then
           (if kind = KindTime \<and> (sint (v_integer value) < 0 \<or> maxTimeNanos < sint (v_integer value))
            then Inl (ErrorString ''time payload is outside one day'')
            else Inr (buffer @ u64_le (v_integer value)))
         else if kind = KindFloat then
           (if \<not> finite64 (v_float value) then Inl (ErrorString ''non-finite float payload'')
            else Inr (buffer @ u64_le (v_float value)))
         else if kind = KindText then
           (if \<not> utf8_valid (v_text value) then Inl (ErrorString ''invalid UTF-8 text payload'')
            else appendLengthBytes buffer (bytes_of (v_text value)))
         else if kind = KindBlob then appendLengthBytes buffer (v_bytes value)
         else if kind = KindBoolean then
           (if v_integer value \<noteq> 0 \<and> v_integer value \<noteq> 1 then Inl (ErrorString ''invalid boolean payload'')
            else Inr (buffer @ [ucast (v_integer value)]))
         else if kind = KindJSON then
           (case strict_json (string_of (v_bytes value)) of
              Inl err \<Rightarrow> Inl (WrapError ''invalid strict JSON payload: '' err)
            | Inr _ \<Rightarrow> appendLengthBytes buffer (v_bytes value))
         else if kind = KindVector then
           (if length (v_vector value) = 0 \<or> maxVectorDimensions < length (v_vector value)
            then Inl (ErrorString ''invalid vector dimension'')
            else if \<not> list_all finite32 (v_vector value) then Inl (ErrorString ''non-finite vector payload'')
            else Inr (buffer @ u32_le (of_nat (length (v_vector value))) @ concat (map u32_le (v_vector value))))
         else if kind = KindGeoPoint then
           (if \<not> wgs84 (Latitude (v_geo value)) (Longitude (v_geo value)) then Inl (ErrorString ''invalid WGS-84 point'')
            else Inr (buffer @ u64_le (Latitude (v_geo value)) @ u64_le (Longitude (v_geo value))))
         else if kind = KindDate then Inr (buffer @ u32_le (v_date value))
         else if kind = KindDecimal then
           (if maxDecimalPrecision < unat (v_scale value)
               \<or> maxDecimalPrecision < decimalPrecision (decodeI128LittleEndian (v_decimal value))
            then Inl (ErrorString ''invalid decimal precision or scale'')
            else Inr (buffer @ v_decimal value @ [v_scale value]))
         else Inl (ErrorString (''unknown Value kind '' @ nat_str (unat kind))))"

fun encode_parameters_loop :: "nat \<Rightarrow> bytes \<Rightarrow> Value list \<Rightarrow> bytes result" where
  "encode_parameters_loop index buffer [] = Inr buffer"
| "encode_parameters_loop index buffer (value # params) =
     (case appendWireValue buffer value of
        Inl err \<Rightarrow> Inl (newError CodeInvalidArgument ''encode parameters''
                     (''parameter '' @ nat_str index @ '' is invalid'') (Some err))
      | Inr buffer' \<Rightarrow> encode_parameters_loop (Suc index) buffer' params)"

definition encodeParameters :: "Value list \<Rightarrow> bytes result" where
  "encodeParameters params =
     (if 2 ^ 32 \<le> length params then Inl (newError CodeInvalidArgument ''encode parameters'' ''too many parameters'' None)
      else encode_parameters_loop 0 (u32_le (of_nat (length params))) params)"

section \<open>Decoding rows\<close>

definition require_bytes :: "bytes \<Rightarrow> ValueKind \<Rightarrow> nat \<Rightarrow> nat \<Rightarrow> (bytes \<times> nat) result" where
  "require_bytes wire kind position n =
     (if length wire < position + n then Inl (ErrorString (''truncated type '' @ nat_str (unat kind) @ '' payload''))
      else Inr (take n (drop position wire), position + n))"

text \<open>One element of a vector, and the payload of the three kinds with a length.\<close>

definition decode_float32 :: "bytes \<Rightarrow> nat \<Rightarrow> (float32 \<times> nat) result" where
  "decode_float32 wire position =
     (case require_bytes wire KindVector position 4 of
        Inl e \<Rightarrow> Inl e
      | Inr (payload, position') \<Rightarrow>
          (let value = get_u32_le payload
           in if \<not> finite32 value then Inl (ErrorString ''vector contains a non-finite value'')
              else Inr (value, position')))"

definition decode_length_bytes :: "bytes \<Rightarrow> ValueKind \<Rightarrow> nat \<Rightarrow> (bytes \<times> nat) result" where
  "decode_length_bytes wire kind position =
     (case require_bytes wire kind position 4 of
        Inl e \<Rightarrow> Inl e
      | Inr (lengthBytes, position') \<Rightarrow>
          (let len = unat (get_u32_le lengthBytes)
           in if maxWireCellBytes < len \<or> length wire - position' < len
              then Inl (ErrorString ''declared payload length exceeds result'')
              else require_bytes wire kind position' len))"

definition decodeWireValue :: "bytes \<Rightarrow> nat \<Rightarrow> (Value \<times> nat) result" where
  "decodeWireValue wire position0 =
     (if length wire \<le> position0 then Inl (ErrorString ''missing type tag'')
      else
        (let kind = wire ! position0; position = position0 + 1
         in if kind = KindNull then Inr (NullValue, position)
            else if kind = KindInteger \<or> kind = KindTimestamp \<or> kind = KindTime then
              (case require_bytes wire kind position 8 of
                 Inl e \<Rightarrow> Inl e
               | Inr (payload, next) \<Rightarrow>
                   (let value = get_u64_le payload
                    in if kind = KindTime \<and> (sint value < 0 \<or> maxTimeNanos < sint value)
                       then Inl (ErrorString ''time payload is outside one day'')
                       else Inr (zero_Value\<lparr>v_kind := kind, v_integer := value\<rparr>, next)))
            else if kind = KindFloat then
              (case require_bytes wire kind position 8 of
                 Inl e \<Rightarrow> Inl e
               | Inr (payload, next) \<Rightarrow>
                   (let value = get_u64_le payload
                    in if \<not> finite64 value then Inl (ErrorString ''non-finite float payload'')
                       else Inr (zero_Value\<lparr>v_kind := kind, v_float := value\<rparr>, next)))
            else if kind = KindText \<or> kind = KindBlob \<or> kind = KindJSON then
              (case decode_length_bytes wire kind position of
                 Inl e \<Rightarrow> Inl e
               | Inr (payload, next) \<Rightarrow>
                   if kind = KindText then
                     (if \<not> utf8_valid (string_of payload) then Inl (ErrorString ''text payload is not UTF-8'')
                      else Inr (zero_Value\<lparr>v_kind := kind, v_text := string_of payload\<rparr>, next))
                   else if kind = KindJSON then
                     (case strict_json (string_of payload) of
                        Inl err \<Rightarrow> Inl (WrapError ''JSON payload is not strict JSON: '' err)
                      | Inr _ \<Rightarrow> Inr (zero_Value\<lparr>v_kind := kind, v_bytes := payload\<rparr>, next))
                   else Inr (zero_Value\<lparr>v_kind := kind, v_bytes := payload\<rparr>, next))
            else if kind = KindBoolean then
              (case require_bytes wire kind position 1 of
                 Inl e \<Rightarrow> Inl e
               | Inr (payload, next) \<Rightarrow>
                   if hd payload \<noteq> 0 \<and> hd payload \<noteq> 1 then Inl (ErrorString ''boolean payload must be 0 or 1'')
                   else Inr (zero_Value\<lparr>v_kind := kind, v_integer := ucast (hd payload)\<rparr>, next))
            else if kind = KindVector then
              (case require_bytes wire kind position 4 of
                 Inl e \<Rightarrow> Inl e
               | Inr (dimensionBytes, position') \<Rightarrow>
                   (let dimension = unat (get_u32_le dimensionBytes)
                    in if dimension = 0 \<or> maxVectorDimensions < dimension \<or> (length wire - position') div 4 < dimension
                       then Inl (ErrorString ''invalid vector dimension'')
                       else case pos_loop (\<lambda>_ e. e) decode_float32 0 dimension wire position' of
                         Inl e \<Rightarrow> Inl e
                       | Inr (vector, next) \<Rightarrow> Inr (zero_Value\<lparr>v_kind := kind, v_vector := vector\<rparr>, next)))
            else if kind = KindGeoPoint then
              (case require_bytes wire kind position 16 of
                 Inl e \<Rightarrow> Inl e
               | Inr (payload, next) \<Rightarrow>
                   (case GeoPointValue (get_u64_le (take 8 payload)) (get_u64_le (drop 8 payload)) of
                      Inl err \<Rightarrow> Inl err
                    | Inr value \<Rightarrow> Inr (value, next)))
            else if kind = KindDate then
              (case require_bytes wire kind position 4 of
                 Inl e \<Rightarrow> Inl e
               | Inr (payload, next) \<Rightarrow> Inr (DateValue (get_u32_le payload), next))
            else if kind = KindDecimal then
              (case require_bytes wire kind position 17 of
                 Inl e \<Rightarrow> Inl e
               | Inr (payload, next) \<Rightarrow>
                   (case DecimalValue (Some (decodeI128LittleEndian (take 16 payload))) (payload ! 16) of
                      Inl err \<Rightarrow> Inl err
                    | Inr value \<Rightarrow> Inr (value, next)))
            else Inl (ErrorString (''unknown Value type tag '' @ nat_str (unat kind)))))"

text \<open>The two loops of \<open>decodeRows\<close>; an error is wrapped with its row and column.\<close>

definition decode_row :: "nat \<Rightarrow> bytes \<Rightarrow> nat \<Rightarrow> (nat \<times> go_error) + (Row \<times> nat)" where
  "decode_row columnCount = pos_loop Pair decodeWireValue 0 columnCount"

definition wrap_cell :: "nat \<Rightarrow> nat \<times> go_error \<Rightarrow> go_error" where
  "wrap_cell rowIndex = (\<lambda>(columnIndex, err).
     WrapError (''row '' @ nat_str rowIndex @ '' column '' @ nat_str columnIndex @ '': '') err)"

definition decodeRows :: "bytes \<Rightarrow> Row list result" where
  "decodeRows wire =
     (if length wire < 8 then Inl (ErrorString ''row header is truncated'')
      else
        (let rowCount = unat (get_u32_le wire); columnCount = unat (get_u32_le (drop 4 wire))
         in if maxWireItems < rowCount \<or> maxWireItems < columnCount
               \<or> (rowCount \<noteq> 0 \<and> maxWireItems div rowCount < columnCount) \<or> length wire - 8 < rowCount * columnCount
            then Inl (ErrorString ''row or column count exceeds SDK bounds'')
            else if rowCount = 0 \<and> columnCount \<noteq> 0 then Inl (ErrorString ''empty row set has a non-zero column count'')
            else case pos_loop wrap_cell (decode_row columnCount) 0 rowCount wire 8 of
              Inl e \<Rightarrow> Inl e
            | Inr (rows, position) \<Rightarrow>
                if position \<noteq> length wire
                then Inl (ErrorString (''row payload has '' @ nat_str (length wire - position) @ '' trailing bytes''))
                else Inr rows))"

section \<open>Queries\<close>

definition Query :: "('h \<Rightarrow> string \<Rightarrow> bytes \<Rightarrow> 'h \<times> bytes native_reply) \<Rightarrow> 'h DB \<Rightarrow> string \<Rightarrow> Value list
    \<Rightarrow> 'h DB \<times> Row list result" where
  "Query talon_run_sql_param_bin db sql params =
     (case db_handle db of
        None \<Rightarrow> (db, closed_error ''query'')
      | Some handle \<Rightarrow>
          if blank sql \<or> CHR 0x00 \<in> set sql \<or> \<not> utf8_valid sql
          then (db, Inl (newError CodeInvalidArgument ''query'' ''SQL is empty, contains NUL, or is not UTF-8'' None))
          else case encodeParameters params of
            Inl err \<Rightarrow> (db, Inl err)
          | Inr encoded \<Rightarrow>
              (case talon_run_sql_param_bin handle sql encoded of
                 (handle', reply) \<Rightarrow>
                   (db\<lparr>db_handle := Some handle'\<rparr>,
                    (case reply of
                       NativeFailed code \<Rightarrow> Inl (nativeFailure ''query'' ''native parameterized SQL failed'' code)
                     | NativeOutput None \<Rightarrow>
                         Inl (newError CodeProtocolViolation ''query'' ''native binary result is null or exceeds the SDK bound'' None)
                     | NativeOutput (Some wire) \<Rightarrow>
                         if maxNativeResultBytes < length wire \<or> 2 ^ 31 \<le> length wire
                         then Inl (newError CodeProtocolViolation ''query'' ''native binary result is null or exceeds the SDK bound'' None)
                         else case decodeRows wire of
                           Inl err \<Rightarrow> Inl (newError CodeProtocolViolation ''query'' ''invalid native row/value wire response'' (Some err))
                         | Inr rows \<Rightarrow> Inr rows))))"

definition Exec :: "('h \<Rightarrow> string \<Rightarrow> bytes \<Rightarrow> 'h \<times> bytes native_reply) \<Rightarrow> 'h DB \<Rightarrow> string \<Rightarrow> Value list
    \<Rightarrow> 'h DB \<times> unit result" where
  "Exec talon_run_sql_param_bin db sql params =
     (case Query talon_run_sql_param_bin db sql params of
        (db', Inl err) \<Rightarrow> (db', Inl err)
      | (db', Inr rows) \<Rightarrow>
          (db', if rows \<noteq> [] then Inl (newError CodeProtocolViolation ''exec'' ''statement returned rows; use Query for result-bearing SQL'' None)
                else Inr ()))"

end
