(* ===== verification/WireValueProofs.thy ===== *)
theory WireValueProofs
  imports WireValue
begin

text \<open>
  The value grammar read at a position: every value made by a constructor is read back as it was, and
  what the decoder accepts is the encoding of what it returns. Result rows are then an instance of the
  loops over the grammar.
\<close>

unbundle bit_operations_syntax

section \<open>Signed 128-bit integers\<close>

lemma byte_sign: "(b :: byte) AND 0x80 \<noteq> 0 \<longleftrightarrow> 128 \<le> unat b"
proof -
  have "\<forall>n \<in> set [0..<256]. (of_nat n :: byte) AND 0x80 \<noteq> 0 \<longleftrightarrow> 128 \<le> n" by code_simp
  moreover have "unat b \<in> set [0..<256]" using unat_width [of b] by simp
  ultimately have "(of_nat (unat b) :: byte) AND 0x80 \<noteq> 0 \<longleftrightarrow> 128 \<le> unat b" by blast
  then show ?thesis by simp
qed

lemma le_nat_sign:
  assumes "length b = 16"
  shows "(b ! 15) AND 0x80 \<noteq> 0 \<longleftrightarrow> 2 ^ 127 \<le> le_nat b"
proof -
  have b: "b = take 15 b @ [b ! 15]" using assms take_Suc_conv_app_nth [of 15 b] by simp
  have "le_nat b = le_nat (take 15 b) + 256 ^ 15 * unat (b ! 15)"
    using assms by (subst b) (simp add: le_nat_append)
  moreover have "le_nat (take 15 b) < 256 ^ 15" using le_nat_bound [of "take 15 b"] assms by simp
  ultimately show ?thesis unfolding byte_sign by (auto simp: not_le)
qed

lemma i128_decode_range: "length b = 16 \<Longrightarrow> - (2 ^ 127) \<le> decodeI128LittleEndian b \<and> decodeI128LittleEndian b < 2 ^ 127"
  using le_nat_sign [of b] le_nat_bound [of b] by (auto simp: decodeI128LittleEndian_def be_nat_def Let_def)

lemma i128_encode_decode:
  assumes "length b = 16"
  shows "encodeI128LittleEndian (decodeI128LittleEndian b) = Some b"
proof -
  have "le_nat b < 2 ^ 128" using le_nat_bound [of b] assms by simp
  moreover have "le_bytes 16 (le_nat b) = b" using le_bytes_le_nat [of b] assms by simp
  ultimately show ?thesis
    using i128_decode_range [OF assms] le_nat_sign [OF assms]
    by (auto simp: encodeI128LittleEndian_def decodeI128LittleEndian_def be_nat_def be_bytes_def Let_def)
qed

lemma i128_decode_encode:
  assumes "encodeI128LittleEndian c = Some b"
  shows "length b = 16 \<and> decodeI128LittleEndian b = c"
proof -
  define u where "u = nat (if c < 0 then c + 2 ^ 128 else c)"
  have c: "- (2 ^ 127) \<le> c" "c < 2 ^ 127" and b: "b = le_bytes 16 u"
    using assms by (auto simp: encodeI128LittleEndian_def be_bytes_def u_def Let_def split: if_splits)
  have u: "u < 2 ^ 128" "2 ^ 127 \<le> u \<longleftrightarrow> c < 0" using c by (auto simp: u_def)
  have n: "le_nat b = u" using u(1) by (simp add: b)
  have "(b ! 15) AND 0x80 \<noteq> 0 \<longleftrightarrow> c < 0" using le_nat_sign [of b] u(2) by (simp add: n) (simp add: b)
  then show ?thesis using c by (auto simp: decodeI128LittleEndian_def be_nat_def n u_def Let_def) (simp_all add: b)
qed

section \<open>Constructed values\<close>

inductive constructed :: "Value \<Rightarrow> bool" where
  made_null: "constructed NullValue"
| made_integer: "constructed (IntegerValue i)"
| made_boolean: "constructed (BooleanValue b)"
| made_timestamp: "constructed (TimestampValue i)"
| made_date: "constructed (DateValue d)"
| made_float: "FloatValue x = Inr v \<Longrightarrow> constructed v"
| made_text: "TextValue s = Inr v \<Longrightarrow> constructed v"
| made_blob: "constructed (BlobValue b)"
| made_json: "JSONValue b = Inr v \<Longrightarrow> constructed v"
| made_vector: "VectorValue xs = Inr v \<Longrightarrow> constructed v"
| made_geo: "GeoPointValue x y = Inr v \<Longrightarrow> constructed v"
| made_time: "TimeValue t = Inr v \<Longrightarrow> constructed v"
| made_decimal: "DecimalValue c s = Inr v \<Longrightarrow> constructed v"

text \<open>The bound of the decoder on one cell.\<close>

definition cell_ok :: "Value \<Rightarrow> bool" where
  "cell_ok v \<longleftrightarrow> constructed v \<and> length (v_text v) \<le> maxWireCellBytes \<and> length (v_bytes v) \<le> maxWireCellBytes"

definition cell_bytes :: "Value \<Rightarrow> bytes" where
  "cell_bytes v = projr (appendWireValue [] v)"

lemmas constructor_defs = NullValue_def IntegerValue_def BooleanValue_def TimestampValue_def DateValue_def FloatValue_def
  TextValue_def BlobValue_def JSONValue_def VectorValue_def GeoPointValue_def TimeValue_def zero_Value_def

lemma require_at:
  "n = length x \<Longrightarrow> require_bytes (pre @ k # x @ post) kind (Suc (length pre)) n = Inr (x, Suc (length pre + n))"
  by (simp add: require_bytes_def)

lemma require_last:
  "n = length x \<Longrightarrow> require_bytes (pre @ k # x) kind (Suc (length pre)) n = Inr (x, Suc (length pre + n))"
  using require_at [of n x pre k "[]"] by simp

section \<open>Reading back\<close>

definition reads_back :: "Value \<Rightarrow> bool" where
  "reads_back v \<longleftrightarrow> (\<exists>b. (\<forall>buffer. appendWireValue buffer v = Inr (buffer @ b))
     \<and> (\<forall>pre post. decodeWireValue (pre @ b @ post) (length pre) = Inr (v, length pre + length b)))"

lemma reads_backI:
  assumes "\<And>buffer. appendWireValue buffer v = Inr (buffer @ k # payload)"
    "\<And>pre post. decodeWireValue (pre @ k # payload @ post) (length pre) = Inr (v, Suc (length pre + length payload))"
  shows "reads_back v"
  unfolding reads_back_def using assms by (intro exI [of _ "k # payload"]) auto

lemma get_word_le [simp]: "get_u64_le (u64_le w) = w" "get_u32_le (u32_le u) = u"
  using get_u64_le_append [of w "[]"] get_u32_le_append [of u "[]"] by simp_all

lemmas wire_defs = appendWireValue_def decodeWireValue_def constructor_defs kind_defs Let_def

lemma reads_back_fixed:
  "reads_back NullValue" "reads_back (IntegerValue i)" "reads_back (BooleanValue b)" "reads_back (TimestampValue i)"
  "reads_back (DateValue d)"
proof -
  show "reads_back NullValue" by (rule reads_backI [of _ KindNull "[]"]) (simp_all add: wire_defs)
  show "reads_back (IntegerValue i)" by (rule reads_backI [of _ KindInteger "u64_le i"]) (simp_all add: wire_defs require_at)
  show "reads_back (TimestampValue i)" by (rule reads_backI [of _ KindTimestamp "u64_le i"]) (simp_all add: wire_defs require_at)
  show "reads_back (BooleanValue b)"
    by (rule reads_backI [of _ KindBoolean "[if b then 1 else 0]"]) (simp_all add: wire_defs require_at [of _ "[_]", simplified])
  show "reads_back (DateValue d)" by (rule reads_backI [of _ KindDate "u32_le d"]) (simp_all add: wire_defs require_at)
qed

lemma reads_back_checked:
  "FloatValue x = Inr v \<Longrightarrow> reads_back v" "TimeValue t = Inr v \<Longrightarrow> reads_back v" "GeoPointValue y z = Inr v \<Longrightarrow> reads_back v"
proof -
  assume "FloatValue x = Inr v"
  then have v: "finite64 x" "v = zero_Value\<lparr>v_kind := KindFloat, v_float := x\<rparr>"
    by (auto simp: FloatValue_def construct_error_def split: if_splits)
  show "reads_back v" unfolding v(2)
    by (rule reads_backI [of _ KindFloat "u64_le x"]) (use v(1) in \<open>simp_all add: wire_defs require_at\<close>)
next
  assume "TimeValue t = Inr v"
  then have v: "\<not> (sint t < 0 \<or> maxTimeNanos < sint t)" "v = zero_Value\<lparr>v_kind := KindTime, v_integer := t\<rparr>"
    by (auto simp: TimeValue_def construct_error_def split: if_splits)
  show "reads_back v" unfolding v(2)
    by (rule reads_backI [of _ KindTime "u64_le t"]) (use v(1) in \<open>simp_all add: wire_defs require_at\<close>)
next
  assume "GeoPointValue y z = Inr v"
  then have v: "wgs84 y z" "v = zero_Value\<lparr>v_kind := KindGeoPoint, v_geo := \<lparr>Latitude = y, Longitude = z\<rparr>\<rparr>"
    by (auto simp: GeoPointValue_def construct_error_def split: if_splits)
  show "reads_back v" unfolding v(2)
    by (rule reads_backI [of _ KindGeoPoint "u64_le y @ u64_le z"])
      (use v(1) in \<open>simp_all add: wire_defs require_at [of 16 "u64_le y @ u64_le z", simplified]\<close>)
qed

lemma length_bytes_at:
  assumes "length x \<le> maxWireCellBytes"
  shows "decode_length_bytes (pre @ k # len_bytes_le x @ post) kind (Suc (length pre)) = Inr (x, Suc (length pre + length (len_bytes_le x)))"
proof -
  have "unat (of_nat (length x) :: uint32) = length x" using assms by (simp add: unat_of_nat wire_bounds)
  moreover have "require_bytes (pre @ k # len_bytes_le x @ post) kind (Suc (length pre)) 4
      = Inr (u32_le (of_nat (length x)), Suc (length pre + 4))"
    using require_at [of 4 "u32_le (of_nat (length x))" pre k "x @ post"] by (simp add: len_bytes_le_def)
  moreover have "require_bytes (pre @ k # len_bytes_le x @ post) kind (Suc (length pre + 4)) (length x)
      = Inr (x, Suc (length pre + 4) + length x)"
    by (simp add: require_bytes_def len_bytes_le_def)
  ultimately show ?thesis using assms by (simp add: decode_length_bytes_def Let_def len_bytes_le_def)
qed

lemma append_length_bytes: "length x \<le> maxWireCellBytes \<Longrightarrow> appendLengthBytes buffer x = Inr (buffer @ len_bytes_le x)"
  by (simp add: appendLengthBytes_def wire_bounds)

lemma reads_back_sized:
  assumes "length (v_text v) \<le> maxWireCellBytes" "length (v_bytes v) \<le> maxWireCellBytes"
  shows "TextValue s = Inr v \<Longrightarrow> reads_back v" "v = BlobValue b \<Longrightarrow> reads_back v" "JSONValue b = Inr v \<Longrightarrow> reads_back v"
proof -
  assume "TextValue s = Inr v"
  then have v: "utf8_valid s" "v = zero_Value\<lparr>v_kind := KindText, v_text := s\<rparr>"
    by (auto simp: TextValue_def construct_error_def split: if_splits)
  have "length (bytes_of s) \<le> maxWireCellBytes" using assms by (simp add: v(2))
  then show "reads_back v" unfolding v(2)
    by (intro reads_backI [of _ KindText "len_bytes_le (bytes_of s)"])
      (use v(1) in \<open>simp_all add: wire_defs length_bytes_at append_length_bytes\<close>)
next
  assume v: "v = BlobValue b"
  have "length b \<le> maxWireCellBytes" using assms by (simp add: v BlobValue_def)
  then show "reads_back v" unfolding v
    by (intro reads_backI [of _ KindBlob "len_bytes_le b"]) (simp_all add: wire_defs length_bytes_at append_length_bytes)
next
  assume "JSONValue b = Inr v"
  then have v: "strict_json (string_of b) = Inr ()" "v = zero_Value\<lparr>v_kind := KindJSON, v_bytes := b\<rparr>"
    by (auto simp: JSONValue_def construct_error_def split: if_splits sum.splits)
  have "length b \<le> maxWireCellBytes" using assms by (simp add: v(2))
  then show "reads_back v" unfolding v(2)
    by (intro reads_backI [of _ KindJSON "len_bytes_le b"])
      (use v(1) in \<open>simp_all add: wire_defs length_bytes_at append_length_bytes\<close>)
qed

lemma require_Inr:
  "require_bytes w kind p n = Inr (x, q) \<longleftrightarrow> p + n \<le> length w \<and> x = take n (drop p w) \<and> q = p + n"
  by (auto simp: require_bytes_def not_less)

interpretation vector_element: positional_codec u32_le finite32 decode_float32
proof
  show "finite32 x \<Longrightarrow> decode_float32 (pre @ u32_le x @ post) (length pre) = Inr (x, length pre + length (u32_le x))" for x pre post
    by (simp add: decode_float32_def require_bytes_def Let_def)
next
  fix w p x q
  assume "decode_float32 w p = Inr (x, q)" "p \<le> length w"
  then have "p + 4 \<le> length w" "x = get_u32_le (take 4 (drop p w))" "q = p + 4" "finite32 x"
    by (auto simp: decode_float32_def require_Inr Let_def split: sum.splits if_splits)
  then show "finite32 x \<and> q \<le> length w \<and> q = p + length (u32_le x) \<and> take (length (u32_le x)) (drop p w) = u32_le x"
    by (simp add: u32_le_get)
qed

lemma length_concat_u32: "length (concat (map u32_le xs)) = 4 * length xs"
  by (induction xs) auto

lemma reads_back_vector: "VectorValue xs = Inr v \<Longrightarrow> reads_back v"
proof -
  assume "VectorValue xs = Inr v"
  then have v: "xs \<noteq> []" "length xs \<le> maxVectorDimensions" "list_all finite32 xs" "v = zero_Value\<lparr>v_kind := KindVector, v_vector := xs\<rparr>"
    by (auto simp: VectorValue_def construct_error_def not_less split: if_splits)
  have n: "unat (of_nat (length xs) :: uint32) = length xs" using v(2) by (simp add: unat_of_nat wire_bounds)
  have loop: "pos_loop (\<lambda>_ e. e) decode_float32 0 (length xs) (pre @ KindVector # u32_le (of_nat (length xs)) @ concat (map u32_le xs) @ post)
      (Suc (length pre + 4)) = Inr (xs, Suc (length pre + 4 + 4 * length xs))" for pre post
    using vector_element.loop_enc [OF v(3), of "\<lambda>_ e. e" 0 "pre @ KindVector # u32_le (of_nat (length xs))" post]
    by (simp add: length_concat_u32 add.commute add.left_commute)
  show ?thesis unfolding v(4)
    by (rule reads_backI [of _ KindVector "u32_le (of_nat (length xs)) @ concat (map u32_le xs)"])
      (use v(1-3) n loop [unfolded kind_defs] in \<open>simp_all add: wire_defs require_at [of 4 "u32_le (of_nat (length xs))"] length_concat_u32\<close>)
qed

lemma decimal_Inr:
  "DecimalValue c s = Inr v \<longleftrightarrow> (\<exists>n b. c = Some n \<and> unat s \<le> maxDecimalPrecision \<and> decimalPrecision n \<le> maxDecimalPrecision
     \<and> encodeI128LittleEndian n = Some b \<and> v = zero_Value\<lparr>v_kind := KindDecimal, v_decimal := b, v_scale := s\<rparr>)"
  by (auto simp: DecimalValue_def construct_error_def not_less split: option.splits if_splits)

lemma reads_back_decimal: "DecimalValue c s = Inr v \<Longrightarrow> reads_back v"
proof -
  assume d: "DecimalValue c s = Inr v"
  then obtain n b where v: "c = Some n" "unat s \<le> maxDecimalPrecision" "decimalPrecision n \<le> maxDecimalPrecision"
    "encodeI128LittleEndian n = Some b" "v = zero_Value\<lparr>v_kind := KindDecimal, v_decimal := b, v_scale := s\<rparr>"
    by (auto simp: decimal_Inr)
  have b: "length b = 16" "decodeI128LittleEndian b = n" using i128_decode_encode [OF v(4)] by simp_all
  have "DecimalValue (Some n) s = Inr v" using d v(1) by simp
  then show ?thesis
    by (intro reads_backI [of _ KindDecimal "b @ [s]"])
      (use v(2,3) b in \<open>simp_all add: v(5) wire_defs require_at [of 17 "b @ [s]", simplified] nth_append\<close>)
qed

lemma constructed_reads_back:
  assumes "cell_ok v" shows "reads_back v"
proof -
  have len: "length (v_text v) \<le> maxWireCellBytes" "length (v_bytes v) \<le> maxWireCellBytes" and "constructed v"
    using assms by (auto simp: cell_ok_def)
  from this(3) len show ?thesis
    by cases (auto intro: reads_back_fixed reads_back_checked reads_back_sized reads_back_vector reads_back_decimal)
qed

section \<open>Canonical reads\<close>

text \<open>A read of \<open>v\<close> at \<open>p\<close> consumed the tag and \<open>n\<close> bytes, which are what the encoder writes for \<open>v\<close>.\<close>

definition canonical_read :: "bytes \<Rightarrow> nat \<Rightarrow> Value \<Rightarrow> nat \<Rightarrow> bool" where
  "canonical_read w p v q \<longleftrightarrow> cell_ok v \<and> (\<exists>n. p + 1 + n \<le> length w \<and> q = p + 1 + n
     \<and> appendWireValue [] v = Inr (w ! p # take n (drop (p + 1) w)))"

lemma canonical_readI:
  "constructed v \<Longrightarrow> length (v_text v) \<le> maxWireCellBytes \<Longrightarrow> length (v_bytes v) \<le> maxWireCellBytes \<Longrightarrow>
   p + 1 + n \<le> length w \<Longrightarrow> q = p + 1 + n \<Longrightarrow> appendWireValue [] v = Inr (w ! p # take n (drop (p + 1) w)) \<Longrightarrow>
   canonical_read w p v q"
  by (auto simp: canonical_read_def cell_ok_def)

lemma take_fields:
  "8 \<le> n \<Longrightarrow> p + n \<le> length w \<Longrightarrow> u64_le (get_u64_le (take n (drop p w))) = take 8 (drop p w)"
  "4 \<le> n \<Longrightarrow> p + n \<le> length w \<Longrightarrow> u32_le (get_u32_le (take n (drop p w))) = take 4 (drop p w)"
  by (simp_all add: u64_le_get u32_le_get)

lemma decode_in_range: "decodeWireValue w p = Inr (v, q) \<Longrightarrow> p < length w"
  by (auto simp: decodeWireValue_def split: if_splits)

lemma decode_word_kinds:
  assumes "p < length w"
  shows "w ! p = KindInteger \<Longrightarrow> decodeWireValue w p = (case require_bytes w KindInteger (p + 1) 8 of
      Inl e \<Rightarrow> Inl e | Inr (payload, next) \<Rightarrow> Inr (IntegerValue (get_u64_le payload), next))"
    and "w ! p = KindTimestamp \<Longrightarrow> decodeWireValue w p = (case require_bytes w KindTimestamp (p + 1) 8 of
      Inl e \<Rightarrow> Inl e | Inr (payload, next) \<Rightarrow> Inr (TimestampValue (get_u64_le payload), next))"
    and "w ! p = KindTime \<Longrightarrow> decodeWireValue w p = (case require_bytes w KindTime (p + 1) 8 of
      Inl e \<Rightarrow> Inl e | Inr (payload, next) \<Rightarrow>
        (case TimeValue (get_u64_le payload) of Inl _ \<Rightarrow> Inl (ErrorString ''time payload is outside one day'') | Inr v \<Rightarrow> Inr (v, next)))"
    and "w ! p = KindFloat \<Longrightarrow> decodeWireValue w p = (case require_bytes w KindFloat (p + 1) 8 of
      Inl e \<Rightarrow> Inl e | Inr (payload, next) \<Rightarrow>
        (case FloatValue (get_u64_le payload) of Inl _ \<Rightarrow> Inl (ErrorString ''non-finite float payload'') | Inr v \<Rightarrow> Inr (v, next)))"
    and "w ! p = KindDate \<Longrightarrow> decodeWireValue w p = (case require_bytes w KindDate (p + 1) 4 of
      Inl e \<Rightarrow> Inl e | Inr (payload, next) \<Rightarrow> Inr (DateValue (get_u32_le payload), next))"
    and "w ! p = KindNull \<Longrightarrow> decodeWireValue w p = Inr (NullValue, p + 1)"
  using assms by (simp_all add: decodeWireValue_def kind_defs Let_def IntegerValue_def TimestampValue_def TimeValue_def FloatValue_def
      construct_error_def if_distrib [of "case_sum _ _"] cong: if_cong sum.case_cong prod.case_cong)

lemma canonical_words:
  assumes d: "decodeWireValue w p = Inr (v, q)"
    and k: "w ! p = KindInteger \<or> w ! p = KindTimestamp \<or> w ! p = KindTime \<or> w ! p = KindFloat \<or> w ! p = KindDate \<or> w ! p = KindNull"
  shows "canonical_read w p v q"
proof -
  note kinds = decode_word_kinds [OF decode_in_range [OF d]]
  have lt: "p + 1 \<le> length w" using decode_in_range [OF d] by simp
  let ?u = "get_u64_le (take 8 (drop (p + 1) w))"
  consider "w ! p = KindNull" | "w ! p = KindInteger" | "w ! p = KindTimestamp" | "w ! p = KindTime" | "w ! p = KindFloat" | "w ! p = KindDate"
    using k by blast
  then show ?thesis
  proof cases
    case 1
    then have "v = NullValue" "q = p + 1" using d kinds(6) by simp_all
    then show ?thesis using 1 made_null lt by (intro canonical_readI [of _ _ 0]) (simp_all add: wire_defs)
  next
    case 2
    then have "v = IntegerValue ?u" "p + 1 + 8 \<le> length w" "q = p + 1 + 8"
      using d kinds(1) by (auto simp: require_Inr split: sum.splits)
    then show ?thesis using 2 made_integer by (intro canonical_readI [of _ _ 8]) (simp_all add: wire_defs take_fields)
  next
    case 3
    then have "v = TimestampValue ?u" "p + 1 + 8 \<le> length w" "q = p + 1 + 8"
      using d kinds(2) by (auto simp: require_Inr split: sum.splits)
    then show ?thesis using 3 made_timestamp by (intro canonical_readI [of _ _ 8]) (simp_all add: wire_defs take_fields)
  next
    case 4
    then have v: "TimeValue ?u = Inr v" "p + 1 + 8 \<le> length w" "q = p + 1 + 8"
      using d kinds(3) by (auto simp: require_Inr split: sum.splits)
    then have "v = zero_Value\<lparr>v_kind := KindTime, v_integer := ?u\<rparr>" "\<not> (sint ?u < 0 \<or> maxTimeNanos < sint ?u)"
      by (auto simp: TimeValue_def construct_error_def split: if_splits)
    then show ?thesis using 4 made_time [OF v(1)] v(2,3) by (intro canonical_readI [of _ _ 8]) (simp_all add: wire_defs take_fields)
  next
    case 5
    then have v: "FloatValue ?u = Inr v" "p + 1 + 8 \<le> length w" "q = p + 1 + 8"
      using d kinds(4) by (auto simp: require_Inr split: sum.splits)
    then have "v = zero_Value\<lparr>v_kind := KindFloat, v_float := ?u\<rparr>" "finite64 ?u"
      by (auto simp: FloatValue_def construct_error_def split: if_splits)
    then show ?thesis using 5 made_float [OF v(1)] v(2,3) by (intro canonical_readI [of _ _ 8]) (simp_all add: wire_defs take_fields)
  next
    case 6
    then have "v = DateValue (get_u32_le (take 4 (drop (p + 1) w)))" "p + 1 + 4 \<le> length w" "q = p + 1 + 4"
      using d kinds(5) by (auto simp: require_Inr split: sum.splits)
    then show ?thesis using 6 made_date by (intro canonical_readI [of _ _ 4]) (simp_all add: wire_defs take_fields)
  qed
qed

lemma decode_other_kinds:
  assumes "p < length w"
  shows "w ! p \<in> {KindText, KindBlob, KindJSON} \<Longrightarrow> decodeWireValue w p = (case decode_length_bytes w (w ! p) (p + 1) of
      Inl e \<Rightarrow> Inl e
    | Inr (payload, next) \<Rightarrow>
        if w ! p = KindText then
          (if \<not> utf8_valid (string_of payload) then Inl (ErrorString ''text payload is not UTF-8'')
           else Inr (zero_Value\<lparr>v_kind := KindText, v_text := string_of payload\<rparr>, next))
        else if w ! p = KindJSON then
          (case strict_json (string_of payload) of
             Inl err \<Rightarrow> Inl (WrapError ''JSON payload is not strict JSON: '' err)
           | Inr _ \<Rightarrow> Inr (zero_Value\<lparr>v_kind := KindJSON, v_bytes := payload\<rparr>, next))
        else Inr (BlobValue payload, next))"
    and "w ! p = KindBoolean \<Longrightarrow> decodeWireValue w p = (case require_bytes w KindBoolean (p + 1) 1 of
      Inl e \<Rightarrow> Inl e
    | Inr (payload, next) \<Rightarrow>
        if hd payload \<noteq> 0 \<and> hd payload \<noteq> 1 then Inl (ErrorString ''boolean payload must be 0 or 1'')
        else Inr (zero_Value\<lparr>v_kind := KindBoolean, v_integer := ucast (hd payload)\<rparr>, next))"
    and "w ! p = KindVector \<Longrightarrow> decodeWireValue w p = (case require_bytes w KindVector (p + 1) 4 of
      Inl e \<Rightarrow> Inl e
    | Inr (dimensionBytes, position') \<Rightarrow>
        (let dimension = unat (get_u32_le dimensionBytes)
         in if dimension = 0 \<or> maxVectorDimensions < dimension \<or> (length w - position') div 4 < dimension
            then Inl (ErrorString ''invalid vector dimension'')
            else case pos_loop (\<lambda>_ e. e) decode_float32 0 dimension w position' of
              Inl e \<Rightarrow> Inl e
            | Inr (vector, next) \<Rightarrow> Inr (zero_Value\<lparr>v_kind := KindVector, v_vector := vector\<rparr>, next)))"
    and "w ! p = KindGeoPoint \<Longrightarrow> decodeWireValue w p = (case require_bytes w KindGeoPoint (p + 1) 16 of
      Inl e \<Rightarrow> Inl e
    | Inr (payload, next) \<Rightarrow>
        (case GeoPointValue (get_u64_le (take 8 payload)) (get_u64_le (drop 8 payload)) of
           Inl err \<Rightarrow> Inl err | Inr value \<Rightarrow> Inr (value, next)))"
    and "w ! p = KindDecimal \<Longrightarrow> decodeWireValue w p = (case require_bytes w KindDecimal (p + 1) 17 of
      Inl e \<Rightarrow> Inl e
    | Inr (payload, next) \<Rightarrow>
        (case DecimalValue (Some (decodeI128LittleEndian (take 16 payload))) (payload ! 16) of
           Inl err \<Rightarrow> Inl err | Inr value \<Rightarrow> Inr (value, next)))"
    and "12 < w ! p \<Longrightarrow> \<exists>e. decodeWireValue w p = Inl e"
proof -
  show "w ! p \<in> {KindText, KindBlob, KindJSON} \<Longrightarrow> decodeWireValue w p = (case decode_length_bytes w (w ! p) (p + 1) of
      Inl e \<Rightarrow> Inl e
    | Inr (payload, next) \<Rightarrow>
        if w ! p = KindText then
          (if \<not> utf8_valid (string_of payload) then Inl (ErrorString ''text payload is not UTF-8'')
           else Inr (zero_Value\<lparr>v_kind := KindText, v_text := string_of payload\<rparr>, next))
        else if w ! p = KindJSON then
          (case strict_json (string_of payload) of
             Inl err \<Rightarrow> Inl (WrapError ''JSON payload is not strict JSON: '' err)
           | Inr _ \<Rightarrow> Inr (zero_Value\<lparr>v_kind := KindJSON, v_bytes := payload\<rparr>, next))
        else Inr (BlobValue payload, next))"
    using assms by (elim insertE emptyE)
      (simp_all add: decodeWireValue_def kind_defs Let_def BlobValue_def cong: if_cong sum.case_cong prod.case_cong)
  show "12 < w ! p \<Longrightarrow> \<exists>e. decodeWireValue w p = Inl e"
    using assms by (auto simp: decodeWireValue_def kind_defs Let_def)
qed (use assms in \<open>simp_all add: decodeWireValue_def kind_defs Let_def cong: if_cong sum.case_cong prod.case_cong\<close>)

lemma length_bytes_Inr:
  assumes "decode_length_bytes w kind p = Inr (x, q)"
  shows "length x \<le> maxWireCellBytes" "q = p + 4 + length x" "q \<le> length w" "len_bytes_le x = take (4 + length x) (drop p w)"
proof -
  let ?n = "unat (get_u32_le (take 4 (drop p w)))"
  have h: "p + 4 \<le> length w" "?n \<le> maxWireCellBytes" "x = take ?n (drop (p + 4) w)" "q = p + 4 + ?n" "q \<le> length w"
    using assms by (auto simp: decode_length_bytes_def require_Inr Let_def not_less split: sum.splits if_splits)
  then have n: "length x = ?n" by simp
  show "length x \<le> maxWireCellBytes" "q = p + 4 + length x" "q \<le> length w" using h n by simp_all
  have "u32_le (get_u32_le (take 4 (drop p w))) = take 4 (drop p w)" using h(1) by (simp add: u32_le_get)
  then show "len_bytes_le x = take (4 + length x) (drop p w)"
    unfolding len_bytes_le_def n using h(3) by (simp add: take_add add.commute)
qed

lemma string_of_length: "length (string_of b) = length b"
  by (simp add: string_of_def)

lemma strict_json_empty: "strict_json [] \<noteq> Inr ()"
  by (simp add: strict_json_def decodeStrictJSON_def parse_json_def skip_space_def)

lemma canonical_sized:
  assumes d: "decodeWireValue w p = Inr (v, q)" and k: "w ! p \<in> {KindText, KindBlob, KindJSON}"
  shows "canonical_read w p v q"
proof -
  note kinds = decode_other_kinds(1) [OF decode_in_range [OF d] k]
  obtain x where x: "decode_length_bytes w (w ! p) (p + 1) = Inr (x, q)"
    and v: "w ! p = KindText \<Longrightarrow> utf8_valid (string_of x) \<and> v = zero_Value\<lparr>v_kind := KindText, v_text := string_of x\<rparr>"
      "w ! p = KindJSON \<Longrightarrow> strict_json (string_of x) = Inr () \<and> v = zero_Value\<lparr>v_kind := KindJSON, v_bytes := x\<rparr>"
      "w ! p = KindBlob \<Longrightarrow> v = BlobValue x"
    using d k unfolding kinds by (cases "decode_length_bytes w (w ! p) (p + 1)")
      (auto simp: kind_defs split: if_splits sum.splits prod.splits)
  note l = length_bytes_Inr [OF x]
  note enc = append_length_bytes [OF l(1)]
  from k consider "w ! p = KindText" | "w ! p = KindBlob" | "w ! p = KindJSON" by blast
  then show ?thesis
  proof cases
    case 1
    then have "TextValue (string_of x) = Inr v" using v(1) by (simp add: TextValue_def)
    then have "constructed v" by (rule made_text)
    then show ?thesis using 1 v(1) [OF 1] l enc
      by (intro canonical_readI [of _ _ "4 + length x"]) (simp_all add: wire_defs string_of_length)
  next
    case 2
    then have "constructed v" using v(3) made_blob by simp
    then show ?thesis using 2 v(3) [OF 2] l enc
      by (intro canonical_readI [of _ _ "4 + length x"]) (simp_all add: wire_defs)
  next
    case 3
    have "x \<noteq> []" using v(2) [OF 3] by (auto simp: strict_json_empty string_of_def)
    then have "JSONValue x = Inr v" using v(2) [OF 3] by (simp add: JSONValue_def)
    then have "constructed v" by (rule made_json)
    then show ?thesis using 3 v(2) [OF 3] l enc
      by (intro canonical_readI [of _ _ "4 + length x"]) (simp_all add: wire_defs)
  qed
qed


lemma canonical_boolean:
  assumes d: "decodeWireValue w p = Inr (v, q)" and k: "w ! p = KindBoolean"
  shows "canonical_read w p v q"
proof -
  let ?x = "take 1 (drop (p + 1) w)"
  have h: "p + 1 + 1 \<le> length w" "q = p + 1 + 1" "hd ?x = 0 \<or> hd ?x = 1"
    "v = zero_Value\<lparr>v_kind := KindBoolean, v_integer := ucast (hd ?x)\<rparr>"
    using d unfolding decode_other_kinds(2) [OF decode_in_range [OF d] k]
    by (auto simp: require_Inr split: sum.splits if_splits)
  then have v: "v = BooleanValue (hd ?x = 1)" and x: "?x = [hd ?x]"
    by (auto simp: BooleanValue_def take_Suc hd_drop_conv_nth)
  have "appendWireValue [] v = Inr (KindBoolean # [hd ?x])"
    using h(3) by (auto simp: v wire_defs)
  then show ?thesis using h(1,2) k x v made_boolean
    by (intro canonical_readI [of _ _ 1]) (simp_all add: BooleanValue_def zero_Value_def)
qed

lemma canonical_vector:
  assumes d: "decodeWireValue w p = Inr (v, q)" and k: "w ! p = KindVector"
  shows "canonical_read w p v q"
proof -
  let ?n = "unat (get_u32_le (take 4 (drop (p + 1) w)))"
  obtain xs where h: "p + 1 + 4 \<le> length w" "?n \<noteq> 0" "?n \<le> maxVectorDimensions"
    and loop: "pos_loop (\<lambda>_ e. e) decode_float32 0 ?n w (p + 1 + 4) = Inr (xs, q)"
    and v: "v = zero_Value\<lparr>v_kind := KindVector, v_vector := xs\<rparr>"
    using d unfolding decode_other_kinds(3) [OF decode_in_range [OF d] k]
    by (auto simp: require_Inr Let_def not_less split: sum.splits if_splits prod.splits)
  note c = vector_element.loop_canonical [OF loop h(1)]
  have made: "VectorValue xs = Inr v" using c h(2,3) by (auto simp: v VectorValue_def)
  have n: "of_nat (length xs) = get_u32_le (take 4 (drop (p + 1) w))" using c by simp
  have "u32_le (of_nat (length xs)) = take 4 (drop (p + 1) w)" using h(1) by (simp add: n u32_le_get)
  then have "u32_le (of_nat (length xs)) @ concat (map u32_le xs) = take (4 + 4 * length xs) (drop (p + 1) w)"
    using c by (auto simp: take_add length_concat_u32 add.commute)
  moreover have "appendWireValue [] v = Inr (KindVector # u32_le (of_nat (length xs)) @ concat (map u32_le xs))"
    using c h(2,3) by (auto simp: v wire_defs)
  ultimately show ?thesis using c k made_vector [OF made]
    by (intro canonical_readI [of _ _ "4 + 4 * length xs"]) (simp_all add: v zero_Value_def length_concat_u32)
qed

lemma canonical_geo:
  assumes d: "decodeWireValue w p = Inr (v, q)" and k: "w ! p = KindGeoPoint"
  shows "canonical_read w p v q"
proof -
  let ?x = "take 16 (drop (p + 1) w)"
  have h: "p + 1 + 16 \<le> length w" "q = p + 1 + 16"
    and made: "GeoPointValue (get_u64_le (take 8 ?x)) (get_u64_le (drop 8 ?x)) = Inr v"
    using d unfolding decode_other_kinds(4) [OF decode_in_range [OF d] k] by (auto simp: require_Inr split: sum.splits)
  let ?a = "get_u64_le (take 8 ?x)" and ?b = "get_u64_le (drop 8 ?x)"
  have v: "wgs84 ?a ?b" "v = zero_Value\<lparr>v_kind := KindGeoPoint, v_geo := \<lparr>Latitude = ?a, Longitude = ?b\<rparr>\<rparr>"
    using made by (auto simp: GeoPointValue_def construct_error_def split: if_splits)
  have "u64_le ?a = take 8 ?x" "u64_le ?b = drop 8 ?x" using h(1) by (simp_all add: u64_le_get)
  then have "u64_le ?a @ u64_le ?b = ?x" by (metis append_take_drop_id)
  moreover have "appendWireValue [] v = Inr (KindGeoPoint # u64_le ?a @ u64_le ?b)"
    using v(1) unfolding v(2) by (simp add: appendWireValue_def kind_defs Let_def)
  ultimately show ?thesis using h k made_geo [OF made]
    by (intro canonical_readI [of _ _ 16]) (simp_all add: v(2) zero_Value_def)
qed

lemma canonical_decimal:
  assumes d: "decodeWireValue w p = Inr (v, q)" and k: "w ! p = KindDecimal"
  shows "canonical_read w p v q"
proof -
  let ?x = "take 17 (drop (p + 1) w)"
  have h: "p + 1 + 17 \<le> length w" "q = p + 1 + 17"
    and made: "DecimalValue (Some (decodeI128LittleEndian (take 16 ?x))) (?x ! 16) = Inr v"
    using d unfolding decode_other_kinds(5) [OF decode_in_range [OF d] k] by (auto simp: require_Inr split: sum.splits)
  have "length (take 16 ?x) = 16" using h(1) by simp
  from i128_encode_decode [OF this] made have
    v: "v = zero_Value\<lparr>v_kind := KindDecimal, v_decimal := take 16 ?x, v_scale := ?x ! 16\<rparr>"
      "unat (?x ! 16) \<le> maxDecimalPrecision" "decimalPrecision (decodeI128LittleEndian (take 16 ?x)) \<le> maxDecimalPrecision"
    by (auto simp: decimal_Inr)
  have "take 16 ?x @ [?x ! 16] = take (Suc 16) ?x" using h(1) by (intro take_Suc_conv_app_nth [symmetric]) simp
  then have "take 16 ?x @ [?x ! 16] = ?x" by simp
  moreover have "appendWireValue [] v = Inr (KindDecimal # take 16 ?x @ [?x ! 16])"
    using v(2,3) unfolding v(1) by (simp add: appendWireValue_def kind_defs Let_def)
  ultimately show ?thesis using h k made_decimal [OF made]
    by (intro canonical_readI [of _ _ 17]) (simp_all add: v(1) zero_Value_def)
qed

lemma byte_kinds:
  assumes "k \<le> (12 :: byte)"
  shows "k \<in> {KindNull, KindInteger, KindFloat, KindText, KindBlob, KindBoolean, KindJSON, KindVector, KindTimestamp, KindGeoPoint, KindDate, KindTime, KindDecimal}"
proof -
  have "unat k \<le> 12" using assms by (simp add: word_le_nat_alt)
  then have "unat k \<in> set [0..<13]" by simp
  moreover have "\<forall>n \<in> set [0..<13]. (of_nat n :: byte) \<in> {0, 1, 2, 3, 4, 5, 6, 7, 8, 9, 10, 11, 12}" by code_simp
  ultimately have "(of_nat (unat k) :: byte) \<in> {0, 1, 2, 3, 4, 5, 6, 7, 8, 9, 10, 11, 12}" by blast
  then show ?thesis by (simp add: kind_defs)
qed

lemma decode_is_canonical:
  assumes d: "decodeWireValue w p = Inr (v, q)" shows "canonical_read w p v q"
proof -
  have "w ! p \<le> 12" using decode_other_kinds(6) [OF decode_in_range [OF d]] d by (fastforce simp: not_less [symmetric])
  from byte_kinds [OF this] show ?thesis
    using canonical_words [OF d] canonical_sized [OF d] canonical_boolean [OF d] canonical_vector [OF d] canonical_geo [OF d] canonical_decimal [OF d]
    by blast
qed

interpretation wire: positional_codec cell_bytes cell_ok decodeWireValue
proof
  fix v pre post
  assume "cell_ok v"
  from constructed_reads_back [OF this] show "decodeWireValue (pre @ cell_bytes v @ post) (length pre) = Inr (v, length pre + length (cell_bytes v))"
    by (auto simp: reads_back_def cell_bytes_def)
next
  fix w p v q
  assume d: "decodeWireValue w p = Inr (v, q)"
  from decode_is_canonical [OF d] obtain n where n: "cell_ok v" "p + 1 + n \<le> length w" "q = p + 1 + n"
    "cell_bytes v = w ! p # take n (drop (p + 1) w)"
    by (auto simp: canonical_read_def cell_bytes_def)
  have "drop p w = w ! p # drop (p + 1) w" using n(2) by (simp add: Cons_nth_drop_Suc)
  then show "cell_ok v \<and> q \<le> length w \<and> q = p + length (cell_bytes v) \<and> take (length (cell_bytes v)) (drop p w) = cell_bytes v"
    using n by simp
qed


section \<open>Rows\<close>

definition row_bytes :: "Row \<Rightarrow> bytes" where
  "row_bytes row = concat (map cell_bytes row)"

definition row_ok :: "nat \<Rightarrow> Row \<Rightarrow> bool" where
  "row_ok n row \<longleftrightarrow> length row = n \<and> list_all cell_ok row"

interpretation row: positional_codec row_bytes "row_ok n" "decode_row n" for n
proof
  show "row_ok n x \<Longrightarrow> decode_row n (pre @ row_bytes x @ post) (length pre) = Inr (x, length pre + length (row_bytes x))" for x pre post
    using wire.loop_enc [of x Pair 0 pre post] by (auto simp: row_ok_def row_bytes_def decode_row_def)
  show "decode_row n w p = Inr (x, q) \<Longrightarrow> p \<le> length w \<Longrightarrow>
      row_ok n x \<and> q \<le> length w \<and> q = p + length (row_bytes x) \<and> take (length (row_bytes x)) (drop p w) = row_bytes x" for w p x q
    using wire.loop_canonical [of Pair 0 n w p x q] by (auto simp: row_ok_def row_bytes_def decode_row_def)
qed

text \<open>The result wire of a list of rows, and the bounds under which the decoder takes it.\<close>

definition columns :: "Row list \<Rightarrow> nat" where
  "columns rows = (case rows of [] \<Rightarrow> 0 | row # _ \<Rightarrow> length row)"

definition rows_wire :: "Row list \<Rightarrow> bytes" where
  "rows_wire rows = u32_le (of_nat (length rows)) @ u32_le (of_nat (columns rows)) @ concat (map row_bytes rows)"

definition rows_ok :: "Row list \<Rightarrow> bool" where
  "rows_ok rows \<longleftrightarrow> length rows \<le> maxWireItems \<and> columns rows \<le> maxWireItems \<and> length rows * columns rows \<le> maxWireItems
     \<and> list_all (row_ok (columns rows)) rows"

lemma cell_bytes_nonempty: "cell_ok v \<Longrightarrow> 1 \<le> length (cell_bytes v)"
proof -
  assume v: "cell_ok v"
  have "decodeWireValue (cell_bytes v) 0 = Inr (v, length (cell_bytes v))" using wire.dec_enc [OF v, of "[]" "[]"] by simp
  from decode_in_range [OF this] show ?thesis by linarith
qed

lemma row_bytes_length: "row_ok n row \<Longrightarrow> n \<le> length (row_bytes row)"
proof -
  have "list_all cell_ok r \<Longrightarrow> length r \<le> length (row_bytes r)" for r
    by (induction r) (auto simp: row_bytes_def dest: cell_bytes_nonempty)
  then show "row_ok n row \<Longrightarrow> n \<le> length (row_bytes row)" by (auto simp: row_ok_def)
qed

lemma rows_bytes_length: "list_all (row_ok n) rows \<Longrightarrow> length rows * n \<le> length (concat (map row_bytes rows))"
  by (induction rows) (use row_bytes_length in \<open>fastforce simp: algebra_simps\<close>)+

lemma item_bound: "0 < r \<Longrightarrow> maxWireItems div r < c \<longleftrightarrow> maxWireItems < r * c"
  by (simp add: div_less_iff_less_mult mult.commute)

lemma div_le_bound: "0 < r \<Longrightarrow> c \<le> maxWireItems div r \<Longrightarrow> r * c \<le> maxWireItems"
  using item_bound [of r c] by linarith

lemma count_u32: "n \<le> maxWireItems \<Longrightarrow> unat (of_nat n :: uint32) = n"
  by (simp add: unat_of_nat wire_bounds)

lemma rows_wire_decodes:
  assumes "rows_ok rows" shows "decodeRows (rows_wire rows) = Inr rows"
proof -
  let ?n = "length rows" and ?c = "columns rows" and ?body = "concat (map row_bytes rows)"
  have ok: "?n \<le> maxWireItems" "?c \<le> maxWireItems" "?n * ?c \<le> maxWireItems" "list_all (row_ok ?c) rows"
    using assms by (auto simp: rows_ok_def)
  have w: "length (rows_wire rows) = 8 + length ?body" "get_u32_le (rows_wire rows) = of_nat ?n"
    "get_u32_le (drop 4 (rows_wire rows)) = of_nat ?c"
    by (simp_all add: rows_wire_def)
  have "pos_loop wrap_cell (decode_row ?c) 0 ?n (rows_wire rows) 8 = Inr (rows, 8 + length ?body)"
    using row.loop_enc [OF ok(4), of wrap_cell 0 "u32_le (of_nat ?n) @ u32_le (of_nat ?c)" "[]"] by (simp add: rows_wire_def)
  moreover have "\<not> length (rows_wire rows) < 8" "\<not> length (rows_wire rows) - 8 < ?n * ?c" "rows = [] \<longrightarrow> ?c = 0"
    "\<not> (?n \<noteq> 0 \<and> maxWireItems div ?n < ?c)"
    using ok(3) rows_bytes_length [OF ok(4)] item_bound [of ?n ?c] by (auto simp: w(1) columns_def)
  ultimately show ?thesis
    using ok(1,2) unfolding decodeRows_def Let_def w(2,3) count_u32 [OF ok(1)] count_u32 [OF ok(2)] by (simp add: w(1))
qed

lemma decoded_rows_wire:
  assumes "decodeRows w = Inr rows" shows "rows_ok rows \<and> w = rows_wire rows"
proof -
  let ?n = "unat (get_u32_le w)" and ?c = "unat (get_u32_le (drop 4 w))"
  have h: "8 \<le> length w" "?n \<le> maxWireItems" "?c \<le> maxWireItems" "?n * ?c \<le> maxWireItems" "?n = 0 \<Longrightarrow> ?c = 0"
    and loop: "pos_loop wrap_cell (decode_row ?c) 0 ?n w 8 = Inr (rows, length w)"
    using assms by (auto simp: decodeRows_def not_less div_le_bound Let_def split: if_splits sum.splits prod.splits)
  note c = row.loop_canonical [OF loop h(1)]
  have cols: "columns rows = ?c" using c h(5) by (cases rows) (auto simp: columns_def row_ok_def)
  have "u32_le (get_u32_le w) = take 4 w" "u32_le (get_u32_le (drop 4 w)) = take 4 (drop 4 w)"
    using h(1) by (simp_all add: u32_le_get)
  moreover have "of_nat (length rows) = get_u32_le w" "of_nat (columns rows) = get_u32_le (drop 4 w)"
    using c cols by auto
  moreover have "concat (map row_bytes rows) = drop 8 w" using c by auto
  moreover have "w = take 4 w @ take 4 (drop 4 w) @ drop 8 w"
    by (metis append_take_drop_id drop_drop numeral_Bit0)
  ultimately have "w = rows_wire rows" by (simp add: rows_wire_def)
  moreover have "rows_ok rows" using c cols h by (auto simp: rows_ok_def)
  ultimately show ?thesis by blast
qed

text \<open>
  C20: \<open>decodeRows\<close> accepts exactly the canonical encodings: a wire decodes to \<open>rows\<close> if and only if it is
  the encoding of \<open>rows\<close> (the counts, then every cell as \<open>appendWireValue\<close> writes it, nothing more), the
  rows have one width and fit the bounds, and every cell is a value some public constructor makes. So no
  result wire has two readings and no value outside the constructors reaches a caller.
\<close>

theorem rows_decode_iff_canonical:
  "decodeRows w = Inr rows \<longleftrightarrow> rows_ok rows \<and> w = rows_wire rows"
  using rows_wire_decodes decoded_rows_wire by blast

section \<open>Parameters\<close>

lemma append_cell: "cell_ok v \<Longrightarrow> appendWireValue buffer v = Inr (buffer @ cell_bytes v)"
  using constructed_reads_back [of v] by (auto simp: reads_back_def cell_bytes_def)

lemma encode_loop_cells:
  "list_all cell_ok params \<Longrightarrow> encode_parameters_loop i buffer params = Inr (buffer @ row_bytes params)"
  by (induction params arbitrary: i buffer) (auto simp: append_cell row_bytes_def)

text \<open>
  C21: The parameters of a statement reach the engine as they were given: every list of constructed values
  within the cell bound is encoded, and reading its count of values from the encoding with the value
  grammar gives the same values in the same order and consumes the encoding.
\<close>

theorem parameters_read_back:
  assumes "list_all cell_ok params" "length params < 2 ^ 32"
  shows "\<exists>encoded. encodeParameters params = Inr encoded \<and> unat (get_u32_le encoded) = length params
    \<and> decode_row (length params) encoded 4 = Inr (params, length encoded)"
proof (intro exI conjI)
  let ?e = "u32_le (of_nat (length params)) @ row_bytes params"
  show "encodeParameters params = Inr ?e" using assms by (simp add: encodeParameters_def encode_loop_cells)
  show "unat (get_u32_le ?e) = length params" using assms(2) by (simp add: unat_of_nat)
  have "row_ok (length params) params" using assms(1) by (simp add: row_ok_def)
  from row.dec_enc [OF this, of "u32_le (of_nat (length params))" "[]"]
  show "decode_row (length params) ?e 4 = Inr (params, length ?e)" by simp
qed

theorem parameters_read_back_witness:
  "\<exists>encoded. encodeParameters [IntegerValue 7, NullValue, BooleanValue True] = Inr encoded \<and> unat (get_u32_le encoded) = 3
    \<and> decode_row 3 encoded 4 = Inr ([IntegerValue 7, NullValue, BooleanValue True], length encoded)"
proof -
  have "list_all cell_ok [IntegerValue 7, NullValue, BooleanValue True]"
    by (simp add: cell_ok_def made_integer made_null made_boolean) (simp add: constructor_defs wire_bounds)
  from parameters_read_back [OF this] show ?thesis by (simp add: numeral_3_eq_3)
qed

section \<open>Queries\<close>

text \<open>
  C22: \<open>Query\<close> returns \<open>rows\<close> exactly when the database is open, the statement is non-blank UTF-8 without NUL,
  every parameter encodes, and the engine's reply to that statement and those bytes is the canonical wire of
  \<open>rows\<close> within the size bounds; nothing else of a reply is ever reported as rows.
\<close>

theorem query_returns_iff:
  "snd (Query run db sql params) = Inr rows \<longleftrightarrow>
   (\<exists>handle handle' encoded. db_handle db = Some handle \<and> \<not> blank sql \<and> CHR 0x00 \<notin> set sql \<and> utf8_valid sql
      \<and> encodeParameters params = Inr encoded \<and> run handle sql encoded = (handle', NativeOutput (Some (rows_wire rows)))
      \<and> rows_ok rows \<and> length (rows_wire rows) \<le> maxNativeResultBytes)"
proof -
  have wire: "(case decodeRows w of Inl err \<Rightarrow> Inl (newError CodeProtocolViolation ''query'' ''invalid native row/value wire response'' (Some err))
      | Inr rs \<Rightarrow> Inr rs) = Inr rows \<longleftrightarrow> rows_ok rows \<and> w = rows_wire rows" for w
    using decoded_rows_wire [of w] rows_wire_decodes [of rows] by (auto split: sum.splits)
  have bound: "\<not> (maxNativeResultBytes < n \<or> 2 ^ 31 \<le> n) \<longleftrightarrow> n \<le> maxNativeResultBytes" for n
    by (auto simp: wire_bounds)
  consider "db_handle db = None" | "blank sql \<or> CHR 0x00 \<in> set sql \<or> \<not> utf8_valid sql" | e where "encodeParameters params = Inl e"
    | handle encoded handle' reply where "db_handle db = Some handle" "\<not> (blank sql \<or> CHR 0x00 \<in> set sql \<or> \<not> utf8_valid sql)"
      "encodeParameters params = Inr encoded" "run handle sql encoded = (handle', reply)"
    by (cases "db_handle db"; cases "encodeParameters params") (auto, metis surj_pair)
  then show ?thesis
  proof cases
    case (4 handle encoded handle' reply)
    then show ?thesis
      by (cases reply; simp add: Query_def split: option.split; use bound wire in \<open>auto split: if_splits\<close>)
  qed (auto simp: Query_def closed_error_def split: option.splits)
qed

end
