(* ===== verification/KvCommands.thy ===== *)
theory KvCommands
  imports WireValue
begin

text \<open>
  The commands of \<open>talon.go\<close> that go through \<open>execute\<close>: the KV commands, the vector commands without
  floats, the cluster and statistics commands. Every command sends a JSON object of parameters and reads
  the data of the reply with \<open>json.Unmarshal\<close>, which ignores unknown fields.
\<close>

section \<open>Unmarshalling without strictness\<close>

fun lax_members :: "string list \<Rightarrow> (string \<Rightarrow> 'a decoder) \<Rightarrow> 'a \<Rightarrow> (string \<times> json) list \<Rightarrow> 'a result" where
  "lax_members names set_field old [] = Inr old"
| "lax_members names set_field old ((k, j) # kvs) =
     (case find_field names k of
        None \<Rightarrow> lax_members names set_field old kvs
      | Some f \<Rightarrow>
          (case set_field f old j of
             Inl e \<Rightarrow> Inl e
           | Inr new \<Rightarrow> lax_members names set_field new kvs))"

text \<open>A struct of one field, starting from its zero value.\<close>

definition lax_field :: "string \<Rightarrow> 'a \<Rightarrow> 'a decoder \<Rightarrow> json \<Rightarrow> 'a result" where
  "lax_field name zero dec j =
     (case j of
        JNull \<Rightarrow> Inr zero
      | JObj kvs \<Rightarrow> lax_members [name] (\<lambda>_. dec) zero kvs
      | _ \<Rightarrow> json_error)"

definition json_int :: "'w::len word decoder" where
  "json_int old j =
     (case j of
        JNull \<Rightarrow> Inr old
      | JNum t \<Rightarrow> (case parse_int (LENGTH('w)) t of None \<Rightarrow> json_error | Some n \<Rightarrow> Inr (of_int n))
      | _ \<Rightarrow> json_error)"

text \<open>An empty interface takes any value whose numbers are finite floats.\<close>

fun finite_numbers :: "json \<Rightarrow> bool" where
  "finite_numbers (JNum t) = finite_literal t"
| "finite_numbers (JArr js) = (\<forall>j\<in>set js. finite_numbers j)"
| "finite_numbers (JObj kvs) = (\<forall>kv\<in>set kvs. finite_numbers (snd kv))"
| "finite_numbers _ = True"

definition json_any :: "json decoder" where
  "json_any old j = (if finite_numbers j then Inr j else json_error)"

text \<open>\<open>map[string]interface{}\<close>, nil as \<open>None\<close>.\<close>

definition unmarshal_map :: "json \<Rightarrow> (string \<times> json) list option result" where
  "unmarshal_map j =
     (case j of
        JNull \<Rightarrow> Inr None
      | JObj kvs \<Rightarrow> if finite_numbers j then Inr (Some kvs) else json_error
      | _ \<Rightarrow> json_error)"

section \<open>Commands\<close>

type_synonym 'h talon_execute = "'h \<Rightarrow> string \<Rightarrow> 'h \<times> string native_reply"

definition command :: "'h talon_execute \<Rightarrow> 'h DB \<Rightarrow> string \<Rightarrow> string \<Rightarrow> (string \<times> json) list option \<Rightarrow> (json \<Rightarrow> 'a result)
    \<Rightarrow> 'h DB \<times> 'a result" where
  "command talon_execute db module action params parse =
     (case execute talon_execute db module action (map_option (\<lambda>kvs. Inr (JObj kvs)) params) of
        (db', Inl err) \<Rightarrow> (db', Inl err)
      | (db', Inr data) \<Rightarrow> (db', parse data))"

definition no_result :: "json \<Rightarrow> unit result" where "no_result data = Inr ()"

definition uint_json :: "uint64 \<Rightarrow> json" where "uint_json n = JNum (int_str (uint n))"
definition int_json :: "int64 \<Rightarrow> json" where "int_json n = JNum (int_str (sint n))"
definition strings_json :: "string list option \<Rightarrow> json" where
  "strings_json xs = (case xs of None \<Rightarrow> JNull | Some ys \<Rightarrow> JArr (map JStr ys))"

text \<open>Members in the order of the sorted keys; an absent ttl is left out.\<close>

definition ttl_params :: "string \<Rightarrow> string \<Rightarrow> uint64 option \<Rightarrow> (string \<times> json) list" where
  "ttl_params key value ttl =
     [(''key'', JStr key)] @ (case ttl of None \<Rightarrow> [] | Some t \<Rightarrow> [(''ttl'', uint_json t)]) @ [(''value'', JStr value)]"

definition KvSet :: "'h talon_execute \<Rightarrow> 'h DB \<Rightarrow> string \<Rightarrow> string \<Rightarrow> uint64 option \<Rightarrow> 'h DB \<times> unit result" where
  "KvSet lib db key value ttl = command lib db ''kv'' ''set'' (Some (ttl_params key value ttl)) no_result"

definition KvGet :: "'h talon_execute \<Rightarrow> 'h DB \<Rightarrow> string \<Rightarrow> 'h DB \<times> string option result" where
  "KvGet lib db key = command lib db ''kv'' ''get'' (Some [(''key'', JStr key)])
     (lax_field ''value'' None (json_ptr [] json_string))"

definition KvDel :: "'h talon_execute \<Rightarrow> 'h DB \<Rightarrow> string \<Rightarrow> 'h DB \<times> bool result" where
  "KvDel lib db key = command lib db ''kv'' ''del'' (Some [(''key'', JStr key)]) (lax_field ''deleted'' False json_bool)"

definition KvExists :: "'h talon_execute \<Rightarrow> 'h DB \<Rightarrow> string \<Rightarrow> 'h DB \<times> bool result" where
  "KvExists lib db key = command lib db ''kv'' ''exists'' (Some [(''key'', JStr key)]) (lax_field ''exists'' False json_bool)"

definition KvIncr :: "'h talon_execute \<Rightarrow> 'h DB \<Rightarrow> string \<Rightarrow> 'h DB \<times> int64 result" where
  "KvIncr lib db key = command lib db ''kv'' ''incr'' (Some [(''key'', JStr key)]) (lax_field ''value'' 0 json_int)"

definition KvKeys :: "'h talon_execute \<Rightarrow> 'h DB \<Rightarrow> string \<Rightarrow> 'h DB \<times> string list option result" where
  "KvKeys lib db prefix = command lib db ''kv'' ''keys'' (Some [(''prefix'', JStr prefix)])
     (lax_field ''keys'' None (json_slice [] json_string))"

definition KvMset :: "'h talon_execute \<Rightarrow> 'h DB \<Rightarrow> string list option \<Rightarrow> string list option \<Rightarrow> 'h DB \<times> unit result" where
  "KvMset lib db keys vals = command lib db ''kv'' ''mset''
     (Some [(''keys'', strings_json keys), (''values'', strings_json vals)]) no_result"

definition optional_strings :: "json list option \<Rightarrow> string option list" where
  "optional_strings values =
     (case values of None \<Rightarrow> [] | Some vs \<Rightarrow> map (\<lambda>v. case v of JStr s \<Rightarrow> Some s | _ \<Rightarrow> None) vs)"

definition KvMget :: "'h talon_execute \<Rightarrow> 'h DB \<Rightarrow> string list option \<Rightarrow> 'h DB \<times> string option list result" where
  "KvMget lib db keys = command lib db ''kv'' ''mget'' (Some [(''keys'', strings_json keys)])
     (\<lambda>data. case lax_field ''values'' None (json_slice JNull json_any) data of
        Inl e \<Rightarrow> Inl e | Inr vals \<Rightarrow> Inr (optional_strings vals))"

definition KvKeysMatch :: "'h talon_execute \<Rightarrow> 'h DB \<Rightarrow> string \<Rightarrow> 'h DB \<times> string list option result" where
  "KvKeysMatch lib db pattern = command lib db ''kv'' ''keys_match'' (Some [(''pattern'', JStr pattern)])
     (lax_field ''keys'' None (json_slice [] json_string))"

definition KvExpire :: "'h talon_execute \<Rightarrow> 'h DB \<Rightarrow> string \<Rightarrow> uint64 \<Rightarrow> 'h DB \<times> unit result" where
  "KvExpire lib db key seconds = command lib db ''kv'' ''expire'' (Some [(''key'', JStr key), (''seconds'', uint_json seconds)]) no_result"

definition KvTtl :: "'h talon_execute \<Rightarrow> 'h DB \<Rightarrow> string \<Rightarrow> 'h DB \<times> uint64 option result" where
  "KvTtl lib db key = command lib db ''kv'' ''ttl'' (Some [(''key'', JStr key)]) (lax_field ''ttl'' None (json_ptr 0 json_uint))"

definition KvIncrBy :: "'h talon_execute \<Rightarrow> 'h DB \<Rightarrow> string \<Rightarrow> int64 \<Rightarrow> 'h DB \<times> int64 result" where
  "KvIncrBy lib db key delta = command lib db ''kv'' ''incrby'' (Some [(''delta'', int_json delta), (''key'', JStr key)])
     (lax_field ''value'' 0 json_int)"

definition KvDecrBy :: "'h talon_execute \<Rightarrow> 'h DB \<Rightarrow> string \<Rightarrow> int64 \<Rightarrow> 'h DB \<times> int64 result" where
  "KvDecrBy lib db key delta = command lib db ''kv'' ''decrby'' (Some [(''delta'', int_json delta), (''key'', JStr key)])
     (lax_field ''value'' 0 json_int)"

definition KvSetNX :: "'h talon_execute \<Rightarrow> 'h DB \<Rightarrow> string \<Rightarrow> string \<Rightarrow> uint64 option \<Rightarrow> 'h DB \<times> bool result" where
  "KvSetNX lib db key value ttl = command lib db ''kv'' ''setnx'' (Some (ttl_params key value ttl)) (lax_field ''set'' False json_bool)"

definition page_params :: "string \<Rightarrow> uint64 \<Rightarrow> uint64 \<Rightarrow> (string \<times> json) list" where
  "page_params prefix offset limit = [(''limit'', uint_json limit), (''offset'', uint_json offset), (''prefix'', JStr prefix)]"

definition KvKeysLimit :: "'h talon_execute \<Rightarrow> 'h DB \<Rightarrow> string \<Rightarrow> uint64 \<Rightarrow> uint64 \<Rightarrow> 'h DB \<times> string list option result" where
  "KvKeysLimit lib db prefix offset limit = command lib db ''kv'' ''keys_limit'' (Some (page_params prefix offset limit))
     (lax_field ''keys'' None (json_slice [] json_string))"

definition KvScanLimit :: "'h talon_execute \<Rightarrow> 'h DB \<Rightarrow> string \<Rightarrow> uint64 \<Rightarrow> uint64 \<Rightarrow> 'h DB \<times> json result" where
  "KvScanLimit lib db prefix offset limit = command lib db ''kv'' ''scan_limit'' (Some (page_params prefix offset limit)) Inr"

definition KvCount :: "'h talon_execute \<Rightarrow> 'h DB \<Rightarrow> 'h DB \<times> uint64 result" where
  "KvCount lib db = command lib db ''kv'' ''count'' None (lax_field ''count'' 0 json_uint)"

definition VectorDelete :: "'h talon_execute \<Rightarrow> 'h DB \<Rightarrow> string \<Rightarrow> uint64 \<Rightarrow> 'h DB \<times> unit result" where
  "VectorDelete lib db name vid = command lib db ''vector'' ''delete'' (Some [(''id'', uint_json vid), (''name'', JStr name)]) no_result"

definition VectorCount :: "'h talon_execute \<Rightarrow> 'h DB \<Rightarrow> string \<Rightarrow> 'h DB \<times> uint64 result" where
  "VectorCount lib db name = command lib db ''vector'' ''count'' (Some [(''name'', JStr name)]) (lax_field ''count'' 0 json_uint)"

definition VectorSetEfSearch :: "'h talon_execute \<Rightarrow> 'h DB \<Rightarrow> string \<Rightarrow> int64 \<Rightarrow> 'h DB \<times> unit result" where
  "VectorSetEfSearch lib db name efSearch =
     command lib db ''vector'' ''set_ef_search'' (Some [(''ef_search'', int_json efSearch), (''name'', JStr name)]) no_result"

definition Stats :: "'h talon_execute \<Rightarrow> 'h DB \<Rightarrow> 'h DB \<times> (string \<times> json) list option result" where
  "Stats lib db = command lib db ''stats'' [] None unmarshal_map"

definition ClusterStatus :: "'h talon_execute \<Rightarrow> 'h DB \<Rightarrow> 'h DB \<times> (string \<times> json) list option result" where
  "ClusterStatus lib db = command lib db ''cluster'' ''status'' None unmarshal_map"

definition ClusterPromote :: "'h talon_execute \<Rightarrow> 'h DB \<Rightarrow> 'h DB \<times> unit result" where
  "ClusterPromote lib db = command lib db ''cluster'' ''promote'' None no_result"

definition ClusterReplicas :: "'h talon_execute \<Rightarrow> 'h DB \<Rightarrow> 'h DB \<times> json result" where
  "ClusterReplicas lib db = command lib db ''cluster'' ''replicas'' None Inr"

definition DatabaseStats :: "'h talon_execute \<Rightarrow> 'h DB \<Rightarrow> 'h DB \<times> (string \<times> json) list option result" where
  "DatabaseStats lib db = command lib db ''database_stats'' [] None unmarshal_map"

definition HealthCheck :: "'h talon_execute \<Rightarrow> 'h DB \<Rightarrow> 'h DB \<times> (string \<times> json) list option result" where
  "HealthCheck lib db = command lib db ''health_check'' [] None unmarshal_map"

definition SQL :: "('h \<Rightarrow> string \<Rightarrow> bytes \<Rightarrow> 'h \<times> bytes native_reply) \<Rightarrow> 'h DB \<Rightarrow> string \<Rightarrow> 'h DB \<times> go_value list list result" where
  "SQL talon_run_sql_param_bin db query =
     (case Query talon_run_sql_param_bin db query [] of
        (db', Inl err) \<Rightarrow> (db', Inl err)
      | (db', Inr rows) \<Rightarrow> (db', Inr (map (map GoValue) rows)))"

lemmas command_defs = KvSet_def KvGet_def KvDel_def KvExists_def KvIncr_def KvKeys_def KvMset_def KvMget_def KvKeysMatch_def
  KvExpire_def KvTtl_def KvIncrBy_def KvDecrBy_def KvSetNX_def KvKeysLimit_def KvScanLimit_def KvCount_def
  VectorDelete_def VectorCount_def VectorSetEfSearch_def Stats_def ClusterStatus_def ClusterPromote_def ClusterReplicas_def
  DatabaseStats_def HealthCheck_def


section \<open>Transport\<close>





lemma find_field_exact [simp]: "f \<in> set names \<Longrightarrow> find_field names f = Some f"
  by (simp add: find_field_def)













section \<open>A key-value store behind the commands\<close>













section \<open>Examples\<close>





end
