(* ===== verification/KvRead.thy ===== *)
theory KvRead
  imports Database
begin

text \<open>
  Binary key-value reads, \<open>talon_kv_read.go\<close>: the request and reply encodings of the native read
  call and the operations over them. The reply grammar is an instance of \<open>positional_codec\<close>.
\<close>

definition nativeKVReadGet :: uint32 where "nativeKVReadGet = 1"
definition nativeKVReadMGet :: uint32 where "nativeKVReadMGet = 2"
definition nativeKVReadExists :: uint32 where "nativeKVReadExists = 3"
definition nativeKVReadType :: uint32 where "nativeKVReadType = 4"
definition nativeKVReadTTL :: uint32 where "nativeKVReadTTL = 5"
definition nativeKVMaxRequest :: nat where "nativeKVMaxRequest = 2 ^ 20"
definition nativeKVMaxReply :: nat where "nativeKVMaxReply = 64 * 2 ^ 20"
definition nativeKVMaxKeys :: nat where "nativeKVMaxKeys = 4096"
definition nativeKVMaxKey :: nat where "nativeKVMaxKey = 64 * 2 ^ 10"
definition nativeKVMaxValue :: nat where "nativeKVMaxValue = 16 * 2 ^ 20"

lemmas kv_bounds = nativeKVMaxRequest_def nativeKVMaxReply_def nativeKVMaxKeys_def nativeKVMaxKey_def nativeKVMaxValue_def

text \<open>The value of an absent key is nil, which is read as the empty byte string.\<close>

record KVBytes =
  kv_Value :: bytes
  kv_Present :: bool

section \<open>Requests\<close>

definition kv_invalid :: "string \<Rightarrow> 'a result" where
  "kv_invalid message = Inl (newError CodeInvalidArgument ''native KV read'' message None)"

fun kv_request_size :: "nat \<Rightarrow> bytes list \<Rightarrow> nat result" where
  "kv_request_size used [] = Inr used"
| "kv_request_size used (key # keys) =
     (if nativeKVMaxKey < length key \<or> int nativeKVMaxRequest - 4 - int (length key) < int used
      then kv_invalid ''key or request exceeds the native bound''
      else kv_request_size (used + 4 + length key) keys)"

definition encodeNativeKVKeys :: "bytes list \<Rightarrow> bool \<Rightarrow> bytes result" where
  "encodeNativeKVKeys keys multiple =
     (if \<not> multiple \<and> length keys \<noteq> 1 then kv_invalid ''exactly one key is required''
      else if nativeKVMaxKeys < length keys then kv_invalid ''key count exceeds 4096''
      else case kv_request_size (if multiple then 4 else 0) keys of
        Inl e \<Rightarrow> Inl e
      | Inr used \<Rightarrow>
          Inr ((if multiple then u32_le (of_nat (length keys)) else []) @ concat (map len_bytes_le keys)))"

definition KVSetBytes :: "('h \<Rightarrow> bytes \<Rightarrow> bytes \<Rightarrow> int64 \<Rightarrow> 'h \<times> unit native_reply) \<Rightarrow> 'h DB \<Rightarrow> bytes \<Rightarrow> bytes \<Rightarrow> int64
    \<Rightarrow> 'h DB \<times> unit result" where
  "KVSetBytes talon_kv_set db key value ttlSeconds =
     (if nativeKVMaxKey < length key \<or> nativeKVMaxValue < length value
      then (db, Inl (newError CodeInvalidArgument ''native KV SET'' ''key or value exceeds the native bound'' None))
      else case db_handle db of
        None \<Rightarrow> (db, closed_error ''native KV SET'')
      | Some handle \<Rightarrow>
          (case talon_kv_set handle key value ttlSeconds of
             (handle', NativeFailed code) \<Rightarrow>
               (db\<lparr>db_handle := Some handle'\<rparr>, Inl (nativeFailure ''native KV SET'' ''talon_kv_set failed'' code))
           | (handle', NativeOutput _) \<Rightarrow> (db\<lparr>db_handle := Some handle'\<rparr>, Inr ())))"

type_synonym 'h kv_read = "'h \<Rightarrow> uint32 \<Rightarrow> bytes \<Rightarrow> 'h \<times> bytes native_reply"

definition nativeKVRead :: "'h kv_read \<Rightarrow> 'h DB \<Rightarrow> uint32 \<Rightarrow> bytes \<Rightarrow> 'h DB \<times> bytes result" where
  "nativeKVRead talon_kv_read db operation request =
     (case RequireCapability (db_nativeInfo db) ''native_kv_read'' of
        Inl err \<Rightarrow> (db, Inl err)
      | Inr _ \<Rightarrow>
          (case db_handle db of
             None \<Rightarrow> (db, closed_error ''native KV read'')
           | Some handle \<Rightarrow>
               if length request = 0 \<or> nativeKVMaxRequest < length request
               then (db, kv_invalid ''request exceeds the native bound'')
               else case talon_kv_read handle operation request of
                 (handle', reply) \<Rightarrow>
                   (db\<lparr>db_handle := Some handle'\<rparr>,
                    (case reply of
                       NativeFailed code \<Rightarrow> Inl (nativeFailure ''native KV read'' ''talon_kv_read_v1 failed'' code)
                     | NativeOutput output \<Rightarrow>
                         (case output of
                            None \<Rightarrow> Inl (newError CodeProtocolViolation ''native KV read''
                                      ''native reply is null or exceeds the SDK bound'' None)
                          | Some data \<Rightarrow>
                              if nativeKVMaxReply < length data \<or> 2 ^ 31 \<le> length data
                              then Inl (newError CodeProtocolViolation ''native KV read''
                                     ''native reply is null or exceeds the SDK bound'' None)
                              else Inr data)))))"

section \<open>Replies\<close>

definition absent :: KVBytes where "absent = \<lparr>kv_Value = [], kv_Present = False\<rparr>"

definition parseNativeKVValue :: "bytes \<Rightarrow> nat \<Rightarrow> (KVBytes \<times> nat) result" where
  "parseNativeKVValue data offset =
     (if length data \<le> offset then Inl (ErrorString ''truncated KV value tag'')
      else
        (let tag = data ! offset; offset = offset + 1
         in if tag = 0 then Inr (absent, offset)
            else if tag \<noteq> 1 \<or> length data - offset < 4 then Inl (ErrorString ''invalid or truncated KV value header'')
            else
              (let len = unat (get_u32_le (drop offset data)); offset = offset + 4
               in if length data - offset < len then Inl (ErrorString ''truncated KV value'')
                  else Inr (\<lparr>kv_Value = take len (drop offset data), kv_Present = True\<rparr>, offset + len))))"

definition parseNativeKVGet :: "bytes \<Rightarrow> KVBytes result" where
  "parseNativeKVGet data =
     (case parseNativeKVValue data 0 of
        Inl err \<Rightarrow> Inl (newError CodeProtocolViolation ''native KV GET'' ''invalid native reply'' (Some err))
      | Inr (value, offset) \<Rightarrow>
          if offset \<noteq> length data
          then Inl (newError CodeProtocolViolation ''native KV GET'' ''invalid native reply'' None)
          else Inr value)"

definition parseNativeKVMGet :: "bytes \<Rightarrow> nat \<Rightarrow> KVBytes list result" where
  "parseNativeKVMGet data want =
     (if length data < 4 \<or> get_u32_le data \<noteq> of_nat want
      then Inl (newError CodeProtocolViolation ''native KV MGET'' ''native reply count differs from request'' None)
      else case pos_loop (\<lambda>_ err. newError CodeProtocolViolation ''native KV MGET'' ''invalid native value'' (Some err))
                  parseNativeKVValue 0 want data 4 of
        Inl err \<Rightarrow> Inl err
      | Inr (values, offset) \<Rightarrow>
          if offset \<noteq> length data
          then Inl (newError CodeProtocolViolation ''native KV MGET'' ''native reply has trailing bytes'' None)
          else Inr values)"

section \<open>Operations\<close>

text \<open>Every read encodes its keys, calls the library and parses the reply; errors end it at once.\<close>

definition kv_read_with :: "'h kv_read \<Rightarrow> 'h DB \<Rightarrow> uint32 \<Rightarrow> bytes list \<Rightarrow> bool \<Rightarrow> (bytes \<Rightarrow> 'a result) \<Rightarrow> 'h DB \<times> 'a result" where
  "kv_read_with talon_kv_read db operation keys multiple parse =
     (case encodeNativeKVKeys keys multiple of
        Inl err \<Rightarrow> (db, Inl err)
      | Inr request \<Rightarrow>
          (case nativeKVRead talon_kv_read db operation request of
             (db', Inl err) \<Rightarrow> (db', Inl err)
           | (db', Inr data) \<Rightarrow> (db', parse data)))"

definition KVGetBytes :: "'h kv_read \<Rightarrow> 'h DB \<Rightarrow> bytes \<Rightarrow> 'h DB \<times> KVBytes result" where
  "KVGetBytes talon_kv_read db key = kv_read_with talon_kv_read db nativeKVReadGet [key] False parseNativeKVGet"

definition KVMGetBytes :: "'h kv_read \<Rightarrow> 'h DB \<Rightarrow> bytes list \<Rightarrow> 'h DB \<times> KVBytes list result" where
  "KVMGetBytes talon_kv_read db keys =
     kv_read_with talon_kv_read db nativeKVReadMGet keys True (\<lambda>data. parseNativeKVMGet data (length keys))"

definition parse_exists :: "nat \<Rightarrow> bytes \<Rightarrow> int64 result" where
  "parse_exists keys data =
     (if length data \<noteq> 8 then Inl (newError CodeProtocolViolation ''native KV EXISTS'' ''invalid native reply length'' None)
      else
        (let count = get_u64_le data
         in if sint count < 0 \<or> int keys < sint count
            then Inl (newError CodeProtocolViolation ''native KV EXISTS'' ''invalid native key count'' None)
            else Inr count))"

definition KVExistsBytes :: "'h kv_read \<Rightarrow> 'h DB \<Rightarrow> bytes list \<Rightarrow> 'h DB \<times> int64 result" where
  "KVExistsBytes talon_kv_read db keys =
     kv_read_with talon_kv_read db nativeKVReadExists keys True (parse_exists (length keys))"

definition parse_type :: "bytes \<Rightarrow> string result" where
  "parse_type data =
     (if length data \<noteq> 1 then Inl (newError CodeProtocolViolation ''native KV TYPE'' ''invalid native reply length'' None)
      else if hd data = 0 then Inr ''none''
      else if hd data = 1 then Inr ''string''
      else Inl (newError CodeProtocolViolation ''native KV TYPE'' ''unknown native key type'' None))"

definition KVTypeBytes :: "'h kv_read \<Rightarrow> 'h DB \<Rightarrow> bytes \<Rightarrow> 'h DB \<times> string result" where
  "KVTypeBytes talon_kv_read db key = kv_read_with talon_kv_read db nativeKVReadType [key] False parse_type"

definition parse_ttl :: "bytes \<Rightarrow> int64 result" where
  "parse_ttl data =
     (if length data \<noteq> 8 then Inl (newError CodeProtocolViolation ''native KV TTL'' ''invalid native reply length'' None)
      else
        (let ttl = get_u64_le data
         in if sint ttl < - 2 then Inl (newError CodeProtocolViolation ''native KV TTL'' ''invalid native TTL'' None)
            else Inr ttl))"

definition KVTTLBytes :: "'h kv_read \<Rightarrow> 'h DB \<Rightarrow> bytes \<Rightarrow> 'h DB \<times> int64 result" where
  "KVTTLBytes talon_kv_read db key = kv_read_with talon_kv_read db nativeKVReadTTL [key] False parse_ttl"

section \<open>The reply grammar\<close>

definition kv_value_bytes :: "KVBytes \<Rightarrow> bytes" where
  "kv_value_bytes v = (if kv_Present v then 1 # len_bytes_le (kv_Value v) else [0])"

definition kv_value_ok :: "KVBytes \<Rightarrow> bool" where
  "kv_value_ok v \<longleftrightarrow> fits_u32 (kv_Value v) \<and> (kv_Present v \<or> kv_Value v = [])"

lemma KVBytes_split: "v = \<lparr>kv_Value = kv_Value v, kv_Present = kv_Present v\<rparr>"
  by simp

interpretation kv_reply: positional_codec kv_value_bytes kv_value_ok parseNativeKVValue
proof
  fix v pre post
  assume ok: "kv_value_ok v"
  then have "unat (of_nat (length (kv_Value v)) :: uint32) = length (kv_Value v)"
    by (simp add: kv_value_ok_def fits_u32_def unat_of_nat)
  with ok show "parseNativeKVValue (pre @ kv_value_bytes v @ post) (length pre) = Inr (v, length pre + length (kv_value_bytes v))"
    by (cases v) (auto simp: parseNativeKVValue_def kv_value_bytes_def absent_def kv_value_ok_def Let_def len_bytes_le_def nth_append)
next
  fix w p v q
  assume d: "parseNativeKVValue w p = Inr (v, q)" and p: "p \<le> length w"
  have lt: "p < length w" using d by (auto simp: parseNativeKVValue_def split: if_splits)
  then have split: "drop p w = w ! p # drop (p + 1) w" by (simp add: Cons_nth_drop_Suc)
  show "kv_value_ok v \<and> q \<le> length w \<and> q = p + length (kv_value_bytes v) \<and> take (length (kv_value_bytes v)) (drop p w) = kv_value_bytes v"
  proof (cases "w ! p = 0")
    case True
    then show ?thesis using d lt split
      by (auto simp: parseNativeKVValue_def absent_def kv_value_ok_def kv_value_bytes_def fits_u32_def Let_def)
  next
    case False
    let ?n = "unat (get_u32_le (drop (p + 1) w))"
    have t: "w ! p = 1" "p + 5 \<le> length w" "?n \<le> length w - (p + 5)" "v = \<lparr>kv_Value = take ?n (drop (p + 5) w), kv_Present = True\<rparr>"
      "q = p + 5 + ?n"
      using d lt False by (auto simp: parseNativeKVValue_def Let_def not_less numeral_eq_Suc split: if_splits)
    have "u32_le (of_nat ?n) = take 4 (drop (p + 1) w)"
      using t(2) by (simp add: u32_le_get)
    moreover have "kv_value_bytes v = 1 # u32_le (of_nat ?n) @ take ?n (drop (p + 5) w)"
      using t(3) by (simp add: kv_value_bytes_def t(4) len_bytes_le_def)
    ultimately have "kv_value_bytes v = w ! p # take (4 + ?n) (drop (p + 1) w)"
      using t(1) by (simp add: take_add add.commute)
    moreover have "?n < 2 ^ 32" using unat_width [of "get_u32_le (drop (p + 1) w)"] by simp
    ultimately show ?thesis using t split by (auto simp: kv_value_ok_def fits_u32_def take_Cons')
  qed
qed

lemma parse_mget_iff:
  assumes "want < 2 ^ 32"
  shows "parseNativeKVMGet data want = Inr values \<longleftrightarrow> length values = want \<and> list_all kv_value_ok values
    \<and> data = u32_le (of_nat want) @ concat (map kv_value_bytes values)"
  (is "?L \<longleftrightarrow> ?R")
proof
  assume ?L
  then obtain q where head: "4 \<le> length data" "get_u32_le data = of_nat want"
    and loop: "pos_loop (\<lambda>_ err. newError CodeProtocolViolation ''native KV MGET'' ''invalid native value'' (Some err))
      parseNativeKVValue 0 want data 4 = Inr (values, q)" and q: "q = length data"
    unfolding parseNativeKVMGet_def by (auto simp: not_less split: if_splits sum.splits prod.splits)
  note c = kv_reply.loop_canonical [OF loop head(1)]
  have "take 4 data = u32_le (of_nat want)" using u32_le_get [OF head(1)] head(2) by simp
  moreover have "drop 4 data = concat (map kv_value_bytes values)"
    using c q by (metis add_diff_cancel_left' length_drop order_refl take_all)
  ultimately show ?R using c append_take_drop_id [of 4 data] by metis
next
  assume R: ?R
  then have "pos_loop (\<lambda>_ err. newError CodeProtocolViolation ''native KV MGET'' ''invalid native value'' (Some err))
      parseNativeKVValue 0 want data 4 = Inr (values, length data)"
    using kv_reply.loop_enc [of "values" _ 0 "u32_le (of_nat want)" "[]"] by auto
  then show ?L using R by (simp add: parseNativeKVMGet_def)
qed

section \<open>The request grammar\<close>

lemma kv_request_size_iff:
  "used \<le> nativeKVMaxRequest \<Longrightarrow> kv_request_size used keys = Inr n \<longleftrightarrow>
     list_all (\<lambda>k. length k \<le> nativeKVMaxKey) keys \<and> n = used + sum_list (map (\<lambda>k. 4 + length k) keys) \<and> n \<le> nativeKVMaxRequest"
  by (induction used keys rule: kv_request_size.induct) (auto simp: kv_invalid_def)

definition kv_keys_ok :: "bytes list \<Rightarrow> bool \<Rightarrow> bool" where
  "kv_keys_ok keys multiple \<longleftrightarrow> (multiple \<or> length keys = 1) \<and> length keys \<le> nativeKVMaxKeys
     \<and> list_all (\<lambda>k. length k \<le> nativeKVMaxKey) keys
     \<and> (if multiple then 4 else 0) + sum_list (map (\<lambda>k. 4 + length k) keys) \<le> nativeKVMaxRequest"

lemma encode_keys_iff:
  "encodeNativeKVKeys keys multiple = Inr request \<longleftrightarrow> kv_keys_ok keys multiple
     \<and> request = (if multiple then u32_le (of_nat (length keys)) else []) @ concat (map len_bytes_le keys)"
proof -
  let ?i = "if multiple then 4 else 0 :: nat"
  have "?i \<le> nativeKVMaxRequest" by (simp add: kv_bounds)
  then have total: "(\<exists>n. kv_request_size ?i keys = Inr n) \<longleftrightarrow>
      list_all (\<lambda>k. length k \<le> nativeKVMaxKey) keys \<and> ?i + sum_list (map (\<lambda>k. 4 + length k) keys) \<le> nativeKVMaxRequest"
    using kv_request_size_iff [of ?i keys] by simp
  show ?thesis
  proof (cases "kv_request_size ?i keys")
    case (Inl e)
    then have "\<not> kv_keys_ok keys multiple" using total by (auto simp: kv_keys_ok_def)
    then show ?thesis unfolding encodeNativeKVKeys_def kv_invalid_def Inl by simp
  next
    case (Inr n)
    then have "list_all (\<lambda>k. length k \<le> nativeKVMaxKey) keys" "?i + sum_list (map (\<lambda>k. 4 + length k) keys) \<le> nativeKVMaxRequest"
      using total by blast+
    then show ?thesis unfolding encodeNativeKVKeys_def kv_keys_ok_def kv_invalid_def Inr by auto
  qed
qed

lemma encoded_keys_length:
  assumes "encodeNativeKVKeys keys multiple = Inr request"
  shows "0 < length request \<and> length request \<le> nativeKVMaxRequest"
proof -
  have "length (concat (map len_bytes_le keys)) = sum_list (map (\<lambda>k. 4 + length k) keys)"
    by (induction keys) (simp_all add: len_bytes_le_def)
  then show ?thesis using assms by (cases keys) (auto simp: encode_keys_iff kv_keys_ok_def len_bytes_le_def)
qed

lemma encoded_keys_inject:
  assumes "encodeNativeKVKeys keys multiple = Inr request" "encodeNativeKVKeys keys' multiple = Inr request"
  shows "keys = keys'"
proof -
  have fits: "list_all fits_u32 ks" if "kv_keys_ok ks m" for ks m
    using that by (auto simp: kv_keys_ok_def fits_u32_def list_all_iff kv_bounds)
  have ok: "kv_keys_ok keys multiple" "kv_keys_ok keys' multiple" using assms by (simp_all add: encode_keys_iff)
  have len: "length keys = length keys'"
  proof (cases multiple)
    case True
    then have "u32_le (of_nat (length keys)) @ concat (map len_bytes_le keys) = u32_le (of_nat (length keys')) @ concat (map len_bytes_le keys')"
      using assms by (simp add: encode_keys_iff)
    then have "(of_nat (length keys) :: uint32) = of_nat (length keys')" by simp
    then show ?thesis using ok by (subst (asm) of_nat_u32_inject) (auto simp: kv_keys_ok_def kv_bounds)
  qed (use ok in \<open>simp add: kv_keys_ok_def\<close>)
  then have "concat (map len_bytes_le keys) @ [] = concat (map len_bytes_le keys') @ []"
    using assms by (auto simp: encode_keys_iff)
  then show ?thesis using lp_le.concat_split [OF fits [OF ok(1)] fits [OF ok(2)] len] by blast
qed

section \<open>Properties\<close>

text \<open>
  C23: an MGET reply is accepted exactly when it is the canonical encoding of as many values as keys
  were asked for, and the values are read in order, an absent key apart from an empty value. There is
  no other reply with the same meaning and none that is read in two ways.
\<close>

theorem kv_mget_reply_canonical:
  assumes "want \<le> nativeKVMaxKeys"
  shows "parseNativeKVMGet data want = Inr values \<longleftrightarrow> length values = want \<and> list_all kv_value_ok values
    \<and> data = u32_le (of_nat want) @ concat (map kv_value_bytes values)"
  using assms by (intro parse_mget_iff) (simp add: kv_bounds)

theorem kv_mget_reply_canonical_witness:
  "parseNativeKVMGet [2, 0, 0, 0, 0, 1, 0, 0, 0, 0] 2
    = Inr [\<lparr>kv_Value = [], kv_Present = False\<rparr>, \<lparr>kv_Value = [], kv_Present = True\<rparr>]"
proof -
  have "u32_le 2 = [2, 0, 0, 0]" "u32_le 0 = [0, 0, 0, 0]" by code_simp+
  then show ?thesis
    using kv_mget_reply_canonical [of 2 "[2, 0, 0, 0, 0, 1, 0, 0, 0, 0]"
        "[\<lparr>kv_Value = [], kv_Present = False\<rparr>, \<lparr>kv_Value = [], kv_Present = True\<rparr>]"]
    by (simp add: kv_bounds kv_value_ok_def kv_value_bytes_def len_bytes_le_def fits_u32_def)
qed

text \<open>
  A read request determines its keys and keeps within the native bound, so the check of the bound
  before the native call never fails after the keys were encoded.
\<close>

theorem kv_request_determines_keys:
  assumes "encodeNativeKVKeys keys multiple = Inr request"
  shows "0 < length request \<and> length request \<le> nativeKVMaxRequest
    \<and> {keys'. encodeNativeKVKeys keys' multiple = Inr request} = {keys}"
  using encoded_keys_length [OF assms] encoded_keys_inject [OF _ assms] assms by blast

theorem kv_request_determines_keys_witness:
  "encodeNativeKVKeys [[7], []] True = Inr [2, 0, 0, 0, 1, 0, 0, 0, 7, 0, 0, 0, 0]
    \<and> {keys'. encodeNativeKVKeys keys' True = Inr [2, 0, 0, 0, 1, 0, 0, 0, 7, 0, 0, 0, 0]} = {[[7], []]}"
proof -
  have "u32_le 2 = [2, 0, 0, 0]" "u32_le 1 = [1, 0, 0, 0]" "u32_le 0 = [0, 0, 0, 0]" by code_simp+
  then have "encodeNativeKVKeys [[7], []] True = Inr [2, 0, 0, 0, 1, 0, 0, 0, 7, 0, 0, 0, 0]"
    by (simp add: encode_keys_iff kv_keys_ok_def len_bytes_le_def kv_bounds)
  with kv_request_determines_keys [OF this] show ?thesis by blast
qed

end
