(* ===== verification/Session.thy ===== *)
theory Session
  imports KvCommands KvRead
begin

text \<open>
  The lifetime of a database: the calls of the native operations in any order over one library, as a step
  relation on the state of the \<open>DB\<close> value. The read-write lock of \<open>DB\<close> orders \<open>Close\<close> against the other
  calls, so a session is a sequence of calls.
\<close>

section \<open>Calls\<close>

record 'h native_library =
  lib_persist :: "'h \<Rightarrow> 'h \<times> unit native_reply"
  lib_execute :: "'h talon_execute"
  lib_sql :: "'h \<Rightarrow> string \<Rightarrow> bytes \<Rightarrow> 'h \<times> bytes native_reply"
  lib_kv_set :: "'h \<Rightarrow> bytes \<Rightarrow> bytes \<Rightarrow> int64 \<Rightarrow> 'h \<times> unit native_reply"
  lib_kv_read :: "'h kv_read"

datatype api_call =
    CallClose
  | CallPersist
  | CallExecute string string "json result option"
  | CallQuery string "Value list"
  | CallExec string "Value list"
  | CallKVSet bytes bytes int64
  | CallKVGet bytes
  | CallKVMGet "bytes list"
  | CallKVExists "bytes list"
  | CallKVType bytes
  | CallKVTTL bytes

definition outcome :: "'h DB \<times> 'a result \<Rightarrow> 'h DB \<times> go_error option" where
  "outcome = (\<lambda>(db, r). (db, case r of Inl e \<Rightarrow> Some e | Inr _ \<Rightarrow> None))"

fun perform :: "'h native_library \<Rightarrow> api_call \<Rightarrow> 'h DB \<Rightarrow> 'h DB \<times> go_error option" where
  "perform lib CallClose db = (Close db, None)"
| "perform lib CallPersist db = outcome (Persist (lib_persist lib) db)"
| "perform lib (CallExecute module action params) db = outcome (execute (lib_execute lib) db module action params)"
| "perform lib (CallQuery sql params) db = outcome (Query (lib_sql lib) db sql params)"
| "perform lib (CallExec sql params) db = outcome (Exec (lib_sql lib) db sql params)"
| "perform lib (CallKVSet key value ttl) db = outcome (KVSetBytes (lib_kv_set lib) db key value ttl)"
| "perform lib (CallKVGet key) db = outcome (KVGetBytes (lib_kv_read lib) db key)"
| "perform lib (CallKVMGet keys) db = outcome (KVMGetBytes (lib_kv_read lib) db keys)"
| "perform lib (CallKVExists keys) db = outcome (KVExistsBytes (lib_kv_read lib) db keys)"
| "perform lib (CallKVType key) db = outcome (KVTypeBytes (lib_kv_read lib) db key)"
| "perform lib (CallKVTTL key) db = outcome (KVTTLBytes (lib_kv_read lib) db key)"

inductive session :: "'h native_library \<Rightarrow> 'h DB \<Rightarrow> (api_call \<times> go_error option) list \<Rightarrow> 'h DB \<Rightarrow> bool" for lib db where
  session_start: "session lib db [] db"
| session_call: "session lib db trace db' \<Longrightarrow> perform lib c db' = (db'', e) \<Longrightarrow> session lib db (trace @ [(c, e)]) db''"

inductive_cases session_snocE: "session lib db (trace @ [step]) db'"

section \<open>The contract of an operation\<close>

text \<open>
  What every operation on a database promises: it keeps the identity, it neither opens nor closes, and on a
  closed database it fails in the same way whatever the library, with one of three codes.
\<close>

definition refusal :: "go_error \<Rightarrow> bool" where
  "refusal e \<longleftrightarrow> ErrorCodeOf e \<in> {CodeDatabaseClosed, CodeInvalidArgument, CodeCapabilityUnavailable}"

locale database_operation =
  fixes op :: "'l \<Rightarrow> 'h DB \<Rightarrow> 'h DB \<times> 'a result"
  assumes keeps_identity: "op lib db = (db', r) \<Longrightarrow> db_nativeInfo db' = db_nativeInfo db \<and> db_nativePolicyHash db' = db_nativePolicyHash db"
    and keeps_open: "op lib db = (db', r) \<Longrightarrow> db_handle db' = None \<longleftrightarrow> db_handle db = None"
    and refuses_closed: "db_handle db = None \<Longrightarrow> \<exists>e. refusal e \<and> (\<forall>lib. op lib db = (db, Inl e))"
begin

lemma outcome_open: "outcome (op lib db) = (db', e) \<Longrightarrow> db_handle db' = None \<longleftrightarrow> db_handle db = None"
  using keeps_open by (auto simp: outcome_def split: prod.splits)

lemma outcome_identity:
  "outcome (op lib db) = (db', e) \<Longrightarrow> db_nativeInfo db' = db_nativeInfo db \<and> db_nativePolicyHash db' = db_nativePolicyHash db"
  using keeps_identity by (auto simp: outcome_def split: prod.splits)

lemma outcome_closed: "db_handle db = None \<Longrightarrow> \<exists>e. refusal e \<and> (\<forall>lib. outcome (op (part lib) db) = (db, Some e))"
  using refuses_closed [of db] by (auto simp: outcome_def)

end

lemma refusal_newError [simp]:
  "refusal (newError c op msg cause) \<longleftrightarrow> c \<in> {CodeDatabaseClosed, CodeInvalidArgument, CodeCapabilityUnavailable}"
  by (simp add: refusal_def)

interpretation persist: database_operation Persist
  by unfold_locales (auto simp: Persist_def closed_error_def split: option.splits prod.splits native_reply.splits)

interpretation command: database_operation "\<lambda>lib db. execute lib db module action params" for module action params
  by unfold_locales (auto simp: execute_def closed_error_def Let_def split: option.splits prod.splits sum.splits if_splits)

lemma query_closed: "db_handle db = None \<Longrightarrow> Query lib db sql params = (db, closed_error ''query'')"
  by (simp add: Query_def)

interpretation query: database_operation "\<lambda>lib db. Query lib db sql params" for sql params
  by unfold_locales (auto simp: Query_def closed_error_def split: option.splits prod.splits sum.splits if_splits)

interpretation exec: database_operation "\<lambda>lib db. Exec lib db sql params" for sql params
proof
  fix lib db db' r
  assume "Exec lib db sql params = (db', r)"
  then obtain r' where q: "Query lib db sql params = (db', r')"
    by (auto simp: Exec_def split: prod.splits sum.splits)
  show "db_nativeInfo db' = db_nativeInfo db \<and> db_nativePolicyHash db' = db_nativePolicyHash db"
    "db_handle db' = None \<longleftrightarrow> db_handle db = None"
    using query.keeps_identity [OF q] query.keeps_open [OF q] by blast+
next
  show "db_handle db = None \<Longrightarrow> \<exists>e. refusal e \<and> (\<forall>lib. Exec lib db sql params = (db, Inl e))" for db
    by (auto simp: Exec_def query_closed closed_error_def)
qed

interpretation kv_set: database_operation "\<lambda>lib db. KVSetBytes lib db key value ttl" for key "value" ttl
proof
  show "db_handle db = None \<Longrightarrow> \<exists>e. refusal e \<and> (\<forall>lib. KVSetBytes lib db key value ttl = (db, Inl e))" for db
    by (cases "nativeKVMaxKey < length key \<or> nativeKVMaxValue < length value") (auto simp: KVSetBytes_def closed_error_def)
qed (auto simp: KVSetBytes_def split: option.splits prod.splits native_reply.splits if_splits)

section \<open>Capability gates\<close>

lemma require_capability_error: "RequireCapability info name = Inl e \<Longrightarrow> ErrorCodeOf e = CodeCapabilityUnavailable"
  by (auto simp: RequireCapability_def require_attested_def requireConditionalSnapshotReadVersion_def capability_unavailable_def
      ErrStorageConditionalBatchUnavailable_def Let_def split: option.splits if_splits)

lemma encode_keys_error: "encodeNativeKVKeys keys multiple = Inl e \<Longrightarrow> ErrorCodeOf e = CodeInvalidArgument"
proof -
  have "kv_request_size used keys = Inl e \<Longrightarrow> ErrorCodeOf e = CodeInvalidArgument" for used keys e
    by (induction keys arbitrary: used) (auto simp: kv_invalid_def split: if_splits)
  then show "encodeNativeKVKeys keys multiple = Inl e \<Longrightarrow> ErrorCodeOf e = CodeInvalidArgument"
    by (auto simp: encodeNativeKVKeys_def kv_invalid_def split: if_splits sum.splits)
qed

interpretation kv_read_op: database_operation "\<lambda>lib db. nativeKVRead lib db operation request" for operation request
proof
  fix lib db db' r
  assume "nativeKVRead lib db operation request = (db', r)"
  then show "db_nativeInfo db' = db_nativeInfo db \<and> db_nativePolicyHash db' = db_nativePolicyHash db"
    "db_handle db' = None \<longleftrightarrow> db_handle db = None"
    by (auto simp: nativeKVRead_def split: option.splits prod.splits sum.splits if_splits)
next
  show "db_handle db = None \<Longrightarrow> \<exists>e. refusal e \<and> (\<forall>lib. nativeKVRead lib db operation request = (db, Inl e))" for db
    by (cases "RequireCapability (db_nativeInfo db) ''native_kv_read''")
      (auto simp: nativeKVRead_def closed_error_def refusal_def dest: require_capability_error)
qed

interpretation kv_with: database_operation "\<lambda>lib db. kv_read_with lib db operation keys multiple parse" for operation keys multiple parse
proof
  fix lib db db' r
  assume k: "kv_read_with lib db operation keys multiple parse = (db', r)"
  show "db_nativeInfo db' = db_nativeInfo db \<and> db_nativePolicyHash db' = db_nativePolicyHash db"
    "db_handle db' = None \<longleftrightarrow> db_handle db = None"
    using k kv_read_op.keeps_identity kv_read_op.keeps_open by (fastforce simp: kv_read_with_def split: sum.splits prod.splits)+
next
  show "\<exists>e. refusal e \<and> (\<forall>lib. kv_read_with lib db operation keys multiple parse = (db, Inl e))" if db: "db_handle db = None" for db
  proof (cases "encodeNativeKVKeys keys multiple")
    case (Inl e)
    then show ?thesis using encode_keys_error [OF Inl] by (auto simp: kv_read_with_def refusal_def)
  next
    case (Inr request)
    then show ?thesis using kv_read_op.refuses_closed [OF db, of operation request] by (auto simp: kv_read_with_def)
  qed
qed

lemmas kv_call_defs = KVGetBytes_def KVMGetBytes_def KVExistsBytes_def KVTypeBytes_def KVTTLBytes_def


section \<open>Sessions\<close>

lemma perform_closed:
  assumes "db_handle db = None" "c \<noteq> CallClose"
  shows "\<exists>e. refusal e \<and> (\<forall>lib. perform lib c db = (db, Some e))"
  using assms
  by (cases c) (simp_all add: kv_call_defs persist.outcome_closed command.outcome_closed query.outcome_closed exec.outcome_closed
      kv_set.outcome_closed kv_with.outcome_closed)

lemma perform_open:
  "perform lib c db = (db', e) \<Longrightarrow> db_handle db' = None \<longleftrightarrow> c = CallClose \<or> db_handle db = None"
  by (cases c) (auto simp: kv_call_defs Close_def dest: persist.outcome_open command.outcome_open query.outcome_open exec.outcome_open
      kv_set.outcome_open kv_with.outcome_open)

lemma perform_identity:
  "perform lib c db = (db', e) \<Longrightarrow> db_nativeInfo db' = db_nativeInfo db \<and> db_nativePolicyHash db' = db_nativePolicyHash db"
  by (cases c) (auto simp: kv_call_defs Close_def dest: persist.outcome_identity command.outcome_identity query.outcome_identity
      exec.outcome_identity kv_set.outcome_identity kv_with.outcome_identity)

text \<open>
  C26: through any session of calls the verified native identity and the policy hash of a database stay what
  they were when it was opened, and the database is closed exactly when it started closed or \<open>Close\<close> was called:
  no call reopens it and no failed call closes it.
\<close>

theorem session_keeps_identity:
  assumes "session lib db trace db'"
  shows "db_nativeInfo db' = db_nativeInfo db \<and> db_nativePolicyHash db' = db_nativePolicyHash db
    \<and> (db_handle db' = None \<longleftrightarrow> db_handle db = None \<or> CallClose \<in> fst ` set trace)"
  using assms
proof induction
  case (session_call trace db' c db'' e)
  then show ?case using perform_open [OF session_call.hyps(2)] perform_identity [OF session_call.hyps(2)] by auto
qed auto

text \<open>
  C27: after \<open>Close\<close> no call reaches the library: a session on a closed database leaves it as it is, every call
  but another \<open>Close\<close> is refused with the code for a closed database, an invalid argument or a missing
  capability, and the same session happens over every other library, so nothing of it depends on one.
\<close>

theorem closed_session_is_inert:
  assumes "db_handle db = None" "session lib db trace db'"
  shows "db' = db \<and> session lib' db trace db
    \<and> list_all (\<lambda>(c, e). if c = CallClose then e = None else \<exists>x. e = Some x \<and> refusal x) trace"
  using assms(2)
proof induction
  case session_start
  show ?case by (simp add: session.session_start)
next
  case (session_call trace db' c db'' e)
  then have db: "db' = db" and s: "session lib' db trace db" by auto
  show ?case
  proof (cases "c = CallClose")
    case True
    then have "db'' = db \<and> e = None" using session_call.hyps(2) assms(1) db by (auto simp: Close_def)
    moreover have "perform lib' c db = (db, None)" using True assms(1) by (simp add: Close_def)
    ultimately show ?thesis using session_call.IH True session.session_call [OF s] by simp
  next
    case False
    obtain x where x: "refusal x" "\<And>l. perform l c db = (db, Some x)" using perform_closed [OF assms(1) False] by blast
    then have "db'' = db \<and> e = Some x" using session_call.hyps(2) db by simp
    then show ?thesis using session_call.IH False x session.session_call [OF s x(2)] by simp
  qed
qed


section \<open>Examples\<close>



text \<open>A library that refuses everything.\<close>

definition null_library :: "unit native_library" where
  "null_library = \<lparr>lib_persist = (\<lambda>h. (h, NativeFailed [])), lib_execute = (\<lambda>h _. (h, NativeFailed [])),
     lib_sql = (\<lambda>h _ _. (h, NativeFailed [])), lib_kv_set = (\<lambda>h _ _ _. (h, NativeFailed [])), lib_kv_read = (\<lambda>h _ _. (h, NativeFailed []))\<rparr>"

lemma demo_session:
  "session null_library (plain_db ()) [(CallClose, None)] (Close (plain_db ()))"
  "session null_library (Close (plain_db ())) [(CallClose, None)] (Close (plain_db ()))"
  using session_call [OF session_start, of null_library CallClose "plain_db ()"]
    session_call [OF session_start, of null_library CallClose "Close (plain_db ())"] by (simp_all add: Close_def)

theorem session_keeps_identity_witness:
  "session null_library (plain_db ()) [(CallClose, None)] (Close (plain_db ()))
    \<and> db_nativeInfo (Close (plain_db ())) = plain_info \<and> db_handle (Close (plain_db ())) = None"
  using session_keeps_identity [OF demo_session(1)] demo_session(1) by (simp add: plain_db_def)

theorem closed_session_is_inert_witness:
  "session (null_library\<lparr>lib_persist := (\<lambda>h. (h, NativeOutput None))\<rparr>) (Close (plain_db ())) [(CallClose, None)] (Close (plain_db ()))"
  using closed_session_is_inert [OF _ demo_session(2)] by (simp add: Close_def)

end
