(* ===== verification/RevisionQuery.thy ===== *)
theory RevisionQuery
  imports RevisionReceipt Database
begin

text \<open>
  Queries over a revision stream, from \<open>revision_stream.go\<close>: the closed query requests and continuations,
  the decoding of a page and of its proof, and the verification of a page against the pinned head.
  Occurrence times are signed, revisions unsigned.
\<close>

definition maxRevisionStreamQueryLimit :: nat where "maxRevisionStreamQueryLimit = 1000"

section \<open>Data\<close>

text \<open>A range is empty (both bounds nil) or has both bounds.\<close>

record RevisionStreamRevisionRange =
  rr_First :: "uint64 option"
  rr_Last :: "uint64 option"

record RevisionStreamEntry =
  en_Revision :: uint64
  en_OccurredAt :: int64
  en_Payload :: bytes
  en_PayloadSHA256 :: string
  en_RootSHA256 :: string
  en_PreviousRootSHA256 :: string
  en_ContentSHA256 :: string
  en_ProofRootSHA256 :: string

record RevisionStreamProofPoint =
  pt_Revision :: uint64
  pt_OccurredAt :: int64
  pt_PayloadSHA256 :: string
  pt_PreviousRootSHA256 :: string
  pt_ContentSHA256 :: string
  pt_ProofRootSHA256 :: string
  pt_RootSHA256 :: string
  pt_Inclusion :: RevisionStreamInclusionProof

record RevisionStreamQueryProof =
  qp_Version :: uint16
  qp_Scheme :: string
  qp_RootSHA256 :: string
  qp_WindowPredecessor :: "RevisionStreamProofPoint option"
  qp_WindowFirst :: "RevisionStreamProofPoint option"
  qp_WindowLast :: "RevisionStreamProofPoint option"
  qp_WindowSuccessor :: "RevisionStreamProofPoint option"
  qp_PageSuccessor :: "RevisionStreamProofPoint option"
  qp_EntryProofs :: "RevisionStreamInclusionProof list"

record RevisionStreamContinuation =
  ct_streamID :: bytes
  ct_fromOccurredAt :: int64
  ct_untilOccurredAt :: int64
  ct_pinnedHead :: RevisionStreamHead
  ct_afterRevision :: uint64
  ct_window :: RevisionStreamRevisionRange
  ct_previousRoot :: bytes
  ct_minimumLiveHead :: RevisionStreamHead

record RevisionStreamQueryRequest =
  q_streamID :: bytes
  q_fromOccurredAt :: int64
  q_untilOccurredAt :: int64
  q_pinnedHead :: "RevisionStreamHead option"
  q_afterRevision :: "uint64 option"
  q_limit :: uint64
  q_expectedWindow :: "RevisionStreamRevisionRange option"
  q_previousRoot :: "bytes option"
  q_minimumLiveHead :: "RevisionStreamHead option"

record RevisionStreamQueryPage =
  pg_PinnedHead :: "RevisionStreamHead option"
  pg_ObservedLiveHead :: "RevisionStreamHead option"
  pg_QueryWindow :: RevisionStreamRevisionRange
  pg_Page :: RevisionStreamRevisionRange
  pg_NextAfterRevision :: "uint64 option"
  pg_HasMore :: bool
  pg_Entries :: "RevisionStreamEntry list"
  pg_Proof :: "RevisionStreamQueryProof option"
  pg_Continuation :: "RevisionStreamContinuation option"

section \<open>Requests\<close>

definition query_invalid :: "string \<Rightarrow> 'a result" where
  "query_invalid message = Inl (newError CodeInvalidArgument ''revision stream query'' message None)"

definition newRevisionStreamQueryRequest :: "bytes \<Rightarrow> int64 \<Rightarrow> int64 \<Rightarrow> RevisionStreamHead option \<Rightarrow> uint64 option \<Rightarrow> uint64
    \<Rightarrow> RevisionStreamRevisionRange option \<Rightarrow> bytes option \<Rightarrow> RevisionStreamHead option \<Rightarrow> RevisionStreamQueryRequest result" where
  "newRevisionStreamQueryRequest streamID fromOccurredAt untilOccurredAt pinnedHead afterRevision limit expectedWindow
       previousRoot minimumLiveHead =
     (if length streamID = 0 \<or> maxRevisionStreamIDBytes < length streamID then query_invalid ''stream ID must be 1-1024 bytes''
      else if sint untilOccurredAt \<le> sint fromOccurredAt then query_invalid ''from_occurred_at must be before until_occurred_at''
      else if limit = 0 \<or> maxRevisionStreamQueryLimit < unat limit then query_invalid ''limit must be 1-1000''
      else case (case pinnedHead of None \<Rightarrow> Inr () | Some head \<Rightarrow> validateRevisionStreamHead streamID head) of
        Inl err \<Rightarrow> query_invalid (''pinned head is invalid: '' @ error_text err)
      | Inr _ \<Rightarrow>
          (case afterRevision of
             Some after \<Rightarrow>
               if (case pinnedHead of None \<Rightarrow> True | Some head \<Rightarrow> after = 0 \<or> hd_Revision head \<le> after)
               then query_invalid ''continuation must be below a pinned head''
               else if expectedWindow = None \<or> previousRoot = None \<or> minimumLiveHead = None
               then query_invalid ''continuation is not SDK-issued''
               else Inr \<lparr>q_streamID = streamID, q_fromOccurredAt = fromOccurredAt, q_untilOccurredAt = untilOccurredAt,
                      q_pinnedHead = pinnedHead, q_afterRevision = afterRevision, q_limit = limit,
                      q_expectedWindow = expectedWindow, q_previousRoot = previousRoot, q_minimumLiveHead = minimumLiveHead\<rparr>
           | None \<Rightarrow>
               Inr \<lparr>q_streamID = streamID, q_fromOccurredAt = fromOccurredAt, q_untilOccurredAt = untilOccurredAt,
                 q_pinnedHead = pinnedHead, q_afterRevision = afterRevision, q_limit = limit,
                 q_expectedWindow = expectedWindow, q_previousRoot = previousRoot, q_minimumLiveHead = minimumLiveHead\<rparr>))"

definition NewRevisionStreamQueryRequest :: "bytes \<Rightarrow> int64 \<Rightarrow> int64 \<Rightarrow> uint64 \<Rightarrow> RevisionStreamQueryRequest result" where
  "NewRevisionStreamQueryRequest streamID fromOccurredAt untilOccurredAt limit =
     newRevisionStreamQueryRequest streamID fromOccurredAt untilOccurredAt None None limit None None None"

definition NewPinnedRevisionStreamQueryRequest :: "bytes \<Rightarrow> int64 \<Rightarrow> int64 \<Rightarrow> RevisionStreamHead \<Rightarrow> uint64
    \<Rightarrow> RevisionStreamQueryRequest result" where
  "NewPinnedRevisionStreamQueryRequest streamID fromOccurredAt untilOccurredAt pinnedHead limit =
     newRevisionStreamQueryRequest streamID fromOccurredAt untilOccurredAt (Some pinnedHead) None limit None None None"

definition NextRequest :: "RevisionStreamContinuation \<Rightarrow> uint64 \<Rightarrow> RevisionStreamQueryRequest result" where
  "NextRequest cont limit =
     newRevisionStreamQueryRequest (ct_streamID cont) (ct_fromOccurredAt cont) (ct_untilOccurredAt cont)
       (Some (ct_pinnedHead cont)) (Some (ct_afterRevision cont)) limit (Some (ct_window cont))
       (Some (ct_previousRoot cont)) (Some (ct_minimumLiveHead cont))"

section \<open>Wire forms\<close>

definition toWireRevisionStreamHead :: "RevisionStreamHead \<Rightarrow> wireRevisionStreamHead" where
  "toWireRevisionStreamHead value =
     \<lparr>wh_Revision = \<lparr>cu_Value = hd_Revision value, cu_Present = True\<rparr>,
      wh_LastOccurredAt = \<lparr>ci_Value = hd_LastOccurredAt value, ci_Present = True\<rparr>, wh_RootSHA256 = hd_RootSHA256 value,
      wh_Proof = map_option (\<lambda>proof.
        \<lparr>wph_Version = ph_Version proof, wph_LeafCount = \<lparr>cu_Value = ph_LeafCount proof, cu_Present = True\<rparr>,
         wph_RootSHA256 = ph_RootSHA256 proof, wph_LastContentSHA256 = ph_LastContentSHA256 proof,
         wph_Peaks = Some (map (\<lambda>peak. \<lparr>wp_Height = peak_Height peak,
           wp_StartRevision = \<lparr>cu_Value = peak_StartRevision peak, cu_Present = True\<rparr>,
           wp_RootSHA256 = peak_RootSHA256 peak\<rparr>) (ph_Peaks proof))\<rparr>) (hd_Proof value)\<rparr>"

text \<open>The JSON of a wire head, member by member in the order of the struct; a nil proof is left out.\<close>

definition wirePeak_json :: "wireRevisionStreamMerklePeak \<Rightarrow> json" where
  "wirePeak_json peak = JObj [(''height'', JNum (nat_str (unat (wp_Height peak)))),
     (''start_revision'', canonicalUint64_MarshalJSON (wp_StartRevision peak)), (''root_sha256'', JStr (wp_RootSHA256 peak))]"

definition wireProofHead_json :: "wireRevisionStreamProofHead \<Rightarrow> json" where
  "wireProofHead_json proof = JObj [(''version'', JNum (nat_str (unat (wph_Version proof)))),
     (''leaf_count'', canonicalUint64_MarshalJSON (wph_LeafCount proof)), (''root_sha256'', JStr (wph_RootSHA256 proof)),
     (''last_content_sha256'', JStr (wph_LastContentSHA256 proof)),
     (''peaks'', case wph_Peaks proof of None \<Rightarrow> JNull | Some peaks \<Rightarrow> JArr (map wirePeak_json peaks))]"

definition wireHead_json :: "wireRevisionStreamHead \<Rightarrow> json" where
  "wireHead_json wire = JObj ([(''revision'', canonicalUint64_MarshalJSON (wh_Revision wire)),
     (''last_occurred_at'', canonicalInt64_MarshalJSON (wh_LastOccurredAt wire)), (''root_sha256'', JStr (wh_RootSHA256 wire))]
     @ (case wh_Proof wire of None \<Rightarrow> [] | Some proof \<Rightarrow> [(''proof'', wireProofHead_json proof)]))"

text \<open>\<open>wireRevisionStreamQueryRequest\<close>, as \<open>RevisionStreamQuery\<close> fills and encodes it.\<close>

definition wireRevisionStreamQueryRequest_json :: "RevisionStreamQueryRequest \<Rightarrow> json" where
  "wireRevisionStreamQueryRequest_json request = JObj
     [(''version'', JNum (nat_str (unat revisionStreamVersion))),
      (''stream_id'', wireBytes_MarshalJSON (presentWireBytes (q_streamID request))),
      (''from_occurred_at'', canonicalInt64_MarshalJSON \<lparr>ci_Value = q_fromOccurredAt request, ci_Present = True\<rparr>),
      (''until_occurred_at'', canonicalInt64_MarshalJSON \<lparr>ci_Value = q_untilOccurredAt request, ci_Present = True\<rparr>),
      (''pinned_head'', case q_pinnedHead request of None \<Rightarrow> JNull | Some head \<Rightarrow> wireHead_json (toWireRevisionStreamHead head)),
      (''after_revision'', case q_afterRevision request of
         None \<Rightarrow> JNull | Some after \<Rightarrow> canonicalUint64_MarshalJSON \<lparr>cu_Value = after, cu_Present = True\<rparr>),
      (''limit'', JNum (nat_str (unat (q_limit request))))]"

record nullableCanonicalUint64 =
  nc_Value :: uint64
  nc_Present :: bool
  nc_Null :: bool

definition zero_nullableCanonical :: nullableCanonicalUint64 where
  "zero_nullableCanonical = \<lparr>nc_Value = 0, nc_Present = False, nc_Null = False\<rparr>"

definition nullableCanonicalUint64_UnmarshalJSON :: "nullableCanonicalUint64 decoder" where
  "nullableCanonicalUint64_UnmarshalJSON value data =
     (if data = JNull then Inr (value\<lparr>nc_Present := True, nc_Null := True\<rparr>)
      else case decodeStrictRaw canonicalUint64_UnmarshalJSON zero_canonicalUint64 data of
        Inl e \<Rightarrow> Inl e
      | Inr decoded \<Rightarrow>
          if \<not> cu_Present decoded then Inl (ErrorString ''canonical u64 is missing'')
          else Inr (value\<lparr>nc_Present := True, nc_Value := cu_Value decoded\<rparr>))"

record wireRevisionStreamEntry =
  we_Revision :: canonicalUint64
  we_OccurredAt :: canonicalInt64
  we_Payload :: wireBytes
  we_PayloadSHA256 :: string
  we_RootSHA256 :: string
  we_PreviousRootSHA256 :: string
  we_ContentSHA256 :: string
  we_ProofRootSHA256 :: string

definition zero_wireEntry :: wireRevisionStreamEntry where
  "zero_wireEntry = \<lparr>we_Revision = zero_canonicalUint64, we_OccurredAt = zero_canonicalInt64, we_Payload = zero_wireBytes,
     we_PayloadSHA256 = [], we_RootSHA256 = [], we_PreviousRootSHA256 = [], we_ContentSHA256 = [], we_ProofRootSHA256 = []\<rparr>"

definition wireEntry_decoder :: "wireRevisionStreamEntry decoder" where
  "wireEntry_decoder = decode_struct [''revision'', ''occurred_at'', ''payload'', ''payload_sha256'', ''root_sha256'',
       ''previous_root_sha256'', ''content_sha256'', ''proof_root_sha256'']
     (\<lambda>f. if f = ''revision'' then field we_Revision we_Revision_update canonicalUint64_UnmarshalJSON
          else if f = ''occurred_at'' then field we_OccurredAt we_OccurredAt_update canonicalInt64_UnmarshalJSON
          else if f = ''payload'' then field we_Payload we_Payload_update wireBytes_UnmarshalJSON
          else if f = ''payload_sha256'' then field we_PayloadSHA256 we_PayloadSHA256_update json_string
          else if f = ''root_sha256'' then field we_RootSHA256 we_RootSHA256_update json_string
          else if f = ''previous_root_sha256'' then field we_PreviousRootSHA256 we_PreviousRootSHA256_update json_string
          else if f = ''content_sha256'' then field we_ContentSHA256 we_ContentSHA256_update json_string
          else field we_ProofRootSHA256 we_ProofRootSHA256_update json_string)"

record wireRevisionStreamProofStep =
  ws_Height :: uint8
  ws_Side :: string
  ws_RootSHA256 :: string

definition zero_wireStep :: wireRevisionStreamProofStep where
  "zero_wireStep = \<lparr>ws_Height = 0, ws_Side = [], ws_RootSHA256 = []\<rparr>"

definition wireStep_decoder :: "wireRevisionStreamProofStep decoder" where
  "wireStep_decoder = decode_struct [''height'', ''side'', ''root_sha256'']
     (\<lambda>f. if f = ''height'' then field ws_Height ws_Height_update json_uint
          else if f = ''side'' then field ws_Side ws_Side_update json_string
          else field ws_RootSHA256 ws_RootSHA256_update json_string)"

record wireRevisionStreamInclusionProof =
  wi_Version :: uint16
  wi_Revision :: canonicalUint64
  wi_PeakIndex :: uint8
  wi_LeafSHA256 :: string
  wi_Siblings :: "wireRevisionStreamProofStep list option"

definition zero_wireInclusion :: wireRevisionStreamInclusionProof where
  "zero_wireInclusion = \<lparr>wi_Version = 0, wi_Revision = zero_canonicalUint64, wi_PeakIndex = 0, wi_LeafSHA256 = [], wi_Siblings = None\<rparr>"

definition wireInclusion_decoder :: "wireRevisionStreamInclusionProof decoder" where
  "wireInclusion_decoder = decode_struct [''version'', ''revision'', ''peak_index'', ''leaf_sha256'', ''siblings'']
     (\<lambda>f. if f = ''version'' then field wi_Version wi_Version_update json_uint
          else if f = ''revision'' then field wi_Revision wi_Revision_update canonicalUint64_UnmarshalJSON
          else if f = ''peak_index'' then field wi_PeakIndex wi_PeakIndex_update json_uint
          else if f = ''leaf_sha256'' then field wi_LeafSHA256 wi_LeafSHA256_update json_string
          else field wi_Siblings wi_Siblings_update (json_slice zero_wireStep wireStep_decoder))"

record wireRevisionStreamProofPoint =
  wpt_Revision :: canonicalUint64
  wpt_OccurredAt :: canonicalInt64
  wpt_PayloadSHA256 :: string
  wpt_PreviousRootSHA256 :: string
  wpt_ContentSHA256 :: string
  wpt_ProofRootSHA256 :: string
  wpt_RootSHA256 :: string
  wpt_Inclusion :: wireRevisionStreamInclusionProof

definition zero_wirePoint :: wireRevisionStreamProofPoint where
  "zero_wirePoint = \<lparr>wpt_Revision = zero_canonicalUint64, wpt_OccurredAt = zero_canonicalInt64, wpt_PayloadSHA256 = [],
     wpt_PreviousRootSHA256 = [], wpt_ContentSHA256 = [], wpt_ProofRootSHA256 = [], wpt_RootSHA256 = [],
     wpt_Inclusion = zero_wireInclusion\<rparr>"

definition wirePoint_decoder :: "wireRevisionStreamProofPoint decoder" where
  "wirePoint_decoder = decode_struct [''revision'', ''occurred_at'', ''payload_sha256'', ''previous_root_sha256'',
       ''content_sha256'', ''proof_root_sha256'', ''root_sha256'', ''inclusion'']
     (\<lambda>f. if f = ''revision'' then field wpt_Revision wpt_Revision_update canonicalUint64_UnmarshalJSON
          else if f = ''occurred_at'' then field wpt_OccurredAt wpt_OccurredAt_update canonicalInt64_UnmarshalJSON
          else if f = ''payload_sha256'' then field wpt_PayloadSHA256 wpt_PayloadSHA256_update json_string
          else if f = ''previous_root_sha256'' then field wpt_PreviousRootSHA256 wpt_PreviousRootSHA256_update json_string
          else if f = ''content_sha256'' then field wpt_ContentSHA256 wpt_ContentSHA256_update json_string
          else if f = ''proof_root_sha256'' then field wpt_ProofRootSHA256 wpt_ProofRootSHA256_update json_string
          else if f = ''root_sha256'' then field wpt_RootSHA256 wpt_RootSHA256_update json_string
          else field wpt_Inclusion wpt_Inclusion_update wireInclusion_decoder)"

record wireRevisionStreamQueryProof =
  wqp_Version :: uint16
  wqp_Scheme :: string
  wqp_RootSHA256 :: string
  wqp_WindowPredecessor :: "wireRevisionStreamProofPoint option"
  wqp_WindowFirst :: "wireRevisionStreamProofPoint option"
  wqp_WindowLast :: "wireRevisionStreamProofPoint option"
  wqp_WindowSuccessor :: "wireRevisionStreamProofPoint option"
  wqp_PageSuccessor :: "wireRevisionStreamProofPoint option"
  wqp_EntryProofs :: "wireRevisionStreamInclusionProof list option"

definition zero_wireQueryProof :: wireRevisionStreamQueryProof where
  "zero_wireQueryProof = \<lparr>wqp_Version = 0, wqp_Scheme = [], wqp_RootSHA256 = [], wqp_WindowPredecessor = None, wqp_WindowFirst = None,
     wqp_WindowLast = None, wqp_WindowSuccessor = None, wqp_PageSuccessor = None, wqp_EntryProofs = None\<rparr>"

definition wireQueryProof_decoder :: "wireRevisionStreamQueryProof decoder" where
  "wireQueryProof_decoder = decode_struct [''version'', ''scheme'', ''root_sha256'', ''window_predecessor'', ''window_first'',
       ''window_last'', ''window_successor'', ''page_successor'', ''entry_proofs'']
     (\<lambda>f. let point = json_ptr zero_wirePoint wirePoint_decoder
          in if f = ''version'' then field wqp_Version wqp_Version_update json_uint
             else if f = ''scheme'' then field wqp_Scheme wqp_Scheme_update json_string
             else if f = ''root_sha256'' then field wqp_RootSHA256 wqp_RootSHA256_update json_string
             else if f = ''window_predecessor'' then field wqp_WindowPredecessor wqp_WindowPredecessor_update point
             else if f = ''window_first'' then field wqp_WindowFirst wqp_WindowFirst_update point
             else if f = ''window_last'' then field wqp_WindowLast wqp_WindowLast_update point
             else if f = ''window_successor'' then field wqp_WindowSuccessor wqp_WindowSuccessor_update point
             else if f = ''page_successor'' then field wqp_PageSuccessor wqp_PageSuccessor_update point
             else field wqp_EntryProofs wqp_EntryProofs_update (json_slice zero_wireInclusion wireInclusion_decoder))"

record wireRevisionStreamQueryPage =
  wpg_PinnedHead :: raw_message
  wpg_ObservedLiveHead :: raw_message
  wpg_QueryWindowFirstRevision :: nullableCanonicalUint64
  wpg_QueryWindowLastRevision :: nullableCanonicalUint64
  wpg_PageFirstRevision :: nullableCanonicalUint64
  wpg_PageLastRevision :: nullableCanonicalUint64
  wpg_NextAfterRevision :: nullableCanonicalUint64
  wpg_HasMore :: "bool option"
  wpg_Entries :: "wireRevisionStreamEntry list option"
  wpg_Proof :: "wireRevisionStreamQueryProof option"

definition zero_wirePage :: wireRevisionStreamQueryPage where
  "zero_wirePage = \<lparr>wpg_PinnedHead = None, wpg_ObservedLiveHead = None, wpg_QueryWindowFirstRevision = zero_nullableCanonical,
     wpg_QueryWindowLastRevision = zero_nullableCanonical, wpg_PageFirstRevision = zero_nullableCanonical,
     wpg_PageLastRevision = zero_nullableCanonical, wpg_NextAfterRevision = zero_nullableCanonical, wpg_HasMore = None,
     wpg_Entries = None, wpg_Proof = None\<rparr>"

definition wirePage_decoder :: "wireRevisionStreamQueryPage decoder" where
  "wirePage_decoder = decode_struct [''pinned_head'', ''observed_live_head'', ''query_window_first_revision'',
       ''query_window_last_revision'', ''page_first_revision'', ''page_last_revision'', ''next_after_revision'', ''has_more'',
       ''entries'', ''proof'']
     (\<lambda>f. let revision = nullableCanonicalUint64_UnmarshalJSON
          in if f = ''pinned_head'' then field wpg_PinnedHead wpg_PinnedHead_update json_raw
             else if f = ''observed_live_head'' then field wpg_ObservedLiveHead wpg_ObservedLiveHead_update json_raw
             else if f = ''query_window_first_revision'' then field wpg_QueryWindowFirstRevision wpg_QueryWindowFirstRevision_update revision
             else if f = ''query_window_last_revision'' then field wpg_QueryWindowLastRevision wpg_QueryWindowLastRevision_update revision
             else if f = ''page_first_revision'' then field wpg_PageFirstRevision wpg_PageFirstRevision_update revision
             else if f = ''page_last_revision'' then field wpg_PageLastRevision wpg_PageLastRevision_update revision
             else if f = ''next_after_revision'' then field wpg_NextAfterRevision wpg_NextAfterRevision_update revision
             else if f = ''has_more'' then field wpg_HasMore wpg_HasMore_update (json_ptr False json_bool)
             else if f = ''entries'' then field wpg_Entries wpg_Entries_update (json_slice zero_wireEntry wireEntry_decoder)
             else field wpg_Proof wpg_Proof_update (json_ptr zero_wireQueryProof wireQueryProof_decoder))"


section \<open>Decoding proofs and ranges\<close>

text \<open>The revision behind a pointer that the surrounding code has found set.\<close>

definition deref :: "uint64 option \<Rightarrow> uint64" where
  "deref p = (case p of None \<Rightarrow> 0 | Some v \<Rightarrow> v)"

abbreviation query_failure :: "string \<Rightarrow> 'a result" where
  "query_failure message \<equiv> Inl (revisionStreamProtocolError ''decode revision stream query'' (ErrorString message))"

definition decodeRevisionStreamRange :: "nullableCanonicalUint64 \<Rightarrow> nullableCanonicalUint64 \<Rightarrow> string
    \<Rightarrow> RevisionStreamRevisionRange result" where
  "decodeRevisionStreamRange first final name =
     (if nc_Null first \<noteq> nc_Null final then query_failure (name @ '' bounds have inconsistent nullability'')
      else if nc_Null first then Inr \<lparr>rr_First = None, rr_Last = None\<rparr>
      else if nc_Value first = 0 \<or> nc_Value final < nc_Value first then query_failure (name @ '' bounds are invalid'')
      else Inr \<lparr>rr_First = Some (nc_Value first), rr_Last = Some (nc_Value final)\<rparr>)"

definition uint64PointersEqual :: "uint64 option \<Rightarrow> uint64 option \<Rightarrow> bool" where
  "uint64PointersEqual left right \<longleftrightarrow> (left = None \<and> right = None) \<or> (left \<noteq> None \<and> right \<noteq> None \<and> deref left = deref right)"

definition revisionStreamRangesEqual :: "RevisionStreamRevisionRange \<Rightarrow> RevisionStreamRevisionRange \<Rightarrow> bool" where
  "revisionStreamRangesEqual left right \<longleftrightarrow>
     uint64PointersEqual (rr_First left) (rr_First right) \<and> uint64PointersEqual (rr_Last left) (rr_Last right)"

definition decodeNullableRevisionStreamHead :: "bytes \<Rightarrow> json \<Rightarrow> string \<Rightarrow> RevisionStreamHead option result" where
  "decodeNullableRevisionStreamHead streamID data name =
     (if data = JNull then Inr None
      else case decodeStrictRaw wireHead_decoder zero_wireHead data of
        Inl err \<Rightarrow> Inl (revisionStreamProtocolError ''decode revision stream query'' (WrapError (name @ '': '') err))
      | Inr wire \<Rightarrow>
          (case decodeWireRevisionStreamHead streamID wire of Inl err \<Rightarrow> Inl err | Inr head \<Rightarrow> Inr (Some head)))"

fun decode_siblings :: "wireRevisionStreamProofStep list \<Rightarrow> RevisionStreamProofStep list result" where
  "decode_siblings [] = Inr []"
| "decode_siblings (step # steps) =
     (if (ws_Side step \<noteq> RevisionStreamProofLeft \<and> ws_Side step \<noteq> RevisionStreamProofRight) \<or> \<not> sha_pattern (ws_RootSHA256 step)
      then Inl (ErrorString ''Merkle inclusion proof step is invalid'')
      else case decode_siblings steps of
        Inl e \<Rightarrow> Inl e
      | Inr rest \<Rightarrow> Inr (\<lparr>step_Height = ws_Height step, step_Side = ws_Side step, step_RootSHA256 = ws_RootSHA256 step\<rparr> # rest))"

definition decodeRevisionStreamInclusion :: "wireRevisionStreamInclusionProof \<Rightarrow> RevisionStreamInclusionProof result" where
  "decodeRevisionStreamInclusion wire =
     (case wi_Siblings wire of
        None \<Rightarrow> Inl (ErrorString ''Merkle inclusion proof has invalid required fields'')
      | Some steps \<Rightarrow>
          if \<not> cu_Present (wi_Revision wire) \<or> cu_Value (wi_Revision wire) = 0 \<or> maxRevisionStreamProofDepth < length steps
             \<or> \<not> sha_pattern (wi_LeafSHA256 wire)
          then Inl (ErrorString ''Merkle inclusion proof has invalid required fields'')
          else case decode_siblings steps of
            Inl e \<Rightarrow> Inl e
          | Inr siblings \<Rightarrow>
              Inr \<lparr>incl_Version = wi_Version wire, incl_Revision = cu_Value (wi_Revision wire), incl_PeakIndex = wi_PeakIndex wire,
                incl_LeafSHA256 = wi_LeafSHA256 wire, incl_Siblings = siblings\<rparr>)"

fun decode_inclusions :: "wireRevisionStreamInclusionProof list \<Rightarrow> RevisionStreamInclusionProof list result" where
  "decode_inclusions [] = Inr []"
| "decode_inclusions (wire # wires) =
     (case decodeRevisionStreamInclusion wire of
        Inl e \<Rightarrow> Inl e
      | Inr inclusion \<Rightarrow> (case decode_inclusions wires of Inl e \<Rightarrow> Inl e | Inr rest \<Rightarrow> Inr (inclusion # rest)))"

definition decodePoint :: "wireRevisionStreamProofPoint option \<Rightarrow> RevisionStreamProofPoint option result" where
  "decodePoint value =
     (case value of
        None \<Rightarrow> Inr None
      | Some p \<Rightarrow>
          if \<not> cu_Present (wpt_Revision p) \<or> \<not> ci_Present (wpt_OccurredAt p) \<or> cu_Value (wpt_Revision p) = 0
          then Inl (ErrorString ''query proof point omitted canonical integers'')
          else if \<not> list_all sha_pattern [wpt_PayloadSHA256 p, wpt_PreviousRootSHA256 p, wpt_ContentSHA256 p, wpt_ProofRootSHA256 p,
                    wpt_RootSHA256 p]
          then Inl (ErrorString ''query proof point contains an invalid digest'')
          else case decodeRevisionStreamInclusion (wpt_Inclusion p) of
            Inl err \<Rightarrow> Inl err
          | Inr inclusion \<Rightarrow>
              Inr (Some \<lparr>pt_Revision = cu_Value (wpt_Revision p), pt_OccurredAt = ci_Value (wpt_OccurredAt p),
                pt_PayloadSHA256 = wpt_PayloadSHA256 p, pt_PreviousRootSHA256 = wpt_PreviousRootSHA256 p,
                pt_ContentSHA256 = wpt_ContentSHA256 p, pt_ProofRootSHA256 = wpt_ProofRootSHA256 p,
                pt_RootSHA256 = wpt_RootSHA256 p, pt_Inclusion = inclusion\<rparr>))"

fun decode_points :: "wireRevisionStreamProofPoint option list \<Rightarrow> RevisionStreamProofPoint option list result" where
  "decode_points [] = Inr []"
| "decode_points (p # ps) =
     (case decodePoint p of
        Inl e \<Rightarrow> Inl e
      | Inr point \<Rightarrow> (case decode_points ps of Inl e \<Rightarrow> Inl e | Inr points \<Rightarrow> Inr (point # points)))"

definition decodeRevisionStreamQueryProof :: "wireRevisionStreamQueryProof \<Rightarrow> RevisionStreamQueryProof result" where
  "decodeRevisionStreamQueryProof wire =
     (case wqp_EntryProofs wire of
        None \<Rightarrow> Inl (ErrorString ''query proof entry proof count is invalid'')
      | Some wireProofs \<Rightarrow>
          if maxRevisionStreamQueryLimit < length wireProofs then Inl (ErrorString ''query proof entry proof count is invalid'')
          else case decode_points [wqp_WindowPredecessor wire, wqp_WindowFirst wire, wqp_WindowLast wire, wqp_WindowSuccessor wire,
                     wqp_PageSuccessor wire] of
            Inl err \<Rightarrow> Inl err
          | Inr points \<Rightarrow>
              (case decode_inclusions wireProofs of
                 Inl err \<Rightarrow> Inl err
               | Inr entryProofs \<Rightarrow>
                   Inr \<lparr>qp_Version = wqp_Version wire, qp_Scheme = wqp_Scheme wire, qp_RootSHA256 = wqp_RootSHA256 wire,
                     qp_WindowPredecessor = points ! 0, qp_WindowFirst = points ! 1, qp_WindowLast = points ! 2,
                     qp_WindowSuccessor = points ! 3, qp_PageSuccessor = points ! 4, qp_EntryProofs = entryProofs\<rparr>))"

section \<open>Verification\<close>

definition verifyRevisionStreamProofPoint :: "bytes \<Rightarrow> RevisionStreamHead \<Rightarrow> RevisionStreamProofPoint \<Rightarrow> unit result" where
  "verifyRevisionStreamProofPoint streamID pinned point =
     (case decodeRevisionStreamDigest (pt_PreviousRootSHA256 point) of
        Inl err \<Rightarrow> Inl err
      | Inr previous \<Rightarrow>
          (case decodeRevisionStreamDigest (pt_PayloadSHA256 point) of
             Inl err \<Rightarrow> Inl err
           | Inr payload \<Rightarrow>
               (let content = calculateRevisionStreamContent streamID previous (pt_Revision point) (pt_OccurredAt point) payload
                in if decodeRevisionStreamDigest (pt_ContentSHA256 point) \<noteq> Inr content
                   then Inl (ErrorString ''query proof point content digest mismatch'')
                   else case decodeRevisionStreamDigest (pt_ProofRootSHA256 point) of
                     Inl err \<Rightarrow> Inl err
                   | Inr proofRoot \<Rightarrow>
                       if decodeRevisionStreamDigest (pt_RootSHA256 point)
                          \<noteq> Inr (calculateRevisionStreamHeadRoot streamID (pt_Revision point) (pt_OccurredAt point) content proofRoot)
                       then Inl (ErrorString ''query proof point head digest mismatch'')
                       else verifyRevisionStreamInclusion streamID (map_option ph_Peaks (hd_Proof pinned)) (pt_Revision point) content
                              (pt_Inclusion point))))"

definition verifyRevisionStreamEntryInclusion :: "bytes \<Rightarrow> RevisionStreamHead \<Rightarrow> RevisionStreamEntry \<Rightarrow> RevisionStreamInclusionProof
    \<Rightarrow> unit result" where
  "verifyRevisionStreamEntryInclusion streamID pinned entry inclusion =
     (let payload = sha256 (en_Payload entry)
      in if decodeRevisionStreamDigest (en_PayloadSHA256 entry) \<noteq> Inr payload
         then Inl (ErrorString ''query entry payload digest mismatch'')
         else case decodeRevisionStreamDigest (en_PreviousRootSHA256 entry) of
           Inl err \<Rightarrow> Inl (ErrorString ''query v2 entry lacks previous root'')
         | Inr previous \<Rightarrow>
             (let content = calculateRevisionStreamContent streamID previous (en_Revision entry) (en_OccurredAt entry) payload
              in if decodeRevisionStreamDigest (en_ContentSHA256 entry) \<noteq> Inr content
                 then Inl (ErrorString ''query entry content digest mismatch'')
                 else case decodeRevisionStreamDigest (en_ProofRootSHA256 entry) of
                   Inl err \<Rightarrow> Inl (ErrorString ''query v2 entry lacks proof root'')
                 | Inr proofRoot \<Rightarrow>
                     if decodeRevisionStreamDigest (en_RootSHA256 entry)
                        \<noteq> Inr (calculateRevisionStreamHeadRoot streamID (en_Revision entry) (en_OccurredAt entry) content proofRoot)
                     then Inl (ErrorString ''query entry head digest mismatch'')
                     else verifyRevisionStreamInclusion streamID (map_option ph_Peaks (hd_Proof pinned)) (en_Revision entry) content
                            inclusion))"

fun verify_points :: "bytes \<Rightarrow> RevisionStreamHead \<Rightarrow> RevisionStreamProofPoint option list \<Rightarrow> unit result" where
  "verify_points streamID pinned [] = Inr ()"
| "verify_points streamID pinned (p # ps) =
     (case p of
        None \<Rightarrow> verify_points streamID pinned ps
      | Some point \<Rightarrow>
          (case verifyRevisionStreamProofPoint streamID pinned point of
             Inl err \<Rightarrow> Inl err
           | Inr _ \<Rightarrow> verify_points streamID pinned ps))"

text \<open>The checks of the window against the requested times and the proof points around it.\<close>

definition outside_time :: "RevisionStreamQueryRequest \<Rightarrow> int64 \<Rightarrow> bool" where
  "outside_time request t \<longleftrightarrow> sint t < sint (q_fromOccurredAt request) \<or> sint (q_untilOccurredAt request) \<le> sint t"

definition verify_window :: "RevisionStreamQueryRequest \<Rightarrow> RevisionStreamHead \<Rightarrow> RevisionStreamQueryProof \<Rightarrow> RevisionStreamRevisionRange
    \<Rightarrow> unit result" where
  "verify_window request pinned pf window =
     (case (rr_First window, rr_Last window) of
        (Some first, Some final) \<Rightarrow>
          (case (qp_WindowFirst pf, qp_WindowLast pf) of
             (Some head, Some tail) \<Rightarrow>
               if pt_Revision head \<noteq> first \<or> pt_Revision tail \<noteq> final \<or> outside_time request (pt_OccurredAt head)
                  \<or> outside_time request (pt_OccurredAt tail)
               then Inl (ErrorString ''query proof window endpoints do not match requested time range'')
               else if first = 1 \<and> qp_WindowPredecessor pf \<noteq> None
               then Inl (ErrorString ''query proof lower boundary is non-canonical'')
               else if first \<noteq> 1 \<and> (case qp_WindowPredecessor pf of
                      None \<Rightarrow> True
                    | Some p \<Rightarrow> pt_Revision p \<noteq> first - 1 \<or> sint (q_fromOccurredAt request) \<le> sint (pt_OccurredAt p))
               then Inl (ErrorString ''query proof does not bracket the window lower bound'')
               else if final = hd_Revision pinned \<and> qp_WindowSuccessor pf \<noteq> None
               then Inl (ErrorString ''query proof upper boundary is non-canonical'')
               else if final \<noteq> hd_Revision pinned \<and> (case qp_WindowSuccessor pf of
                      None \<Rightarrow> True
                    | Some p \<Rightarrow> pt_Revision p \<noteq> final + 1 \<or> sint (pt_OccurredAt p) < sint (q_untilOccurredAt request))
               then Inl (ErrorString ''query proof does not bracket the window upper bound'')
               else Inr ()
           | _ \<Rightarrow> Inl (ErrorString ''query proof window endpoints do not match requested time range''))
      | (None, None) \<Rightarrow>
          if qp_WindowFirst pf \<noteq> None \<or> qp_WindowLast pf \<noteq> None
          then Inl (ErrorString ''empty query window contains endpoint proofs'')
          else if (case qp_WindowPredecessor pf of None \<Rightarrow> False | Some p \<Rightarrow> sint (q_fromOccurredAt request) \<le> sint (pt_OccurredAt p))
          then Inl (ErrorString ''empty query window predecessor is not below lower bound'')
          else if (case qp_WindowSuccessor pf of None \<Rightarrow> False | Some p \<Rightarrow> sint (pt_OccurredAt p) < sint (q_untilOccurredAt request))
          then Inl (ErrorString ''empty query window successor is not above upper bound'')
          else
            (case (qp_WindowPredecessor pf, qp_WindowSuccessor pf) of
               (Some p, Some s) \<Rightarrow>
                 if pt_Revision p \<noteq> - 1 \<and> pt_Revision p + 1 = pt_Revision s then Inr ()
                 else Inl (ErrorString ''empty query window does not prove a complete insertion boundary'')
             | (None, Some s) \<Rightarrow>
                 if pt_Revision s = 1 then Inr ()
                 else Inl (ErrorString ''empty query window does not prove a complete insertion boundary'')
             | (Some p, None) \<Rightarrow>
                 if pt_Revision p = hd_Revision pinned then Inr ()
                 else Inl (ErrorString ''empty query window does not prove a complete insertion boundary'')
             | (None, None) \<Rightarrow> Inl (ErrorString ''empty query window does not prove a complete insertion boundary''))
      | _ \<Rightarrow> Inl (ErrorString ''query window revisions are partially specified''))"

text \<open>The loop over the entries, each with the entry before it (if any) and its proof.\<close>

fun verify_entries :: "RevisionStreamQueryRequest \<Rightarrow> RevisionStreamHead \<Rightarrow> RevisionStreamRevisionRange \<Rightarrow> RevisionStreamEntry option
    \<Rightarrow> RevisionStreamEntry list \<Rightarrow> RevisionStreamInclusionProof list \<Rightarrow> unit result" where
  "verify_entries request pinned window prior (entry # entries) (pf # pfs) =
     (if (case prior of None \<Rightarrow> False
          | Some p \<Rightarrow> en_Revision p = - 1 \<or> en_Revision p + 1 \<noteq> en_Revision entry \<or> en_PreviousRootSHA256 entry \<noteq> en_RootSHA256 p)
      then Inl (ErrorString ''query page entry chain is disconnected'')
      else if outside_time request (en_OccurredAt entry) \<or> rr_First window = None \<or> rr_Last window = None
              \<or> en_Revision entry < deref (rr_First window) \<or> deref (rr_Last window) < en_Revision entry
      then Inl (ErrorString ''query page entry is outside the authenticated time window'')
      else case verifyRevisionStreamEntryInclusion (q_streamID request) pinned entry pf of
        Inl err \<Rightarrow> Inl err
      | Inr _ \<Rightarrow> verify_entries request pinned window (Some entry) entries pfs)"
| "verify_entries request pinned window prior _ _ = Inr ()"

definition verify_cursor :: "RevisionStreamQueryRequest \<Rightarrow> RevisionStreamHead \<Rightarrow> RevisionStreamQueryPage \<Rightarrow> unit result" where
  "verify_cursor request pinned result =
     (let first = rr_First (pg_QueryWindow result); final = rr_Last (pg_QueryWindow result);
          actualFirst = rr_First (pg_Page result); actualLast = rr_Last (pg_Page result);
          expectedFirst = (case q_afterRevision request of None \<Rightarrow> first | Some after \<Rightarrow> Some (after + 1))
      in if (case q_afterRevision request of
               None \<Rightarrow> False
             | Some after \<Rightarrow> first = None \<or> final = None \<or> after < deref first \<or> deref final < after \<or> hd_Revision pinned \<le> after)
         then Inl (ErrorString ''query continuation is outside the authenticated window'')
         else if pg_Entries result = [] \<and> (actualFirst \<noteq> None \<or> actualLast \<noteq> None
                   \<or> (final \<noteq> None \<and> (q_afterRevision request = None \<or> deref (q_afterRevision request) \<noteq> deref final)))
         then Inl (ErrorString ''query page is empty before the authenticated window is exhausted'')
         else if pg_Entries result \<noteq> [] \<and> (actualFirst = None \<or> actualLast = None
                   \<or> deref actualFirst \<noteq> en_Revision (hd (pg_Entries result))
                   \<or> deref actualLast \<noteq> en_Revision (last (pg_Entries result))
                   \<or> expectedFirst = None \<or> deref actualFirst \<noteq> deref expectedFirst)
         then Inl (ErrorString ''query page revisions do not match entries/cursor'')
         else if unat (q_limit request) < length (pg_Entries result)
         then Inl (ErrorString ''query result exceeds requested page limit'')
         else Inr ())"

definition verify_tail :: "RevisionStreamHead \<Rightarrow> RevisionStreamQueryProof \<Rightarrow> RevisionStreamEntry list \<Rightarrow> unit result" where
  "verify_tail pinned pf entries =
     (if entries = [] then Inr ()
      else
        (let tail = last entries
         in if en_Revision tail = hd_Revision pinned
            then (if qp_PageSuccessor pf \<noteq> None \<or> en_RootSHA256 tail \<noteq> hd_RootSHA256 pinned
                  then Inl (ErrorString ''query page tail does not reach pinned head'') else Inr ())
            else (case qp_PageSuccessor pf of
                    None \<Rightarrow> Inl (ErrorString ''query page tail is not authenticated by its successor'')
                  | Some s \<Rightarrow>
                      if pt_Revision s \<noteq> en_Revision tail + 1 \<or> pt_PreviousRootSHA256 s \<noteq> en_RootSHA256 tail
                      then Inl (ErrorString ''query page tail is not authenticated by its successor'') else Inr ())))"

definition verify_more :: "RevisionStreamQueryPage \<Rightarrow> unit result" where
  "verify_more result =
     (let final = rr_Last (pg_QueryWindow result); actualLast = rr_Last (pg_Page result);
          expectedMore = (actualLast \<noteq> None \<and> final \<noteq> None \<and> deref actualLast < deref final)
      in if pg_HasMore result \<noteq> expectedMore
            \<or> (expectedMore \<and> (pg_NextAfterRevision result = None \<or> deref (pg_NextAfterRevision result) \<noteq> deref actualLast))
            \<or> (\<not> expectedMore \<and> pg_NextAfterRevision result \<noteq> None)
         then Inl (ErrorString ''query continuation metadata does not match authenticated window'')
         else Inr ())"

abbreviation proof_points :: "RevisionStreamQueryProof \<Rightarrow> RevisionStreamProofPoint option list" where
  "proof_points pf \<equiv> [qp_WindowPredecessor pf, qp_WindowFirst pf, qp_WindowLast pf, qp_WindowSuccessor pf, qp_PageSuccessor pf]"

definition verifyRevisionStreamQueryPage :: "RevisionStreamQueryRequest \<Rightarrow> RevisionStreamQueryPage \<Rightarrow> unit result" where
  "verifyRevisionStreamQueryPage request result =
     (case (pg_PinnedHead result, pg_ObservedLiveHead result, pg_Proof result) of
        (Some pinned, Some live, Some pf) \<Rightarrow>
          (case hd_Proof pinned of
             None \<Rightarrow> Inl (ErrorString ''authenticated result lacks proof-bearing heads/query proof'')
           | Some pinnedProof \<Rightarrow>
               if qp_Version pf \<noteq> revisionStreamProofVersion \<or> qp_Scheme pf \<noteq> ''talon_mmr_sha256_v1''
                  \<or> qp_RootSHA256 pf \<noteq> ph_RootSHA256 pinnedProof \<or> length (qp_EntryProofs pf) \<noteq> length (pg_Entries result)
               then Inl (ErrorString ''query proof metadata does not match pinned head/page'')
               else case verify_points (q_streamID request) pinned (proof_points pf) of
                 Inl err \<Rightarrow> Inl err
               | Inr _ \<Rightarrow>
                   (case verify_window request pinned pf (pg_QueryWindow result) of
                      Inl err \<Rightarrow> Inl err
                    | Inr _ \<Rightarrow>
                        (case verify_cursor request pinned result of
                           Inl err \<Rightarrow> Inl err
                         | Inr _ \<Rightarrow>
                             (case verify_entries request pinned (pg_QueryWindow result) None (pg_Entries result) (qp_EntryProofs pf) of
                                Inl err \<Rightarrow> Inl err
                              | Inr _ \<Rightarrow>
                                  (case verify_tail pinned pf (pg_Entries result) of
                                     Inl err \<Rightarrow> Inl err
                                   | Inr _ \<Rightarrow> verify_more result)))))
      | _ \<Rightarrow> Inl (ErrorString ''authenticated result lacks proof-bearing heads/query proof''))"


section \<open>Decoding a page\<close>

text \<open>The pinned and the live head of a page: present, the requested ones, and moving forward only.\<close>

definition head_precedes :: "RevisionStreamHead \<Rightarrow> RevisionStreamHead \<Rightarrow> bool" where
  "head_precedes live bound \<longleftrightarrow> hd_Revision live < hd_Revision bound \<or> sint (hd_LastOccurredAt live) < sint (hd_LastOccurredAt bound)
     \<or> (hd_Revision live = hd_Revision bound \<and> \<not> revisionStreamHeadsEqual live bound)"

definition decode_page_heads :: "RevisionStreamQueryRequest \<Rightarrow> json \<Rightarrow> json \<Rightarrow> (RevisionStreamHead \<times> RevisionStreamHead) result" where
  "decode_page_heads request rawPinned rawLive =
     (case decodeNullableRevisionStreamHead (q_streamID request) rawPinned ''pinned_head'' of
        Inl err \<Rightarrow> Inl err
      | Inr pinnedHead \<Rightarrow>
          (case decodeNullableRevisionStreamHead (q_streamID request) rawLive ''observed_live_head'' of
             Inl err \<Rightarrow> Inl err
           | Inr liveHead \<Rightarrow>
               (case (pinnedHead, liveHead) of
                  (Some pinned, Some live) \<Rightarrow>
                    if (case q_pinnedHead request of None \<Rightarrow> False | Some head \<Rightarrow> \<not> revisionStreamHeadsEqual pinned head)
                    then query_failure ''response changed the requested pinned head''
                    else if head_precedes live pinned
                            \<or> (q_pinnedHead request = None \<and> \<not> revisionStreamHeadsEqual live pinned)
                    then query_failure ''observed live head precedes or contradicts pinned head''
                    else if (case q_minimumLiveHead request of None \<Rightarrow> False | Some head \<Rightarrow> head_precedes live head)
                    then query_failure ''observed live head rolled back across pages''
                    else Inr (pinned, live)
                | _ \<Rightarrow> query_failure ''authenticated result lacks pinned/live head'')))"

fun decode_entries :: "RevisionStreamHead \<Rightarrow> nat \<Rightarrow> wireRevisionStreamEntry list \<Rightarrow> RevisionStreamEntry list result" where
  "decode_entries pinned index [] = Inr []"
| "decode_entries pinned index (wire # wires) =
     (if \<not> cu_Present (we_Revision wire) \<or> \<not> ci_Present (we_OccurredAt wire) \<or> \<not> wb_Present (we_Payload wire)
         \<or> wb_Null (we_Payload wire) \<or> cu_Value (we_Revision wire) = 0 \<or> hd_Revision pinned < cu_Value (we_Revision wire)
         \<or> \<not> list_all sha_pattern [we_PayloadSHA256 wire, we_RootSHA256 wire, we_PreviousRootSHA256 wire, we_ContentSHA256 wire,
               we_ProofRootSHA256 wire]
      then query_failure (''entry '' @ nat_str index @ '' has invalid fields'')
      else case decode_entries pinned (Suc index) wires of
        Inl e \<Rightarrow> Inl e
      | Inr entries \<Rightarrow>
          Inr (\<lparr>en_Revision = cu_Value (we_Revision wire), en_OccurredAt = ci_Value (we_OccurredAt wire),
             en_Payload = wb_Value (we_Payload wire), en_PayloadSHA256 = we_PayloadSHA256 wire, en_RootSHA256 = we_RootSHA256 wire,
             en_PreviousRootSHA256 = we_PreviousRootSHA256 wire, en_ContentSHA256 = we_ContentSHA256 wire,
             en_ProofRootSHA256 = we_ProofRootSHA256 wire\<rparr> # entries))"

text \<open>The ranges of a page against the request, the pinned head and the number of entries.\<close>

definition check_page_ranges :: "RevisionStreamQueryRequest \<Rightarrow> RevisionStreamHead \<Rightarrow> RevisionStreamRevisionRange
    \<Rightarrow> RevisionStreamRevisionRange \<Rightarrow> nat \<Rightarrow> unit result" where
  "check_page_ranges request pinned window pageRange entries =
     (if (case q_expectedWindow request of None \<Rightarrow> False | Some expected \<Rightarrow> \<not> revisionStreamRangesEqual window expected)
      then query_failure ''continuation changed the pinned query window''
      else if rr_First window \<noteq> None \<and> (deref (rr_First window) = 0 \<or> hd_Revision pinned < deref (rr_Last window))
      then query_failure ''query window is outside pinned head''
      else if (entries = 0) \<noteq> (rr_First pageRange = None) then query_failure ''page range does not match entries''
      else if rr_First window = None \<and> rr_First pageRange \<noteq> None
      then query_failure ''non-empty page has an empty query window''
      else if rr_First pageRange \<noteq> None \<and> (deref (rr_First pageRange) < deref (rr_First window)
                \<or> deref (rr_Last window) < deref (rr_Last pageRange))
      then query_failure ''page is outside query window''
      else Inr ())"

definition check_page_bounds :: "RevisionStreamQueryRequest \<Rightarrow> RevisionStreamRevisionRange \<Rightarrow> RevisionStreamRevisionRange
    \<Rightarrow> RevisionStreamEntry list \<Rightarrow> bool \<Rightarrow> nullableCanonicalUint64 \<Rightarrow> unit result" where
  "check_page_bounds request window pageRange entries hasMore nextAfter =
     (if entries \<noteq> [] \<and> (deref (rr_First pageRange) \<noteq> en_Revision (hd entries) \<or> deref (rr_Last pageRange) \<noteq> en_Revision (last entries))
      then query_failure ''page bounds differ from entries''
      else if q_afterRevision request = None \<and> rr_First pageRange \<noteq> None \<and> deref (rr_First pageRange) \<noteq> deref (rr_First window)
      then query_failure ''first page does not begin at query window''
      else if hasMore \<and> (nc_Null nextAfter \<or> rr_Last pageRange = None \<or> nc_Value nextAfter \<noteq> deref (rr_Last pageRange)
                \<or> deref (rr_Last window) \<le> deref (rr_Last pageRange))
      then query_failure ''continuation cursor is inconsistent''
      else if \<not> hasMore \<and> (\<not> nc_Null nextAfter \<or> (rr_Last pageRange \<noteq> None \<and> deref (rr_Last pageRange) \<noteq> deref (rr_Last window)))
      then query_failure ''terminal page bounds/cursor are inconsistent''
      else Inr ())"

text \<open>What is done after the page has been verified: the prior root, and the continuation of a page with more.\<close>

definition finish_page :: "RevisionStreamQueryRequest \<Rightarrow> RevisionStreamHead \<Rightarrow> RevisionStreamHead \<Rightarrow> RevisionStreamQueryPage
    \<Rightarrow> RevisionStreamQueryPage result" where
  "finish_page request pinned live result =
     (if (case q_expectedWindow request of None \<Rightarrow> False | Some expected \<Rightarrow> \<not> revisionStreamRangesEqual (pg_QueryWindow result) expected)
      then query_failure ''continuation changed the pinned query window''
      else if (case q_previousRoot request of
                 None \<Rightarrow> False
               | Some root \<Rightarrow> pg_Entries result \<noteq> [] \<and> en_PreviousRootSHA256 (hd (pg_Entries result)) \<noteq> hex_encode root)
      then query_failure ''continuation page changed its prior root''
      else if pg_HasMore result
      then Inr (result\<lparr>pg_Continuation := Some
             \<lparr>ct_streamID = q_streamID request, ct_fromOccurredAt = q_fromOccurredAt request,
              ct_untilOccurredAt = q_untilOccurredAt request, ct_pinnedHead = pinned,
              ct_afterRevision = deref (pg_NextAfterRevision result), ct_window = pg_QueryWindow result,
              ct_previousRoot = digest_or_zero (en_RootSHA256 (last (pg_Entries result))), ct_minimumLiveHead = live\<rparr>\<rparr>)
      else Inr result)"

definition decode_page_body :: "RevisionStreamQueryRequest \<Rightarrow> RevisionStreamHead \<Rightarrow> RevisionStreamHead \<Rightarrow> RevisionStreamRevisionRange
    \<Rightarrow> RevisionStreamRevisionRange \<Rightarrow> bool \<Rightarrow> nullableCanonicalUint64 \<Rightarrow> wireRevisionStreamEntry list \<Rightarrow> wireRevisionStreamQueryProof
    \<Rightarrow> RevisionStreamQueryPage result" where
  "decode_page_body request pinned live window pageRange hasMore nextAfter wireEntries wireProof =
     (case check_page_ranges request pinned window pageRange (length wireEntries) of
        Inl err \<Rightarrow> Inl err
      | Inr _ \<Rightarrow>
          (case decode_entries pinned 0 wireEntries of
             Inl err \<Rightarrow> Inl err
           | Inr entries \<Rightarrow>
               (case check_page_bounds request window pageRange entries hasMore nextAfter of
                  Inl err \<Rightarrow> Inl err
                | Inr _ \<Rightarrow>
                    (case decodeRevisionStreamQueryProof wireProof of
                       Inl err \<Rightarrow> Inl (revisionStreamProtocolError ''decode revision stream query'' err)
                     | Inr pf \<Rightarrow>
                         (let result = \<lparr>pg_PinnedHead = Some pinned, pg_ObservedLiveHead = Some live, pg_QueryWindow = window,
                                pg_Page = pageRange,
                                pg_NextAfterRevision = (if nc_Null nextAfter then None else Some (nc_Value nextAfter)),
                                pg_HasMore = hasMore, pg_Entries = entries, pg_Proof = Some pf, pg_Continuation = None\<rparr>
                          in case verifyRevisionStreamQueryPage request result of
                            Inl err \<Rightarrow> Inl (revisionStreamProtocolError ''decode revision stream query'' err)
                          | Inr _ \<Rightarrow> finish_page request pinned live result)))))"

definition decodeRevisionStreamQueryPage :: "json \<Rightarrow> RevisionStreamQueryRequest \<Rightarrow> RevisionStreamQueryPage result" where
  "decodeRevisionStreamQueryPage data request =
     (case decodeStrictRaw wirePage_decoder zero_wirePage data of
        Inl err \<Rightarrow> Inl (revisionStreamProtocolError ''decode revision stream query'' err)
      | Inr wire \<Rightarrow>
          (case (wpg_PinnedHead wire, wpg_ObservedLiveHead wire, wpg_HasMore wire, wpg_Entries wire, wpg_Proof wire) of
             (Some rawPinned, Some rawLive, Some hasMore, Some wireEntries, Some wireProof) \<Rightarrow>
               if \<not> nc_Present (wpg_QueryWindowFirstRevision wire) \<or> \<not> nc_Present (wpg_QueryWindowLastRevision wire)
                  \<or> \<not> nc_Present (wpg_PageFirstRevision wire) \<or> \<not> nc_Present (wpg_PageLastRevision wire)
                  \<or> \<not> nc_Present (wpg_NextAfterRevision wire)
               then query_failure ''required query result fields are missing''
               else case decode_page_heads request rawPinned rawLive of
                 Inl err \<Rightarrow> Inl err
               | Inr (pinned, live) \<Rightarrow>
                   (case decodeRevisionStreamRange (wpg_QueryWindowFirstRevision wire) (wpg_QueryWindowLastRevision wire) ''query window'' of
                      Inl err \<Rightarrow> Inl err
                    | Inr window \<Rightarrow>
                        (case decodeRevisionStreamRange (wpg_PageFirstRevision wire) (wpg_PageLastRevision wire) ''page'' of
                           Inl err \<Rightarrow> Inl err
                         | Inr pageRange \<Rightarrow>
                             decode_page_body request pinned live window pageRange hasMore (wpg_NextAfterRevision wire)
                               wireEntries wireProof))
           | _ \<Rightarrow> query_failure ''required query result fields are missing''))"

definition RevisionStreamQuery :: "('h \<Rightarrow> string \<Rightarrow> 'h \<times> string native_reply) \<Rightarrow> 'h DB \<Rightarrow> RevisionStreamQueryRequest
    \<Rightarrow> 'h DB \<times> RevisionStreamQueryPage result" where
  "RevisionStreamQuery talon_execute db request =
     (case RequireCapability (db_nativeInfo db) ''revision_stream'' of
        Inl err \<Rightarrow> (db, Inl err)
      | Inr _ \<Rightarrow>
          (case newRevisionStreamQueryRequest (q_streamID request) (q_fromOccurredAt request) (q_untilOccurredAt request)
                  (q_pinnedHead request) (q_afterRevision request) (q_limit request) (q_expectedWindow request)
                  (q_previousRoot request) (q_minimumLiveHead request) of
             Inl err \<Rightarrow> (db, Inl err)
           | Inr validated \<Rightarrow>
               (case execute talon_execute db ''storage'' ''revision_stream_query'' (Some (Inr (wireRevisionStreamQueryRequest_json validated))) of
                  (db', Inl err) \<Rightarrow> (db', Inl err)
                | (db', Inr data) \<Rightarrow> (db', decodeRevisionStreamQueryPage data validated))))"

end
