(* ===== verification/RevisionQueryProofs.thy ===== *)
theory RevisionQueryProofs
  imports RevisionQuery RevisionLog
begin

text \<open>
  What a verified page says about the log behind the pinned head. The reference query filters the log by
  time and drops what the cursor has passed; a page that verifies is its answer, unless two of the messages
  that were hashed on the way collide.
\<close>

section \<open>Events of a log by revision\<close>

definition log_at :: "stream_event list \<Rightarrow> nat \<Rightarrow> stream_event" where
  "log_at log r = log ! (length log - r)"

definition log_before :: "stream_event list \<Rightarrow> nat \<Rightarrow> stream_event list" where
  "log_before log r = drop (Suc (length log - r)) log"

definition root_before :: "bytes \<Rightarrow> stream_event list \<Rightarrow> nat \<Rightarrow> bytes" where
  "root_before sid log r = snd (log_chain sid (log_before log r))"

definition event_message :: "bytes \<Rightarrow> stream_event list \<Rightarrow> nat \<Rightarrow> bytes" where
  "event_message sid log r = content_message sid (root_before sid log r) (of_nat r) (fst (log_at log r)) (sha256 (snd (log_at log r)))"

lemma log_content_at:
  "1 \<le> r \<Longrightarrow> r \<le> length log \<Longrightarrow> revision_content (fst (log_chain sid log)) r = sha256 (event_message sid log r)"
proof (induction log)
  case (Cons e older)
  obtain t p where e: "e = (t, p)" by fastforce
  obtain cs root where c: "log_chain sid older = (cs, root)" by fastforce
  have len: "length cs = length older" using length_log_contents [of sid older] c by simp
  show ?case
  proof (cases "r = Suc (length older)")
    case True
    then show ?thesis
      by (simp add: e c Let_def revision_content_def nth_append len event_message_def root_before_def log_before_def log_at_def
          calculateRevisionStreamContent_def)
  next
    case False
    then have r: "r \<le> length older" using Cons.prems by simp
    then have at: "Suc (length older) - r = Suc (length older - r)" by (simp add: Suc_diff_le)
    have "event_message sid (e # older) r = event_message sid older r"
      by (simp add: event_message_def root_before_def log_before_def log_at_def at)
    moreover have "revision_content (fst (log_chain sid (e # older))) r = revision_content cs r"
      using r Cons.prems(1) by (auto simp: e c Let_def revision_content_def nth_append len)
    ultimately show ?thesis using Cons.IH [OF Cons.prems(1) r] c by simp
  qed
qed simp

lemma log_head_peaks:
  assumes "log_head sid log = Some pinned"
  shows "map_option ph_Peaks (hd_Proof pinned) = Some (mountain_range sid (revision_content (fst (log_chain sid log))) (length log))"
    "hd_Revision pinned = of_nat (length log)" "log \<noteq> []"
  using assms by (cases log; auto simp: log_head_def Let_def split: prod.splits)+

section \<open>One point\<close>

text \<open>The digests of a point are those of the log, and the pairs of messages whose digests were compared.\<close>

definition agrees :: "bytes \<Rightarrow> stream_event list \<Rightarrow> uint64 \<Rightarrow> bytes \<Rightarrow> int64 \<Rightarrow> bytes \<Rightarrow> bool" where
  "agrees sid log r previous t payload \<longleftrightarrow> 1 \<le> unat r \<and> unat r \<le> length log \<and> t = fst (log_at log (unat r))
     \<and> previous = root_before sid log (unat r) \<and> payload = sha256 (snd (log_at log (unat r)))"

definition point_pairs :: "bytes \<Rightarrow> stream_event list \<Rightarrow> uint64 \<Rightarrow> bytes \<Rightarrow> int64 \<Rightarrow> bytes \<Rightarrow> RevisionStreamInclusionProof \<Rightarrow> (bytes \<times> bytes) list" where
  "point_pairs sid log r previous t payload incl =
     (let m = content_message sid previous r t payload
      in (m, event_message sid log (unat r))
         # zip (verifier_messages sid (unat r) (sha256 m) incl)
             (stream_messages sid (revision_content (fst (log_chain sid log))) (unat r) incl))"

lemma point_sound:
  assumes head: "log_head sid log = Some pinned" and n: "length log < 2 ^ 64" and prev: "length previous = 32"
    and v: "verifyRevisionStreamInclusion sid (map_option ph_Peaks (hd_Proof pinned)) r
      (calculateRevisionStreamContent sid previous r t payload) incl = Inr ()"
  shows "agrees sid log r previous t payload \<or> list_ex hash_collision (point_pairs sid log r previous t payload incl)"
proof -
  let ?c = "revision_content (fst (log_chain sid log))" and ?m = "content_message sid previous r t payload"
  let ?pairs = "zip (verifier_messages sid (unat r) (sha256 ?m) incl) (stream_messages sid ?c (unat r) incl)"
  have "verifyRevisionStreamInclusion sid (Some (mountain_range sid ?c (length log))) (of_nat (unat r)) (sha256 ?m) incl = Inr ()"
    using v log_head_peaks [OF head] by (simp add: calculateRevisionStreamContent_def)
  from accepted_inclusion_collision [OF n _ this]
  have a: "1 \<le> unat r" "unat r \<le> length log" "sha256 ?m = ?c (unat r) \<or> (\<exists>mm \<in> set ?pairs. hash_collision mm)"
    using unat_width [of r] by auto
  have l: "length (root_before sid log (unat r)) = 32" by (simp add: root_before_def)
  have "agrees sid log r previous t payload \<or> hash_collision (?m, event_message sid log (unat r))" if "sha256 ?m = ?c (unat r)"
    using equal_or_collision [of ?m "event_message sid log (unat r)"] that log_content_at [OF a(1,2)] a(1,2) prev l
    by (auto simp: agrees_def event_message_def content_message_inject)
  then show ?thesis using a(3) by (auto simp: point_pairs_def Let_def list_ex_iff)
qed

lemma digest_length: "decodeRevisionStreamDigest s = Inr d \<Longrightarrow> length d = 32"
  by (simp add: digest_Inr)

definition proof_point_pairs :: "bytes \<Rightarrow> stream_event list \<Rightarrow> RevisionStreamProofPoint \<Rightarrow> (bytes \<times> bytes) list" where
  "proof_point_pairs sid log p = point_pairs sid log (pt_Revision p) (digest_or_zero (pt_PreviousRootSHA256 p)) (pt_OccurredAt p)
     (digest_or_zero (pt_PayloadSHA256 p)) (pt_Inclusion p)"

definition entry_pairs :: "bytes \<Rightarrow> stream_event list \<Rightarrow> RevisionStreamEntry \<Rightarrow> RevisionStreamInclusionProof \<Rightarrow> (bytes \<times> bytes) list" where
  "entry_pairs sid log e incl = (en_Payload e, snd (log_at log (unat (en_Revision e))))
     # point_pairs sid log (en_Revision e) (digest_or_zero (en_PreviousRootSHA256 e)) (en_OccurredAt e) (sha256 (en_Payload e)) incl"

lemma verified_point_sound:
  assumes "log_head sid log = Some pinned" "length log < 2 ^ 64" "verifyRevisionStreamProofPoint sid pinned p = Inr ()"
    "\<not> list_ex hash_collision (proof_point_pairs sid log p)"
  shows "1 \<le> unat (pt_Revision p) \<and> unat (pt_Revision p) \<le> length log \<and> pt_OccurredAt p = fst (log_at log (unat (pt_Revision p)))"
proof -
  obtain previous payload where d: "decodeRevisionStreamDigest (pt_PreviousRootSHA256 p) = Inr previous"
    "decodeRevisionStreamDigest (pt_PayloadSHA256 p) = Inr payload"
    and v: "verifyRevisionStreamInclusion sid (map_option ph_Peaks (hd_Proof pinned)) (pt_Revision p)
      (calculateRevisionStreamContent sid previous (pt_Revision p) (pt_OccurredAt p) payload) (pt_Inclusion p) = Inr ()"
    using assms(3) by (auto simp: verifyRevisionStreamProofPoint_def Let_def split: sum.splits if_splits)
  have z: "digest_or_zero (pt_PreviousRootSHA256 p) = previous" "digest_or_zero (pt_PayloadSHA256 p) = payload"
    using d by (simp_all add: digest_or_zero_def)
  show ?thesis
    using point_sound [OF assms(1,2) digest_length [OF d(1)] v] assms(4) by (auto simp: proof_point_pairs_def z agrees_def)
qed

lemma verified_entry_sound:
  assumes "log_head sid log = Some pinned" "length log < 2 ^ 64" "verifyRevisionStreamEntryInclusion sid pinned e incl = Inr ()"
    "\<not> list_ex hash_collision (entry_pairs sid log e incl)"
  shows "1 \<le> unat (en_Revision e) \<and> unat (en_Revision e) \<le> length log
    \<and> log_at log (unat (en_Revision e)) = (en_OccurredAt e, en_Payload e)"
proof -
  obtain previous where d: "decodeRevisionStreamDigest (en_PreviousRootSHA256 e) = Inr previous"
    and v: "verifyRevisionStreamInclusion sid (map_option ph_Peaks (hd_Proof pinned)) (en_Revision e)
      (calculateRevisionStreamContent sid previous (en_Revision e) (en_OccurredAt e) (sha256 (en_Payload e))) incl = Inr ()"
    using assms(3) by (auto simp: verifyRevisionStreamEntryInclusion_def Let_def split: sum.splits if_splits)
  have z: "digest_or_zero (en_PreviousRootSHA256 e) = previous" using d by (simp add: digest_or_zero_def)
  have a: "agrees sid log (en_Revision e) previous (en_OccurredAt e) (sha256 (en_Payload e))"
    using point_sound [OF assms(1,2) digest_length [OF d] v] assms(4) by (auto simp: entry_pairs_def z)
  moreover have "en_Payload e = snd (log_at log (unat (en_Revision e)))"
    using a equal_or_collision [of "en_Payload e" "snd (log_at log (unat (en_Revision e)))"] assms(4)
    by (auto simp: agrees_def entry_pairs_def)
  ultimately show ?thesis by (auto simp: agrees_def prod_eq_iff)
qed


section \<open>The reference query\<close>

text \<open>The revisions in the requested time window, ascending, and those the cursor has not passed.\<close>

definition window_revisions :: "RevisionStreamQueryRequest \<Rightarrow> stream_event list \<Rightarrow> nat list" where
  "window_revisions request log = filter (\<lambda>r. \<not> outside_time request (fst (log_at log r))) [1..<Suc (length log)]"

definition remaining :: "RevisionStreamQueryRequest \<Rightarrow> stream_event list \<Rightarrow> nat list" where
  "remaining request log =
     filter (\<lambda>r. case q_afterRevision request of None \<Rightarrow> True | Some after \<Rightarrow> unat after < r) (window_revisions request log)"

definition log_event :: "stream_event list \<Rightarrow> nat \<Rightarrow> nat \<times> int64 \<times> bytes" where
  "log_event log r = (r, log_at log r)"

definition entry_event :: "RevisionStreamEntry \<Rightarrow> nat \<times> int64 \<times> bytes" where
  "entry_event e = (unat (en_Revision e), en_OccurredAt e, en_Payload e)"

text \<open>Occurrence times never go back, as \<open>check_append_request\<close> demands of every append.\<close>

definition times_ascend :: "stream_event list \<Rightarrow> bool" where
  "times_ascend log \<longleftrightarrow> sorted_wrt (\<lambda>newer older. sint (fst older) \<le> sint (fst newer)) log"

lemma times_mono:
  assumes "times_ascend log" "1 \<le> r" "r \<le> s" "s \<le> length log"
  shows "sint (fst (log_at log r)) \<le> sint (fst (log_at log s))"
proof (cases "r = s")
  case False
  then have "length log - s < length log - r" "length log - r < length log" using assms by auto
  then show ?thesis
    using assms(1) sorted_wrt_nth_less [of _ log "length log - s" "length log - r"] by (auto simp: times_ascend_def log_at_def)
qed simp

lemma filter_interval:
  assumes "\<And>r. 1 \<le> r \<Longrightarrow> r \<le> n \<Longrightarrow> P r \<longleftrightarrow> f \<le> r \<and> r \<le> l" "1 \<le> f" "l \<le> n"
  shows "filter P [1..<Suc n] = [f..<Suc l]"
proof -
  have "filter P [1..<Suc n] = filter (\<lambda>r. f \<le> r \<and> r < Suc l) [1..<Suc n]"
    using assms(1) by (intro filter_cong) auto
  also have "\<dots> = [f..<Suc l]"
  proof (rule sorted_distinct_set_unique)
    show "set (filter (\<lambda>r. f \<le> r \<and> r < Suc l) [1..<Suc n]) = set [f..<Suc l]" using assms(2,3) by auto
  qed (auto simp: sorted_wrt_filter simp del: upt_Suc)
  finally show ?thesis .
qed

lemma filter_upt_after: "k \<le> Suc l \<Longrightarrow> f \<le> k \<Longrightarrow> filter (\<lambda>r. k \<le> r) [f..<Suc l] = [k..<Suc l]" for k f l :: nat
  by (rule sorted_distinct_set_unique) (auto simp: sorted_wrt_filter simp del: upt_Suc)


section \<open>The window\<close>

definition truthful :: "stream_event list \<Rightarrow> RevisionStreamProofPoint \<Rightarrow> bool" where
  "truthful log p \<longleftrightarrow> 1 \<le> unat (pt_Revision p) \<and> unat (pt_Revision p) \<le> length log \<and> pt_OccurredAt p = fst (log_at log (unat (pt_Revision p)))"

lemma unat_succ: "unat (x :: uint64) < m \<Longrightarrow> m < 2 ^ 64 \<Longrightarrow> unat (x + 1) = unat x + 1"
  by (simp add: unat_word_ariths)

lemma unat_pred: "(x :: uint64) \<noteq> 0 \<Longrightarrow> unat (x - 1) = unat x - 1"
  by (simp add: unat_minus_one)

lemma full_window:
  assumes n: "length log < 2 ^ 64" "hd_Revision pinned = of_nat (length log)" and asc: "times_ascend log"
    and v: "verify_window request pinned pf window = Inr ()" and w: "rr_First window = Some first" "rr_Last window = Some final"
    and pts: "list_all (\<lambda>p. case p of None \<Rightarrow> True | Some x \<Rightarrow> truthful log x) (proof_points pf)"
  shows "1 \<le> unat first \<and> unat final \<le> length log \<and> window_revisions request log = [unat first..<Suc (unat final)]"
proof -
  let ?T = "\<lambda>r. sint (fst (log_at log r))"
  let ?in = "\<lambda>r. \<not> outside_time request (fst (log_at log r))"
  obtain h t where h: "qp_WindowFirst pf = Some h" "qp_WindowLast pf = Some t" "pt_Revision h = first" "pt_Revision t = final"
    "\<not> outside_time request (pt_OccurredAt h)" "\<not> outside_time request (pt_OccurredAt t)"
    and lo: "first \<noteq> 1 \<Longrightarrow> \<exists>p. qp_WindowPredecessor pf = Some p \<and> pt_Revision p = first - 1 \<and> sint (pt_OccurredAt p) < sint (q_fromOccurredAt request)"
    and hi: "final \<noteq> hd_Revision pinned \<Longrightarrow> \<exists>p. qp_WindowSuccessor pf = Some p \<and> pt_Revision p = final + 1 \<and> sint (q_untilOccurredAt request) \<le> sint (pt_OccurredAt p)"
    using v w by (auto simp: verify_window_def not_le not_less split: option.splits if_splits)
  have f: "1 \<le> unat first" "unat first \<le> length log" "1 \<le> unat final" "unat final \<le> length log" "?in (unat first)" "?in (unat final)"
    using pts h by (auto simp: truthful_def)
  have low: "\<not> ?in r" if "1 \<le> r" "r < unat first" for r
  proof -
    have "first \<noteq> 1" using that by auto
    then obtain p where p: "qp_WindowPredecessor pf = Some p" "pt_Revision p = first - 1" "sint (pt_OccurredAt p) < sint (q_fromOccurredAt request)"
      using lo by blast
    have "first \<noteq> 0" using f(1) by auto
    then have "?T (unat first - 1) < sint (q_fromOccurredAt request)" using p pts by (auto simp: truthful_def unat_pred)
    then have "?T r < sint (q_fromOccurredAt request)" using times_mono [OF asc that(1), of "unat first - 1"] that f by linarith
    then show ?thesis by (simp add: outside_time_def)
  qed
  have high: "\<not> ?in r" if "unat final < r" "r \<le> length log" for r
  proof -
    have u: "unat (hd_Revision pinned) = length log" using n by (simp add: unat_of_nat_uint64)
    then have "final \<noteq> hd_Revision pinned" using that by auto
    then obtain p where p: "qp_WindowSuccessor pf = Some p" "pt_Revision p = final + 1" "sint (q_untilOccurredAt request) \<le> sint (pt_OccurredAt p)"
      using hi by blast
    have "unat (final + 1) = unat final + 1" using that n(1) by (intro unat_succ [of _ "length log"]) auto
    then have "sint (q_untilOccurredAt request) \<le> ?T (unat final + 1)" using p pts by (auto simp: truthful_def)
    then have "sint (q_untilOccurredAt request) \<le> ?T r" using times_mono [OF asc, of "unat final + 1" r] that by linarith
    then show ?thesis by (simp add: outside_time_def)
  qed
  have mid: "?in r" if "unat first \<le> r" "r \<le> unat final" for r
    using times_mono [OF asc f(1) that(1)] times_mono [OF asc _ that(2)] that f by (auto simp: outside_time_def not_less not_le)
  have "window_revisions request log = [unat first..<Suc (unat final)]"
    unfolding window_revisions_def using low high mid f by (intro filter_interval) (auto simp: not_less [symmetric])
  then show ?thesis using f by simp
qed

lemma empty_window:
  assumes n: "length log < 2 ^ 64" "hd_Revision pinned = of_nat (length log)" and asc: "times_ascend log"
    and v: "verify_window request pinned pf window = Inr ()" and w: "rr_First window = None"
    and pts: "list_all (\<lambda>p. case p of None \<Rightarrow> True | Some x \<Rightarrow> truthful log x) (proof_points pf)"
  shows "rr_Last window = None \<and> window_revisions request log = []"
proof -
  let ?T = "\<lambda>r. sint (fst (log_at log r))"
  have low: "?T r < sint (q_fromOccurredAt request)"
    if "qp_WindowPredecessor pf = Some p" "sint (pt_OccurredAt p) < sint (q_fromOccurredAt request)" "1 \<le> r" "r \<le> unat (pt_Revision p)" for p r
    using that pts times_mono [OF asc that(3,4)] by (auto simp: truthful_def)
  have high: "sint (q_untilOccurredAt request) \<le> ?T r"
    if "qp_WindowSuccessor pf = Some p" "sint (q_untilOccurredAt request) \<le> sint (pt_OccurredAt p)" "unat (pt_Revision p) \<le> r" "r \<le> length log" for p r
    using that pts times_mono [OF asc _ that(3,4)] by (auto simp: truthful_def)
  have u: "unat (hd_Revision pinned) = length log" using n by (simp add: unat_of_nat_uint64)
  have ends: "rr_Last window = None" "\<And>p. qp_WindowPredecessor pf = Some p \<Longrightarrow> sint (pt_OccurredAt p) < sint (q_fromOccurredAt request)"
    "\<And>p. qp_WindowSuccessor pf = Some p \<Longrightarrow> sint (q_untilOccurredAt request) \<le> sint (pt_OccurredAt p)"
    using v w by (auto simp: verify_window_def not_le not_less split: option.splits if_splits)
  have "outside_time request (fst (log_at log r))" if r: "1 \<le> r" "r \<le> length log" for r
  proof -
    consider p s where "qp_WindowPredecessor pf = Some p" "qp_WindowSuccessor pf = Some s" "pt_Revision p \<noteq> - 1" "pt_Revision s = pt_Revision p + 1"
      | s where "qp_WindowSuccessor pf = Some s" "pt_Revision s = 1" | p where "qp_WindowPredecessor pf = Some p" "pt_Revision p = hd_Revision pinned"
      using v w by (auto simp: verify_window_def split: option.splits if_splits)
    then show ?thesis
    proof cases
      case (1 p s)
      then have "unat (pt_Revision s) = unat (pt_Revision p) + 1" using uint64_successor by blast
      then consider "r \<le> unat (pt_Revision p)" | "unat (pt_Revision s) \<le> r" by linarith
      then show ?thesis using low [OF 1(1) ends(2) [OF 1(1)] r(1)] high [OF 1(2) ends(3) [OF 1(2)] _ r(2)] by cases (auto simp: outside_time_def)
    next
      case (2 s)
      then show ?thesis using high [OF 2(1) ends(3) [OF 2(1)] _ r(2)] r by (auto simp: outside_time_def)
    next
      case (3 p)
      then show ?thesis using low [OF 3(1) ends(2) [OF 3(1)] r(1)] u r by (auto simp: outside_time_def)
    qed
  qed
  then show ?thesis using ends(1) by (auto simp: window_revisions_def filter_empty_conv)
qed


section \<open>The entries\<close>

lemma successor_exists: "\<exists>k. case prior of None \<Rightarrow> True | Some p \<Rightarrow> k = f p"
  by (cases prior) auto

lemma entries_consecutive:
  assumes "verify_entries request pinned window prior es pfs = Inr ()" "length pfs = length es"
  shows "\<exists>k. (case prior of None \<Rightarrow> True | Some p \<Rightarrow> k = unat (en_Revision p) + 1) \<and> map (\<lambda>e. unat (en_Revision e)) es = [k..<k + length es]"
  using assms
proof (induction request pinned window prior es pfs rule: verify_entries.induct)
  case (1 request pinned window prior e es pf pfs)
  have v: "verify_entries request pinned window (Some e) es pfs = Inr ()"
    and link: "\<And>p. prior = Some p \<Longrightarrow> en_Revision p \<noteq> - 1 \<and> en_Revision e = en_Revision p + 1"
    using "1.prems"(1) by (auto split: option.splits if_splits sum.splits)
  have "map (\<lambda>e. unat (en_Revision e)) es = [unat (en_Revision e) + 1..<unat (en_Revision e) + 1 + length es]"
    using "1.IH" "1.prems" v by (auto split: if_splits sum.splits)
  moreover have "case prior of None \<Rightarrow> True | Some p \<Rightarrow> unat (en_Revision e) = unat (en_Revision p) + 1"
    using link uint64_successor by (auto split: option.split)
  ultimately show ?case
    by (intro exI [of _ "unat (en_Revision e)"]) (auto simp: upt_conv_Cons simp del: upt_Suc)
qed (simp_all add: successor_exists)

lemma entries_sound:
  assumes "log_head (q_streamID request) log = Some pinned" "length log < 2 ^ 64"
    "verify_entries request pinned window prior es pfs = Inr ()" "length pfs = length es"
    "list_all (\<lambda>(e, pf). \<not> list_ex hash_collision (entry_pairs (q_streamID request) log e pf)) (zip es pfs)"
  shows "list_all (\<lambda>e. entry_event e = log_event log (unat (en_Revision e)) \<and> rr_First window \<noteq> None \<and> rr_Last window \<noteq> None
    \<and> en_Revision e \<le> deref (rr_Last window)) es"
  using assms
proof (induction request pinned window prior es pfs rule: verify_entries.induct)
  case (1 request pinned window prior e es pf pfs)
  have v: "verifyRevisionStreamEntryInclusion (q_streamID request) pinned e pf = Inr ()"
    "verify_entries request pinned window (Some e) es pfs = Inr ()"
    "rr_First window \<noteq> None" "rr_Last window \<noteq> None" "en_Revision e \<le> deref (rr_Last window)"
    using "1.prems"(3) by (auto simp: not_less split: option.splits if_splits sum.splits)
  have "\<not> list_ex hash_collision (entry_pairs (q_streamID request) log e pf)" using "1.prems"(5) by simp
  from verified_entry_sound [OF "1.prems"(1,2) v(1) this] have "entry_event e = log_event log (unat (en_Revision e))"
    by (simp add: entry_event_def log_event_def)
  moreover have "list_all (\<lambda>e. entry_event e = log_event log (unat (en_Revision e)) \<and> rr_First window \<noteq> None \<and> rr_Last window \<noteq> None
    \<and> en_Revision e \<le> deref (rr_Last window)) es"
    using "1.IH" "1.prems" v by (auto split: if_splits sum.splits)
  ultimately show ?case using v by simp
qed auto

lemma points_truthful:
  assumes "log_head sid log = Some pinned" "length log < 2 ^ 64" "verify_points sid pinned ps = Inr ()"
    "list_all (\<lambda>p. case p of None \<Rightarrow> True | Some x \<Rightarrow> \<not> list_ex hash_collision (proof_point_pairs sid log x)) ps"
  shows "list_all (\<lambda>p. case p of None \<Rightarrow> True | Some x \<Rightarrow> truthful log x) ps"
  using assms(3,4)
proof (induction ps)
  case (Cons p ps)
  then show ?case using verified_point_sound [OF assms(1,2)]
    by (cases p) (auto simp: truthful_def split: sum.splits)
qed simp

section \<open>The page\<close>

text \<open>All pairs of messages compared through their digests while a page is verified.\<close>

definition page_pairs :: "RevisionStreamQueryRequest \<Rightarrow> stream_event list \<Rightarrow> RevisionStreamQueryPage \<Rightarrow> (bytes \<times> bytes) list" where
  "page_pairs request log result =
     (case pg_Proof result of
        None \<Rightarrow> []
      | Some pf \<Rightarrow>
          concat (map (\<lambda>p. case p of None \<Rightarrow> [] | Some x \<Rightarrow> proof_point_pairs (q_streamID request) log x) (proof_points pf))
          @ concat (map (\<lambda>(e, incl). entry_pairs (q_streamID request) log e incl) (zip (pg_Entries result) (qp_EntryProofs pf))))"

text \<open>The page answers the reference query on the log.\<close>

definition answers_query :: "RevisionStreamQueryRequest \<Rightarrow> stream_event list \<Rightarrow> RevisionStreamQueryPage \<Rightarrow> bool" where
  "answers_query request log result \<longleftrightarrow>
     map entry_event (pg_Entries result) = map (log_event log) (take (length (pg_Entries result)) (remaining request log))
     \<and> length (pg_Entries result) \<le> unat (q_limit request)
     \<and> (pg_HasMore result \<longleftrightarrow> length (pg_Entries result) < length (remaining request log))"

lemma page_parts:
  assumes "verifyRevisionStreamQueryPage request result = Inr ()" "pg_PinnedHead result = Some pinned"
  obtains pf where "pg_Proof result = Some pf" "length (qp_EntryProofs pf) = length (pg_Entries result)"
    "verify_points (q_streamID request) pinned (proof_points pf) = Inr ()" "verify_window request pinned pf (pg_QueryWindow result) = Inr ()"
    "verify_cursor request pinned result = Inr ()"
    "verify_entries request pinned (pg_QueryWindow result) None (pg_Entries result) (qp_EntryProofs pf) = Inr ()"
    "verify_more result = Inr ()"
proof -
  obtain live pf where h: "pg_ObservedLiveHead result = Some live" "pg_Proof result = Some pf"
    using assms by (auto simp: verifyRevisionStreamQueryPage_def split: option.splits)
  show thesis
    using assms h by (intro that [OF h(2)])
      (auto simp: verifyRevisionStreamQueryPage_def split: option.splits if_splits sum.splits simp del: verify_points.simps)
qed


lemma cursor_facts:
  assumes "verify_cursor request pinned result = Inr ()" "verify_more result = Inr ()"
  shows "length (pg_Entries result) \<le> unat (q_limit request)"
    and "pg_Entries result = [] \<Longrightarrow> \<not> pg_HasMore result \<and> (\<forall>l. rr_Last (pg_QueryWindow result) = Some l \<longrightarrow> q_afterRevision request = Some l)"
    and "pg_Entries result \<noteq> [] \<Longrightarrow> rr_Last (pg_QueryWindow result) = Some l \<Longrightarrow>
      (pg_HasMore result \<longleftrightarrow> en_Revision (last (pg_Entries result)) < l)"
    and "pg_Entries result \<noteq> [] \<Longrightarrow> q_afterRevision request = None \<Longrightarrow> rr_First (pg_QueryWindow result) = Some f \<Longrightarrow>
      en_Revision (hd (pg_Entries result)) = f"
    and "pg_Entries result \<noteq> [] \<Longrightarrow> q_afterRevision request = Some a \<Longrightarrow> en_Revision (hd (pg_Entries result)) = a + 1"
    and "q_afterRevision request = Some a \<Longrightarrow> rr_First (pg_QueryWindow result) = Some f \<Longrightarrow> rr_Last (pg_QueryWindow result) = Some l \<Longrightarrow> f \<le> a \<and> a \<le> l"
    and "q_afterRevision request = Some a \<Longrightarrow> a < hd_Revision pinned"
  using assms by (auto simp: verify_cursor_def verify_more_def Let_def deref_def not_less split: if_splits option.splits)

lemma take_upt_from: "k + m \<le> n \<Longrightarrow> take m [k..<n] = [k..<k + m]"
  by (simp add: take_upt)

lemma page_start:
  assumes "window_revisions request log = [f..<Suc l]" "l < 2 ^ 64"
    and after: "\<And>a. q_afterRevision request = Some a \<Longrightarrow> f \<le> unat a \<and> unat a \<le> l"
  shows "remaining request log = [(case q_afterRevision request of None \<Rightarrow> f | Some a \<Rightarrow> Suc (unat a))..<Suc l]"
proof (cases "q_afterRevision request")
  case (Some a)
  then show ?thesis using after [OF Some] filter_upt_after [of "Suc (unat a)" l f] assms(1)
    by (simp add: remaining_def Suc_le_eq del: upt_Suc)
qed (simp add: remaining_def assms(1) del: upt_Suc)

lemma verified_page_answers:
  assumes head: "log_head (q_streamID request) log = Some pinned" and n: "length log < 2 ^ 64" and asc: "times_ascend log"
    and pin: "pg_PinnedHead result = Some pinned" and v: "verifyRevisionStreamQueryPage request result = Inr ()"
    and none: "\<not> list_ex hash_collision (page_pairs request log result)"
  shows "answers_query request log result"
proof -
  obtain pf where pf: "pg_Proof result = Some pf" and len: "length (qp_EntryProofs pf) = length (pg_Entries result)"
    and vp: "verify_points (q_streamID request) pinned (proof_points pf) = Inr ()"
    and vw: "verify_window request pinned pf (pg_QueryWindow result) = Inr ()"
    and vc: "verify_cursor request pinned result = Inr ()"
    and ve: "verify_entries request pinned (pg_QueryWindow result) None (pg_Entries result) (qp_EntryProofs pf) = Inr ()"
    and vm: "verify_more result = Inr ()"
    using page_parts [OF v pin] .
  let ?es = "pg_Entries result" and ?w = "pg_QueryWindow result"
  note c = cursor_facts [OF vc vm]
  have "list_all (\<lambda>p. case p of None \<Rightarrow> True | Some x \<Rightarrow> \<not> list_ex hash_collision (proof_point_pairs (q_streamID request) log x)) (proof_points pf)"
    using none by (auto simp: page_pairs_def pf list_ex_iff split: option.split)
  note pts = points_truthful [OF head n vp this]
  have "list_all (\<lambda>(e, pf). \<not> list_ex hash_collision (entry_pairs (q_streamID request) log e pf)) (zip ?es (qp_EntryProofs pf))"
    using none by (fastforce simp: page_pairs_def pf list_ex_iff list_all_iff)
  note es = entries_sound [OF head n ve len this]
  obtain k where k: "map (\<lambda>e. unat (en_Revision e)) ?es = [k..<k + length ?es]" using entries_consecutive [OF ve len] by auto
  have ev: "map entry_event ?es = map (log_event log) [k..<k + length ?es]"
    using es unfolding k [symmetric] by (simp add: list_all_iff)
  note rev = log_head_peaks(2) [OF head]
  show ?thesis
  proof (cases "rr_First ?w")
    case None
    then have "remaining request log = []" using empty_window [OF n rev asc vw None pts] by (simp add: remaining_def)
    moreover have "?es = []" using es None by (cases ?es) auto
    ultimately show ?thesis using c(1,2) by (simp add: answers_query_def)
  next
    case (Some f)
    obtain l where l: "rr_Last ?w = Some l" using vw Some by (auto simp: verify_window_def split: option.splits)
    note w = full_window [OF n rev asc vw Some l pts]
    let ?k = "case q_afterRevision request of None \<Rightarrow> unat f | Some a \<Rightarrow> Suc (unat a)"
    have "\<And>a. q_afterRevision request = Some a \<Longrightarrow> unat f \<le> unat a \<and> unat a \<le> unat l"
      using c(6) [OF _ Some l] by (simp add: word_le_nat_alt)
    then have r: "remaining request log = [?k..<Suc (unat l)]" using page_start w n by simp
    show ?thesis
    proof (cases "?es = []")
      case True
      then show ?thesis using c(1) c(2) [OF True] l r by (simp add: answers_query_def)
    next
      case False
      have sub: "unat (en_Revision e) \<le> unat l" if "e \<in> set ?es" for e
        using es that l by (auto simp: list_all_iff deref_def word_le_nat_alt)
      have nth: "unat (en_Revision (?es ! i)) = k + i" if "i < length ?es" for i
        using arg_cong [OF k, of "\<lambda>xs. xs ! i"] that by simp
      have "k = unat (en_Revision (hd ?es))" using nth [of 0] False by (simp add: hd_conv_nth)
      moreover have "unat (en_Revision (hd ?es)) = ?k"
      proof (cases "q_afterRevision request")
        case (Some a)
        have "unat a < length log" using c(7) [OF Some] rev n by (simp add: word_less_nat_alt unat_of_nat_uint64)
        then show ?thesis using c(5) [OF False Some] Some unat_succ [OF _ n] by simp
      qed (use c(4) [OF False _ Some] in simp)
      ultimately have kk: "?k = k" by simp
      have lastr: "unat (en_Revision (last ?es)) = k + length ?es - 1" 
      proof -
        have p: "0 < length ?es" using False by simp
        then have "unat (en_Revision (last ?es)) = k + (length ?es - 1)" using nth [of "length ?es - 1"] False by (simp add: last_conv_nth)
        with p show ?thesis by linarith
      qed
      then have fit: "k + length ?es \<le> Suc (unat l)" using sub [of "last ?es"] False by simp
      have "pg_HasMore result \<longleftrightarrow> k + length ?es - 1 < unat l"
        using c(3) [OF False l] lastr by (simp add: word_less_nat_alt)
      then have "pg_HasMore result \<longleftrightarrow> length ?es < length (remaining request log)"
        unfolding r kk using fit False by (cases "length ?es") auto
      moreover have "map entry_event ?es = map (log_event log) (take (length ?es) (remaining request log))"
        unfolding r kk ev using take_upt_from [OF fit] by simp
      ultimately show ?thesis using c(1) by (simp add: answers_query_def)
    qed
  qed
qed


text \<open>
  C8: a verified page answers the query. Let the pinned head be the head of a log whose occurrence times do
  not go back. If \<open>verifyRevisionStreamQueryPage\<close> accepts a page, its entries are, in order and with their
  payloads, the first of the log's events that lie in the requested time window and after the cursor, none
  left out and none added, at most \<open>limit\<close> of them, and \<open>HasMore\<close> says exactly whether events remain; or two
  of the listed messages compared through their SHA-256 digests are different and collide.
\<close>

theorem verified_page_answers_query:
  assumes "log_head (q_streamID request) log = Some pinned" "length log < 2 ^ 64" "times_ascend log"
    "pg_PinnedHead result = Some pinned" "verifyRevisionStreamQueryPage request result = Inr ()"
  shows "answers_query request log result \<or> list_ex hash_collision (page_pairs request log result)"
  using verified_page_answers [OF assms] by blast


section \<open>An example\<close>

text \<open>A log of one event at time 5, queried for the times from 10 to 20: the page is empty and its proof shows why.\<close>

definition demo_log :: "stream_event list" where "demo_log = [(5, [2])]"

definition demo_request :: RevisionStreamQueryRequest where
  "demo_request = \<lparr>q_streamID = [1], q_fromOccurredAt = 10, q_untilOccurredAt = 20, q_pinnedHead = None, q_afterRevision = None,
     q_limit = 7, q_expectedWindow = None, q_previousRoot = None, q_minimumLiveHead = None\<rparr>"

definition demo_point :: RevisionStreamProofPoint where
  "demo_point = (let content = sha256 (content_message [1] revisionStreamZeroRoot 1 5 (sha256 [2]))
     in \<lparr>pt_Revision = 1, pt_OccurredAt = 5, pt_PayloadSHA256 = hex_encode (sha256 [2]),
         pt_PreviousRootSHA256 = hex_encode revisionStreamZeroRoot, pt_ContentSHA256 = hex_encode content,
         pt_ProofRootSHA256 = hex_encode revisionStreamZeroRoot,
         pt_RootSHA256 = hex_encode (calculateRevisionStreamHeadRoot [1] 1 5 content revisionStreamZeroRoot),
         pt_Inclusion = honest_inclusion [1] (revision_content (fst (log_chain [1] demo_log))) 1 1\<rparr>)"

definition demo_page :: "RevisionStreamHead \<Rightarrow> RevisionStreamQueryPage" where
  "demo_page pinned = \<lparr>pg_PinnedHead = Some pinned, pg_ObservedLiveHead = Some pinned,
     pg_QueryWindow = \<lparr>rr_First = None, rr_Last = None\<rparr>, pg_Page = \<lparr>rr_First = None, rr_Last = None\<rparr>, pg_NextAfterRevision = None,
     pg_HasMore = False, pg_Entries = [],
     pg_Proof = Some \<lparr>qp_Version = revisionStreamProofVersion, qp_Scheme = ''talon_mmr_sha256_v1'',
       qp_RootSHA256 = (case hd_Proof pinned of None \<Rightarrow> [] | Some pf \<Rightarrow> ph_RootSHA256 pf), qp_WindowPredecessor = Some demo_point,
       qp_WindowFirst = None, qp_WindowLast = None, qp_WindowSuccessor = None, qp_PageSuccessor = None, qp_EntryProofs = []\<rparr>,
     pg_Continuation = None\<rparr>"

lemma demo_content: "revision_content (fst (log_chain [1] demo_log)) 1 = sha256 (content_message [1] revisionStreamZeroRoot 1 5 (sha256 [2]))"
  by (simp add: demo_log_def revision_content_def calculateRevisionStreamContent_def Let_def)

lemma demo_page_verified:
  assumes "log_head [1] demo_log = Some pinned"
  shows "verifyRevisionStreamQueryPage demo_request (demo_page pinned) = Inr ()"
proof -
  let ?c = "revision_content (fst (log_chain [1] demo_log))"
  have z: "length revisionStreamZeroRoot = 32" by (simp add: revisionStreamZeroRoot_def)
  have peaks: "map_option ph_Peaks (hd_Proof pinned) = Some (mountain_range [1] ?c 1)" "hd_Revision pinned = 1"
    using log_head_peaks [OF assms] by (simp_all add: demo_log_def)
  then obtain pf where pf: "hd_Proof pinned = Some pf" "ph_Peaks pf = mountain_range [1] ?c 1" by auto
  have "verifyRevisionStreamInclusion [1] (Some (mountain_range [1] ?c 1)) 1 (?c 1) (honest_inclusion [1] ?c 1 1) = Inr ()"
    using honest_inclusion_accepted [of 1 1 "[1]" ?c] by simp
  then have "verifyRevisionStreamProofPoint [1] pinned demo_point = Inr ()"
    unfolding demo_content
    by (simp add: verifyRevisionStreamProofPoint_def demo_point_def Let_def pf z calculateRevisionStreamContent_def
        calculateRevisionStreamHeadRoot_def)
  then show ?thesis
    by (simp add: verifyRevisionStreamQueryPage_def demo_page_def demo_request_def pf peaks verify_window_def verify_cursor_def verify_tail_def
        verify_more_def) (simp add: demo_point_def Let_def)
qed

theorem verified_page_answers_query_witness:
  "\<exists>pinned. log_head [1] demo_log = Some pinned \<and> verifyRevisionStreamQueryPage demo_request (demo_page pinned) = Inr ()
    \<and> (answers_query demo_request demo_log (demo_page pinned) \<or> list_ex hash_collision (page_pairs demo_request demo_log (demo_page pinned)))"
proof -
  obtain h where h: "log_head [1] demo_log = Some h" by (simp add: demo_log_def log_head_Cons Let_def)
  have "answers_query demo_request demo_log (demo_page h) \<or> list_ex hash_collision (page_pairs demo_request demo_log (demo_page h))"
    by (rule verified_page_answers_query [OF _ _ _ _ demo_page_verified [OF h], where pinned = h])
      (use h in \<open>simp_all add: demo_request_def demo_page_def demo_log_def times_ascend_def\<close>)
  then show ?thesis using h demo_page_verified [OF h] by blast
qed

end
