(* ===== verification/RevisionPaging.thy ===== *)
theory RevisionPaging
  imports RevisionQueryProofs
begin

text \<open>
  Paging over a revision stream: the page an honest server builds from its log verifies, and following the
  continuations of verified pages reads every event of the window once.
\<close>

section \<open>Honest points and entries\<close>

definition root_at :: "bytes \<Rightarrow> stream_event list \<Rightarrow> nat \<Rightarrow> bytes" where
  "root_at sid log r = snd (log_chain sid (drop (length log - r) log))"

definition proof_root_at :: "bytes \<Rightarrow> stream_event list \<Rightarrow> nat \<Rightarrow> bytes" where
  "proof_root_at sid log r = range_digest sid (revision_content (fst (log_chain sid (drop (length log - r) log)))) r"

definition honest_path :: "bytes \<Rightarrow> stream_event list \<Rightarrow> nat \<Rightarrow> RevisionStreamInclusionProof" where
  "honest_path sid log r = honest_inclusion sid (revision_content (fst (log_chain sid log))) (length log) r"

definition honest_point :: "bytes \<Rightarrow> stream_event list \<Rightarrow> nat \<Rightarrow> RevisionStreamProofPoint" where
  "honest_point sid log r = \<lparr>pt_Revision = of_nat r, pt_OccurredAt = fst (log_at log r),
     pt_PayloadSHA256 = hex_encode (sha256 (snd (log_at log r))), pt_PreviousRootSHA256 = hex_encode (root_at sid log (r - 1)),
     pt_ContentSHA256 = hex_encode (sha256 (event_message sid log r)), pt_ProofRootSHA256 = hex_encode (proof_root_at sid log r),
     pt_RootSHA256 = hex_encode (root_at sid log r), pt_Inclusion = honest_path sid log r\<rparr>"

definition honest_entry :: "bytes \<Rightarrow> stream_event list \<Rightarrow> nat \<Rightarrow> RevisionStreamEntry" where
  "honest_entry sid log r = \<lparr>en_Revision = of_nat r, en_OccurredAt = fst (log_at log r), en_Payload = snd (log_at log r),
     en_PayloadSHA256 = hex_encode (sha256 (snd (log_at log r))), en_RootSHA256 = hex_encode (root_at sid log r),
     en_PreviousRootSHA256 = hex_encode (root_at sid log (r - 1)), en_ContentSHA256 = hex_encode (sha256 (event_message sid log r)),
     en_ProofRootSHA256 = hex_encode (proof_root_at sid log r)\<rparr>"

lemma root_before_at: "1 \<le> r \<Longrightarrow> r \<le> length log \<Longrightarrow> root_before sid log r = root_at sid log (r - 1)"
proof -
  assume "1 \<le> r" "r \<le> length log"
  then have "Suc (length log - r) = length log - (r - 1)" by linarith
  then show ?thesis by (simp add: root_before_def root_at_def log_before_def)
qed

lemma log_split: "1 \<le> r \<Longrightarrow> r \<le> length log \<Longrightarrow> drop (length log - r) log = log_at log r # log_before log r"
  by (simp add: log_at_def log_before_def Cons_nth_drop_Suc)

lemma root_at_head:
  assumes "1 \<le> r" "r \<le> length log"
  shows "root_at sid log r = calculateRevisionStreamHeadRoot sid (of_nat r) (fst (log_at log r)) (sha256 (event_message sid log r)) (proof_root_at sid log r)"
proof -
  obtain t p where e: "log_at log r = (t, p)" by fastforce
  obtain cs root where c: "log_chain sid (log_before log r) = (cs, root)" by fastforce
  have len: "Suc (length (log_before log r)) = r" using assms by (simp add: log_before_def)
  have "event_message sid log r = content_message sid root (of_nat r) t (sha256 p)" by (simp add: event_message_def root_before_def e c)
  then show ?thesis
    unfolding root_at_def proof_root_at_def log_split [OF assms] using len
    by (simp add: e c Let_def calculateRevisionStreamContent_def del: of_nat_Suc)
qed

lemma length_roots: "length (root_at sid log r) = 32" "r < 2 ^ 64 \<Longrightarrow> length (proof_root_at sid log r) = 32"
  using range_digest_root by (simp_all add: root_at_def proof_root_at_def)

lemma honest_path_verified:
  assumes "log_head sid log = Some pinned" "length log < 2 ^ 64" "1 \<le> r" "r \<le> length log"
  shows "verifyRevisionStreamInclusion sid (map_option ph_Peaks (hd_Proof pinned)) (of_nat r) (sha256 (event_message sid log r)) (honest_path sid log r) = Inr ()"
  using honest_inclusion_accepted [OF assms(3,4,2), of sid "revision_content (fst (log_chain sid log))"]
  unfolding log_head_peaks(1) [OF assms(1)] by (simp add: honest_path_def log_content_at [OF assms(3,4)])

lemma honest_content:
  assumes "1 \<le> r" "r \<le> length log"
  shows "calculateRevisionStreamContent sid (root_at sid log (r - 1)) (of_nat r) (fst (log_at log r)) (sha256 (snd (log_at log r))) = sha256 (event_message sid log r)"
  by (simp add: calculateRevisionStreamContent_def event_message_def root_before_at [OF assms])

lemma honest_verified:
  assumes "log_head sid log = Some pinned" "length log < 2 ^ 64" "1 \<le> r" "r \<le> length log"
  shows "verifyRevisionStreamProofPoint sid pinned (honest_point sid log r) = Inr ()"
    "verifyRevisionStreamEntryInclusion sid pinned (honest_entry sid log r) (honest_path sid log r) = Inr ()"
proof -
  have l: "length (proof_root_at sid log r) = 32" using length_roots(2) assms by simp
  note f = honest_content [OF assms(3,4), unfolded One_nat_def] honest_path_verified [OF assms] root_at_head [OF assms(3,4), symmetric]
  show "verifyRevisionStreamProofPoint sid pinned (honest_point sid log r) = Inr ()"
    by (simp add: verifyRevisionStreamProofPoint_def honest_point_def Let_def length_roots l f)
  show "verifyRevisionStreamEntryInclusion sid pinned (honest_entry sid log r) (honest_path sid log r) = Inr ()"
    by (simp add: verifyRevisionStreamEntryInclusion_def honest_entry_def Let_def length_roots l f)
qed

section \<open>Counting by time\<close>

definition below :: "int \<Rightarrow> stream_event list \<Rightarrow> nat" where
  "below t log = length (filter (\<lambda>r. sint (fst (log_at log r)) < t) [1..<Suc (length log)])"

lemma below_le: "below t log \<le> length log"
  using length_filter_le [of _ "[1..<Suc (length log)]"] by (auto simp: below_def simp del: upt_Suc)

lemma below_iff:
  assumes "times_ascend log" "1 \<le> r" "r \<le> length log"
  shows "sint (fst (log_at log r)) < t \<longleftrightarrow> r \<le> below t log"
proof -
  let ?P = "\<lambda>r. sint (fst (log_at log r)) < t" and ?n = "length log"
  let ?S = "insert 0 {r. 1 \<le> r \<and> r \<le> ?n \<and> ?P r}"
  define m where "m = Max ?S"
  have fin: "finite ?S" by (simp add: finite_nat_set_iff_bounded_le) (metis)
  have m: "m \<in> ?S" "\<And>x. x \<in> ?S \<Longrightarrow> x \<le> m" using Max_in [OF fin] Max_ge [OF fin] by (auto simp: m_def)
  have iff: "?P x \<longleftrightarrow> 1 \<le> x \<and> x \<le> m" if x: "1 \<le> x" "x \<le> ?n" for x
  proof
    show "?P x \<Longrightarrow> 1 \<le> x \<and> x \<le> m" using m(2) x by blast
    assume "1 \<le> x \<and> x \<le> m"
    then have "x \<le> m" "m \<le> ?n" "?P m" using m(1) x by auto
    then show "?P x" using times_mono [OF assms(1) x(1), of m] by linarith
  qed
  have "filter ?P [1..<Suc ?n] = [1..<Suc m]" using m(1) by (intro filter_interval iff) auto
  then have "below t log = m" by (simp add: below_def)
  then show ?thesis using iff [OF assms(2,3)] assms(2) by auto
qed


section \<open>The honest page\<close>

definition known_point :: "bytes \<Rightarrow> stream_event list \<Rightarrow> nat \<Rightarrow> RevisionStreamProofPoint option" where
  "known_point sid log r = (if 1 \<le> r \<and> r \<le> length log then Some (honest_point sid log r) else None)"

text \<open>
  What a server answers from its log: \<open>k\<close> events precede the window and \<open>j\<close> events precede its end, so the
  window is the revisions from \<open>k + 1\<close> to \<open>j\<close>, bracketed by the events \<open>k\<close> and \<open>j + 1\<close> where they exist.
\<close>

definition honest_page :: "RevisionStreamQueryRequest \<Rightarrow> stream_event list \<Rightarrow> RevisionStreamHead \<Rightarrow> RevisionStreamQueryPage" where
  "honest_page request log pinned =
     (let sid = q_streamID request; k = below (sint (q_fromOccurredAt request)) log; j = below (sint (q_untilOccurredAt request)) log;
          revisions = take (unat (q_limit request)) (remaining request log);
          more = (revisions \<noteq> [] \<and> last revisions < j);
          range = (\<lambda>full lo hi. if full then \<lparr>rr_First = Some (of_nat lo), rr_Last = Some (of_nat hi)\<rparr> else \<lparr>rr_First = None, rr_Last = None\<rparr>)
      in \<lparr>pg_PinnedHead = Some pinned, pg_ObservedLiveHead = Some pinned, pg_QueryWindow = range (k < j) (Suc k) j,
          pg_Page = range (revisions \<noteq> []) (hd revisions) (last revisions),
          pg_NextAfterRevision = (if more then Some (of_nat (last revisions)) else None), pg_HasMore = more,
          pg_Entries = map (honest_entry sid log) revisions,
          pg_Proof = Some \<lparr>qp_Version = revisionStreamProofVersion, qp_Scheme = ''talon_mmr_sha256_v1'',
            qp_RootSHA256 = (case hd_Proof pinned of None \<Rightarrow> [] | Some pf \<Rightarrow> ph_RootSHA256 pf),
            qp_WindowPredecessor = known_point sid log k, qp_WindowFirst = (if k < j then known_point sid log (Suc k) else None),
            qp_WindowLast = (if k < j then known_point sid log j else None), qp_WindowSuccessor = known_point sid log (Suc j),
            qp_PageSuccessor = (if revisions = [] then None else known_point sid log (Suc (last revisions))),
            qp_EntryProofs = map (honest_path sid log) revisions\<rparr>,
          pg_Continuation = None\<rparr>)"

text \<open>The cursor of a continuation lies in the window and below the pinned head.\<close>

definition cursor_ok :: "RevisionStreamQueryRequest \<Rightarrow> stream_event list \<Rightarrow> bool" where
  "cursor_ok request log \<longleftrightarrow>
     (case q_afterRevision request of
        None \<Rightarrow> True
      | Some a \<Rightarrow> below (sint (q_fromOccurredAt request)) log < unat a \<and> unat a \<le> below (sint (q_untilOccurredAt request)) log
                  \<and> unat a < length log)"

lemma window_by_count:
  assumes "times_ascend log"
  shows "window_revisions request log = [Suc (below (sint (q_fromOccurredAt request)) log)..<Suc (below (sint (q_untilOccurredAt request)) log)]"
  unfolding window_revisions_def
  by (rule filter_interval)
    (use below_iff [OF assms] below_le in \<open>auto simp: outside_time_def not_less [symmetric] less_Suc_eq_le [symmetric] Suc_le_eq\<close>)

lemma below_mono: "s \<le> t \<Longrightarrow> times_ascend log \<Longrightarrow> below s log \<le> below t log"
proof (rule ccontr)
  assume "s \<le> t" "times_ascend log" "\<not> below s log \<le> below t log"
  then show False using below_iff [of log "below s log" s] below_iff [of log "below s log" t] below_le [of s log] by auto
qed

lemma points_verified:
  assumes "log_head sid log = Some pinned" "length log < 2 ^ 64" "set ps \<subseteq> insert None (range (known_point sid log))"
  shows "verify_points sid pinned ps = Inr ()"
  using assms(3)
proof (induction ps)
  case (Cons p ps)
  have "verify_points sid pinned ps = Inr ()" using Cons by simp
  moreover have "p = None \<or> (\<exists>r. 1 \<le> r \<and> r \<le> length log \<and> p = Some (honest_point sid log r))"
    using Cons.prems by (auto simp: known_point_def split: if_splits)
  ultimately show ?case using honest_verified(1) [OF assms(1,2)] by auto
qed simp

lemma honest_window:
  assumes n: "length log < 2 ^ 64" "hd_Revision pinned = of_nat (length log)" "log \<noteq> []" and asc: "times_ascend log"
    and t: "sint (q_fromOccurredAt request) < sint (q_untilOccurredAt request)"
  shows "verify_window request pinned (the (pg_Proof (honest_page request log pinned))) (pg_QueryWindow (honest_page request log pinned)) = Inr ()"
proof -
  let ?k = "below (sint (q_fromOccurredAt request)) log" and ?j = "below (sint (q_untilOccurredAt request)) log" and ?n = "length log"
  have le: "?k \<le> ?j" "?j \<le> ?n" using below_mono [OF _ asc] below_le t by auto
  have at: "sint (fst (log_at log r)) < sint (q_fromOccurredAt request) \<longleftrightarrow> r \<le> ?k"
    "sint (fst (log_at log r)) < sint (q_untilOccurredAt request) \<longleftrightarrow> r \<le> ?j" if "1 \<le> r" "r \<le> ?n" for r
    using below_iff [OF asc that] by blast+
  have eq: "(of_nat a :: uint64) = of_nat b \<longleftrightarrow> a = b" if "a \<le> ?n" "b \<le> ?n" for a b
    using that n(1) by (simp add: word_unat_eq_iff unat_of_nat_uint64)
  have one: "(of_nat a :: uint64) = 1 \<longleftrightarrow> a = 1" if "a \<le> ?n" for a
    using eq [OF that, of 1] n(3) by (simp add: Suc_le_eq)
  have top: "(of_nat a :: uint64) \<noteq> - 1" if "a < ?n" for a
  proof
    assume "(of_nat a :: uint64) = - 1"
    then have "(of_nat (Suc a) :: uint64) = 0" by simp
    then show False using that eq [of "Suc a" 0] by (simp del: of_nat_Suc)
  qed
  let ?pf = "the (pg_Proof (honest_page request log pinned))"
  note fields = honest_page_def Let_def
  have pred: "qp_WindowPredecessor ?pf = known_point sid log ?k" and succ: "qp_WindowSuccessor ?pf = known_point sid log (Suc ?j)"
    if "sid = q_streamID request" for sid using that by (simp_all add: fields)
  show ?thesis
  proof (cases "?k < ?j")
    case True
    have w: "pg_QueryWindow (honest_page request log pinned) = \<lparr>rr_First = Some (of_nat (Suc ?k)), rr_Last = Some (of_nat ?j)\<rparr>"
      "qp_WindowFirst ?pf = Some (honest_point (q_streamID request) log (Suc ?k))"
      "qp_WindowLast ?pf = Some (honest_point (q_streamID request) log ?j)"
      using True le by (simp_all add: fields known_point_def del: of_nat_Suc)
    have "\<not> outside_time request (fst (log_at log (Suc ?k)))" "\<not> outside_time request (fst (log_at log ?j))"
      using True le at [of "Suc ?k"] at [of ?j] by (simp_all add: outside_time_def not_less not_le)
    moreover have "(of_nat (Suc ?k) :: uint64) = 1 \<longleftrightarrow> ?k = 0" using one [of "Suc ?k"] True le by (simp del: of_nat_Suc)
    moreover have "(of_nat ?j :: uint64) = hd_Revision pinned \<longleftrightarrow> ?j = ?n" using eq [of ?j ?n] n(2) le by simp
    moreover have "?k = 0 \<or> sint (fst (log_at log ?k)) < sint (q_fromOccurredAt request)" using at(1) [of ?k] True le by (cases ?k) auto
    moreover have "?j = ?n \<or> \<not> sint (fst (log_at log (Suc ?j))) < sint (q_untilOccurredAt request)" using at(2) [of "Suc ?j"] le by auto
    ultimately show ?thesis
      using True le unfolding verify_window_def w pred [OF refl] succ [OF refl]
      by (cases "?k = 0"; cases "?j = ?n") (simp_all add: known_point_def honest_point_def not_less Suc_le_eq)
  next
    case False
    then have kj: "?j = ?k" using le by simp
    have w: "pg_QueryWindow (honest_page request log pinned) = \<lparr>rr_First = None, rr_Last = None\<rparr>"
      "qp_WindowFirst ?pf = None" "qp_WindowLast ?pf = None" using kj by (simp_all add: fields)
    have "?k = 0 \<or> sint (fst (log_at log ?k)) < sint (q_fromOccurredAt request)" using at(1) [of ?k] le by (cases ?k) auto
    moreover have "?k = ?n \<or> \<not> sint (fst (log_at log (Suc ?k))) < sint (q_untilOccurredAt request)"
      using at(2) [of "Suc ?k"] le kj by auto
    ultimately show ?thesis
      using le top [of ?k] n(2,3) unfolding verify_window_def w pred [OF refl] succ [OF refl] kj
      by (cases "?k = ?n"; cases "?k = 0") (simp_all add: known_point_def honest_point_def not_less Suc_le_eq)
  qed
qed

lemma honest_entries:
  assumes head: "log_head (q_streamID request) log = Some pinned" and n: "length log < 2 ^ 64"
    and w: "rr_First window = Some (of_nat f)" "rr_Last window = Some (of_nat l)" "1 \<le> f" "l \<le> length log"
    and inside: "\<And>r. f \<le> r \<Longrightarrow> r \<le> l \<Longrightarrow> \<not> outside_time request (fst (log_at log r))"
  shows "f \<le> a \<Longrightarrow> b \<le> Suc l \<Longrightarrow> prior = None \<or> (1 < a \<and> prior = Some (honest_entry (q_streamID request) log (a - 1)))
    \<Longrightarrow> verify_entries request pinned window prior (map (honest_entry (q_streamID request) log) [a..<b])
          (map (honest_path (q_streamID request) log) [a..<b]) = Inr ()"
proof (induction "b - a" arbitrary: a prior)
  case (Suc d)
  let ?sid = "q_streamID request"
  have ab: "a < b" and upt: "[a..<b] = a # [Suc a..<b]" using Suc.hyps(2) by (simp_all add: upt_conv_Cons)
  have a: "1 \<le> a" "a \<le> l" "a \<le> length log" using Suc.prems ab w by auto
  have u: "unat (of_nat r :: uint64) = r" if "r \<le> length log" for r using that n by (simp add: unat_of_nat_uint64)
  have bounds: "\<not> (of_nat a :: uint64) < of_nat f" "\<not> (of_nat l :: uint64) < of_nat a"
    using u a Suc.prems(1) w by (simp_all add: word_less_nat_alt)
  have chain: "(of_nat (a - 1) :: uint64) \<noteq> - 1 \<and> (of_nat (a - 1) :: uint64) + 1 = of_nat a"
  proof -
    have "(of_nat (a - 1) :: uint64) + 1 = of_nat (Suc (a - 1))" by simp
    moreover have "(of_nat a :: uint64) \<noteq> 0" using u [of a] a by (metis unat_0 not_one_le_zero)
    ultimately show ?thesis using a(1) by (metis Suc_diff_1 add.left_inverse le_eq_less_or_eq less_le_trans zero_less_one)
  qed
  have "verify_entries request pinned window (Some (honest_entry ?sid log a)) (map (honest_entry ?sid log) [Suc a..<b])
      (map (honest_path ?sid log) [Suc a..<b]) = Inr ()"
    using Suc.hyps(2) Suc.prems a by (intro Suc.hyps(1)) auto
  moreover have "\<not> outside_time request (en_OccurredAt (honest_entry ?sid log a))"
    using inside [OF Suc.prems(1) a(2)] by (simp add: honest_entry_def)
  moreover have "\<not> en_Revision (honest_entry ?sid log a) < of_nat f" "\<not> of_nat l < en_Revision (honest_entry ?sid log a)"
    using bounds by (simp_all add: honest_entry_def)
  moreover have "case prior of None \<Rightarrow> True
    | Some p \<Rightarrow> en_Revision p \<noteq> - 1 \<and> en_Revision p + 1 = en_Revision (honest_entry ?sid log a)
        \<and> en_PreviousRootSHA256 (honest_entry ?sid log a) = en_RootSHA256 p"
    using Suc.prems(3) chain by (auto simp: honest_entry_def)
  ultimately show ?case
    unfolding upt using honest_verified(2) [OF head n a(1,3)] w(1,2) by (auto simp: deref_def split: option.splits)
qed simp

text \<open>The revisions of an honest page are an interval: where it starts, and where it ends.\<close>

definition page_from :: "RevisionStreamQueryRequest \<Rightarrow> stream_event list \<Rightarrow> nat" where
  "page_from request log = (case q_afterRevision request of None \<Rightarrow> Suc (below (sint (q_fromOccurredAt request)) log) | Some a \<Rightarrow> Suc (unat a))"

definition page_end :: "RevisionStreamQueryRequest \<Rightarrow> stream_event list \<Rightarrow> nat" where
  "page_end request log = min (page_from request log + unat (q_limit request)) (Suc (below (sint (q_untilOccurredAt request)) log))"

lemma page_interval:
  assumes "times_ascend log" "length log < 2 ^ 64" "cursor_ok request log"
  shows "take (unat (q_limit request)) (remaining request log) = [page_from request log..<page_end request log]"
proof -
  let ?j = "below (sint (q_untilOccurredAt request)) log"
  have "?j < 2 ^ 64" using below_le [of _ log] assms(2) by (rule le_less_trans)
  then have "remaining request log = [page_from request log..<Suc ?j]"
    unfolding page_from_def using assms(3) by (intro page_start [OF window_by_count [OF assms(1)]]) (auto simp: cursor_ok_def)
  then show ?thesis
    by (cases "page_from request log + unat (q_limit request) \<le> Suc ?j") (simp_all add: page_end_def min_def take_upt del: upt_Suc)
qed

lemma page_from_bounds:
  assumes "cursor_ok request log" "times_ascend log" "sint (q_fromOccurredAt request) < sint (q_untilOccurredAt request)"
  shows "below (sint (q_fromOccurredAt request)) log < page_from request log"
    "page_from request log \<le> Suc (below (sint (q_untilOccurredAt request)) log)" "page_end request log \<le> Suc (length log)"
  using assms(1) below_mono [OF less_imp_le [OF assms(3)] assms(2)] below_le [of "sint (q_untilOccurredAt request)" log]
  by (auto simp: cursor_ok_def page_from_def page_end_def split: option.splits)

text \<open>The fields of an honest page, over the interval of its revisions.\<close>

lemma honest_fields:
  fixes request log pinned
  defines "page \<equiv> honest_page request log pinned" and "k \<equiv> below (sint (q_fromOccurredAt request)) log"
    and "j \<equiv> below (sint (q_untilOccurredAt request)) log" and "s \<equiv> page_from request log" and "e \<equiv> page_end request log"
  assumes "times_ascend log" "length log < 2 ^ 64" "cursor_ok request log"
  shows "pg_Entries page = map (honest_entry (q_streamID request) log) [s..<e]"
    "qp_EntryProofs (the (pg_Proof page)) = map (honest_path (q_streamID request) log) [s..<e]"
    "s < e \<Longrightarrow> pg_Page page = \<lparr>rr_First = Some (of_nat s), rr_Last = Some (of_nat (e - 1))\<rparr>"
    "\<not> s < e \<Longrightarrow> pg_Page page = \<lparr>rr_First = None, rr_Last = None\<rparr>"
    "pg_HasMore page \<longleftrightarrow> s < e \<and> e - 1 < j"
    "pg_NextAfterRevision page = (if s < e \<and> e - 1 < j then Some (of_nat (e - 1)) else None)"
    "qp_PageSuccessor (the (pg_Proof page)) = (if s < e then known_point (q_streamID request) log e else None)"
    "pg_QueryWindow page = (if k < j then \<lparr>rr_First = Some (of_nat (Suc k)), rr_Last = Some (of_nat j)\<rparr> else \<lparr>rr_First = None, rr_Last = None\<rparr>)"
proof -
  have l: "last [s..<e] = e - 1" "hd [s..<e] = s" if "s < e" using that by simp_all
  note i = page_interval [OF assms(6-8), folded s_def e_def]
  show "pg_Entries page = map (honest_entry (q_streamID request) log) [s..<e]"
    "qp_EntryProofs (the (pg_Proof page)) = map (honest_path (q_streamID request) log) [s..<e]"
    "s < e \<Longrightarrow> pg_Page page = \<lparr>rr_First = Some (of_nat s), rr_Last = Some (of_nat (e - 1))\<rparr>"
    "\<not> s < e \<Longrightarrow> pg_Page page = \<lparr>rr_First = None, rr_Last = None\<rparr>"
    "pg_HasMore page \<longleftrightarrow> s < e \<and> e - 1 < j"
    "pg_NextAfterRevision page = (if s < e \<and> e - 1 < j then Some (of_nat (e - 1)) else None)"
    "qp_PageSuccessor (the (pg_Proof page)) = (if s < e then known_point (q_streamID request) log e else None)"
    "pg_QueryWindow page = (if k < j then \<lparr>rr_First = Some (of_nat (Suc k)), rr_Last = Some (of_nat j)\<rparr> else \<lparr>rr_First = None, rr_Last = None\<rparr>)"
    using l by (auto simp: page_def honest_page_def Let_def i k_def [symmetric] j_def [symmetric])
qed

lemma honest_cursor:
  assumes head: "log_head (q_streamID request) log = Some pinned" and n: "length log < 2 ^ 64" and asc: "times_ascend log"
    and t: "sint (q_fromOccurredAt request) < sint (q_untilOccurredAt request)" and c: "cursor_ok request log" and lim: "0 < q_limit request"
  shows "verify_cursor request pinned (honest_page request log pinned) = Inr ()"
    "verify_tail pinned (the (pg_Proof (honest_page request log pinned))) (pg_Entries (honest_page request log pinned)) = Inr ()"
    "verify_more (honest_page request log pinned) = Inr ()"
proof -
  let ?k = "below (sint (q_fromOccurredAt request)) log" and ?j = "below (sint (q_untilOccurredAt request)) log" and ?n = "length log"
  let ?s = "page_from request log" and ?e = "page_end request log" and ?page = "honest_page request log pinned"
  note f = honest_fields [OF asc n c, of pinned] and b = page_from_bounds [OF c asc t]
  have u: "unat (of_nat r :: uint64) = r" if "r \<le> ?n" for r using that n by (simp add: unat_of_nat_uint64)
  have jn: "?j \<le> ?n" by (rule below_le)
  have rev: "hd_Revision pinned = of_nat ?n" by (rule log_head_peaks(2) [OF head])
  have lim': "0 < unat (q_limit request)" using lim by (simp add: word_less_nat_alt)
  have se: "?s < ?e \<longleftrightarrow> ?s \<le> ?j" using lim' by (auto simp: page_end_def)
  have ej: "?e - 1 \<le> ?j" by (simp add: page_end_def)
  have hl: "hd (pg_Entries ?page) = honest_entry (q_streamID request) log ?s" "last (pg_Entries ?page) = honest_entry (q_streamID request) log (?e - 1)"
    if "?s < ?e" using that by (simp_all add: f(1) hd_map last_map)
  show "verify_more ?page = Inr ()"
  proof (cases "?s < ?e")
    case True
    have "(of_nat (?e - 1) :: uint64) < of_nat ?j \<longleftrightarrow> ?e - 1 < ?j" using u ej jn by (simp add: word_less_nat_alt)
    moreover have "?k < ?j" using True se b by linarith
    ultimately show ?thesis using True by (simp add: verify_more_def Let_def f(3,5,6,8) deref_def)
  qed (simp add: verify_more_def Let_def f(4-6) deref_def)
  show "verify_tail pinned (the (pg_Proof ?page)) (pg_Entries ?page) = Inr ()"
  proof (cases "?s < ?e")
    case True
    have e: "1 \<le> ?e - 1" "?e - 1 \<le> ?n" using True b ej jn by auto
    have iff: "(of_nat (?e - 1) :: uint64) = of_nat ?n \<longleftrightarrow> ?e - 1 = ?n" using u [OF e(2)] u [of ?n] by (metis le_refl)
    have "hd_RootSHA256 pinned = hex_encode (root_at (q_streamID request) log ?n)"
      using log_head_valid [OF head n] by (simp add: root_at_def)
    moreover have "(of_nat ?e :: uint64) = of_nat (?e - 1) + 1" using True by (metis Suc_diff_1 of_nat_Suc add.commute le_less_trans le0)
    ultimately show ?thesis
      using True e iff b(3) unfolding verify_tail_def f(7) hl(2) [OF True]
      by (cases "?e - 1 = ?n") (auto simp: f(1) Let_def honest_entry_def honest_point_def known_point_def rev)
  qed (simp add: verify_tail_def f(1))
  have cur: "a + 1 = of_nat ?s" "of_nat (Suc ?k) \<le> a" "a \<le> of_nat ?j" "a < of_nat ?n" "?k < ?j" "?s = Suc (unat a)"
    if "q_afterRevision request = Some a" for a
    using c that u [of ?j] u [of ?n] u [of "Suc ?k"] jn
    by (auto simp: cursor_ok_def page_from_def word_le_nat_alt word_less_nat_alt)
  have first: "?s = Suc ?k" if "q_afterRevision request = None" using that by (simp add: page_from_def)
  have len: "length (pg_Entries ?page) \<le> unat (q_limit request)" by (simp add: f(1) page_end_def)
  show "verify_cursor request pinned ?page = Inr ()"
  proof (cases "?s < ?e")
    case True
    have "?k < ?j" using True se b by linarith
    then show ?thesis
      using True len hl [OF True] cur first rev
      by (cases "q_afterRevision request") (auto simp: verify_cursor_def Let_def deref_def f(1,3,8) honest_entry_def not_less)
  next
    case False
    have "unat a = ?j" if "q_afterRevision request = Some a" for a using cur(6) [OF that] False se b by linarith
    then have "a = of_nat ?j" if "q_afterRevision request = Some a" for a by (metis that of_nat_unat ucast_id)
    moreover have "?k = ?j" if "q_afterRevision request = None" using first [OF that] False se b by linarith
    ultimately show ?thesis
      using False len cur rev
      by (cases "q_afterRevision request") (auto simp: verify_cursor_def Let_def deref_def f(1,4,8) not_less)
  qed
qed


lemma honest_page_accepted:
  assumes head: "log_head (q_streamID request) log = Some pinned" and n: "length log < 2 ^ 64" and asc: "times_ascend log"
    and t: "sint (q_fromOccurredAt request) < sint (q_untilOccurredAt request)" and c: "cursor_ok request log" and lim: "0 < q_limit request"
  shows "verifyRevisionStreamQueryPage request (honest_page request log pinned) = Inr ()"
proof -
  let ?page = "honest_page request log pinned" and ?k = "below (sint (q_fromOccurredAt request)) log"
  let ?j = "below (sint (q_untilOccurredAt request)) log"
  note f = honest_fields [OF asc n c, of pinned] and b = page_from_bounds [OF c asc t]
  note jn = below_le [of "sint (q_untilOccurredAt request)" log] and hp = log_head_peaks [OF head]
  obtain pp where pp: "hd_Proof pinned = Some pp" using hp(1) by auto
  have heads: "pg_PinnedHead ?page = Some pinned" "pg_ObservedLiveHead ?page = Some pinned"
    "qp_Version (the (pg_Proof ?page)) = revisionStreamProofVersion" "qp_Scheme (the (pg_Proof ?page)) = ''talon_mmr_sha256_v1''"
    "qp_RootSHA256 (the (pg_Proof ?page)) = ph_RootSHA256 pp"
    by (simp_all add: honest_page_def Let_def pp)
  have "verify_points (q_streamID request) pinned (proof_points (the (pg_Proof ?page))) = Inr ()"
    by (rule points_verified [OF head n]) (simp add: honest_page_def Let_def)
  moreover have "verify_entries request pinned (pg_QueryWindow ?page) None (pg_Entries ?page) (qp_EntryProofs (the (pg_Proof ?page))) = Inr ()"
  proof (cases "page_from request log < page_end request log")
    case True
    then have kj: "?k < ?j" using b by (simp add: page_end_def)
    have inside: "\<not> outside_time request (fst (log_at log r))" if "Suc ?k \<le> r" "r \<le> ?j" for r
      using below_iff [OF asc, of r "sint (q_fromOccurredAt request)"] below_iff [OF asc, of r "sint (q_untilOccurredAt request)"] that jn
      by (simp add: outside_time_def)
    show ?thesis
      unfolding f(1,2) by (rule honest_entries [OF head n, where f = "Suc ?k" and l = ?j]) (use kj b jn inside in \<open>simp_all add: f(8) page_end_def Suc_le_eq\<close>)
  qed (simp add: f(1,2))
  moreover have "length (qp_EntryProofs (the (pg_Proof ?page))) = length (pg_Entries ?page)" by (simp add: f(1,2))
  moreover obtain pf where "pg_Proof ?page = Some pf" by (simp add: honest_page_def Let_def)
  ultimately show ?thesis
    using honest_window [OF n hp(2,3) asc t] honest_cursor [OF head n asc t c lim] heads pp
    by (simp add: verifyRevisionStreamQueryPage_def del: verify_points.simps)
qed

text \<open>
  C9: an honest server is never rejected. For every log whose times do not go back, pinned at its head, every
  time window, every page limit and every cursor that lies in the window, the page built from the log with the
  points that bracket the window and one inclusion proof per entry passes \<open>verifyRevisionStreamQueryPage\<close>.
\<close>

theorem honest_page_verifies:
  assumes "log_head (q_streamID request) log = Some pinned" and "length log < 2 ^ 64" and "times_ascend log"
    and "sint (q_fromOccurredAt request) < sint (q_untilOccurredAt request)" and "cursor_ok request log" and "0 < q_limit request"
  shows "verifyRevisionStreamQueryPage request (honest_page request log pinned) = Inr ()"
  using honest_page_accepted [OF assms] .

section \<open>Paging\<close>

lemma continuation_irrelevant:
  "page_pairs request log (page\<lparr>pg_Continuation := c\<rparr>) = page_pairs request log page"
  "answers_query request log (page\<lparr>pg_Continuation := c\<rparr>) = answers_query request log page"
  by (simp_all add: page_pairs_def answers_query_def cong: option.case_cong)

lemma more_facts:
  assumes "verifyRevisionStreamQueryPage request page = Inr ()" "pg_PinnedHead page = Some pinned" "pg_HasMore page"
  shows "pg_Entries page \<noteq> []" "\<exists>l. rr_Last (pg_QueryWindow page) = Some l \<and> en_Revision (last (pg_Entries page)) < l"
    "deref (pg_NextAfterRevision page) = en_Revision (last (pg_Entries page))"
proof -
  from page_parts [OF assms(1,2)] have v: "verify_cursor request pinned page = Inr ()" "verify_more page = Inr ()" by metis+
  show ne: "pg_Entries page \<noteq> []" using cursor_facts(2) [OF v] assms(3) by blast
  then show "\<exists>l. rr_Last (pg_QueryWindow page) = Some l \<and> en_Revision (last (pg_Entries page)) < l"
    "deref (pg_NextAfterRevision page) = en_Revision (last (pg_Entries page))"
    using v assms(3) by (auto simp: verify_cursor_def verify_more_def Let_def deref_def split: if_splits option.splits)
qed

lemma last_entry:
  assumes "answers_query request log page" "pg_Entries page \<noteq> []"
  shows "length (pg_Entries page) \<le> length (remaining request log)"
    "unat (en_Revision (last (pg_Entries page))) = remaining request log ! (length (pg_Entries page) - 1)"
proof -
  let ?m = "length (pg_Entries page)" and ?R = "remaining request log"
  have e: "map entry_event (pg_Entries page) = map (log_event log) (take ?m ?R)" using assms by (auto simp: answers_query_def)
  show len: "?m \<le> length ?R" using arg_cong [OF e, of length] by simp
  have "map entry_event (pg_Entries page) ! (?m - 1) = map (log_event log) (take ?m ?R) ! (?m - 1)" using e by simp
  then show "unat (en_Revision (last (pg_Entries page))) = ?R ! (?m - 1)"
    using assms(2) len by (simp add: last_conv_nth entry_event_def log_event_def prod_eq_iff)
qed

lemma remaining_sorted: "sorted_wrt (<) (remaining request log)"
  unfolding remaining_def window_revisions_def by (intro sorted_wrt_filter) (simp del: upt_Suc)

lemma remaining_range: "r \<in> set (remaining request log) \<Longrightarrow> 1 \<le> r \<and> r \<le> length log"
  by (auto simp: remaining_def window_revisions_def)

lemma last_before_end:
  assumes "answers_query request log page" "pg_Entries page \<noteq> []" "length (pg_Entries page) < length (remaining request log)"
  shows "unat (en_Revision (last (pg_Entries page))) < length log"
proof -
  let ?m = "length (pg_Entries page)" and ?R = "remaining request log"
  have "?R ! (?m - 1) < ?R ! ?m" using assms(2,3) by (intro sorted_wrt_nth_less [OF remaining_sorted]) auto
  moreover have "?R ! ?m \<in> set ?R" using assms(3) by simp
  ultimately show ?thesis using last_entry(2) [OF assms(1,2)] remaining_range [of "?R ! ?m" request log] by simp
qed

lemma next_remaining:
  assumes a: "answers_query request log page" and ne: "pg_Entries page \<noteq> []"
    and q: "q_fromOccurredAt request2 = q_fromOccurredAt request" "q_untilOccurredAt request2 = q_untilOccurredAt request"
      "q_afterRevision request2 = Some (en_Revision (last (pg_Entries page)))"
  shows "remaining request2 log = drop (length (pg_Entries page)) (remaining request log)"
proof -
  let ?m = "length (pg_Entries page)" and ?R = "remaining request log" and ?x = "unat (en_Revision (last (pg_Entries page)))"
  have m: "?m > 0" using ne by simp
  note len = last_entry(1) [OF a ne] and x = last_entry(2) [OF a ne] and srt = remaining_sorted [of request log]
  have "remaining request2 log = filter (\<lambda>r. ?x < r) (window_revisions request log)"
    using q by (simp add: remaining_def window_revisions_def outside_time_def)
  also have "\<dots> = filter (\<lambda>r. ?x < r) ?R"
  proof -
    have "\<And>after r. q_afterRevision request = Some after \<Longrightarrow> ?x < r \<Longrightarrow> unat after < r"
    proof -
      fix after r assume af: "q_afterRevision request = Some after" "?x < r"
      have "?x \<in> set ?R" unfolding x using len m by (intro nth_mem) linarith
      then show "unat after < r" using af by (auto simp: remaining_def)
    qed
    then show ?thesis by (auto simp: remaining_def split: option.split intro!: filter_cong)
  qed
  also have "\<dots> = drop ?m ?R"
  proof -
    have s: "?R = take ?m ?R @ drop ?m ?R" by simp
    have "r \<le> ?x" if r: "r \<in> set (take ?m ?R)" for r
    proof -
      obtain i where i: "i < ?m" "r = ?R ! i" using r len by (auto simp: in_set_conv_nth)
      show ?thesis
      proof (cases "i = ?m - 1")
        case False
        then show ?thesis unfolding i(2) x using i(1) len by (intro less_imp_le sorted_wrt_nth_less [OF srt]) linarith+
      qed (simp add: i x)
    qed
    moreover have "?x < r" if r: "r \<in> set (drop ?m ?R)" for r
    proof -
      obtain i where "i < length (drop ?m ?R)" "r = drop ?m ?R ! i" using r by (metis in_set_conv_nth)
      then have i: "?m + i < length ?R" "r = ?R ! (?m + i)" by auto
      then show ?thesis unfolding i(2) x using m by (intro sorted_wrt_nth_less [OF srt]) linarith+
    qed
    ultimately show ?thesis by (subst s, subst filter_append) (auto simp: filter_empty_conv filter_id_conv not_less)
  qed
  finally show ?thesis .
qed

text \<open>
  C10: paging makes progress and never loses its place. When a verified page of a well-formed request says there
  is more, \<open>finish_page\<close> gives it a continuation; the page has entries, the next request is accepted for every
  limit from 1 to 1000 and pins the same head, and what remains for it in the log is what remained before less
  the entries of the page; so following continuations reads the whole window once. Or two listed messages collide.
\<close>

theorem paging_progresses:
  assumes v: "verifyRevisionStreamQueryPage request verified = Inr ()" "finish_page request pinned live verified = Inr page"
      "pg_HasMore page" "pg_PinnedHead verified = Some pinned"
    and log: "log_head (q_streamID request) log = Some pinned" "length log < 2 ^ 64" "times_ascend log"
    and req: "0 < length (q_streamID request)" "length (q_streamID request) \<le> maxRevisionStreamIDBytes"
      "sint (q_fromOccurredAt request) < sint (q_untilOccurredAt request)" "0 < limit" "unat limit \<le> maxRevisionStreamQueryLimit"
  shows "(\<exists>cont request2. pg_Entries page \<noteq> [] \<and> pg_Continuation page = Some cont \<and> NextRequest cont limit = Inr request2
      \<and> q_pinnedHead request2 = Some pinned \<and> remaining request2 log = drop (length (pg_Entries page)) (remaining request log))
    \<or> list_ex hash_collision (page_pairs request log page)"
proof (rule disjCI)
  assume none: "\<not> list_ex hash_collision (page_pairs request log page)"
  let ?after = "en_Revision (last (pg_Entries page))"
  let ?cont = "\<lparr>ct_streamID = q_streamID request, ct_fromOccurredAt = q_fromOccurredAt request,
      ct_untilOccurredAt = q_untilOccurredAt request, ct_pinnedHead = pinned, ct_afterRevision = deref (pg_NextAfterRevision verified),
      ct_window = pg_QueryWindow verified, ct_previousRoot = digest_or_zero (en_RootSHA256 (last (pg_Entries verified))), ct_minimumLiveHead = live\<rparr>"
  have p: "page = verified\<lparr>pg_Continuation := Some ?cont\<rparr>" and more: "pg_HasMore verified"
    using v(2,3) by (auto simp: finish_page_def split: if_splits)
  have same: "pg_Entries verified = pg_Entries page" "pg_QueryWindow verified = pg_QueryWindow page"
    "pg_NextAfterRevision verified = pg_NextAfterRevision page" "pg_Continuation page = Some ?cont" by (simp_all add: p)
  note m = more_facts [OF v(1,4) more, unfolded same(1-3)]
  have a: "answers_query request log page"
    using verified_page_answers [OF log v(4,1)] none by (simp only: p continuation_irrelevant simp_thms)
  have "entry_event (last (pg_Entries page)) \<in> set (map entry_event (pg_Entries page))" using m(1) by simp
  also have "\<dots> = log_event log ` set (take (length (pg_Entries page)) (remaining request log))"
    using a unfolding answers_query_def set_map [symmetric] by metis
  finally obtain x where x: "x \<in> set (remaining request log)" "entry_event (last (pg_Entries page)) = log_event log x"
    by (metis imageE in_set_takeD)
  then have r: "1 \<le> unat ?after" "unat ?after \<le> length log"
    using remaining_range [OF x(1)] by (simp_all add: entry_event_def log_event_def prod_eq_iff)
  have fits: "unat (hd_Revision pinned) = length log" using log_head_peaks(2) [OF log(1)] log(2) by (simp add: unat_of_nat_uint64)
  have "unat ?after \<noteq> length log"
    using last_before_end [OF a m(1)] a v(3) by (auto simp: answers_query_def)
  then have "?after < hd_Revision pinned" "?after \<noteq> 0" using r fits by (auto simp: word_less_nat_alt)
  then have "NextRequest ?cont limit
    = Inr \<lparr>q_streamID = q_streamID request, q_fromOccurredAt = q_fromOccurredAt request, q_untilOccurredAt = q_untilOccurredAt request,
        q_pinnedHead = Some pinned, q_afterRevision = Some ?after, q_limit = limit, q_expectedWindow = Some (pg_QueryWindow page),
        q_previousRoot = Some (digest_or_zero (en_RootSHA256 (last (pg_Entries page)))), q_minimumLiveHead = Some live\<rparr>"
    using req log_head_valid [OF log(1,2)] m(3) unfolding same(1-3) by (auto simp: NextRequest_def newRevisionStreamQueryRequest_def not_le not_less)
  then show "\<exists>cont request2. pg_Entries page \<noteq> [] \<and> pg_Continuation page = Some cont \<and> NextRequest cont limit = Inr request2
      \<and> q_pinnedHead request2 = Some pinned \<and> remaining request2 log = drop (length (pg_Entries page)) (remaining request log)"
    using next_remaining [OF a m(1)] m(1) same(4) by fastforce
qed


section \<open>An example\<close>

text \<open>Two events at times 5 and 6, queried for the times from 0 to 10 one event at a time.\<close>

definition paging_log :: "stream_event list" where "paging_log = [(6, [3]), (5, [2])]"

definition paging_request :: RevisionStreamQueryRequest where
  "paging_request = \<lparr>q_streamID = [1], q_fromOccurredAt = 0, q_untilOccurredAt = 10, q_pinnedHead = None, q_afterRevision = None,
     q_limit = 1, q_expectedWindow = None, q_previousRoot = None, q_minimumLiveHead = None\<rparr>"

lemma paging_log_facts:
  "length paging_log < 2 ^ 64" "times_ascend paging_log" "cursor_ok paging_request paging_log" "\<exists>pinned. log_head [1] paging_log = Some pinned"
  by (simp_all add: paging_log_def paging_request_def times_ascend_def cursor_ok_def log_head_Cons Let_def)

lemma paging_page_verified:
  assumes "log_head [1] paging_log = Some pinned"
  shows "verifyRevisionStreamQueryPage paging_request (honest_page paging_request paging_log pinned) = Inr ()"
    "pg_HasMore (honest_page paging_request paging_log pinned)"
proof -
  have q: "q_streamID paging_request = [1]" "0 < q_limit paging_request" by (simp_all add: paging_request_def)
  show "verifyRevisionStreamQueryPage paging_request (honest_page paging_request paging_log pinned) = Inr ()"
    using assms q paging_log_facts by (intro honest_page_accepted) (simp_all add: paging_request_def)
  have "below 0 paging_log = 0" "below 10 paging_log = 2" by (simp_all add: below_def paging_log_def log_at_def)
  then show "pg_HasMore (honest_page paging_request paging_log pinned)"
    unfolding honest_fields(5) [OF paging_log_facts(2,1,3)] by (simp add: page_from_def page_end_def paging_request_def)
qed

theorem honest_page_verifies_witness:
  "\<exists>pinned. log_head [1] paging_log = Some pinned
    \<and> verifyRevisionStreamQueryPage paging_request (honest_page paging_request paging_log pinned) = Inr ()"
proof -
  obtain h where h: "log_head [1] paging_log = Some h" using paging_log_facts(4) by blast
  have "verifyRevisionStreamQueryPage paging_request (honest_page paging_request paging_log h) = Inr ()"
    by (rule honest_page_verifies [OF _ paging_log_facts(1,2) _ paging_log_facts(3)]) (use h in \<open>simp_all add: paging_request_def\<close>)
  then show ?thesis using h by blast
qed

theorem paging_progresses_witness:
  "\<exists>pinned page. finish_page paging_request pinned pinned (honest_page paging_request paging_log pinned) = Inr page \<and>
    ((\<exists>cont request2. pg_Entries page \<noteq> [] \<and> pg_Continuation page = Some cont \<and> NextRequest cont 1 = Inr request2
      \<and> q_pinnedHead request2 = Some pinned
      \<and> remaining request2 paging_log = drop (length (pg_Entries page)) (remaining paging_request paging_log))
    \<or> list_ex hash_collision (page_pairs paging_request paging_log page))"
proof -
  obtain h where h: "log_head [1] paging_log = Some h" using paging_log_facts(4) by blast
  let ?p = "honest_page paging_request paging_log h"
  note v = paging_page_verified [OF h]
  obtain page where page: "finish_page paging_request h h ?p = Inr page" "pg_HasMore page"
    using v(2) by (simp add: finish_page_def paging_request_def)
  have pin: "pg_PinnedHead ?p = Some h" by (simp add: honest_page_def Let_def)
  show ?thesis
    by (intro exI conjI, rule page(1), rule paging_progresses [OF v(1) page pin _ paging_log_facts(1,2)])
      (use h in \<open>simp_all add: paging_request_def maxRevisionStreamIDBytes_def maxRevisionStreamQueryLimit_def\<close>)
qed

end
