(* ===== verification/NamespaceReads.thy ===== *)
theory NamespaceReads
  imports ConditionalReceipt Database
begin

text \<open>
  Reads of conditional namespaces (\<open>conditional_point_read.go\<close>, \<open>conditional_snapshot_read.go\<close> of
  \<open>internal/serverprotocol\<close> and the \<open>DB\<close> methods over them): closed requests, the wire forms, the response
  digests, and the decoders that refuse a response that is not about the request. Pointers to revisions are
  options; copies of slices are the values themselves.
\<close>

section \<open>Point reads\<close>

definition conditionalPointReadVersion :: uint16 where "conditionalPointReadVersion = 1"
definition maxConditionalPointReadValueBytes :: nat where "maxConditionalPointReadValueBytes = 3 * 2 ^ 20"

record ConditionalPointReadRequest =
  pr_namespace :: string
  pr_key :: bytes
  pr_requiredRevision :: "uint64 option"

definition point_read_invalid :: "string \<Rightarrow> 'a result" where
  "point_read_invalid message = Inl (newError CodeInvalidArgument ''conditional point read'' message None)"

definition NewConditionalPointReadRequest :: "string \<Rightarrow> bytes \<Rightarrow> uint64 option \<Rightarrow> ConditionalPointReadRequest result" where
  "NewConditionalPointReadRequest namespace key requiredRevision =
     (if \<not> conditionalNamespacePattern namespace then point_read_invalid ''namespace must be 1-64 safe ASCII bytes''
      else if length key = 0 \<or> maxConditionalKeyBytes < length key then point_read_invalid ''key is empty or exceeds the SDK bound''
      else if requiredRevision = Some 0 then point_read_invalid ''required revision must be greater than zero''
      else Inr \<lparr>pr_namespace = namespace, pr_key = key, pr_requiredRevision = requiredRevision\<rparr>)"

record ConditionalPointReadResult =
  prr_Version :: uint16
  prr_Namespace :: string
  prr_Key :: bytes
  prr_RequiredRevision :: "uint64 option"
  prr_ObservedRevision :: uint64
  prr_SnapshotRevision :: uint64
  prr_Found :: bool
  prr_Value :: nullable_bytes
  prr_ResponseSHA256 :: string

record wireConditionalPointReadRequest =
  wpr_Version :: uint16
  wpr_Namespace :: string
  wpr_Key :: wireBytes
  wpr_Revision :: wireNullableCanonicalUint64

record wireConditionalPointReadResult =
  wpo_Version :: uint16
  wpo_Namespace :: string
  wpo_Key :: wireBytes
  wpo_Revision :: wireNullableCanonicalUint64
  wpo_ObservedRevision :: canonicalUint64
  wpo_SnapshotRevision :: canonicalUint64
  wpo_Value :: wireBytes
  wpo_ResponseSHA256 :: string

text \<open>A revision pointer on the wire: \<open>null\<close>, or the canonical decimal string.\<close>

definition wire_revision :: "uint64 option \<Rightarrow> wireNullableCanonicalUint64" where
  "wire_revision revision =
     \<lparr>nu_Value = (case revision of None \<Rightarrow> 0 | Some r \<Rightarrow> r), nu_Present = True, nu_Null = (revision = None)\<rparr>"

definition buildConditionalPointReadRequest :: "ConditionalPointReadRequest \<Rightarrow> wireConditionalPointReadRequest result" where
  "buildConditionalPointReadRequest request =
     (case NewConditionalPointReadRequest (pr_namespace request) (pr_key request) (pr_requiredRevision request) of
        Inl err \<Rightarrow> Inl (newError CodeInvalidArgument ''conditional point read''
                    ''request was not created by NewConditionalPointReadRequest'' (Some err))
      | Inr validated \<Rightarrow>
          Inr \<lparr>wpr_Version = conditionalPointReadVersion, wpr_Namespace = pr_namespace validated,
            wpr_Key = presentWireBytes (pr_key validated), wpr_Revision = wire_revision (pr_requiredRevision validated)\<rparr>)"

definition wirePointReadRequest_json :: "wireConditionalPointReadRequest \<Rightarrow> json" where
  "wirePointReadRequest_json wire =
     JObj [(''version'', JNum (nat_str (unat (wpr_Version wire)))), (''namespace'', JStr (wpr_Namespace wire)),
       (''key'', wireBytes_MarshalJSON (wpr_Key wire)), (''revision'', nullableUint64_MarshalJSON (wpr_Revision wire))]"

definition zero_wirePointReadResult :: wireConditionalPointReadResult where
  "zero_wirePointReadResult = \<lparr>wpo_Version = 0, wpo_Namespace = [], wpo_Key = zero_wireBytes, wpo_Revision = zero_nullableUint64,
     wpo_ObservedRevision = zero_canonicalUint64, wpo_SnapshotRevision = zero_canonicalUint64, wpo_Value = zero_wireBytes,
     wpo_ResponseSHA256 = []\<rparr>"

definition wirePointReadResult_decoder :: "wireConditionalPointReadResult decoder" where
  "wirePointReadResult_decoder = decode_struct [''version'', ''namespace'', ''key'', ''revision'', ''observed_revision'',
       ''snapshot_revision'', ''value'', ''response_sha256'']
     (\<lambda>f. if f = ''version'' then field wpo_Version wpo_Version_update json_uint
          else if f = ''namespace'' then field wpo_Namespace wpo_Namespace_update json_string
          else if f = ''key'' then field wpo_Key wpo_Key_update wireBytes_UnmarshalJSON
          else if f = ''revision'' then field wpo_Revision wpo_Revision_update nullableUint64_UnmarshalJSON
          else if f = ''observed_revision'' then field wpo_ObservedRevision wpo_ObservedRevision_update canonicalUint64_UnmarshalJSON
          else if f = ''snapshot_revision'' then field wpo_SnapshotRevision wpo_SnapshotRevision_update canonicalUint64_UnmarshalJSON
          else if f = ''value'' then field wpo_Value wpo_Value_update wireBytes_UnmarshalJSON
          else field wpo_ResponseSHA256 wpo_ResponseSHA256_update json_string)"

definition sameNullableRevision :: "wireNullableCanonicalUint64 \<Rightarrow> uint64 option \<Rightarrow> bool" where
  "sameNullableRevision wire expected =
     (case expected of None \<Rightarrow> nu_Null wire | Some r \<Rightarrow> \<not> nu_Null wire \<and> nu_Value wire = r)"

text \<open>What the digests write: a flag and the revision, a flag and the length-prefixed value.\<close>

definition writePointReadBytes :: "bytes \<Rightarrow> bytes" where
  "writePointReadBytes value = len_bytes_be value"

definition writePointReadUint64 :: "uint64 \<Rightarrow> bytes" where
  "writePointReadUint64 value = u64_be value"

definition digest_revision :: "wireNullableCanonicalUint64 \<Rightarrow> bytes" where
  "digest_revision revision = (if nu_Null revision then [0] else 1 # writePointReadUint64 (nu_Value revision))"

definition digest_value :: "wireBytes \<Rightarrow> bytes" where
  "digest_value value = (if wb_Null value then [0] else 1 # writePointReadBytes (wb_Value value))"

definition point_read_message :: "wireConditionalPointReadResult \<Rightarrow> bytes" where
  "point_read_message result =
     bytes_of ''TALON_CONDITIONAL_POINT_READ_RESULT_V1'' @ u16_be (wpo_Version result)
     @ writePointReadBytes (bytes_of (wpo_Namespace result)) @ writePointReadBytes (wb_Value (wpo_Key result))
     @ digest_revision (wpo_Revision result) @ writePointReadUint64 (cu_Value (wpo_ObservedRevision result))
     @ writePointReadUint64 (cu_Value (wpo_SnapshotRevision result)) @ digest_value (wpo_Value result)"

definition conditionalPointReadResponseSHA :: "wireConditionalPointReadResult \<Rightarrow> string" where
  "conditionalPointReadResponseSHA result = sha256_hex (point_read_message result)"

definition conditionalPointReadProtocolError :: "string \<Rightarrow> go_error \<Rightarrow> go_error" where
  "conditionalPointReadProtocolError operation cause =
     newError CodeProtocolViolation operation ''native conditional point-read response violated its typed contract'' (Some cause)"

abbreviation point_read_failure :: "string \<Rightarrow> 'a result" where
  "point_read_failure message \<equiv> Inl (conditionalPointReadProtocolError ''decode conditional point read'' (ErrorString message))"

definition decodeConditionalPointReadResult :: "json \<Rightarrow> ConditionalPointReadRequest \<Rightarrow> ConditionalPointReadResult result" where
  "decodeConditionalPointReadResult data request =
     (case buildConditionalPointReadRequest request of
        Inl err \<Rightarrow> Inl err
      | Inr _ \<Rightarrow>
          (case decodeStrictRaw wirePointReadResult_decoder zero_wirePointReadResult data of
             Inl err \<Rightarrow> Inl (conditionalPointReadProtocolError ''decode conditional point read'' err)
           | Inr wire \<Rightarrow>
               if wpo_Version wire \<noteq> conditionalPointReadVersion \<or> wpo_Namespace wire \<noteq> pr_namespace request
                  \<or> \<not> wb_Present (wpo_Key wire) \<or> wb_Null (wpo_Key wire) \<or> wb_Value (wpo_Key wire) \<noteq> pr_key request
                  \<or> \<not> nu_Present (wpo_Revision wire) \<or> \<not> sameNullableRevision (wpo_Revision wire) (pr_requiredRevision request)
               then point_read_failure ''response substituted request identity or revision''
               else if \<not> cu_Present (wpo_ObservedRevision wire) \<or> \<not> cu_Present (wpo_SnapshotRevision wire)
                       \<or> \<not> wb_Present (wpo_Value wire) \<or> \<not> sha_pattern (wpo_ResponseSHA256 wire)
               then point_read_failure ''required response fields are missing or invalid''
               else if (case pr_requiredRevision request of None \<Rightarrow> False | Some r \<Rightarrow> cu_Value (wpo_ObservedRevision wire) < r)
               then point_read_failure ''observed revision predates the required revision''
               else if \<not> wb_Null (wpo_Value wire) \<and> maxConditionalPointReadValueBytes < length (wb_Value (wpo_Value wire))
               then point_read_failure ''value exceeds the point-read bound''
               else if conditionalPointReadResponseSHA wire \<noteq> wpo_ResponseSHA256 wire
               then point_read_failure ''response SHA-256 mismatch''
               else Inr \<lparr>prr_Version = conditionalPointReadVersion, prr_Namespace = pr_namespace request, prr_Key = pr_key request,
                 prr_RequiredRevision = pr_requiredRevision request, prr_ObservedRevision = cu_Value (wpo_ObservedRevision wire),
                 prr_SnapshotRevision = cu_Value (wpo_SnapshotRevision wire), prr_Found = (\<not> wb_Null (wpo_Value wire)),
                 prr_Value = cloneNullableBytes (wpo_Value wire), prr_ResponseSHA256 = wpo_ResponseSHA256 wire\<rparr>))"

text \<open>\<open>DB.ConditionalGet\<close>.\<close>

definition ConditionalGet :: "('h \<Rightarrow> string \<Rightarrow> 'h \<times> string native_reply) \<Rightarrow> 'h DB \<Rightarrow> ConditionalPointReadRequest
    \<Rightarrow> 'h DB \<times> ConditionalPointReadResult result" where
  "ConditionalGet talon_execute db request =
     (case buildConditionalPointReadRequest request of
        Inl err \<Rightarrow> (db, Inl err)
      | Inr params \<Rightarrow>
          (case RequireCapability (db_nativeInfo db) ''storage_conditional_point_read'' of
             Inl err \<Rightarrow> (db, Inl err)
           | Inr _ \<Rightarrow>
               (case execute talon_execute db ''storage'' ''conditional_get'' (Some (Inr (wirePointReadRequest_json params))) of
                  (db', Inl err) \<Rightarrow> (db', Inl err)
                | (db', Inr data) \<Rightarrow> (db', decodeConditionalPointReadResult data request))))"


section \<open>Snapshot reads\<close>

definition conditionalSnapshotReadVersionV1 :: uint16 where "conditionalSnapshotReadVersionV1 = 1"
definition conditionalSnapshotReadVersionV2 :: uint16 where "conditionalSnapshotReadVersionV2 = 2"
definition maxConditionalSnapshotReadKeysV1 :: nat where "maxConditionalSnapshotReadKeysV1 = 128"
definition maxConditionalSnapshotReadKeysV2 :: nat where "maxConditionalSnapshotReadKeysV2 = 1024"
definition maxConditionalSnapshotValueBytes :: nat where "maxConditionalSnapshotValueBytes = 3 * 2 ^ 20"
definition maxConditionalSnapshotTotalValueBytes :: nat where "maxConditionalSnapshotTotalValueBytes = 8 * 2 ^ 20"
definition maxConditionalSnapshotRequestBytes :: nat where "maxConditionalSnapshotRequestBytes = 512 * 2 ^ 10"

record ConditionalSnapshotReadRequest =
  sr_version :: uint16
  sr_namespace :: string
  sr_keys :: "bytes list"
  sr_requiredRevision :: "uint64 option"

record ConditionalSnapshotReadObservation =
  so_Index :: uint64
  so_Key :: bytes
  so_Found :: bool
  so_Value :: nullable_bytes

record ConditionalSnapshotReadResult =
  srr_Version :: uint16
  srr_Namespace :: string
  srr_RequiredRevision :: "uint64 option"
  srr_ObservedRevision :: uint64
  srr_SnapshotRevision :: uint64
  srr_Observations :: "ConditionalSnapshotReadObservation list"
  srr_ResponseSHA256 :: string

record wireConditionalSnapshotReadRequest =
  wsq_Version :: uint16
  wsq_Namespace :: string
  wsq_Keys :: "wireBytes list"
  wsq_Revision :: wireNullableCanonicalUint64

record wireConditionalSnapshotReadObservation =
  wso_Index :: uint64
  wso_Key :: wireBytes
  wso_Value :: wireBytes

record wireConditionalSnapshotReadResult =
  wsr_Version :: uint16
  wsr_Namespace :: string
  wsr_Revision :: wireNullableCanonicalUint64
  wsr_ObservedRevision :: canonicalUint64
  wsr_SnapshotRevision :: canonicalUint64
  wsr_Observations :: "wireConditionalSnapshotReadObservation list option"
  wsr_ResponseSHA256 :: string

definition snapshot_read_invalid :: "string \<Rightarrow> 'a result" where
  "snapshot_read_invalid message = Inl (newError CodeInvalidArgument ''conditional snapshot read'' message None)"

definition conditionalSnapshotReadMaxKeys :: "uint16 \<Rightarrow> nat option" where
  "conditionalSnapshotReadMaxKeys version =
     (if version = conditionalSnapshotReadVersionV1 then Some maxConditionalSnapshotReadKeysV1
      else if version = conditionalSnapshotReadVersionV2 then Some maxConditionalSnapshotReadKeysV2
      else None)"

definition conditionalSnapshotReadWire :: "ConditionalSnapshotReadRequest \<Rightarrow> wireConditionalSnapshotReadRequest" where
  "conditionalSnapshotReadWire request =
     \<lparr>wsq_Version = sr_version request, wsq_Namespace = sr_namespace request, wsq_Keys = map presentWireBytes (sr_keys request),
      wsq_Revision = wire_revision (sr_requiredRevision request)\<rparr>"

definition wireSnapshotReadRequest_json :: "wireConditionalSnapshotReadRequest \<Rightarrow> json" where
  "wireSnapshotReadRequest_json wire =
     JObj [(''version'', JNum (nat_str (unat (wsq_Version wire)))), (''namespace'', JStr (wsq_Namespace wire)),
       (''keys'', JArr (map wireBytes_MarshalJSON (wsq_Keys wire))), (''revision'', nullableUint64_MarshalJSON (wsq_Revision wire))]"

definition validateConditionalSnapshotReadRequestSize :: "ConditionalSnapshotReadRequest \<Rightarrow> unit result" where
  "validateConditionalSnapshotReadRequestSize request =
     (if maxConditionalSnapshotRequestBytes < length (marshal_json (wireSnapshotReadRequest_json (conditionalSnapshotReadWire request)))
      then snapshot_read_invalid ''request exceeds the 512 KiB canonical JSON bound'' else Inr ())"

text \<open>The loop over the keys, with the keys seen so far.\<close>

fun check_snapshot_keys :: "nat \<Rightarrow> bytes list \<Rightarrow> bytes list \<Rightarrow> unit result" where
  "check_snapshot_keys index seen [] = Inr ()"
| "check_snapshot_keys index seen (key # keys) =
     (if length key = 0 \<or> maxConditionalKeyBytes < length key
      then snapshot_read_invalid (''key '' @ nat_str index @ '' is empty or exceeds the SDK bound'')
      else if key \<in> set seen then snapshot_read_invalid (''key '' @ nat_str index @ '' duplicates an earlier key'')
      else check_snapshot_keys (Suc index) (key # seen) keys)"

definition newConditionalSnapshotReadRequest :: "uint16 \<Rightarrow> string \<Rightarrow> bytes list \<Rightarrow> uint64 option \<Rightarrow> ConditionalSnapshotReadRequest result" where
  "newConditionalSnapshotReadRequest version namespace keys requiredRevision =
     (if \<not> conditionalNamespacePattern namespace then snapshot_read_invalid ''namespace must be 1-64 safe ASCII bytes''
      else case conditionalSnapshotReadMaxKeys version of
        None \<Rightarrow> snapshot_read_invalid ''version must be 1 or 2''
      | Some maxKeys \<Rightarrow>
          if length keys = 0 \<or> maxKeys < length keys
          then snapshot_read_invalid (''version '' @ nat_str (unat version) @ '' key count must be in 1..'' @ nat_str maxKeys)
          else case check_snapshot_keys 0 [] keys of
            Inl err \<Rightarrow> Inl err
          | Inr _ \<Rightarrow>
              if requiredRevision = Some 0 then snapshot_read_invalid ''required revision must be greater than zero''
              else (let request = \<lparr>sr_version = version, sr_namespace = namespace, sr_keys = keys, sr_requiredRevision = requiredRevision\<rparr>
                    in case validateConditionalSnapshotReadRequestSize request of Inl err \<Rightarrow> Inl err | Inr _ \<Rightarrow> Inr request))"

definition NewConditionalSnapshotReadRequest :: "string \<Rightarrow> bytes list \<Rightarrow> uint64 option \<Rightarrow> ConditionalSnapshotReadRequest result" where
  "NewConditionalSnapshotReadRequest = newConditionalSnapshotReadRequest conditionalSnapshotReadVersionV1"

definition NewConditionalSnapshotReadRequestV2 :: "string \<Rightarrow> bytes list \<Rightarrow> uint64 option \<Rightarrow> ConditionalSnapshotReadRequest result" where
  "NewConditionalSnapshotReadRequestV2 = newConditionalSnapshotReadRequest conditionalSnapshotReadVersionV2"

definition buildConditionalSnapshotReadRequest :: "ConditionalSnapshotReadRequest \<Rightarrow> wireConditionalSnapshotReadRequest result" where
  "buildConditionalSnapshotReadRequest request =
     (case newConditionalSnapshotReadRequest (sr_version request) (sr_namespace request) (sr_keys request) (sr_requiredRevision request) of
        Inl err \<Rightarrow> Inl (newError CodeInvalidArgument ''conditional snapshot read''
                    ''request was not created by a conditional snapshot-read constructor'' (Some err))
      | Inr validated \<Rightarrow> Inr (conditionalSnapshotReadWire validated))"

definition zero_wireSnapshotObservation :: wireConditionalSnapshotReadObservation where
  "zero_wireSnapshotObservation = \<lparr>wso_Index = 0, wso_Key = zero_wireBytes, wso_Value = zero_wireBytes\<rparr>"

definition wireSnapshotObservation_decoder :: "wireConditionalSnapshotReadObservation decoder" where
  "wireSnapshotObservation_decoder = decode_struct [''index'', ''key'', ''value'']
     (\<lambda>f. if f = ''index'' then field wso_Index wso_Index_update json_uint
          else if f = ''key'' then field wso_Key wso_Key_update wireBytes_UnmarshalJSON
          else field wso_Value wso_Value_update wireBytes_UnmarshalJSON)"

definition zero_wireSnapshotResult :: wireConditionalSnapshotReadResult where
  "zero_wireSnapshotResult = \<lparr>wsr_Version = 0, wsr_Namespace = [], wsr_Revision = zero_nullableUint64,
     wsr_ObservedRevision = zero_canonicalUint64, wsr_SnapshotRevision = zero_canonicalUint64, wsr_Observations = None,
     wsr_ResponseSHA256 = []\<rparr>"

definition wireSnapshotResult_decoder :: "wireConditionalSnapshotReadResult decoder" where
  "wireSnapshotResult_decoder = decode_struct [''version'', ''namespace'', ''revision'', ''observed_revision'', ''snapshot_revision'',
       ''observations'', ''response_sha256'']
     (\<lambda>f. if f = ''version'' then field wsr_Version wsr_Version_update json_uint
          else if f = ''namespace'' then field wsr_Namespace wsr_Namespace_update json_string
          else if f = ''revision'' then field wsr_Revision wsr_Revision_update nullableUint64_UnmarshalJSON
          else if f = ''observed_revision'' then field wsr_ObservedRevision wsr_ObservedRevision_update canonicalUint64_UnmarshalJSON
          else if f = ''snapshot_revision'' then field wsr_SnapshotRevision wsr_SnapshotRevision_update canonicalUint64_UnmarshalJSON
          else if f = ''observations''
          then field wsr_Observations wsr_Observations_update (json_slice zero_wireSnapshotObservation wireSnapshotObservation_decoder)
          else field wsr_ResponseSHA256 wsr_ResponseSHA256_update json_string)"

definition conditionalSnapshotReadDigestDomain :: "uint16 \<Rightarrow> string option" where
  "conditionalSnapshotReadDigestDomain version =
     (if version = conditionalSnapshotReadVersionV1 then Some ''TALON_CONDITIONAL_SNAPSHOT_READ_RESULT_V1''
      else if version = conditionalSnapshotReadVersionV2 then Some ''TALON_CONDITIONAL_SNAPSHOT_READ_RESULT_V2''
      else None)"

definition observation_bytes :: "wireConditionalSnapshotReadObservation \<Rightarrow> bytes" where
  "observation_bytes observation =
     u32_be (ucast (wso_Index observation)) @ writePointReadBytes (wb_Value (wso_Key observation)) @ digest_value (wso_Value observation)"

definition snapshot_read_message :: "string \<Rightarrow> wireConditionalSnapshotReadResult \<Rightarrow> bytes" where
  "snapshot_read_message domain result =
     bytes_of domain @ u16_be (wsr_Version result) @ writePointReadBytes (bytes_of (wsr_Namespace result))
     @ digest_revision (wsr_Revision result) @ writePointReadUint64 (cu_Value (wsr_ObservedRevision result))
     @ writePointReadUint64 (cu_Value (wsr_SnapshotRevision result))
     @ u32_be (of_nat (length (slice_items (wsr_Observations result))))
     @ concat (map observation_bytes (slice_items (wsr_Observations result)))"

definition conditionalSnapshotReadResponseSHA :: "wireConditionalSnapshotReadResult \<Rightarrow> string" where
  "conditionalSnapshotReadResponseSHA result =
     (case conditionalSnapshotReadDigestDomain (wsr_Version result) of
        None \<Rightarrow> []
      | Some domain \<Rightarrow> sha256_hex (snapshot_read_message domain result))"

definition conditionalSnapshotReadProtocolError :: "string \<Rightarrow> go_error \<Rightarrow> go_error" where
  "conditionalSnapshotReadProtocolError operation cause =
     newError CodeProtocolViolation operation ''native conditional snapshot-read response violated its typed contract'' (Some cause)"

abbreviation snapshot_read_failure :: "string \<Rightarrow> 'a result" where
  "snapshot_read_failure message \<equiv> Inl (conditionalSnapshotReadProtocolError ''decode conditional snapshot read'' (ErrorString message))"

text \<open>The loop over the observations, beside the keys of the request, with the keys seen and the bytes so far.\<close>

fun decode_snapshot_observations :: "nat \<Rightarrow> bytes list \<Rightarrow> nat \<Rightarrow> bytes list \<Rightarrow> wireConditionalSnapshotReadObservation list
    \<Rightarrow> ConditionalSnapshotReadObservation list result" where
  "decode_snapshot_observations index seen totalValueBytes (key # keys) (observation # observations) =
     (if wso_Index observation \<noteq> of_nat index \<or> \<not> wb_Present (wso_Key observation) \<or> wb_Null (wso_Key observation)
         \<or> wb_Value (wso_Key observation) \<noteq> key \<or> \<not> wb_Present (wso_Value observation)
      then snapshot_read_failure (''observation '' @ nat_str index @ '' substituted index or key'')
      else if wb_Value (wso_Key observation) \<in> set seen
      then snapshot_read_failure (''observation '' @ nat_str index @ '' duplicated a key'')
      else if \<not> wb_Null (wso_Value observation) \<and> maxConditionalSnapshotValueBytes < length (wb_Value (wso_Value observation))
      then snapshot_read_failure (''observation '' @ nat_str index @ '' value exceeds the point-read bound'')
      else if \<not> wb_Null (wso_Value observation)
              \<and> int maxConditionalSnapshotTotalValueBytes - int (length (wb_Value (wso_Value observation))) < int totalValueBytes
      then snapshot_read_failure ''snapshot values exceed the aggregate bound''
      else case decode_snapshot_observations (Suc index) (wb_Value (wso_Key observation) # seen)
                  (if wb_Null (wso_Value observation) then totalValueBytes else totalValueBytes + length (wb_Value (wso_Value observation)))
                  keys observations of
        Inl err \<Rightarrow> Inl err
      | Inr rest \<Rightarrow>
          Inr (\<lparr>so_Index = of_nat index, so_Key = wb_Value (wso_Key observation), so_Found = (\<not> wb_Null (wso_Value observation)),
             so_Value = cloneNullableBytes (wso_Value observation)\<rparr> # rest))"
| "decode_snapshot_observations index seen totalValueBytes _ _ = Inr []"

definition decodeConditionalSnapshotReadResult :: "json \<Rightarrow> ConditionalSnapshotReadRequest \<Rightarrow> ConditionalSnapshotReadResult result" where
  "decodeConditionalSnapshotReadResult data request =
     (case buildConditionalSnapshotReadRequest request of
        Inl err \<Rightarrow> Inl err
      | Inr _ \<Rightarrow>
          (case decodeStrictRaw wireSnapshotResult_decoder zero_wireSnapshotResult data of
             Inl err \<Rightarrow> Inl (conditionalSnapshotReadProtocolError ''decode conditional snapshot read'' err)
           | Inr wire \<Rightarrow>
               if wsr_Version wire \<noteq> sr_version request \<or> wsr_Namespace wire \<noteq> sr_namespace request
                  \<or> \<not> nu_Present (wsr_Revision wire) \<or> \<not> sameNullableRevision (wsr_Revision wire) (sr_requiredRevision request)
                  \<or> length (slice_items (wsr_Observations wire)) \<noteq> length (sr_keys request)
               then snapshot_read_failure ''response substituted request identity or observations''
               else if \<not> cu_Present (wsr_ObservedRevision wire) \<or> \<not> cu_Present (wsr_SnapshotRevision wire)
                       \<or> \<not> sha_pattern (wsr_ResponseSHA256 wire)
               then snapshot_read_failure ''required response fields are missing or invalid''
               else if (case sr_requiredRevision request of None \<Rightarrow> False | Some r \<Rightarrow> cu_Value (wsr_ObservedRevision wire) < r)
               then snapshot_read_failure ''observed revision predates the required revision''
               else case decode_snapshot_observations 0 [] 0 (sr_keys request) (slice_items (wsr_Observations wire)) of
                 Inl err \<Rightarrow> Inl err
               | Inr observations \<Rightarrow>
                   if conditionalSnapshotReadResponseSHA wire \<noteq> wsr_ResponseSHA256 wire
                   then snapshot_read_failure ''response SHA-256 mismatch''
                   else Inr \<lparr>srr_Version = sr_version request, srr_Namespace = sr_namespace request,
                     srr_RequiredRevision = sr_requiredRevision request, srr_ObservedRevision = cu_Value (wsr_ObservedRevision wire),
                     srr_SnapshotRevision = cu_Value (wsr_SnapshotRevision wire), srr_Observations = observations,
                     srr_ResponseSHA256 = wsr_ResponseSHA256 wire\<rparr>))"

text \<open>\<open>DB.ConditionalSnapshotGet\<close>.\<close>

definition ConditionalSnapshotGet :: "('h \<Rightarrow> string \<Rightarrow> 'h \<times> string native_reply) \<Rightarrow> 'h DB \<Rightarrow> ConditionalSnapshotReadRequest
    \<Rightarrow> 'h DB \<times> ConditionalSnapshotReadResult result" where
  "ConditionalSnapshotGet talon_execute db request =
     (case buildConditionalSnapshotReadRequest request of
        Inl err \<Rightarrow> (db, Inl err)
      | Inr params \<Rightarrow>
          (case requireConditionalSnapshotReadVersion (db_nativeInfo db) (sr_version request) of
             Inl err \<Rightarrow> (db, Inl err)
           | Inr _ \<Rightarrow>
               (case execute talon_execute db ''storage'' ''conditional_snapshot_get'' (Some (Inr (wireSnapshotReadRequest_json params))) of
                  (db', Inl err) \<Rightarrow> (db', Inl err)
                | (db', Inr data) \<Rightarrow> (db', decodeConditionalSnapshotReadResult data request))))"

end
