(* ===== verification/PrefixScan.thy ===== *)
theory PrefixScan
  imports NamespaceReads
begin

text \<open>
  Prefix scans of conditional namespaces (\<open>internal/serverprotocol/conditional_prefix_scan.go\<close>): immutable scan
  requests, opaque cursors, the wire forms and their digest, and the verification of a page. \<open>bytes.Compare\<close> is
  \<open>compareBytes\<close> of the receipts.
\<close>

definition conditionalPrefixScanVersion :: uint16 where "conditionalPrefixScanVersion = 1"
definition maxConditionalPrefixScanEntries :: nat where "maxConditionalPrefixScanEntries = 256"
definition maxConditionalPrefixScanPrefixBytes :: nat where "maxConditionalPrefixScanPrefixBytes = 8 * 2 ^ 10"
definition maxConditionalPrefixScanKeyBytes :: nat where "maxConditionalPrefixScanKeyBytes = 64 * 2 ^ 10"
definition maxConditionalPrefixScanRequestBytes :: nat where "maxConditionalPrefixScanRequestBytes = 64 * 2 ^ 10"
definition maxConditionalPrefixScanValueBytes :: nat where "maxConditionalPrefixScanValueBytes = 3 * 2 ^ 20"
definition maxConditionalPrefixScanTotalValueBytes :: nat where "maxConditionalPrefixScanTotalValueBytes = 8 * 2 ^ 20"
definition maxConditionalPrefixScanResponseBytes :: nat where "maxConditionalPrefixScanResponseBytes = 16 * 2 ^ 20"
definition conditionalPrefixScanResponseHeadroom :: nat where "conditionalPrefixScanResponseHeadroom = 2 ^ 10"

section \<open>Requests\<close>

definition conditionalPrefixScanCursorPattern :: "string \<Rightarrow> bool" where
  "conditionalPrefixScanCursorPattern value \<longleftrightarrow> length value = 32 \<and> list_all lower_hex value"

record ConditionalPrefixScanCursor =
  cur_value :: string

record ConditionalPrefixScanRequest =
  ps_requestID :: string
  ps_namespace :: string
  ps_prefix :: bytes
  ps_limit :: uint16
  ps_cursor :: "ConditionalPrefixScanCursor option"
  ps_requiredRevision :: "uint64 option"

definition prefix_scan_invalid :: "string \<Rightarrow> 'a result" where
  "prefix_scan_invalid message = Inl (newError CodeInvalidArgument ''conditional prefix scan'' message None)"

definition ParseConditionalPrefixScanCursor :: "string \<Rightarrow> ConditionalPrefixScanCursor result" where
  "ParseConditionalPrefixScanCursor value =
     (if \<not> conditionalPrefixScanCursorPattern value
      then prefix_scan_invalid ''cursor must be an opaque 32-character lowercase hex token''
      else Inr \<lparr>cur_value = value\<rparr>)"

definition cursor_valid :: "ConditionalPrefixScanCursor \<Rightarrow> bool" where
  "cursor_valid cursor \<longleftrightarrow> conditionalPrefixScanCursorPattern (cur_value cursor)"

definition validConditionalPrefixScanRequestID :: "string \<Rightarrow> bool" where
  "validConditionalPrefixScanRequestID value \<longleftrightarrow> utf8_valid value \<and> 0 < length value \<and> length value \<le> 128 \<and> \<not> blank value"

record wireNullableString =
  ns_Value :: string
  ns_Present :: bool
  ns_Null :: bool

definition zero_nullableString :: wireNullableString where
  "zero_nullableString = \<lparr>ns_Value = [], ns_Present = False, ns_Null = False\<rparr>"

definition wireNullableString_MarshalJSON :: "wireNullableString \<Rightarrow> json" where
  "wireNullableString_MarshalJSON value = (if ns_Null value then JNull else JStr (ns_Value value))"

definition wireNullableString_UnmarshalJSON :: "wireNullableString decoder" where
  "wireNullableString_UnmarshalJSON old data =
     (if data = JNull then Inr \<lparr>ns_Value = [], ns_Present = True, ns_Null = True\<rparr>
      else case decodeStrictRaw json_string [] data of
        Inl err \<Rightarrow> Inl err
      | Inr decoded \<Rightarrow> Inr \<lparr>ns_Value = decoded, ns_Present = True, ns_Null = False\<rparr>)"

record wireConditionalPrefixScanRequest =
  wpq_Version :: uint16
  wpq_RequestID :: string
  wpq_Namespace :: string
  wpq_Prefix :: wireBytes
  wpq_Limit :: uint16
  wpq_Cursor :: wireNullableString
  wpq_Revision :: wireNullableCanonicalUint64

definition wirePrefixScanRequest_json :: "wireConditionalPrefixScanRequest \<Rightarrow> json" where
  "wirePrefixScanRequest_json wire =
     JObj [(''version'', JNum (nat_str (unat (wpq_Version wire)))), (''request_id'', JStr (wpq_RequestID wire)),
       (''namespace'', JStr (wpq_Namespace wire)), (''prefix'', wireBytes_MarshalJSON (wpq_Prefix wire)),
       (''limit'', JNum (nat_str (unat (wpq_Limit wire)))), (''cursor'', wireNullableString_MarshalJSON (wpq_Cursor wire)),
       (''revision'', nullableUint64_MarshalJSON (wpq_Revision wire))]"

definition wire_cursor :: "ConditionalPrefixScanCursor option \<Rightarrow> wireNullableString" where
  "wire_cursor cursor =
     \<lparr>ns_Value = (case cursor of None \<Rightarrow> [] | Some c \<Rightarrow> cur_value c), ns_Present = True, ns_Null = (cursor = None)\<rparr>"

definition encodeConditionalPrefixScanRequest :: "ConditionalPrefixScanRequest \<Rightarrow> wireConditionalPrefixScanRequest result" where
  "encodeConditionalPrefixScanRequest request =
     (if \<not> validConditionalPrefixScanRequestID (ps_requestID request) \<or> \<not> conditionalNamespacePattern (ps_namespace request)
         \<or> length (ps_prefix request) = 0 \<or> maxConditionalPrefixScanPrefixBytes < length (ps_prefix request)
         \<or> ps_limit request = 0 \<or> maxConditionalPrefixScanEntries < unat (ps_limit request)
         \<or> (case ps_cursor request of None \<Rightarrow> False | Some c \<Rightarrow> \<not> cursor_valid c)
         \<or> ps_requiredRevision request = Some 0
      then prefix_scan_invalid ''request was not created by NewConditionalPrefixScanRequest''
      else
        (let wire = \<lparr>wpq_Version = conditionalPrefixScanVersion, wpq_RequestID = ps_requestID request, wpq_Namespace = ps_namespace request,
               wpq_Prefix = presentWireBytes (ps_prefix request), wpq_Limit = ps_limit request, wpq_Cursor = wire_cursor (ps_cursor request),
               wpq_Revision = wire_revision (ps_requiredRevision request)\<rparr>
         in if maxConditionalPrefixScanRequestBytes < length (print_json (wirePrefixScanRequest_json wire))
            then prefix_scan_invalid ''request exceeds the 64 KiB canonical JSON bound''
            else Inr wire))"

definition newConditionalPrefixScanRequest :: "string \<Rightarrow> string \<Rightarrow> bytes \<Rightarrow> uint16 \<Rightarrow> ConditionalPrefixScanCursor option \<Rightarrow> uint64 option
    \<Rightarrow> ConditionalPrefixScanRequest result" where
  "newConditionalPrefixScanRequest requestID namespace prefix limit cursor requiredRevision =
     (if \<not> validConditionalPrefixScanRequestID requestID
      then prefix_scan_invalid ''request ID must be 1-128 bytes of non-whitespace UTF-8 text''
      else if \<not> conditionalNamespacePattern namespace then prefix_scan_invalid ''namespace must be 1-64 safe ASCII bytes''
      else if length prefix = 0 \<or> maxConditionalPrefixScanPrefixBytes < length prefix then prefix_scan_invalid ''prefix must be 1-8192 bytes''
      else if limit = 0 \<or> maxConditionalPrefixScanEntries < unat limit then prefix_scan_invalid ''limit must be in 1..256''
      else if (case cursor of None \<Rightarrow> False | Some c \<Rightarrow> \<not> cursor_valid c)
      then prefix_scan_invalid ''cursor has an invalid v1 wire shape''
      else if requiredRevision = Some 0 then prefix_scan_invalid ''required revision must be greater than zero''
      else
        (let request = \<lparr>ps_requestID = requestID, ps_namespace = namespace, ps_prefix = prefix, ps_limit = limit, ps_cursor = cursor,
               ps_requiredRevision = requiredRevision\<rparr>
         in case encodeConditionalPrefixScanRequest request of Inl err \<Rightarrow> Inl err | Inr _ \<Rightarrow> Inr request))"

definition NewConditionalPrefixScanRequest :: "string \<Rightarrow> string \<Rightarrow> bytes \<Rightarrow> uint16 \<Rightarrow> uint64 option \<Rightarrow> ConditionalPrefixScanRequest result" where
  "NewConditionalPrefixScanRequest requestID namespace prefix limit requiredRevision =
     newConditionalPrefixScanRequest requestID namespace prefix limit None requiredRevision"

definition Continue :: "ConditionalPrefixScanRequest \<Rightarrow> ConditionalPrefixScanCursor \<Rightarrow> ConditionalPrefixScanRequest result" where
  "Continue request cursor =
     newConditionalPrefixScanRequest (ps_requestID request) (ps_namespace request) (ps_prefix request) (ps_limit request) (Some cursor)
       (ps_requiredRevision request)"

section \<open>Results\<close>

record ConditionalPrefixScanEntry =
  pe_Index :: uint64
  pe_Key :: bytes
  pe_Value :: bytes

record ConditionalPrefixScanResult =
  psr_Version :: uint16
  psr_RequestID :: string
  psr_Namespace :: string
  psr_Prefix :: bytes
  psr_Limit :: uint16
  psr_Cursor :: "ConditionalPrefixScanCursor option"
  psr_RequiredRevision :: "uint64 option"
  psr_ObservedRevision :: uint64
  psr_SnapshotRevision :: uint64
  psr_Position :: uint64
  psr_Entries :: "ConditionalPrefixScanEntry list"
  psr_NextCursor :: "ConditionalPrefixScanCursor option"
  psr_NextCursorExpiresAtUnixMillis :: "uint64 option"
  psr_ResponseSHA256 :: string

record wireConditionalPrefixScanEntry =
  wpe_Index :: canonicalUint64
  wpe_Key :: wireBytes
  wpe_Value :: wireBytes

record wireConditionalPrefixScanResult =
  wps_Version :: uint16
  wps_RequestID :: string
  wps_Namespace :: string
  wps_Prefix :: wireBytes
  wps_Limit :: uint16
  wps_Cursor :: wireNullableString
  wps_Revision :: wireNullableCanonicalUint64
  wps_ObservedRevision :: canonicalUint64
  wps_SnapshotRevision :: canonicalUint64
  wps_Position :: canonicalUint64
  wps_Entries :: "wireConditionalPrefixScanEntry list option"
  wps_NextCursor :: wireNullableString
  wps_NextCursorExpiresAtUnixMS :: wireNullableCanonicalUint64
  wps_ResponseSHA256 :: string

definition zero_wireScanEntry :: wireConditionalPrefixScanEntry where
  "zero_wireScanEntry = \<lparr>wpe_Index = zero_canonicalUint64, wpe_Key = zero_wireBytes, wpe_Value = zero_wireBytes\<rparr>"

definition wireScanEntry_decoder :: "wireConditionalPrefixScanEntry decoder" where
  "wireScanEntry_decoder = decode_struct [''index'', ''key'', ''value'']
     (\<lambda>f. if f = ''index'' then field wpe_Index wpe_Index_update canonicalUint64_UnmarshalJSON
          else if f = ''key'' then field wpe_Key wpe_Key_update wireBytes_UnmarshalJSON
          else field wpe_Value wpe_Value_update wireBytes_UnmarshalJSON)"

definition zero_wireScanResult :: wireConditionalPrefixScanResult where
  "zero_wireScanResult = \<lparr>wps_Version = 0, wps_RequestID = [], wps_Namespace = [], wps_Prefix = zero_wireBytes, wps_Limit = 0,
     wps_Cursor = zero_nullableString, wps_Revision = zero_nullableUint64, wps_ObservedRevision = zero_canonicalUint64,
     wps_SnapshotRevision = zero_canonicalUint64, wps_Position = zero_canonicalUint64, wps_Entries = None,
     wps_NextCursor = zero_nullableString, wps_NextCursorExpiresAtUnixMS = zero_nullableUint64, wps_ResponseSHA256 = []\<rparr>"

definition wireScanResult_decoder :: "wireConditionalPrefixScanResult decoder" where
  "wireScanResult_decoder = decode_struct [''version'', ''request_id'', ''namespace'', ''prefix'', ''limit'', ''cursor'', ''revision'',
       ''observed_revision'', ''snapshot_revision'', ''position'', ''entries'', ''next_cursor'', ''next_cursor_expires_at_unix_ms'',
       ''response_sha256'']
     (\<lambda>f. if f = ''version'' then field wps_Version wps_Version_update json_uint
          else if f = ''request_id'' then field wps_RequestID wps_RequestID_update json_string
          else if f = ''namespace'' then field wps_Namespace wps_Namespace_update json_string
          else if f = ''prefix'' then field wps_Prefix wps_Prefix_update wireBytes_UnmarshalJSON
          else if f = ''limit'' then field wps_Limit wps_Limit_update json_uint
          else if f = ''cursor'' then field wps_Cursor wps_Cursor_update wireNullableString_UnmarshalJSON
          else if f = ''revision'' then field wps_Revision wps_Revision_update nullableUint64_UnmarshalJSON
          else if f = ''observed_revision'' then field wps_ObservedRevision wps_ObservedRevision_update canonicalUint64_UnmarshalJSON
          else if f = ''snapshot_revision'' then field wps_SnapshotRevision wps_SnapshotRevision_update canonicalUint64_UnmarshalJSON
          else if f = ''position'' then field wps_Position wps_Position_update canonicalUint64_UnmarshalJSON
          else if f = ''entries'' then field wps_Entries wps_Entries_update (json_slice zero_wireScanEntry wireScanEntry_decoder)
          else if f = ''next_cursor'' then field wps_NextCursor wps_NextCursor_update wireNullableString_UnmarshalJSON
          else if f = ''next_cursor_expires_at_unix_ms''
          then field wps_NextCursorExpiresAtUnixMS wps_NextCursorExpiresAtUnixMS_update nullableUint64_UnmarshalJSON
          else field wps_ResponseSHA256 wps_ResponseSHA256_update json_string)"

definition sameNullableCursor :: "wireNullableString \<Rightarrow> ConditionalPrefixScanCursor option \<Rightarrow> bool" where
  "sameNullableCursor wire expected =
     (case expected of None \<Rightarrow> ns_Null wire | Some c \<Rightarrow> \<not> ns_Null wire \<and> ns_Value wire = cur_value c)"

definition conditionalPrefixScanCursorFromWire :: "wireNullableString \<Rightarrow> ConditionalPrefixScanCursor option" where
  "conditionalPrefixScanCursorFromWire value = (if ns_Null value then None else Some \<lparr>cur_value = ns_Value value\<rparr>)"

definition nullableRevisionFromWire :: "wireNullableCanonicalUint64 \<Rightarrow> uint64 option" where
  "nullableRevisionFromWire value = (if nu_Null value then None else Some (nu_Value value))"

definition addUint64 :: "uint64 \<Rightarrow> uint64 \<Rightarrow> uint64 \<times> bool" where
  "addUint64 left right = (let result = left + right in (result, result < left))"

text \<open>The digest of a page.\<close>

definition writePrefixScanOptionalString :: "wireNullableString \<Rightarrow> bytes" where
  "writePrefixScanOptionalString value = (if ns_Null value then [0] else 1 # writePointReadBytes (bytes_of (ns_Value value)))"

definition writePrefixScanOptionalUint64 :: "wireNullableCanonicalUint64 \<Rightarrow> bytes" where
  "writePrefixScanOptionalUint64 value = (if nu_Null value then [0] else 1 # writePointReadUint64 (nu_Value value))"

definition scan_entry_bytes :: "wireConditionalPrefixScanEntry \<Rightarrow> bytes" where
  "scan_entry_bytes entry = writePointReadUint64 (cu_Value (wpe_Index entry)) @ writePointReadBytes (wb_Value (wpe_Key entry))
     @ writePointReadBytes (wb_Value (wpe_Value entry))"

definition prefix_scan_message :: "wireConditionalPrefixScanResult \<Rightarrow> bytes" where
  "prefix_scan_message result =
     bytes_of ''TALON_CONDITIONAL_PREFIX_SCAN_RESULT_V1'' @ u16_be (wps_Version result)
     @ writePointReadBytes (bytes_of (wps_RequestID result)) @ writePointReadBytes (bytes_of (wps_Namespace result))
     @ writePointReadBytes (wb_Value (wps_Prefix result)) @ u16_be (wps_Limit result)
     @ writePrefixScanOptionalString (wps_Cursor result) @ writePrefixScanOptionalUint64 (wps_Revision result)
     @ writePointReadUint64 (cu_Value (wps_ObservedRevision result)) @ writePointReadUint64 (cu_Value (wps_SnapshotRevision result))
     @ writePointReadUint64 (cu_Value (wps_Position result))
     @ u32_be (of_nat (length (slice_items (wps_Entries result)))) @ concat (map scan_entry_bytes (slice_items (wps_Entries result)))
     @ writePrefixScanOptionalString (wps_NextCursor result) @ writePrefixScanOptionalUint64 (wps_NextCursorExpiresAtUnixMS result)"

definition conditionalPrefixScanResponseSHA :: "wireConditionalPrefixScanResult \<Rightarrow> string" where
  "conditionalPrefixScanResponseSHA result = sha256_hex (prefix_scan_message result)"

text \<open>
  The loop over the entries: their offset, the key before (nil at first; a key that was checked has the prefix, so it
  is not empty and its slice is not nil) and the value bytes so far.
\<close>

fun verify_scan_entries :: "ConditionalPrefixScanRequest \<Rightarrow> uint64 \<Rightarrow> nat \<Rightarrow> nullable_bytes \<Rightarrow> nat \<Rightarrow> wireConditionalPrefixScanEntry list
    \<Rightarrow> unit result" where
  "verify_scan_entries request position offset previousKey totalValueSize [] = Inr ()"
| "verify_scan_entries request position offset previousKey totalValueSize (entry # entries) =
     (let (expectedIndex, overflow) = addUint64 position (of_nat offset)
      in if overflow \<or> \<not> cu_Present (wpe_Index entry) \<or> cu_Value (wpe_Index entry) \<noteq> expectedIndex
            \<or> \<not> wb_Present (wpe_Key entry) \<or> wb_Null (wpe_Key entry) \<or> \<not> wb_Present (wpe_Value entry) \<or> wb_Null (wpe_Value entry)
            \<or> take (length (ps_prefix request)) (wb_Value (wpe_Key entry)) \<noteq> ps_prefix request
            \<or> (case previousKey of None \<Rightarrow> False | Some key \<Rightarrow> 0 \<le> compareBytes key (wb_Value (wpe_Key entry)))
            \<or> maxConditionalPrefixScanKeyBytes < length (wb_Value (wpe_Key entry))
            \<or> maxConditionalPrefixScanValueBytes < length (wb_Value (wpe_Value entry))
         then Inl (ErrorString (''response entry '' @ nat_str offset @ '' is invalid''))
         else if int maxConditionalPrefixScanTotalValueBytes - int (length (wb_Value (wpe_Value entry))) < int totalValueSize
         then Inl (ErrorString ''response values exceed the aggregate bound'')
         else verify_scan_entries request position (Suc offset) (Some (wb_Value (wpe_Key entry)))
                (totalValueSize + length (wb_Value (wpe_Value entry))) entries)"

definition scan_page_shape_wrong :: "wireConditionalPrefixScanResult \<Rightarrow> nat \<Rightarrow> ConditionalPrefixScanRequest \<Rightarrow> bool" where
  "scan_page_shape_wrong wire entries request \<longleftrightarrow>
     unat (ps_limit request) < entries \<or> ns_Null (wps_NextCursor wire) \<noteq> nu_Null (wps_NextCursorExpiresAtUnixMS wire)
     \<or> (\<not> nu_Null (wps_NextCursorExpiresAtUnixMS wire) \<and> nu_Value (wps_NextCursorExpiresAtUnixMS wire) = 0)
     \<or> (ps_cursor request = None \<and> cu_Value (wps_Position wire) \<noteq> 0)
     \<or> (ps_cursor request \<noteq> None \<and> (cu_Value (wps_Position wire) = 0 \<or> entries = 0))
     \<or> (\<not> ns_Null (wps_NextCursor wire) \<and> entries \<noteq> unat (ps_limit request))
     \<or> (\<not> ns_Null (wps_NextCursor wire)
          \<and> (case ps_cursor request of None \<Rightarrow> False | Some c \<Rightarrow> ns_Value (wps_NextCursor wire) = cur_value c))"

definition verifyConditionalPrefixScanWire :: "wireConditionalPrefixScanResult \<Rightarrow> ConditionalPrefixScanRequest \<Rightarrow> unit result" where
  "verifyConditionalPrefixScanWire wire request =
     (if wps_Version wire \<noteq> conditionalPrefixScanVersion \<or> wps_RequestID wire \<noteq> ps_requestID request
         \<or> wps_Namespace wire \<noteq> ps_namespace request \<or> \<not> wb_Present (wps_Prefix wire) \<or> wb_Null (wps_Prefix wire)
         \<or> wb_Value (wps_Prefix wire) \<noteq> ps_prefix request \<or> wps_Limit wire \<noteq> ps_limit request
         \<or> \<not> ns_Present (wps_Cursor wire) \<or> \<not> sameNullableCursor (wps_Cursor wire) (ps_cursor request)
         \<or> \<not> nu_Present (wps_Revision wire) \<or> \<not> sameNullableRevision (wps_Revision wire) (ps_requiredRevision request)
      then Inl (ErrorString ''response substituted request identity or scan binding'')
      else if \<not> cu_Present (wps_ObservedRevision wire) \<or> \<not> cu_Present (wps_SnapshotRevision wire) \<or> \<not> cu_Present (wps_Position wire)
              \<or> wps_Entries wire = None \<or> \<not> ns_Present (wps_NextCursor wire) \<or> \<not> nu_Present (wps_NextCursorExpiresAtUnixMS wire)
              \<or> \<not> sha_pattern (wps_ResponseSHA256 wire)
      then Inl (ErrorString ''required response fields are missing or invalid'')
      else if (case ps_requiredRevision request of None \<Rightarrow> False | Some r \<Rightarrow> cu_Value (wps_ObservedRevision wire) < r)
      then Inl (ErrorString ''observed revision predates the required revision'')
      else if scan_page_shape_wrong wire (length (slice_items (wps_Entries wire))) request
      then Inl (ErrorString ''response page shape is invalid'')
      else if \<not> ns_Null (wps_NextCursor wire) \<and> \<not> conditionalPrefixScanCursorPattern (ns_Value (wps_NextCursor wire))
      then Inl (ErrorString ''next cursor has an invalid v1 wire shape'')
      else case verify_scan_entries request (cu_Value (wps_Position wire)) 0 None 0 (slice_items (wps_Entries wire)) of
        Inl err \<Rightarrow> Inl err
      | Inr _ \<Rightarrow>
          if conditionalPrefixScanResponseSHA wire \<noteq> wps_ResponseSHA256 wire
          then Inl (ErrorString ''response SHA-256 mismatch'')
          else Inr ())"

definition scan_entry_from_wire :: "wireConditionalPrefixScanEntry \<Rightarrow> ConditionalPrefixScanEntry" where
  "scan_entry_from_wire entry =
     \<lparr>pe_Index = cu_Value (wpe_Index entry), pe_Key = wb_Value (wpe_Key entry), pe_Value = wb_Value (wpe_Value entry)\<rparr>"

definition conditionalPrefixScanResultFromWire :: "wireConditionalPrefixScanResult \<Rightarrow> ConditionalPrefixScanResult" where
  "conditionalPrefixScanResultFromWire wire =
     \<lparr>psr_Version = conditionalPrefixScanVersion, psr_RequestID = wps_RequestID wire, psr_Namespace = wps_Namespace wire,
      psr_Prefix = wb_Value (wps_Prefix wire), psr_Limit = wps_Limit wire, psr_Cursor = conditionalPrefixScanCursorFromWire (wps_Cursor wire),
      psr_RequiredRevision = nullableRevisionFromWire (wps_Revision wire), psr_ObservedRevision = cu_Value (wps_ObservedRevision wire),
      psr_SnapshotRevision = cu_Value (wps_SnapshotRevision wire), psr_Position = cu_Value (wps_Position wire),
      psr_Entries = map scan_entry_from_wire (slice_items (wps_Entries wire)),
      psr_NextCursor = conditionalPrefixScanCursorFromWire (wps_NextCursor wire),
      psr_NextCursorExpiresAtUnixMillis = nullableRevisionFromWire (wps_NextCursorExpiresAtUnixMS wire),
      psr_ResponseSHA256 = wps_ResponseSHA256 wire\<rparr>"

definition conditionalPrefixScanProtocolError :: "string \<Rightarrow> go_error \<Rightarrow> go_error" where
  "conditionalPrefixScanProtocolError operation cause =
     newError CodeProtocolViolation operation ''native conditional prefix-scan response violated its typed contract'' (Some cause)"

definition decodeConditionalPrefixScanResult :: "string \<Rightarrow> ConditionalPrefixScanRequest \<Rightarrow> ConditionalPrefixScanResult result" where
  "decodeConditionalPrefixScanResult data request =
     (case encodeConditionalPrefixScanRequest request of
        Inl err \<Rightarrow> Inl err
      | Inr _ \<Rightarrow>
          if maxConditionalPrefixScanResponseBytes - conditionalPrefixScanResponseHeadroom < length data
          then Inl (conditionalPrefixScanProtocolError ''decode conditional prefix scan''
                     (ErrorString ''response exceeds the Core v1 JSON wire bound''))
          else case decodeStrictJSON wireScanResult_decoder zero_wireScanResult data of
            Inl err \<Rightarrow> Inl (conditionalPrefixScanProtocolError ''decode conditional prefix scan'' err)
          | Inr wire \<Rightarrow>
              (case verifyConditionalPrefixScanWire wire request of
                 Inl err \<Rightarrow> Inl (conditionalPrefixScanProtocolError ''decode conditional prefix scan'' err)
               | Inr _ \<Rightarrow> Inr (conditionalPrefixScanResultFromWire wire)))"

definition equalUint64Pointers :: "uint64 option \<Rightarrow> uint64 option \<Rightarrow> bool" where
  "equalUint64Pointers left right = (case (left, right) of (Some a, Some b) \<Rightarrow> a = b | _ \<Rightarrow> left = None \<and> right = None)"

definition sameConditionalPrefixScanResultBinding :: "ConditionalPrefixScanResult \<Rightarrow> ConditionalPrefixScanRequest \<Rightarrow> bool" where
  "sameConditionalPrefixScanResultBinding result request =
     (if psr_Version result \<noteq> conditionalPrefixScanVersion \<or> psr_RequestID result \<noteq> ps_requestID request
         \<or> psr_Namespace result \<noteq> ps_namespace request \<or> psr_Prefix result \<noteq> ps_prefix request \<or> psr_Limit result \<noteq> ps_limit request
         \<or> \<not> equalUint64Pointers (psr_RequiredRevision result) (ps_requiredRevision request)
      then False
      else case (psr_Cursor result, ps_cursor request) of
        (Some a, Some b) \<Rightarrow> cur_value a = cur_value b
      | _ \<Rightarrow> psr_Cursor result = None \<and> ps_cursor request = None)"

text \<open>\<open>Continuation\<close>: the next request, or \<open>None\<close> where the Go code returns \<open>false\<close> with no error.\<close>

definition Continuation :: "ConditionalPrefixScanResult \<Rightarrow> ConditionalPrefixScanRequest \<Rightarrow> ConditionalPrefixScanRequest option result" where
  "Continuation result request =
     (if \<not> sameConditionalPrefixScanResultBinding result request
      then prefix_scan_invalid ''result does not belong to the supplied request''
      else case psr_NextCursor result of
        None \<Rightarrow> Inr None
      | Some cursor \<Rightarrow> (case Continue request cursor of Inl err \<Rightarrow> Inl err | Inr request' \<Rightarrow> Inr (Some request')))"

end
