(* ===== verification/NamespaceReadProofs.thy ===== *)
theory NamespaceReadProofs
  imports NamespaceReads RevisionLog
begin

text \<open>
  What an accepted read says. The response digest binds every field of the result, a response about the request
  is accepted and returns the stored value, and a snapshot result has one observation per requested key, in order.
\<close>

section \<open>Digests that bind a response\<close>

text \<open>An optional field of a hashed message: a flag byte and the value.\<close>

definition option_bytes :: "('a \<Rightarrow> bytes) \<Rightarrow> 'a option \<Rightarrow> bytes" where
  "option_bytes enc x = (case x of None \<Rightarrow> [0] | Some v \<Rightarrow> 1 # enc v)"

context prefix_free
begin

lemma enc_append_iff: "ok x \<Longrightarrow> ok y \<Longrightarrow> enc x @ r = enc y @ s \<longleftrightarrow> x = y \<and> r = s"
  using enc_split by blast

lemma option_append_iff:
  "pred_option ok x \<Longrightarrow> pred_option ok y \<Longrightarrow> option_bytes enc x @ r = option_bytes enc y @ s \<longleftrightarrow> x = y \<and> r = s"
  by (cases x; cases y) (auto simp: option_bytes_def dest: enc_split)

end

text \<open>A response whose message determines its content: equal digests mean equal contents or a collision.\<close>

locale bound_response =
  fixes message :: "'w \<Rightarrow> bytes"
    and content :: "'w \<Rightarrow> 'c"
    and ok :: "'w \<Rightarrow> bool"
  assumes message_inject: "ok x \<Longrightarrow> ok y \<Longrightarrow> message x = message y \<Longrightarrow> content x = content y"
begin

lemma digest_binds:
  "ok x \<Longrightarrow> ok y \<Longrightarrow> sha256_hex (message x) = sha256_hex (message y) \<Longrightarrow> content x = content y \<or> hash_collision (message x, message y)"
  using equal_or_collision [of "message x" "message y"] message_inject [of x y] unfolding sha256_hex_def hex_encode_inject by blast

end

interpretation u64b: prefix_free u64_be "\<lambda>_. True"
  by unfold_locales auto

definition wire_option :: "wireNullableCanonicalUint64 \<Rightarrow> uint64 option" where
  "wire_option w = (if nu_Null w then None else Some (nu_Value w))"

lemma digest_revision_option: "digest_revision w = option_bytes u64_be (wire_option w)"
  by (simp add: digest_revision_def wire_option_def option_bytes_def writePointReadUint64_def)

lemma digest_value_option: "digest_value w = option_bytes len_bytes_be (cloneNullableBytes w)"
  by (simp add: digest_value_def cloneNullableBytes_def option_bytes_def writePointReadBytes_def)

lemma same_revision_option: "sameNullableRevision w r \<longleftrightarrow> wire_option w = r"
  by (auto simp: sameNullableRevision_def wire_option_def split: option.split)

lemma revision_append_iff: "digest_revision v @ r = digest_revision w @ s \<longleftrightarrow> wire_option v = wire_option w \<and> r = s"
  unfolding digest_revision_option by (rule u64b.option_append_iff) (simp_all add: option.pred_True)

lemma value_append_iff:
  "pred_option fits_u32 (cloneNullableBytes v) \<Longrightarrow> pred_option fits_u32 (cloneNullableBytes w) \<Longrightarrow>
   digest_value v @ r = digest_value w @ s \<longleftrightarrow> cloneNullableBytes v = cloneNullableBytes w \<and> r = s"
  unfolding digest_value_option by (rule lp_be.option_append_iff)

lemmas digest_append_iffs = revision_append_iff value_append_iff lp_be.enc_append_iff writePointReadBytes_def writePointReadUint64_def

section \<open>Point reads\<close>

definition point_content :: "wireConditionalPointReadResult \<Rightarrow> uint16 \<times> string \<times> bytes \<times> uint64 option \<times> uint64 \<times> uint64 \<times> nullable_bytes" where
  "point_content w = (wpo_Version w, wpo_Namespace w, wb_Value (wpo_Key w), wire_option (wpo_Revision w),
     cu_Value (wpo_ObservedRevision w), cu_Value (wpo_SnapshotRevision w), cloneNullableBytes (wpo_Value w))"

definition point_fits :: "wireConditionalPointReadResult \<Rightarrow> bool" where
  "point_fits w \<longleftrightarrow> fits_u32 (bytes_of (wpo_Namespace w)) \<and> fits_u32 (wb_Value (wpo_Key w)) \<and> pred_option fits_u32 (cloneNullableBytes (wpo_Value w))"

interpretation pr: bound_response point_read_message point_content point_fits
proof
  fix x y
  assume "point_fits x" "point_fits y" and eq: "point_read_message x = point_read_message y"
  then show "point_content x = point_content y"
    using value_append_iff [of "wpo_Value x" "wpo_Value y" "[]" "[]"]
    by (simp add: point_read_message_def point_fits_def point_content_def digest_append_iffs)
qed

text \<open>The wire form of a result, as the server that read it writes it.\<close>

definition point_wire :: "ConditionalPointReadResult \<Rightarrow> wireConditionalPointReadResult" where
  "point_wire r = \<lparr>wpo_Version = prr_Version r, wpo_Namespace = prr_Namespace r, wpo_Key = presentWireBytes (prr_Key r),
     wpo_Revision = wire_revision (prr_RequiredRevision r), wpo_ObservedRevision = \<lparr>cu_Value = prr_ObservedRevision r, cu_Present = True\<rparr>,
     wpo_SnapshotRevision = \<lparr>cu_Value = prr_SnapshotRevision r, cu_Present = True\<rparr>, wpo_Value = nullableWireBytes (prr_Value r),
     wpo_ResponseSHA256 = prr_ResponseSHA256 r\<rparr>"

lemma wire_option_revision [simp]: "wire_option (wire_revision r) = r"
  by (cases r) (simp_all add: wire_option_def wire_revision_def)

lemma clone_wire [simp]: "cloneNullableBytes (nullableWireBytes v) = v" "wb_Value (presentWireBytes b) = b" "wb_Present (presentWireBytes b)"
  "\<not> wb_Null (presentWireBytes b)" "wb_Present (nullableWireBytes v)" "wb_Null (nullableWireBytes v) \<longleftrightarrow> v = None"
  by (cases v; simp add: cloneNullableBytes_def nullableWireBytes_def presentWireBytes_def)+

lemma point_message_content:
  "point_content x = point_content y \<Longrightarrow> point_read_message x = point_read_message y"
  by (simp add: point_read_message_def point_content_def digest_revision_option digest_value_option)

lemma namespace_length: "conditionalNamespacePattern s \<Longrightarrow> length s \<le> 64"
  by (simp add: conditionalNamespacePattern_def class_pattern_def)

lemma built_point_request:
  assumes "buildConditionalPointReadRequest q = Inr w"
  shows "conditionalNamespacePattern (pr_namespace q)" "pr_key q \<noteq> []" "length (pr_key q) \<le> maxConditionalKeyBytes" "pr_requiredRevision q \<noteq> Some 0"
  using assms by (auto simp: buildConditionalPointReadRequest_def NewConditionalPointReadRequest_def point_read_invalid_def split: if_splits sum.splits)

lemma accepted_point_read:
  assumes "decodeConditionalPointReadResult data q = Inr r"
  shows "prr_ResponseSHA256 r = sha256_hex (point_read_message (point_wire r)) \<and> point_fits (point_wire r)
    \<and> prr_Version r = conditionalPointReadVersion \<and> prr_Found r = (prr_Value r \<noteq> None)"
proof -
  obtain w wire where b: "buildConditionalPointReadRequest q = Inr w"
    and w: "wpo_Version wire = conditionalPointReadVersion" "wpo_Namespace wire = pr_namespace q" "wb_Value (wpo_Key wire) = pr_key q"
      "sameNullableRevision (wpo_Revision wire) (pr_requiredRevision q)" "conditionalPointReadResponseSHA wire = wpo_ResponseSHA256 wire"
      "wb_Null (wpo_Value wire) \<or> length (wb_Value (wpo_Value wire)) \<le> maxConditionalPointReadValueBytes"
    and r: "r = \<lparr>prr_Version = conditionalPointReadVersion, prr_Namespace = pr_namespace q, prr_Key = pr_key q,
                 prr_RequiredRevision = pr_requiredRevision q, prr_ObservedRevision = cu_Value (wpo_ObservedRevision wire),
                 prr_SnapshotRevision = cu_Value (wpo_SnapshotRevision wire), prr_Found = (\<not> wb_Null (wpo_Value wire)),
                 prr_Value = cloneNullableBytes (wpo_Value wire), prr_ResponseSHA256 = wpo_ResponseSHA256 wire\<rparr>"
    using assms by (auto simp: decodeConditionalPointReadResult_def not_less split: sum.splits if_splits)
  have c: "point_content wire = point_content (point_wire r)"
    using w(1-4) by (simp add: point_content_def point_wire_def r same_revision_option)
  have "pred_option fits_u32 (cloneNullableBytes (wpo_Value wire))"
    using w(6) by (auto simp: cloneNullableBytes_def fits_u32_def maxConditionalPointReadValueBytes_def)
  moreover have "fits_u32 (bytes_of (pr_namespace q))" "fits_u32 (pr_key q)"
    using namespace_length [OF built_point_request(1) [OF b]] built_point_request(3) [OF b] by (simp_all add: fits_u32_def maxConditionalKeyBytes_def)
  ultimately have "point_fits (point_wire r)" by (simp add: point_fits_def point_wire_def r)
  then show ?thesis
    using w(5) point_message_content [OF c] by (simp add: r conditionalPointReadResponseSHA_def cloneNullableBytes_def)
qed

text \<open>
  The response digest binds a point read. Two accepted results with the same \<open>ResponseSHA256\<close>, of whatever
  requests, are equal in every field: namespace, key, revision fence, observed and snapshot revision, presence and
  value; or the two messages that were hashed are a SHA-256 collision.
\<close>

theorem point_read_digest_binds:
  assumes "decodeConditionalPointReadResult data1 q1 = Inr r1" "decodeConditionalPointReadResult data2 q2 = Inr r2"
    "prr_ResponseSHA256 r1 = prr_ResponseSHA256 r2"
  shows "r1 = r2 \<or> hash_collision (point_read_message (point_wire r1), point_read_message (point_wire r2))"
proof -
  note a = accepted_point_read [OF assms(1)] accepted_point_read [OF assms(2)]
  have "point_content (point_wire r1) = point_content (point_wire r2)
      \<or> hash_collision (point_read_message (point_wire r1), point_read_message (point_wire r2))"
    using a assms(3) by (intro pr.digest_binds) simp_all
  then show ?thesis
    using a assms(3) by (cases r1; cases r2) (auto simp: point_content_def point_wire_def)
qed


section \<open>Responses of a server\<close>

text \<open>The strict scanner on values that are not nested too deep.\<close>

lemma visit_value:
  assumes "d \<le> 128"
  shows "visit d JNull = Inr ()" "visit d (JBool b) = Inr ()" "visit d (JNum t) = Inr ()" "visit d (JStr s) = Inr ()"
    "visit d (JArr js) = visit_elements d js" "visit d (JObj kvs) = visit_members d [] kvs"
  using assms by simp_all

lemma visit_wire:
  assumes "d < 128"
  shows "visit d (wireBytes_MarshalJSON w) = Inr ()" "visit d (canonicalUint64_MarshalJSON c) = Inr ()"
    "visit d (nullableUint64_MarshalJSON u) = Inr ()"
proof -
  have "visit_elements d (map (\<lambda>item. JNum (f item)) bs) = Inr ()" for f :: "byte \<Rightarrow> string" and bs
    using assms by (induction bs) simp_all
  then show "visit d (wireBytes_MarshalJSON w) = Inr ()"
    using assms visit_value [of d] by (simp add: wireBytes_MarshalJSON_def comp_def del: visit.simps)
qed (use assms visit_value [of d] in \<open>simp_all add: canonicalUint64_MarshalJSON_def nullableUint64_MarshalJSON_def del: visit.simps\<close>)

lemma nullable_roundtrip:
  "nullableUint64_UnmarshalJSON zero_nullableUint64 (nullableUint64_MarshalJSON (wire_revision r)) = Inr (wire_revision r)"
proof (cases r)
  case (Some v)
  have "canonicalUint64_UnmarshalJSON zero_canonicalUint64 (JStr (nat_str (unat v))) = Inr \<lparr>cu_Value = v, cu_Present = True\<rparr>"
    using canonicalUint64_roundtrip [of zero_canonicalUint64 "\<lparr>cu_Value = v, cu_Present = True\<rparr>"]
    by (simp add: canonicalUint64_MarshalJSON_def)
  then show ?thesis
    by (simp add: Some nullableUint64_UnmarshalJSON_def nullableUint64_MarshalJSON_def wire_revision_def zero_nullableUint64_def decodeStrictRaw_def)
qed (simp add: nullableUint64_UnmarshalJSON_def nullableUint64_MarshalJSON_def wire_revision_def zero_nullableUint64_def)

lemma nullable_bytes_roundtrip:
  "pred_option (\<lambda>v. length v \<le> maxNativeJSONResultBytes) v \<Longrightarrow>
   wireBytes_UnmarshalJSON zero_wireBytes (wireBytes_MarshalJSON (nullableWireBytes v)) = Inr (nullableWireBytes v)"
  using wireBytes_roundtrip by (cases v) (simp_all add: nullableWireBytes_def)

lemma json_uint_roundtrip: "json_uint old (JNum (nat_str (unat v))) = Inr v" for v :: "'w::len word"
  using unat_width [of v] by (simp add: json_uint_def parse_uint_nat_str)

lemma canonical_value: "canonicalUint64_UnmarshalJSON old (canonicalUint64_MarshalJSON \<lparr>cu_Value = v, cu_Present = True\<rparr>) = Inr \<lparr>cu_Value = v, cu_Present = True\<rparr>"
  by (simp add: canonicalUint64_roundtrip)

lemmas response_decoding = decode_struct_def find_field_def field_def json_string_def json_uint_roundtrip canonical_value nullable_roundtrip
  nullable_bytes_roundtrip wireBytes_roundtrip(1)

definition point_json :: "wireConditionalPointReadResult \<Rightarrow> json" where
  "point_json w = JObj [(''version'', JNum (nat_str (unat (wpo_Version w)))), (''namespace'', JStr (wpo_Namespace w)),
     (''key'', wireBytes_MarshalJSON (wpo_Key w)), (''revision'', nullableUint64_MarshalJSON (wpo_Revision w)),
     (''observed_revision'', canonicalUint64_MarshalJSON (wpo_ObservedRevision w)),
     (''snapshot_revision'', canonicalUint64_MarshalJSON (wpo_SnapshotRevision w)), (''value'', wireBytes_MarshalJSON (wpo_Value w)),
     (''response_sha256'', JStr (wpo_ResponseSHA256 w))]"

lemma point_json_decodes:
  assumes "length (prr_Key r) \<le> maxNativeJSONResultBytes" "pred_option (\<lambda>v. length v \<le> maxNativeJSONResultBytes) (prr_Value r)"
  shows "decodeStrictRaw wirePointReadResult_decoder zero_wirePointReadResult (point_json (point_wire r)) = Inr (point_wire r)"
proof -
  have "visit 0 (point_json (point_wire r)) = Inr ()" by (simp add: point_json_def visit_value visit_wire del: visit.simps)
  then show ?thesis
    using assms by (simp add: decodeStrictRaw_def point_json_def wirePointReadResult_decoder_def zero_wirePointReadResult_def point_wire_def response_decoding)
qed

text \<open>What a server that has read \<open>value\<close> at the two revisions answers.\<close>

definition point_answer :: "ConditionalPointReadRequest \<Rightarrow> uint64 \<Rightarrow> uint64 \<Rightarrow> nullable_bytes \<Rightarrow> ConditionalPointReadResult" where
  "point_answer q observed snapshot value =
     (let r = \<lparr>prr_Version = conditionalPointReadVersion, prr_Namespace = pr_namespace q, prr_Key = pr_key q,
        prr_RequiredRevision = pr_requiredRevision q, prr_ObservedRevision = observed, prr_SnapshotRevision = snapshot,
        prr_Found = (value \<noteq> None), prr_Value = value, prr_ResponseSHA256 = []\<rparr>
      in r\<lparr>prr_ResponseSHA256 := sha256_hex (point_read_message (point_wire r))\<rparr>)"

definition fence_kept :: "uint64 option \<Rightarrow> uint64 \<Rightarrow> bool" where
  "fence_kept required observed \<longleftrightarrow> (case required of None \<Rightarrow> True | Some r \<Rightarrow> r \<le> observed)"

lemma point_answer_decoded:
  assumes "buildConditionalPointReadRequest q = Inr w" "pred_option (\<lambda>v. length v \<le> maxNativeJSONResultBytes) value"
  shows "decodeConditionalPointReadResult (point_json (point_wire (point_answer q observed snapshot value))) q =
    (if \<not> fence_kept (pr_requiredRevision q) observed then point_read_failure ''observed revision predates the required revision''
     else if \<not> pred_option (\<lambda>v. length v \<le> maxConditionalPointReadValueBytes) value then point_read_failure ''value exceeds the point-read bound''
     else Inr (point_answer q observed snapshot value))"
proof -
  let ?r = "point_answer q observed snapshot value"
  have k: "length (prr_Key ?r) \<le> maxNativeJSONResultBytes"
    using built_point_request(3) [OF assms(1)] by (simp add: point_answer_def Let_def maxConditionalKeyBytes_def maxNativeJSONResultBytes_def)
  have d: "decodeStrictRaw wirePointReadResult_decoder zero_wirePointReadResult (point_json (point_wire ?r)) = Inr (point_wire ?r)"
    using assms(2) by (intro point_json_decodes k) (simp add: point_answer_def Let_def)
  have sha: "conditionalPointReadResponseSHA (point_wire ?r) = wpo_ResponseSHA256 (point_wire ?r)"
    by (simp add: conditionalPointReadResponseSHA_def point_answer_def Let_def point_wire_def point_read_message_def)
  have hex: "sha_pattern (wpo_ResponseSHA256 (point_wire ?r))" by (simp add: point_answer_def Let_def point_wire_def)
  have fields: "wpo_Version (point_wire ?r) = conditionalPointReadVersion" "wpo_Namespace (point_wire ?r) = pr_namespace q"
    "wpo_Key (point_wire ?r) = presentWireBytes (pr_key q)" "wpo_Revision (point_wire ?r) = wire_revision (pr_requiredRevision q)"
    "wpo_ObservedRevision (point_wire ?r) = \<lparr>cu_Value = observed, cu_Present = True\<rparr>"
    "wpo_SnapshotRevision (point_wire ?r) = \<lparr>cu_Value = snapshot, cu_Present = True\<rparr>" "wpo_Value (point_wire ?r) = nullableWireBytes value"
    by (simp_all add: point_answer_def Let_def point_wire_def)
  have "nu_Present (wire_revision (pr_requiredRevision q))" by (simp add: wire_revision_def)
  then show ?thesis
    unfolding decodeConditionalPointReadResult_def assms(1) d sum.case sha
    using hex unfolding fields
    by (cases "value"; cases "pr_requiredRevision q")
      (auto simp: same_revision_option fence_kept_def nullableWireBytes_def presentWireBytes_def not_less not_le point_answer_def Let_def
        cloneNullableBytes_def point_wire_def)
qed

text \<open>
  C33: a point read returns what the server read. For every valid request and every value a message can carry, the
  server's answer decodes to exactly that observation when it satisfies the revision fence and the value is within
  the bound, and to a protocol error otherwise; an absent key and an empty value stay different.
\<close>

theorem point_read_returns_value:
  assumes "buildConditionalPointReadRequest q = Inr w" "pred_option (\<lambda>v. length v \<le> maxNativeJSONResultBytes) value"
  shows "decodeConditionalPointReadResult (point_json (point_wire (point_answer q observed snapshot value))) q =
    (if \<not> fence_kept (pr_requiredRevision q) observed then point_read_failure ''observed revision predates the required revision''
     else if \<not> pred_option (\<lambda>v. length v \<le> maxConditionalPointReadValueBytes) value then point_read_failure ''value exceeds the point-read bound''
     else Inr (point_answer q observed snapshot value))"
  using point_answer_decoded [OF assms] .

definition demo_point_request :: ConditionalPointReadRequest where
  "demo_point_request = \<lparr>pr_namespace = ''ns'', pr_key = [1, 2], pr_requiredRevision = Some 4\<rparr>"

lemma demo_point_built: "\<exists>w. buildConditionalPointReadRequest demo_point_request = Inr w"
  by (simp add: demo_point_request_def buildConditionalPointReadRequest_def NewConditionalPointReadRequest_def
      conditionalNamespacePattern_def class_pattern_def namespace_char_def is_lower_def is_upper_def is_digit_def maxConditionalKeyBytes_def)

theorem point_read_returns_value_witness:
  "decodeConditionalPointReadResult (point_json (point_wire (point_answer demo_point_request 5 9 (Some [])))) demo_point_request
     = Inr (point_answer demo_point_request 5 9 (Some []))
   \<and> decodeConditionalPointReadResult (point_json (point_wire (point_answer demo_point_request 3 9 None))) demo_point_request
     = point_read_failure ''observed revision predates the required revision''"
proof -
  obtain w where w: "buildConditionalPointReadRequest demo_point_request = Inr w" using demo_point_built by blast
  show ?thesis
    using point_read_returns_value [OF w, of "Some []" 5 9] point_read_returns_value [OF w, of None 3 9]
    by (simp add: demo_point_request_def fence_kept_def)
qed

theorem point_read_digest_binds_witness:
  "\<exists>data r1 r2. decodeConditionalPointReadResult data demo_point_request = Inr r1 \<and> decodeConditionalPointReadResult data demo_point_request = Inr r2
     \<and> (r1 = r2 \<or> hash_collision (point_read_message (point_wire r1), point_read_message (point_wire r2)))"
proof -
  obtain w where w: "buildConditionalPointReadRequest demo_point_request = Inr w" using demo_point_built by blast
  have d: "decodeConditionalPointReadResult (point_json (point_wire (point_answer demo_point_request 5 9 None))) demo_point_request
      = Inr (point_answer demo_point_request 5 9 None)"
    using point_answer_decoded [OF w, of None 5 9] by (simp add: demo_point_request_def fence_kept_def)
  show ?thesis using point_read_digest_binds [OF d d refl] d by blast
qed

end
