(* ===== verification/SnapshotReadProofs.thy ===== *)
theory SnapshotReadProofs
  imports NamespaceReadProofs
begin

text \<open>
  Snapshot reads: an accepted result observes exactly the requested keys, its digest binds it, and the answer of a
  server that holds a store is accepted with the values of the store.
\<close>

section \<open>The digest\<close>

definition obs_enc :: "uint32 \<times> bytes \<times> nullable_bytes \<Rightarrow> bytes" where
  "obs_enc = (\<lambda>(i, key, v). u32_be i @ len_bytes_be key @ option_bytes len_bytes_be v)"

definition obs_fits :: "uint32 \<times> bytes \<times> nullable_bytes \<Rightarrow> bool" where
  "obs_fits = (\<lambda>(i, key, v). fits_u32 key \<and> pred_option fits_u32 v)"

interpretation ob: prefix_free obs_enc obs_fits
  by unfold_locales (auto simp: obs_enc_def obs_fits_def lp_be.enc_append_iff lp_be.option_append_iff)

definition obs_content :: "wireConditionalSnapshotReadObservation \<Rightarrow> uint32 \<times> bytes \<times> nullable_bytes" where
  "obs_content w = (ucast (wso_Index w), wb_Value (wso_Key w), cloneNullableBytes (wso_Value w))"

lemma observation_bytes_enc: "observation_bytes = (\<lambda>w. obs_enc (obs_content w))"
  by (rule ext) (simp add: observation_bytes_def obs_enc_def obs_content_def digest_value_option writePointReadBytes_def)

definition snapshot_content :: "wireConditionalSnapshotReadResult
    \<Rightarrow> uint16 \<times> string \<times> uint64 option \<times> uint64 \<times> uint64 \<times> (uint32 \<times> bytes \<times> nullable_bytes) list" where
  "snapshot_content w = (wsr_Version w, wsr_Namespace w, wire_option (wsr_Revision w), cu_Value (wsr_ObservedRevision w),
     cu_Value (wsr_SnapshotRevision w), map obs_content (slice_items (wsr_Observations w)))"

definition snapshot_fits :: "wireConditionalSnapshotReadResult \<Rightarrow> bool" where
  "snapshot_fits w \<longleftrightarrow> conditionalSnapshotReadDigestDomain (wsr_Version w) \<noteq> None \<and> fits_u32 (bytes_of (wsr_Namespace w))
     \<and> length (slice_items (wsr_Observations w)) < 2 ^ 32 \<and> list_all obs_fits (map obs_content (slice_items (wsr_Observations w)))"

definition snapshot_message :: "wireConditionalSnapshotReadResult \<Rightarrow> bytes" where
  "snapshot_message w = snapshot_read_message (the (conditionalSnapshotReadDigestDomain (wsr_Version w))) w"

lemma snapshot_message_enc:
  "snapshot_message w = bytes_of (the (conditionalSnapshotReadDigestDomain (wsr_Version w))) @ u16_be (wsr_Version w)
     @ len_bytes_be (bytes_of (wsr_Namespace w)) @ digest_revision (wsr_Revision w) @ u64_be (cu_Value (wsr_ObservedRevision w))
     @ u64_be (cu_Value (wsr_SnapshotRevision w)) @ u32_be (of_nat (length (map obs_content (slice_items (wsr_Observations w)))))
     @ concat (map obs_enc (map obs_content (slice_items (wsr_Observations w)))) @ []"
  by (simp add: snapshot_message_def snapshot_read_message_def writePointReadBytes_def writePointReadUint64_def observation_bytes_enc comp_def)

lemma snapshot_domain_length:
  "conditionalSnapshotReadDigestDomain v = Some d \<Longrightarrow> length d = 41"
  by (auto simp: conditionalSnapshotReadDigestDomain_def split: if_splits)

interpretation sn: bound_response snapshot_message snapshot_content snapshot_fits
proof
  fix x y
  assume ok: "snapshot_fits x" "snapshot_fits y" and eq: "snapshot_message x = snapshot_message y"
  let ?o = "\<lambda>w. map obs_content (slice_items (wsr_Observations w))"
  have "length (bytes_of (the (conditionalSnapshotReadDigestDomain (wsr_Version x)))) = length (bytes_of (the (conditionalSnapshotReadDigestDomain (wsr_Version y))))"
    using ok snapshot_domain_length by (auto simp: snapshot_fits_def)
  then have h: "wsr_Version x = wsr_Version y" "wsr_Namespace x = wsr_Namespace y" "wire_option (wsr_Revision x) = wire_option (wsr_Revision y)"
    "cu_Value (wsr_ObservedRevision x) = cu_Value (wsr_ObservedRevision y)" "cu_Value (wsr_SnapshotRevision x) = cu_Value (wsr_SnapshotRevision y)"
    "(of_nat (length (?o x)) :: uint32) = of_nat (length (?o y))" "concat (map obs_enc (?o x)) @ [] = concat (map obs_enc (?o y)) @ []"
    using eq ok by (simp_all add: snapshot_message_enc snapshot_fits_def digest_append_iffs append_eq_split)
  have "length (?o x) = length (?o y)" using h(6) ok by (simp add: snapshot_fits_def of_nat_u32_inject)
  then have "?o x = ?o y" using ob.concat_split [OF _ _ _ h(7)] ok by (simp add: snapshot_fits_def)
  then show "snapshot_content x = snapshot_content y" using h by (simp add: snapshot_content_def)
qed

section \<open>Accepted results\<close>

definition observation_wire :: "ConditionalSnapshotReadObservation \<Rightarrow> wireConditionalSnapshotReadObservation" where
  "observation_wire s = \<lparr>wso_Index = so_Index s, wso_Key = presentWireBytes (so_Key s), wso_Value = nullableWireBytes (so_Value s)\<rparr>"

definition snapshot_wire :: "ConditionalSnapshotReadResult \<Rightarrow> wireConditionalSnapshotReadResult" where
  "snapshot_wire r = \<lparr>wsr_Version = srr_Version r, wsr_Namespace = srr_Namespace r, wsr_Revision = wire_revision (srr_RequiredRevision r),
     wsr_ObservedRevision = \<lparr>cu_Value = srr_ObservedRevision r, cu_Present = True\<rparr>,
     wsr_SnapshotRevision = \<lparr>cu_Value = srr_SnapshotRevision r, cu_Present = True\<rparr>,
     wsr_Observations = Some (map observation_wire (srr_Observations r)), wsr_ResponseSHA256 = srr_ResponseSHA256 r\<rparr>"

text \<open>One observation per key, in order, numbered from a start.\<close>

definition observe :: "nat \<Rightarrow> (bytes \<times> nullable_bytes) list \<Rightarrow> ConditionalSnapshotReadObservation list" where
  "observe start kvs = map (\<lambda>(i, key, v). \<lparr>so_Index = of_nat i, so_Key = key, so_Found = (v \<noteq> None), so_Value = v\<rparr>) (enumerate start kvs)"

definition value_size :: "nullable_bytes \<Rightarrow> nat" where
  "value_size v = (case v of None \<Rightarrow> 0 | Some b \<Rightarrow> length b)"

lemma clone_absent: "wb_Null w \<Longrightarrow> cloneNullableBytes w = None" "\<not> wb_Null w \<Longrightarrow> cloneNullableBytes w = Some (wb_Value w)"
  by (simp_all add: cloneNullableBytes_def)

lemma decoded_observations:
  assumes "decode_snapshot_observations index seen sofar keys ws = Inr obs" "length ws = length keys" "sofar \<le> maxConditionalSnapshotTotalValueBytes"
  shows "obs = observe index (zip keys (map (\<lambda>w. cloneNullableBytes (wso_Value w)) ws))
    \<and> map (\<lambda>w. wb_Value (wso_Key w)) ws = keys \<and> map wso_Index ws = map of_nat [index..<index + length ws]
    \<and> list_all (\<lambda>w. value_size (cloneNullableBytes (wso_Value w)) \<le> maxConditionalSnapshotValueBytes) ws
    \<and> sofar + sum_list (map (\<lambda>w. value_size (cloneNullableBytes (wso_Value w))) ws) \<le> maxConditionalSnapshotTotalValueBytes"
  using assms
proof (induction ws arbitrary: index seen sofar keys obs)
  case (Cons w ws)
  then obtain key keys' where keys: "keys = key # keys'" "length ws = length keys'" by (cases keys) auto
  let ?n = "value_size (cloneNullableBytes (wso_Value w))"
  from Cons.prems(1) obtain rest where
    w: "wso_Index w = of_nat index" "wb_Value (wso_Key w) = key" "?n \<le> maxConditionalSnapshotValueBytes" "sofar + ?n \<le> maxConditionalSnapshotTotalValueBytes"
    and rest: "decode_snapshot_observations (Suc index) (wb_Value (wso_Key w) # seen) (sofar + ?n) keys' ws = Inr rest"
    and obs: "obs = \<lparr>so_Index = of_nat index, so_Key = key, so_Found = (\<not> wb_Null (wso_Value w)), so_Value = cloneNullableBytes (wso_Value w)\<rparr> # rest"
    using Cons.prems(3) by (auto simp: keys value_size_def cloneNullableBytes_def not_less split: if_splits sum.splits)
  show ?case
    using Cons.IH [OF rest keys(2) w(4)] w by (simp add: keys obs observe_def cloneNullableBytes_def upt_conv_Cons del: upt_Suc)
qed (simp add: observe_def)

lemma checked_keys:
  "check_snapshot_keys index seen keys = Inr () \<longleftrightarrow>
   list_all (\<lambda>k. k \<noteq> [] \<and> length k \<le> maxConditionalKeyBytes) keys \<and> distinct keys \<and> set keys \<inter> set seen = {}"
  by (induction keys arbitrary: index seen) (auto simp: snapshot_read_invalid_def not_less)

lemma built_snapshot_request:
  assumes "buildConditionalSnapshotReadRequest q = Inr w"
  shows "conditionalNamespacePattern (sr_namespace q)" "conditionalSnapshotReadDigestDomain (sr_version q) \<noteq> None" "length (sr_keys q) \<le> 1024"
    "list_all (\<lambda>k. k \<noteq> [] \<and> length k \<le> maxConditionalKeyBytes) (sr_keys q)" "distinct (sr_keys q)"
proof -
  from assms obtain n where v: "conditionalNamespacePattern (sr_namespace q)" "conditionalSnapshotReadMaxKeys (sr_version q) = Some n"
    "length (sr_keys q) \<le> n" "check_snapshot_keys 0 [] (sr_keys q) = Inr ()"
    by (auto simp: buildConditionalSnapshotReadRequest_def newConditionalSnapshotReadRequest_def snapshot_read_invalid_def not_less
        split: sum.splits if_splits option.splits)
  then show "conditionalNamespacePattern (sr_namespace q)" "conditionalSnapshotReadDigestDomain (sr_version q) \<noteq> None" "length (sr_keys q) \<le> 1024"
    "list_all (\<lambda>k. k \<noteq> [] \<and> length k \<le> maxConditionalKeyBytes) (sr_keys q)" "distinct (sr_keys q)"
    by (auto simp: checked_keys conditionalSnapshotReadMaxKeys_def conditionalSnapshotReadDigestDomain_def maxConditionalSnapshotReadKeysV1_def
        maxConditionalSnapshotReadKeysV2_def split: if_splits)
qed

text \<open>What every accepted result says about its request.\<close>

definition snapshot_evidence :: "ConditionalSnapshotReadRequest \<Rightarrow> ConditionalSnapshotReadResult \<Rightarrow> bool" where
  "snapshot_evidence q r \<longleftrightarrow>
     srr_Version r = sr_version q \<and> srr_Namespace r = sr_namespace q \<and> srr_RequiredRevision r = sr_requiredRevision q
     \<and> fence_kept (sr_requiredRevision q) (srr_ObservedRevision r)
     \<and> (\<exists>vals. length vals = length (sr_keys q) \<and> srr_Observations r = observe 0 (zip (sr_keys q) vals)
          \<and> list_all (\<lambda>v. value_size v \<le> maxConditionalSnapshotValueBytes) vals
          \<and> sum_list (map value_size vals) \<le> maxConditionalSnapshotTotalValueBytes)
     \<and> srr_ResponseSHA256 r = sha256_hex (snapshot_message (snapshot_wire r))"

lemma snapshot_message_content: "snapshot_content x = snapshot_content y \<Longrightarrow> snapshot_message x = snapshot_message y"
  unfolding snapshot_message_enc digest_revision_option by (simp add: snapshot_content_def)

lemma ucast_index: "ucast (of_nat i :: uint64) = (of_nat i :: uint32)"
  by transfer (simp add: take_bit_take_bit)

lemma observe_content:
  "map obs_content (map observation_wire (observe start kvs)) = map (\<lambda>(i, kv). (of_nat i, kv)) (enumerate start kvs)"
  by (simp add: observe_def obs_content_def observation_wire_def ucast_index case_prod_beta comp_def)

lemma accepted_snapshot_read:
  assumes "decodeConditionalSnapshotReadResult data q = Inr r"
  shows "snapshot_evidence q r \<and> snapshot_fits (snapshot_wire r)"
proof -
  obtain w wire obs where b: "buildConditionalSnapshotReadRequest q = Inr w"
    and w: "wsr_Version wire = sr_version q" "wsr_Namespace wire = sr_namespace q" "sameNullableRevision (wsr_Revision wire) (sr_requiredRevision q)"
      "length (slice_items (wsr_Observations wire)) = length (sr_keys q)" "conditionalSnapshotReadResponseSHA wire = wsr_ResponseSHA256 wire"
      "fence_kept (sr_requiredRevision q) (cu_Value (wsr_ObservedRevision wire))"
    and obs: "decode_snapshot_observations 0 [] 0 (sr_keys q) (slice_items (wsr_Observations wire)) = Inr obs"
    and r: "r = \<lparr>srr_Version = sr_version q, srr_Namespace = sr_namespace q,
                     srr_RequiredRevision = sr_requiredRevision q, srr_ObservedRevision = cu_Value (wsr_ObservedRevision wire),
                     srr_SnapshotRevision = cu_Value (wsr_SnapshotRevision wire), srr_Observations = obs,
                     srr_ResponseSHA256 = wsr_ResponseSHA256 wire\<rparr>"
    using assms by (auto simp: decodeConditionalSnapshotReadResult_def fence_kept_def not_less split: sum.splits if_splits option.splits)
  let ?ws = "slice_items (wsr_Observations wire)" let ?vals = "map (\<lambda>w. cloneNullableBytes (wso_Value w)) ?ws"
  note d = decoded_observations [OF obs w(4)]
  note k = built_snapshot_request [OF b]
  have o: "obs = observe 0 (zip (sr_keys q) ?vals)" "map (\<lambda>w. wb_Value (wso_Key w)) ?ws = sr_keys q"
    "map wso_Index ?ws = map of_nat [0..<length ?ws]" using d by simp_all
  have wsc: "map obs_content ?ws = map (\<lambda>(i, kv). (of_nat i, kv)) (enumerate 0 (zip (sr_keys q) ?vals))"
  proof (rule nth_equalityI)
    fix i assume i: "i < length (map obs_content ?ws)"
    have "wb_Value (wso_Key (?ws ! i)) = sr_keys q ! i" "wso_Index (?ws ! i) = of_nat i"
      using arg_cong [OF o(2), of "\<lambda>xs. xs ! i"] arg_cong [OF o(3), of "\<lambda>xs. xs ! i"] i by simp_all
    then show "map obs_content ?ws ! i = map (\<lambda>(i, kv). (of_nat i, kv)) (enumerate 0 (zip (sr_keys q) ?vals)) ! i"
      using i w(4) by (simp add: obs_content_def nth_enumerate_eq ucast_index)
  qed (use w(4) in simp)
  have c: "snapshot_content wire = snapshot_content (snapshot_wire r)"
    using w(1-3) observe_content [of 0 "zip (sr_keys q) ?vals"] wsc
    by (simp add: snapshot_content_def snapshot_wire_def r o(1) same_revision_option)
  obtain dom where dom: "conditionalSnapshotReadDigestDomain (sr_version q) = Some dom" using k(2) by auto
  have "wsr_ResponseSHA256 wire = sha256_hex (snapshot_message wire)"
    using w(1,5) dom by (simp add: conditionalSnapshotReadResponseSHA_def snapshot_message_def)
  then have sha: "wsr_ResponseSHA256 wire = sha256_hex (snapshot_message (snapshot_wire r))" using snapshot_message_content [OF c] by simp
  have "list_all obs_fits (map obs_content ?ws)"
  proof -
    have "fits_u32 (wb_Value (wso_Key x)) \<and> pred_option fits_u32 (cloneNullableBytes (wso_Value x))" if x: "x \<in> set ?ws" for x
    proof -
      have "wb_Value (wso_Key x) \<in> set (sr_keys q)" using o(2) x by (metis (no_types) imageI image_set)
      then have "length (wb_Value (wso_Key x)) \<le> maxConditionalKeyBytes" using k(4) by (simp add: list_all_iff)
      moreover have "value_size (cloneNullableBytes (wso_Value x)) \<le> maxConditionalSnapshotValueBytes" using d x by (simp add: list_all_iff)
      ultimately show ?thesis
        by (cases "cloneNullableBytes (wso_Value x)") (simp_all add: fits_u32_def value_size_def maxConditionalKeyBytes_def maxConditionalSnapshotValueBytes_def)
    qed
    then show ?thesis by (simp add: list_all_iff obs_fits_def obs_content_def)
  qed
  moreover have "length obs = length (sr_keys q)" using o(1) w(4) by (simp add: observe_def)
  ultimately have "snapshot_fits (snapshot_wire r)"
    using k namespace_length [OF k(1)] arg_cong [OF c, of "\<lambda>t. snd (snd (snd (snd (snd t))))"]
    by (simp add: snapshot_fits_def snapshot_content_def fits_u32_def) (simp add: snapshot_wire_def r)
  moreover have "list_all (\<lambda>v. value_size v \<le> maxConditionalSnapshotValueBytes) ?vals \<and> sum_list (map value_size ?vals) \<le> maxConditionalSnapshotTotalValueBytes"
    using d by (simp add: list.pred_map comp_def)
  moreover have fields: "srr_Version r = sr_version q" "srr_Namespace r = sr_namespace q" "srr_RequiredRevision r = sr_requiredRevision q"
    "srr_ObservedRevision r = cu_Value (wsr_ObservedRevision wire)" "srr_Observations r = observe 0 (zip (sr_keys q) ?vals)"
    "srr_ResponseSHA256 r = wsr_ResponseSHA256 wire" by (simp_all add: r o(1))
  moreover have "length ?vals = length (sr_keys q)" using w(4) by simp
  ultimately show ?thesis using w(6) sha unfolding snapshot_evidence_def by metis
qed


lemma observe_inject:
  assumes "length vals = length keys" "length vals' = length keys'" "map (\<lambda>(i, kv). (of_nat i :: uint32, kv)) (enumerate 0 (zip keys vals))
    = map (\<lambda>(i, kv). (of_nat i, kv)) (enumerate 0 (zip keys' vals'))"
  shows "observe 0 (zip keys vals) = observe 0 (zip keys' vals')"
proof -
  have "map snd (map (\<lambda>(i, kv). (of_nat i :: uint32, kv)) (enumerate 0 (zip keys vals)))
      = map snd (map (\<lambda>(i, kv). (of_nat i :: uint32, kv)) (enumerate 0 (zip keys' vals')))" using assms(3) by simp
  then have "zip keys vals = zip keys' vals'" by (simp add: comp_def case_prod_beta flip: enumerate_eq_zip)
  then show ?thesis by simp
qed

text \<open>
  C31: a snapshot result is evidence about its request, bound by its digest. An accepted result repeats version,
  namespace and fence, was observed at or after the required revision, and has one observation per requested key in
  the requested order, each value and their sum within the bounds; and two accepted results with the same
  \<open>ResponseSHA256\<close> are equal, or the two messages that were hashed are a SHA-256 collision.
\<close>

theorem snapshot_read_is_evidence:
  assumes "decodeConditionalSnapshotReadResult data1 q1 = Inr r1" "decodeConditionalSnapshotReadResult data2 q2 = Inr r2"
  shows "snapshot_evidence q1 r1 \<and> (srr_ResponseSHA256 r1 \<noteq> srr_ResponseSHA256 r2 \<or> r1 = r2
    \<or> hash_collision (snapshot_message (snapshot_wire r1), snapshot_message (snapshot_wire r2)))"
proof -
  note a = accepted_snapshot_read [OF assms(1)] accepted_snapshot_read [OF assms(2)]
  have "r1 = r2" if sha: "srr_ResponseSHA256 r1 = srr_ResponseSHA256 r2"
    and none: "\<not> hash_collision (snapshot_message (snapshot_wire r1), snapshot_message (snapshot_wire r2))"
  proof -
    have "srr_ResponseSHA256 r1 = sha256_hex (snapshot_message (snapshot_wire r1))"
      "srr_ResponseSHA256 r2 = sha256_hex (snapshot_message (snapshot_wire r2))"
      using a by (simp_all add: snapshot_evidence_def)
    then have c: "snapshot_content (snapshot_wire r1) = snapshot_content (snapshot_wire r2)"
      using a sha none sn.digest_binds [of "snapshot_wire r1" "snapshot_wire r2"] by auto
    obtain v1 v2 where v: "length v1 = length (sr_keys q1)" "srr_Observations r1 = observe 0 (zip (sr_keys q1) v1)"
      "length v2 = length (sr_keys q2)" "srr_Observations r2 = observe 0 (zip (sr_keys q2) v2)"
      using a unfolding snapshot_evidence_def by metis
    have "map obs_content (map observation_wire (srr_Observations r1)) = map obs_content (map observation_wire (srr_Observations r2))"
      using c by (simp add: snapshot_content_def snapshot_wire_def)
    then have "srr_Observations r1 = srr_Observations r2"
      unfolding v(2,4) observe_content by (rule observe_inject [OF v(1,3)])
    then show "r1 = r2"
      using c sha by (cases r1; cases r2) (simp add: snapshot_content_def snapshot_wire_def)
  qed
  then show ?thesis using a by blast
qed

section \<open>The answer of a server\<close>

definition snapshot_answer :: "ConditionalSnapshotReadRequest \<Rightarrow> uint64 \<Rightarrow> uint64 \<Rightarrow> (bytes \<Rightarrow> nullable_bytes) \<Rightarrow> ConditionalSnapshotReadResult" where
  "snapshot_answer q observed snapshot store =
     (let r = \<lparr>srr_Version = sr_version q, srr_Namespace = sr_namespace q, srr_RequiredRevision = sr_requiredRevision q,
        srr_ObservedRevision = observed, srr_SnapshotRevision = snapshot,
        srr_Observations = observe 0 (map (\<lambda>k. (k, store k)) (sr_keys q)), srr_ResponseSHA256 = []\<rparr>
      in r\<lparr>srr_ResponseSHA256 := sha256_hex (snapshot_message (snapshot_wire r))\<rparr>)"

definition observation_json :: "wireConditionalSnapshotReadObservation \<Rightarrow> json" where
  "observation_json w = JObj [(''index'', JNum (nat_str (unat (wso_Index w)))), (''key'', wireBytes_MarshalJSON (wso_Key w)),
     (''value'', wireBytes_MarshalJSON (wso_Value w))]"

definition snapshot_json :: "wireConditionalSnapshotReadResult \<Rightarrow> json" where
  "snapshot_json w = JObj [(''version'', JNum (nat_str (unat (wsr_Version w)))), (''namespace'', JStr (wsr_Namespace w)),
     (''revision'', nullableUint64_MarshalJSON (wsr_Revision w)), (''observed_revision'', canonicalUint64_MarshalJSON (wsr_ObservedRevision w)),
     (''snapshot_revision'', canonicalUint64_MarshalJSON (wsr_SnapshotRevision w)),
     (''observations'', JArr (map observation_json (slice_items (wsr_Observations w)))), (''response_sha256'', JStr (wsr_ResponseSHA256 w))]"

definition message_sized :: "ConditionalSnapshotReadObservation \<Rightarrow> bool" where
  "message_sized s \<longleftrightarrow> length (so_Key s) \<le> maxNativeJSONResultBytes \<and> pred_option (\<lambda>v. length v \<le> maxNativeJSONResultBytes) (so_Value s)"

lemma observation_decodes:
  "message_sized s \<Longrightarrow> wireSnapshotObservation_decoder zero_wireSnapshotObservation (observation_json (observation_wire s)) = Inr (observation_wire s)"
  by (simp add: message_sized_def observation_json_def observation_wire_def wireSnapshotObservation_decoder_def zero_wireSnapshotObservation_def response_decoding)

lemma observations_decode:
  "list_all message_sized obs \<Longrightarrow> decode_elements zero_wireSnapshotObservation wireSnapshotObservation_decoder []
     (map (observation_json \<circ> observation_wire) obs) = Inr (map observation_wire obs)"
  by (induction obs) (simp_all add: observation_decodes)

lemma visit_observation: "visit 2 (observation_json w) = Inr ()"
  by (simp add: observation_json_def visit_value visit_wire del: visit.simps)

lemma visit_observations: "visit (Suc 0) (JArr (map observation_json ws)) = Inr ()"
proof -
  have "visit_elements (Suc 0) (map observation_json ws) = Inr ()"
    by (induction ws) (simp_all add: visit_observation numeral_2_eq_2 [symmetric] del: visit.simps)
  then show ?thesis by (simp add: visit_value del: visit.simps)
qed

lemma snapshot_json_decodes:
  assumes "list_all message_sized (srr_Observations r)"
  shows "decodeStrictRaw wireSnapshotResult_decoder zero_wireSnapshotResult (snapshot_json (snapshot_wire r)) = Inr (snapshot_wire r)"
proof -
  have "visit 0 (snapshot_json (snapshot_wire r)) = Inr ()"
    by (simp add: snapshot_json_def visit_value visit_wire visit_observations del: visit.simps)
  then show ?thesis
    using observations_decode [OF assms]
    by (simp add: decodeStrictRaw_def snapshot_json_def wireSnapshotResult_decoder_def zero_wireSnapshotResult_def snapshot_wire_def response_decoding
        json_slice_def)
qed

lemma observation_wire_fields [simp]:
  "wso_Index (observation_wire s) = so_Index s" "wso_Key (observation_wire s) = presentWireBytes (so_Key s)"
  "wso_Value (observation_wire s) = nullableWireBytes (so_Value s)" "wb_Value (nullableWireBytes (Some v)) = v"
  by (simp_all add: observation_wire_def nullableWireBytes_def presentWireBytes_def)

lemma observe_Cons: "observe i ((key, v) # kvs) = \<lparr>so_Index = of_nat i, so_Key = key, so_Found = (v \<noteq> None), so_Value = v\<rparr> # observe (Suc i) kvs"
  by (simp add: observe_def)

lemma answer_observations:
  assumes "distinct (keys @ seen)" "list_all (\<lambda>k. value_size (store k) \<le> maxConditionalSnapshotValueBytes) keys"
    "sofar + sum_list (map (\<lambda>k. value_size (store k)) keys) \<le> maxConditionalSnapshotTotalValueBytes"
  shows "decode_snapshot_observations index seen sofar keys (map observation_wire (observe index (map (\<lambda>k. (k, store k)) keys)))
    = Inr (observe index (map (\<lambda>k. (k, store k)) keys))"
  using assms
proof (induction keys arbitrary: index seen sofar)
  case (Cons k keys)
  have "decode_snapshot_observations (Suc index) (k # seen) (sofar + value_size (store k)) keys
      (map observation_wire (observe (Suc index) (map (\<lambda>k. (k, store k)) keys))) = Inr (observe (Suc index) (map (\<lambda>k. (k, store k)) keys))"
    using Cons.prems by (intro Cons.IH) auto
  moreover have "\<not> int maxConditionalSnapshotTotalValueBytes - int (value_size (store k)) < int sofar"
    using Cons.prems(3) by simp
  ultimately show ?case
    using Cons.prems by (cases "store k") (simp_all add: observe_Cons value_size_def)
qed (simp add: observe_def)


lemma wire_revision_present: "nu_Present (wire_revision r)"
  by (simp add: wire_revision_def)

definition store_within_bounds :: "(bytes \<Rightarrow> nullable_bytes) \<Rightarrow> bytes list \<Rightarrow> bool" where
  "store_within_bounds store keys \<longleftrightarrow> list_all (\<lambda>k. value_size (store k) \<le> maxConditionalSnapshotValueBytes) keys
     \<and> sum_list (map (\<lambda>k. value_size (store k)) keys) \<le> maxConditionalSnapshotTotalValueBytes"

lemma snapshot_answer_decoded:
  assumes b: "buildConditionalSnapshotReadRequest q = Inr w" and fence: "fence_kept (sr_requiredRevision q) observed"
    and store: "store_within_bounds store (sr_keys q)"
  shows "decodeConditionalSnapshotReadResult (snapshot_json (snapshot_wire (snapshot_answer q observed snapshot store))) q
    = Inr (snapshot_answer q observed snapshot store)"
proof -
  let ?r = "snapshot_answer q observed snapshot store" and ?obs = "observe 0 (map (\<lambda>k. (k, store k)) (sr_keys q))"
  note k = built_snapshot_request [OF b]
  have fields: "srr_Version ?r = sr_version q" "srr_Namespace ?r = sr_namespace q" "srr_RequiredRevision ?r = sr_requiredRevision q"
    "srr_ObservedRevision ?r = observed" "srr_Observations ?r = ?obs" "srr_SnapshotRevision ?r = snapshot"
    "srr_ResponseSHA256 ?r = sha256_hex (snapshot_message (snapshot_wire ?r))"
    by (simp_all add: snapshot_answer_def Let_def snapshot_message_def snapshot_read_message_def snapshot_wire_def)
  have "message_sized \<lparr>so_Index = i, so_Key = x, so_Found = f, so_Value = store x\<rparr>" if "x \<in> set (sr_keys q)" for x i f
    using that k(4) store by (cases "store x") (auto simp: message_sized_def list_all_iff store_within_bounds_def value_size_def maxConditionalKeyBytes_def
        maxNativeJSONResultBytes_def maxConditionalSnapshotValueBytes_def dest!: bspec)
  then have "list_all message_sized ?obs"
    unfolding list_all_iff observe_def by (auto simp: in_set_enumerate_eq)
  then have d: "decodeStrictRaw wireSnapshotResult_decoder zero_wireSnapshotResult (snapshot_json (snapshot_wire ?r)) = Inr (snapshot_wire ?r)"
    by (intro snapshot_json_decodes) (simp add: fields)
  have loop: "decode_snapshot_observations 0 [] 0 (sr_keys q) (map observation_wire ?obs) = Inr ?obs"
    using store k(5) by (intro answer_observations) (simp_all add: store_within_bounds_def)
  obtain dom where dom: "conditionalSnapshotReadDigestDomain (sr_version q) = Some dom" using k(2) by auto
  have wf: "wsr_Version (snapshot_wire ?r) = sr_version q" "wsr_Namespace (snapshot_wire ?r) = sr_namespace q"
    "wsr_Revision (snapshot_wire ?r) = wire_revision (sr_requiredRevision q)"
    "wsr_ObservedRevision (snapshot_wire ?r) = \<lparr>cu_Value = observed, cu_Present = True\<rparr>"
    "wsr_SnapshotRevision (snapshot_wire ?r) = \<lparr>cu_Value = snapshot, cu_Present = True\<rparr>"
    "wsr_Observations (snapshot_wire ?r) = Some (map observation_wire ?obs)" "wsr_ResponseSHA256 (snapshot_wire ?r) = srr_ResponseSHA256 ?r"
    by (simp_all add: snapshot_wire_def fields(1-6))
  have sha: "conditionalSnapshotReadResponseSHA (snapshot_wire ?r) = srr_ResponseSHA256 ?r" "sha_pattern (srr_ResponseSHA256 ?r)"
    unfolding fields(7) by (simp_all add: conditionalSnapshotReadResponseSHA_def snapshot_message_def wf(1) dom)
  have "length ?obs = length (sr_keys q)" by (simp add: observe_def)
  then have "decodeConditionalSnapshotReadResult (snapshot_json (snapshot_wire ?r)) q
      = Inr \<lparr>srr_Version = sr_version q, srr_Namespace = sr_namespace q, srr_RequiredRevision = sr_requiredRevision q,
          srr_ObservedRevision = observed, srr_SnapshotRevision = snapshot, srr_Observations = ?obs, srr_ResponseSHA256 = srr_ResponseSHA256 ?r\<rparr>"
    unfolding decodeConditionalSnapshotReadResult_def b d sum.case sha(1) wf
    using fence loop sha(2) by (cases "sr_requiredRevision q") (simp_all add: same_revision_option fence_kept_def not_less wire_revision_present)
  moreover have "\<lparr>srr_Version = sr_version q, srr_Namespace = sr_namespace q, srr_RequiredRevision = sr_requiredRevision q,
          srr_ObservedRevision = observed, srr_SnapshotRevision = snapshot, srr_Observations = ?obs, srr_ResponseSHA256 = srr_ResponseSHA256 ?r\<rparr> = ?r"
    by (rule ConditionalSnapshotReadResult.equality) (simp_all add: fields(1-6))
  ultimately show ?thesis by simp
qed

text \<open>
  C32: a snapshot read returns the store. The answer of a server that holds \<open>store\<close>, observed at or after the
  required revision, decodes to one observation per requested key with the value of the store (absent keys not
  found, empty values found), whenever the values fit the bounds.
\<close>

theorem snapshot_read_returns_store:
  assumes "buildConditionalSnapshotReadRequest q = Inr w" "fence_kept (sr_requiredRevision q) observed" "store_within_bounds store (sr_keys q)"
  shows "decodeConditionalSnapshotReadResult (snapshot_json (snapshot_wire (snapshot_answer q observed snapshot store))) q
      = Inr (snapshot_answer q observed snapshot store)
    \<and> map (\<lambda>s. (so_Key s, so_Value s)) (srr_Observations (snapshot_answer q observed snapshot store)) = map (\<lambda>k. (k, store k)) (sr_keys q)"
proof -
  have "map (\<lambda>s. (so_Key s, so_Value s)) (observe i kvs) = kvs" for i kvs
    by (induction kvs arbitrary: i) (auto simp: observe_def)
  then show ?thesis using snapshot_answer_decoded [OF assms] by (simp add: snapshot_answer_def Let_def)
qed

definition demo_snapshot_request :: ConditionalSnapshotReadRequest where
  "demo_snapshot_request = \<lparr>sr_version = 1, sr_namespace = ''ns'', sr_keys = [[1], [2]], sr_requiredRevision = Some 4\<rparr>"

lemma demo_snapshot_built: "\<exists>w. buildConditionalSnapshotReadRequest demo_snapshot_request = Inr w"
proof -
  have n: "nat_str 1 = ''1''" "nat_str 2 = ''2''" "nat_str 4 = ''4''" "nat_str (Suc 0) = ''1''"
    by (simp_all add: nat_str.simps digit_char_def char_of_def bit_Suc_0_iff bit_iff_odd)
  have "validateConditionalSnapshotReadRequestSize demo_snapshot_request = Inr ()"
    using html_chars_length [of "''ns''"] html_chars_length [of "''version''"] html_chars_length [of "''namespace''"] html_chars_length [of "''keys''"] html_chars_length [of "''revision''"] html_chars_length [of "''4''"]
    by (simp add: validateConditionalSnapshotReadRequestSize_def demo_snapshot_request_def conditionalSnapshotReadWire_def wireSnapshotReadRequest_json_def
        wire_revision_def nullableUint64_MarshalJSON_def wireBytes_MarshalJSON_def presentWireBytes_def marshal_json_def maxConditionalSnapshotRequestBytes_def n)
  then show ?thesis
    by (simp add: buildConditionalSnapshotReadRequest_def newConditionalSnapshotReadRequest_def demo_snapshot_request_def conditionalNamespacePattern_def
        class_pattern_def namespace_char_def is_lower_def is_upper_def is_digit_def conditionalSnapshotReadMaxKeys_def conditionalSnapshotReadVersionV1_def
        maxConditionalSnapshotReadKeysV1_def maxConditionalKeyBytes_def)
qed


definition demo_store :: "bytes \<Rightarrow> nullable_bytes" where "demo_store k = (if k = [1] then Some [] else None)"

lemma demo_snapshot_bounds: "fence_kept (sr_requiredRevision demo_snapshot_request) 5" "store_within_bounds demo_store (sr_keys demo_snapshot_request)"
  by (simp_all add: demo_snapshot_request_def fence_kept_def store_within_bounds_def demo_store_def value_size_def)

theorem snapshot_read_returns_store_witness:
  "decodeConditionalSnapshotReadResult (snapshot_json (snapshot_wire (snapshot_answer demo_snapshot_request 5 9 demo_store))) demo_snapshot_request
     = Inr (snapshot_answer demo_snapshot_request 5 9 demo_store)
   \<and> map (\<lambda>s. (so_Key s, so_Value s)) (srr_Observations (snapshot_answer demo_snapshot_request 5 9 demo_store)) = [([1], Some []), ([2], None)]"
proof -
  obtain w where w: "buildConditionalSnapshotReadRequest demo_snapshot_request = Inr w" using demo_snapshot_built by blast
  show ?thesis
    using snapshot_read_returns_store [OF w demo_snapshot_bounds, of 9] by (simp add: demo_snapshot_request_def demo_store_def)
qed

theorem snapshot_read_is_evidence_witness:
  "\<exists>data r. decodeConditionalSnapshotReadResult data demo_snapshot_request = Inr r \<and> snapshot_evidence demo_snapshot_request r"
proof -
  obtain w where w: "buildConditionalSnapshotReadRequest demo_snapshot_request = Inr w" using demo_snapshot_built by blast
  note d = snapshot_answer_decoded [OF w demo_snapshot_bounds, of 9]
  show ?thesis using snapshot_read_is_evidence [OF d d] d by blast
qed

end
