(* ===== verification/PrefixScanProofs.thy ===== *)
theory PrefixScanProofs
  imports PrefixScan SnapshotReadProofs ReceiptEvidence
begin

text \<open>
  Prefix scans: the size bound on requests is never what refuses a continuation, an accepted page is ordered, bounded
  and bound by its digest, and following continuations of an honest server reads the whole snapshot.
\<close>

section \<open>Requests always fit\<close>

definition scan_request_ok :: "ConditionalPrefixScanRequest \<Rightarrow> bool" where
  "scan_request_ok q \<longleftrightarrow> validConditionalPrefixScanRequestID (ps_requestID q) \<and> conditionalNamespacePattern (ps_namespace q)
     \<and> 0 < length (ps_prefix q) \<and> length (ps_prefix q) \<le> maxConditionalPrefixScanPrefixBytes
     \<and> ps_limit q \<noteq> 0 \<and> unat (ps_limit q) \<le> maxConditionalPrefixScanEntries
     \<and> pred_option cursor_valid (ps_cursor q) \<and> ps_requiredRevision q \<noteq> Some 0"

definition scan_wire :: "ConditionalPrefixScanRequest \<Rightarrow> wireConditionalPrefixScanRequest" where
  "scan_wire q = \<lparr>wpq_Version = conditionalPrefixScanVersion, wpq_RequestID = ps_requestID q, wpq_Namespace = ps_namespace q,
     wpq_Prefix = presentWireBytes (ps_prefix q), wpq_Limit = ps_limit q, wpq_Cursor = wire_cursor (ps_cursor q),
     wpq_Revision = wire_revision (ps_requiredRevision q)\<rparr>"

lemma print_chars_length: "length (print_chars s) \<le> 6 * length s"
proof (induction s rule: print_chars.induct)
  case (2 c s)
  have c: "length (print_char c) \<le> 6" by (auto simp: print_char_def)
  have d: "6 * (length s - 2) \<le> 6 * length s" by simp
  consider "c = CHR 0xE2 \<and> take 2 s = [CHR 0x80, CHR 0xA8]" | "c = CHR 0xE2 \<and> take 2 s = [CHR 0x80, CHR 0xA9]"
    | "\<not> (c = CHR 0xE2 \<and> take 2 s = [CHR 0x80, CHR 0xA8])" "\<not> (c = CHR 0xE2 \<and> take 2 s = [CHR 0x80, CHR 0xA9])" by blast
  then show ?case
    using "2.IH" c d by cases (auto simp del: take_Suc_Cons)
qed simp

lemma byte_array_size: "wireByteArrayJSONSize bs \<le> 2 + 4 * length bs"
proof -
  have "length (nat_str (unat b)) \<le> 3" for b :: byte using unat_width [of b] by (simp add: length_byte_str)
  then have "(\<Sum>b\<leftarrow>bs. Suc (length (nat_str (unat b)))) \<le> (\<Sum>b\<leftarrow>bs. 4)" by (intro sum_list_mono) (simp add: le_SucI)
  moreover have "wireByteArrayJSONSize bs \<le> 2 + (\<Sum>b\<leftarrow>bs. Suc (length (nat_str (unat b))))"
    by (cases bs) (simp_all add: wireByteArrayJSONSize_def wireByteArrayJSONSize_loop_Suc length_byte_str)
  ultimately show ?thesis by (simp add: sum_list_triv mult.commute)
qed

lemma nat_str_digits: "n < 10 ^ k \<Longrightarrow> 0 < k \<Longrightarrow> length (nat_str n) \<le> k"
proof (induction k arbitrary: n)
  case (Suc k)
  show ?case
  proof (cases "n < 10")
    case True
    then show ?thesis by (simp add: nat_str.simps)
  next
    case False
    then have "n div 10 < 10 ^ k" "0 < k" using Suc.prems(1) by (cases k; auto)+
    then have "length (nat_str (n div 10)) \<le> k" by (rule Suc.IH)
    then show ?thesis using False by (simp add: nat_str.simps [of n])
  qed
qed simp

lemma word_digits: "length (nat_str (unat (w :: uint64))) \<le> 20" "length (nat_str (unat (h :: uint16))) \<le> 5"
proof -
  have "unat w < 10 ^ 20" using unat_width [of w] by (rule less_trans) simp
  then show "length (nat_str (unat w)) \<le> 20" by (rule nat_str_digits) simp
  have "unat h < 10 ^ 5" using unat_width [of h] by (rule less_trans) simp
  then show "length (nat_str (unat h)) \<le> 5" by (rule nat_str_digits) simp
qed

lemma scan_request_size:
  assumes "scan_request_ok q"
  shows "length (print_json (wirePrefixScanRequest_json (scan_wire q))) \<le> maxConditionalPrefixScanRequestBytes"
proof -
  have ids: "length (print_chars (ps_requestID q)) \<le> 768" "length (print_chars (ps_namespace q)) \<le> 384"
    using assms namespace_length [of "ps_namespace q"] print_chars_length [of "ps_requestID q"] print_chars_length [of "ps_namespace q"]
    by (simp_all add: scan_request_ok_def validConditionalPrefixScanRequestID_def)
  have pre: "length (print_json (wireBytes_MarshalJSON (presentWireBytes (ps_prefix q)))) \<le> 32770"
    using assms byte_array_size [of "ps_prefix q"] unfolding wireByteArrayJSONSize_exact
    by (simp add: scan_request_ok_def maxConditionalPrefixScanPrefixBytes_def)
  have cur: "length (print_json (wireNullableString_MarshalJSON (wire_cursor (ps_cursor q)))) \<le> 194"
  proof (cases "ps_cursor q")
    case (Some cursor)
    then have "length (cur_value cursor) = 32" using assms by (simp add: scan_request_ok_def cursor_valid_def conditionalPrefixScanCursorPattern_def)
    then show ?thesis using print_chars_length [of "cur_value cursor"] Some
      by (simp add: wireNullableString_MarshalJSON_def wire_cursor_def print_string_def)
  qed (simp add: wireNullableString_MarshalJSON_def wire_cursor_def)
  have rev: "length (print_json (nullableUint64_MarshalJSON (wire_revision (ps_requiredRevision q)))) \<le> 122"
  proof (cases "ps_requiredRevision q")
    case (Some r)
    then show ?thesis using print_chars_length [of "nat_str (unat r)"] word_digits(1) [of r]
      by (simp add: nullableUint64_MarshalJSON_def wire_revision_def print_string_def)
  qed (simp add: nullableUint64_MarshalJSON_def wire_revision_def)
  note names = print_chars_length [of "''version''"] print_chars_length [of "''request_id''"] print_chars_length [of "''namespace''"]
    print_chars_length [of "''prefix''"] print_chars_length [of "''limit''"] print_chars_length [of "''cursor''"] print_chars_length [of "''revision''"]
  have "length (print_json (wirePrefixScanRequest_json (scan_wire q))) \<le> 35000"
    using ids pre cur rev names word_digits(2) [of "ps_limit q"] word_digits(2) [of conditionalPrefixScanVersion]
    by (simp add: wirePrefixScanRequest_json_def scan_wire_def print_string_def del: print_chars.simps)
  then show ?thesis by (simp add: maxConditionalPrefixScanRequestBytes_def)
qed

lemma encode_scan_request:
  "encodeConditionalPrefixScanRequest q =
     (if scan_request_ok q then Inr (scan_wire q) else prefix_scan_invalid ''request was not created by NewConditionalPrefixScanRequest'')"
proof (cases "scan_request_ok q")
  case True
  then have "(case ps_cursor q of None \<Rightarrow> False | Some c \<Rightarrow> \<not> cursor_valid c) = False" by (cases "ps_cursor q") (simp_all add: scan_request_ok_def)
  then show ?thesis
    using True scan_request_size [OF True]
    by (simp add: encodeConditionalPrefixScanRequest_def scan_request_ok_def Let_def scan_wire_def [symmetric] not_less)
next
  case False
  then show ?thesis
    by (cases "ps_cursor q") (auto simp: encodeConditionalPrefixScanRequest_def scan_request_ok_def not_less)
qed

lemma new_scan_request:
  "newConditionalPrefixScanRequest requestID namespace prefix limit cursor revision = Inr q \<longleftrightarrow>
   q = \<lparr>ps_requestID = requestID, ps_namespace = namespace, ps_prefix = prefix, ps_limit = limit, ps_cursor = cursor, ps_requiredRevision = revision\<rparr>
   \<and> scan_request_ok q"
  by (cases cursor) (auto simp: newConditionalPrefixScanRequest_def encode_scan_request Let_def scan_request_ok_def prefix_scan_invalid_def not_less
      split: if_splits)


section \<open>Accepted pages\<close>

text \<open>Keys in strictly ascending byte order, as \<open>bytes.Compare\<close> orders them.\<close>

definition key_less :: "bytes \<Rightarrow> bytes \<Rightarrow> bool" where
  "key_less a b \<longleftrightarrow> (a, b) \<in> lexord {(x, y). x < y}"

lemma key_less_compare: "\<not> 0 \<le> compareBytes a b \<longleftrightarrow> key_less a b"
  using compareBytes_less [of a b] by (auto simp: key_less_def)

lemma key_less_trans: "key_less a b \<Longrightarrow> key_less b c \<Longrightarrow> key_less a c"
  unfolding key_less_def by (rule lexord_trans) (auto simp: trans_def)

definition has_prefix :: "bytes \<Rightarrow> bytes \<Rightarrow> bool" where
  "has_prefix pre key \<longleftrightarrow> take (length pre) key = pre"

definition scan_entry_ok :: "ConditionalPrefixScanRequest \<Rightarrow> ConditionalPrefixScanEntry \<Rightarrow> bool" where
  "scan_entry_ok q e \<longleftrightarrow> has_prefix (ps_prefix q) (pe_Key e) \<and> length (pe_Key e) \<le> maxConditionalPrefixScanKeyBytes
     \<and> length (pe_Value e) \<le> maxConditionalPrefixScanValueBytes"

lemma add_offset:
  assumes "\<not> snd (addUint64 position (of_nat offset))" "offset < 2 ^ 64"
  shows "unat (position + of_nat offset) = unat position + offset"
proof -
  have "position \<le> position + of_nat offset" using assms(1) by (simp add: addUint64_def Let_def not_less)
  moreover have "unat (of_nat offset :: uint64) = offset" using assms(2) by (simp add: unat_of_nat)
  ultimately show ?thesis using no_olen_add_nat [of position "of_nat offset"] unat_add_lem [of position "of_nat offset"] by metis
qed

lemma verified_entries:
  assumes "verify_scan_entries q position offset prev sofar ws = Inr ()" "offset + length ws \<le> 2 ^ 64" "sofar \<le> maxConditionalPrefixScanTotalValueBytes"
  shows "sorted_wrt key_less ((case prev of None \<Rightarrow> [] | Some k \<Rightarrow> [k]) @ map (\<lambda>w. wb_Value (wpe_Key w)) ws)
    \<and> list_all (scan_entry_ok q) (map scan_entry_from_wire ws)
    \<and> map (\<lambda>w. unat (cu_Value (wpe_Index w))) ws = [unat position + offset..<unat position + offset + length ws]
    \<and> sofar + sum_list (map (\<lambda>w. length (wb_Value (wpe_Value w))) ws) \<le> maxConditionalPrefixScanTotalValueBytes"
  using assms
proof (induction ws arbitrary: offset prev sofar)
  case Nil
  then show ?case by (simp split: option.split)
next
  case (Cons w ws)
  let ?k = "wb_Value (wpe_Key w)" and ?v = "wb_Value (wpe_Value w)"
  from Cons.prems(1) have
    w: "\<not> snd (addUint64 position (of_nat offset))" "cu_Value (wpe_Index w) = position + of_nat offset" "has_prefix (ps_prefix q) ?k"
      "case prev of None \<Rightarrow> True | Some k \<Rightarrow> \<not> 0 \<le> compareBytes k ?k" "length ?k \<le> maxConditionalPrefixScanKeyBytes"
      "length ?v \<le> maxConditionalPrefixScanValueBytes" "sofar + length ?v \<le> maxConditionalPrefixScanTotalValueBytes"
    and rest: "verify_scan_entries q position (Suc offset) (Some ?k) (sofar + length ?v) ws = Inr ()"
    by (auto simp: has_prefix_def addUint64_def Let_def not_less split: if_splits option.splits)
  have idx: "unat (position + of_nat offset) = unat position + offset"
    using add_offset [OF w(1)] Cons.prems(2) by simp
  note IH = Cons.IH [OF rest _ w(7)]
  have "sorted_wrt key_less ((case prev of None \<Rightarrow> [] | Some k \<Rightarrow> [k]) @ ?k # map (\<lambda>w. wb_Value (wpe_Key w)) ws)"
    using IH Cons.prems(2) w(4) by (auto simp: key_less_compare dest: key_less_trans split: option.splits)
  then show ?case
    using IH Cons.prems(2) w(2,3,5,6) idx
    by (auto simp: scan_entry_ok_def scan_entry_from_wire_def upt_conv_Cons simp del: upt_Suc)
qed

section \<open>The digest of a page\<close>

definition entry_enc :: "uint64 \<times> bytes \<times> bytes \<Rightarrow> bytes" where
  "entry_enc = (\<lambda>(i, key, v). u64_be i @ len_bytes_be key @ len_bytes_be v)"

definition entry_fits :: "uint64 \<times> bytes \<times> bytes \<Rightarrow> bool" where
  "entry_fits = (\<lambda>(i, key, v). fits_u32 key \<and> fits_u32 v)"

interpretation se: prefix_free entry_enc entry_fits
  by unfold_locales (auto simp: entry_enc_def entry_fits_def lp_be.enc_append_iff)

definition entry_content :: "wireConditionalPrefixScanEntry \<Rightarrow> uint64 \<times> bytes \<times> bytes" where
  "entry_content w = (cu_Value (wpe_Index w), wb_Value (wpe_Key w), wb_Value (wpe_Value w))"

lemma scan_entry_bytes_enc: "scan_entry_bytes = (\<lambda>w. entry_enc (entry_content w))"
  by (rule ext) (simp add: scan_entry_bytes_def entry_enc_def entry_content_def writePointReadBytes_def writePointReadUint64_def)

definition cursor_text :: "wireNullableString \<Rightarrow> string option" where
  "cursor_text w = (if ns_Null w then None else Some (ns_Value w))"

lemma optional_string_option: "writePrefixScanOptionalString w = option_bytes len_bytes_be (map_option bytes_of (cursor_text w))"
  by (simp add: writePrefixScanOptionalString_def cursor_text_def option_bytes_def writePointReadBytes_def)

lemma optional_revision: "writePrefixScanOptionalUint64 = digest_revision"
  by (rule ext) (simp add: writePrefixScanOptionalUint64_def digest_revision_def)

lemma string_append_iff:
  "pred_option (\<lambda>s. length s < 2 ^ 32) (cursor_text v) \<Longrightarrow> pred_option (\<lambda>s. length s < 2 ^ 32) (cursor_text w) \<Longrightarrow>
   writePrefixScanOptionalString v @ r = writePrefixScanOptionalString w @ s \<longleftrightarrow> cursor_text v = cursor_text w \<and> r = s"
proof -
  assume "pred_option (\<lambda>s. length s < 2 ^ 32) (cursor_text v)" "pred_option (\<lambda>s. length s < 2 ^ 32) (cursor_text w)"
  then have "pred_option fits_u32 (map_option bytes_of (cursor_text v))" "pred_option fits_u32 (map_option bytes_of (cursor_text w))"
    by (cases "cursor_text v"; cases "cursor_text w"; simp add: fits_u32_def)+
  then show ?thesis
    unfolding optional_string_option using lp_be.option_append_iff
    by (cases "cursor_text v"; cases "cursor_text w") (simp_all add: lp_be.option_append_iff)
qed

type_synonym scan_content = "(uint16 \<times> string \<times> string \<times> bytes \<times> uint16 \<times> string option \<times> uint64 option)
  \<times> uint64 \<times> uint64 \<times> uint64 \<times> (uint64 \<times> bytes \<times> bytes) list \<times> string option \<times> uint64 option"

definition scan_page_content :: "wireConditionalPrefixScanResult \<Rightarrow> scan_content" where
  "scan_page_content w = ((wps_Version w, wps_RequestID w, wps_Namespace w, wb_Value (wps_Prefix w), wps_Limit w, cursor_text (wps_Cursor w),
       wire_option (wps_Revision w)),
     cu_Value (wps_ObservedRevision w), cu_Value (wps_SnapshotRevision w), cu_Value (wps_Position w),
     map entry_content (slice_items (wps_Entries w)), cursor_text (wps_NextCursor w), wire_option (wps_NextCursorExpiresAtUnixMS w))"

definition scan_page_fits :: "wireConditionalPrefixScanResult \<Rightarrow> bool" where
  "scan_page_fits w \<longleftrightarrow> fits_u32 (bytes_of (wps_RequestID w)) \<and> fits_u32 (bytes_of (wps_Namespace w)) \<and> fits_u32 (wb_Value (wps_Prefix w))
     \<and> pred_option (\<lambda>s. length s < 2 ^ 32) (cursor_text (wps_Cursor w)) \<and> pred_option (\<lambda>s. length s < 2 ^ 32) (cursor_text (wps_NextCursor w))
     \<and> length (map entry_content (slice_items (wps_Entries w))) < 2 ^ 32 \<and> list_all entry_fits (map entry_content (slice_items (wps_Entries w)))"

lemma prefix_scan_message_enc:
  "prefix_scan_message w = bytes_of ''TALON_CONDITIONAL_PREFIX_SCAN_RESULT_V1'' @ u16_be (wps_Version w)
     @ len_bytes_be (bytes_of (wps_RequestID w)) @ len_bytes_be (bytes_of (wps_Namespace w)) @ len_bytes_be (wb_Value (wps_Prefix w))
     @ u16_be (wps_Limit w) @ writePrefixScanOptionalString (wps_Cursor w) @ digest_revision (wps_Revision w)
     @ u64_be (cu_Value (wps_ObservedRevision w)) @ u64_be (cu_Value (wps_SnapshotRevision w)) @ u64_be (cu_Value (wps_Position w))
     @ u32_be (of_nat (length (map entry_content (slice_items (wps_Entries w)))))
     @ concat (map entry_enc (map entry_content (slice_items (wps_Entries w))))
     @ writePrefixScanOptionalString (wps_NextCursor w) @ digest_revision (wps_NextCursorExpiresAtUnixMS w) @ []"
  by (simp add: prefix_scan_message_def writePointReadBytes_def writePointReadUint64_def scan_entry_bytes_enc optional_revision comp_def)

interpretation ps: bound_response prefix_scan_message scan_page_content scan_page_fits
proof
  fix x y
  assume ok: "scan_page_fits x" "scan_page_fits y" and eq: "prefix_scan_message x = prefix_scan_message y"
  let ?o = "\<lambda>w. map entry_content (slice_items (wps_Entries w))"
  let ?t = "\<lambda>w. writePrefixScanOptionalString (wps_NextCursor w) @ digest_revision (wps_NextCursorExpiresAtUnixMS w) @ []"
  have h: "fst (scan_page_content x) = fst (scan_page_content y)" "cu_Value (wps_ObservedRevision x) = cu_Value (wps_ObservedRevision y)"
    "cu_Value (wps_SnapshotRevision x) = cu_Value (wps_SnapshotRevision y)" "cu_Value (wps_Position x) = cu_Value (wps_Position y)"
    "(of_nat (length (?o x)) :: uint32) = of_nat (length (?o y))" "concat (map entry_enc (?o x)) @ ?t x = concat (map entry_enc (?o y)) @ ?t y"
    using eq ok by (simp_all add: prefix_scan_message_enc scan_page_fits_def scan_page_content_def digest_append_iffs string_append_iff)
  have "length (?o x) = length (?o y)" using h(5) ok by (simp add: scan_page_fits_def of_nat_u32_inject)
  then have o: "?o x = ?o y" and t: "?t x = ?t y" using se.concat_split [OF _ _ _ h(6)] ok by (simp_all add: scan_page_fits_def)
  have f: "pred_option (\<lambda>s. length s < 2 ^ 32) (cursor_text (wps_NextCursor x))" "pred_option (\<lambda>s. length s < 2 ^ 32) (cursor_text (wps_NextCursor y))"
    using ok unfolding scan_page_fits_def by iprover+
  note tt = t [unfolded string_append_iff [OF f] revision_append_iff]
  show "scan_page_content x = scan_page_content y"
    unfolding scan_page_content_def using h(1-4) o tt by (simp add: scan_page_content_def)
qed


definition scan_entry_wire :: "ConditionalPrefixScanEntry \<Rightarrow> wireConditionalPrefixScanEntry" where
  "scan_entry_wire e = \<lparr>wpe_Index = \<lparr>cu_Value = pe_Index e, cu_Present = True\<rparr>, wpe_Key = presentWireBytes (pe_Key e),
     wpe_Value = presentWireBytes (pe_Value e)\<rparr>"

definition scan_result_wire :: "ConditionalPrefixScanResult \<Rightarrow> wireConditionalPrefixScanResult" where
  "scan_result_wire r = \<lparr>wps_Version = psr_Version r, wps_RequestID = psr_RequestID r, wps_Namespace = psr_Namespace r,
     wps_Prefix = presentWireBytes (psr_Prefix r), wps_Limit = psr_Limit r, wps_Cursor = wire_cursor (psr_Cursor r),
     wps_Revision = wire_revision (psr_RequiredRevision r), wps_ObservedRevision = \<lparr>cu_Value = psr_ObservedRevision r, cu_Present = True\<rparr>,
     wps_SnapshotRevision = \<lparr>cu_Value = psr_SnapshotRevision r, cu_Present = True\<rparr>,
     wps_Position = \<lparr>cu_Value = psr_Position r, cu_Present = True\<rparr>, wps_Entries = Some (map scan_entry_wire (psr_Entries r)),
     wps_NextCursor = wire_cursor (psr_NextCursor r), wps_NextCursorExpiresAtUnixMS = wire_revision (psr_NextCursorExpiresAtUnixMillis r),
     wps_ResponseSHA256 = psr_ResponseSHA256 r\<rparr>"

text \<open>What an accepted page says: the binding of the request, order and bounds of the entries, and the cursors.\<close>

definition scan_page_ok :: "ConditionalPrefixScanRequest \<Rightarrow> ConditionalPrefixScanResult \<Rightarrow> bool" where
  "scan_page_ok q r \<longleftrightarrow>
     (psr_Version r, psr_RequestID r, psr_Namespace r, psr_Prefix r, psr_Limit r, psr_Cursor r, psr_RequiredRevision r)
       = (conditionalPrefixScanVersion, ps_requestID q, ps_namespace q, ps_prefix q, ps_limit q, ps_cursor q, ps_requiredRevision q)
     \<and> fence_kept (ps_requiredRevision q) (psr_ObservedRevision r)
     \<and> length (psr_Entries r) \<le> unat (ps_limit q)
     \<and> sorted_wrt key_less (map pe_Key (psr_Entries r)) \<and> list_all (scan_entry_ok q) (psr_Entries r)
     \<and> map (\<lambda>e. unat (pe_Index e)) (psr_Entries r) = [unat (psr_Position r)..<unat (psr_Position r) + length (psr_Entries r)]
     \<and> sum_list (map (\<lambda>e. length (pe_Value e)) (psr_Entries r)) \<le> maxConditionalPrefixScanTotalValueBytes
     \<and> (ps_cursor q = None) = (psr_Position r = 0) \<and> (psr_Entries r = [] \<longrightarrow> ps_cursor q = None)
     \<and> (case psr_NextCursor r of None \<Rightarrow> psr_NextCursorExpiresAtUnixMillis r = None
        | Some c \<Rightarrow> cursor_valid c \<and> ps_cursor q \<noteq> Some c \<and> length (psr_Entries r) = unat (ps_limit q)
            \<and> (\<exists>t. psr_NextCursorExpiresAtUnixMillis r = Some t \<and> t \<noteq> 0))"

lemma cursor_from_wire: "conditionalPrefixScanCursorFromWire w = map_option (\<lambda>s. \<lparr>cur_value = s\<rparr>) (cursor_text w)"
  by (simp add: conditionalPrefixScanCursorFromWire_def cursor_text_def)

lemma cursor_text_wire [simp]: "cursor_text (wire_cursor c) = map_option cur_value c"
  by (cases c) (simp_all add: cursor_text_def wire_cursor_def)

lemma revision_from_wire: "nullableRevisionFromWire = wire_option"
  by (rule ext) (simp add: nullableRevisionFromWire_def wire_option_def)

lemma same_cursor: "sameNullableCursor w c \<longleftrightarrow> conditionalPrefixScanCursorFromWire w = c"
  by (cases c) (auto simp: sameNullableCursor_def conditionalPrefixScanCursorFromWire_def)

lemma result_content: "scan_page_content (scan_result_wire (conditionalPrefixScanResultFromWire w)) = scan_page_content (w\<lparr>wps_Version := conditionalPrefixScanVersion\<rparr>)"
  by (simp add: scan_page_content_def scan_result_wire_def conditionalPrefixScanResultFromWire_def cursor_from_wire revision_from_wire option.map_comp
      comp_def scan_entry_wire_def scan_entry_from_wire_def entry_content_def option.map_ident)

lemma scan_message_content: "scan_page_content x = scan_page_content y \<Longrightarrow> prefix_scan_message x = prefix_scan_message y"
  unfolding prefix_scan_message_enc optional_string_option digest_revision_option by (simp add: scan_page_content_def)

lemma accepted_scan_page:
  assumes "decodeConditionalPrefixScanResult data q = Inr r"
  shows "scan_page_ok q r \<and> scan_request_ok q \<and> scan_page_fits (scan_result_wire r) \<and> psr_ResponseSHA256 r = sha256_hex (prefix_scan_message (scan_result_wire r))"
proof -
  obtain w where ok: "scan_request_ok q" and v: "verifyConditionalPrefixScanWire w q = Inr ()" and r: "r = conditionalPrefixScanResultFromWire w"
    using assms by (auto simp: decodeConditionalPrefixScanResult_def encode_scan_request prefix_scan_invalid_def split: if_splits sum.splits)
  obtain ws where ws: "wps_Entries w = Some ws"
    using v by (auto simp: verifyConditionalPrefixScanWire_def split: if_splits)
  have bind: "wps_Version w = conditionalPrefixScanVersion" "wps_RequestID w = ps_requestID q" "wps_Namespace w = ps_namespace q"
      "wb_Value (wps_Prefix w) = ps_prefix q" "wps_Limit w = ps_limit q" "sameNullableCursor (wps_Cursor w) (ps_cursor q)"
      "sameNullableRevision (wps_Revision w) (ps_requiredRevision q)" "fence_kept (ps_requiredRevision q) (cu_Value (wps_ObservedRevision w))"
      "\<not> scan_page_shape_wrong w (length ws) q"
      "ns_Null (wps_NextCursor w) \<or> conditionalPrefixScanCursorPattern (ns_Value (wps_NextCursor w))"
      "verify_scan_entries q (cu_Value (wps_Position w)) 0 None 0 ws = Inr ()" "conditionalPrefixScanResponseSHA w = wps_ResponseSHA256 w"
    using v unfolding verifyConditionalPrefixScanWire_def ws
    by (auto simp: fence_kept_def not_less split: if_splits sum.splits option.splits)
  have lim: "length ws \<le> unat (ps_limit q)" using bind(9) by (auto simp: scan_page_shape_wrong_def)
  then have short: "length ws \<le> 256" using ok by (simp add: scan_request_ok_def maxConditionalPrefixScanEntries_def)
  have e: "sorted_wrt key_less (map pe_Key (psr_Entries r))" "list_all (scan_entry_ok q) (psr_Entries r)"
    "map (\<lambda>e. unat (pe_Index e)) (psr_Entries r) = [unat (psr_Position r)..<unat (psr_Position r) + length (psr_Entries r)]"
    "sum_list (map (\<lambda>e. length (pe_Value e)) (psr_Entries r)) \<le> maxConditionalPrefixScanTotalValueBytes"
    using verified_entries [OF bind(11)] short
    by (simp_all add: r conditionalPrefixScanResultFromWire_def ws scan_entry_from_wire_def comp_def)
  have c: "scan_page_content w = scan_page_content (scan_result_wire r)" using result_content [of w] bind(1) by (cases w) (simp add: r)
  have sha: "psr_ResponseSHA256 r = sha256_hex (prefix_scan_message (scan_result_wire r))"
    using bind(12) scan_message_content [OF c] by (simp add: r conditionalPrefixScanResultFromWire_def conditionalPrefixScanResponseSHA_def)
  have b: "(psr_Version r, psr_RequestID r, psr_Namespace r, psr_Prefix r, psr_Limit r, psr_Cursor r, psr_RequiredRevision r)
       = (conditionalPrefixScanVersion, ps_requestID q, ps_namespace q, ps_prefix q, ps_limit q, ps_cursor q, ps_requiredRevision q)"
    "psr_ObservedRevision r = cu_Value (wps_ObservedRevision w)" "psr_Position r = cu_Value (wps_Position w)" "length (psr_Entries r) = length ws"
    using bind(1-7) by (simp_all add: r conditionalPrefixScanResultFromWire_def same_cursor same_revision_option revision_from_wire ws)
  have next_ok: "case psr_NextCursor r of None \<Rightarrow> psr_NextCursorExpiresAtUnixMillis r = None
        | Some c \<Rightarrow> cursor_valid c \<and> ps_cursor q \<noteq> Some c \<and> length (psr_Entries r) = unat (ps_limit q)
            \<and> (\<exists>t. psr_NextCursorExpiresAtUnixMillis r = Some t \<and> t \<noteq> 0)"
    using bind(9,10) by (auto simp: r conditionalPrefixScanResultFromWire_def conditionalPrefixScanCursorFromWire_def revision_from_wire wire_option_def
        cursor_valid_def scan_page_shape_wrong_def ws)
  have start: "(ps_cursor q = None) = (psr_Position r = 0)" "psr_Entries r = [] \<longrightarrow> ps_cursor q = None"
    using bind(9) b(3,4) by (auto simp: scan_page_shape_wrong_def)
  have "pred_option (\<lambda>s. length s < 2 ^ 32) (cursor_text (wps_Cursor (scan_result_wire r)))"
    using b(1) ok by (cases "ps_cursor q") (simp_all add: scan_result_wire_def scan_request_ok_def cursor_valid_def conditionalPrefixScanCursorPattern_def)
  moreover have "pred_option (\<lambda>s. length s < 2 ^ 32) (cursor_text (wps_NextCursor (scan_result_wire r)))"
    using next_ok by (cases "psr_NextCursor r") (simp_all add: scan_result_wire_def cursor_valid_def conditionalPrefixScanCursorPattern_def)
  moreover have "fits_u32 (bytes_of (ps_requestID q))" "fits_u32 (bytes_of (ps_namespace q))" "fits_u32 (ps_prefix q)"
    using ok namespace_length [of "ps_namespace q"]
    by (simp_all add: scan_request_ok_def fits_u32_def validConditionalPrefixScanRequestID_def maxConditionalPrefixScanPrefixBytes_def)
  moreover have "list_all entry_fits (map (entry_content \<circ> scan_entry_wire) (psr_Entries r))"
    using e(2) by (auto simp: list_all_iff entry_fits_def entry_content_def scan_entry_wire_def scan_entry_ok_def fits_u32_def
        maxConditionalPrefixScanKeyBytes_def maxConditionalPrefixScanValueBytes_def dest!: bspec)
  ultimately have "scan_page_fits (scan_result_wire r)"
    using b(1,4) short by (simp add: scan_page_fits_def) (simp add: scan_result_wire_def)
  moreover have "scan_page_ok q r"
    unfolding scan_page_ok_def using b(1) bind(8) b(2) lim b(4) e next_ok start by (intro conjI) simp_all
  ultimately show ?thesis using sha ok by blast
qed

section \<open>Continuations\<close>

lemma result_binding: "scan_page_ok q r \<Longrightarrow> sameConditionalPrefixScanResultBinding r q"
  by (cases "ps_cursor q"; cases "ps_requiredRevision q") (auto simp: scan_page_ok_def sameConditionalPrefixScanResultBinding_def equalUint64Pointers_def)

lemma continued:
  assumes "scan_page_ok q r" "scan_request_ok q"
  shows "Continuation r q = Inr (map_option (\<lambda>c. q\<lparr>ps_cursor := Some c\<rparr>) (psr_NextCursor r))"
    "pred_option (\<lambda>c. scan_request_ok (q\<lparr>ps_cursor := Some c\<rparr>)) (psr_NextCursor r)"
proof -
  show ok: "pred_option (\<lambda>c. scan_request_ok (q\<lparr>ps_cursor := Some c\<rparr>)) (psr_NextCursor r)"
    using assms by (cases "psr_NextCursor r") (simp_all add: scan_page_ok_def scan_request_ok_def)
  show "Continuation r q = Inr (map_option (\<lambda>c. q\<lparr>ps_cursor := Some c\<rparr>) (psr_NextCursor r))"
  proof (cases "psr_NextCursor r")
    case (Some c)
    have "Continue q c = Inr (q\<lparr>ps_cursor := Some c\<rparr>)"
      unfolding Continue_def new_scan_request using ok Some by (cases q) simp
    then show ?thesis using result_binding [OF assms(1)] Some by (simp add: Continuation_def)
  qed (simp add: Continuation_def result_binding [OF assms(1)])
qed

end
