(* ===== verification/PrefixScanServer.thy ===== *)
theory PrefixScanServer
  imports PrefixScanProofs
begin

text \<open>
  A server that holds an ordered snapshot and pages through it: every page it sends is accepted, and a client that
  follows the continuations reads the snapshot to its end.
\<close>

section \<open>The wire form of a page\<close>

definition scan_entry_json :: "wireConditionalPrefixScanEntry \<Rightarrow> json" where
  "scan_entry_json w = JObj [(''index'', canonicalUint64_MarshalJSON (wpe_Index w)), (''key'', wireBytes_MarshalJSON (wpe_Key w)),
     (''value'', wireBytes_MarshalJSON (wpe_Value w))]"

definition scan_json :: "wireConditionalPrefixScanResult \<Rightarrow> json" where
  "scan_json w = JObj [(''version'', JNum (nat_str (unat (wps_Version w)))), (''request_id'', JStr (wps_RequestID w)),
     (''namespace'', JStr (wps_Namespace w)), (''prefix'', wireBytes_MarshalJSON (wps_Prefix w)),
     (''limit'', JNum (nat_str (unat (wps_Limit w)))), (''cursor'', wireNullableString_MarshalJSON (wps_Cursor w)),
     (''revision'', nullableUint64_MarshalJSON (wps_Revision w)), (''observed_revision'', canonicalUint64_MarshalJSON (wps_ObservedRevision w)),
     (''snapshot_revision'', canonicalUint64_MarshalJSON (wps_SnapshotRevision w)), (''position'', canonicalUint64_MarshalJSON (wps_Position w)),
     (''entries'', JArr (map scan_entry_json (slice_items (wps_Entries w)))), (''next_cursor'', wireNullableString_MarshalJSON (wps_NextCursor w)),
     (''next_cursor_expires_at_unix_ms'', nullableUint64_MarshalJSON (wps_NextCursorExpiresAtUnixMS w)), (''response_sha256'', JStr (wps_ResponseSHA256 w))]"

lemma cursor_roundtrip: "wireNullableString_UnmarshalJSON old (wireNullableString_MarshalJSON (wire_cursor c)) = Inr (wire_cursor c)"
  by (cases c) (simp_all add: wireNullableString_UnmarshalJSON_def wireNullableString_MarshalJSON_def wire_cursor_def decodeStrictRaw_def json_string_def)

lemma visit_cursor: "d \<le> 128 \<Longrightarrow> visit d (wireNullableString_MarshalJSON w) = Inr ()"
  using visit_value [of d] by (simp add: wireNullableString_MarshalJSON_def del: visit.simps)

definition entry_sized :: "ConditionalPrefixScanEntry \<Rightarrow> bool" where
  "entry_sized e \<longleftrightarrow> length (pe_Key e) \<le> maxNativeJSONResultBytes \<and> length (pe_Value e) \<le> maxNativeJSONResultBytes"

lemma scan_entry_decodes:
  "entry_sized e \<Longrightarrow> wireScanEntry_decoder zero_wireScanEntry (scan_entry_json (scan_entry_wire e)) = Inr (scan_entry_wire e)"
  by (simp add: entry_sized_def scan_entry_json_def scan_entry_wire_def wireScanEntry_decoder_def zero_wireScanEntry_def response_decoding)

lemma scan_entries_decode:
  "list_all entry_sized es \<Longrightarrow> decode_elements zero_wireScanEntry wireScanEntry_decoder [] (map (scan_entry_json \<circ> scan_entry_wire) es) = Inr (map scan_entry_wire es)"
  by (induction es) (simp_all add: scan_entry_decodes)

lemma visit_scan_entry: "visit 2 (scan_entry_json w) = Inr ()"
  by (simp add: scan_entry_json_def visit_value visit_wire del: visit.simps)

lemma visit_scan_entries: "visit (Suc 0) (JArr (map scan_entry_json ws)) = Inr ()"
proof -
  have "visit_elements (Suc 0) (map scan_entry_json ws) = Inr ()"
    by (induction ws) (simp_all add: visit_scan_entry numeral_2_eq_2 [symmetric] del: visit.simps)
  then show ?thesis by (simp add: visit_value del: visit.simps)
qed

lemma scan_json_decodes:
  assumes "list_all entry_sized (psr_Entries r)" "length (psr_Prefix r) \<le> maxNativeJSONResultBytes"
  shows "decodeStrictRaw wireScanResult_decoder zero_wireScanResult (scan_json (scan_result_wire r)) = Inr (scan_result_wire r)"
proof -
  have "visit 0 (scan_json (scan_result_wire r)) = Inr ()"
    by (simp add: scan_json_def visit_value visit_wire visit_cursor visit_scan_entries del: visit.simps)
  then show ?thesis
    using scan_entries_decode [OF assms(1)] assms(2)
    by (simp add: decodeStrictRaw_def scan_json_def wireScanResult_decoder_def zero_wireScanResult_def scan_result_wire_def response_decoding
        cursor_roundtrip json_slice_def)
qed

lemma printable_wire: "printable (wireBytes_MarshalJSON w)" "printable (canonicalUint64_MarshalJSON c)" "printable (nullableUint64_MarshalJSON u)"
  "printable (wireNullableString_MarshalJSON s)" "printable (JNum (nat_str n))"
proof -
  have n: "\<exists>i. nat_str n = int_str i" for n by (rule exI [of _ "int n"]) (simp add: int_str_def)
  then show "printable (wireBytes_MarshalJSON w)" "printable (canonicalUint64_MarshalJSON c)" "printable (nullableUint64_MarshalJSON u)"
    "printable (wireNullableString_MarshalJSON s)" "printable (JNum (nat_str n))"
    by (auto simp: wireBytes_MarshalJSON_def canonicalUint64_MarshalJSON_def nullableUint64_MarshalJSON_def wireNullableString_MarshalJSON_def)
qed

lemma ascii_texts: "utf8_valid (nat_str n)" "sha_pattern s \<Longrightarrow> utf8_valid s" "conditionalPrefixScanCursorPattern s \<Longrightarrow> utf8_valid s"
proof -
  show "utf8_valid (nat_str n)" by (rule utf8_valid_ascii) (rule nat_str_ascii)
  show "sha_pattern s \<Longrightarrow> utf8_valid s" "conditionalPrefixScanCursorPattern s \<Longrightarrow> utf8_valid s" for s
    by (simp_all add: lower_hex_text sha_pattern_def conditionalPrefixScanCursorPattern_def)
qed

lemma wire_strings: "json_strings utf8_valid (wireBytes_MarshalJSON w)" "json_strings utf8_valid (canonicalUint64_MarshalJSON c)"
  "json_strings utf8_valid (nullableUint64_MarshalJSON u)"
  by (auto simp: wireBytes_MarshalJSON_def canonicalUint64_MarshalJSON_def nullableUint64_MarshalJSON_def ascii_texts)


lemma namespace_text: "conditionalNamespacePattern s \<Longrightarrow> utf8_valid s"
  by (rule utf8_valid_ascii)
    (auto simp: conditionalNamespacePattern_def class_pattern_def ascii_def list_all_iff namespace_char_def is_lower_def is_upper_def is_digit_def less_eq_char_def)

lemma cursor_strings: "pred_option cursor_valid c \<Longrightarrow> json_strings utf8_valid (wireNullableString_MarshalJSON (wire_cursor c))"
  by (cases c) (simp_all add: wireNullableString_MarshalJSON_def wire_cursor_def cursor_valid_def ascii_texts)

lemma scan_names: "list_all utf8_valid [''version'', ''request_id'', ''namespace'', ''prefix'', ''limit'', ''cursor'', ''revision'', ''observed_revision'',
    ''snapshot_revision'', ''position'', ''entries'', ''next_cursor'', ''next_cursor_expires_at_unix_ms'', ''response_sha256'', ''index'', ''key'', ''value'']"
  by (simp add: utf8_valid_ascii ascii_def)

text \<open>A page whose texts are well formed and whose fields fit a message.\<close>

definition sendable :: "ConditionalPrefixScanResult \<Rightarrow> bool" where
  "sendable r \<longleftrightarrow> list_all entry_sized (psr_Entries r) \<and> length (psr_Prefix r) \<le> maxNativeJSONResultBytes \<and> utf8_valid (psr_RequestID r)
     \<and> conditionalNamespacePattern (psr_Namespace r) \<and> pred_option cursor_valid (psr_Cursor r) \<and> pred_option cursor_valid (psr_NextCursor r)
     \<and> sha_pattern (psr_ResponseSHA256 r)"

definition scan_text :: "ConditionalPrefixScanResult \<Rightarrow> string" where
  "scan_text r = marshal_json (scan_json (scan_result_wire r))"

lemma scan_text_decodes:
  assumes "sendable r"
  shows "decodeStrictJSON wireScanResult_decoder zero_wireScanResult (scan_text r) = Inr (scan_result_wire r)"
proof -
  let ?w = "scan_result_wire r"
  have "printable (scan_json ?w)" by (auto simp: scan_json_def scan_entry_json_def printable_wire simp del: printable.simps(1))
  moreover have "json_strings utf8_valid (scan_json ?w)"
    using assms scan_names
    by (auto simp: scan_json_def scan_entry_json_def wire_strings cursor_strings sendable_def namespace_text ascii_texts scan_result_wire_def)
  ultimately show ?thesis
    using assms scan_json_decodes [of r] by (simp add: scan_text_def marshal_json_reads_back(2) sendable_def)
qed

section \<open>An ordered snapshot\<close>

definition number_entries :: "nat \<Rightarrow> (bytes \<times> bytes) list \<Rightarrow> ConditionalPrefixScanEntry list" where
  "number_entries start kvs = map (\<lambda>(i, key, v). \<lparr>pe_Index = of_nat i, pe_Key = key, pe_Value = v\<rparr>) (enumerate start kvs)"

definition scan_page :: "(bytes \<times> bytes) list \<Rightarrow> (nat \<Rightarrow> ConditionalPrefixScanCursor) \<Rightarrow> uint64 \<Rightarrow> uint64 \<Rightarrow> uint64
    \<Rightarrow> ConditionalPrefixScanRequest \<Rightarrow> nat \<Rightarrow> ConditionalPrefixScanResult" where
  "scan_page snapshot token observed revision expires q p =
     (let n = unat (ps_limit q); more = (p + n < length snapshot);
          r = \<lparr>psr_Version = conditionalPrefixScanVersion, psr_RequestID = ps_requestID q, psr_Namespace = ps_namespace q, psr_Prefix = ps_prefix q,
            psr_Limit = ps_limit q, psr_Cursor = ps_cursor q, psr_RequiredRevision = ps_requiredRevision q, psr_ObservedRevision = observed,
            psr_SnapshotRevision = revision, psr_Position = of_nat p, psr_Entries = number_entries p (take n (drop p snapshot)),
            psr_NextCursor = (if more then Some (token (p + n)) else None),
            psr_NextCursorExpiresAtUnixMillis = (if more then Some expires else None), psr_ResponseSHA256 = []\<rparr>
      in r\<lparr>psr_ResponseSHA256 := sha256_hex (prefix_scan_message (scan_result_wire r))\<rparr>)"

text \<open>
  What the server promises: an ordered snapshot under the prefix within the bounds, a token per position that the
  server recognises, a nonzero expiry, and pages within the wire bound of Core.
\<close>

definition honest_server :: "(bytes \<times> bytes) list \<Rightarrow> (nat \<Rightarrow> ConditionalPrefixScanCursor) \<Rightarrow> uint64 \<Rightarrow> uint64 \<Rightarrow> uint64
    \<Rightarrow> ConditionalPrefixScanRequest \<Rightarrow> bool" where
  "honest_server snapshot token observed revision expires q \<longleftrightarrow>
     length snapshot < 2 ^ 63 \<and> sorted_wrt key_less (map fst snapshot)
     \<and> list_all (\<lambda>(k, v). has_prefix (ps_prefix q) k \<and> length k \<le> maxConditionalPrefixScanKeyBytes \<and> length v \<le> maxConditionalPrefixScanValueBytes) snapshot
     \<and> (\<forall>p. cursor_valid (token p)) \<and> inj_on token {..<length snapshot} \<and> expires \<noteq> 0 \<and> fence_kept (ps_requiredRevision q) observed
     \<and> (\<forall>p. sum_list (map (\<lambda>(k, v). length v) (take (unat (ps_limit q)) (drop p snapshot))) \<le> maxConditionalPrefixScanTotalValueBytes)
     \<and> (\<forall>p c. pred_option cursor_valid c \<longrightarrow> length (scan_text (scan_page snapshot token observed revision expires (q\<lparr>ps_cursor := c\<rparr>) p))
              \<le> maxConditionalPrefixScanResponseBytes - conditionalPrefixScanResponseHeadroom)"

lemma number_Cons: "number_entries i ((k, v) # kvs) = \<lparr>pe_Index = of_nat i, pe_Key = k, pe_Value = v\<rparr> # number_entries (Suc i) kvs"
  by (simp add: number_entries_def)

lemma scan_entry_wire_fields [simp]:
  "wpe_Index (scan_entry_wire e) = \<lparr>cu_Value = pe_Index e, cu_Present = True\<rparr>" "wpe_Key (scan_entry_wire e) = presentWireBytes (pe_Key e)"
  "wpe_Value (scan_entry_wire e) = presentWireBytes (pe_Value e)"
  by (simp_all add: scan_entry_wire_def)

lemma honest_entries_verify:
  assumes "sorted_wrt key_less ((case prev of None \<Rightarrow> [] | Some k \<Rightarrow> [k]) @ map fst kvs)"
    "list_all (\<lambda>(k, v). has_prefix (ps_prefix q) k \<and> length k \<le> maxConditionalPrefixScanKeyBytes \<and> length v \<le> maxConditionalPrefixScanValueBytes) kvs"
    "sofar + sum_list (map (\<lambda>(k, v). length v) kvs) \<le> maxConditionalPrefixScanTotalValueBytes" "p + offset + length kvs < 2 ^ 64"
  shows "verify_scan_entries q (of_nat p) offset prev sofar (map scan_entry_wire (number_entries (p + offset) kvs)) = Inr ()"
  using assms
proof (induction kvs arbitrary: prev sofar offset)
  case (Cons kv kvs)
  obtain k v where kv: "kv = (k, v)" by fastforce
  have IH: "verify_scan_entries q (of_nat p) (Suc offset) (Some k) (sofar + length v) (map scan_entry_wire (number_entries (p + Suc offset) kvs)) = Inr ()"
    using Cons.prems by (intro Cons.IH) (auto simp: kv split: option.splits)
  have add: "addUint64 (of_nat p) (of_nat offset) = (of_nat (p + offset), False)"
    using Cons.prems(4) by (simp add: addUint64_def Let_def not_less word_le_nat_alt unat_of_nat flip: of_nat_add)
  have "case prev of None \<Rightarrow> True | Some k' \<Rightarrow> \<not> 0 \<le> compareBytes k' k"
    using Cons.prems(1) by (auto simp: kv key_less_compare split: option.splits)
  moreover have "\<not> int maxConditionalPrefixScanTotalValueBytes - int (length v) < int sofar" using Cons.prems(3) by (simp add: kv)
  ultimately show ?case
    using IH Cons.prems(2) by (auto simp: kv number_Cons add has_prefix_def split: option.splits simp del: of_nat_add)
qed (simp add: number_entries_def)


text \<open>The position a cursor stands for.\<close>

definition cursor_at :: "(nat \<Rightarrow> ConditionalPrefixScanCursor) \<Rightarrow> nat \<Rightarrow> ConditionalPrefixScanCursor option \<Rightarrow> nat \<Rightarrow> bool" where
  "cursor_at token n c p \<longleftrightarrow> (case c of None \<Rightarrow> p = 0 | Some t \<Rightarrow> t = token p \<and> 0 < p \<and> p < n)"

lemma record_etas: "(\<lambda>x. \<lparr>cur_value = cur_value x\<rparr>) = (\<lambda>x. x)" "(\<lambda>x. \<lparr>pe_Index = pe_Index x, pe_Key = pe_Key x, pe_Value = pe_Value x\<rparr>) = (\<lambda>x. x)"
  by (rule ext, rule ConditionalPrefixScanCursor.equality, simp_all) (rule ext, rule ConditionalPrefixScanEntry.equality, simp_all)

lemma from_wire: "psr_Version r = conditionalPrefixScanVersion \<Longrightarrow> conditionalPrefixScanResultFromWire (scan_result_wire r) = r"
  by (rule ConditionalPrefixScanResult.equality)
    (simp_all add: conditionalPrefixScanResultFromWire_def scan_result_wire_def cursor_from_wire revision_from_wire scan_entry_from_wire_def comp_def
      option.map_comp option.map_ident record_etas)

lemma scan_page_accepted:
  assumes q: "scan_request_ok q" and server: "honest_server snapshot token observed revision expires q"
    and at: "cursor_at token (length snapshot) (ps_cursor q) p"
  shows "decodeConditionalPrefixScanResult (scan_text (scan_page snapshot token observed revision expires q p)) q
    = Inr (scan_page snapshot token observed revision expires q p)"
proof -
  let ?r = "scan_page snapshot token observed revision expires q p" and ?n = "unat (ps_limit q)"
  let ?kvs = "take ?n (drop p snapshot)" and ?more = "p + ?n < length snapshot"
  have h: "length snapshot < 2 ^ 63" "sorted_wrt key_less (map fst snapshot)"
    "list_all (\<lambda>(k, v). has_prefix (ps_prefix q) k \<and> length k \<le> maxConditionalPrefixScanKeyBytes \<and> length v \<le> maxConditionalPrefixScanValueBytes) snapshot"
    "\<And>x. cursor_valid (token x)" "inj_on token {..<length snapshot}" "expires \<noteq> 0" "fence_kept (ps_requiredRevision q) observed"
    "sum_list (map (\<lambda>(k, v). length v) ?kvs) \<le> maxConditionalPrefixScanTotalValueBytes"
    "length (scan_text (scan_page snapshot token observed revision expires (q\<lparr>ps_cursor := ps_cursor q\<rparr>) p))
       \<le> maxConditionalPrefixScanResponseBytes - conditionalPrefixScanResponseHeadroom"
    using server q unfolding honest_server_def scan_request_ok_def by blast+
  have fields: "psr_Version ?r = conditionalPrefixScanVersion" "psr_RequestID ?r = ps_requestID q" "psr_Namespace ?r = ps_namespace q"
    "psr_Prefix ?r = ps_prefix q" "psr_Limit ?r = ps_limit q" "psr_Cursor ?r = ps_cursor q" "psr_RequiredRevision ?r = ps_requiredRevision q"
    "psr_ObservedRevision ?r = observed" "psr_SnapshotRevision ?r = revision" "psr_Position ?r = of_nat p" "psr_Entries ?r = number_entries p ?kvs"
    "psr_NextCursor ?r = (if ?more then Some (token (p + ?n)) else None)" "psr_NextCursorExpiresAtUnixMillis ?r = (if ?more then Some expires else None)"
    by (simp_all add: scan_page_def Let_def)
  have sha: "psr_ResponseSHA256 ?r = sha256_hex (prefix_scan_message (scan_result_wire ?r))"
    by (simp add: scan_page_def Let_def prefix_scan_message_def scan_result_wire_def)
  have pn: "p \<le> length snapshot" using at by (auto simp: cursor_at_def split: option.splits)
  have limit: "0 < ?n" "?n \<le> 256" using q by (auto simp: scan_request_ok_def maxConditionalPrefixScanEntries_def unat_gt_0)
  have "sorted_wrt key_less (take ?n (drop p (map fst snapshot)))" by (intro sorted_wrt_take sorted_wrt_drop h(2))
  then have kvs: "sorted_wrt key_less (map fst ?kvs)"
    "list_all (\<lambda>(k, v). has_prefix (ps_prefix q) k \<and> length k \<le> maxConditionalPrefixScanKeyBytes \<and> length v \<le> maxConditionalPrefixScanValueBytes) ?kvs"
    using h(3) unfolding list_all_iff by (simp add: take_map drop_map, meson in_set_takeD in_set_dropD)
  have number: "list_all entry_sized (number_entries i xs)"
    if "list_all (\<lambda>(k, v). length k \<le> maxConditionalPrefixScanKeyBytes \<and> length v \<le> maxConditionalPrefixScanValueBytes) xs" for i xs
    using that by (induction xs arbitrary: i) (auto simp: number_entries_def entry_sized_def maxConditionalPrefixScanKeyBytes_def
        maxConditionalPrefixScanValueBytes_def maxNativeJSONResultBytes_def)
  have sized: "list_all entry_sized (number_entries p ?kvs)"
    using kvs(2) by (intro number) (auto simp: list_all_iff)
  have "sendable ?r"
    using sized q h(4) unfolding sendable_def fields sha
    by (auto simp: scan_request_ok_def validConditionalPrefixScanRequestID_def maxConditionalPrefixScanPrefixBytes_def maxNativeJSONResultBytes_def)
  note d = scan_text_decodes [OF this]
  have loop: "verify_scan_entries q (of_nat p) 0 None 0 (map scan_entry_wire (number_entries p ?kvs)) = Inr ()"
    using honest_entries_verify [of None ?kvs q 0 p 0] kvs h(1,8) pn by auto
  have w: "wps_Version (scan_result_wire ?r) = conditionalPrefixScanVersion" "wps_RequestID (scan_result_wire ?r) = ps_requestID q"
    "wps_Namespace (scan_result_wire ?r) = ps_namespace q" "wps_Prefix (scan_result_wire ?r) = presentWireBytes (ps_prefix q)"
    "wps_Limit (scan_result_wire ?r) = ps_limit q" "wps_Cursor (scan_result_wire ?r) = wire_cursor (ps_cursor q)"
    "wps_Revision (scan_result_wire ?r) = wire_revision (ps_requiredRevision q)"
    "wps_ObservedRevision (scan_result_wire ?r) = \<lparr>cu_Value = observed, cu_Present = True\<rparr>"
    "wps_SnapshotRevision (scan_result_wire ?r) = \<lparr>cu_Value = revision, cu_Present = True\<rparr>"
    "wps_Position (scan_result_wire ?r) = \<lparr>cu_Value = of_nat p, cu_Present = True\<rparr>"
    "wps_Entries (scan_result_wire ?r) = Some (map scan_entry_wire (number_entries p ?kvs))"
    "wps_NextCursor (scan_result_wire ?r) = wire_cursor (if ?more then Some (token (p + ?n)) else None)"
    "wps_NextCursorExpiresAtUnixMS (scan_result_wire ?r) = wire_revision (if ?more then Some expires else None)"
    "wps_ResponseSHA256 (scan_result_wire ?r) = psr_ResponseSHA256 ?r"
    by (simp_all add: scan_result_wire_def fields)
  have len: "length (number_entries p ?kvs) = min ?n (length snapshot - p)" by (simp add: number_entries_def)
  have "\<not> scan_page_shape_wrong (scan_result_wire ?r) (length (number_entries p ?kvs)) q"
  proof (cases "ps_cursor q")
    case None
    then show ?thesis
      unfolding scan_page_shape_wrong_def w len using at h(6) by (auto simp: wire_cursor_def wire_revision_def cursor_at_def)
  next
    case (Some c)
    then have p: "c = token p" "0 < p" "p < length snapshot" using at by (simp_all add: cursor_at_def)
    have "unat (of_nat p :: uint64) = p" using p(3) h(1) by (simp add: unat_of_nat)
    then have "(of_nat p :: uint64) \<noteq> 0" using p(2) by (metis unat_0 less_numeral_extra(3))
    moreover have "cur_value (token (p + ?n)) \<noteq> cur_value (token p)" if ?more
      using that p(3) limit(1) inj_on_eq_iff [OF h(5), of "p + ?n" p] by (metis ConditionalPrefixScanCursor.equality add_cancel_right_right lessThan_iff
        less_numeral_extra(3) old.unit.exhaust)
    ultimately show ?thesis
      unfolding scan_page_shape_wrong_def w len using Some p limit h(6) by (auto simp: wire_cursor_def wire_revision_def)
  qed
  moreover have "conditionalPrefixScanCursorPattern (cur_value (token x))" for x using h(4) [of x] by (simp add: cursor_valid_def)
  moreover have "conditionalPrefixScanResponseSHA (scan_result_wire ?r) = psr_ResponseSHA256 ?r" by (simp add: conditionalPrefixScanResponseSHA_def sha)
  moreover have "sha_pattern (psr_ResponseSHA256 ?r)" by (simp add: sha)
  ultimately have "verifyConditionalPrefixScanWire (scan_result_wire ?r) q = Inr ()"
    using loop h(7) unfolding verifyConditionalPrefixScanWire_def w
    by (cases "ps_requiredRevision q") (auto simp: same_cursor cursor_from_wire same_revision_option wire_revision_present fence_kept_def not_less
        wire_cursor_def cursor_text_def)
  moreover have "conditionalPrefixScanResultFromWire (scan_result_wire ?r) = ?r" by (rule from_wire) (rule fields(1))
  moreover have "\<not> maxConditionalPrefixScanResponseBytes - conditionalPrefixScanResponseHeadroom < length (scan_text ?r)"
    using h(9) by (simp add: not_less)
  ultimately show ?thesis by (simp add: decodeConditionalPrefixScanResult_def encode_scan_request q d)
qed


section \<open>Following the continuations\<close>

text \<open>A server finds the position its token stands for; the client asks again with every continuation it is given.\<close>

definition serve_scan :: "(bytes \<times> bytes) list \<Rightarrow> (nat \<Rightarrow> ConditionalPrefixScanCursor) \<Rightarrow> uint64 \<Rightarrow> uint64 \<Rightarrow> uint64
    \<Rightarrow> ConditionalPrefixScanRequest \<Rightarrow> string" where
  "serve_scan snapshot token observed revision expires q =
     (let p = (case ps_cursor q of None \<Rightarrow> Some 0 | Some c \<Rightarrow> List.find (\<lambda>p. token p = c) [0..<length snapshot])
      in case p of None \<Rightarrow> ''null'' | Some p \<Rightarrow> scan_text (scan_page snapshot token observed revision expires q p))"

fun read_scan :: "nat \<Rightarrow> (ConditionalPrefixScanRequest \<Rightarrow> string) \<Rightarrow> ConditionalPrefixScanRequest \<Rightarrow> (bytes \<times> bytes) list result" where
  "read_scan 0 serve q = Inl (ErrorString ''scan not finished'')"
| "read_scan (Suc fuel) serve q =
     (case decodeConditionalPrefixScanResult (serve q) q of
        Inl err \<Rightarrow> Inl err
      | Inr r \<Rightarrow>
          let entries = map (\<lambda>e. (pe_Key e, pe_Value e)) (psr_Entries r)
          in case Continuation r q of
               Inl err \<Rightarrow> Inl err
             | Inr None \<Rightarrow> Inr entries
             | Inr (Some q') \<Rightarrow> (case read_scan fuel serve q' of Inl err \<Rightarrow> Inl err | Inr rest \<Rightarrow> Inr (entries @ rest)))"

lemma server_any_cursor:
  "honest_server snapshot token observed revision expires (q\<lparr>ps_cursor := c\<rparr>) = honest_server snapshot token observed revision expires q"
  by (simp add: honest_server_def)

lemma numbered_pairs: "map (\<lambda>e. (pe_Key e, pe_Value e)) (number_entries i kvs) = kvs"
  by (induction kvs arbitrary: i) (auto simp: number_entries_def)

lemma find_token:
  assumes "inj_on token {..<n}" "p < n"
  shows "List.find (\<lambda>i. token i = token p) [0..<n] = Some p"
  using assms unfolding find_Some_iff
  by (intro exI [of _ p]) (auto dest: inj_onD)

lemma server_position:
  assumes "honest_server snapshot token observed revision expires q" "cursor_at token (length snapshot) (ps_cursor q) p"
  shows "serve_scan snapshot token observed revision expires q = scan_text (scan_page snapshot token observed revision expires q p)"
proof -
  have "inj_on token {..<length snapshot}" using assms(1) unfolding honest_server_def by blast
  then show ?thesis
    using assms(2) find_token [of token "length snapshot" p] by (auto simp: serve_scan_def cursor_at_def split: option.splits)
qed

lemma read_scan_from:
  assumes "scan_request_ok q" "honest_server snapshot token observed revision expires q" "cursor_at token (length snapshot) (ps_cursor q) p"
    "length snapshot - p < fuel"
  shows "read_scan fuel (serve_scan snapshot token observed revision expires) q = Inr (drop p snapshot)"
  using assms
proof (induction fuel arbitrary: q p)
  case (Suc fuel)
  let ?r = "scan_page snapshot token observed revision expires q p" and ?n = "unat (ps_limit q)"
  note d = scan_page_accepted [OF Suc.prems(1-3)]
  note c = continued [OF conjunct1 [OF accepted_scan_page [OF d]] Suc.prems(1)]
  have r: "psr_Entries ?r = number_entries p (take ?n (drop p snapshot))"
    "psr_NextCursor ?r = (if p + ?n < length snapshot then Some (token (p + ?n)) else None)"
    by (simp_all add: scan_page_def Let_def)
  note step = d server_position [OF Suc.prems(2,3)] c(1) r numbered_pairs
  show ?case
  proof (cases "p + ?n < length snapshot")
    case True
    let ?q = "q\<lparr>ps_cursor := Some (token (p + ?n))\<rparr>"
    have limit: "0 < ?n" using Suc.prems(1) by (auto simp: scan_request_ok_def unat_gt_0)
    have "read_scan fuel (serve_scan snapshot token observed revision expires) ?q = Inr (drop (p + ?n) snapshot)"
    proof (rule Suc.IH)
      show "scan_request_ok ?q" using c(2) True by (simp add: r)
      show "honest_server snapshot token observed revision expires ?q" using Suc.prems(2) by (simp only: server_any_cursor)
      show "cursor_at token (length snapshot) (ps_cursor ?q) (p + ?n)" using True limit by (simp add: cursor_at_def)
      show "length snapshot - (p + ?n) < fuel" using Suc.prems(4) True limit by linarith
    qed
    moreover have "take ?n (drop p snapshot) @ drop (p + ?n) snapshot = drop p snapshot"
      by (metis add.commute append_take_drop_id drop_drop)
    ultimately show ?thesis using True by (simp add: step)
  qed (simp add: step)
qed simp

text \<open>
  C29: following continuations reads the snapshot and ends. Against a server that holds an ordered snapshot within the
  bounds, a client that starts without a cursor and asks again with every continuation it is given reads exactly the
  entries of the snapshot, in order, and needs at most one request per entry and one more.
\<close>

theorem scan_reads_snapshot:
  assumes "scan_request_ok q" "ps_cursor q = None" "honest_server snapshot token observed revision expires q" "length snapshot < fuel"
  shows "read_scan fuel (serve_scan snapshot token observed revision expires) q = Inr snapshot"
  using read_scan_from [of q snapshot token observed revision expires 0 fuel] assms by (simp add: cursor_at_def)

section \<open>A scan of two entries, one per page\<close>

definition demo_scan :: ConditionalPrefixScanRequest where
  "demo_scan = \<lparr>ps_requestID = ''r'', ps_namespace = ''ns'', ps_prefix = [1], ps_limit = 1, ps_cursor = None, ps_requiredRevision = Some 4\<rparr>"

definition demo_entries :: "(bytes \<times> bytes) list" where
  "demo_entries = [([1, 1], [7]), ([1, 2], [])]"

definition demo_token :: "nat \<Rightarrow> ConditionalPrefixScanCursor" where
  "demo_token p = \<lparr>cur_value = replicate 31 CHR ''0'' @ (if p = 1 then ''1'' else ''0'')\<rparr>"

lemma demo_scan_ok: "scan_request_ok demo_scan"
  by (simp add: scan_request_ok_def demo_scan_def validConditionalPrefixScanRequestID_def utf8_valid_ascii ascii_def
      conditionalNamespacePattern_def class_pattern_def namespace_char_def is_lower_def is_upper_def is_digit_def
      maxConditionalPrefixScanPrefixBytes_def maxConditionalPrefixScanEntries_def)

lemma wire_weights:
  "json_weight (wireBytes_MarshalJSON (presentWireBytes b)) \<le> 2 + 4 * length b"
  "json_weight (canonicalUint64_MarshalJSON c) \<le> 122" "json_weight (nullableUint64_MarshalJSON n) \<le> 122"
  "pred_option cursor_valid u \<Longrightarrow> json_weight (wireNullableString_MarshalJSON (wire_cursor u)) \<le> 194"
proof -
  have "length (nat_str (unat x)) \<le> 3" for x :: byte using unat_width [of x] by (simp add: length_byte_str)
  then have "(\<Sum>x\<leftarrow>b. Suc (length (nat_str (unat x)))) \<le> (\<Sum>x\<leftarrow>b. 4)" by (intro sum_list_mono) (simp add: le_SucI)
  then show "json_weight (wireBytes_MarshalJSON (presentWireBytes b)) \<le> 2 + 4 * length b"
    by (simp add: wireBytes_MarshalJSON_def presentWireBytes_def comp_def sum_list_triv)
  show "json_weight (canonicalUint64_MarshalJSON c) \<le> 122" using word_digits(1) [of "cu_Value c"] by (simp add: canonicalUint64_MarshalJSON_def)
  show "json_weight (nullableUint64_MarshalJSON n) \<le> 122" using word_digits(1) [of "nu_Value n"] by (simp add: nullableUint64_MarshalJSON_def)
  show "pred_option cursor_valid u \<Longrightarrow> json_weight (wireNullableString_MarshalJSON (wire_cursor u)) \<le> 194"
    by (cases u) (simp_all add: wireNullableString_MarshalJSON_def wire_cursor_def cursor_valid_def conditionalPrefixScanCursorPattern_def)
qed

lemma scan_text_weight:
  assumes "pred_option cursor_valid (psr_Cursor r)" "pred_option cursor_valid (psr_NextCursor r)" "length (psr_ResponseSHA256 r) = 64"
    "list_all (\<lambda>e. length (pe_Key e) \<le> 2 \<and> length (pe_Value e) \<le> 2) (psr_Entries r)" "length (psr_Entries r) \<le> 2"
    "length (psr_RequestID r) \<le> 2" "length (psr_Namespace r) \<le> 2" "length (psr_Prefix r) \<le> 2"
  shows "length (scan_text r) \<le> maxConditionalPrefixScanResponseBytes - conditionalPrefixScanResponseHeadroom"
proof -
  have e: "json_weight (scan_entry_json (scan_entry_wire e)) \<le> 300" if "length (pe_Key e) \<le> 2" "length (pe_Value e) \<le> 2" for e
    using that wire_weights(1) [of "pe_Key e"] wire_weights(1) [of "pe_Value e"] wire_weights(2) [of "wpe_Index (scan_entry_wire e)"]
    by (simp add: scan_entry_json_def)
  have es: "(\<Sum>e\<leftarrow>psr_Entries r. Suc (json_weight (scan_entry_json (scan_entry_wire e)))) \<le> (\<Sum>e\<leftarrow>psr_Entries r. 301)"
    using assms(4) e by (intro sum_list_mono) (auto simp: list_all_iff)
  note w = wire_weights(4) [OF assms(1)] wire_weights(4) [OF assms(2)] wire_weights(3) [of "wire_revision (psr_RequiredRevision r)"]
    wire_weights(3) [of "wire_revision (psr_NextCursorExpiresAtUnixMillis r)"] wire_weights(1) [of "psr_Prefix r"]
    wire_weights(2) [of "\<lparr>cu_Value = psr_ObservedRevision r, cu_Present = True\<rparr>"] wire_weights(2) [of "\<lparr>cu_Value = psr_SnapshotRevision r, cu_Present = True\<rparr>"]
    wire_weights(2) [of "\<lparr>cu_Value = psr_Position r, cu_Present = True\<rparr>"] word_digits(2) [of "psr_Version r"] word_digits(2) [of "psr_Limit r"]
  have "json_weight (scan_json (scan_result_wire r)) \<le> 5000"
    using es w assms(3,5-8) by (simp add: scan_json_def scan_result_wire_def comp_def sum_list_triv)
  then show ?thesis
    using marshal_weight [of "scan_json (scan_result_wire r)"]
    by (simp add: scan_text_def maxConditionalPrefixScanResponseBytes_def conditionalPrefixScanResponseHeadroom_def)
qed

lemma demo_server: "honest_server demo_entries demo_token 5 9 77 demo_scan"
proof -
  have t: "cursor_valid (demo_token p)" for p
    by (auto simp: cursor_valid_def conditionalPrefixScanCursorPattern_def demo_token_def lower_hex_def list_all_iff)
  have sha: "length (sha256_hex m) = 64" for m using sha_pattern_sha256_hex [of m] by (simp add: sha_pattern_def)
  have page: "take (unat (ps_limit demo_scan)) (drop p demo_entries) \<in> {[], [([1, 1], [7])], [([1, 2], [])]}" for p
    by (cases p; cases "p - 1") (auto simp: demo_entries_def demo_scan_def)
  have fits: "length (scan_text (scan_page demo_entries demo_token 5 9 77 (demo_scan\<lparr>ps_cursor := c\<rparr>) p))
      \<le> maxConditionalPrefixScanResponseBytes - conditionalPrefixScanResponseHeadroom" if "pred_option cursor_valid c" for p c
    using that t page [of p]
    by (intro scan_text_weight) (auto simp: scan_page_def Let_def number_entries_def demo_scan_def sha)
  have "key_less [1, 1] [1, 2]" by (simp add: key_less_def)
  moreover have "inj_on demo_token {..<Suc (Suc 0)}" by (auto simp: inj_on_def demo_token_def less_Suc_eq)
  moreover have "sum_list (map (\<lambda>(k, v). length v) (take (unat (ps_limit demo_scan)) (drop p demo_entries))) \<le> maxConditionalPrefixScanTotalValueBytes" for p
    using page [of p] by (auto simp: maxConditionalPrefixScanTotalValueBytes_def)
  ultimately show ?thesis
    unfolding honest_server_def using t fits
    by (simp add: demo_entries_def  has_prefix_def demo_scan_def maxConditionalPrefixScanKeyBytes_def maxConditionalPrefixScanValueBytes_def fence_kept_def)
qed

theorem scan_reads_snapshot_witness:
  "read_scan 3 (serve_scan demo_entries demo_token 5 9 77) demo_scan = Inr [([1, 1], [7]), ([1, 2], [])]"
  using scan_reads_snapshot [OF demo_scan_ok _ demo_server, of 3] by (simp add: demo_scan_def demo_entries_def)

lemma demo_page:
  "decodeConditionalPrefixScanResult (scan_text (scan_page demo_entries demo_token 5 9 77 demo_scan 0)) demo_scan
     = Inr (scan_page demo_entries demo_token 5 9 77 demo_scan 0)"
  by (rule scan_page_accepted [OF demo_scan_ok demo_server]) (simp add: cursor_at_def demo_scan_def)

section \<open>Accepted pages and continuations\<close>

text \<open>
  C30: an accepted page of a prefix scan is ordered, bounded and bound. It repeats the request, was observed at or
  after the required revision, its keys carry the prefix and ascend strictly in byte order, its indices count on from
  its position without overflow, key, value and total sizes are within the bounds, a first page starts at position 0
  and only a full page has a next cursor, which is new; and two accepted pages with the same digest are equal, or the
  two messages that were hashed are a SHA-256 collision.
\<close>

theorem scan_page_is_ordered:
  assumes "decodeConditionalPrefixScanResult data1 q1 = Inr r1" "decodeConditionalPrefixScanResult data2 q2 = Inr r2"
  shows "scan_page_ok q1 r1 \<and> (psr_ResponseSHA256 r1 \<noteq> psr_ResponseSHA256 r2 \<or> r1 = r2
    \<or> hash_collision (prefix_scan_message (scan_result_wire r1), prefix_scan_message (scan_result_wire r2)))"
proof -
  note a = accepted_scan_page [OF assms(1)] accepted_scan_page [OF assms(2)]
  have "r1 = r2" if sha: "psr_ResponseSHA256 r1 = psr_ResponseSHA256 r2"
    and none: "\<not> hash_collision (prefix_scan_message (scan_result_wire r1), prefix_scan_message (scan_result_wire r2))"
  proof -
    have c: "scan_page_content (scan_result_wire r1) = scan_page_content (scan_result_wire r2)"
      using a sha none ps.digest_binds [of "scan_result_wire r1" "scan_result_wire r2"] by auto
    have inj: "inj (cur_value :: ConditionalPrefixScanCursor \<Rightarrow> string)" by (intro injI ConditionalPrefixScanCursor.equality) simp_all
    have "map (entry_content \<circ> scan_entry_wire) (psr_Entries r1) = map (entry_content \<circ> scan_entry_wire) (psr_Entries r2)"
      "map_option cur_value (psr_Cursor r1) = map_option cur_value (psr_Cursor r2)"
      "map_option cur_value (psr_NextCursor r1) = map_option cur_value (psr_NextCursor r2)"
      using c by (simp_all add: scan_page_content_def scan_result_wire_def)
    moreover have "inj (entry_content \<circ> scan_entry_wire)"
      by (intro injI ConditionalPrefixScanEntry.equality) (simp_all add: entry_content_def scan_entry_wire_def)
    ultimately have "psr_Entries r1 = psr_Entries r2" "psr_Cursor r1 = psr_Cursor r2" "psr_NextCursor r1 = psr_NextCursor r2"
      using inj by (auto dest: map_injective option.inj_map [THEN injD])
    then show "r1 = r2"
      using c sha by (cases r1; cases r2) (simp add: scan_page_content_def scan_result_wire_def)
  qed
  then show ?thesis using a by blast
qed

theorem scan_page_is_ordered_witness: "\<exists>data r. decodeConditionalPrefixScanResult data demo_scan = Inr r \<and> scan_page_ok demo_scan r"
  using scan_page_is_ordered [OF demo_page demo_page] demo_page by blast

text \<open>
  A scan can always go on. For an accepted page \<open>Continuation\<close> never fails: it is terminal exactly when the page
  has no next cursor, and otherwise gives the same request with only the cursor replaced, which every entry point
  accepts again and whose encoding stays within 64 KiB.
\<close>

theorem scan_continues:
  assumes "decodeConditionalPrefixScanResult data q = Inr r"
  shows "Continuation r q = Inr (map_option (\<lambda>c. q\<lparr>ps_cursor := Some c\<rparr>) (psr_NextCursor r))
    \<and> pred_option (\<lambda>c. encodeConditionalPrefixScanRequest (q\<lparr>ps_cursor := Some c\<rparr>) = Inr (scan_wire (q\<lparr>ps_cursor := Some c\<rparr>))
        \<and> length (print_json (wirePrefixScanRequest_json (scan_wire (q\<lparr>ps_cursor := Some c\<rparr>)))) \<le> maxConditionalPrefixScanRequestBytes) (psr_NextCursor r)"
proof -
  note a = accepted_scan_page [OF assms]
  show ?thesis
    using continued [of q r] a scan_request_size by (cases "psr_NextCursor r") (simp_all add: encode_scan_request)
qed

theorem scan_continues_witness:
  "Continuation (scan_page demo_entries demo_token 5 9 77 demo_scan 0) demo_scan = Inr (Some (demo_scan\<lparr>ps_cursor := Some (demo_token 1)\<rparr>))"
  using scan_continues [OF demo_page] by (simp add: scan_page_def Let_def demo_scan_def demo_entries_def)

end
