(* ===== verification/GoStrings.thy ===== *)
theory GoStrings
  imports Database
begin

text \<open>
  What the sources use of Go's \<open>strings\<close> package on UTF-8 text: white space and trimming, fields, prefixes and
  substrings, and the change of case. Upper and lower case are only compared with ASCII words, so a letter
  whose other case is not an ASCII letter stays as it is; the four letters outside ASCII whose other case is an ASCII
  letter (U+0130, U+0131, U+017F and U+212A) are mapped.
\<close>

text \<open>The number of bytes of the white space rune at the front, 0 if there is none.\<close>

definition space_width :: "string \<Rightarrow> nat" where
  "space_width s =
     (case s of
        [] \<Rightarrow> 0
      | c # s1 \<Rightarrow>
          if c \<in> {CHR 0x20, CHR 0x09, CHR 0x0A, CHR 0x0B, CHR 0x0C, CHR 0x0D} then 1
          else if c = CHR 0xC2 \<and> take 1 s1 \<in> {[CHR 0x85], [CHR 0xA0]} then 2
          else if take 3 s \<in> {[CHR 0xE1, CHR 0x9A, CHR 0x80], [CHR 0xE2, CHR 0x80, CHR 0xA8], [CHR 0xE2, CHR 0x80, CHR 0xA9],
               [CHR 0xE2, CHR 0x80, CHR 0xAF], [CHR 0xE2, CHR 0x81, CHR 0x9F], [CHR 0xE3, CHR 0x80, CHR 0x80]} then 3
          else if take 2 s = [CHR 0xE2, CHR 0x80] \<and> list_ex (\<lambda>d. 0x80 \<le> (of_char d :: nat) \<and> (of_char d :: nat) \<le> 0x8A) (take 1 (drop 2 s)) then 3
          else 0)"

lemma space_width_le: "space_width s \<le> length s"
  by (cases s; cases "tl s"; cases "tl (tl s)") (auto simp: space_width_def)

function trim_left :: "string \<Rightarrow> string" where
  "trim_left s = (if space_width s = 0 then s else trim_left (drop (space_width s) s))"
  by pat_completeness auto
termination
proof (relation "measure length", goal_cases)
  case (2 s)
  then show ?case using space_width_le [of s] by simp
qed simp

declare trim_left.simps [simp del]

fun trim_right :: "string \<Rightarrow> string" where
  "trim_right [] = []"
| "trim_right (c # s) = (if blank (c # s) then [] else c # trim_right s)"

definition TrimSpace :: "string \<Rightarrow> string" where
  "TrimSpace s = trim_right (trim_left s)"

text \<open>\<open>strings.Fields\<close>: the runs between white space.\<close>

function fields_from :: "string \<Rightarrow> string \<Rightarrow> string list" where
  "fields_from word s =
     (if space_width s \<noteq> 0 then (if word = [] then [] else [word]) @ fields_from [] (drop (space_width s) s)
      else case s of [] \<Rightarrow> (if word = [] then [] else [word]) | c # s1 \<Rightarrow> fields_from (word @ [c]) s1)"
  by pat_completeness auto
termination
proof (relation "measure (\<lambda>(_, s). length s)", goal_cases)
  case (2 word s)
  then show ?case using space_width_le [of s] by simp
qed simp_all

declare fields_from.simps [simp del]

definition Fields :: "string \<Rightarrow> string list" where
  "Fields s = fields_from [] s"

definition HasPrefix :: "string \<Rightarrow> string \<Rightarrow> bool" where
  "HasPrefix s prefix \<longleftrightarrow> take (length prefix) s = prefix"

fun Contains :: "string \<Rightarrow> string \<Rightarrow> bool" where
  "Contains [] t = (t = [])"
| "Contains (c # s) t = (HasPrefix (c # s) t \<or> Contains s t)"

definition TrimSuffix :: "string \<Rightarrow> string \<Rightarrow> string" where
  "TrimSuffix s suffix =
     (if length suffix \<le> length s \<and> drop (length s - length suffix) s = suffix then take (length s - length suffix) s else s)"

fun ToUpper :: "string \<Rightarrow> string" where
  "ToUpper [] = []"
| "ToUpper (c # s) =
     (if is_lower c then char_of ((of_char c :: nat) - 32) # ToUpper s
      else if c = CHR 0xC4 \<and> take 1 s = [CHR 0xB1] then CHR ''I'' # ToUpper (drop 1 s)
      else if c = CHR 0xC5 \<and> take 1 s = [CHR 0xBF] then CHR ''S'' # ToUpper (drop 1 s)
      else c # ToUpper s)"

fun ToLower :: "string \<Rightarrow> string" where
  "ToLower [] = []"
| "ToLower (c # s) =
     (if is_upper c then char_of ((of_char c :: nat) + 32) # ToLower s
      else if c = CHR 0xC4 \<and> take 1 s = [CHR 0xB0] then CHR ''i'' # ToLower (drop 1 s)
      else if c = CHR 0xE2 \<and> take 2 s = [CHR 0x84, CHR 0xAA] then CHR ''k'' # ToLower (drop 2 s)
      else c # ToLower s)"

section \<open>Facts\<close>

lemma blank_space:
  "blank s \<longleftrightarrow> s = [] \<or> (space_width s \<noteq> 0 \<and> blank (drop (space_width s) s))"
  by (cases s; cases "tl s"; cases "tl (tl s)") (auto simp: space_width_def)

lemma blank_trim_left: "blank (trim_left s) = blank s"
proof (induction s rule: trim_left.induct)
  case (1 s)
  show ?case
  proof (cases "space_width s = 0")
    case True
    then show ?thesis by (simp add: trim_left.simps [of s])
  next
    case False
    then have "blank s = blank (drop (space_width s) s)" by (subst blank_space) (auto simp: space_width_def)
    then show ?thesis using "1" [OF False] False by (simp only: trim_left.simps [of s] if_False)
  qed
qed

text \<open>The two ways the sources test for an empty text agree.\<close>

lemma TrimSpace_empty: "TrimSpace s = [] \<longleftrightarrow> blank s"
proof -
  have "trim_right t = [] \<longleftrightarrow> blank t" for t by (cases t) auto
  then show ?thesis by (simp add: TrimSpace_def blank_trim_left)
qed

lemma trim_left_front: "space_width (trim_left s) = 0"
  by (induction s rule: trim_left.induct) (auto simp: trim_left.simps)

end
