(* ===== verification/ServerClient.thy ===== *)
theory ServerClient
  imports GoStrings PrefixScan CommandDigest
begin

text \<open>
  The HTTP client of a remote server, \<open>internal/serverprotocol/client.go\<close>: one exchange (\<open>do\<close>), the response
  envelope, the classification of failures, and the operations. The network and the server behind it are an argument,
  a function from its state and a request to its state after the exchange and a response or an error.
\<close>

definition maxServerRequestBytes :: nat where "maxServerRequestBytes = 32 * 2 ^ 20"
definition maxServerResponseBytes :: nat where "maxServerResponseBytes = 16 * 2 ^ 20"
definition maxServerHealthBytes :: nat where "maxServerHealthBytes = 2 ^ 20"
definition maxServerKVKeyBytes :: nat where "maxServerKVKeyBytes = 4 * 2 ^ 10"
definition maxServerKVValueBytes :: nat where "maxServerKVValueBytes = 8 * 2 ^ 20"

section \<open>Requests and responses\<close>

record http_request =
  rq_Method :: string
  rq_URL :: string
  rq_Header :: "(string \<times> string) list"
  rq_Body :: string

text \<open>
  A response: \<open>Header.Get\<close> gives the empty string for an absent content type, and the length is -1 when it is not
  known. The body is the bytes that can be read before the end or before a read error.
\<close>

record http_response =
  rs_StatusCode :: int
  rs_ContentType :: string
  rs_ContentLength :: int
  rs_Body :: string
  rs_ReadError :: "go_error option"

text \<open>What the client uses of \<open>net/http\<close>: whether \<open>NewRequestWithContext\<close> refuses a URL, and \<open>Client.Do\<close>.\<close>

record 'w http =
  http_url_error :: "string \<Rightarrow> go_error option"
  http_Do :: "'w \<Rightarrow> http_request \<Rightarrow> 'w \<times> http_response result"

text \<open>A context is nil, live, or has ended with an error.\<close>

type_synonym go_context = "go_error option option"

text \<open>\<open>io.ReadAll\<close> of the body cut off at one byte more than the limit.\<close>

definition read_limited :: "nat \<Rightarrow> http_response \<Rightarrow> string result" where
  "read_limited limit response =
     (if limit < length (rs_Body response) then Inr (take (limit + 1) (rs_Body response))
      else case rs_ReadError response of Some err \<Rightarrow> Inl err | None \<Rightarrow> Inr (rs_Body response))"

subsection \<open>Media types\<close>

text \<open>\<open>mime.ParseMediaType\<close>, of which the client uses the type and whether there was an error.\<close>

definition token_char :: "char \<Rightarrow> bool" where
  "token_char c \<longleftrightarrow> 0x20 < (of_char c :: nat) \<and> (of_char c :: nat) < 0x7F \<and> c \<notin> set (''()<>@,;:/[]?='' @ [CHR 0x5C, CHR 0x22])"

definition consumeToken :: "string \<Rightarrow> string \<times> string" where
  "consumeToken v = (takeWhile token_char v, dropWhile token_char v)"

definition checkMediaTypeDisposition :: "string \<Rightarrow> unit result" where
  "checkMediaTypeDisposition s =
     (let (typ, rest) = consumeToken s
      in if typ = [] then Inl (ErrorString ''mime: no media type'')
         else case rest of
           [] \<Rightarrow> Inr ()
         | c # rest1 \<Rightarrow>
             if c \<noteq> CHR ''/'' then Inl (ErrorString ''mime: expected slash after first token'')
             else
               (let (subtype, rest2) = consumeToken rest1
                in if subtype = [] then Inl (ErrorString ''mime: expected token after slash'')
                   else if rest2 \<noteq> [] then Inl (ErrorString ''mime: unexpected content after media subtype'')
                   else Inr ()))"

text \<open>A quoted value after its opening quote: the text so far and the rest, nothing if it does not end or spans lines.\<close>

fun quoted_value :: "string \<Rightarrow> (string \<times> string) option" where
  "quoted_value [] = None"
| "quoted_value (c # s) =
     (if c = CHR 0x22 then Some ([], s)
      else if c = CHR 0x5C \<and> list_ex (\<lambda>d. d \<in> set (''()<>@,;:/[]?='' @ [CHR 0x5C, CHR 0x22])) (take 1 s)
      then map_option (apfst (Cons (hd s))) (quoted_value (tl s))
      else if c = CHR 0x0D \<or> c = CHR 0x0A then None
      else map_option (apfst (Cons c)) (quoted_value s))"

definition consumeValue :: "string \<Rightarrow> string \<times> string" where
  "consumeValue v =
     (case v of
        [] \<Rightarrow> ([], [])
      | c # s \<Rightarrow> if c \<noteq> CHR 0x22 then consumeToken v else case quoted_value s of None \<Rightarrow> ([], v) | Some r \<Rightarrow> r)"

text \<open>One parameter with its leading semicolon: name, value and rest.\<close>

definition consumeMediaParam :: "string \<Rightarrow> (string \<times> string \<times> string) option" where
  "consumeMediaParam v =
     (case trim_left v of
        [] \<Rightarrow> None
      | c # rest \<Rightarrow>
          if c \<noteq> CHR '';'' then None
          else
            (let (param, rest1) = consumeToken (trim_left rest)
             in if param = [] then None
                else case trim_left rest1 of
                  [] \<Rightarrow> None
                | d # rest2 \<Rightarrow>
                    if d \<noteq> CHR ''='' then None
                    else
                      (let v1 = trim_left rest2; (value, rest3) = consumeValue v1
                       in if value = [] \<and> rest3 = v1 then None else Some (ToLower param, value, rest3))))"

text \<open>The loop over the parameters. Each round consumes a semicolon, so the length of the text bounds the rounds.\<close>

fun media_params :: "nat \<Rightarrow> (string \<times> string) list \<Rightarrow> string \<Rightarrow> unit result" where
  "media_params 0 seen v = Inr ()"
| "media_params (Suc n) seen v =
     (if trim_left v = [] then Inr ()
      else case consumeMediaParam (trim_left v) of
        None \<Rightarrow> if TrimSpace v = '';'' then Inr () else Inl (ErrorString ''mime: invalid media parameter'')
      | Some (key, value, rest) \<Rightarrow>
          if map_of seen key \<noteq> None \<and> map_of seen key \<noteq> Some value then Inl (ErrorString ''mime: duplicate parameter name'')
          else media_params n ((key, value) # seen) rest)"

definition ParseMediaType :: "string \<Rightarrow> string result" where
  "ParseMediaType v =
     (let base = takeWhile (\<lambda>c. c \<noteq> CHR '';'') v; mediatype = TrimSpace (ToLower base)
      in case checkMediaTypeDisposition mediatype of
           Inl err \<Rightarrow> Inl err
         | Inr _ \<Rightarrow>
             (case media_params (length v) [] (drop (length base) v) of
                Inl err \<Rightarrow> Inl err
              | Inr _ \<Rightarrow> Inr mediatype))"

section \<open>The client\<close>

record ServerClient =
  sc_healthURL :: string
  sc_kvURL :: string
  sc_storageURL :: string
  sc_sqlURL :: string
  sc_token :: string
  sc_httpClient :: bool

text \<open>The receiver may be nil, and the HTTP client of a value the constructor did not make is nil.\<close>

definition configured :: "ServerClient option \<Rightarrow> bool" where
  "configured client =
     (case client of
        None \<Rightarrow> False
      | Some c \<Rightarrow> sc_httpClient c \<and> sc_healthURL c \<noteq> [] \<and> sc_kvURL c \<noteq> [] \<and> sc_storageURL c \<noteq> [] \<and> sc_sqlURL c \<noteq> [])"

text \<open>The runes of a token are the bytes where it is ASCII; a byte above \<open>0x7e\<close> makes a rune above it.\<close>

definition validateServerToken :: "string \<Rightarrow> unit result" where
  "validateServerToken token =
     (if list_ex (\<lambda>c. (of_char c :: nat) < 0x21 \<or> 0x7E < (of_char c :: nat)) token
      then Inl (newError CodeInvalidArgument ''create server client'' ''token contains whitespace, a control byte, or non-ASCII data'' None)
      else Inr ())"

definition remoteProtocolError :: "string \<Rightarrow> go_error \<Rightarrow> go_error" where
  "remoteProtocolError operation cause =
     newError CodeProtocolViolation operation ''remote Server response violated its typed contract'' (Some cause)"

definition remoteTransportError :: "string \<Rightarrow> string \<Rightarrow> go_error option \<Rightarrow> bool \<Rightarrow> go_error" where
  "remoteTransportError operation message cause possiblyApplied =
     (if possiblyApplied then newError CodeResultIndeterminate operation ''remote write acknowledgement is indeterminate'' cause
      else newError CodeNativeUnavailable operation message cause)"

definition remoteResponseError :: "string \<Rightarrow> string \<Rightarrow> go_error option \<Rightarrow> bool \<Rightarrow> go_error" where
  "remoteResponseError operation message cause possiblyApplied =
     (if possiblyApplied then newError CodeResultIndeterminate operation ''remote write acknowledgement is indeterminate'' cause
      else newError CodeProtocolViolation operation message cause)"

subsection \<open>The response envelope\<close>

record serverResponseEnvelope =
  env_OK :: "bool option"
  env_Data :: raw_message
  env_Error :: raw_message
  env_Code :: raw_message
  env_Term :: raw_message
  env_LeaderHint :: raw_message

definition envelope_fields :: "string list" where
  "envelope_fields = [''ok'', ''data'', ''error'', ''code'', ''term'', ''leader_hint'']"

definition zero_serverResponse :: serverResponseEnvelope where
  "zero_serverResponse = \<lparr>env_OK = None, env_Data = None, env_Error = None, env_Code = None, env_Term = None, env_LeaderHint = None\<rparr>"

definition serverResponse_decoder :: "serverResponseEnvelope decoder" where
  "serverResponse_decoder = decode_struct envelope_fields
     (\<lambda>f. if f = ''ok'' then field env_OK env_OK_update (json_ptr False json_bool)
          else if f = ''data'' then field env_Data env_Data_update json_raw
          else if f = ''error'' then field env_Error env_Error_update json_raw
          else if f = ''code'' then field env_Code env_Code_update json_raw
          else if f = ''term'' then field env_Term env_Term_update json_raw
          else field env_LeaderHint env_LeaderHint_update json_raw)"

text \<open>
  A raw message has its bytes besides the value they spell: the text of each member of the object that is the
  response, without the space around it. The first argument bounds the recursion as in \<open>parse_json\<close>.
\<close>

fun member_texts :: "nat \<Rightarrow> string \<Rightarrow> (string \<times> string) list" where
  "member_texts 0 s = []"
| "member_texts (Suc n) s =
     (case skip_space s of
        [] \<Rightarrow> []
      | q # s1 \<Rightarrow>
          (case parse_string s1 of
             None \<Rightarrow> []
           | Some (k, s2) \<Rightarrow>
               (let s3 = skip_space (tl (skip_space s2))
                in case parse_value n s3 of
                     None \<Rightarrow> []
                   | Some (v, s4) \<Rightarrow>
                       (k, take (length s3 - length s4) s3)
                         # (case skip_space s4 of [] \<Rightarrow> [] | e # s5 \<Rightarrow> if e = CHR '','' then member_texts n s5 else []))))"

definition data_text :: "string \<Rightarrow> string" where
  "data_text data =
     (case filter (\<lambda>(k, t). find_field envelope_fields k = Some ''data'') (member_texts (2 * length data + 2) (tl (skip_space data))) of
        [] \<Rightarrow> []
      | kts \<Rightarrow> snd (last kts))"

text \<open>What the client hands on: the data of the envelope as a value and as its bytes, or nothing.\<close>

type_synonym response_data = "(json \<times> string) option"

definition remote_violation :: "string \<Rightarrow> string \<Rightarrow> 'a result" where
  "remote_violation operation message = Inl (remoteProtocolError operation (ErrorString message))"

definition failed_response :: "string \<Rightarrow> serverResponseEnvelope \<Rightarrow> 'a result" where
  "failed_response operation envelope =
     (if env_Data envelope \<noteq> None then remote_violation operation ''failed response included data''
      else
        (let message = (case env_Error envelope of None \<Rightarrow> Inl (ErrorString []) | Some raw \<Rightarrow> decodeStrictRaw json_string [] raw);
             nativeCode = (case env_Code envelope of None \<Rightarrow> Inr [] | Some raw \<Rightarrow> decodeStrictRaw json_string [] raw)
         in case message of
              Inl _ \<Rightarrow> remote_violation operation ''failed response omitted a valid error message''
            | Inr message \<Rightarrow>
                if message = [] then remote_violation operation ''failed response omitted a valid error message''
                else case nativeCode of
                  Inl _ \<Rightarrow> remote_violation operation ''failed response contained an invalid machine code''
                | Inr nativeCode \<Rightarrow>
                    if env_Code envelope \<noteq> None \<and> nativeCode = []
                    then remote_violation operation ''failed response contained an invalid machine code''
                    else case (case env_Term envelope of
                                 None \<Rightarrow> Inr None
                               | Some raw \<Rightarrow>
                                   (case decodeStrictRaw canonicalUint64_UnmarshalJSON zero_canonicalUint64 raw of
                                      Inl _ \<Rightarrow> remote_violation operation ''failed response contained an invalid term''
                                    | Inr wireTerm \<Rightarrow>
                                        if \<not> cu_Present wireTerm then remote_violation operation ''failed response contained an invalid term''
                                        else Inr (Some (cu_Value wireTerm)))) of
                      Inl err \<Rightarrow> Inl err
                    | Inr term \<Rightarrow>
                        (case decodeNativeLeaderHint (env_LeaderHint envelope) of
                           Inl err \<Rightarrow> Inl (remoteProtocolError operation (WrapError ''failed response contained an invalid leader hint: '' err))
                         | Inr leaderHint \<Rightarrow>
                             if (term \<noteq> None \<or> leaderHint \<noteq> None) \<and> nativeCode = []
                             then remote_violation operation ''routing metadata lacks a machine code''
                             else Inl (server_newNativeResponseError operation message nativeCode term leaderHint))))"

definition decodeServerResponse :: "string \<Rightarrow> string \<Rightarrow> bool \<Rightarrow> response_data result" where
  "decodeServerResponse data operation requireData =
     (case decodeStrictJSON serverResponse_decoder zero_serverResponse data of
        Inl err \<Rightarrow> Inl (remoteProtocolError operation err)
      | Inr envelope \<Rightarrow>
          (case env_OK envelope of
             None \<Rightarrow> remote_violation operation ''response omitted ok''
           | Some ok \<Rightarrow>
               if ok then
                 (if env_Error envelope \<noteq> None \<or> env_Code envelope \<noteq> None \<or> env_Term envelope \<noteq> None \<or> env_LeaderHint envelope \<noteq> None
                  then remote_violation operation ''successful response mixed in error metadata''
                  else if requireData \<and> (env_Data envelope = None \<or> env_Data envelope = Some JNull)
                  then remote_violation operation ''successful response omitted data''
                  else Inr (map_option (\<lambda>value. (value, data_text data)) (env_Data envelope)))
               else failed_response operation envelope))"

subsection \<open>One exchange\<close>

text \<open>The response of the server, as far as it is one; \<open>responseLimit\<close> bounds its body.\<close>

definition receive_response :: "http_response \<Rightarrow> nat \<Rightarrow> string \<Rightarrow> bool \<Rightarrow> bool \<Rightarrow> response_data result" where
  "receive_response response responseLimit operation possiblyApplied requireData =
     (if rs_StatusCode response \<noteq> 200
      then Inl (remoteResponseError operation (''remote server returned HTTP '' @ int_str (rs_StatusCode response)) None possiblyApplied)
      else case ParseMediaType (rs_ContentType response) of
        Inl err \<Rightarrow> Inl (remoteResponseError operation ''remote response has an invalid content type'' (Some err) possiblyApplied)
      | Inr mediaType \<Rightarrow>
          if mediaType \<noteq> ''application/json''
          then Inl (remoteResponseError operation ''remote response has an invalid content type''
                 (Some (ErrorString (''unexpected content type '' @ quoted (rs_ContentType response)))) possiblyApplied)
          else if int responseLimit < rs_ContentLength response
          then Inl (remoteResponseError operation ''remote response exceeds the SDK transport bound'' None possiblyApplied)
          else case read_limited responseLimit response of
            Inl err \<Rightarrow> Inl (remoteResponseError operation ''remote response could not be read'' (Some err) possiblyApplied)
          | Inr data \<Rightarrow>
              if responseLimit < length data
              then Inl (remoteResponseError operation ''remote response exceeds the SDK transport bound'' None possiblyApplied)
              else case decodeServerResponse data operation requireData of
                Inl err \<Rightarrow>
                  if ErrorCodeOf err = CodeProtocolViolation
                  then Inl (remoteResponseError operation ''remote response violated the Server protocol'' (Some err) possiblyApplied)
                  else Inl err
              | Inr decoded \<Rightarrow> Inr decoded)"

text \<open>
  \<open>do\<close>. The command is nil or what \<open>marshalWithoutHTMLEscape\<close> makes of it; \<open>strings.EqualFold\<close> on the media type, which is in lower case,
  is equality.
\<close>

definition request_headers :: "ServerClient \<Rightarrow> bool \<Rightarrow> (string \<times> string) list" where
  "request_headers client body =
     [(''Accept'', ''application/json'')] @ (if body then [(''Content-Type'', ''application/json'')] else [])
     @ (if sc_token client = [] then [] else [(''Authorization'', ''Bearer '' @ sc_token client)])"

definition do_request :: "'w http \<Rightarrow> ServerClient option \<Rightarrow> 'w \<Rightarrow> go_context \<Rightarrow> string \<Rightarrow> string \<Rightarrow> string result option \<Rightarrow> nat \<Rightarrow> string
    \<Rightarrow> bool \<Rightarrow> bool \<Rightarrow> 'w \<times> response_data result" where
  "do_request http client w ctx method endpoint command responseLimit operation possiblyApplied requireData =
     (if \<not> configured client
      then (w, Inl (newError CodeNativeUnavailable operation ''server client is not configured'' None))
      else case ctx of
        None \<Rightarrow> (w, Inl (newError CodeInvalidArgument operation ''context is nil'' None))
      | Some (Some err) \<Rightarrow>
          (w, Inl (newError CodeNativeUnavailable operation ''context ended before the request could be sent'' (Some err)))
      | Some None \<Rightarrow>
          (case (case command of None \<Rightarrow> Inr [] | Some encoded \<Rightarrow> encoded) of
             Inl err \<Rightarrow> (w, Inl (newError CodeInvalidArgument operation ''request could not be JSON encoded'' (Some err)))
           | Inr body \<Rightarrow>
               if maxServerRequestBytes < length body
               then (w, Inl (newError CodeInvalidArgument operation ''request exceeds the SDK transport bound'' None))
               else case http_url_error http endpoint of
                 Some err \<Rightarrow> (w, Inl (newError CodeInvalidArgument operation ''could not construct HTTP request'' (Some err)))
               | None \<Rightarrow>
                   (let request = \<lparr>rq_Method = method, rq_URL = endpoint, rq_Header = request_headers (the client) (command \<noteq> None), rq_Body = body\<rparr>
                    in case http_Do http w request of
                      (w', Inl err) \<Rightarrow>
                        (w', Inl (remoteTransportError operation ''remote request did not yield a response'' (Some err) possiblyApplied))
                    | (w', Inr response) \<Rightarrow> (w', receive_response response responseLimit operation possiblyApplied requireData))))"

definition serverCommand_json :: "string \<Rightarrow> string \<Rightarrow> json \<Rightarrow> json" where
  "serverCommand_json cmd action params = JObj [(''cmd'', JStr cmd), (''action'', JStr action), (''params'', params)]"

definition storage :: "'w http \<Rightarrow> ServerClient option \<Rightarrow> 'w \<Rightarrow> go_context \<Rightarrow> string \<Rightarrow> json \<Rightarrow> string \<Rightarrow> bool \<Rightarrow> 'w \<times> response_data result" where
  "storage http client w ctx action params operation possiblyApplied =
     (if \<not> configured client then (w, Inl (newError CodeNativeUnavailable operation ''server client is not configured'' None))
      else do_request http client w ctx ''POST'' (sc_storageURL (the client)) (Some (Inr (print_json (serverCommand_json ''storage'' action params))))
             maxServerResponseBytes operation possiblyApplied True)"

definition kv :: "'w http \<Rightarrow> ServerClient option \<Rightarrow> 'w \<Rightarrow> go_context \<Rightarrow> string \<Rightarrow> json \<Rightarrow> string \<Rightarrow> bool \<Rightarrow> bool \<Rightarrow> 'w \<times> response_data result" where
  "kv http client w ctx action params operation possiblyApplied requireData =
     (if \<not> configured client then (w, Inl (newError CodeNativeUnavailable operation ''server client is not configured'' None))
      else do_request http client w ctx ''POST'' (sc_kvURL (the client)) (Some (Inr (print_json (serverCommand_json ''kv'' action params))))
             maxServerResponseBytes operation possiblyApplied requireData)"

section \<open>Operations\<close>

text \<open>
  The operations ask for data, so an exchange without an error has some (\<open>KvSet\<close>, which does not ask, ignores it).
\<close>

definition data_value :: "response_data \<Rightarrow> json" where
  "data_value data = (case data of None \<Rightarrow> JNull | Some (value, _) \<Rightarrow> value)"

definition data_bytes :: "response_data \<Rightarrow> string" where
  "data_bytes data = (case data of None \<Rightarrow> [] | Some (_, bytes) \<Rightarrow> bytes)"

text \<open>A struct of one field.\<close>

definition one_field :: "string \<Rightarrow> 'a decoder \<Rightarrow> 'a decoder" where
  "one_field name dec = decode_struct [name] (\<lambda>_. dec)"

definition Health :: "'w http \<Rightarrow> ServerClient option \<Rightarrow> 'w \<Rightarrow> go_context \<Rightarrow> 'w \<times> string result" where
  "Health http client w ctx =
     (if \<not> configured client then (w, Inl (newError CodeNativeUnavailable ''server health'' ''server client is not configured'' None))
      else case do_request http client w ctx ''GET'' (sc_healthURL (the client)) None maxServerHealthBytes ''server health'' False True of
        (w', Inl err) \<Rightarrow> (w', Inl err)
      | (w', Inr data) \<Rightarrow>
          (w', case decodeStrictRaw (one_field ''status'' json_string) [] (data_value data) of
                 Inl err \<Rightarrow> Inl (remoteProtocolError ''decode server health'' err)
               | Inr status \<Rightarrow>
                   if status \<noteq> ''ok''
                   then remote_violation ''decode server health'' (''unexpected health status '' @ quoted status)
                   else Inr status))"

definition ExecuteConditionalTransaction_remote :: "'w http \<Rightarrow> ServerClient option \<Rightarrow> 'w \<Rightarrow> go_context \<Rightarrow> ConditionalTransactionRequest
    \<Rightarrow> 'w \<times> ConditionalTransactionResult result" where
  "ExecuteConditionalTransaction_remote http client w ctx request =
     (case buildClosedConditionalRequest request of
        Inl err \<Rightarrow> (w, Inl err)
      | Inr built \<Rightarrow>
          (case storage http client w ctx ''conditional_batch'' (wireConditionalRequest_json (built_wire built)) ''remote conditional transaction'' True of
             (w', Inl err) \<Rightarrow> (w', Inl err)
           | (w', Inr data) \<Rightarrow>
               (w', case decodeConditionalTransactionResult (data_value data) built of
                      Inl err \<Rightarrow> Inl (remoteResponseError ''remote conditional transaction''
                                   ''conditional transaction response violated its typed contract'' (Some err) True)
                    | Inr result \<Rightarrow> Inr result)))"

definition ConditionalTransaction_remote :: "'w http \<Rightarrow> ServerClient option \<Rightarrow> 'w \<Rightarrow> go_context \<Rightarrow> string \<Rightarrow> string
    \<Rightarrow> ConditionalTransactionCondition list \<Rightarrow> ConditionalTransactionMutation list \<Rightarrow> 'w \<times> ConditionalTransactionResult result" where
  "ConditionalTransaction_remote http client w ctx namespace requestID conditions mutations =
     (case NewConditionalTransactionRequest namespace requestID conditions mutations of
        Inl err \<Rightarrow> (w, Inl err)
      | Inr request \<Rightarrow> ExecuteConditionalTransaction_remote http client w ctx request)"

definition ConditionalTransactionReceiptFor_remote :: "'w http \<Rightarrow> ServerClient option \<Rightarrow> 'w \<Rightarrow> go_context \<Rightarrow> ConditionalTransactionRequest
    \<Rightarrow> 'w \<times> ConditionalReceiptLookup result" where
  "ConditionalTransactionReceiptFor_remote http client w ctx request =
     (case buildClosedConditionalRequest request of
        Inl err \<Rightarrow> (w, Inl err)
      | Inr built \<Rightarrow>
          (case storage http client w ctx ''conditional_receipt'' (JObj [(''request_id'', JStr (built_requestID built))]) ''remote conditional receipt'' False of
             (w', Inl err) \<Rightarrow> (w', Inl err)
           | (w', Inr data) \<Rightarrow> (w', decodeConditionalReceiptLookup (data_value data) built)))"

definition ConditionalGet_remote :: "'w http \<Rightarrow> ServerClient option \<Rightarrow> 'w \<Rightarrow> go_context \<Rightarrow> ConditionalPointReadRequest
    \<Rightarrow> 'w \<times> ConditionalPointReadResult result" where
  "ConditionalGet_remote http client w ctx request =
     (case buildConditionalPointReadRequest request of
        Inl err \<Rightarrow> (w, Inl err)
      | Inr wire \<Rightarrow>
          (case storage http client w ctx ''conditional_get'' (wirePointReadRequest_json wire) ''remote conditional point read'' False of
             (w', Inl err) \<Rightarrow> (w', Inl err)
           | (w', Inr data) \<Rightarrow> (w', decodeConditionalPointReadResult (data_value data) request)))"

definition ConditionalSnapshotGet_remote :: "'w http \<Rightarrow> ServerClient option \<Rightarrow> 'w \<Rightarrow> go_context \<Rightarrow> ConditionalSnapshotReadRequest
    \<Rightarrow> 'w \<times> ConditionalSnapshotReadResult result" where
  "ConditionalSnapshotGet_remote http client w ctx request =
     (case buildConditionalSnapshotReadRequest request of
        Inl err \<Rightarrow> (w, Inl err)
      | Inr wire \<Rightarrow>
          (case storage http client w ctx ''conditional_snapshot_get'' (wireSnapshotReadRequest_json wire) ''remote conditional snapshot read'' False of
             (w', Inl err) \<Rightarrow> (w', Inl err)
           | (w', Inr data) \<Rightarrow> (w', decodeConditionalSnapshotReadResult (data_value data) request)))"

definition ConditionalPrefixScan :: "'w http \<Rightarrow> ServerClient option \<Rightarrow> 'w \<Rightarrow> go_context \<Rightarrow> ConditionalPrefixScanRequest
    \<Rightarrow> 'w \<times> ConditionalPrefixScanResult result" where
  "ConditionalPrefixScan http client w ctx request =
     (case encodeConditionalPrefixScanRequest request of
        Inl err \<Rightarrow> (w, Inl err)
      | Inr wire \<Rightarrow>
          (case storage http client w ctx ''conditional_prefix_scan'' (wirePrefixScanRequest_json wire) ''remote conditional prefix scan'' False of
             (w', Inl err) \<Rightarrow> (w', Inl err)
           | (w', Inr data) \<Rightarrow> (w', decodeConditionalPrefixScanResult (data_bytes data) request)))"

subsection \<open>Keys and values\<close>

definition kv_text_ok :: "nat \<Rightarrow> string \<Rightarrow> bool" where
  "kv_text_ok bound s \<longleftrightarrow> length s \<le> bound \<and> utf8_valid s \<and> CHR 0x00 \<notin> set s"

definition validateServerKV :: "string \<Rightarrow> string option \<Rightarrow> unit result" where
  "validateServerKV key value =
     (if key = [] \<or> \<not> kv_text_ok maxServerKVKeyBytes key
      then Inl (newError CodeInvalidArgument ''remote KV'' ''key is empty, too large, not UTF-8, or contains NUL'' None)
      else case value of
        None \<Rightarrow> Inr ()
      | Some v \<Rightarrow>
          if \<not> kv_text_ok maxServerKVValueBytes v
          then Inl (newError CodeInvalidArgument ''remote KV'' ''value is too large, not UTF-8, or contains NUL'' None)
          else Inr ())"

definition serverKVSetParams_json :: "string \<Rightarrow> string \<Rightarrow> uint64 option \<Rightarrow> json" where
  "serverKVSetParams_json key value ttl =
     JObj ([(''key'', JStr key), (''value'', JStr value)] @ (case ttl of None \<Rightarrow> [] | Some t \<Rightarrow> [(''ttl'', JNum (nat_str (unat t)))]))"

definition serverKVKeyParams_json :: "string \<Rightarrow> json" where
  "serverKVKeyParams_json key = JObj [(''key'', JStr key)]"

definition KvSet_remote :: "'w http \<Rightarrow> ServerClient option \<Rightarrow> 'w \<Rightarrow> go_context \<Rightarrow> string \<Rightarrow> string \<Rightarrow> uint64 option \<Rightarrow> 'w \<times> unit result" where
  "KvSet_remote http client w ctx key value ttl =
     (case validateServerKV key (Some value) of
        Inl err \<Rightarrow> (w, Inl err)
      | Inr _ \<Rightarrow>
          (case kv http client w ctx ''set'' (serverKVSetParams_json key value ttl) ''remote KV set'' True False of
             (w', Inl err) \<Rightarrow> (w', Inl err)
           | (w', Inr _) \<Rightarrow> (w', Inr ())))"

definition decode_kv_get :: "string \<Rightarrow> json \<Rightarrow> string option result" where
  "decode_kv_get key data =
     (case decodeStrictRaw (one_field ''value'' json_raw) None data of
        Inl err \<Rightarrow> Inl (remoteProtocolError ''decode remote KV get'' err)
      | Inr None \<Rightarrow> remote_violation ''decode remote KV get'' ''value is missing''
      | Inr (Some raw) \<Rightarrow>
          if raw = JNull then Inr None
          else case decodeStrictRaw json_string [] raw of
            Inl err \<Rightarrow> Inl (remoteProtocolError ''decode remote KV get'' err)
          | Inr value \<Rightarrow>
              (case validateServerKV key (Some value) of
                 Inl err \<Rightarrow> Inl (remoteProtocolError ''decode remote KV get'' err)
               | Inr _ \<Rightarrow> Inr (Some value)))"

definition KvGet_remote :: "'w http \<Rightarrow> ServerClient option \<Rightarrow> 'w \<Rightarrow> go_context \<Rightarrow> string \<Rightarrow> 'w \<times> string option result" where
  "KvGet_remote http client w ctx key =
     (case validateServerKV key None of
        Inl err \<Rightarrow> (w, Inl err)
      | Inr _ \<Rightarrow>
          (case kv http client w ctx ''get'' (serverKVKeyParams_json key) ''remote KV get'' False True of
             (w', Inl err) \<Rightarrow> (w', Inl err)
           | (w', Inr data) \<Rightarrow> (w', decode_kv_get key (data_value data))))"

text \<open>The boolean a command answers with, which must be present.\<close>

definition decode_flag :: "string \<Rightarrow> json \<Rightarrow> bool result" where
  "decode_flag name data =
     (case decodeStrictRaw (one_field name (json_ptr False json_bool)) None data of
        Inl err \<Rightarrow> Inl err
      | Inr None \<Rightarrow> Inl (ErrorString (name @ '' is missing''))
      | Inr (Some b) \<Rightarrow> Inr b)"

definition KvDel_remote :: "'w http \<Rightarrow> ServerClient option \<Rightarrow> 'w \<Rightarrow> go_context \<Rightarrow> string \<Rightarrow> 'w \<times> bool result" where
  "KvDel_remote http client w ctx key =
     (case validateServerKV key None of
        Inl err \<Rightarrow> (w, Inl err)
      | Inr _ \<Rightarrow>
          (case kv http client w ctx ''del'' (serverKVKeyParams_json key) ''remote KV delete'' True True of
             (w', Inl err) \<Rightarrow> (w', Inl err)
           | (w', Inr data) \<Rightarrow>
               (w', case decode_flag ''deleted'' (data_value data) of
                      Inl err \<Rightarrow> Inl (remoteResponseError ''remote KV delete'' ''KV delete response violated its typed contract'' (Some err) True)
                    | Inr deleted \<Rightarrow> Inr deleted)))"

definition KvExists_remote :: "'w http \<Rightarrow> ServerClient option \<Rightarrow> 'w \<Rightarrow> go_context \<Rightarrow> string \<Rightarrow> 'w \<times> bool result" where
  "KvExists_remote http client w ctx key =
     (case validateServerKV key None of
        Inl err \<Rightarrow> (w, Inl err)
      | Inr _ \<Rightarrow>
          (case kv http client w ctx ''exists'' (serverKVKeyParams_json key) ''remote KV exists'' False True of
             (w', Inl err) \<Rightarrow> (w', Inl err)
           | (w', Inr data) \<Rightarrow>
               (w', case decode_flag ''exists'' (data_value data) of
                      Inl err \<Rightarrow> Inl (remoteProtocolError ''decode remote KV exists'' err)
                    | Inr exists \<Rightarrow> Inr exists)))"

definition KvSetNX_remote :: "'w http \<Rightarrow> ServerClient option \<Rightarrow> 'w \<Rightarrow> go_context \<Rightarrow> string \<Rightarrow> string \<Rightarrow> uint64 option \<Rightarrow> 'w \<times> bool result" where
  "KvSetNX_remote http client w ctx key value ttl =
     (case validateServerKV key (Some value) of
        Inl err \<Rightarrow> (w, Inl err)
      | Inr _ \<Rightarrow>
          (case kv http client w ctx ''setnx'' (serverKVSetParams_json key value ttl) ''remote KV setnx'' True True of
             (w', Inl err) \<Rightarrow> (w', Inl err)
           | (w', Inr data) \<Rightarrow>
               (w', case decode_flag ''set'' (data_value data) of
                      Inl err \<Rightarrow> Inl (remoteResponseError ''remote KV setnx'' ''KV setnx response violated its typed contract'' (Some err) True)
                    | Inr written \<Rightarrow> Inr written)))"

end
