(* ===== verification/ServerClientProofs.thy ===== *)
theory ServerClientProofs
  imports ServerClient
begin

text \<open>
  What the remote client promises about writes: one request at most, and an honest classification of every failure.
\<close>

section \<open>One exchange\<close>

text \<open>The network with a log of the requests that were sent.\<close>

definition traced :: "'w http \<Rightarrow> ('w \<times> http_request list) http" where
  "traced http = \<lparr>http_url_error = http_url_error http,
     http_Do = (\<lambda>(w, log) request. case http_Do http w request of (w', response) \<Rightarrow> ((w', log @ [request]), response))\<rparr>"

text \<open>The response is an envelope with the verdict \<open>ok\<close>.\<close>

definition answered :: "bool \<Rightarrow> http_response result \<Rightarrow> bool" where
  "answered ok outcome \<longleftrightarrow> (\<exists>response envelope. outcome = Inr response \<and> rs_StatusCode response = 200
     \<and> decodeStrictJSON serverResponse_decoder zero_serverResponse (rs_Body response) = Inr envelope \<and> env_OK envelope = Some ok)"

text \<open>The server itself refused the command, and the error is its message, machine code and routing.\<close>

definition server_refused :: "string \<Rightarrow> http_response result \<Rightarrow> go_error \<Rightarrow> bool" where
  "server_refused operation outcome e \<longleftrightarrow> answered False outcome
     \<and> (\<exists>message code term hint. message \<noteq> [] \<and> e = server_newNativeResponseError operation message code term hint)"

text \<open>
  A command that may write: nothing was sent and the error says so, or exactly one request was sent, and then success
  is the verdict of the server, and failure is the server's refusal or reported as indeterminate.
\<close>

definition write_outcome :: "'w http \<Rightarrow> 'w \<Rightarrow> string \<Rightarrow> ('w \<times> http_request list) \<times> 'a result \<Rightarrow> bool" where
  "write_outcome http w operation outcome \<longleftrightarrow>
     (case outcome of ((w', log), r) \<Rightarrow>
        (log = [] \<and> w' = w \<and> (\<exists>e. r = Inl e \<and> ErrorCodeOf e \<in> {CodeInvalidArgument, CodeNativeUnavailable}))
        \<or> (\<exists>request. log = [request] \<and> rq_Method request = ''POST'' \<and> w' = fst (http_Do http w request)
             \<and> (case r of
                  Inr _ \<Rightarrow> answered True (snd (http_Do http w request))
                | Inl e \<Rightarrow> ErrorCodeOf e = CodeResultIndeterminate \<or> server_refused operation (snd (http_Do http w request)) e)))"

lemma read_limited_whole: "read_limited limit response = Inr data \<Longrightarrow> length data \<le> limit \<Longrightarrow> data = rs_Body response"
  by (auto simp: read_limited_def split: if_splits option.splits)

lemma violation_code: "remote_violation operation message = Inl e \<Longrightarrow> ErrorCodeOf e = CodeProtocolViolation"
  by (auto simp: remote_violation_def remoteProtocolError_def)

lemma failed_response_error:
  "failed_response operation envelope \<noteq> Inr d"
  "failed_response operation envelope = Inl e \<Longrightarrow> ErrorCodeOf e \<noteq> CodeProtocolViolation \<Longrightarrow>
     \<exists>message code term hint. message \<noteq> [] \<and> e = server_newNativeResponseError operation message code term hint"
  unfolding failed_response_def Let_def
  by (auto simp: remote_violation_def remoteProtocolError_def split: if_splits option.splits sum.splits)

lemma decoded_response:
  "decodeServerResponse data operation requireData = Inr d \<Longrightarrow>
     \<exists>envelope. decodeStrictJSON serverResponse_decoder zero_serverResponse data = Inr envelope \<and> env_OK envelope = Some True"
  "decodeServerResponse data operation requireData = Inl e \<Longrightarrow> ErrorCodeOf e \<noteq> CodeProtocolViolation \<Longrightarrow>
     \<exists>envelope message code term hint. decodeStrictJSON serverResponse_decoder zero_serverResponse data = Inr envelope \<and> env_OK envelope = Some False
       \<and> message \<noteq> [] \<and> e = server_newNativeResponseError operation message code term hint"
  unfolding decodeServerResponse_def
  by (auto simp: remote_violation_def remoteProtocolError_def failed_response_error(1) split: sum.splits option.splits if_splits)
    (blast dest: failed_response_error(2))

lemma received:
  "receive_response response limit operation True requireData = Inr d \<Longrightarrow> answered True (Inr response)"
  "receive_response response limit operation True requireData = Inl e \<Longrightarrow>
     ErrorCodeOf e = CodeResultIndeterminate \<or> server_refused operation (Inr response) e"
  using read_limited_whole [of limit response] decoded_response [of _ operation requireData]
  unfolding receive_response_def answered_def server_refused_def
  by (auto simp: remoteResponseError_def not_less split: if_splits sum.splits) blast+

lemma unsent: "ErrorCodeOf e \<in> {CodeInvalidArgument, CodeNativeUnavailable} \<Longrightarrow> write_outcome http w operation ((w, []), Inl e)"
  by (simp add: write_outcome_def)

lemma sent:
  assumes "http_Do http w request = (w', response)" "rq_Method request = ''POST''"
    "case r of Inr _ \<Rightarrow> answered True response | Inl e \<Rightarrow> ErrorCodeOf e = CodeResultIndeterminate \<or> server_refused operation response e"
  shows "write_outcome http w operation ((w', [request]), r)"
  using assms by (cases r) (simp_all add: write_outcome_def)

lemma do_request_outcome:
  "write_outcome http w operation (do_request (traced http) client (w, []) ctx ''POST'' endpoint command limit operation True requireData)"
proof -
  have exchange: "write_outcome http w operation
      (case http_Do (traced http) (w, []) request of
         (w', Inl err) \<Rightarrow> (w', Inl (remoteTransportError operation ''remote request did not yield a response'' (Some err) True))
       | (w', Inr response) \<Rightarrow> (w', receive_response response limit operation True requireData))"
    if m: "rq_Method request = ''POST''" for request
  proof -
    obtain w' response where d: "http_Do http w request = (w', response)" by fastforce
    show ?thesis
    proof (cases response)
      case (Inl e)
      have "write_outcome http w operation ((w', [request]), Inl (remoteTransportError operation message cause True) :: response_data result)" for message cause
        by (intro sent [OF d m]) (simp add: remoteTransportError_def)
      then show ?thesis by (simp add: traced_def d Inl)
    next
      case (Inr rs)
      have "write_outcome http w operation ((w', [request]), receive_response rs limit operation True requireData)"
        using received [of rs limit operation requireData] by (intro sent [OF d m]) (auto simp: Inr split: sum.split)
      then show ?thesis by (simp add: traced_def d Inr)
    qed
  qed
  show ?thesis
    unfolding do_request_def Let_def by (auto simp: unsent exchange traced_def [THEN arg_cong, of http_url_error] split: option.split sum.split)
qed

section \<open>Commands\<close>

text \<open>
  What a command that may write relies on: it sends through an exchange with the outcomes above, and what it makes of
  the data fails only as indeterminate.
\<close>

locale applied_command =
  fixes http :: "'w http"
    and w :: 'w
    and operation :: string
    and check :: "'b result"
    and send :: "'b \<Rightarrow> ('w \<times> http_request list) \<times> response_data result"
    and finish :: "'b \<Rightarrow> response_data \<Rightarrow> 'a result"
  assumes check_error: "check = Inl e \<Longrightarrow> ErrorCodeOf e = CodeInvalidArgument"
    and send_outcome: "check = Inr b \<Longrightarrow> write_outcome http w operation (send b)"
    and finish_error: "check = Inr b \<Longrightarrow> finish b data = Inl e \<Longrightarrow> ErrorCodeOf e = CodeResultIndeterminate"
begin

lemma command_outcome:
  "write_outcome http w operation
     (case check of
        Inl err \<Rightarrow> ((w, []), Inl err)
      | Inr b \<Rightarrow> (case send b of (w', Inl err) \<Rightarrow> (w', Inl err) | (w', Inr data) \<Rightarrow> (w', finish b data)))"
proof (cases check)
  case (Inl e)
  then show ?thesis by (auto simp: write_outcome_def check_error)
next
  case (Inr b)
  obtain w' log r where s: "send b = ((w', log), r)" by (metis surj_pair)
  show ?thesis
  proof (cases r)
    case (Inl e)
    then show ?thesis using send_outcome [OF Inr] by (auto simp: Inr s write_outcome_def)
  next
    case (Inr data)
    then show ?thesis
      using send_outcome [OF \<open>check = Inr b\<close>] finish_error [OF \<open>check = Inr b\<close>, of data]
      by (cases "finish b data") (auto simp: \<open>check = Inr b\<close> s write_outcome_def)
  qed
qed

end


lemma closed_request_error: "buildClosedConditionalRequest request = Inl e \<Longrightarrow> ErrorCodeOf e = CodeInvalidArgument"
  by (auto simp: buildClosedConditionalRequest_def split: sum.splits prod.splits if_splits)

lemma kv_argument_error: "validateServerKV key value = Inl e \<Longrightarrow> ErrorCodeOf e = CodeInvalidArgument"
  by (auto simp: validateServerKV_def split: if_splits option.splits)

lemma storage_outcome: "write_outcome http w operation (storage (traced http) client (w, []) ctx action params operation True)"
  by (simp add: storage_def do_request_outcome unsent)

lemma kv_outcome: "write_outcome http w operation (kv (traced http) client (w, []) ctx action params operation True requireData)"
  by (simp add: kv_def do_request_outcome unsent)

lemmas applied_command_laws = storage_outcome kv_outcome closed_request_error kv_argument_error

interpretation tx: applied_command http w "''remote conditional transaction''" "buildClosedConditionalRequest request"
    "\<lambda>built. storage (traced http) client (w, []) ctx ''conditional_batch'' (wireConditionalRequest_json (built_wire built)) ''remote conditional transaction'' True"
    "\<lambda>built data. case decodeConditionalTransactionResult (data_value data) built of
       Inl err \<Rightarrow> Inl (remoteResponseError ''remote conditional transaction'' ''conditional transaction response violated its typed contract'' (Some err) True)
     | Inr result \<Rightarrow> Inr result"
  for http w client ctx request
  by unfold_locales (auto simp: applied_command_laws remoteResponseError_def split: sum.splits)

interpretation kset: applied_command http w "''remote KV set''" "validateServerKV key (Some v)"
    "\<lambda>_. kv (traced http) client (w, []) ctx ''set'' (serverKVSetParams_json key v ttl) ''remote KV set'' True False" "\<lambda>_ _. Inr ()"
  for http w client ctx key v ttl
  by unfold_locales (auto simp: applied_command_laws)

interpretation kdel: applied_command http w "''remote KV delete''" "validateServerKV key None"
    "\<lambda>_. kv (traced http) client (w, []) ctx ''del'' (serverKVKeyParams_json key) ''remote KV delete'' True True"
    "\<lambda>_ data. case decode_flag ''deleted'' (data_value data) of
       Inl err \<Rightarrow> Inl (remoteResponseError ''remote KV delete'' ''KV delete response violated its typed contract'' (Some err) True)
     | Inr deleted \<Rightarrow> Inr deleted"
  for http w client ctx key
  by unfold_locales (auto simp: applied_command_laws remoteResponseError_def split: sum.splits)

interpretation ksetnx: applied_command http w "''remote KV setnx''" "validateServerKV key (Some v)"
    "\<lambda>_. kv (traced http) client (w, []) ctx ''setnx'' (serverKVSetParams_json key v ttl) ''remote KV setnx'' True True"
    "\<lambda>_ data. case decode_flag ''set'' (data_value data) of
       Inl err \<Rightarrow> Inl (remoteResponseError ''remote KV setnx'' ''KV setnx response violated its typed contract'' (Some err) True)
     | Inr written \<Rightarrow> Inr written"
  for http w client ctx key v ttl
  by unfold_locales (auto simp: applied_command_laws remoteResponseError_def split: sum.splits)

text \<open>
  C34: a remote write is never misreported. Whatever the network does, a conditional transaction, a set, a delete or a
  set-if-absent sends at most one request and never replays it. An error with any other classification than indeterminate
  means that nothing was sent and the network is untouched (the argument was invalid or the client not able to send) or
  that the server itself refused the command in a well-formed answer; success means the server answered \<open>ok\<close>.
\<close>

theorem remote_writes_never_misreported:
  "write_outcome http w ''remote conditional transaction'' (ExecuteConditionalTransaction_remote (traced http) client (w, []) ctx request)
   \<and> write_outcome http w ''remote KV set'' (KvSet_remote (traced http) client (w, []) ctx key v ttl)
   \<and> write_outcome http w ''remote KV delete'' (KvDel_remote (traced http) client (w, []) ctx key)
   \<and> write_outcome http w ''remote KV setnx'' (KvSetNX_remote (traced http) client (w, []) ctx key v ttl)"
  unfolding ExecuteConditionalTransaction_remote_def KvSet_remote_def KvDel_remote_def KvSetNX_remote_def
  by (intro conjI tx.command_outcome kset.command_outcome kdel.command_outcome ksetnx.command_outcome)

end
