(* ===== verification/Decimals.thy ===== *)
theory Decimals
  imports GoStrings WireValue
begin

text \<open>
  Exact decimals as text and as JSON. Three packages print them (\<open>formatDecimal\<close> of \<open>talon_params.go\<close>,
  \<open>decimalText\<close> of \<open>goframe/native_sql.go\<close> and \<open>Decimal.Text\<close> of \<open>internal/serverprotocol/sql.go\<close>) and
  two read them back (\<open>decimalFromText\<close> and \<open>ParseDecimal\<close>); the server protocol also has the tagged JSON form.
  A \<open>big.Int\<close> is an integer, and a pointer to one may be nil.
\<close>

section \<open>The embedded packages\<close>

definition formatDecimal :: "int \<Rightarrow> uint8 \<Rightarrow> string" where
  "formatDecimal coefficient scale =
     (let negative = coefficient < 0;
          digits = nat_str (nat \<bar>coefficient\<bar>);
          padded = (if length digits \<le> unat scale then replicate (unat scale + 1 - length digits) CHR ''0'' @ digits else digits);
          index = length padded - unat scale;
          pointed = (if 0 < unat scale then take index padded @ ''.'' @ drop index padded else padded)
      in if negative then CHR ''-'' # pointed else pointed)"

definition decimalText :: "int \<Rightarrow> uint8 \<Rightarrow> string" where
  "decimalText coefficient scale =
     (let negative = coefficient < 0;
          digits = nat_str (nat \<bar>coefficient\<bar>);
          padded = (if length digits \<le> unat scale then replicate (unat scale + 1 - length digits) CHR ''0'' @ digits else digits);
          pos = length padded - unat scale;
          pointed = (if 0 < unat scale then take pos padded @ ''.'' @ drop pos padded else padded)
      in if negative then CHR ''-'' # pointed else pointed)"

text \<open>\<open>strings.Split\<close> at a character.\<close>

fun split_at :: "char \<Rightarrow> string \<Rightarrow> string list" where
  "split_at sep [] = [[]]"
| "split_at sep (c # s) =
     (if c = sep then [] # split_at sep s
      else case split_at sep s of [] \<Rightarrow> [[c]] | w # ws \<Rightarrow> (c # w) # ws)"

text \<open>\<open>SetString(s, 10)\<close>: an optional sign and digits.\<close>

definition bigint_SetString :: "string \<Rightarrow> int option" where
  "bigint_SetString s =
     (let body = (case s of [] \<Rightarrow> [] | c # cs \<Rightarrow> if c = CHR ''-'' \<or> c = CHR ''+'' then cs else s)
      in if body = [] then None
         else map_option (\<lambda>n. if hd s = CHR ''-'' then - int n else int n) (digits_val 0 body))"

definition decimalFromText :: "string \<Rightarrow> Value result" where
  "decimalFromText literal =
     (if literal = [] then Inl (ErrorString ''empty decimal'')
      else
        (let digits = (if hd literal = CHR ''-'' then tl literal else literal);
             parts = split_at CHR ''.'' digits
         in if 2 < length parts \<or> hd parts = [] then Inl (ErrorString ''invalid decimal'')
            else
              (let scale = (if length parts = 2 then length (parts ! 1) else 0);
                   digits = (if length parts = 2 then hd parts @ parts ! 1 else digits)
               in if maxDecimalPrecision < scale then Inl (ErrorString ''decimal scale out of range'')
                  else if list_ex (\<lambda>c. \<not> is_digit c) digits then Inl (ErrorString ''invalid decimal digit'')
                  else case bigint_SetString digits of
                    None \<Rightarrow> Inl (ErrorString ''invalid decimal coefficient'')
                  | Some coefficient \<Rightarrow>
                      DecimalValue (Some (if hd literal = CHR ''-'' then - coefficient else coefficient)) (of_nat scale))))"

section \<open>The server protocol\<close>

definition MaxDecimalPrecision :: nat where "MaxDecimalPrecision = 38"

record ServerDecimal =
  sd_coefficient :: "int option"
  sd_scale :: uint8

definition server_decimalPrecision :: "int option \<Rightarrow> nat" where
  "server_decimalPrecision value =
     (case value of None \<Rightarrow> 1 | Some c \<Rightarrow> if c = 0 then 1 else length (nat_str (nat \<bar>c\<bar>)))"

definition NewDecimal :: "int option \<Rightarrow> uint8 \<Rightarrow> ServerDecimal result" where
  "NewDecimal coefficient scale =
     (if coefficient = None then Inl (newError CodeInvalidArgument ''construct decimal'' ''decimal coefficient is nil'' None)
      else if MaxDecimalPrecision < unat scale \<or> MaxDecimalPrecision < server_decimalPrecision coefficient
      then Inl (newError CodeInvalidArgument ''construct decimal'' ''decimal precision or scale exceeds 38'' None)
      else Inr \<lparr>sd_coefficient = coefficient, sd_scale = scale\<rparr>)"

definition parse_decimal_error :: "string \<Rightarrow> 'a result" where
  "parse_decimal_error message = Inl (newError CodeInvalidArgument ''parse decimal'' message None)"

text \<open>The loop of \<open>scanDecimalLiteral\<close>: the digits and how many follow the point.\<close>

fun scan_digits :: "bool \<Rightarrow> string \<Rightarrow> (string \<times> nat) option" where
  "scan_digits seenPoint [] = Some ([], 0)"
| "scan_digits seenPoint (c # s) =
     (if is_digit c then map_option (\<lambda>(ds, k). (c # ds, if seenPoint then Suc k else k)) (scan_digits seenPoint s)
      else if c = CHR ''.'' \<and> \<not> seenPoint then scan_digits True s
      else None)"

definition scanDecimalLiteral :: "string \<Rightarrow> (string \<times> bool \<times> nat) result" where
  "scanDecimalLiteral literal =
     (let negative = (hd literal = CHR ''-''); body = (if hd literal \<in> {CHR ''-'', CHR ''+''} then tl literal else literal);
          invalid = parse_decimal_error (''invalid decimal literal '' @ quoted literal)
      in if body = [] then invalid
         else case scan_digits False body of
           None \<Rightarrow> invalid
         | Some (digits, fractionDigits) \<Rightarrow> if digits = [] then invalid else Inr (digits, negative, fractionDigits))"

definition ParseDecimal :: "string \<Rightarrow> ServerDecimal result" where
  "ParseDecimal literal =
     (if literal = [] \<or> TrimSpace literal \<noteq> literal then parse_decimal_error ''decimal text is empty or padded with whitespace''
      else case scanDecimalLiteral literal of
        Inl err \<Rightarrow> Inl err
      | Inr (digits, negative, fractionDigits) \<Rightarrow>
          if MaxDecimalPrecision < fractionDigits then parse_decimal_error ''decimal scale exceeds 38''
          else
            (let trimmed = dropWhile (\<lambda>c. c = CHR ''0'') digits
             in if MaxDecimalPrecision < length trimmed then parse_decimal_error ''decimal precision exceeds 38''
                else case (if trimmed = [] then Some 0 else bigint_SetString trimmed) of
                  None \<Rightarrow> parse_decimal_error ''decimal digits are not a valid integer''
                | Some coefficient \<Rightarrow>
                    Inr \<lparr>sd_coefficient = Some (if negative then - coefficient else coefficient), sd_scale = of_nat fractionDigits\<rparr>))"

definition Decimal_Text :: "ServerDecimal \<Rightarrow> string" where
  "Decimal_Text decimal =
     (let coefficient = (case sd_coefficient decimal of None \<Rightarrow> 0 | Some c \<Rightarrow> c);
          digits = nat_str (nat \<bar>coefficient\<bar>); sign = (if coefficient < 0 then ''-'' else []); scale = unat (sd_scale decimal)
      in if scale = 0 then sign @ digits
         else if length digits \<le> scale then sign @ ''0.'' @ replicate (scale - length digits) CHR ''0'' @ digits
         else sign @ take (length digits - scale) digits @ ''.'' @ drop (length digits - scale) digits)"

subsection \<open>The tagged JSON form\<close>

definition decimalWireTag :: string where "decimalWireTag = ''Decimal''"

definition Decimal_MarshalJSON :: "ServerDecimal \<Rightarrow> json result" where
  "Decimal_MarshalJSON decimal =
     (if sd_coefficient decimal = None then Inl (ErrorString ''decimal coefficient is nil'')
      else if MaxDecimalPrecision < unat (sd_scale decimal) \<or> MaxDecimalPrecision < server_decimalPrecision (sd_coefficient decimal)
      then Inl (ErrorString ''decimal precision or scale exceeds 38'')
      else Inr (JObj [(decimalWireTag, JStr (Decimal_Text decimal))]))"

text \<open>Into a map, keys are taken as they are; the strict pass has refused a repeated one.\<close>

definition unwrapTaggedPayload :: "json \<Rightarrow> string \<Rightarrow> (string \<times> json) result" where
  "unwrapTaggedPayload data expected =
     (case data of
        JObj kvs \<Rightarrow>
          (case decodeStrictRaw (\<lambda>_ j. Inr ()) () data of
             Inl err \<Rightarrow> Inl err
           | Inr _ \<Rightarrow>
               (case kvs of
                  [(tag, payload)] \<Rightarrow>
                    if expected \<noteq> [] \<and> tag \<noteq> expected
                    then Inl (ErrorString (''expected tag '' @ quoted expected @ '', got '' @ quoted tag))
                    else Inr (tag, payload)
                | _ \<Rightarrow> Inl (ErrorString ''tagged payload must have exactly one tag'')))
      | _ \<Rightarrow> Inl (ErrorString ''tagged payload must be a JSON object''))"

text \<open>A bare integer token; the message shows the token as the encoder would print it.\<close>

definition decodeWireIntegerLiteral :: "json \<Rightarrow> string result" where
  "decodeWireIntegerLiteral data =
     (case data of
        JNum literal \<Rightarrow>
          if list_ex (\<lambda>c. c \<in> set ''.eE'') literal then Inl (ErrorString (''expected a JSON integer token, got '' @ literal)) else Inr literal
      | _ \<Rightarrow> Inl (ErrorString (''expected a JSON integer token, got '' @ print_json data)))"

definition decodeWireUint8 :: "json \<Rightarrow> uint8 result" where
  "decodeWireUint8 data =
     (case decodeWireIntegerLiteral data of
        Inl err \<Rightarrow> Inl (WrapError ''decimal scale must be a non-negative integer: '' err)
      | Inr literal \<Rightarrow>
          (case parse_uint 8 literal of
             None \<Rightarrow> Inl (WrapError ''decimal scale is not a u8: '' (ErrorString (''strconv.ParseUint: parsing '' @ quoted literal)))
           | Some n \<Rightarrow> Inr (of_nat n)))"

record decimal_pair =
  pair_Coefficient :: raw_message
  pair_Scale :: raw_message

definition decimalPair_decoder :: "decimal_pair decoder" where
  "decimalPair_decoder = decode_struct [''coefficient'', ''scale'']
     (\<lambda>f. if f = ''coefficient'' then field pair_Coefficient pair_Coefficient_update json_raw
          else field pair_Scale pair_Scale_update json_raw)"

definition decodeDecimalPayload :: "json \<Rightarrow> ServerDecimal result" where
  "decodeDecimalPayload payload =
     (case payload of
        JStr literal \<Rightarrow> ParseDecimal literal
      | JObj _ \<Rightarrow>
          (case decodeStrictRaw decimalPair_decoder \<lparr>pair_Coefficient = None, pair_Scale = None\<rparr> payload of
             Inl err \<Rightarrow> Inl err
           | Inr pair \<Rightarrow>
               (case (pair_Coefficient pair, pair_Scale pair) of
                  (Some c, Some s) \<Rightarrow>
                    (case decodeStrictRaw json_string [] c of
                       Inl err \<Rightarrow> Inl (WrapError ''decimal coefficient must be an integer string: '' err)
                     | Inr coefficientText \<Rightarrow>
                         (case bigint_SetString coefficientText of
                            None \<Rightarrow> Inl (ErrorString (''decimal coefficient '' @ quoted coefficientText @ '' is not an integer''))
                          | Some coefficient \<Rightarrow>
                              (case decodeWireUint8 s of Inl err \<Rightarrow> Inl err | Inr scale \<Rightarrow> NewDecimal (Some coefficient) scale)))
                | _ \<Rightarrow> Inl (ErrorString ''decimal pair must carry coefficient and scale'')))
      | _ \<Rightarrow> Inl (ErrorString ''decimal payload must be a canonical decimal string or an explicit {coefficient, scale} pair''))"

definition Decimal_UnmarshalJSON :: "ServerDecimal decoder" where
  "Decimal_UnmarshalJSON old data =
     (case unwrapTaggedPayload data decimalWireTag of
        Inl err \<Rightarrow> Inl err
      | Inr (_, payload) \<Rightarrow> decodeDecimalPayload payload)"


section \<open>Facts\<close>

text \<open>The digits with enough leading zeros, and the point before the last of them.\<close>

definition pad_digits :: "nat \<Rightarrow> string \<Rightarrow> string" where
  "pad_digits k digits = (if length digits \<le> k then replicate (k + 1 - length digits) CHR ''0'' @ digits else digits)"

definition point_digits :: "nat \<Rightarrow> string \<Rightarrow> string" where
  "point_digits k padded = (if 0 < k then take (length padded - k) padded @ ''.'' @ drop (length padded - k) padded else padded)"

definition fixed_point :: "int \<Rightarrow> uint8 \<Rightarrow> string" where
  "fixed_point c s = (if c < 0 then ''-'' else []) @ point_digits (unat s) (pad_digits (unat s) (nat_str (nat \<bar>c\<bar>)))"

lemma printed_decimals:
  "formatDecimal c s = fixed_point c s" "decimalText c s = fixed_point c s"
  "sd_coefficient d = Some c \<Longrightarrow> Decimal_Text d = fixed_point c (sd_scale d)"
  by (auto simp: formatDecimal_def decimalText_def Decimal_Text_def fixed_point_def point_digits_def pad_digits_def Let_def Suc_diff_le)

lemma scan_point:
  "list_all is_digit a \<Longrightarrow> scan_digits b (a @ t) = map_option (\<lambda>(ds, k). (a @ ds, if b then k + length a else k)) (scan_digits b t)"
  by (cases "scan_digits b t"; induction a) auto

lemma scan_fixed:
  assumes "list_all is_digit p" "k < length p"
  shows "scan_digits False (point_digits k p) = Some (p, k)"
proof -
  have "list_all is_digit (take i p)" "list_all is_digit (drop i p)" for i
    using assms(1) by (auto simp: list_all_iff dest: in_set_takeD in_set_dropD)
  then show ?thesis
    using scan_point [of "take (length p - k) p" False "CHR ''.'' # drop (length p - k) p"] scan_point [of "drop (length p - k) p" True "[]"]
      scan_point [OF assms(1), of False "[]"] assms(2)
    by (auto simp: point_digits_def is_digit_def)
qed

lemma padded: "list_all is_digit (pad_digits k (nat_str n))" "k < length (pad_digits k (nat_str n))"
proof -
  have "list_all is_digit (replicate i CHR ''0'')" for i by (induction i) (simp_all add: is_digit_def)
  then show "list_all is_digit (pad_digits k (nat_str n))" by (simp add: pad_digits_def)
qed (simp add: pad_digits_def)

lemma zeros_val: "digits_val 0 (replicate k CHR ''0'' @ s) = digits_val 0 s"
  by (induction k) (simp_all add: is_digit_def digit_val_def)

lemma trim_zeros: "dropWhile (\<lambda>c. c = CHR ''0'') (pad_digits k (nat_str n)) = (if n = 0 then [] else nat_str n)"
proof -
  have d: "dropWhile (\<lambda>c. c = CHR ''0'') (nat_str n) = (if n = 0 then [] else nat_str n)"
    using hd_nat_str_zero [of n] nat_str_0 by (cases "n = 0"; cases "nat_str n") auto
  have "dropWhile (\<lambda>c. c = CHR ''0'') (replicate i CHR ''0'' @ nat_str n) = dropWhile (\<lambda>c. c = CHR ''0'') (nat_str n)" for i by (induction i) auto
  then show ?thesis using d by (simp add: pad_digits_def)
qed

definition graphic :: "char \<Rightarrow> bool" where
  "graphic c \<longleftrightarrow> is_digit c \<or> c = CHR ''.'' \<or> c = CHR ''-''"

lemma graphic_trim: "list_all graphic s \<Longrightarrow> TrimSpace s = s"
proof -
  assume a: "list_all graphic s"
  have g: "graphic c \<Longrightarrow> c \<notin> {CHR 0x20, CHR 0x09, CHR 0x0A, CHR 0x0B, CHR 0x0C, CHR 0x0D, CHR 0xC2, CHR 0xE1, CHR 0xE2, CHR 0xE3}" for c
    by (auto simp: graphic_def is_digit_def less_eq_char_def)
  have "space_width s = 0" using a g by (cases s) (auto simp: space_width_def)
  then have "trim_left s = s" by (simp add: trim_left.simps)
  moreover have "trim_right s = s" using a
  proof (induction s)
    case (Cons c s)
    then have "\<not> blank (c # s)" using g [of c] by (auto split: list.splits)
    then show ?case using Cons by simp
  qed simp
  ultimately show ?thesis by (simp add: TrimSpace_def)
qed

lemma digit_graphic: "list_all is_digit s \<Longrightarrow> list_all graphic s"
  by (auto simp: list_all_iff graphic_def)

lemma point_graphic: "list_all is_digit p \<Longrightarrow> list_all graphic (point_digits k p)"
  by (auto simp: point_digits_def list_all_iff graphic_def dest: in_set_takeD in_set_dropD)

lemma point_nonempty: "k < length p \<Longrightarrow> list_all is_digit p \<Longrightarrow> point_digits k p \<noteq> [] \<and> is_digit (hd (point_digits k p))"
proof -
  assume a: "k < length p" "list_all is_digit p"
  then obtain c q where p: "p = c # q" by (cases p) auto
  then have "point_digits k p = c # tl (point_digits k p)" using a by (cases "length p - k") (auto simp: point_digits_def)
  then show ?thesis using a(2) by (metis list.distinct(1) list.sel(1) list.pred_inject(2) p)
qed

lemma parse_fixed:
  assumes "length (nat_str (nat \<bar>c\<bar>)) \<le> 38" "unat s \<le> 38"
  shows "ParseDecimal (fixed_point c s) = Inr \<lparr>sd_coefficient = Some c, sd_scale = s\<rparr>"
proof -
  let ?p = "pad_digits (unat s) (nat_str (nat \<bar>c\<bar>))" and ?t = "fixed_point c s"
  note p = padded [of "unat s" "nat \<bar>c\<bar>"]
  note h = point_nonempty [OF p(2,1)]
  have sign: "hd (point_digits (unat s) ?p) \<notin> {CHR ''-'', CHR ''+''}" using h by (auto simp: is_digit_def)
  have "list_all graphic ?t" using point_graphic [OF p(1)] by (simp add: fixed_point_def graphic_def)
  then have "TrimSpace ?t = ?t" by (rule graphic_trim)
  moreover have "?t \<noteq> []" using h by (simp add: fixed_point_def)
  moreover have "scanDecimalLiteral ?t = Inr (?p, c < 0, unat s)"
    using h sign scan_fixed [OF p] p(2) by (auto simp: scanDecimalLiteral_def fixed_point_def Let_def hd_append)
  moreover have "bigint_SetString (nat_str n) = Some (int n)" for n
    using hd_nat_str_digit [of n] by (cases "nat_str n") (auto simp: bigint_SetString_def Let_def is_digit_def simp flip: digits_val_nat_str [of n])
  ultimately show ?thesis
    using assms by (auto simp: ParseDecimal_def trim_zeros Let_def MaxDecimalPrecision_def)
qed

lemma split_digits:
  "list_all is_digit a \<Longrightarrow> split_at CHR ''.'' a = [a]"
  "list_all is_digit a \<Longrightarrow> list_all is_digit b \<Longrightarrow> split_at CHR ''.'' (a @ CHR ''.'' # b) = [a, b]"
proof -
  show one: "list_all is_digit a \<Longrightarrow> split_at CHR ''.'' a = [a]" for a by (induction a) (auto simp: is_digit_def)
  show "list_all is_digit a \<Longrightarrow> list_all is_digit b \<Longrightarrow> split_at CHR ''.'' (a @ CHR ''.'' # b) = [a, b]"
    using one [of b] by (induction a) auto
qed

lemma SetString_digits: "list_all is_digit p \<Longrightarrow> p \<noteq> [] \<Longrightarrow> bigint_SetString p = map_option int (digits_val 0 p)"
  by (cases p) (auto simp: bigint_SetString_def Let_def)

lemma from_text_fixed:
  assumes "unat s \<le> 38"
  shows "decimalFromText (fixed_point c s) = DecimalValue (Some c) s"
proof -
  define p where "p = pad_digits (unat s) (nat_str (nat \<bar>c\<bar>))"
  let ?body = "point_digits (unat s) p"
  have p: "list_all is_digit p" "unat s < length p" by (simp_all add: p_def padded)
  note h = point_nonempty [OF p(2,1)]
  have val: "bigint_SetString p = Some \<bar>c\<bar>"
    using SetString_digits [OF p(1)] p(2) by (auto simp: p_def pad_digits_def zeros_val)
  have parts: "list_all is_digit (take i p)" "list_all is_digit (drop i p)" for i
    using p(1) by (auto simp: list_all_iff dest: in_set_takeD in_set_dropD)
  have split: "split_at CHR ''.'' ?body = (if 0 < unat s then [take (length p - unat s) p, drop (length p - unat s) p] else [p])"
    using split_digits(1) [OF p(1)] split_digits(2) [OF parts] by (simp add: point_digits_def)
  have digits: "\<not> list_ex (\<lambda>c. \<not> is_digit c) p" using p(1) by (auto simp: list_all_iff list_ex_iff)
  have sign: "hd ?body \<noteq> CHR ''-''" using h by (auto simp: is_digit_def)
  have body: "unat s = 0 \<Longrightarrow> ?body = p" by (simp add: point_digits_def)
  have "decimalFromText (fixed_point c s) = DecimalValue (Some (if c < 0 then - \<bar>c\<bar> else \<bar>c\<bar>)) (of_nat (unat s))"
    using h sign split val digits assms p(2) body unfolding decimalFromText_def fixed_point_def p_def [symmetric]
    by (cases "c < 0"; cases "unat s = 0") (auto simp: Let_def maxDecimalPrecision_def)
  then show ?thesis by (simp split: if_splits)
qed

text \<open>
  C37: one decimal, one text. For every coefficient and scale the protocol admits, the server package prints the same text
  as the two embedded packages; its own parser and the embedded one read that text back to the same coefficient and scale;
  and the tagged JSON form, which carries the text and never a number, reads back to the decimal.
\<close>

theorem decimal_text_roundtrip:
  assumes "NewDecimal (Some c) s = Inr d"
  shows "Decimal_Text d = formatDecimal c s \<and> decimalText c s = formatDecimal c s
    \<and> ParseDecimal (formatDecimal c s) = Inr d \<and> decimalFromText (formatDecimal c s) = DecimalValue (Some c) s
    \<and> (\<exists>j. Decimal_MarshalJSON d = Inr j \<and> Decimal_UnmarshalJSON old j = Inr d)
    \<and> (\<forall>n. \<exists>e. Decimal_UnmarshalJSON old (JObj [(''Decimal'', JNum n)]) = Inl e)"
proof -
  have d: "d = \<lparr>sd_coefficient = Some c, sd_scale = s\<rparr>" and b: "unat s \<le> 38" "server_decimalPrecision (Some c) \<le> 38"
    using assms by (auto simp: NewDecimal_def MaxDecimalPrecision_def split: if_splits)
  then have "length (nat_str (nat \<bar>c\<bar>)) \<le> 38" by (auto simp: server_decimalPrecision_def split: if_splits)
  note parse = parse_fixed [OF this b(1)]
  have t: "Decimal_Text d = fixed_point c s" by (simp add: d printed_decimals(3))
  have "Decimal_MarshalJSON d = Inr (JObj [(''Decimal'', JStr (fixed_point c s))])"
    using b t by (simp add: Decimal_MarshalJSON_def d MaxDecimalPrecision_def decimalWireTag_def)
  moreover have "Decimal_UnmarshalJSON old (JObj [(''Decimal'', JStr (fixed_point c s))]) = Inr d"
    by (simp add: Decimal_UnmarshalJSON_def unwrapTaggedPayload_def decodeStrictRaw_def decodeDecimalPayload_def decimalWireTag_def parse d)
  ultimately show ?thesis
    using parse from_text_fixed [OF b(1)] t
    by (auto simp: printed_decimals(1,2) d Decimal_UnmarshalJSON_def unwrapTaggedPayload_def decodeStrictRaw_def decodeDecimalPayload_def decimalWireTag_def)
qed

lemma demo_digits: "nat_str 5 = ''5''"
  by (simp add: nat_str.simps digit_char_def char_of_def bit_iff_odd)

theorem decimal_text_roundtrip_witness: "formatDecimal (-5) 2 = ''-0.05'' \<and> ParseDecimal ''-0.05'' = Inr \<lparr>sd_coefficient = Some (-5), sd_scale = 2\<rparr>"
proof -
  have n: "NewDecimal (Some (-5)) 2 = Inr \<lparr>sd_coefficient = Some (-5), sd_scale = 2\<rparr>"
    by (simp add: NewDecimal_def MaxDecimalPrecision_def server_decimalPrecision_def demo_digits)
  have f: "formatDecimal (-5) 2 = ''-0.05''" by (simp add: formatDecimal_def Let_def demo_digits)
  show ?thesis using decimal_text_roundtrip [OF n] f by simp
qed

end
