(* ===== verification/SqlDriver.thy ===== *)
theory SqlDriver
  imports Decimals
begin

text \<open>
  The \<open>database/sql\<close> driver over one native session, \<open>goframe/native_sql.go\<close>: connections, transactions,
  the classification of statements, parameters and rows. The session is the Go interface \<open>nativeQueryDB\<close>: a record
  of operations on its state, an argument of the definitions. A context is live or has ended with an error.
\<close>

record SQLResult =
  Columns :: "string list"
  Rows :: "Value list list"
  AffectedRows :: "uint64 option"
  LastInsertID :: "int64 option"

record 'd nativeQueryDB =
  qdb_QueryResultContext :: "'d \<Rightarrow> go_error option \<Rightarrow> string \<Rightarrow> Value list \<Rightarrow> 'd \<times> SQLResult result"
  qdb_ExecContext :: "'d \<Rightarrow> go_error option \<Rightarrow> string \<Rightarrow> Value list \<Rightarrow> 'd \<times> unit result"
  qdb_SQLRollbackContext :: "'d \<Rightarrow> go_error option \<Rightarrow> 'd \<times> unit result"
  qdb_RequireCapability :: "'d \<Rightarrow> string \<Rightarrow> unit result"
  qdb_Close :: "'d \<Rightarrow> 'd"

record 'd nativeConn =
  nc_db :: 'd
  nc_invalid :: bool

definition ErrResultMetadataUnavailable :: go_error where
  "ErrResultMetadataUnavailable = ErrorString ''talon native SQL did not report a generated insert ID''"

definition ErrTransactionsUnavailable :: go_error where
  "ErrTransactionsUnavailable = ErrorString ''loaded Talon Core lacks native SQL session capability''"

section \<open>Transactions\<close>

definition conn_Close :: "'d nativeQueryDB \<Rightarrow> 'd nativeConn \<Rightarrow> 'd nativeConn" where
  "conn_Close db c = \<lparr>nc_db = qdb_Close db (nc_db c), nc_invalid = True\<rparr>"

definition IsValid :: "'d nativeConn \<Rightarrow> bool" where
  "IsValid c \<longleftrightarrow> \<not> nc_invalid c"

text \<open>
  A transaction is the connection with the context it was begun with; \<open>Commit\<close> and \<open>Rollback\<close> look at that context
  again, and what it has become by then is their argument.
\<close>

definition BeginTx :: "'d nativeQueryDB \<Rightarrow> 'd nativeConn \<Rightarrow> go_error option \<Rightarrow> bool \<Rightarrow> int \<Rightarrow> 'd nativeConn \<times> unit result" where
  "BeginTx db c ctx readOnly isolation =
     (case ctx of
        Some err \<Rightarrow> (c, Inl err)
      | None \<Rightarrow>
          if readOnly \<or> isolation \<noteq> 0 then (c, Inl (ErrorString ''talon: requested transaction options are unsupported''))
          else case qdb_RequireCapability db (nc_db c) ''native_sql_session'' of
            Inl err \<Rightarrow> (c, Inl (WrapPair ErrTransactionsUnavailable '': '' err))
          | Inr _ \<Rightarrow>
              (case qdb_ExecContext db (nc_db c) ctx ''BEGIN'' [] of
                 (d', Inl err) \<Rightarrow> (conn_Close db (c\<lparr>nc_db := d'\<rparr>), Inl err)
               | (d', Inr _) \<Rightarrow> (c\<lparr>nc_db := d'\<rparr>, Inr ())))"

definition mutationOutcomeError :: "string \<Rightarrow> go_error \<Rightarrow> go_error" where
  "mutationOutcomeError operation err =
     (if ErrorCodeOf err = CodeProtocolViolation
      then TalonError CodeResultIndeterminate (NativeCodeOf err) operation ''native SQL response could not prove the mutation outcome'' (Some err) None None
      else err)"

definition invalidMutationResult :: "string \<Rightarrow> string \<Rightarrow> go_error" where
  "invalidMutationResult operation message =
     mutationOutcomeError operation (TalonError CodeProtocolViolation [] operation message None None None)"

definition Commit :: "'d nativeQueryDB \<Rightarrow> 'd nativeConn \<Rightarrow> go_error option \<Rightarrow> 'd nativeConn \<times> unit result" where
  "Commit db c ctx =
     (case qdb_ExecContext db (nc_db c) ctx ''COMMIT'' [] of
        (d', Inl err) \<Rightarrow> (conn_Close db (c\<lparr>nc_db := d'\<rparr>), Inl (mutationOutcomeError ''COMMIT'' err))
      | (d', Inr _) \<Rightarrow> (c\<lparr>nc_db := d'\<rparr>, Inr ()))"

definition Rollback :: "'d nativeQueryDB \<Rightarrow> 'd nativeConn \<Rightarrow> go_error option \<Rightarrow> 'd nativeConn \<times> unit result" where
  "Rollback db c ctx =
     (case qdb_SQLRollbackContext db (nc_db c) ctx of
        (d', Inl err) \<Rightarrow> (conn_Close db (c\<lparr>nc_db := d'\<rparr>), Inl err)
      | (d', Inr _) \<Rightarrow> (c\<lparr>nc_db := d'\<rparr>, Inr ()))"

definition Ping :: "'d nativeQueryDB \<Rightarrow> 'd nativeConn \<Rightarrow> go_error option \<Rightarrow> 'd nativeConn \<times> unit result" where
  "Ping db c ctx =
     (case ctx of
        Some err \<Rightarrow> (c, Inl err)
      | None \<Rightarrow>
          (case qdb_QueryResultContext db (nc_db c) ctx ''SHOW TABLES'' [] of
             (d', Inl err) \<Rightarrow> (c\<lparr>nc_db := d'\<rparr>, Inl err)
           | (d', Inr _) \<Rightarrow> (c\<lparr>nc_db := d'\<rparr>, Inr ())))"

section \<open>Parameters\<close>

text \<open>
  The Go types a parameter may have. A time is its milliseconds since the epoch, a \<open>Valuer\<close> what its method returns,
  and any other type its name.
\<close>

datatype driver_value =
    DriverValue Value
  | DriverNil
  | DriverInt64 int64
  | DriverInt int64
  | DriverBool bool
  | DriverFloat64 float64
  | DriverString string
  | DriverBytes bytes
  | DriverTime int64
  | DriverValuer "go_error + driver_value"
  | DriverOther string

record NamedValue =
  nv_Name :: string
  nv_Ordinal :: nat
  nv_Value :: driver_value

fun convertParam :: "driver_value \<Rightarrow> Value result" where
  "convertParam (DriverValue value) = Inr value"
| "convertParam DriverNil = Inr NullValue"
| "convertParam (DriverInt64 value) = Inr (IntegerValue value)"
| "convertParam (DriverInt value) = Inr (IntegerValue value)"
| "convertParam (DriverBool value) = Inr (BooleanValue value)"
| "convertParam (DriverFloat64 value) = FloatValue value"
| "convertParam (DriverString value) = TextValue value"
| "convertParam (DriverBytes value) = Inr (BlobValue value)"
| "convertParam (DriverTime millis) = Inr (TimestampValue millis)"
| "convertParam (DriverValuer (Inl err)) = Inl err"
| "convertParam (DriverValuer (Inr converted)) = convertParam converted"
| "convertParam (DriverOther name) = Inl (ErrorString (''Go type '' @ name @ '' has no exact Talon SQL mapping''))"

definition named_unsupported :: go_error where
  "named_unsupported = ErrorString ''talon: named SQL parameters are unsupported''"

definition CheckNamedValue :: "NamedValue \<Rightarrow> unit result" where
  "CheckNamedValue value = (if nv_Name value \<noteq> [] then Inl named_unsupported else Inr ())"

fun convert_params :: "nat \<Rightarrow> NamedValue list \<Rightarrow> Value list result" where
  "convert_params i [] = Inr []"
| "convert_params i (arg # args) =
     (if nv_Name arg \<noteq> [] then Inl named_unsupported
      else case convertParam (nv_Value arg) of
        Inl err \<Rightarrow> Inl (WrapError (''talon: parameter '' @ nat_str (i + 1) @ '': '') err)
      | Inr value \<Rightarrow> (case convert_params (Suc i) args of Inl err \<Rightarrow> Inl err | Inr values \<Rightarrow> Inr (value # values)))"

definition convertParams :: "NamedValue list \<Rightarrow> Value list result" where
  "convertParams args = convert_params 0 args"

definition positionalArgs :: "driver_value list \<Rightarrow> NamedValue list" where
  "positionalArgs args = map (\<lambda>(i, value). \<lparr>nv_Name = [], nv_Ordinal = i + 1, nv_Value = value\<rparr>) (enumerate 0 args)"

section \<open>Statements\<close>

definition normalizeMutationSQL :: "string \<Rightarrow> string" where
  "normalizeMutationSQL statement =
     (let trimmed = TrimSpace statement; upper = ToUpper trimmed
      in if HasPrefix upper ''INSERT IGNORE INTO '' then ''INSERT OR IGNORE INTO '' @ drop (length ''INSERT IGNORE INTO '') trimmed
         else if HasPrefix upper ''REPLACE INTO '' then ''INSERT OR REPLACE INTO '' @ drop (length ''REPLACE INTO '') trimmed
         else trimmed)"

definition single_statement :: "string \<Rightarrow> string" where
  "single_statement statement = TrimSpace (TrimSuffix (TrimSpace statement) '';'')"

definition mutationKind :: "string \<Rightarrow> string option" where
  "mutationKind statement =
     (let sql = single_statement statement; upper = ToUpper sql; words = Fields sql
      in if Contains sql '';'' \<or> Contains upper ''RETURNING'' then None
         else if length words < 3 then None
         else if ToUpper (hd words) = ''INSERT'' then (if Contains upper '' ON DUPLICATE '' then None else Some ''INSERT'')
         else if ToUpper (hd words) = ''UPDATE'' then Some ''UPDATE''
         else if ToUpper (hd words) = ''DELETE'' then Some ''DELETE''
         else None)"

record nativeResult =
  nr_affected :: int64
  nr_lastInsertID :: int64
  nr_hasInsertID :: bool

definition RowsAffected :: "nativeResult \<Rightarrow> int64" where
  "RowsAffected r = nr_affected r"

definition LastInsertId :: "nativeResult \<Rightarrow> int64 result" where
  "LastInsertId r = (if \<not> nr_hasInsertID r then Inl ErrResultMetadataUnavailable else Inr (nr_lastInsertID r))"

definition refused_prefixes :: "string list" where
  "refused_prefixes = [''SELECT '', ''SHOW '', ''DESCRIBE '', ''EXPLAIN '', ''WITH '', ''BEGIN'', ''COMMIT'', ''ROLLBACK'']"

text \<open>What a mutation returned: the effects the engine reported, which must be there and fit.\<close>

definition mutation_result :: "string \<Rightarrow> SQLResult \<Rightarrow> nativeResult result" where
  "mutation_result mutation resultSet =
     (case AffectedRows resultSet of
        None \<Rightarrow> Inl (invalidMutationResult mutation ''Core omitted affected rows'')
      | Some affected \<Rightarrow>
          if 2 ^ 63 - 1 < unat affected then Inl (invalidMutationResult mutation ''affected row count exceeds database/sql range'')
          else Inr \<lparr>nr_affected = affected, nr_lastInsertID = (case LastInsertID resultSet of None \<Rightarrow> 0 | Some i \<Rightarrow> i),
                    nr_hasInsertID = (LastInsertID resultSet \<noteq> None)\<rparr>)"

text \<open>The statement to send, its verb, and whether it is a mutation with effects or a schema change.\<close>

definition exec_plan :: "string \<Rightarrow> (string \<times> string \<times> bool) result" where
  "exec_plan statement =
     (case mutationKind (normalizeMutationSQL statement) of
        Some mutation \<Rightarrow> Inr (normalizeMutationSQL statement, mutation, True)
      | None \<Rightarrow>
          if Fields statement = [] then Inl (ErrorString ''talon: empty SQL'')
          else
            (let verb = ToUpper (hd (Fields statement))
             in if verb \<notin> {''CREATE'', ''ALTER'', ''DROP'', ''TRUNCATE''} then Inl (ErrorString ''talon: unsupported Exec statement shape'')
                else if Contains (single_statement statement) '';'' then Inl (ErrorString ''talon: Exec accepts one statement at a time'')
                else Inr (statement, verb, False)))"

definition ExecContext :: "'d nativeQueryDB \<Rightarrow> 'd nativeConn \<Rightarrow> go_error option \<Rightarrow> string \<Rightarrow> NamedValue list
    \<Rightarrow> 'd nativeConn \<times> nativeResult result" where
  "ExecContext db c ctx statement args =
     (case ctx of
        Some err \<Rightarrow> (c, Inl err)
      | None \<Rightarrow>
          (let upper = ToUpper (TrimSpace statement)
           in if list_ex (HasPrefix upper) refused_prefixes
              then (c, Inl (ErrorString ''talon: query or transaction SQL cannot be sent through Exec''))
              else if Contains upper ''RETURNING'' then (c, Inl (ErrorString ''talon: use Query for SQL with RETURNING''))
              else case convertParams args of
                Inl err \<Rightarrow> (c, Inl err)
              | Inr params \<Rightarrow>
                  (case exec_plan statement of
                     Inl err \<Rightarrow> (c, Inl err)
                   | Inr (sql, verb, effects) \<Rightarrow>
                       (case qdb_QueryResultContext db (nc_db c) ctx sql params of
                          (d', Inl err) \<Rightarrow> (c\<lparr>nc_db := d'\<rparr>, Inl (mutationOutcomeError verb err))
                        | (d', Inr resultSet) \<Rightarrow>
                            (c\<lparr>nc_db := d'\<rparr>,
                             if effects then mutation_result verb resultSet
                             else Inr \<lparr>nr_affected = 0, nr_lastInsertID = 0, nr_hasInsertID = False\<rparr>)))))"

section \<open>Queries and rows\<close>

record nativeRows =
  rows_columns :: "string list"
  rows_values :: "Value list list"
  rows_next :: nat

definition QueryContext :: "'d nativeQueryDB \<Rightarrow> 'd nativeConn \<Rightarrow> go_error option \<Rightarrow> string \<Rightarrow> NamedValue list
    \<Rightarrow> 'd nativeConn \<times> nativeRows result" where
  "QueryContext db c ctx statement args =
     (case ctx of
        Some err \<Rightarrow> (c, Inl err)
      | None \<Rightarrow>
          (case convertParams args of
             Inl err \<Rightarrow> (c, Inl err)
           | Inr params \<Rightarrow>
               (case qdb_QueryResultContext db (nc_db c) ctx statement params of
                  (d', Inl err) \<Rightarrow> (c\<lparr>nc_db := d'\<rparr>, Inl err)
                | (d', Inr resultSet) \<Rightarrow>
                    (c\<lparr>nc_db := d'\<rparr>,
                     case find (\<lambda>row. length row \<noteq> length (Columns resultSet)) (Rows resultSet) of
                       Some row \<Rightarrow> Inl (ErrorString (''talon: native row width '' @ nat_str (length row) @ '' does not match ''
                                      @ nat_str (length (Columns resultSet)) @ '' columns''))
                     | None \<Rightarrow> Inr \<lparr>rows_columns = Columns resultSet, rows_values = Rows resultSet, rows_next = 0\<rparr>))))"

end
