(* ===== verification/SqlDriverProofs.thy ===== *)
theory SqlDriverProofs
  imports SqlDriver
begin

text \<open>
  What the driver promises: \<open>Exec\<close> sends one statement of a known shape or none, an uncertain outcome is reported as
  such, and a connection that is still valid has not lost the end of a transaction.
\<close>

section \<open>One statement\<close>

text \<open>The session with a log of the statements that were sent.\<close>

definition traced_db :: "'d nativeQueryDB \<Rightarrow> ('d \<times> (string \<times> Value list) list) nativeQueryDB" where
  "traced_db db = \<lparr>
     qdb_QueryResultContext = (\<lambda>(d, log) ctx sql params. case qdb_QueryResultContext db d ctx sql params of (d', r) \<Rightarrow> ((d', log @ [(sql, params)]), r)),
     qdb_ExecContext = (\<lambda>(d, log) ctx sql params. case qdb_ExecContext db d ctx sql params of (d', r) \<Rightarrow> ((d', log @ [(sql, params)]), r)),
     qdb_SQLRollbackContext = (\<lambda>(d, log) ctx. case qdb_SQLRollbackContext db d ctx of (d', r) \<Rightarrow> ((d', log @ [(''ROLLBACK'', [])]), r)),
     qdb_RequireCapability = (\<lambda>(d, log). qdb_RequireCapability db d),
     qdb_Close = (\<lambda>(d, log). (qdb_Close db d, log))\<rparr>"

text \<open>One statement, whose verb is a mutation or a change of the schema.\<close>

definition exec_statement :: "string \<Rightarrow> string \<Rightarrow> bool \<Rightarrow> bool" where
  "exec_statement sql verb effects \<longleftrightarrow> \<not> Contains (single_statement sql) '';''
     \<and> (if effects then mutationKind sql = Some verb \<and> verb \<in> {''INSERT'', ''UPDATE'', ''DELETE''}
        else ToUpper (hd (Fields sql)) = verb \<and> verb \<in> {''CREATE'', ''ALTER'', ''DROP'', ''TRUNCATE''})"

text \<open>What the result set of the engine means for the caller.\<close>

definition effects_reported :: "bool \<Rightarrow> SQLResult \<Rightarrow> nativeResult \<Rightarrow> bool" where
  "effects_reported effects rs res \<longleftrightarrow> effects \<longrightarrow>
     (\<exists>n. AffectedRows rs = Some n \<and> sint (RowsAffected res) = int (unat n)
        \<and> (case LastInsertID rs of None \<Rightarrow> LastInsertId res = Inl ErrResultMetadataUnavailable | Some i \<Rightarrow> LastInsertId res = Inr i))"

definition exec_outcome :: "'d nativeQueryDB \<Rightarrow> 'd \<Rightarrow> bool \<Rightarrow> go_error option \<Rightarrow> NamedValue list
    \<Rightarrow> ('d \<times> (string \<times> Value list) list) nativeConn \<times> nativeResult result \<Rightarrow> bool" where
  "exec_outcome db d invalid ctx args outcome \<longleftrightarrow>
     (case outcome of (c', r) \<Rightarrow>
        (\<exists>e. c' = \<lparr>nc_db = (d, []), nc_invalid = invalid\<rparr> \<and> r = Inl e)
        \<or> (\<exists>sql params verb effects. nc_invalid c' = invalid \<and> snd (nc_db c') = [(sql, params)] \<and> convertParams args = Inr params
             \<and> fst (nc_db c') = fst (qdb_QueryResultContext db d ctx sql params) \<and> exec_statement sql verb effects
             \<and> (case r of
                  Inl e \<Rightarrow> ErrorCodeOf e \<noteq> CodeProtocolViolation
                | Inr res \<Rightarrow> \<exists>rs. snd (qdb_QueryResultContext db d ctx sql params) = Inr rs \<and> effects_reported effects rs res)))"

lemma outcome_not_protocol: "ErrorCodeOf (mutationOutcomeError operation err) \<noteq> CodeProtocolViolation"
  "ErrorCodeOf (invalidMutationResult operation message) \<noteq> CodeProtocolViolation"
  by (simp_all add: mutationOutcomeError_def invalidMutationResult_def ErrorCodeOf_def)

lemma mutation_single: "mutationKind sql = Some verb \<Longrightarrow> \<not> Contains (single_statement sql) '';'' \<and> verb \<in> {''INSERT'', ''UPDATE'', ''DELETE''}"
  by (auto simp: mutationKind_def Let_def split: if_splits)

lemma plan_statement: "exec_plan statement = Inr (sql, verb, effects) \<Longrightarrow> exec_statement sql verb effects"
  using mutation_single
  by (auto simp: exec_plan_def exec_statement_def Let_def split: option.splits if_splits)

lemma sint_small: "unat n \<le> 2 ^ 63 - 1 \<Longrightarrow> sint (n :: int64) = int (unat n)"
proof -
  assume "unat n \<le> 2 ^ 63 - 1"
  then have "int (unat n) \<le> int (2 ^ 63 - 1)" by (rule of_nat_mono)
  then have "uint n < 2 ^ 63" by simp
  then have "sint n = uint n" using order_trans [of "- (2 ^ 63)" 0 "uint n"] unfolding sint_uint by (intro signed_take_bit_int_eq_self) simp_all
  then show ?thesis by simp
qed

lemma mutation_effects: "mutation_result verb rs = Inr res \<Longrightarrow> effects_reported True rs res"
  by (auto simp: mutation_result_def effects_reported_def RowsAffected_def LastInsertId_def not_less sint_small split: option.splits if_splits)

lemma mutation_error: "mutation_result verb rs = Inl e \<Longrightarrow> ErrorCodeOf e \<noteq> CodeProtocolViolation"
  by (auto simp: mutation_result_def outcome_not_protocol split: option.splits if_splits)

lemma nothing_sent: "exec_outcome db d invalid ctx args (\<lparr>nc_db = (d, []), nc_invalid = invalid\<rparr>, Inl e)"
  by (simp add: exec_outcome_def)

lemma statement_sent:
  assumes "convertParams args = Inr params" "exec_statement sql verb effects"
  shows "exec_outcome db d invalid ctx args
    (case qdb_QueryResultContext (traced_db db) (d, []) ctx sql params of
        (d', Inl err) \<Rightarrow> (\<lparr>nc_db = d', nc_invalid = invalid\<rparr>, Inl (mutationOutcomeError verb err))
      | (d', Inr rs) \<Rightarrow> (\<lparr>nc_db = d', nc_invalid = invalid\<rparr>, if effects then mutation_result verb rs
           else Inr \<lparr>nr_affected = 0, nr_lastInsertID = 0, nr_hasInsertID = False\<rparr>))"
proof -
  obtain d' r where q: "qdb_QueryResultContext db d ctx sql params = (d', r)" by fastforce
  show ?thesis
  proof (cases r)
    case (Inl e)
    then show ?thesis using assms by (auto simp: traced_db_def q exec_outcome_def outcome_not_protocol)
  next
    case (Inr rs)
    then show ?thesis
      using assms mutation_effects [of verb rs] mutation_error [of verb rs]
      by (cases "mutation_result verb rs") (auto simp: traced_db_def q exec_outcome_def effects_reported_def)
  qed
qed

text \<open>
  C35: \<open>Exec\<close> sends one statement or none and never lies about a write. Whatever statement, parameters and session it is
  given, the session is untouched and there is an error, or exactly one statement was sent, with all parameters converted:
  one statement without an inner semicolon, whose verb is INSERT, UPDATE, DELETE, CREATE, ALTER, DROP or TRUNCATE, so never
  a query or transaction control. After it was sent, an error is never a bare protocol violation, and success reports the
  effects the engine reported, with a row count that fits the signed range.
\<close>

theorem exec_sends_one_statement:
  "exec_outcome db d invalid ctx args (ExecContext (traced_db db) \<lparr>nc_db = (d, []), nc_invalid = invalid\<rparr> ctx statement args)"
  unfolding ExecContext_def Let_def
  by (auto simp: nothing_sent intro!: statement_sent intro: plan_statement split: option.split sum.split)


section \<open>Sessions\<close>

text \<open>The calls \<open>database/sql\<close> makes on one connection, in any order, with the error of each.\<close>

datatype driver_call =
    CallBegin "go_error option" bool int
  | CallCommit "go_error option"
  | CallRollback "go_error option"
  | CallPing "go_error option"
  | CallExec "go_error option" string "NamedValue list"
  | CallQuery "go_error option" string "NamedValue list"
  | CallClose

definition failure :: "'c \<times> 'a result \<Rightarrow> 'c \<times> go_error option" where
  "failure outcome = (case outcome of (c, Inl e) \<Rightarrow> (c, Some e) | (c, Inr _) \<Rightarrow> (c, None))"

fun run_call :: "'d nativeQueryDB \<Rightarrow> 'd nativeConn \<Rightarrow> driver_call \<Rightarrow> 'd nativeConn \<times> go_error option" where
  "run_call db c (CallBegin ctx readOnly isolation) = failure (BeginTx db c ctx readOnly isolation)"
| "run_call db c (CallCommit ctx) = failure (Commit db c ctx)"
| "run_call db c (CallRollback ctx) = failure (Rollback db c ctx)"
| "run_call db c (CallPing ctx) = failure (Ping db c ctx)"
| "run_call db c (CallExec ctx statement args) = failure (ExecContext db c ctx statement args)"
| "run_call db c (CallQuery ctx statement args) = failure (QueryContext db c ctx statement args)"
| "run_call db c CallClose = (conn_Close db c, None)"

inductive driver_session :: "'d nativeQueryDB \<Rightarrow> 'd nativeConn \<Rightarrow> (driver_call \<times> 'd \<times> go_error option \<times> 'd) list \<Rightarrow> 'd nativeConn \<Rightarrow> bool" for db where
  start: "driver_session db c [] c"
| call: "driver_session db c log c' \<Longrightarrow> run_call db c' op = (c'', e) \<Longrightarrow> driver_session db c (log @ [(op, nc_db c', e, nc_db c'')]) c''"

text \<open>
  A call that leaves the connection usable: it did not close it, it did not fail to end a transaction, and a transaction
  it failed to begin was not begun, because the session was not asked.
\<close>

fun certain_call :: "driver_call \<times> 'd \<times> go_error option \<times> 'd \<Rightarrow> bool" where
  "certain_call (CallClose, d, e, d') = False"
| "certain_call (CallCommit ctx, d, e, d') = (e = None)"
| "certain_call (CallRollback ctx, d, e, d') = (e = None)"
| "certain_call (CallBegin ctx readOnly isolation, d, e, d') = (e = None \<or> d' = d)"
| "certain_call _ = True"

lemmas driver_defs = failure_def BeginTx_def Commit_def Rollback_def Ping_def ExecContext_def QueryContext_def conn_Close_def IsValid_def Let_def

lemma call_keeps_invalid: "run_call db c op = (c', e) \<Longrightarrow> nc_invalid c \<Longrightarrow> nc_invalid c'"
  by (cases op) (auto simp: driver_defs split: option.splits sum.splits prod.splits if_splits)

lemma valid_call: "run_call db c op = (c', e) \<Longrightarrow> IsValid c' \<Longrightarrow> IsValid c \<and> certain_call (op, nc_db c, e, nc_db c')"
  by (cases op) (auto simp: driver_defs split: option.splits sum.splits prod.splits if_splits)

lemma driver_session_certain: "driver_session db c log c' \<Longrightarrow> IsValid c' \<Longrightarrow> IsValid c \<and> list_all certain_call log"
proof (induction rule: driver_session.induct)
  case (call c log c' op c'' e)
  then show ?case using valid_call [of db c' op c'' e] by simp
qed simp

text \<open>
  C36: a connection that is still valid is certain. After any sequence of calls on a connection that \<open>IsValid\<close> still
  offers for reuse, no commit and no rollback failed, and every failed begin left the session untouched; a connection
  that was invalid stays invalid. And when a commit fails the connection is invalid, its session closed, and the error is
  not a protocol violation, so that an outcome that cannot be proved is reported as indeterminate.
\<close>

theorem valid_connection_is_certain:
  assumes "driver_session db c log c'"
  shows "(nc_invalid c' \<or> nc_invalid c = False \<and> list_all certain_call log)
    \<and> (case Commit db c' ctx of (c'', Inl e) \<Rightarrow> nc_invalid c'' \<and> ErrorCodeOf e \<noteq> CodeProtocolViolation | (c'', Inr _) \<Rightarrow> nc_invalid c'' = nc_invalid c')"
proof -
  have "case Commit db c' ctx of (c'', Inl e) \<Rightarrow> nc_invalid c'' \<and> ErrorCodeOf e \<noteq> CodeProtocolViolation | (c'', Inr _) \<Rightarrow> nc_invalid c'' = nc_invalid c'"
    by (auto simp: Commit_def conn_Close_def outcome_not_protocol split: sum.splits prod.splits)
  then show ?thesis using driver_session_certain [OF assms] by (auto simp: IsValid_def)
qed

definition demo_session :: "nat nativeQueryDB" where
  "demo_session = \<lparr>qdb_QueryResultContext = (\<lambda>n ctx sql params. (Suc n, Inr \<lparr>Columns = [], Rows = [], AffectedRows = Some 1, LastInsertID = None\<rparr>)),
     qdb_ExecContext = (\<lambda>n ctx sql params. (Suc n, if sql = ''COMMIT'' then Inl (newError CodeProtocolViolation ''sql'' ''lost'' None) else Inr ())),
     qdb_SQLRollbackContext = (\<lambda>n ctx. (Suc n, Inr ())), qdb_RequireCapability = (\<lambda>n name. Inr ()), qdb_Close = (\<lambda>n. 0)\<rparr>"

theorem valid_connection_is_certain_witness:
  "list_all certain_call [(CallBegin None False 0, 0 :: nat, None, 1), (CallRollback None, 1, None, 2)]
   \<and> (case Commit demo_session \<lparr>nc_db = 2, nc_invalid = False\<rparr> None of (c, Inl e) \<Rightarrow> nc_invalid c \<and> ErrorCodeOf e = CodeResultIndeterminate | (c, Inr _) \<Rightarrow> False)"
proof -
  let ?c = "\<lambda>n. \<lparr>nc_db = n, nc_invalid = False\<rparr>"
  have "driver_session demo_session (?c 0) ([] @ [(CallBegin None False 0, nc_db (?c 0), None, nc_db (?c 1))]) (?c 1)"
    by (rule driver_session.call [OF driver_session.start]) (simp add: driver_defs demo_session_def)
  then have "driver_session demo_session (?c 0) (([] @ [(CallBegin None False 0, nc_db (?c 0), None, nc_db (?c 1))])
      @ [(CallRollback None, nc_db (?c 1), None, nc_db (?c 2))]) (?c 2)"
    by (rule driver_session.call) (simp add: driver_defs demo_session_def)
  from valid_connection_is_certain [OF this, of None] show ?thesis
    by (simp add: driver_defs demo_session_def mutationOutcomeError_def ErrorCodeOf_def newError_def)
qed

end
