(* ===== verification/DatabaseTransactions.thy ===== *)
theory DatabaseTransactions
  imports RevisionQuery CommandDigest
begin

text \<open>
  The transactions of the embedded database: \<open>DB.ConditionalTransaction\<close> and its receipt lookup (\<open>conditional.go\<close>,
  with the bridge of \<open>internal/serverprotocol/bridge.go\<close>), and the appends to revision streams and theirs
  (\<open>revision_stream.go\<close>). The native function is an argument, as in \<open>Database\<close>.
\<close>

definition ConditionalTransactionParams :: "ConditionalTransactionRequest \<Rightarrow> json result" where
  "ConditionalTransactionParams request =
     (case buildClosedConditionalRequest request of
        Inl err \<Rightarrow> Inl err
      | Inr built \<Rightarrow> Inr (wireConditionalRequest_json (built_wire built)))"

definition DecodeConditionalTransactionResult :: "json \<Rightarrow> ConditionalTransactionRequest \<Rightarrow> ConditionalTransactionResult result" where
  "DecodeConditionalTransactionResult data request =
     (case buildClosedConditionalRequest request of
        Inl err \<Rightarrow> Inl err
      | Inr built \<Rightarrow> decodeConditionalTransactionResult data built)"

definition DecodeConditionalReceiptLookup :: "json \<Rightarrow> ConditionalTransactionRequest \<Rightarrow> ConditionalReceiptLookup result" where
  "DecodeConditionalReceiptLookup data request =
     (case buildClosedConditionalRequest request of
        Inl err \<Rightarrow> Inl err
      | Inr built \<Rightarrow> decodeConditionalReceiptLookup data built)"

definition ExecuteConditionalTransaction :: "('h \<Rightarrow> string \<Rightarrow> 'h \<times> string native_reply) \<Rightarrow> 'h DB \<Rightarrow> ConditionalTransactionRequest
    \<Rightarrow> 'h DB \<times> ConditionalTransactionResult result" where
  "ExecuteConditionalTransaction talon_execute db request =
     (case ConditionalTransactionParams request of
        Inl err \<Rightarrow> (db, Inl err)
      | Inr params \<Rightarrow>
          (case RequireCapability (db_nativeInfo db) ''native_conditional_transaction_v2'' of
             Inl err \<Rightarrow> (db, Inl err)
           | Inr _ \<Rightarrow>
               (case execute talon_execute db ''storage'' ''conditional_batch'' (Some (Inr params)) of
                  (db', Inl err) \<Rightarrow> (db', Inl err)
                | (db', Inr data) \<Rightarrow> (db', DecodeConditionalTransactionResult data request))))"

definition ConditionalTransaction :: "('h \<Rightarrow> string \<Rightarrow> 'h \<times> string native_reply) \<Rightarrow> 'h DB \<Rightarrow> string \<Rightarrow> string
    \<Rightarrow> ConditionalTransactionCondition list \<Rightarrow> ConditionalTransactionMutation list \<Rightarrow> 'h DB \<times> ConditionalTransactionResult result" where
  "ConditionalTransaction talon_execute db namespace requestID conditions mutations =
     (case NewConditionalTransactionRequest namespace requestID conditions mutations of
        Inl err \<Rightarrow> (db, Inl err)
      | Inr request \<Rightarrow> ExecuteConditionalTransaction talon_execute db request)"

definition ConditionalTransactionReceiptFor :: "('h \<Rightarrow> string \<Rightarrow> 'h \<times> string native_reply) \<Rightarrow> 'h DB \<Rightarrow> ConditionalTransactionRequest
    \<Rightarrow> 'h DB \<times> ConditionalReceiptLookup result" where
  "ConditionalTransactionReceiptFor talon_execute db request =
     (case ConditionalTransactionParams request of
        Inl err \<Rightarrow> (db, Inl err)
      | Inr _ \<Rightarrow>
          (case RequireCapability (db_nativeInfo db) ''native_conditional_transaction_v2'' of
             Inl err \<Rightarrow> (db, Inl err)
           | Inr _ \<Rightarrow>
               (case execute talon_execute db ''storage'' ''conditional_receipt'' (Some (Inr (JObj [(''request_id'', JStr (req_requestID request))]))) of
                  (db', Inl err) \<Rightarrow> (db', Inl err)
                | (db', Inr data) \<Rightarrow> (db', DecodeConditionalReceiptLookup data request))))"

definition wireRevisionStreamAppendRequest_json :: "wireRevisionStreamAppendRequest \<Rightarrow> json" where
  "wireRevisionStreamAppendRequest_json wire = JObj
     [(''version'', JNum (nat_str (unat (wa_Version wire)))), (''request_id'', JStr (wa_RequestID wire)), (''namespace'', JStr (wa_Namespace wire)),
      (''stream_id'', wireBytes_MarshalJSON (wa_StreamID wire)),
      (''expected_head'', case wa_ExpectedHead wire of None \<Rightarrow> JNull | Some head \<Rightarrow> wireHead_json (toWireRevisionStreamHead head)),
      (''revision'', canonicalUint64_MarshalJSON (wa_Revision wire)), (''occurred_at'', canonicalInt64_MarshalJSON (wa_OccurredAt wire)),
      (''payload'', wireBytes_MarshalJSON (wa_Payload wire)),
      (''side_conditions'', JArr (map wireConditionalCondition_json (wa_SideConditions wire))),
      (''side_mutations'', JArr (map wireConditionalMutation_json (wa_SideMutations wire)))]"

definition RevisionStreamAppend :: "('h \<Rightarrow> string \<Rightarrow> 'h \<times> string native_reply) \<Rightarrow> 'h DB \<Rightarrow> RevisionStreamAppendRequest
    \<Rightarrow> 'h DB \<times> RevisionStreamAppendResult result" where
  "RevisionStreamAppend talon_execute db request =
     (case RequireCapability (db_nativeInfo db) ''revision_stream'' of
        Inl err \<Rightarrow> (db, Inl err)
      | Inr _ \<Rightarrow>
          (case buildRevisionStreamAppend request of
             Inl err \<Rightarrow> (db, Inl err)
           | Inr built \<Rightarrow>
               (case execute talon_execute db ''storage'' ''revision_stream_append'' (Some (Inr (wireRevisionStreamAppendRequest_json (bs_wire built)))) of
                  (db', Inl err) \<Rightarrow> (db', Inl err)
                | (db', Inr data) \<Rightarrow> (db', decodeRevisionStreamAppendResult data built))))"

definition RevisionStreamAppendReceipt :: "('h \<Rightarrow> string \<Rightarrow> 'h \<times> string native_reply) \<Rightarrow> 'h DB \<Rightarrow> RevisionStreamAppendRequest
    \<Rightarrow> 'h DB \<times> RevisionStreamAppendReceiptLookup result" where
  "RevisionStreamAppendReceipt talon_execute db request =
     (case RequireCapability (db_nativeInfo db) ''revision_stream'' of
        Inl err \<Rightarrow> (db, Inl err)
      | Inr _ \<Rightarrow>
          (case buildRevisionStreamAppend request of
             Inl err \<Rightarrow> (db, Inl err)
           | Inr built \<Rightarrow>
               (case execute talon_execute db ''storage'' ''conditional_receipt'' (Some (Inr (JObj [(''request_id'', JStr (ap_requestID request))]))) of
                  (db', Inl err) \<Rightarrow> (db', Inl err)
                | (db', Inr data) \<Rightarrow> (db', decodeRevisionStreamAppendReceiptLookup data built))))"

end
