(* ===== verification/NativePolicy.thy ===== *)
theory NativePolicy
  imports GoStrings SHA256
begin

text \<open>
  The trust policies of native admission: the release policy of \<open>native_manifest.go\<close> (\<open>NativePolicy\<close>,
  \<open>validateNativePolicy\<close>, \<open>hashNativePolicy\<close>), the unsigned local policy of \<open>native_development.go\<close>
  (\<open>LocalDevelopmentPolicy\<close>, \<open>validateLocalDevelopmentPolicy\<close>, \<open>hashLocalDevelopmentPolicy\<close>), the supported
  platforms and the ABI symbol sets. The anchored regular expressions are predicates; \<open>path/filepath\<close> is
  modelled for the Unix platforms the SDK supports. Where the sources range over a map, which of
  several errors is reported depends on the iteration order; the model takes the order of the literal.
\<close>

section \<open>Anchored patterns\<close>

definition commitPattern :: "string \<Rightarrow> bool" where
  "commitPattern s \<longleftrightarrow> class_pattern lower_hex 40 40 s"

definition shaPattern :: "string \<Rightarrow> bool" where
  "shaPattern s \<longleftrightarrow> sha_pattern s"

text \<open>The rest of a text after \<open>[0-9]+\<close>, and after three such numbers with dots between.\<close>

definition after_number :: "string \<Rightarrow> string option" where
  "after_number s = (if takeWhile is_digit s = [] then None else Some (dropWhile is_digit s))"

definition after_dot :: "string \<Rightarrow> string option" where
  "after_dot s = (case s of [] \<Rightarrow> None | c # s1 \<Rightarrow> if c = CHR ''.'' then Some s1 else None)"

definition after_version :: "string \<Rightarrow> string option" where
  "after_version s =
     Option.bind (after_number s) (\<lambda>s. Option.bind (after_dot s) (\<lambda>s. Option.bind (after_number s)
       (\<lambda>s. Option.bind (after_dot s) after_number)))"

definition tagPattern :: "string \<Rightarrow> bool" where
  "tagPattern s \<longleftrightarrow> (case s of [] \<Rightarrow> False | c # s1 \<Rightarrow> c = CHR ''v'' \<and> after_version s1 = Some [])"

definition alphanumeric :: "char \<Rightarrow> bool" where
  "alphanumeric c \<longleftrightarrow> is_digit c \<or> is_lower c \<or> is_upper c"

definition semverPattern :: "string \<Rightarrow> bool" where
  "semverPattern s \<longleftrightarrow>
     (case after_version s of
        None \<Rightarrow> False
      | Some [] \<Rightarrow> True
      | Some (c # s1) \<Rightarrow> (c = CHR ''-'' \<or> c = CHR ''+'') \<and> s1 \<noteq> []
          \<and> list_all (\<lambda>c. alphanumeric c \<or> c = CHR ''.'' \<or> c = CHR ''-'') s1)"

definition namePattern :: "string \<Rightarrow> bool" where
  "namePattern s \<longleftrightarrow> s \<noteq> [] \<and> list_all (\<lambda>c. alphanumeric c \<or> c = CHR ''.'' \<or> c = CHR ''_'' \<or> c = CHR ''-'') s"

definition symbolPattern :: "string \<Rightarrow> bool" where
  "symbolPattern s \<longleftrightarrow> HasPrefix s ''talon_'' \<and> drop 6 s \<noteq> []
     \<and> list_all (\<lambda>c. is_digit c \<or> is_lower c \<or> c = CHR ''_'') (drop 6 s)"

section \<open>Paths\<close>

fun split_on :: "char \<Rightarrow> string \<Rightarrow> string list" where
  "split_on sep [] = [[]]"
| "split_on sep (c # s) =
     (if c = sep then [] # split_on sep s
      else case split_on sep s of [] \<Rightarrow> [[c]] | w # ws \<Rightarrow> (c # w) # ws)"

text \<open>\<open>filepath.Clean\<close>: the elements kept so far, last first.\<close>

definition clean_step :: "bool \<Rightarrow> string \<Rightarrow> string list \<Rightarrow> string list" where
  "clean_step rooted element kept =
     (if element = [] \<or> element = ''.'' then kept
      else if element = ''..'' then
        (case kept of
           [] \<Rightarrow> if rooted then [] else [element]
         | x # xs \<Rightarrow> if x = ''..'' then element # kept else xs)
      else element # kept)"

definition filepath_IsAbs :: "string \<Rightarrow> bool" where
  "filepath_IsAbs path = HasPrefix path ''/''"

definition filepath_Clean :: "string \<Rightarrow> string" where
  "filepath_Clean path =
     (let rooted = filepath_IsAbs path; text = join ''/'' (rev (fold (clean_step rooted) (split_on (CHR ''/'') path) []))
      in if rooted then CHR ''/'' # text else if text = [] then ''.'' else text)"

definition filepath_Join :: "string \<Rightarrow> string \<Rightarrow> string" where
  "filepath_Join a b =
     (if a \<noteq> [] then filepath_Clean (a @ CHR ''/'' # b) else if b \<noteq> [] then filepath_Clean b else [])"

definition filepath_Base :: "string \<Rightarrow> string" where
  "filepath_Base path =
     (let stripped = rev (dropWhile (\<lambda>c. c = CHR ''/'') (rev path)); base = rev (takeWhile (\<lambda>c. c \<noteq> CHR ''/'') (rev stripped))
      in if path = [] then ''.'' else if base = [] then ''/'' else base)"

definition canonicalAbsolutePath :: "string \<Rightarrow> bool" where
  "canonicalAbsolutePath path \<longleftrightarrow> filepath_IsAbs path \<and> filepath_Clean path = path \<and> utf8_valid path \<and> CHR 0x00 \<notin> set path"

section \<open>Platforms and symbol sets\<close>

record nativePlatform =
  pl_Name :: string
  pl_Target :: string
  pl_Runner :: string
  pl_StaticLibrary :: string
  pl_DynamicLibrary :: string

text \<open>The host is \<open>runtime.GOOS\<close> and \<open>runtime.GOARCH\<close>.\<close>

type_synonym host = "string \<times> string"

definition nativePlatformFor :: "string \<Rightarrow> string \<Rightarrow> nativePlatform result" where
  "nativePlatformFor goos goarch =
     (let name = goos @ ''/'' @ goarch in
      if name = ''darwin/amd64'' then Inr \<lparr>pl_Name = ''macos-amd64'', pl_Target = ''x86_64-apple-darwin'', pl_Runner = ''macos-15-intel'',
        pl_StaticLibrary = ''libtalon.a'', pl_DynamicLibrary = ''libtalon.dylib''\<rparr>
      else if name = ''darwin/arm64'' then Inr \<lparr>pl_Name = ''macos-arm64'', pl_Target = ''aarch64-apple-darwin'', pl_Runner = ''macos-15'',
        pl_StaticLibrary = ''libtalon.a'', pl_DynamicLibrary = ''libtalon.dylib''\<rparr>
      else if name = ''linux/amd64'' then Inr \<lparr>pl_Name = ''linux-amd64'', pl_Target = ''x86_64-unknown-linux-gnu'', pl_Runner = ''ubuntu-24.04'',
        pl_StaticLibrary = ''libtalon.a'', pl_DynamicLibrary = ''libtalon.so''\<rparr>
      else if name = ''linux/arm64'' then Inr \<lparr>pl_Name = ''linux-arm64'', pl_Target = ''aarch64-unknown-linux-gnu'', pl_Runner = ''ubuntu-24.04'',
        pl_StaticLibrary = ''libtalon.a'', pl_DynamicLibrary = ''libtalon.so''\<rparr>
      else Inl (ErrorString (''unsupported SDK platform '' @ name)))"

definition currentNativePlatform :: "host \<Rightarrow> nativePlatform result" where
  "currentNativePlatform machine = nativePlatformFor (fst machine) (snd machine)"

definition sdkRequiredSymbols :: "string list" where
  "sdkRequiredSymbols =
     [''talon_open'', ''talon_close'', ''talon_run_sql'', ''talon_run_sql_bin'', ''talon_run_sql_param_bin'', ''talon_kv_set'',
      ''talon_kv_get'', ''talon_kv_del'', ''talon_kv_incrby'', ''talon_kv_setnx'', ''talon_vector_insert'', ''talon_vector_search'',
      ''talon_vector_search_bin'', ''talon_start_server'', ''talon_stop_server'', ''talon_persist'', ''talon_free_string'',
      ''talon_free_bytes'', ''talon_last_error'', ''talon_last_error_code'', ''talon_clear_last_error'', ''talon_build_manifest'',
      ''talon_execute'']"

definition sqlContextSymbols :: "string list" where
  "sqlContextSymbols = [''talon_sql_context_new_v1'', ''talon_sql_context_cancel_v1'', ''talon_sql_context_free_v1'', ''talon_exec_sql_context_v1'']"

definition sameStringSet :: "string list \<Rightarrow> string list \<Rightarrow> bool" where
  "sameStringSet left right \<longleftrightarrow>
     length left = length right
     \<and> (let leftCopy = sort left; rightCopy = sort right
        in \<forall>index < length leftCopy. leftCopy ! index = rightCopy ! index \<and> symbolPattern (leftCopy ! index)
             \<and> \<not> (0 < index \<and> leftCopy ! index = leftCopy ! (index - 1)))"

definition sameStrings :: "string list \<Rightarrow> string list \<Rightarrow> bool" where
  "sameStrings left right \<longleftrightarrow> length left = length right \<and> (\<forall>index < length left. left ! index = right ! index)"

definition containsString :: "string list \<Rightarrow> string \<Rightarrow> bool" where
  "containsString values expected = list_ex (\<lambda>v. v = expected) values"

definition supportedNativeSymbolSet :: "string list \<Rightarrow> bool" where
  "supportedNativeSymbolSet symbols \<longleftrightarrow>
     (let withKVRead = sdkRequiredSymbols @ [''talon_kv_read_v1''] in
      sameStringSet symbols sdkRequiredSymbols
      \<or> sameStringSet symbols withKVRead
      \<or> list_ex (\<lambda>base. sameStringSet symbols (base @ sqlContextSymbols)) [sdkRequiredSymbols, withKVRead])"

section \<open>The release policy\<close>

record NativePolicy =
  BundleDir :: string
  RuntimeOnly :: bool
  PublicKeyPEM :: bytes
  ExpectedKeyID :: string
  ExpectedKeySHA256 :: string
  ExpectedReleaseTag :: string
  ExpectedTalonBinCommit :: string
  ExpectedCoreRepository :: string
  ExpectedCoreTag :: string
  ExpectedCoreCommit :: string
  ExpectedCoreVersion :: string
  ExpectedABIProfile :: string
  ExpectedABIVersion :: int
  ExpectedHeaderSHA256 :: string
  RequiredCapabilities :: "string list"

definition zero_NativePolicy :: NativePolicy where
  "zero_NativePolicy = \<lparr>BundleDir = [], RuntimeOnly = False, PublicKeyPEM = [], ExpectedKeyID = [], ExpectedKeySHA256 = [],
     ExpectedReleaseTag = [], ExpectedTalonBinCommit = [], ExpectedCoreRepository = [], ExpectedCoreTag = [], ExpectedCoreCommit = [],
     ExpectedCoreVersion = [], ExpectedABIProfile = [], ExpectedABIVersion = 0, ExpectedHeaderSHA256 = [], RequiredCapabilities = []\<rparr>"

definition maxManifestBytes :: nat where "maxManifestBytes = 2 ^ 20"
definition maxPublicKeyBytes :: nat where "maxPublicKeyBytes = 64 * 2 ^ 10"
definition maxNativeArchiveBytes :: nat where "maxNativeArchiveBytes = 2 * 2 ^ 30"
definition maxNativeMemberBytes :: nat where "maxNativeMemberBytes = 2 ^ 30"

definition known_capabilities :: "string list" where
  "known_capabilities =
     [''storage_conditional_batch_v1'', ''storage_conditional_point_read'', ''storage_conditional_snapshot_read'',
      ''storage_conditional_snapshot_read_v2'', ''revision_stream'', ''native_kv_read'', ''native_shared_core'', ''native_sql_context'']"

text \<open>The loop over the required capabilities, with those seen so far.\<close>

fun check_required :: "string list \<Rightarrow> string list \<Rightarrow> unit result" where
  "check_required seen [] = Inr ()"
| "check_required seen (capability # rest) =
     (if capability \<notin> set known_capabilities then Inl (ErrorString (''unknown required native capability '' @ quoted capability))
      else if capability \<in> set seen then Inl (ErrorString (''duplicate required native capability '' @ quoted capability))
      else check_required (capability # seen) rest)"

definition validateNativePolicy :: "NativePolicy \<Rightarrow> unit result" where
  "validateNativePolicy policy =
     (if blank (BundleDir policy) \<or> length (PublicKeyPEM policy) = 0 \<or> maxPublicKeyBytes < length (PublicKeyPEM policy)
      then Inl (ErrorString ''native bundle directory and bounded out-of-band public key are required'')
      else if \<not> namePattern (ExpectedKeyID policy) \<or> \<not> shaPattern (ExpectedKeySHA256 policy)
      then Inl (ErrorString ''expected signing key identity is invalid'')
      else if \<not> tagPattern (ExpectedReleaseTag policy) \<or> \<not> commitPattern (ExpectedTalonBinCommit policy)
      then Inl (ErrorString ''expected release identity is invalid'')
      else if \<not> HasPrefix (ExpectedCoreRepository policy) ''https://'' \<or> \<not> tagPattern (ExpectedCoreTag policy)
        \<or> \<not> commitPattern (ExpectedCoreCommit policy) \<or> \<not> semverPattern (ExpectedCoreVersion policy)
      then Inl (ErrorString ''expected Core source identity is invalid'')
      else if ExpectedABIProfile policy = [] \<or> ExpectedABIVersion policy \<le> 0 \<or> \<not> shaPattern (ExpectedHeaderSHA256 policy)
      then Inl (ErrorString ''expected ABI identity is invalid'')
      else check_required [] (RequiredCapabilities policy))"

text \<open>What \<open>hashNativePolicy\<close> writes: every value after a NUL byte, then the key.\<close>

definition policy_values :: "NativePolicy \<Rightarrow> string list" where
  "policy_values policy =
     [BundleDir policy, if RuntimeOnly policy then ''true'' else ''false'', ExpectedKeyID policy, ExpectedKeySHA256 policy,
      ExpectedReleaseTag policy, ExpectedTalonBinCommit policy, ExpectedCoreRepository policy, ExpectedCoreTag policy,
      ExpectedCoreCommit policy, ExpectedCoreVersion policy, ExpectedABIProfile policy, int_str (ExpectedABIVersion policy),
      ExpectedHeaderSHA256 policy] @ RequiredCapabilities policy"

definition policy_message :: "NativePolicy \<Rightarrow> bytes" where
  "policy_message policy = concat (map (\<lambda>v. 0 # bytes_of v) (policy_values policy)) @ PublicKeyPEM policy"

definition hashNativePolicy :: "NativePolicy \<Rightarrow> bytes" where
  "hashNativePolicy policy = sha256 (policy_message policy)"

section \<open>The local development policy\<close>

definition NativeAdmissionRelease :: string where "NativeAdmissionRelease = ''release''"
definition NativeAdmissionLocalDevelopment :: string where "NativeAdmissionLocalDevelopment = ''local-development''"
definition localDevelopmentContract :: string where "localDevelopmentContract = ''talon-native-local-development-v1''"

text \<open>The required capabilities keep a nil slice apart: it is encoded as \<open>null\<close>.\<close>

record LocalDevelopmentPolicy =
  Contract :: string
  LibraryPath :: string
  ldp_LibrarySHA256 :: string
  HeaderPath :: string
  ldp_HeaderSHA256 :: string
  BuildManifestPath :: string
  BuildManifestSHA256 :: string
  ldp_ExpectedABIProfile :: string
  ldp_ExpectedABIVersion :: int
  ldp_BuildProfile :: string
  ldp_RequiredCapabilities :: "string list option"

definition required_local :: "LocalDevelopmentPolicy \<Rightarrow> string list" where
  "required_local p = (case ldp_RequiredCapabilities p of None \<Rightarrow> [] | Some names \<Rightarrow> names)"

definition nativeSHA256Hex :: "bytes \<Rightarrow> string" where
  "nativeSHA256Hex data = hex_encode (sha256 data)"

text \<open>\<open>strings.Cut(value, "@")\<close> and \<open>strconv.Atoi\<close>.\<close>

definition parseLocalCapability :: "string \<Rightarrow> (string \<times> int) result" where
  "parseLocalCapability value =
     (let name = takeWhile (\<lambda>c. c \<noteq> CHR ''@'') value; versionText = drop 1 (dropWhile (\<lambda>c. c \<noteq> CHR ''@'') value);
          malformed = Inl (ErrorString (''required local capability must be name@version: '' @ quoted value))
      in if CHR ''@'' \<notin> set value then malformed
         else case parse_int 64 versionText of
           None \<Rightarrow> malformed
         | Some version \<Rightarrow>
             if version \<le> 0 \<or> int_str version \<noteq> versionText \<or> name = [] then malformed
             else if \<not> list_all (\<lambda>c. is_lower c \<or> is_digit c \<or> c = CHR ''_'') name
             then Inl (ErrorString (''invalid local capability name '' @ quoted name))
             else if name = ''storage_conditional_batch''
             then Inl (ErrorString ''storage_conditional_batch release gate is not implemented by this SDK'')
             else Inr (name, version))"

fun check_local_required :: "string list \<Rightarrow> string list \<Rightarrow> unit result" where
  "check_local_required seen [] = Inr ()"
| "check_local_required seen (capability # rest) =
     (case parseLocalCapability capability of
        Inl err \<Rightarrow> Inl err
      | Inr _ \<Rightarrow>
          if capability \<in> set seen then Inl (ErrorString (''duplicate required local capability '' @ quoted capability))
          else check_local_required (capability # seen) rest)"

definition validateLocalDevelopmentPolicy :: "LocalDevelopmentPolicy \<Rightarrow> unit result" where
  "validateLocalDevelopmentPolicy p =
     (if Contract p \<noteq> localDevelopmentContract then Inl (ErrorString ''invalid local development contract'')
      else if \<not> canonicalAbsolutePath (LibraryPath p) then Inl (ErrorString ''library path must be canonical absolute UTF-8'')
      else if \<not> canonicalAbsolutePath (HeaderPath p) then Inl (ErrorString ''header path must be canonical absolute UTF-8'')
      else if \<not> canonicalAbsolutePath (BuildManifestPath p) then Inl (ErrorString ''self-manifest path must be canonical absolute UTF-8'')
      else if LibraryPath p = HeaderPath p \<or> LibraryPath p = BuildManifestPath p \<or> HeaderPath p = BuildManifestPath p
      then Inl (ErrorString ''local artifact paths must be distinct'')
      else if \<not> list_all shaPattern [ldp_LibrarySHA256 p, ldp_HeaderSHA256 p, BuildManifestSHA256 p]
      then Inl (ErrorString ''local artifact SHA256 must be pinned'')
      else if ldp_ExpectedABIProfile p \<noteq> ''talon-native-c'' \<or> ldp_ExpectedABIVersion p \<noteq> 1
      then Inl (ErrorString ''unsupported local development ABI profile/version'')
      else if ldp_BuildProfile p \<noteq> ''debug'' \<and> ldp_BuildProfile p \<noteq> ''release'' \<and> ldp_BuildProfile p \<noteq> ''unknown''
      then Inl (ErrorString ''declared build profile must be debug, release, or unknown'')
      else check_local_required [] (required_local p))"

definition LocalDevelopmentPolicy_json :: "LocalDevelopmentPolicy \<Rightarrow> json" where
  "LocalDevelopmentPolicy_json p = JObj
     [(''contract'', JStr (Contract p)), (''library_path'', JStr (LibraryPath p)), (''library_sha256'', JStr (ldp_LibrarySHA256 p)),
      (''header_path'', JStr (HeaderPath p)), (''header_sha256'', JStr (ldp_HeaderSHA256 p)),
      (''build_manifest_path'', JStr (BuildManifestPath p)), (''build_manifest_sha256'', JStr (BuildManifestSHA256 p)),
      (''expected_abi_profile'', JStr (ldp_ExpectedABIProfile p)), (''expected_abi_version'', JNum (int_str (ldp_ExpectedABIVersion p))),
      (''build_profile'', JStr (ldp_BuildProfile p)),
      (''required_capabilities'', case ldp_RequiredCapabilities p of None \<Rightarrow> JNull | Some names \<Rightarrow> JArr (map JStr names))]"

definition hashLocalDevelopmentPolicy :: "LocalDevelopmentPolicy \<Rightarrow> bytes" where
  "hashLocalDevelopmentPolicy p = sha256 (bytes_of localDevelopmentContract @ 0 # bytes_of (marshal_json (LocalDevelopmentPolicy_json p)))"

section \<open>Facts\<close>

lemma sorted_neighbours:
  assumes "sorted (xs :: 'a :: linorder list)"
  shows "distinct xs \<longleftrightarrow> (\<forall>i < length xs. \<not> (0 < i \<and> xs ! i = xs ! (i - 1)))"
  using assms
proof (induction xs)
  case (Cons x xs)
  have "(\<forall>i < length (x # xs). \<not> (0 < i \<and> (x # xs) ! i = (x # xs) ! (i - 1)))
      \<longleftrightarrow> (xs = [] \<or> hd xs \<noteq> x) \<and> (\<forall>i < length xs. \<not> (0 < i \<and> xs ! i = xs ! (i - 1)))"
    by (cases xs) (auto simp: less_Suc_eq_0_disj nth_Cons split: nat.splits)
  moreover have "x \<notin> set xs \<longleftrightarrow> xs = [] \<or> hd xs \<noteq> x"
    using Cons.prems by (cases xs) force+
  ultimately show ?case
    using Cons by simp
qed simp

text \<open>Two lists of symbols are the same set when neither repeats a name and all are well formed.\<close>

lemma sameStringSet_iff:
  "sameStringSet left right \<longleftrightarrow> set left = set right \<and> distinct left \<and> distinct right \<and> list_all symbolPattern left"
proof -
  have "sameStringSet left right \<longleftrightarrow> length left = length right \<and> sort left = sort right
      \<and> list_all symbolPattern (sort left) \<and> distinct (sort left)"
    unfolding sameStringSet_def Let_def sorted_neighbours [OF sorted_sort] list_eq_iff_nth_eq [of "sort left"] list_all_length
    by auto
  also have "\<dots> \<longleftrightarrow> set left = set right \<and> distinct left \<and> distinct right \<and> list_all symbolPattern left"
  proof
    assume same: "length left = length right \<and> sort left = sort right \<and> list_all symbolPattern (sort left) \<and> distinct (sort left)"
    then have "set left = set right" "distinct right"
      by (metis set_sort, metis distinct_sort)
    then show "set left = set right \<and> distinct left \<and> distinct right \<and> list_all symbolPattern left"
      using same by (simp add: list_all_iff)
  next
    assume "set left = set right \<and> distinct left \<and> distinct right \<and> list_all symbolPattern left"
    then show "length left = length right \<and> sort left = sort right \<and> list_all symbolPattern (sort left) \<and> distinct (sort left)"
      by (auto simp: list_all_iff distinct_card [symmetric] intro: sorted_distinct_set_unique)
  qed
  finally show ?thesis .
qed

lemma sameStrings_iff: "sameStrings left right \<longleftrightarrow> left = right"
  by (auto simp: sameStrings_def list_eq_iff_nth_eq)

lemma containsString_iff [simp]: "containsString values v \<longleftrightarrow> v \<in> set values"
  by (auto simp: containsString_def list_ex_iff)

lemma check_required_iff:
  "check_required seen names = Inr () \<longleftrightarrow> set names \<subseteq> set known_capabilities \<and> distinct names \<and> set seen \<inter> set names = {}"
  by (induction names arbitrary: seen) auto

end
