(* ===== verification/NativeSchema.thy ===== *)
theory NativeSchema
  imports NativePolicy
begin

text \<open>
  The documents of native admission, \<open>native_manifest.go\<close>: the signed artifact manifest, the self-manifest
  of a loaded Core and the local policy, each a record with its zero value and its decoder for strict JSON.
  A nil slice and an empty one are the same list here: the sources only range over these slices.
\<close>

text \<open>A Go \<open>int\<close> or \<open>int64\<close>, and a slice whose nil is not told apart.\<close>

definition json_goint :: "int decoder" where
  "json_goint old j =
     (case j of
        JNull \<Rightarrow> Inr old
      | JNum t \<Rightarrow> (case parse_int 64 t of None \<Rightarrow> json_error | Some n \<Rightarrow> Inr n)
      | _ \<Rightarrow> json_error)"

definition json_list :: "'a \<Rightarrow> 'a decoder \<Rightarrow> 'a list decoder" where
  "json_list zero dec old j =
     (case json_slice zero dec (Some old) j of
        Inl e \<Rightarrow> Inl e
      | Inr values \<Rightarrow> Inr (case values of None \<Rightarrow> [] | Some xs \<Rightarrow> xs))"

section \<open>The documents\<close>

record nativeRelease =
  rel_Tag :: string
  rel_Channel :: string
  rel_TalonBinCommit :: string

definition zero_nativeRelease :: nativeRelease where
  "zero_nativeRelease = \<lparr>rel_Tag = [], rel_Channel = [], rel_TalonBinCommit = []\<rparr>"

definition nativeRelease_decoder :: "nativeRelease decoder" where
  "nativeRelease_decoder = decode_struct [''tag'', ''channel'', ''talon_bin_commit'']
     (\<lambda>f. if f = ''tag'' then field rel_Tag rel_Tag_update json_string
          else if f = ''channel'' then field rel_Channel rel_Channel_update json_string
          else field rel_TalonBinCommit rel_TalonBinCommit_update json_string)"

record nativeSource =
  src_Repository :: string
  src_Tag :: string
  src_Commit :: string
  src_CargoVersion :: string
  src_CargoLockSHA256 :: string
  src_SourceDateEpoch :: int
  src_Clean :: bool

definition zero_nativeSource :: nativeSource where
  "zero_nativeSource = \<lparr>src_Repository = [], src_Tag = [], src_Commit = [], src_CargoVersion = [], src_CargoLockSHA256 = [], src_SourceDateEpoch = 0, src_Clean = False\<rparr>"

definition nativeSource_decoder :: "nativeSource decoder" where
  "nativeSource_decoder = decode_struct [''repository'', ''tag'', ''commit'', ''cargo_version'', ''cargo_lock_sha256'', ''source_date_epoch'', ''clean'']
     (\<lambda>f. if f = ''repository'' then field src_Repository src_Repository_update json_string
          else if f = ''tag'' then field src_Tag src_Tag_update json_string
          else if f = ''commit'' then field src_Commit src_Commit_update json_string
          else if f = ''cargo_version'' then field src_CargoVersion src_CargoVersion_update json_string
          else if f = ''cargo_lock_sha256'' then field src_CargoLockSHA256 src_CargoLockSHA256_update json_string
          else if f = ''source_date_epoch'' then field src_SourceDateEpoch src_SourceDateEpoch_update json_goint
          else field src_Clean src_Clean_update json_bool)"

record nativeABI =
  abi_Profile :: string
  abi_Version :: int
  abi_HeaderSHA256 :: string
  abi_RequiredSymbols :: "string list"

definition zero_nativeABI :: nativeABI where
  "zero_nativeABI = \<lparr>abi_Profile = [], abi_Version = 0, abi_HeaderSHA256 = [], abi_RequiredSymbols = []\<rparr>"

definition nativeABI_decoder :: "nativeABI decoder" where
  "nativeABI_decoder = decode_struct [''profile'', ''version'', ''header_sha256'', ''required_symbols'']
     (\<lambda>f. if f = ''profile'' then field abi_Profile abi_Profile_update json_string
          else if f = ''version'' then field abi_Version abi_Version_update json_goint
          else if f = ''header_sha256'' then field abi_HeaderSHA256 abi_HeaderSHA256_update json_string
          else field abi_RequiredSymbols abi_RequiredSymbols_update (json_list [] json_string))"

record nativeBuild =
  bld_Source :: string
  bld_WorkflowRunID :: string
  bld_Runner :: string
  bld_Target :: string
  bld_Rustc :: string
  bld_Cargo :: string
  bld_Command :: "string list"
  bld_Reproducibility :: string

definition zero_nativeBuild :: nativeBuild where
  "zero_nativeBuild = \<lparr>bld_Source = [], bld_WorkflowRunID = [], bld_Runner = [], bld_Target = [], bld_Rustc = [], bld_Cargo = [], bld_Command = [], bld_Reproducibility = []\<rparr>"

definition nativeBuild_decoder :: "nativeBuild decoder" where
  "nativeBuild_decoder = decode_struct [''source'', ''workflow_run_id'', ''runner'', ''target'', ''rustc'', ''cargo'', ''command'', ''reproducibility'']
     (\<lambda>f. if f = ''source'' then field bld_Source bld_Source_update json_string
          else if f = ''workflow_run_id'' then field bld_WorkflowRunID bld_WorkflowRunID_update json_string
          else if f = ''runner'' then field bld_Runner bld_Runner_update json_string
          else if f = ''target'' then field bld_Target bld_Target_update json_string
          else if f = ''rustc'' then field bld_Rustc bld_Rustc_update json_string
          else if f = ''cargo'' then field bld_Cargo bld_Cargo_update json_string
          else if f = ''command'' then field bld_Command bld_Command_update (json_list [] json_string)
          else field bld_Reproducibility bld_Reproducibility_update json_string)"

record fileRecord =
  fr_Path :: string
  fr_Size :: int
  fr_SHA256 :: string

definition zero_fileRecord :: fileRecord where
  "zero_fileRecord = \<lparr>fr_Path = [], fr_Size = 0, fr_SHA256 = []\<rparr>"

definition fileRecord_decoder :: "fileRecord decoder" where
  "fileRecord_decoder = decode_struct [''path'', ''size'', ''sha256'']
     (\<lambda>f. if f = ''path'' then field fr_Path fr_Path_update json_string
          else if f = ''size'' then field fr_Size fr_Size_update json_goint
          else field fr_SHA256 fr_SHA256_update json_string)"

record nativeArtifact =
  art_Kind :: string
  art_Platform :: string
  art_Archive :: fileRecord
  art_Files :: "fileRecord list"

definition zero_nativeArtifact :: nativeArtifact where
  "zero_nativeArtifact = \<lparr>art_Kind = [], art_Platform = [], art_Archive = zero_fileRecord, art_Files = []\<rparr>"

definition nativeArtifact_decoder :: "nativeArtifact decoder" where
  "nativeArtifact_decoder = decode_struct [''kind'', ''platform'', ''archive'', ''files'']
     (\<lambda>f. if f = ''kind'' then field art_Kind art_Kind_update json_string
          else if f = ''platform'' then field art_Platform art_Platform_update json_string
          else if f = ''archive'' then field art_Archive art_Archive_update fileRecord_decoder
          else field art_Files art_Files_update (json_list zero_fileRecord fileRecord_decoder))"

record nativeMaterials =
  mat_SBOM :: fileRecord
  mat_LicenseInventory :: fileRecord
  mat_CoreLicense :: fileRecord
  mat_Notice :: fileRecord

definition zero_nativeMaterials :: nativeMaterials where
  "zero_nativeMaterials = \<lparr>mat_SBOM = zero_fileRecord, mat_LicenseInventory = zero_fileRecord, mat_CoreLicense = zero_fileRecord, mat_Notice = zero_fileRecord\<rparr>"

definition nativeMaterials_decoder :: "nativeMaterials decoder" where
  "nativeMaterials_decoder = decode_struct [''sbom'', ''license_inventory'', ''core_license'', ''notice'']
     (\<lambda>f. if f = ''sbom'' then field mat_SBOM mat_SBOM_update fileRecord_decoder
          else if f = ''license_inventory'' then field mat_LicenseInventory mat_LicenseInventory_update fileRecord_decoder
          else if f = ''core_license'' then field mat_CoreLicense mat_CoreLicense_update fileRecord_decoder
          else field mat_Notice mat_Notice_update fileRecord_decoder)"

record nativeSigning =
  sig_Algorithm :: string
  sig_KeyID :: string
  sig_PublicKeySHA256 :: string
  sig_Signature :: string

definition zero_nativeSigning :: nativeSigning where
  "zero_nativeSigning = \<lparr>sig_Algorithm = [], sig_KeyID = [], sig_PublicKeySHA256 = [], sig_Signature = []\<rparr>"

definition nativeSigning_decoder :: "nativeSigning decoder" where
  "nativeSigning_decoder = decode_struct [''algorithm'', ''key_id'', ''public_key_sha256'', ''signature'']
     (\<lambda>f. if f = ''algorithm'' then field sig_Algorithm sig_Algorithm_update json_string
          else if f = ''key_id'' then field sig_KeyID sig_KeyID_update json_string
          else if f = ''public_key_sha256'' then field sig_PublicKeySHA256 sig_PublicKeySHA256_update json_string
          else field sig_Signature sig_Signature_update json_string)"

record nativeCompatibility =
  cmp_SDKContract :: string
  cmp_RuntimeVerification :: string
  cmp_BinarySelfAttestation :: bool

definition zero_nativeCompatibility :: nativeCompatibility where
  "zero_nativeCompatibility = \<lparr>cmp_SDKContract = [], cmp_RuntimeVerification = [], cmp_BinarySelfAttestation = False\<rparr>"

definition nativeCompatibility_decoder :: "nativeCompatibility decoder" where
  "nativeCompatibility_decoder = decode_struct [''sdk_contract'', ''runtime_verification'', ''binary_self_attestation'']
     (\<lambda>f. if f = ''sdk_contract'' then field cmp_SDKContract cmp_SDKContract_update json_string
          else if f = ''runtime_verification'' then field cmp_RuntimeVerification cmp_RuntimeVerification_update json_string
          else field cmp_BinarySelfAttestation cmp_BinarySelfAttestation_update json_bool)"

definition zero_CapabilityGate :: CapabilityGate where
  "zero_CapabilityGate = \<lparr>gate_Status = [], gate_Reason = []\<rparr>"

definition CapabilityGate_decoder :: "CapabilityGate decoder" where
  "CapabilityGate_decoder = decode_struct [''status'', ''reason'']
     (\<lambda>f. if f = ''status'' then field gate_Status gate_Status_update json_string
          else field gate_Reason gate_Reason_update json_string)"

record nativeGates =
  gts_StorageConditionalBatchV1 :: CapabilityGate

definition zero_nativeGates :: nativeGates where
  "zero_nativeGates = \<lparr>gts_StorageConditionalBatchV1 = zero_CapabilityGate\<rparr>"

definition nativeGates_decoder :: "nativeGates decoder" where
  "nativeGates_decoder = decode_struct [''storage_conditional_batch_v1'']
     (\<lambda>f. field gts_StorageConditionalBatchV1 gts_StorageConditionalBatchV1_update CapabilityGate_decoder)"

record nativeManifest =
  mf_SchemaVersion :: string
  mf_Release :: nativeRelease
  mf_Source :: nativeSource
  mf_ABI :: nativeABI
  mf_Build :: nativeBuild
  mf_Artifact :: nativeArtifact
  mf_Materials :: nativeMaterials
  mf_Signing :: nativeSigning
  mf_Compatibility :: nativeCompatibility
  mf_Gates :: nativeGates

definition zero_nativeManifest :: nativeManifest where
  "zero_nativeManifest = \<lparr>mf_SchemaVersion = [], mf_Release = zero_nativeRelease, mf_Source = zero_nativeSource, mf_ABI = zero_nativeABI, mf_Build = zero_nativeBuild, mf_Artifact = zero_nativeArtifact, mf_Materials = zero_nativeMaterials, mf_Signing = zero_nativeSigning, mf_Compatibility = zero_nativeCompatibility, mf_Gates = zero_nativeGates\<rparr>"

definition nativeManifest_decoder :: "nativeManifest decoder" where
  "nativeManifest_decoder = decode_struct [''schema_version'', ''release'', ''source'', ''abi'', ''build'', ''artifact'', ''materials'', ''signing'', ''compatibility'', ''gates'']
     (\<lambda>f. if f = ''schema_version'' then field mf_SchemaVersion mf_SchemaVersion_update json_string
          else if f = ''release'' then field mf_Release mf_Release_update nativeRelease_decoder
          else if f = ''source'' then field mf_Source mf_Source_update nativeSource_decoder
          else if f = ''abi'' then field mf_ABI mf_ABI_update nativeABI_decoder
          else if f = ''build'' then field mf_Build mf_Build_update nativeBuild_decoder
          else if f = ''artifact'' then field mf_Artifact mf_Artifact_update nativeArtifact_decoder
          else if f = ''materials'' then field mf_Materials mf_Materials_update nativeMaterials_decoder
          else if f = ''signing'' then field mf_Signing mf_Signing_update nativeSigning_decoder
          else if f = ''compatibility'' then field mf_Compatibility mf_Compatibility_update nativeCompatibility_decoder
          else field mf_Gates mf_Gates_update nativeGates_decoder)"

definition zero_NativeCapabilityLimits :: NativeCapabilityLimits where
  "zero_NativeCapabilityLimits = \<lparr>MaxConditions = 0, MaxMutations = 0, MaxKeyBytes = 0, MaxReceiptBytes = 0, ServerHTTPMaxRequestBytes = 0, AllowedConditionOperators = [], ReceiptAuthentication = []\<rparr>"

definition NativeCapabilityLimits_decoder :: "NativeCapabilityLimits decoder" where
  "NativeCapabilityLimits_decoder = decode_struct [''max_conditions'', ''max_mutations'', ''max_key_bytes'', ''max_receipt_bytes'', ''server_http_max_request_bytes'', ''allowed_condition_operators'', ''receipt_authentication'']
     (\<lambda>f. if f = ''max_conditions'' then field MaxConditions MaxConditions_update json_uint
          else if f = ''max_mutations'' then field MaxMutations MaxMutations_update json_uint
          else if f = ''max_key_bytes'' then field MaxKeyBytes MaxKeyBytes_update json_uint
          else if f = ''max_receipt_bytes'' then field MaxReceiptBytes MaxReceiptBytes_update json_uint
          else if f = ''server_http_max_request_bytes'' then field ServerHTTPMaxRequestBytes ServerHTTPMaxRequestBytes_update json_uint
          else if f = ''allowed_condition_operators'' then field AllowedConditionOperators AllowedConditionOperators_update (json_list [] json_string)
          else field ReceiptAuthentication ReceiptAuthentication_update json_string)"

definition zero_NativeCapability :: NativeCapability where
  "zero_NativeCapability = \<lparr>cap_Name = [], cap_Version = 0, cap_Status = [], cap_Reason = None, cap_Limits = None\<rparr>"

definition NativeCapability_decoder :: "NativeCapability decoder" where
  "NativeCapability_decoder = decode_struct [''name'', ''version'', ''status'', ''reason'', ''limits'']
     (\<lambda>f. if f = ''name'' then field cap_Name cap_Name_update json_string
          else if f = ''version'' then field cap_Version cap_Version_update json_goint
          else if f = ''status'' then field cap_Status cap_Status_update json_string
          else if f = ''reason'' then field cap_Reason cap_Reason_update (json_ptr [] json_string)
          else field cap_Limits cap_Limits_update (json_ptr zero_NativeCapabilityLimits NativeCapabilityLimits_decoder))"

record coreBuildABI =
  cba_Profile :: string
  cba_Version :: int
  cba_RequiredSymbols :: "string list"

definition zero_coreBuildABI :: coreBuildABI where
  "zero_coreBuildABI = \<lparr>cba_Profile = [], cba_Version = 0, cba_RequiredSymbols = []\<rparr>"

definition coreBuildABI_decoder :: "coreBuildABI decoder" where
  "coreBuildABI_decoder = decode_struct [''profile'', ''version'', ''required_symbols'']
     (\<lambda>f. if f = ''profile'' then field cba_Profile cba_Profile_update json_string
          else if f = ''version'' then field cba_Version cba_Version_update json_goint
          else field cba_RequiredSymbols cba_RequiredSymbols_update (json_list [] json_string))"

record coreBuildManifest =
  cb_ManifestVersion :: int
  cb_CoreSemver :: string
  cb_GitCommit :: string
  cb_GitDirty :: "bool option"
  cb_Target :: string
  cb_CargoLockSHA256 :: string
  cb_HeaderSHA256 :: string
  cb_ABI :: coreBuildABI
  cb_Features :: "string list"
  cb_Capabilities :: "NativeCapability list"
  cb_BuildBindingSHA256 :: string

definition zero_coreBuildManifest :: coreBuildManifest where
  "zero_coreBuildManifest = \<lparr>cb_ManifestVersion = 0, cb_CoreSemver = [], cb_GitCommit = [], cb_GitDirty = None, cb_Target = [], cb_CargoLockSHA256 = [], cb_HeaderSHA256 = [], cb_ABI = zero_coreBuildABI, cb_Features = [], cb_Capabilities = [], cb_BuildBindingSHA256 = []\<rparr>"

definition coreBuildManifest_decoder :: "coreBuildManifest decoder" where
  "coreBuildManifest_decoder = decode_struct [''manifest_version'', ''core_semver'', ''git_commit'', ''git_dirty'', ''target'', ''cargo_lock_sha256'', ''header_sha256'', ''abi'', ''features'', ''capabilities'', ''build_binding_sha256'']
     (\<lambda>f. if f = ''manifest_version'' then field cb_ManifestVersion cb_ManifestVersion_update json_goint
          else if f = ''core_semver'' then field cb_CoreSemver cb_CoreSemver_update json_string
          else if f = ''git_commit'' then field cb_GitCommit cb_GitCommit_update json_string
          else if f = ''git_dirty'' then field cb_GitDirty cb_GitDirty_update (json_ptr False json_bool)
          else if f = ''target'' then field cb_Target cb_Target_update json_string
          else if f = ''cargo_lock_sha256'' then field cb_CargoLockSHA256 cb_CargoLockSHA256_update json_string
          else if f = ''header_sha256'' then field cb_HeaderSHA256 cb_HeaderSHA256_update json_string
          else if f = ''abi'' then field cb_ABI cb_ABI_update coreBuildABI_decoder
          else if f = ''features'' then field cb_Features cb_Features_update (json_list [] json_string)
          else if f = ''capabilities'' then field cb_Capabilities cb_Capabilities_update (json_list zero_NativeCapability NativeCapability_decoder)
          else field cb_BuildBindingSHA256 cb_BuildBindingSHA256_update json_string)"

section \<open>The local policy\<close>

definition zero_LocalDevelopmentPolicy :: LocalDevelopmentPolicy where
  "zero_LocalDevelopmentPolicy = \<lparr>Contract = [], LibraryPath = [], ldp_LibrarySHA256 = [], HeaderPath = [], ldp_HeaderSHA256 = [],
     BuildManifestPath = [], BuildManifestSHA256 = [], ldp_ExpectedABIProfile = [], ldp_ExpectedABIVersion = 0, ldp_BuildProfile = [],
     ldp_RequiredCapabilities = None\<rparr>"

definition LocalDevelopmentPolicy_decoder :: "LocalDevelopmentPolicy decoder" where
  "LocalDevelopmentPolicy_decoder = decode_struct [''contract'', ''library_path'', ''library_sha256'', ''header_path'', ''header_sha256'',
       ''build_manifest_path'', ''build_manifest_sha256'', ''expected_abi_profile'', ''expected_abi_version'', ''build_profile'', ''required_capabilities'']
     (\<lambda>f. if f = ''contract'' then field Contract Contract_update json_string
          else if f = ''library_path'' then field LibraryPath LibraryPath_update json_string
          else if f = ''library_sha256'' then field ldp_LibrarySHA256 ldp_LibrarySHA256_update json_string
          else if f = ''header_path'' then field HeaderPath HeaderPath_update json_string
          else if f = ''header_sha256'' then field ldp_HeaderSHA256 ldp_HeaderSHA256_update json_string
          else if f = ''build_manifest_path'' then field BuildManifestPath BuildManifestPath_update json_string
          else if f = ''build_manifest_sha256'' then field BuildManifestSHA256 BuildManifestSHA256_update json_string
          else if f = ''expected_abi_profile'' then field ldp_ExpectedABIProfile ldp_ExpectedABIProfile_update json_string
          else if f = ''expected_abi_version'' then field ldp_ExpectedABIVersion ldp_ExpectedABIVersion_update json_goint
          else if f = ''build_profile'' then field ldp_BuildProfile ldp_BuildProfile_update json_string
          else field ldp_RequiredCapabilities ldp_RequiredCapabilities_update (json_slice [] json_string))"

end
