(* ===== verification/NativeManifest.thy ===== *)
theory NativeManifest
  imports NativeSchema
begin

text \<open>
  The checks of native admission that look at documents only: the signed manifest against the trusted policy
  (\<open>validateNativeManifest\<close>), the self-manifest of a loaded Core against the signed manifest or the pinned local
  policy (\<open>verifyCoreBuildIdentity\<close>), the capabilities a policy requires (\<open>verifyRequiredRuntimeCapabilities\<close>) and
  the build binding.
\<close>

section \<open>The signed manifest\<close>

definition nativeManifestContract :: string where "nativeManifestContract = ''talon-native-manifest-v1''"
definition nativeReleaseChannel :: string where "nativeReleaseChannel = ''enterprise-core''"

definition validateFileRecord :: "fileRecord \<Rightarrow> string \<Rightarrow> unit result" where
  "validateFileRecord entry expectedName =
     (if fr_Path entry = [] \<or> fr_Path entry \<noteq> filepath_Base (fr_Path entry) \<or> \<not> namePattern (fr_Path entry)
         \<or> fr_Size entry \<le> 0 \<or> \<not> shaPattern (fr_SHA256 entry)
      then Inl (ErrorString ''unsafe path, size, or SHA-256'')
      else if expectedName \<noteq> [] \<and> fr_Path entry \<noteq> expectedName
      then Inl (ErrorString (''path '' @ quoted (fr_Path entry) @ '' does not match '' @ quoted expectedName))
      else Inr ())"

text \<open>The loop over the members of the archive; the second argument holds the paths seen so far.\<close>

fun check_members :: "string list \<Rightarrow> string list \<Rightarrow> fileRecord list \<Rightarrow> unit result" where
  "check_members expected seen [] = Inr ()"
| "check_members expected seen (entry # rest) =
     (case validateFileRecord entry [] of
        Inl err \<Rightarrow> Inl (WrapError ''invalid native member record: '' err)
      | Inr _ \<Rightarrow>
          if fr_Path entry \<in> set seen then Inl (ErrorString (''duplicate native member '' @ quoted (fr_Path entry)))
          else if fr_Path entry \<notin> set expected then Inl (ErrorString (''unexpected native member '' @ quoted (fr_Path entry)))
          else check_members expected (fr_Path entry # seen) rest)"

definition file_named :: "fileRecord list \<Rightarrow> string \<Rightarrow> fileRecord" where
  "file_named files name = (case find (\<lambda>r. fr_Path r = name) files of None \<Rightarrow> zero_fileRecord | Some r \<Rightarrow> r)"

fun check_materials :: "(string \<times> fileRecord \<times> string) list \<Rightarrow> unit result" where
  "check_materials [] = Inr ()"
| "check_materials ((name, entry, expectedName) # rest) =
     (case validateFileRecord entry expectedName of
        Inl err \<Rightarrow> Inl (WrapError (''invalid '' @ name @ '' record: '') err)
      | Inr _ \<Rightarrow> check_materials rest)"

definition expected_files :: "bool \<Rightarrow> nativePlatform \<Rightarrow> string list" where
  "expected_files runtimeOnly platform =
     [pl_DynamicLibrary platform, ''talon.h'', ''LICENSE.core'', ''NOTICE''] @ (if runtimeOnly then [] else [pl_StaticLibrary platform])"

text \<open>The identities the policy pins, the artifact, and what is left: signing, compatibility and gates.\<close>

definition check_identity :: "nativeManifest \<Rightarrow> nativePlatform \<Rightarrow> NativePolicy \<Rightarrow> unit result" where
  "check_identity manifest platform policy =
     (let release = mf_Release manifest; source = mf_Source manifest; abi = mf_ABI manifest; build = mf_Build manifest in
      if mf_SchemaVersion manifest \<noteq> ''1.0'' then Inl (ErrorString ''unsupported native manifest schema'')
      else if rel_Tag release \<noteq> ExpectedReleaseTag policy \<or> rel_Channel release \<noteq> nativeReleaseChannel
        \<or> rel_TalonBinCommit release \<noteq> ExpectedTalonBinCommit policy \<or> \<not> commitPattern (rel_TalonBinCommit release)
      then Inl (ErrorString ''native release identity does not match trusted policy'')
      else if src_Repository source \<noteq> ExpectedCoreRepository policy \<or> src_Tag source \<noteq> ExpectedCoreTag policy
        \<or> src_Commit source \<noteq> ExpectedCoreCommit policy \<or> src_CargoVersion source \<noteq> ExpectedCoreVersion policy
        \<or> \<not> semverPattern (src_CargoVersion source) \<or> \<not> src_Clean source \<or> src_SourceDateEpoch source \<le> 0
        \<or> \<not> shaPattern (src_CargoLockSHA256 source)
      then Inl (ErrorString ''Core source identity does not match trusted policy'')
      else if abi_Profile abi \<noteq> ExpectedABIProfile policy \<or> abi_Version abi \<noteq> ExpectedABIVersion policy
        \<or> abi_HeaderSHA256 abi \<noteq> ExpectedHeaderSHA256 policy
      then Inl (ErrorString ''Core ABI identity does not match trusted policy'')
      else if \<not> supportedNativeSymbolSet (abi_RequiredSymbols abi)
      then Inl (ErrorString ''Core ABI required symbol set does not match this SDK'')
      else if bld_Target build \<noteq> pl_Target platform \<or> bld_Runner build \<noteq> pl_Runner platform \<or> bld_Source build = []
        \<or> bld_WorkflowRunID build = [] \<or> bld_Rustc build = [] \<or> bld_Cargo build = [] \<or> bld_Reproducibility build = []
        \<or> \<not> sameStrings (bld_Command build) [''build'', ''--locked'', ''--release'', ''--lib'']
      then Inl (ErrorString ''native build identity does not match platform contract'')
      else Inr ())"

definition check_artifact :: "nativeManifest \<Rightarrow> nativePlatform \<Rightarrow> NativePolicy \<Rightarrow> unit result" where
  "check_artifact manifest platform policy =
     (let artifact = mf_Artifact manifest; files = art_Files artifact; materials = mf_Materials manifest;
          runtimeOnly = (art_Kind artifact = ''talon-core-native-runtime'');
          prefix = (if runtimeOnly then ''libtalon-core-runtime'' else ''libtalon-core'')
      in if (art_Kind artifact \<noteq> ''talon-core-native-library'' \<and> \<not> runtimeOnly) \<or> art_Platform artifact \<noteq> pl_Name platform
           \<or> runtimeOnly \<noteq> RuntimeOnly policy
         then Inl (ErrorString ''native artifact kind or platform mismatch'')
         else case validateFileRecord (art_Archive artifact) (prefix @ ''-'' @ pl_Name platform @ ''.tar.gz'') of
           Inl err \<Rightarrow> Inl (WrapError ''invalid native archive record: '' err)
         | Inr _ \<Rightarrow>
             if length files \<noteq> (if runtimeOnly then 4 else 5) then Inl (ErrorString ''native archive file set is incomplete'')
             else case check_members (expected_files runtimeOnly platform) [] files of
               Inl err \<Rightarrow> Inl err
             | Inr _ \<Rightarrow>
                 if length files \<noteq> length (remdups (expected_files runtimeOnly platform))
                    \<or> fr_SHA256 (file_named files ''talon.h'') \<noteq> abi_HeaderSHA256 (mf_ABI manifest)
                 then Inl (ErrorString ''native member set or header identity mismatch'')
                 else case check_materials
                     [(''sbom'', mat_SBOM materials, prefix @ ''-'' @ pl_Name platform @ ''.sbom.cdx.json''),
                      (''license_inventory'', mat_LicenseInventory materials, prefix @ ''-'' @ pl_Name platform @ ''.licenses.json''),
                      (''core_license'', mat_CoreLicense materials, ''LICENSE.core''), (''notice'', mat_Notice materials, ''NOTICE'')] of
                   Inl err \<Rightarrow> Inl err
                 | Inr _ \<Rightarrow>
                     if file_named files ''LICENSE.core'' \<noteq> mat_CoreLicense materials \<or> file_named files ''NOTICE'' \<noteq> mat_Notice materials
                     then Inl (ErrorString ''inner and outer legal material records differ'')
                     else Inr ())"

definition check_contract :: "nativeManifest \<Rightarrow> string \<Rightarrow> NativePolicy \<Rightarrow> unit result" where
  "check_contract manifest manifestName policy =
     (let signing = mf_Signing manifest; compatibility = mf_Compatibility manifest; gate = gts_StorageConditionalBatchV1 (mf_Gates manifest) in
      if sig_Algorithm signing \<noteq> ''Ed25519'' \<or> sig_KeyID signing \<noteq> ExpectedKeyID policy \<or> sig_PublicKeySHA256 signing \<noteq> ExpectedKeySHA256 policy
        \<or> sig_Signature signing \<noteq> manifestName @ ''.sig'' \<or> \<not> namePattern (sig_Signature signing)
      then Inl (ErrorString ''manifest signing identity does not match trusted policy'')
      else if cmp_SDKContract compatibility \<noteq> nativeManifestContract
        \<or> cmp_RuntimeVerification compatibility \<noteq> ''ed25519-manifest+sha256-native+abi-identity'' \<or> \<not> cmp_BinarySelfAttestation compatibility
      then Inl (ErrorString ''native compatibility contract mismatch'')
      else if (gate_Status gate \<noteq> ''gated'' \<and> gate_Status gate \<noteq> ''available'') \<or> blank (gate_Reason gate)
      then Inl (ErrorString ''invalid storage_conditional_batch_v1 gate'')
      else if ''storage_conditional_batch_v1'' \<in> set (RequiredCapabilities policy) then
        (if gate_Status gate \<noteq> ''available''
         then Inl (ErrorString (''required capability storage_conditional_batch_v1 is gated: '' @ gate_Reason gate))
         else Inl (ErrorString ''required capability storage_conditional_batch_v1 is not implemented by this SDK''))
      else Inr ())"

definition validateNativeManifest :: "nativeManifest \<Rightarrow> string \<Rightarrow> nativePlatform \<Rightarrow> NativePolicy \<Rightarrow> unit result" where
  "validateNativeManifest manifest manifestName platform policy =
     (case check_identity manifest platform policy of
        Inl err \<Rightarrow> Inl err
      | Inr _ \<Rightarrow>
          (case check_artifact manifest platform policy of
             Inl err \<Rightarrow> Inl err
           | Inr _ \<Rightarrow> check_contract manifest manifestName policy))"

section \<open>The build binding\<close>

definition bindBuildField :: "string \<Rightarrow> bytes" where
  "bindBuildField value = u64_be (of_nat (length value)) @ bytes_of value"

definition limit_fields :: "NativeCapabilityLimits option \<Rightarrow> string list" where
  "limit_fields limits =
     (case limits of
        None \<Rightarrow> [''absent'']
      | Some l \<Rightarrow> ''present'' # map (\<lambda>n. nat_str (unat n)) [MaxConditions l, MaxMutations l, MaxKeyBytes l, MaxReceiptBytes l, ServerHTTPMaxRequestBytes l]
          @ ReceiptAuthentication l # AllowedConditionOperators l)"

definition capability_fields :: "int \<Rightarrow> NativeCapability \<Rightarrow> string list" where
  "capability_fields manifestVersion capability =
     [cap_Name capability, int_str (cap_Version capability), cap_Status capability, case cap_Reason capability of None \<Rightarrow> [] | Some reason \<Rightarrow> reason]
     @ (if 2 \<le> manifestVersion then limit_fields (cap_Limits capability) else [])"

definition build_fields :: "coreBuildManifest \<Rightarrow> string list" where
  "build_fields build =
     [int_str (cb_ManifestVersion build), cb_CoreSemver build, cb_GitCommit build,
      case cb_GitDirty build of None \<Rightarrow> ''unknown'' | Some dirty \<Rightarrow> if dirty then ''true'' else ''false'',
      cb_Target build, cb_CargoLockSHA256 build, cb_HeaderSHA256 build, cba_Profile (cb_ABI build), int_str (cba_Version (cb_ABI build))]
     @ cba_RequiredSymbols (cb_ABI build) @ cb_Features build
     @ concat (map (capability_fields (cb_ManifestVersion build)) (cb_Capabilities build))"

definition computeBuildBinding :: "coreBuildManifest \<Rightarrow> string" where
  "computeBuildBinding build = hex_encode (sha256 (concat (map bindBuildField (build_fields build))))"

section \<open>The self-manifest of a loaded Core\<close>

definition singleNativeCapability :: "NativeCapability list \<Rightarrow> string \<Rightarrow> NativeCapability option" where
  "singleNativeCapability capabilities name = find (\<lambda>c. cap_Name c = name) capabilities"

text \<open>The text \<open>name@version\<close>, and the map over it.\<close>

definition versioned :: "string \<Rightarrow> int \<Rightarrow> string" where
  "versioned name version = name @ CHR ''@'' # int_str version"

definition capability_at :: "NativeCapability list \<Rightarrow> string \<Rightarrow> NativeCapability option" where
  "capability_at capabilities identity = find (\<lambda>c. versioned (cap_Name c) (cap_Version c) = identity) capabilities"

fun check_features :: "string list \<Rightarrow> string list \<Rightarrow> unit result" where
  "check_features seen [] = Inr ()"
| "check_features seen (feature # rest) =
     (if feature = [] then Inl (ErrorString ''Core build manifest contains an empty feature'')
      else if feature \<in> set seen then Inl (ErrorString (''Core build manifest contains duplicate feature '' @ quoted feature))
      else check_features (feature # seen) rest)"

fun check_required_features :: "string list \<Rightarrow> string list \<Rightarrow> unit result" where
  "check_required_features features [] = Inr ()"
| "check_required_features features (required # rest) =
     (if required \<notin> set features then Inl (ErrorString (''Core build manifest omitted required feature '' @ quoted required))
      else check_required_features features rest)"

fun check_capabilities :: "int \<Rightarrow> string list \<Rightarrow> NativeCapability list \<Rightarrow> unit result" where
  "check_capabilities manifestVersion seen [] = Inr ()"
| "check_capabilities manifestVersion seen (capability # rest) =
     (if cap_Name capability = [] \<or> cap_Version capability \<le> 0 \<or> (cap_Status capability \<noteq> ''available'' \<and> cap_Status capability \<noteq> ''gated'')
      then Inl (ErrorString ''Core build manifest contains an invalid capability'')
      else if cap_Status capability = ''gated'' \<and> (case cap_Reason capability of None \<Rightarrow> True | Some reason \<Rightarrow> blank reason)
      then Inl (ErrorString (''gated Core capability '' @ quoted (cap_Name capability) @ '' omitted its reason''))
      else if cap_Limits capability \<noteq> None \<and> manifestVersion < 2
      then Inl (ErrorString (''Core build manifest v1 capability '' @ quoted (cap_Name capability) @ '' unexpectedly contains limits''))
      else if versioned (cap_Name capability) (cap_Version capability) \<in> set seen
      then Inl (ErrorString (''Core build manifest contains duplicate capability '' @ quoted (cap_Name capability) @ '' version '' @ int_str (cap_Version capability)))
      else check_capabilities manifestVersion (versioned (cap_Name capability) (cap_Version capability) # seen) rest)"

text \<open>A name with several versions, other than the snapshot read.\<close>

definition ambiguous_name :: "NativeCapability list \<Rightarrow> string option" where
  "ambiguous_name capabilities =
     find (\<lambda>name. 1 < count_list (map cap_Name capabilities) name \<and> name \<noteq> ''storage_conditional_snapshot_read'') (map cap_Name capabilities)"

definition has_feature :: "coreBuildManifest \<Rightarrow> string \<Rightarrow> bool" where
  "has_feature build = containsString (cb_Features build)"

definition has_symbol :: "coreBuildManifest \<Rightarrow> string \<Rightarrow> bool" where
  "has_symbol build = containsString (cba_RequiredSymbols (cb_ABI build))"

text \<open>Capabilities, features and symbols of the optional groups come together.\<close>

definition check_groups :: "coreBuildManifest \<Rightarrow> unit result" where
  "check_groups build =
     (let present = (\<lambda>name version. capability_at (cb_Capabilities build) (versioned name version) \<noteq> None);
          hasKVRead = present ''native_kv_read'' 1; hasSQLContext = present ''native_sql_context'' 1;
          hasPointRead = present ''storage_conditional_point_read'' 1
      in if hasKVRead \<noteq> has_feature build ''native_kv_read_v1'' \<or> hasKVRead \<noteq> has_symbol build ''talon_kv_read_v1''
         then Inl (ErrorString ''native_kv_read capability, feature, and ABI symbol do not match'')
         else if hasSQLContext \<noteq> has_feature build ''native_sql_context_v1''
         then Inl (ErrorString ''native SQL context capability and feature do not match'')
         else if list_ex (\<lambda>symbol. hasSQLContext \<noteq> has_symbol build symbol) sqlContextSymbols
         then Inl (ErrorString ''native SQL context capability and ABI symbols do not match'')
         else if (case capability_at (cb_Capabilities build) (versioned ''native_conditional_transaction_v2'' 2) of
                    None \<Rightarrow> True | Some c \<Rightarrow> cap_Version c \<noteq> 2 \<or> cap_Status c \<noteq> ''available'')
         then Inl (ErrorString ''native_conditional_transaction_v2 is not available to this SDK'')
         else if (case singleNativeCapability (cb_Capabilities build) ''revision_stream'' of
                    None \<Rightarrow> False
                  | Some c \<Rightarrow> cap_Version c \<noteq> 2 \<or> \<not> has_feature build ''revision_stream_v1'' \<or> \<not> has_feature build ''revision_stream_v2_mmr_proof'')
         then Inl (ErrorString ''revision_stream capability does not match the SDK v2 authenticated-proof contract'')
         else if hasPointRead \<noteq> has_feature build ''storage_conditional_point_read_v1''
           \<or> (case capability_at (cb_Capabilities build) (versioned ''storage_conditional_point_read'' 1) of None \<Rightarrow> False | Some c \<Rightarrow> cap_Version c \<noteq> 1)
         then Inl (ErrorString ''storage_conditional_point_read capability does not match the SDK v1 typed contract'')
         else if present ''storage_conditional_snapshot_read'' 1 \<noteq> has_feature build ''storage_conditional_snapshot_read_v1''
         then Inl (ErrorString ''storage_conditional_snapshot_read capability v1 does not match its typed feature'')
         else if present ''storage_conditional_snapshot_read'' 2 \<noteq> has_feature build ''storage_conditional_snapshot_read_v2''
         then Inl (ErrorString ''storage_conditional_snapshot_read capability v2 does not match its typed feature'')
         else Inr ())"

record verifiedNative =
  vn_Development :: "LocalDevelopmentPolicy option"
  vn_developmentBuild :: coreBuildManifest
  vn_Info :: NativeInfo
  vn_Manifest :: nativeManifest
  vn_LibraryPath :: string
  vn_tempDir :: string
  vn_policyHash :: bytes
  vn_requiredCapabilities :: "string list"

fun check_local_capabilities :: "coreBuildManifest \<Rightarrow> string list \<Rightarrow> unit result" where
  "check_local_capabilities build [] = Inr ()"
| "check_local_capabilities build (identity # rest) =
     (case parseLocalCapability identity of
        Inl err \<Rightarrow> Inl err
      | Inr (name, version) \<Rightarrow>
          if (case findNativeCapability (cb_Capabilities build) name version of None \<Rightarrow> True | Some c \<Rightarrow> cap_Status c \<noteq> ''available'')
            \<or> \<not> has_feature build (name @ ''_v'' @ int_str version)
          then Inl (ErrorString (''required local capability '' @ identity @ '' is unavailable or missing its feature''))
          else check_local_capabilities build rest)"

definition validateLocalDevelopmentBuild :: "host \<Rightarrow> coreBuildManifest \<Rightarrow> LocalDevelopmentPolicy \<Rightarrow> unit result" where
  "validateLocalDevelopmentBuild machine build p =
     (case currentNativePlatform machine of
        Inl err \<Rightarrow> Inl err
      | Inr platform \<Rightarrow>
          (let sqlContext = singleNativeCapability (cb_Capabilities build) ''native_sql_context''; has = (sqlContext \<noteq> None) in
           if (cb_ManifestVersion build \<noteq> 1 \<and> cb_ManifestVersion build \<noteq> 2) \<or> \<not> semverPattern (cb_CoreSemver build)
             \<or> \<not> commitPattern (cb_GitCommit build) \<or> cb_GitDirty build = None \<or> cb_Target build \<noteq> pl_Target platform
             \<or> \<not> shaPattern (cb_CargoLockSHA256 build) \<or> cb_HeaderSHA256 build \<noteq> ldp_HeaderSHA256 p
           then Inl (ErrorString ''local Core source/target/header identity is invalid'')
           else if cba_Profile (cb_ABI build) \<noteq> ldp_ExpectedABIProfile p \<or> cba_Version (cb_ABI build) \<noteq> ldp_ExpectedABIVersion p
             \<or> \<not> supportedNativeSymbolSet (cba_RequiredSymbols (cb_ABI build))
           then Inl (ErrorString ''local Core ABI differs from pinned SDK-supported ABI'')
           else if has \<noteq> has_feature build ''native_sql_context_v1'' \<or> (case sqlContext of None \<Rightarrow> False | Some c \<Rightarrow> cap_Version c \<noteq> 1)
           then Inl (ErrorString ''local SQL context capability/feature mismatch'')
           else if list_ex (\<lambda>symbol. has \<noteq> has_symbol build symbol) sqlContextSymbols
           then Inl (ErrorString ''local SQL context capability/symbol mismatch'')
           else check_local_capabilities build (required_local p)))"

text \<open>The identity of a release: the self-manifest repeats the signed one.\<close>

definition check_release_build :: "coreBuildManifest \<Rightarrow> nativeManifest \<Rightarrow> unit result" where
  "check_release_build build external =
     (if (cb_ManifestVersion build \<noteq> 1 \<and> cb_ManifestVersion build \<noteq> 2) \<or> cb_CoreSemver build \<noteq> src_CargoVersion (mf_Source external)
        \<or> cb_GitCommit build \<noteq> src_Commit (mf_Source external) \<or> cb_GitDirty build \<noteq> Some False \<or> cb_Target build \<noteq> bld_Target (mf_Build external)
        \<or> cb_CargoLockSHA256 build \<noteq> src_CargoLockSHA256 (mf_Source external) \<or> cb_HeaderSHA256 build \<noteq> abi_HeaderSHA256 (mf_ABI external)
      then Inl (ErrorString ''Core source/build identity differs from signed artifact metadata'')
      else if cba_Profile (cb_ABI build) \<noteq> abi_Profile (mf_ABI external) \<or> cba_Version (cb_ABI build) \<noteq> abi_Version (mf_ABI external)
        \<or> \<not> sameStringSet (cba_RequiredSymbols (cb_ABI build)) (abi_RequiredSymbols (mf_ABI external))
        \<or> \<not> supportedNativeSymbolSet (cba_RequiredSymbols (cb_ABI build))
      then Inl (ErrorString ''Core runtime ABI differs from signed artifact metadata'')
      else Inr ())"

definition check_build_identity :: "host \<Rightarrow> string \<Rightarrow> coreBuildManifest \<Rightarrow> verifiedNative \<Rightarrow> unit result" where
  "check_build_identity machine data build verified =
     (case vn_Development verified of
        Some p \<Rightarrow>
          if nativeSHA256Hex (bytes_of data) \<noteq> BuildManifestSHA256 p
          then Inl (ErrorString ''Core runtime manifest differs from pinned local development self-manifest'')
          else validateLocalDevelopmentBuild machine build p
      | None \<Rightarrow> check_release_build build (vn_Manifest verified))"

text \<open>What is asked of every build: features, capabilities, groups, gate and binding.\<close>

definition check_build :: "coreBuildManifest \<Rightarrow> nativeManifest \<Rightarrow> unit result" where
  "check_build build external =
     (case check_features [] (cb_Features build) of
        Inl err \<Rightarrow> Inl err
      | Inr _ \<Rightarrow>
          (case check_required_features (cb_Features build)
              [''native_build_manifest_v'' @ int_str (cb_ManifestVersion build), ''native_error_codes_v1'', ''sql_tlv_v1'',
               ''native_conditional_transaction_v2'', ''conditional_transaction_command_digest_v1''] of
             Inl err \<Rightarrow> Inl err
           | Inr _ \<Rightarrow>
               (case check_capabilities (cb_ManifestVersion build) [] (cb_Capabilities build) of
                  Inl err \<Rightarrow> Inl err
                | Inr _ \<Rightarrow>
                    (case ambiguous_name (cb_Capabilities build) of
                       Some name \<Rightarrow> Inl (ErrorString (''Core build manifest contains ambiguous versions of capability '' @ quoted name))
                     | None \<Rightarrow>
                         (case check_groups build of
                            Inl err \<Rightarrow> Inl err
                          | Inr _ \<Rightarrow>
                              if gate_Status (gts_StorageConditionalBatchV1 (mf_Gates external)) = ''available''
                                \<and> (case capability_at (cb_Capabilities build) (versioned ''storage_conditional_batch'' 1) of
                                     None \<Rightarrow> True | Some c \<Rightarrow> cap_Version c \<noteq> 1 \<or> cap_Status c \<noteq> ''available'')
                              then Inl (ErrorString ''signed storage_conditional_batch_v1 gate is not supported by loaded Core'')
                              else if \<not> shaPattern (cb_BuildBindingSHA256 build) \<or> computeBuildBinding build \<noteq> cb_BuildBindingSHA256 build
                              then Inl (ErrorString ''Core build_binding_sha256 is invalid'')
                              else Inr ())))))"

definition verifyCoreBuildIdentity :: "host \<Rightarrow> string \<Rightarrow> verifiedNative \<Rightarrow> coreBuildManifest result" where
  "verifyCoreBuildIdentity machine data verified =
     (if data = [] \<or> maxManifestBytes < length data then Inl (ErrorString ''Core build manifest exceeds the SDK bound'')
      else case decodeStrictJSON coreBuildManifest_decoder zero_coreBuildManifest data of
        Inl err \<Rightarrow> Inl (WrapError ''strict Core build manifest decode: '' err)
      | Inr build \<Rightarrow>
          (case check_build_identity machine data build verified of
             Inl err \<Rightarrow> Inl err
           | Inr _ \<Rightarrow>
               (case check_build build (vn_Manifest verified) of
                  Inl err \<Rightarrow> Inl err
                | Inr _ \<Rightarrow> Inr build)))"

section \<open>The capabilities a policy requires\<close>

text \<open>The capability behind a required name, with its version; names checked elsewhere are skipped.\<close>

definition runtime_requirement :: "string \<Rightarrow> (string \<times> int) option" where
  "runtime_requirement name =
     (if name = ''storage_conditional_snapshot_read'' then Some (name, 1)
      else if name = ''storage_conditional_snapshot_read_v2'' then Some (''storage_conditional_snapshot_read'', 2)
      else if name = ''storage_conditional_point_read'' then Some (name, 1)
      else if name = ''revision_stream'' then Some (name, 2)
      else if name \<in> {''native_kv_read'', ''native_shared_core'', ''native_sql_context''} then Some (name, 1)
      else None)"

definition requirement_met :: "coreBuildManifest \<Rightarrow> string \<Rightarrow> int \<Rightarrow> NativeCapability option \<Rightarrow> bool" where
  "requirement_met build name version found \<longleftrightarrow>
     (case found of
        None \<Rightarrow> False
      | Some c \<Rightarrow> cap_Status c = ''available''
          \<and> (if name = ''native_kv_read'' then has_feature build ''native_kv_read_v1'' \<and> has_symbol build ''talon_kv_read_v1''
             else if name = ''native_sql_context'' then has_feature build ''native_sql_context_v1'' \<and> list_all (has_symbol build) sqlContextSymbols
             else if name = ''native_shared_core'' then has_feature build ''native_shared_core_v1''
               \<and> list_all (has_symbol build) [''talon_open'', ''talon_close'', ''talon_execute'']
             else if name = ''revision_stream'' then cap_Version c = 2 \<and> has_feature build ''revision_stream_v1'' \<and> has_feature build ''revision_stream_v2_mmr_proof''
             else if name = ''storage_conditional_point_read'' then cap_Version c = 1 \<and> has_feature build ''storage_conditional_point_read_v1''
             else has_feature build (''storage_conditional_snapshot_read_v'' @ int_str version)))"

fun verifyRequiredRuntimeCapabilities :: "coreBuildManifest \<Rightarrow> string list \<Rightarrow> unit result" where
  "verifyRequiredRuntimeCapabilities build [] = Inr ()"
| "verifyRequiredRuntimeCapabilities build (name # rest) =
     (case runtime_requirement name of
        None \<Rightarrow> verifyRequiredRuntimeCapabilities build rest
      | Some (capabilityName, version) \<Rightarrow>
          (let found = findNativeCapability (cb_Capabilities build) capabilityName version in
           if \<not> requirement_met build name version found
           then Inl (ErrorString (''required runtime capability '' @ name @ '' is not available''
                  @ (case found of None \<Rightarrow> [] | Some c \<Rightarrow> reason_suffix (cap_Reason c))))
           else verifyRequiredRuntimeCapabilities build rest))"

end
