(* ===== verification/NativeAdmission.thy ===== *)
theory NativeAdmission
  imports NativeManifest
begin

text \<open>
  Native admission as a whole: verifying a signed bundle (\<open>verifyNativeBundle\<close>) or pinned local artifacts
  (\<open>verifyLocalDevelopmentArtifacts\<close>), snapshotting the library, loading and attesting it, and opening a database
  (\<open>native_manifest.go\<close>, \<open>native_development.go\<close>, \<open>talon.go\<close> and the loader of \<open>native_loader.c\<close>).

  The operating system is an argument: what \<open>Lstat\<close>, \<open>Open\<close> and the temporary directory give at the time of a call,
  with the two passes over an opened file kept apart, since a file may change between them. So are the library
  functions for keys, signatures and archives and the dynamic loader, of which the definitions use only results.
  The state of the process is what package variables and the loader hold: the private files written, the
  loaded image and the admitted library.
\<close>

section \<open>The operating system\<close>

datatype file_kind = RegularFile | Directory | SymbolicLink | OtherFile

record file_info =
  fi_kind :: file_kind
  fi_size :: nat
  fi_perm :: nat
  fi_identity :: nat

text \<open>
  An opened file: what \<open>Stat\<close> says right after opening and once more, what reading it gives from the start, whether
  \<open>Seek\<close> succeeds, and what reading gives after it.
\<close>

record opened_file =
  of_stat :: "file_info result"
  of_stat_again :: "file_info result"
  of_read :: "bytes result"
  of_seek :: "unit result"
  of_read_again :: "bytes result"

text \<open>Creating a file, writing and syncing it, closing it.\<close>

datatype write_outcome = CreateFails go_error | WriteFails go_error | CloseFails go_error | Written

record operating_system =
  os_Abs :: "string \<Rightarrow> string result"
  os_Lstat :: "string \<Rightarrow> file_info result"
  os_Open :: "string \<Rightarrow> opened_file result"
  os_MkdirTemp :: "string \<Rightarrow> string result"
  os_WriteFile :: "string \<Rightarrow> bytes \<Rightarrow> write_outcome"

definition openBoundedRegularFile :: "operating_system \<Rightarrow> string \<Rightarrow> int \<Rightarrow> nat \<Rightarrow> opened_file result" where
  "openBoundedRegularFile os path expectedSize maxSize =
     (case os_Lstat os path of
        Inl err \<Rightarrow> Inl err
      | Inr before \<Rightarrow>
          if fi_kind before \<noteq> RegularFile \<or> fi_size before = 0 \<or> maxSize < fi_size before
            \<or> (0 \<le> expectedSize \<and> int (fi_size before) \<noteq> expectedSize)
          then Inl (ErrorString ''file is not a bounded regular file of the expected size'')
          else case os_Open os path of
            Inl err \<Rightarrow> Inl err
          | Inr file \<Rightarrow>
              (case of_stat file of
                 Inl err \<Rightarrow> Inl (ErrorString ''file changed while being opened'')
               | Inr after \<Rightarrow>
                   if fi_kind after \<noteq> RegularFile \<or> fi_identity before \<noteq> fi_identity after \<or> fi_size after \<noteq> fi_size before
                   then Inl (ErrorString ''file changed while being opened'')
                   else Inr file))"

text \<open>\<open>io.ReadAll(io.LimitReader(file, max+1))\<close> and the bound on what it gave.\<close>

definition read_bounded :: "bytes result \<Rightarrow> nat \<Rightarrow> bytes result" where
  "read_bounded contents maxSize =
     (case contents of
        Inl err \<Rightarrow> Inl err
      | Inr value \<Rightarrow> if maxSize < length (take (maxSize + 1) value) then Inl (ErrorString ''file exceeds size bound'') else Inr (take (maxSize + 1) value))"

definition readBoundedRegularFile :: "operating_system \<Rightarrow> string \<Rightarrow> nat \<Rightarrow> bytes result" where
  "readBoundedRegularFile os path maxSize =
     (case openBoundedRegularFile os path (- 1) maxSize of
        Inl err \<Rightarrow> Inl err
      | Inr file \<Rightarrow> read_bounded (of_read file) maxSize)"

text \<open>Group and world write permission: bits 4 and 1 of the mode.\<close>

definition writable_by_others :: "nat \<Rightarrow> bool" where
  "writable_by_others perm \<longleftrightarrow> odd (perm div 16) \<or> odd (perm div 2)"

definition readLocalDevelopmentFile :: "operating_system \<Rightarrow> string \<Rightarrow> nat \<Rightarrow> bytes result" where
  "readLocalDevelopmentFile os path maxSize =
     (case openBoundedRegularFile os path (- 1) maxSize of
        Inl err \<Rightarrow> Inl err
      | Inr file \<Rightarrow>
          (case of_stat_again file of
             Inl err \<Rightarrow> Inl err
           | Inr st \<Rightarrow>
               if writable_by_others (fi_perm st) then Inl (ErrorString ''local artifact must not be group or world writable'')
               else read_bounded (of_read file) maxSize))"

definition verifyFileRecord :: "operating_system \<Rightarrow> string \<Rightarrow> fileRecord \<Rightarrow> nat \<Rightarrow> unit result" where
  "verifyFileRecord os path entry maxSize =
     (case openBoundedRegularFile os path (fr_Size entry) maxSize of
        Inl err \<Rightarrow> Inl err
      | Inr file \<Rightarrow>
          (case of_read file of
             Inl err \<Rightarrow> Inl err
           | Inr contents \<Rightarrow>
               if hex_encode (sha256 (take (maxSize + 1) contents)) \<noteq> fr_SHA256 entry then Inl (ErrorString ''SHA-256 mismatch'') else Inr ()))"

section \<open>Keys and archives\<close>

datatype public_key = Ed25519Key bytes | OtherKey

text \<open>An entry of a tar stream: its header and what reading it gives, with whether that failed.\<close>

record tar_entry =
  te_Name :: string
  te_regular :: bool
  te_Size :: int
  te_data :: bytes
  te_failed :: bool

text \<open>
  \<open>pem.Decode\<close> (type, bytes and rest of the first block), \<open>x509.ParsePKIXPublicKey\<close>, \<open>ed25519.Verify\<close>, and
  \<open>tar\<close> over \<open>gzip\<close> over what reading a file gives: an error on opening, or entries and how the stream ends
  (\<open>None\<close> for \<open>io.EOF\<close>).
\<close>

record trust_library =
  pem_Decode :: "bytes \<Rightarrow> (string \<times> bytes \<times> bytes) option"
  ParsePKIXPublicKey :: "bytes \<Rightarrow> public_key result"
  ed25519_Verify :: "bytes \<Rightarrow> bytes \<Rightarrow> bytes \<Rightarrow> bool"
  untar :: "bytes result \<Rightarrow> (tar_entry list \<times> go_error option) result"

definition parseTrustedEd25519Key :: "trust_library \<Rightarrow> bytes \<Rightarrow> (bytes \<times> string) result" where
  "parseTrustedEd25519Key crypto value =
     (case pem_Decode crypto value of
        None \<Rightarrow> Inl (ErrorString ''trusted public key must contain exactly one PUBLIC KEY PEM block'')
      | Some (kind, block, rest) \<Rightarrow>
          if kind \<noteq> ''PUBLIC KEY'' \<or> \<not> blank (string_of rest)
          then Inl (ErrorString ''trusted public key must contain exactly one PUBLIC KEY PEM block'')
          else case ParsePKIXPublicKey crypto block of
            Inl err \<Rightarrow> Inl (WrapError ''parse trusted public key: '' err)
          | Inr OtherKey \<Rightarrow> Inl (ErrorString ''trusted public key is not Ed25519'')
          | Inr (Ed25519Key publicKey) \<Rightarrow>
              if length publicKey \<noteq> 32 then Inl (ErrorString ''trusted public key is not Ed25519'')
              else Inr (publicKey, hex_encode (sha256 block)))"

text \<open>The loop over the archive: names seen and the library found so far (empty before it is).\<close>

definition expected_record :: "fileRecord list \<Rightarrow> string \<Rightarrow> fileRecord option" where
  "expected_record files name = find (\<lambda>r. fr_Path r = name) (rev files)"

fun archive_loop :: "fileRecord list \<Rightarrow> string \<Rightarrow> string list \<Rightarrow> bytes \<times> fileRecord \<Rightarrow> tar_entry list
    \<Rightarrow> (string list \<times> bytes \<times> fileRecord) result" where
  "archive_loop files libraryName seen library [] = Inr (seen, library)"
| "archive_loop files libraryName seen library (entry # rest) =
     (if te_Name entry = [] \<or> te_Name entry \<noteq> filepath_Base (te_Name entry) \<or> \<not> namePattern (te_Name entry) \<or> \<not> te_regular entry
      then Inl (ErrorString (''unsafe or unsupported archive member '' @ quoted (te_Name entry)))
      else case expected_record files (te_Name entry) of
        None \<Rightarrow> Inl (ErrorString (''unexpected archive member '' @ quoted (te_Name entry)))
      | Some recorded \<Rightarrow>
          if te_Name entry \<in> set seen then Inl (ErrorString (''duplicate archive member '' @ quoted (te_Name entry)))
          else if te_Size entry \<noteq> fr_Size recorded \<or> int maxNativeMemberBytes < te_Size entry
          then Inl (ErrorString (''archive member '' @ quoted (te_Name entry) @ '' size mismatch''))
          else (let data = take (nat (te_Size entry + 1)) (te_data entry) in
            if te_failed entry \<or> int (length data) \<noteq> te_Size entry \<or> hex_encode (sha256 data) \<noteq> fr_SHA256 recorded
            then Inl (ErrorString (''archive member '' @ quoted (te_Name entry) @ '' digest mismatch''))
            else archive_loop files libraryName (te_Name entry # seen)
                   (if te_Name entry = libraryName then (data, recorded) else library) rest))"

definition verifyNativeArchive :: "trust_library \<Rightarrow> operating_system \<Rightarrow> string \<Rightarrow> nativeManifest \<Rightarrow> nativePlatform \<Rightarrow> (bytes \<times> fileRecord) result" where
  "verifyNativeArchive crypto os path manifest platform =
     (let files = art_Files (mf_Artifact manifest) in
      case openBoundedRegularFile os path (fr_Size (art_Archive (mf_Artifact manifest))) maxNativeArchiveBytes of
        Inl err \<Rightarrow> Inl (WrapError ''open native archive: '' err)
      | Inr file \<Rightarrow>
          (case of_read file of
             Inl err \<Rightarrow> Inl (WrapError ''hash native archive: '' err)
           | Inr contents \<Rightarrow>
               if hex_encode (sha256 (take (maxNativeArchiveBytes + 1) contents)) \<noteq> fr_SHA256 (art_Archive (mf_Artifact manifest))
               then Inl (ErrorString ''native archive SHA-256 mismatch'')
               else case of_seek file of
                 Inl err \<Rightarrow> Inl (WrapError ''rewind native archive: '' err)
               | Inr _ \<Rightarrow>
                   (case untar crypto (of_read_again file) of
                      Inl err \<Rightarrow> Inl (WrapError ''open native gzip stream: '' err)
                    | Inr (entries, ending) \<Rightarrow>
                        (case archive_loop files (pl_DynamicLibrary platform) [] ([], zero_fileRecord) entries of
                           Inl err \<Rightarrow> Inl err
                         | Inr (seen, library, libraryRecord) \<Rightarrow>
                             (case ending of
                                Some err \<Rightarrow> Inl (WrapError ''read native archive: '' err)
                              | None \<Rightarrow>
                                  if length seen \<noteq> length (remdups (map fr_Path files)) \<or> library = []
                                  then Inl (ErrorString ''native archive member set is incomplete'')
                                  else Inr (library, libraryRecord))))))"

section \<open>Verifying a bundle\<close>

text \<open>The private files this process has written, and removing a temporary directory.\<close>

type_synonym snapshots = "string \<rightharpoonup> bytes"

definition RemoveAll :: "string \<Rightarrow> snapshots \<Rightarrow> snapshots" where
  "RemoveAll dir files = (\<lambda>path. if HasPrefix path (dir @ ''/'') then None else files path)"

definition release_info :: "nativeManifest \<Rightarrow> nativePlatform \<Rightarrow> fileRecord \<Rightarrow> NativeInfo" where
  "release_info manifest platform libraryRecord = \<lparr>Admission = NativeAdmissionRelease, CoreGitDirty = False, BuildProfile = [],
     BuildProfileSource = [], DevelopmentLibraryPath = [], DevelopmentHeaderPath = [], DevelopmentManifestPath = [],
     DevelopmentManifestSHA256 = [], Platform = pl_Name platform, ReleaseTag = rel_Tag (mf_Release manifest),
     TalonBinCommit = rel_TalonBinCommit (mf_Release manifest), CoreRepository = src_Repository (mf_Source manifest),
     CoreTag = src_Tag (mf_Source manifest), CoreCommit = src_Commit (mf_Source manifest), CoreVersion = src_CargoVersion (mf_Source manifest),
     ABIProfile = abi_Profile (mf_ABI manifest), ABIVersion = abi_Version (mf_ABI manifest), HeaderSHA256 = abi_HeaderSHA256 (mf_ABI manifest),
     LibrarySHA256 = fr_SHA256 libraryRecord, KeyID = sig_KeyID (mf_Signing manifest), KeySHA256 = sig_PublicKeySHA256 (mf_Signing manifest),
     Features = [], Capabilities = [],
     Gates = [''storage_conditional_batch_v1'' \<mapsto> gts_StorageConditionalBatchV1 (mf_Gates manifest)]\<rparr>"

definition manifest_name :: "NativePolicy \<Rightarrow> nativePlatform \<Rightarrow> string" where
  "manifest_name policy platform =
     (if RuntimeOnly policy then ''libtalon-core-runtime-'' else ''libtalon-core-'') @ pl_Name platform @ ''.manifest.json''"

text \<open>The manifest with its signature: the bytes that were read decode to it and verify under the trusted key.\<close>

definition verify_manifest :: "trust_library \<Rightarrow> operating_system \<Rightarrow> nativePlatform \<Rightarrow> NativePolicy \<Rightarrow> string \<Rightarrow> nativeManifest result" where
  "verify_manifest crypto os platform policy bundleDir =
     (let manifestName = manifest_name policy platform in
      case readBoundedRegularFile os (filepath_Join bundleDir manifestName) maxManifestBytes of
        Inl err \<Rightarrow> Inl (WrapError ''read native manifest: '' err)
      | Inr manifestBytes \<Rightarrow>
          (case decodeStrictJSON nativeManifest_decoder zero_nativeManifest (string_of manifestBytes) of
             Inl err \<Rightarrow> Inl (WrapError ''strict native manifest decode: '' err)
           | Inr manifest \<Rightarrow>
               (case validateNativeManifest manifest manifestName platform policy of
                  Inl err \<Rightarrow> Inl err
                | Inr _ \<Rightarrow>
                    (case parseTrustedEd25519Key crypto (PublicKeyPEM policy) of
                       Inl err \<Rightarrow> Inl err
                     | Inr (publicKey, fingerprint) \<Rightarrow>
                         if fingerprint \<noteq> ExpectedKeySHA256 policy \<or> fingerprint \<noteq> sig_PublicKeySHA256 (mf_Signing manifest)
                         then Inl (ErrorString ''trusted public-key fingerprint does not match policy and manifest'')
                         else case readBoundedRegularFile os (filepath_Join bundleDir (sig_Signature (mf_Signing manifest))) 64 of
                           Inl err \<Rightarrow> Inl (ErrorString ''read Ed25519 manifest signature: invalid signature file'')
                         | Inr signature \<Rightarrow>
                             if length signature \<noteq> 64 then Inl (ErrorString ''read Ed25519 manifest signature: invalid signature file'')
                             else if \<not> ed25519_Verify crypto publicKey manifestBytes signature
                             then Inl (ErrorString ''Ed25519 manifest signature verification failed'')
                             else Inr manifest))))"

fun verify_materials :: "operating_system \<Rightarrow> string \<Rightarrow> (string \<times> fileRecord) list \<Rightarrow> unit result" where
  "verify_materials os bundleDir [] = Inr ()"
| "verify_materials os bundleDir ((label, entry) # rest) =
     (case verifyFileRecord os (filepath_Join bundleDir (fr_Path entry)) entry maxNativeMemberBytes of
        Inl err \<Rightarrow> Inl (WrapError (''verify '' @ label @ '': '') err)
      | Inr _ \<Rightarrow> verify_materials os bundleDir rest)"

text \<open>The artifact: the manifest, the library of the archive with its record, and the material beside it.\<close>

definition verify_artifact :: "trust_library \<Rightarrow> operating_system \<Rightarrow> nativePlatform \<Rightarrow> NativePolicy \<Rightarrow> (nativeManifest \<times> bytes \<times> fileRecord) result" where
  "verify_artifact crypto os platform policy =
     (case os_Abs os (BundleDir policy) of
        Inl err \<Rightarrow> Inl (WrapError ''resolve native bundle directory: '' err)
      | Inr bundleDir \<Rightarrow>
          (case os_Lstat os bundleDir of
             Inl err \<Rightarrow> Inl (ErrorString ''native bundle directory is unavailable'')
           | Inr info \<Rightarrow>
               if fi_kind info \<noteq> Directory then Inl (ErrorString ''native bundle directory is unavailable'')
               else case verify_manifest crypto os platform policy bundleDir of
                 Inl err \<Rightarrow> Inl err
               | Inr manifest \<Rightarrow>
                   (case verifyNativeArchive crypto os (filepath_Join bundleDir (fr_Path (art_Archive (mf_Artifact manifest)))) manifest platform of
                      Inl err \<Rightarrow> Inl err
                    | Inr (library, libraryRecord) \<Rightarrow>
                        (case verify_materials os bundleDir
                            [(''sbom'', mat_SBOM (mf_Materials manifest)), (''license inventory'', mat_LicenseInventory (mf_Materials manifest)),
                             (''core license'', mat_CoreLicense (mf_Materials manifest)), (''notice'', mat_Notice (mf_Materials manifest))] of
                           Inl err \<Rightarrow> Inl err
                         | Inr _ \<Rightarrow> Inr (manifest, library, libraryRecord)))))"

definition verifyNativeBundle :: "trust_library \<Rightarrow> operating_system \<Rightarrow> host \<Rightarrow> NativePolicy \<Rightarrow> snapshots \<Rightarrow> snapshots \<times> verifiedNative result" where
  "verifyNativeBundle crypto os machine policy files =
     (case currentNativePlatform machine of
        Inl err \<Rightarrow> (files, Inl err)
      | Inr platform \<Rightarrow>
          (case validateNativePolicy policy of
             Inl err \<Rightarrow> (files, Inl err)
           | Inr _ \<Rightarrow>
               (case verify_artifact crypto os platform policy of
                  Inl err \<Rightarrow> (files, Inl err)
                | Inr (manifest, libraryBytes, libraryRecord) \<Rightarrow>
                    (case os_MkdirTemp os ''talon-native-verified-'' of
                       Inl err \<Rightarrow> (files, Inl (WrapError ''create verified native directory: '' err))
                     | Inr tempDir \<Rightarrow>
                         (let libraryPath = filepath_Join tempDir (pl_DynamicLibrary platform) in
                          case os_WriteFile os libraryPath libraryBytes of
                            CreateFails err \<Rightarrow> (RemoveAll tempDir files, Inl (WrapError ''create verified native library: '' err))
                          | WriteFails err \<Rightarrow> (RemoveAll tempDir files, Inl (WrapError ''write verified native library: '' err))
                          | CloseFails err \<Rightarrow> (RemoveAll tempDir files, Inl (WrapError ''close verified native library: '' err))
                          | Written \<Rightarrow>
                              (files(libraryPath \<mapsto> libraryBytes),
                               Inr \<lparr>vn_Development = None, vn_developmentBuild = zero_coreBuildManifest,
                                 vn_Info = release_info manifest platform libraryRecord, vn_Manifest = manifest, vn_LibraryPath = libraryPath,
                                 vn_tempDir = tempDir, vn_policyHash = hashNativePolicy policy,
                                 vn_requiredCapabilities = RequiredCapabilities policy\<rparr>))))))"

section \<open>Verifying local artifacts\<close>

definition local_info :: "LocalDevelopmentPolicy \<Rightarrow> coreBuildManifest \<Rightarrow> nativePlatform \<Rightarrow> NativeInfo" where
  "local_info p build platform = \<lparr>Admission = NativeAdmissionLocalDevelopment, CoreGitDirty = False, BuildProfile = ldp_BuildProfile p,
     BuildProfileSource = ''caller-declared (not attested by Core ABI)'', DevelopmentLibraryPath = LibraryPath p,
     DevelopmentHeaderPath = HeaderPath p, DevelopmentManifestPath = BuildManifestPath p, DevelopmentManifestSHA256 = BuildManifestSHA256 p,
     Platform = pl_Name platform, ReleaseTag = [], TalonBinCommit = [], CoreRepository = [], CoreTag = [], CoreCommit = cb_GitCommit build,
     CoreVersion = cb_CoreSemver build, ABIProfile = cba_Profile (cb_ABI build), ABIVersion = cba_Version (cb_ABI build),
     HeaderSHA256 = ldp_HeaderSHA256 p, LibrarySHA256 = ldp_LibrarySHA256 p, KeyID = [], KeySHA256 = [], Features = [], Capabilities = [],
     Gates = [''storage_conditional_batch_v1'' \<mapsto> \<lparr>gate_Status = ''gated'', gate_Reason = ''local development does not grant release-only admission''\<rparr>]\<rparr>"

definition zero_nativePlatform :: nativePlatform where
  "zero_nativePlatform = \<lparr>pl_Name = [], pl_Target = [], pl_Runner = [], pl_StaticLibrary = [], pl_DynamicLibrary = []\<rparr>"

text \<open>
  The library, the header and the self-manifest, each read once and pinned by its digest. An unsupported platform,
  whose error is ignored here, is refused by the checks of the build that follow.
\<close>

definition verifyLocalDevelopmentArtifacts :: "operating_system \<Rightarrow> host \<Rightarrow> LocalDevelopmentPolicy \<Rightarrow> (verifiedNative \<times> bytes) result" where
  "verifyLocalDevelopmentArtifacts os machine p =
     (case validateLocalDevelopmentPolicy p of
        Inl err \<Rightarrow> Inl err
      | Inr _ \<Rightarrow>
          (case readLocalDevelopmentFile os (LibraryPath p) maxNativeMemberBytes of
             Inl err \<Rightarrow> Inl (WrapError ''read local library: '' err)
           | Inr library \<Rightarrow>
               if nativeSHA256Hex library \<noteq> ldp_LibrarySHA256 p then Inl (ErrorString ''local library SHA256 mismatch'')
               else case readLocalDevelopmentFile os (HeaderPath p) maxManifestBytes of
                 Inl err \<Rightarrow> Inl (WrapError ''read local header: '' err)
               | Inr header \<Rightarrow>
                   if nativeSHA256Hex header \<noteq> ldp_HeaderSHA256 p then Inl (ErrorString ''local header SHA256 mismatch'')
                   else case readLocalDevelopmentFile os (BuildManifestPath p) maxManifestBytes of
                     Inl err \<Rightarrow> Inl (WrapError ''read local self-manifest: '' err)
                   | Inr data \<Rightarrow>
                       if nativeSHA256Hex data \<noteq> BuildManifestSHA256 p then Inl (ErrorString ''local self-manifest SHA256 mismatch'')
                       else case decodeStrictJSON coreBuildManifest_decoder zero_coreBuildManifest (string_of data) of
                         Inl err \<Rightarrow> Inl err
                       | Inr build \<Rightarrow>
                           (let platform = (case currentNativePlatform machine of Inl _ \<Rightarrow> zero_nativePlatform | Inr pl \<Rightarrow> pl);
                                v = \<lparr>vn_Development = Some p, vn_developmentBuild = build, vn_Info = local_info p build platform,
                                     vn_Manifest = zero_nativeManifest, vn_LibraryPath = [], vn_tempDir = [],
                                     vn_policyHash = hashLocalDevelopmentPolicy p, vn_requiredCapabilities = []\<rparr>
                            in case verifyCoreBuildIdentity machine (string_of data) v of
                                 Inl err \<Rightarrow> Inl err
                               | Inr _ \<Rightarrow> Inr (v\<lparr>vn_Info := (vn_Info v)\<lparr>CoreGitDirty := (cb_GitDirty build = Some True)\<rparr>\<rparr>, library))))"

definition verifyLocalDevelopment :: "operating_system \<Rightarrow> host \<Rightarrow> LocalDevelopmentPolicy \<Rightarrow> snapshots \<Rightarrow> snapshots \<times> verifiedNative result" where
  "verifyLocalDevelopment os machine p files =
     (case verifyLocalDevelopmentArtifacts os machine p of
        Inl err \<Rightarrow> (files, Inl err)
      | Inr (v, library) \<Rightarrow>
          (case currentNativePlatform machine of
             Inl err \<Rightarrow> (files, Inl err)
           | Inr platform \<Rightarrow>
               (case os_MkdirTemp os ''talon-native-local-development-'' of
                  Inl err \<Rightarrow> (files, Inl err)
                | Inr dir \<Rightarrow>
                    (let path = filepath_Join dir (pl_DynamicLibrary platform) in
                     case os_WriteFile os path library of
                       CreateFails err \<Rightarrow> (RemoveAll dir files, Inl err)
                     | WriteFails err \<Rightarrow> (RemoveAll dir files, Inl err)
                     | CloseFails err \<Rightarrow> (RemoveAll dir files, Inl err)
                     | Written \<Rightarrow> (files(path \<mapsto> library), Inr (v\<lparr>vn_LibraryPath := path, vn_tempDir := dir\<rparr>))))))"

section \<open>Loading and attesting\<close>

text \<open>What a loaded library shows: its self-manifest, its symbols, and opening a database.\<close>

record 'h core =
  core_manifest :: "string native_reply"
  core_symbols :: "string \<Rightarrow> bool"
  core_open :: "string \<Rightarrow> string + 'h"

record 'h process =
  snapshot_files :: snapshots
  native_library :: "(bytes \<times> 'h core) option"
  loadedNative :: "verifiedNative option"

text \<open>
  \<open>talon_sdk_load\<close>: nothing is done when a library is loaded already. \<open>dlopen\<close> maps the bytes of a file to a library;
  the required entry points are resolved at once.
\<close>

definition loader_symbols :: "string list" where
  "loader_symbols = [''talon_open'', ''talon_close'', ''talon_persist'', ''talon_kv_set'', ''talon_execute'', ''talon_run_sql_param_bin'',
     ''talon_free_string'', ''talon_free_bytes'', ''talon_last_error_code'', ''talon_build_manifest'']"

definition talon_sdk_load :: "(bytes \<Rightarrow> string + 'h core) \<Rightarrow> 'h process \<Rightarrow> string \<Rightarrow> 'h process \<times> unit result" where
  "talon_sdk_load dlopen pr path =
     (case native_library pr of
        Some _ \<Rightarrow> (pr, Inr ())
      | None \<Rightarrow>
          if path = [] then (pr, Inl (ErrorString ''dlopen: library path is empty''))
          else case snapshot_files pr path of
            None \<Rightarrow> (pr, Inl (ErrorString ''dlopen: unknown dynamic-loader error''))
          | Some mapped \<Rightarrow>
              (case dlopen mapped of
                 Inl diagnostic \<Rightarrow> (pr, Inl (ErrorString (''dlopen: '' @ diagnostic)))
               | Inr library \<Rightarrow>
                   (case find (\<lambda>s. \<not> core_symbols library s) loader_symbols of
                      Some missing \<Rightarrow> (pr, Inl (ErrorString (missing @ '': unknown dynamic-loader error'')))
                    | None \<Rightarrow> (pr\<lparr>native_library := Some (mapped, library)\<rparr>, Inr ()))))"

definition talon_sdk_unload :: "'h process \<Rightarrow> 'h process" where
  "talon_sdk_unload pr = pr\<lparr>native_library := None\<rparr>"

definition missing_symbol :: "'h core \<Rightarrow> string list \<Rightarrow> string option" where
  "missing_symbol library symbols = find (\<lambda>s. \<not> core_symbols library s) symbols"

definition attestLoadedNative :: "host \<Rightarrow> 'h core \<Rightarrow> verifiedNative \<Rightarrow> verifiedNative result" where
  "attestLoadedNative machine library verified =
     (case core_manifest library of
        NativeFailed code \<Rightarrow> Inl (ErrorString (''talon_build_manifest failed with machine code '' @ quoted code))
      | NativeOutput None \<Rightarrow> Inl (ErrorString ''talon_build_manifest returned a null result'')
      | NativeOutput (Some out) \<Rightarrow>
          (case boundedCString out maxManifestBytes of
             Inl err \<Rightarrow> Inl (WrapError ''read Core build manifest: '' err)
           | Inr data \<Rightarrow>
               (case verifyCoreBuildIdentity machine data verified of
                  Inl err \<Rightarrow> Inl err
                | Inr build \<Rightarrow>
                    (case verifyRequiredRuntimeCapabilities build (vn_requiredCapabilities verified) of
                       Inl err \<Rightarrow> Inl err
                     | Inr _ \<Rightarrow>
                         (case missing_symbol library
                             (case vn_Development verified of
                                None \<Rightarrow> abi_RequiredSymbols (mf_ABI (vn_Manifest verified))
                              | Some _ \<Rightarrow> cba_RequiredSymbols (cb_ABI (vn_developmentBuild verified))) of
                            Some symbol \<Rightarrow> Inl (ErrorString (''loaded Core omitted required symbol '' @ quoted symbol))
                          | None \<Rightarrow> Inr (verified\<lparr>vn_Info := (vn_Info verified)\<lparr>Features := cb_Features build, Capabilities := cb_Capabilities build\<rparr>\<rparr>))))))"

definition loadAndAttestNative :: "(bytes \<Rightarrow> string + 'h core) \<Rightarrow> host \<Rightarrow> 'h process \<Rightarrow> verifiedNative \<Rightarrow> 'h process \<times> verifiedNative result" where
  "loadAndAttestNative dlopen machine pr verified =
     (case talon_sdk_load dlopen pr (vn_LibraryPath verified) of
        (pr', Inl err) \<Rightarrow> (pr', Inl (newError CodeNativeLoad ''load native library'' ''dynamic loader rejected the verified native library'' (Some err)))
      | (pr', Inr _) \<Rightarrow>
          (case native_library pr' of
             None \<Rightarrow> (pr', Inl (newError CodeNativeVerification ''attest loaded native library''
                 ''Core runtime identity does not match the admitted artifact'' (Some (ErrorString (''talon_build_manifest failed with machine code '' @ quoted [])))))
           | Some (_, library) \<Rightarrow>
               (case attestLoadedNative machine library verified of
                  Inl err \<Rightarrow> (talon_sdk_unload pr', Inl (newError CodeNativeVerification ''attest loaded native library''
                      ''Core runtime identity does not match the admitted artifact'' (Some err)))
                | Inr attested \<Rightarrow> (pr', Inr attested))))"

definition removeVerifiedNative :: "verifiedNative \<Rightarrow> snapshots \<Rightarrow> snapshots" where
  "removeVerifiedNative verified files = (if vn_tempDir verified = [] then files else RemoveAll (vn_tempDir verified) files)"

section \<open>Admission and opening\<close>

record OpenOptions =
  Native :: NativePolicy
  LocalDevelopment :: "LocalDevelopmentPolicy option"

definition load_error :: "string \<Rightarrow> string \<Rightarrow> go_error option \<Rightarrow> 'a result" where
  "load_error operation message cause = Inl (newError CodeNativeVerification operation message cause)"

text \<open>The hash an admitted library must have been admitted under.\<close>

definition options_hash :: "OpenOptions \<Rightarrow> bytes result" where
  "options_hash options =
     (case LocalDevelopment options of
        None \<Rightarrow> Inr (hashNativePolicy (Native options))
      | Some p \<Rightarrow>
          if hashNativePolicy (Native options) \<noteq> hashNativePolicy zero_NativePolicy
          then load_error ''load native library'' ''release and local development policies cannot be combined'' None
          else case validateLocalDevelopmentPolicy p of
            Inl err \<Rightarrow> load_error ''load native library'' ''invalid local development policy'' (Some err)
          | Inr _ \<Rightarrow> Inr (hashLocalDevelopmentPolicy p))"

definition verify_options :: "trust_library \<Rightarrow> operating_system \<Rightarrow> host \<Rightarrow> OpenOptions \<Rightarrow> snapshots \<Rightarrow> snapshots \<times> verifiedNative result" where
  "verify_options crypto os machine options files =
     (case LocalDevelopment options of
        Some p \<Rightarrow> verifyLocalDevelopment os machine p files
      | None \<Rightarrow> verifyNativeBundle crypto os machine (Native options) files)"

definition ensureNativeLoadedOptions :: "trust_library \<Rightarrow> operating_system \<Rightarrow> (bytes \<Rightarrow> string + 'h core) \<Rightarrow> host \<Rightarrow> 'h process \<Rightarrow> OpenOptions
    \<Rightarrow> 'h process \<times> verifiedNative result" where
  "ensureNativeLoadedOptions crypto os dlopen machine pr options =
     (case options_hash options of
        Inl err \<Rightarrow> (pr, Inl err)
      | Inr policyHash \<Rightarrow>
          (case loadedNative pr of
             Some v \<Rightarrow>
               (pr, if vn_policyHash v \<noteq> policyHash
                    then load_error ''load native library'' ''a different native trust policy is already active in this process'' None
                    else Inr v)
           | None \<Rightarrow>
               (case verify_options crypto os machine options (snapshot_files pr) of
                  (files, Inl err) \<Rightarrow>
                    (pr\<lparr>snapshot_files := files\<rparr>, load_error ''verify native bundle'' ''native bundle verification failed'' (Some err))
                | (files, Inr verified) \<Rightarrow>
                    (case loadAndAttestNative dlopen machine (pr\<lparr>snapshot_files := files\<rparr>) verified of
                       (pr', Inl err) \<Rightarrow> (pr'\<lparr>snapshot_files := removeVerifiedNative verified (snapshot_files pr')\<rparr>, Inl err)
                     | (pr', Inr attested) \<Rightarrow> (pr'\<lparr>loadedNative := Some attested\<rparr>, Inr attested)))))"

definition OpenWithOptions :: "trust_library \<Rightarrow> operating_system \<Rightarrow> (bytes \<Rightarrow> string + 'h core) \<Rightarrow> host \<Rightarrow> 'h process \<Rightarrow> string \<Rightarrow> OpenOptions
    \<Rightarrow> 'h process \<times> 'h DB result" where
  "OpenWithOptions crypto os dlopen machine pr path options =
     (if path = [] \<or> CHR 0x00 \<in> set path \<or> \<not> utf8_valid path
      then (pr, Inl (newError CodeInvalidArgument ''open'' ''database path is empty, contains NUL, or is not UTF-8'' None))
      else case ensureNativeLoadedOptions crypto os dlopen machine pr options of
        (pr', Inl err) \<Rightarrow> (pr', Inl err)
      | (pr', Inr verified) \<Rightarrow>
          (pr', case (case native_library pr' of None \<Rightarrow> Inl [] | Some (_, library) \<Rightarrow> core_open library path) of
             Inl code \<Rightarrow> Inl (nativeFailure ''open'' (''failed to open database at '' @ path) code)
           | Inr h \<Rightarrow> Inr \<lparr>db_handle = Some h, db_nativeInfo = vn_Info verified, db_nativePolicyHash = vn_policyHash verified\<rparr>))"

end
