(* ===== verification/LocalPolicy.thy ===== *)
theory LocalPolicy
  imports NativeAdmission
begin

text \<open>
  Local development policies as documents, \<open>native_development.go\<close> and \<open>native_development_owner.go\<close>: reading a pinned
  policy with its exact field names, verifying it against the artifacts it pins, and relocating it, which replaces
  the three locator strings of the document and nothing else. \<open>AttestLocalDevelopmentPolicy\<close> of
  \<open>native_development_cgo.go\<close> loads the pinned library once without admitting it. The last section has the choice of a
  policy from the environment and \<open>Open\<close>.
\<close>

section \<open>Locator spans\<close>

record localLocatorSpan =
  sp_field :: string
  sp_start :: nat
  sp_end :: nat

definition localPolicyFields :: "string list" where
  "localPolicyFields = [''contract'', ''library_path'', ''library_sha256'', ''header_path'', ''header_sha256'', ''build_manifest_path'',
     ''build_manifest_sha256'', ''expected_abi_profile'', ''expected_abi_version'', ''build_profile'', ''required_capabilities'']"

definition locator_fields :: "string list" where
  "locator_fields = [''library_path'', ''header_path'', ''build_manifest_path'']"

text \<open>
  The token loop over the members of the object, with the length of the document, the keys seen and the spans so far. A value spans
  the bytes from after the white space before it to its end. The first argument bounds the walk as in \<open>parse_members\<close>.
\<close>

fun locator_members :: "nat \<Rightarrow> nat \<Rightarrow> string list \<Rightarrow> localLocatorSpan list \<Rightarrow> string \<Rightarrow> (string list \<times> localLocatorSpan list) result" where
  "locator_members 0 extent seen spans s = Inl (ErrorString ''unexpected EOF'')"
| "locator_members (Suc n) extent seen spans s =
     (case skip_space s of
        [] \<Rightarrow> Inl (ErrorString ''unexpected EOF'')
      | q # s1 \<Rightarrow>
          if q \<noteq> CHR 0x22 then Inl (ErrorString ''unknown or duplicate local policy field'')
          else case parse_string s1 of
            None \<Rightarrow> Inl (ErrorString ''invalid character in string'')
          | Some (key, s2) \<Rightarrow>
              if key \<notin> set localPolicyFields \<or> key \<in> set seen then Inl (ErrorString ''unknown or duplicate local policy field'')
              else case skip_space s2 of
                [] \<Rightarrow> Inl (ErrorString ''unexpected EOF'')
              | d # s3 \<Rightarrow>
                  if d \<noteq> CHR '':'' then Inl (ErrorString ''invalid character after object key'')
                  else case parse_value n (skip_space s3) of
                    None \<Rightarrow> Inl (ErrorString ''invalid value'')
                  | Some (_, s4) \<Rightarrow>
                      (let spans' = (if key \<in> set locator_fields
                           then spans @ [\<lparr>sp_field = key, sp_start = extent - length (skip_space s3), sp_end = extent - length s4\<rparr>] else spans)
                       in case skip_space s4 of
                            [] \<Rightarrow> Inl (ErrorString ''unexpected EOF'')
                          | e # s5 \<Rightarrow>
                              if e = CHR ''}'' then Inr (key # seen, spans')
                              else if e = CHR '','' then locator_members n extent (key # seen) spans' s5
                              else Inl (ErrorString ''invalid character after object key:value pair'')))"

definition localPolicyLocatorSpans :: "string \<Rightarrow> localLocatorSpan list result" where
  "localPolicyLocatorSpans data =
     (case skip_space data of
        [] \<Rightarrow> Inl (ErrorString ''local policy must be an object'')
      | c # s1 \<Rightarrow>
          if c \<noteq> CHR ''{'' then Inl (ErrorString ''local policy must be an object'')
          else case (case skip_space s1 of
                 [] \<Rightarrow> Inl (ErrorString ''unexpected EOF'')
               | d # s2 \<Rightarrow> if d = CHR ''}'' then Inr ([], []) else locator_members (2 * length data + 1) (length data) [] [] (d # s2)) of
            Inl err \<Rightarrow> Inl err
          | Inr (seen, spans) \<Rightarrow>
              if length seen \<noteq> length localPolicyFields then Inl (ErrorString ''local policy omitted a required field'')
              else Inr spans)"

section \<open>Pinned policies\<close>

definition decodePinnedLocalDevelopmentPolicy :: "string \<Rightarrow> string \<Rightarrow> LocalDevelopmentPolicy result" where
  "decodePinnedLocalDevelopmentPolicy data pin =
     (if \<not> shaPattern pin \<or> data = [] \<or> maxManifestBytes < length data
      then Inl (ErrorString ''external policy pin or byte budget is invalid'')
      else if nativeSHA256Hex (bytes_of data) \<noteq> pin then Inl (ErrorString ''local development policy SHA256 mismatch'')
      else case decodeStrictJSON LocalDevelopmentPolicy_decoder zero_LocalDevelopmentPolicy data of
        Inl err \<Rightarrow> Inl err
      | Inr p \<Rightarrow>
          (case localPolicyLocatorSpans data of
             Inl err \<Rightarrow> Inl err
           | Inr _ \<Rightarrow> (case validateLocalDevelopmentPolicy p of Inl err \<Rightarrow> Inl err | Inr _ \<Rightarrow> Inr p)))"

definition localPolicyError :: "go_error \<Rightarrow> go_error" where
  "localPolicyError cause = newError CodeNativeVerification ''verify local development policy'' ''local policy verification failed'' (Some cause)"

record LocalDevelopmentVerification =
  lv_PolicySHA256 :: string
  lv_Provenance :: string
  lv_Stage :: string
  lv_Policy :: LocalDevelopmentPolicy
  lv_Info :: NativeInfo

definition LocalDevelopmentProvenance :: string where "LocalDevelopmentProvenance = ''unsigned-local-development''"
definition LocalDevelopmentStaticVerification :: string where "LocalDevelopmentStaticVerification = ''static-artifacts''"
definition LocalDevelopmentRuntimeVerification :: string where "LocalDevelopmentRuntimeVerification = ''loader-core-attested''"

text \<open>The pointer to the policy is never nil here: both callers pass what local verification returned.\<close>

definition localDevelopmentObservation :: "verifiedNative \<Rightarrow> string \<Rightarrow> string \<Rightarrow> LocalDevelopmentVerification" where
  "localDevelopmentObservation v pin stage = \<lparr>lv_PolicySHA256 = pin, lv_Provenance = LocalDevelopmentProvenance, lv_Stage = stage,
     lv_Policy = (case vn_Development v of None \<Rightarrow> zero_LocalDevelopmentPolicy | Some p \<Rightarrow> p),
     lv_Info = (vn_Info v)\<lparr>Features := cb_Features (vn_developmentBuild v), Capabilities := cb_Capabilities (vn_developmentBuild v)\<rparr>\<rparr>"

definition VerifyLocalDevelopmentPolicy :: "operating_system \<Rightarrow> host \<Rightarrow> string \<Rightarrow> string \<Rightarrow> LocalDevelopmentVerification result" where
  "VerifyLocalDevelopmentPolicy os machine data expectedSHA256 =
     (case decodePinnedLocalDevelopmentPolicy data expectedSHA256 of
        Inl err \<Rightarrow> Inl (localPolicyError err)
      | Inr p \<Rightarrow>
          (case verifyLocalDevelopmentArtifacts os machine p of
             Inl err \<Rightarrow> Inl (localPolicyError err)
           | Inr (v, _) \<Rightarrow> Inr (localDevelopmentObservation v expectedSHA256 LocalDevelopmentStaticVerification)))"

definition policy_file :: "operating_system \<Rightarrow> string \<Rightarrow> string \<Rightarrow> string result" where
  "policy_file os path expectedSHA256 =
     (if \<not> canonicalAbsolutePath path \<or> \<not> shaPattern expectedSHA256
      then Inl (localPolicyError (ErrorString ''canonical policy path and lowercase SHA256 pin are required''))
      else case readLocalDevelopmentFile os path maxManifestBytes of
        Inl err \<Rightarrow> Inl (localPolicyError err)
      | Inr data \<Rightarrow> Inr (string_of data))"

definition VerifyLocalDevelopmentPolicyFile :: "operating_system \<Rightarrow> host \<Rightarrow> string \<Rightarrow> string \<Rightarrow> LocalDevelopmentVerification result" where
  "VerifyLocalDevelopmentPolicyFile os machine path expectedSHA256 =
     (case policy_file os path expectedSHA256 of
        Inl err \<Rightarrow> Inl err
      | Inr data \<Rightarrow> VerifyLocalDevelopmentPolicy os machine data expectedSHA256)"

section \<open>Relocation\<close>

record LocalDevelopmentLocators =
  loc_LibraryPath :: string
  loc_HeaderPath :: string
  loc_BuildManifestPath :: string

record LocalDevelopmentRelocation =
  rl_Original :: LocalDevelopmentVerification
  rl_Relocated :: LocalDevelopmentVerification
  rl_PreservedBytesSHA256 :: string

definition locatorValues :: "LocalDevelopmentLocators \<Rightarrow> string \<Rightarrow> string" where
  "locatorValues locators f =
     (if f = ''library_path'' then loc_LibraryPath locators
      else if f = ''header_path'' then loc_HeaderPath locators
      else if f = ''build_manifest_path'' then loc_BuildManifestPath locators
      else [])"

text \<open>The loop over the spans from a position of the document on.\<close>

fun replace_tokens :: "string \<Rightarrow> (string \<Rightarrow> string) \<Rightarrow> nat \<Rightarrow> localLocatorSpan list \<Rightarrow> string" where
  "replace_tokens data values start [] = drop start data"
| "replace_tokens data values start (span # spans) =
     drop start (take (sp_start span) data) @ marshal_json (JStr (values (sp_field span))) @ replace_tokens data values (sp_end span) spans"

definition replaceLocalLocatorTokens :: "string \<Rightarrow> localLocatorSpan list \<Rightarrow> (string \<Rightarrow> string) \<Rightarrow> string" where
  "replaceLocalLocatorTokens data spans values = replace_tokens data values 0 spans"

definition preservedLocalPolicyBytes :: "string \<Rightarrow> localLocatorSpan list \<Rightarrow> string" where
  "preservedLocalPolicyBytes data spans = replaceLocalLocatorTokens data spans
     (locatorValues \<lparr>loc_LibraryPath = ''<library_path>'', loc_HeaderPath = ''<header_path>'', loc_BuildManifestPath = ''<build_manifest_path>''\<rparr>)"

text \<open>The spans of a document that did not verify would be nil; here both documents have verified.\<close>

definition spans_of :: "string \<Rightarrow> localLocatorSpan list" where
  "spans_of data = (case localPolicyLocatorSpans data of Inl _ \<Rightarrow> [] | Inr spans \<Rightarrow> spans)"

definition proveLocalDevelopmentRelocation :: "string \<Rightarrow> string \<Rightarrow> LocalDevelopmentVerification \<Rightarrow> LocalDevelopmentVerification
    \<Rightarrow> LocalDevelopmentLocators \<Rightarrow> LocalDevelopmentRelocation result" where
  "proveLocalDevelopmentRelocation original relocated a b expected =
     (let p = lv_Policy b; left = preservedLocalPolicyBytes original (spans_of original); right = preservedLocalPolicyBytes relocated (spans_of relocated) in
      if LibraryPath p \<noteq> loc_LibraryPath expected \<or> HeaderPath p \<noteq> loc_HeaderPath expected \<or> BuildManifestPath p \<noteq> loc_BuildManifestPath expected
      then Inl (localPolicyError (ErrorString ''relocated policy differs from explicit destination locators''))
      else if left \<noteq> right then Inl (localPolicyError (ErrorString ''relocation changed bytes outside the three locator tokens''))
      else Inr \<lparr>rl_Original = a, rl_Relocated = b, rl_PreservedBytesSHA256 = nativeSHA256Hex (bytes_of left)\<rparr>)"

definition VerifyLocalDevelopmentPolicyRelocation :: "operating_system \<Rightarrow> host \<Rightarrow> string \<Rightarrow> string \<Rightarrow> string \<Rightarrow> string
    \<Rightarrow> LocalDevelopmentLocators \<Rightarrow> LocalDevelopmentRelocation result" where
  "VerifyLocalDevelopmentPolicyRelocation os machine original originalPin relocated relocatedPin expected =
     (case VerifyLocalDevelopmentPolicy os machine original originalPin of
        Inl err \<Rightarrow> Inl err
      | Inr a \<Rightarrow>
          (case VerifyLocalDevelopmentPolicy os machine relocated relocatedPin of
             Inl err \<Rightarrow> Inl err
           | Inr b \<Rightarrow> proveLocalDevelopmentRelocation original relocated a b expected))"

definition DeriveLocalDevelopmentPolicy :: "operating_system \<Rightarrow> host \<Rightarrow> string \<Rightarrow> string \<Rightarrow> LocalDevelopmentLocators
    \<Rightarrow> (string \<times> LocalDevelopmentRelocation) result" where
  "DeriveLocalDevelopmentPolicy os machine original originalPin destination =
     (case VerifyLocalDevelopmentPolicy os machine original originalPin of
        Inl err \<Rightarrow> Inl err
      | Inr a \<Rightarrow>
          (let output = replaceLocalLocatorTokens original (spans_of original) (locatorValues destination) in
           case VerifyLocalDevelopmentPolicy os machine output (nativeSHA256Hex (bytes_of output)) of
             Inl err \<Rightarrow> Inl err
           | Inr b \<Rightarrow>
               (case proveLocalDevelopmentRelocation original output a b destination of
                  Inl err \<Rightarrow> Inl err
                | Inr proof' \<Rightarrow> Inr (output, proof'))))"

section \<open>Attestation without admission\<close>

definition AttestLocalDevelopmentPolicy :: "operating_system \<Rightarrow> (bytes \<Rightarrow> string + 'h core) \<Rightarrow> host \<Rightarrow> 'h process \<Rightarrow> string \<Rightarrow> string
    \<Rightarrow> 'h process \<times> LocalDevelopmentVerification result" where
  "AttestLocalDevelopmentPolicy os dlopen machine pr data expectedSHA256 =
     (case decodePinnedLocalDevelopmentPolicy data expectedSHA256 of
        Inl err \<Rightarrow> (pr, Inl (localPolicyError err))
      | Inr p \<Rightarrow>
          (case loadedNative pr of
             Some _ \<Rightarrow> (pr, Inl (localPolicyError (ErrorString ''runtime attestation requires an unadmitted process'')))
           | None \<Rightarrow>
               (case verifyLocalDevelopment os machine p (snapshot_files pr) of
                  (files, Inl err) \<Rightarrow> (pr\<lparr>snapshot_files := files\<rparr>, Inl (localPolicyError err))
                | (files, Inr v) \<Rightarrow>
                    (case loadAndAttestNative dlopen machine (pr\<lparr>snapshot_files := files\<rparr>) v of
                       (pr', Inl err) \<Rightarrow> (pr'\<lparr>snapshot_files := removeVerifiedNative v (snapshot_files pr')\<rparr>, Inl err)
                     | (pr', Inr attested) \<Rightarrow>
                         ((talon_sdk_unload pr')\<lparr>snapshot_files := removeVerifiedNative v (snapshot_files pr')\<rparr>,
                          Inr (localDevelopmentObservation attested expectedSHA256 LocalDevelopmentRuntimeVerification))))))"

definition AttestLocalDevelopmentPolicyFile :: "operating_system \<Rightarrow> (bytes \<Rightarrow> string + 'h core) \<Rightarrow> host \<Rightarrow> 'h process \<Rightarrow> string \<Rightarrow> string
    \<Rightarrow> 'h process \<times> LocalDevelopmentVerification result" where
  "AttestLocalDevelopmentPolicyFile os dlopen machine pr path expectedSHA256 =
     (case policy_file os path expectedSHA256 of
        Inl err \<Rightarrow> (pr, Inl err)
      | Inr data \<Rightarrow> AttestLocalDevelopmentPolicy os dlopen machine pr data expectedSHA256)"

text \<open>A policy against the identity of an open database.\<close>

definition DB_VerifyLocalDevelopmentPolicy :: "operating_system \<Rightarrow> host \<Rightarrow> 'h DB \<Rightarrow> string \<Rightarrow> string \<Rightarrow> NativeInfo result" where
  "DB_VerifyLocalDevelopmentPolicy os machine db data expectedSHA256 =
     (case VerifyLocalDevelopmentPolicy os machine data expectedSHA256 of
        Inl err \<Rightarrow> Inl err
      | Inr verification \<Rightarrow>
          (case db_handle db of
             None \<Rightarrow> closed_error ''verify native identity''
           | Some _ \<Rightarrow>
               if Admission (db_nativeInfo db) \<noteq> NativeAdmissionLocalDevelopment
                 \<or> db_nativePolicyHash db \<noteq> hashLocalDevelopmentPolicy (lv_Policy verification)
               then Inl (newError CodeNativeVerification ''verify native identity'' ''policy differs from this handle's admitted local runtime''
                      (Some (ErrorString ''loaded policy identity mismatch'')))
               else Inr (db_nativeInfo db)))"

section \<open>Policies from the environment\<close>

text \<open>The environment as \<open>os.Environ\<close> lists it; \<open>os.Getenv\<close> is empty for a name that is not set.\<close>

type_synonym environment = "(string \<times> string) list"

definition Getenv :: "environment \<Rightarrow> string \<Rightarrow> string" where
  "Getenv env name = (case map_of env name of None \<Rightarrow> [] | Some v \<Rightarrow> v)"

definition get_required :: "environment \<Rightarrow> string \<Rightarrow> string result" where
  "get_required env name =
     (let value = TrimSpace (Getenv env name) in if value = [] then Inl (ErrorString (name @ '' is required'')) else Inr value)"

fun get_all :: "environment \<Rightarrow> string list \<Rightarrow> string list result" where
  "get_all env [] = Inr []"
| "get_all env (name # names) =
     (case get_required env name of
        Inl err \<Rightarrow> Inl err
      | Inr value \<Rightarrow> (case get_all env names of Inl err \<Rightarrow> Inl err | Inr rest \<Rightarrow> Inr (value # rest)))"

definition policy_names :: "string list" where
  "policy_names = [''TALON_NATIVE_EXPECTED_KEY_ID'', ''TALON_NATIVE_EXPECTED_KEY_SHA256'', ''TALON_NATIVE_EXPECTED_RELEASE_TAG'',
     ''TALON_NATIVE_EXPECTED_TALON_BIN_COMMIT'', ''TALON_NATIVE_EXPECTED_CORE_REPOSITORY'', ''TALON_NATIVE_EXPECTED_CORE_TAG'',
     ''TALON_NATIVE_EXPECTED_CORE_COMMIT'', ''TALON_NATIVE_EXPECTED_CORE_VERSION'', ''TALON_NATIVE_EXPECTED_ABI_PROFILE'',
     ''TALON_NATIVE_EXPECTED_HEADER_SHA256'']"

fun split_capabilities :: "string list \<Rightarrow> string list result" where
  "split_capabilities [] = Inr []"
| "split_capabilities (value # rest) =
     (if TrimSpace value = [] then Inl (ErrorString ''TALON_NATIVE_REQUIRED_CAPABILITIES contains an empty capability'')
      else case split_capabilities rest of Inl err \<Rightarrow> Inl err | Inr values \<Rightarrow> Inr (TrimSpace value # values))"

text \<open>
  \<open>fmt.Sscanf\<close> with \<open>%d\<close> reads a leading integer; with the comparison of the printed value the text is a canonical
  integer of 64 bits.
\<close>

definition canonical_integer :: "string \<Rightarrow> int option" where
  "canonical_integer text = (case parse_int 64 text of None \<Rightarrow> None | Some n \<Rightarrow> if int_str n = text then Some n else None)"

definition NativePolicyFromEnvironment :: "operating_system \<Rightarrow> environment \<Rightarrow> NativePolicy result" where
  "NativePolicyFromEnvironment os env =
     (case get_all env [''TALON_NATIVE_BUNDLE_DIR'', ''TALON_NATIVE_PUBLIC_KEY_FILE''] of
        Inl err \<Rightarrow> Inl err
      | Inr paths \<Rightarrow>
          (case readBoundedRegularFile os (paths ! 1) maxPublicKeyBytes of
             Inl err \<Rightarrow> Inl (WrapError ''TALON_NATIVE_PUBLIC_KEY_FILE is not a bounded regular file: '' err)
           | Inr publicKey \<Rightarrow>
               (case get_all env policy_names of
                  Inl err \<Rightarrow> Inl err
                | Inr texts \<Rightarrow>
                    (case get_required env ''TALON_NATIVE_EXPECTED_ABI_VERSION'' of
                       Inl err \<Rightarrow> Inl err
                     | Inr abiVersionText \<Rightarrow>
                         (case canonical_integer abiVersionText of
                            None \<Rightarrow> Inl (ErrorString ''TALON_NATIVE_EXPECTED_ABI_VERSION must be a canonical positive integer'')
                          | Some abiVersion \<Rightarrow>
                              (let raw = TrimSpace (Getenv env ''TALON_NATIVE_REQUIRED_CAPABILITIES''); profile = TrimSpace (Getenv env ''TALON_NATIVE_ARTIFACT_PROFILE'') in
                               case (if raw = [] then Inr [] else split_capabilities (split_on (CHR '','') raw)) of
                                 Inl err \<Rightarrow> Inl err
                               | Inr capabilities \<Rightarrow>
                                   if profile \<noteq> [] \<and> profile \<noteq> ''full'' \<and> profile \<noteq> ''runtime''
                                   then Inl (ErrorString ''TALON_NATIVE_ARTIFACT_PROFILE must be full or runtime'')
                                   else Inr \<lparr>BundleDir = paths ! 0, RuntimeOnly = (profile = ''runtime''), PublicKeyPEM = publicKey,
                                     ExpectedKeyID = texts ! 0, ExpectedKeySHA256 = texts ! 1, ExpectedReleaseTag = texts ! 2,
                                     ExpectedTalonBinCommit = texts ! 3, ExpectedCoreRepository = texts ! 4, ExpectedCoreTag = texts ! 5,
                                     ExpectedCoreCommit = texts ! 6, ExpectedCoreVersion = texts ! 7, ExpectedABIProfile = texts ! 8,
                                     ExpectedABIVersion = abiVersion, ExpectedHeaderSHA256 = texts ! 9, RequiredCapabilities = capabilities\<rparr>))))))"

definition native_names :: "environment \<Rightarrow> string list \<Rightarrow> string option" where
  "native_names env allowed = find (\<lambda>name. HasPrefix name ''TALON_NATIVE_'' \<and> name \<notin> set allowed) (map fst env)"

definition LocalDevelopmentPolicyFromEnvironment :: "operating_system \<Rightarrow> environment \<Rightarrow> LocalDevelopmentPolicy result" where
  "LocalDevelopmentPolicyFromEnvironment os env =
     (let path = Getenv env ''TALON_NATIVE_DEV_POLICY_FILE''; digest = Getenv env ''TALON_NATIVE_DEV_POLICY_SHA256'' in
      if Getenv env ''TALON_NATIVE_MODE'' \<noteq> NativeAdmissionLocalDevelopment
      then Inl (ErrorString ''TALON_NATIVE_MODE=local-development is required'')
      else case native_names env [''TALON_NATIVE_MODE'', ''TALON_NATIVE_DEV_POLICY_FILE'', ''TALON_NATIVE_DEV_POLICY_SHA256''] of
        Some name \<Rightarrow> Inl (ErrorString (''release/unknown native field '' @ name @ '' cannot be mixed with local development''))
      | None \<Rightarrow>
          if \<not> canonicalAbsolutePath path \<or> \<not> shaPattern digest
          then Inl (ErrorString ''absolute development policy file and SHA256 are required'')
          else case readLocalDevelopmentFile os path maxManifestBytes of
            Inl err \<Rightarrow> Inl err
          | Inr data \<Rightarrow> decodePinnedLocalDevelopmentPolicy (string_of data) digest)"

text \<open>
  The runtime module that carries a signed release is not part of the repository: the directory it materializes and the identity it
  pins are an argument.
\<close>

record runtime_identity =
  id_PublicKeyPEM :: string
  id_KeyID :: string
  id_KeySHA256 :: string
  id_ReleaseTag :: string
  id_TalonBinCommit :: string
  id_CoreRepository :: string
  id_CoreTag :: string
  id_CoreCommit :: string
  id_CoreVersion :: string
  id_ABIProfile :: string
  id_ABIVersion :: int
  id_HeaderSHA256 :: string

definition nativePolicyFromGoRuntime :: "string \<Rightarrow> runtime_identity \<Rightarrow> NativePolicy" where
  "nativePolicyFromGoRuntime dir identity = \<lparr>BundleDir = dir, RuntimeOnly = True, PublicKeyPEM = bytes_of (id_PublicKeyPEM identity),
     ExpectedKeyID = id_KeyID identity, ExpectedKeySHA256 = id_KeySHA256 identity, ExpectedReleaseTag = id_ReleaseTag identity,
     ExpectedTalonBinCommit = id_TalonBinCommit identity, ExpectedCoreRepository = id_CoreRepository identity, ExpectedCoreTag = id_CoreTag identity,
     ExpectedCoreCommit = id_CoreCommit identity, ExpectedCoreVersion = id_CoreVersion identity, ExpectedABIProfile = id_ABIProfile identity,
     ExpectedABIVersion = id_ABIVersion identity, ExpectedHeaderSHA256 = id_HeaderSHA256 identity, RequiredCapabilities = []\<rparr>"

definition defaultNativePolicy :: "(string \<times> runtime_identity) result \<Rightarrow> operating_system \<Rightarrow> environment \<Rightarrow> NativePolicy result" where
  "defaultNativePolicy materialized os env =
     (case native_names env [''TALON_NATIVE_MODE''] of
        Some _ \<Rightarrow> NativePolicyFromEnvironment os env
      | None \<Rightarrow> (case materialized of Inl err \<Rightarrow> Inl err | Inr (dir, identity) \<Rightarrow> Inr (nativePolicyFromGoRuntime dir identity)))"

definition open_options :: "(string \<times> runtime_identity) result \<Rightarrow> operating_system \<Rightarrow> environment \<Rightarrow> OpenOptions result" where
  "open_options materialized os env =
     (let mode = Getenv env ''TALON_NATIVE_MODE'' in
      if mode = NativeAdmissionLocalDevelopment then
        (case LocalDevelopmentPolicyFromEnvironment os env of
           Inl err \<Rightarrow> Inl (newError CodeNativeVerification ''open'' ''local development policy is incomplete'' (Some err))
         | Inr policy \<Rightarrow> Inr \<lparr>Native = zero_NativePolicy, LocalDevelopment = Some policy\<rparr>)
      else if mode \<noteq> [] \<and> mode \<noteq> NativeAdmissionRelease
      then Inl (newError CodeNativeVerification ''open'' ''unknown TALON_NATIVE_MODE'' None)
      else case defaultNativePolicy materialized os env of
        Inl err \<Rightarrow> Inl (newError CodeNativeVerification ''open'' ''native trust policy is incomplete'' (Some err))
      | Inr policy \<Rightarrow> Inr \<lparr>Native = policy, LocalDevelopment = None\<rparr>)"

definition Open :: "(string \<times> runtime_identity) result \<Rightarrow> environment \<Rightarrow> trust_library \<Rightarrow> operating_system \<Rightarrow> (bytes \<Rightarrow> string + 'h core) \<Rightarrow> host \<Rightarrow> 'h process
    \<Rightarrow> string \<Rightarrow> 'h process \<times> 'h DB result" where
  "Open materialized env crypto os dlopen machine pr path =
     (case open_options materialized os env of
        Inl err \<Rightarrow> (pr, Inl err)
      | Inr options \<Rightarrow> OpenWithOptions crypto os dlopen machine pr path options)"

end
