(* ===== verification/NativeAdmissionProofs.thy ===== *)
theory NativeAdmissionProofs
  imports LocalPolicy
begin

text \<open>
  What admission promises. A process is admitted to at most one native library, and only to an image that carries the digest
  of its identity: for a release the digest a manifest records that is signed under the pinned key and repeats
  the pinned identity, for local development the digest the policy pins. The capabilities a policy requires pass their
  gates on every database opened under it.
\<close>

section \<open>Evidence\<close>

text \<open>The identity the policy expects, as the admitted identity reports it.\<close>

definition identity_pinned :: "NativePolicy \<Rightarrow> NativeInfo \<Rightarrow> bool" where
  "identity_pinned policy info \<longleftrightarrow>
     ReleaseTag info = ExpectedReleaseTag policy \<and> TalonBinCommit info = ExpectedTalonBinCommit policy
     \<and> CoreRepository info = ExpectedCoreRepository policy \<and> CoreTag info = ExpectedCoreTag policy
     \<and> CoreCommit info = ExpectedCoreCommit policy \<and> CoreVersion info = ExpectedCoreVersion policy
     \<and> ABIProfile info = ExpectedABIProfile policy \<and> ABIVersion info = ExpectedABIVersion policy
     \<and> HeaderSHA256 info = ExpectedHeaderSHA256 policy \<and> KeyID info = ExpectedKeyID policy \<and> KeySHA256 info = ExpectedKeySHA256 policy"

text \<open>A manifest signed under the key whose fingerprint the policy pins.\<close>

definition signed_manifest :: "trust_library \<Rightarrow> NativePolicy \<Rightarrow> nativeManifest \<Rightarrow> bool" where
  "signed_manifest crypto policy manifest \<longleftrightarrow>
     (\<exists>manifestBytes key block signature.
        decodeStrictJSON nativeManifest_decoder zero_nativeManifest (string_of manifestBytes) = Inr manifest
        \<and> ParsePKIXPublicKey crypto block = Inr (Ed25519Key key) \<and> sha256_hex block = ExpectedKeySHA256 policy
        \<and> ed25519_Verify crypto key manifestBytes signature)"

definition release_evidence :: "trust_library \<Rightarrow> host \<Rightarrow> NativePolicy \<Rightarrow> verifiedNative \<Rightarrow> bytes \<Rightarrow> bool" where
  "release_evidence crypto machine policy v contents \<longleftrightarrow>
     vn_Development v = None \<and> vn_policyHash v = hashNativePolicy policy \<and> vn_requiredCapabilities v = RequiredCapabilities policy
     \<and> validateNativePolicy policy = Inr () \<and> Admission (vn_Info v) = NativeAdmissionRelease \<and> identity_pinned policy (vn_Info v)
     \<and> signed_manifest crypto policy (vn_Manifest v)
     \<and> (\<exists>platform recorded. currentNativePlatform machine = Inr platform \<and> recorded \<in> set (art_Files (mf_Artifact (vn_Manifest v)))
          \<and> fr_Path recorded = pl_DynamicLibrary platform \<and> fr_SHA256 recorded = sha256_hex contents \<and> fr_Size recorded = int (length contents))"

definition local_evidence :: "LocalDevelopmentPolicy \<Rightarrow> verifiedNative \<Rightarrow> bytes \<Rightarrow> bool" where
  "local_evidence p v contents \<longleftrightarrow>
     vn_Development v = Some p \<and> vn_policyHash v = hashLocalDevelopmentPolicy p \<and> validateLocalDevelopmentPolicy p = Inr ()
     \<and> Admission (vn_Info v) = NativeAdmissionLocalDevelopment \<and> ldp_LibrarySHA256 p = sha256_hex contents
     \<and> HeaderSHA256 (vn_Info v) = ldp_HeaderSHA256 p"

text \<open>The loaded library attested itself: its own manifest passed, and the identity reports what it attested.\<close>

definition attested :: "host \<Rightarrow> 'h core \<Rightarrow> verifiedNative \<Rightarrow> bool" where
  "attested machine library v \<longleftrightarrow>
     (\<exists>out build. core_manifest library = NativeOutput (Some out) \<and> verifyCoreBuildIdentity machine out v = Inr build
        \<and> verifyRequiredRuntimeCapabilities build (vn_requiredCapabilities v) = Inr ()
        \<and> Features (vn_Info v) = cb_Features build \<and> Capabilities (vn_Info v) = cb_Capabilities build)"

definition admission_evidence :: "trust_library \<Rightarrow> host \<Rightarrow> verifiedNative \<Rightarrow> bytes \<Rightarrow> bool" where
  "admission_evidence crypto machine v contents \<longleftrightarrow>
     LibrarySHA256 (vn_Info v) = sha256_hex contents
     \<and> dom (Gates (vn_Info v)) = {''storage_conditional_batch_v1''} \<and> (\<forall>name \<in> set (vn_requiredCapabilities v). runtime_requirement name \<noteq> None)
     \<and> ((\<exists>policy. release_evidence crypto machine policy v contents) \<or> (\<exists>p. local_evidence p v contents))"

section \<open>Verified bundles\<close>

lemma trusted_key:
  assumes "parseTrustedEd25519Key crypto value = Inr (key, fingerprint)"
  shows "\<exists>block. ParsePKIXPublicKey crypto block = Inr (Ed25519Key key) \<and> fingerprint = sha256_hex block"
  using assms by (auto simp: parseTrustedEd25519Key_def sha256_hex_def split: option.splits prod.splits if_splits sum.splits public_key.splits)

lemma expected_record_in: "expected_record files name = Some r \<Longrightarrow> r \<in> set files \<and> fr_Path r = name"
  unfolding expected_record_def find_Some_iff by (metis length_rev nth_mem set_rev)

lemma archive_library:
  assumes "archive_loop files name seen library entries = Inr (seen', contents, recorded)"
  shows "(contents, recorded) = library \<or> (recorded \<in> set files \<and> fr_Path recorded = name \<and> fr_SHA256 recorded = sha256_hex contents
      \<and> fr_Size recorded = int (length contents))"
  using assms
proof (induction entries arbitrary: seen library)
  case (Cons entry entries)
  from Cons.prems obtain r where r: "expected_record files (te_Name entry) = Some r"
    by (auto split: if_splits option.splits)
  let ?data = "take (nat (te_Size entry + 1)) (te_data entry)"
  have ok: "te_Size entry = fr_Size r" "int (length ?data) = te_Size entry" "hex_encode (sha256 ?data) = fr_SHA256 r"
    using Cons.prems r by (simp_all add: Let_def split: if_splits)
  have next_step: "archive_loop files name (te_Name entry # seen) (if te_Name entry = name then (?data, r) else library) entries
      = Inr (seen', contents, recorded)"
    using Cons.prems r by (simp add: Let_def split: if_splits)
  show ?case
    using Cons.IH [OF next_step] ok expected_record_in [OF r] by (auto simp: sha256_hex_def split: if_splits)
qed simp

lemma verified_archive:
  assumes "verifyNativeArchive crypto os path manifest platform = Inr (contents, recorded)"
  shows "recorded \<in> set (art_Files (mf_Artifact manifest)) \<and> fr_Path recorded = pl_DynamicLibrary platform
      \<and> fr_SHA256 recorded = sha256_hex contents \<and> fr_Size recorded = int (length contents)"
  using assms unfolding verifyNativeArchive_def Let_def
  by (elim result_elims) (auto split: prod.splits sum.splits option.splits if_splits dest!: archive_library)

lemma verified_manifest:
  assumes "verify_manifest crypto os platform policy bundleDir = Inr manifest"
  shows "signed_manifest crypto policy manifest \<and> validateNativeManifest manifest (manifest_name policy platform) platform policy = Inr ()"
proof -
  from assms obtain data key fingerprint signature where m:
      "decodeStrictJSON nativeManifest_decoder zero_nativeManifest (string_of data) = Inr manifest"
      "validateNativeManifest manifest (manifest_name policy platform) platform policy = Inr ()"
      "parseTrustedEd25519Key crypto (PublicKeyPEM policy) = Inr (key, fingerprint)" "fingerprint = ExpectedKeySHA256 policy"
      "ed25519_Verify crypto key data signature"
    unfolding verify_manifest_def Let_def by (auto split: sum.splits prod.splits if_splits)
  from trusted_key [OF m(3)] obtain block where "ParsePKIXPublicKey crypto block = Inr (Ed25519Key key)" "fingerprint = sha256_hex block"
    by blast
  with m show ?thesis
    unfolding signed_manifest_def by metis
qed

lemma manifest_identity:
  assumes "validateNativeManifest manifest name platform policy = Inr ()"
  shows "identity_pinned policy (release_info manifest platform recorded)"
proof -
  from assms have parts: "check_identity manifest platform policy = Inr ()" "check_contract manifest name policy = Inr ()"
    by (auto simp: validateNativeManifest_def split: sum.splits)
  from parts(1) have "rel_Tag (mf_Release manifest) = ExpectedReleaseTag policy" "rel_TalonBinCommit (mf_Release manifest) = ExpectedTalonBinCommit policy"
    "src_Repository (mf_Source manifest) = ExpectedCoreRepository policy" "src_Tag (mf_Source manifest) = ExpectedCoreTag policy"
    "src_Commit (mf_Source manifest) = ExpectedCoreCommit policy" "src_CargoVersion (mf_Source manifest) = ExpectedCoreVersion policy"
    "abi_Profile (mf_ABI manifest) = ExpectedABIProfile policy" "abi_Version (mf_ABI manifest) = ExpectedABIVersion policy"
    "abi_HeaderSHA256 (mf_ABI manifest) = ExpectedHeaderSHA256 policy"
    unfolding check_identity_def Let_def by (elim guard_InrE; simp)+
  moreover from parts(2) have "sig_KeyID (mf_Signing manifest) = ExpectedKeyID policy" "sig_PublicKeySHA256 (mf_Signing manifest) = ExpectedKeySHA256 policy"
    unfolding check_contract_def Let_def by (elim guard_InrE; simp)+
  ultimately show ?thesis
    by (simp add: identity_pinned_def release_info_def)
qed

lemma verified_artifact:
  assumes "verify_artifact crypto os platform policy = Inr (manifest, contents, recorded)"
  shows "signed_manifest crypto policy manifest" "validateNativeManifest manifest (manifest_name policy platform) platform policy = Inr ()"
    "recorded \<in> set (art_Files (mf_Artifact manifest))" "fr_Path recorded = pl_DynamicLibrary platform"
    "fr_SHA256 recorded = sha256_hex contents" "fr_Size recorded = int (length contents)"
proof -
  from assms obtain bundleDir where a: "verify_manifest crypto os platform policy bundleDir = Inr manifest"
      "verifyNativeArchive crypto os (filepath_Join bundleDir (fr_Path (art_Archive (mf_Artifact manifest)))) manifest platform = Inr (contents, recorded)"
    unfolding verify_artifact_def by (auto split: sum.splits prod.splits if_splits)
  show "signed_manifest crypto policy manifest" "validateNativeManifest manifest (manifest_name policy platform) platform policy = Inr ()"
    using verified_manifest [OF a(1)] by simp_all
  show "recorded \<in> set (art_Files (mf_Artifact manifest))" "fr_Path recorded = pl_DynamicLibrary platform"
    "fr_SHA256 recorded = sha256_hex contents" "fr_Size recorded = int (length contents)"
    using verified_archive [OF a(2)] by simp_all
qed

lemma known_requirement:
  "name \<in> set known_capabilities \<Longrightarrow> name \<noteq> ''storage_conditional_batch_v1'' \<Longrightarrow> runtime_requirement name \<noteq> None"
  by (simp add: known_capabilities_def) (elim disjE; simp add: runtime_requirement_def)

lemma required_known:
  assumes "validateNativePolicy policy = Inr ()" "validateNativeManifest manifest file platform policy = Inr ()"
    and "name \<in> set (RequiredCapabilities policy)"
  shows "runtime_requirement name \<noteq> None"
proof -
  have "check_required [] (RequiredCapabilities policy) = Inr ()"
    using assms(1) unfolding validateNativePolicy_def by (elim guard_InrE)
  then have "name \<in> set known_capabilities"
    using assms(3) by (auto simp: check_required_iff)
  moreover have "check_contract manifest file policy = Inr ()"
    using assms(2) by (auto simp: validateNativeManifest_def split: sum.splits)
  then have "''storage_conditional_batch_v1'' \<notin> set (RequiredCapabilities policy)"
    unfolding check_contract_def Let_def by (elim guard_InrE) (auto split: if_splits)
  ultimately show ?thesis
    using assms(3) known_requirement by metis
qed

lemma verified_bundle:
  assumes "verifyNativeBundle crypto os machine policy files = (files', Inr v)"
  shows "\<exists>contents. files' (vn_LibraryPath v) = Some contents \<and> admission_evidence crypto machine v contents
      \<and> release_evidence crypto machine policy v contents"
proof -
  from assms obtain platform manifest contents recorded tempDir where b:
      "currentNativePlatform machine = Inr platform" "validateNativePolicy policy = Inr ()"
      "verify_artifact crypto os platform policy = Inr (manifest, contents, recorded)"
      "files' = files(filepath_Join tempDir (pl_DynamicLibrary platform) \<mapsto> contents)"
      "v = \<lparr>vn_Development = None, vn_developmentBuild = zero_coreBuildManifest, vn_Info = release_info manifest platform recorded,
         vn_Manifest = manifest, vn_LibraryPath = filepath_Join tempDir (pl_DynamicLibrary platform), vn_tempDir = tempDir,
         vn_policyHash = hashNativePolicy policy, vn_requiredCapabilities = RequiredCapabilities policy\<rparr>"
    unfolding verifyNativeBundle_def Let_def by (auto split: sum.splits prod.splits write_outcome.splits)
  have "identity_pinned policy (release_info manifest platform recorded)"
    by (rule manifest_identity [OF verified_artifact(2) [OF b(3)]])
  then have "release_evidence crypto machine policy v contents"
    using b verified_artifact [OF b(3)] by (auto simp: release_evidence_def release_info_def)
  moreover have "LibrarySHA256 (vn_Info v) = sha256_hex contents" "dom (Gates (vn_Info v)) = {''storage_conditional_batch_v1''}"
    using b verified_artifact(5) [OF b(3)] by (simp_all add: release_info_def)
  moreover have "runtime_requirement name \<noteq> None" if "name \<in> set (RequiredCapabilities policy)" for name
    by (rule required_known [OF b(2) verified_artifact(2) [OF b(3)] that])
  ultimately show ?thesis
    using b by (auto simp: admission_evidence_def)
qed

lemma verified_local_artifacts:
  assumes "verifyLocalDevelopmentArtifacts os machine p = Inr (v, contents)"
  shows "local_evidence p v contents" "LibrarySHA256 (vn_Info v) = sha256_hex contents" "dom (Gates (vn_Info v)) = {''storage_conditional_batch_v1''}"
    "vn_requiredCapabilities v = []"
  using assms unfolding verifyLocalDevelopmentArtifacts_def Let_def
  by (auto simp: local_evidence_def local_info_def nativeSHA256Hex_def sha256_hex_def split: sum.splits if_splits)

lemma verified_local:
  assumes "verifyLocalDevelopment os machine p files = (files', Inr v)"
  shows "\<exists>contents. files' (vn_LibraryPath v) = Some contents \<and> admission_evidence crypto machine v contents \<and> local_evidence p v contents"
proof -
  from assms obtain w contents path dir where b: "verifyLocalDevelopmentArtifacts os machine p = Inr (w, contents)"
      "files' = files(path \<mapsto> contents)" "v = w\<lparr>vn_LibraryPath := path, vn_tempDir := dir\<rparr>"
    unfolding verifyLocalDevelopment_def Let_def by (auto split: sum.splits prod.splits write_outcome.splits)
  show ?thesis
    using b verified_local_artifacts [OF b(1)] by (auto simp: admission_evidence_def local_evidence_def)
qed

section \<open>Loading\<close>

lemma build_identity_update: "verifyCoreBuildIdentity machine out (v\<lparr>vn_Info := info\<rparr>) = verifyCoreBuildIdentity machine out v"
proof -
  have "check_build_identity machine out build (v\<lparr>vn_Info := info\<rparr>) = check_build_identity machine out build v" for build
    by (simp add: check_build_identity_def split: option.split)
  moreover have "vn_Manifest (v\<lparr>vn_Info := info\<rparr>) = vn_Manifest v"
    by simp
  ultimately show ?thesis
    by (simp only: verifyCoreBuildIdentity_def)
qed

lemma attested_update:
  assumes "attestLoadedNative machine library v = Inr v'"
  shows "attested machine library v' \<and> (\<exists>features capabilities. v' = v\<lparr>vn_Info := (vn_Info v)\<lparr>Features := features, Capabilities := capabilities\<rparr>\<rparr>)"
proof -
  from assms obtain out build where a: "core_manifest library = NativeOutput (Some out)" "verifyCoreBuildIdentity machine out v = Inr build"
      "verifyRequiredRuntimeCapabilities build (vn_requiredCapabilities v) = Inr ()"
      "v' = v\<lparr>vn_Info := (vn_Info v)\<lparr>Features := cb_Features build, Capabilities := cb_Capabilities build\<rparr>\<rparr>"
    unfolding attestLoadedNative_def
    by (auto simp: boundedCString_def split: native_reply.splits option.splits sum.splits if_splits)
  then show ?thesis
    by (auto simp: attested_def build_identity_update)
qed

lemma evidence_update:
  "admission_evidence crypto machine (v\<lparr>vn_Info := (vn_Info v)\<lparr>Features := f, Capabilities := c\<rparr>\<rparr>) contents = admission_evidence crypto machine v contents"
  by (simp add: admission_evidence_def release_evidence_def local_evidence_def identity_pinned_def)

text \<open>With no library loaded, loading maps exactly the snapshot.\<close>

lemma loaded_snapshot:
  assumes "loadAndAttestNative dlopen machine pr v = (pr', r)" and "native_library pr = None"
  shows "snapshot_files pr' = snapshot_files pr" "loadedNative pr' = loadedNative pr"
    "case r of Inl _ \<Rightarrow> native_library pr' = None
     | Inr v' \<Rightarrow> \<exists>contents library. snapshot_files pr (vn_LibraryPath v) = Some contents \<and> dlopen contents = Inr library
         \<and> native_library pr' = Some (contents, library) \<and> attestLoadedNative machine library v = Inr v'"
proof -
  have "(r = r) \<and> snapshot_files pr' = snapshot_files pr \<and> loadedNative pr' = loadedNative pr \<and>
    (case r of Inl _ \<Rightarrow> native_library pr' = None
     | Inr v' \<Rightarrow> \<exists>contents library. snapshot_files pr (vn_LibraryPath v) = Some contents \<and> dlopen contents = Inr library
         \<and> native_library pr' = Some (contents, library) \<and> attestLoadedNative machine library v = Inr v')"
    using assms unfolding loadAndAttestNative_def talon_sdk_load_def talon_sdk_unload_def
    by (auto split: if_splits option.splits sum.splits)
  then show "snapshot_files pr' = snapshot_files pr" "loadedNative pr' = loadedNative pr"
    "case r of Inl _ \<Rightarrow> native_library pr' = None
     | Inr v' \<Rightarrow> \<exists>contents library. snapshot_files pr (vn_LibraryPath v) = Some contents \<and> dlopen contents = Inr library
         \<and> native_library pr' = Some (contents, library) \<and> attestLoadedNative machine library v = Inr v'"
    by simp_all
qed

section \<open>The process\<close>

definition initial_process :: "'h process" where
  "initial_process = \<lparr>snapshot_files = Map.empty, native_library = None, loadedNative = None\<rparr>"

text \<open>
  The states of a process: opens and attestations in any order, each with whatever the operating system shows at that
  time. (\<open>Open\<close> and the file forms are opens and attestations with options and documents read before.)
\<close>

inductive reachable :: "trust_library \<Rightarrow> (bytes \<Rightarrow> string + 'h core) \<Rightarrow> host \<Rightarrow> 'h process \<Rightarrow> bool"
  for crypto dlopen machine where
  started: "reachable crypto dlopen machine initial_process"
| opened: "reachable crypto dlopen machine pr \<Longrightarrow> reachable crypto dlopen machine (fst (OpenWithOptions crypto os dlopen machine pr path options))"
| probed: "reachable crypto dlopen machine pr \<Longrightarrow> reachable crypto dlopen machine (fst (AttestLocalDevelopmentPolicy os dlopen machine pr data pin))"

definition process_ok :: "trust_library \<Rightarrow> (bytes \<Rightarrow> string + 'h core) \<Rightarrow> host \<Rightarrow> 'h process \<Rightarrow> bool" where
  "process_ok crypto dlopen machine pr \<longleftrightarrow>
     (case loadedNative pr of
        None \<Rightarrow> native_library pr = None
      | Some v \<Rightarrow> \<exists>contents library. native_library pr = Some (contents, library) \<and> dlopen contents = Inr library
          \<and> admission_evidence crypto machine v contents \<and> attested machine library v)"

lemma process_ok_files [simp]: "process_ok crypto dlopen machine (pr\<lparr>snapshot_files := files\<rparr>) = process_ok crypto dlopen machine pr"
  by (cases "loadedNative pr") (simp_all add: process_ok_def)

text \<open>What verification promises, whichever policy was chosen.\<close>

lemma verified_options:
  assumes "verify_options crypto os machine options files = (files', Inr v)" "options_hash options = Inr policyHash"
  shows "vn_policyHash v = policyHash \<and> (\<exists>contents. files' (vn_LibraryPath v) = Some contents \<and> admission_evidence crypto machine v contents)
      \<and> (LocalDevelopment options = None \<longrightarrow> vn_requiredCapabilities v = RequiredCapabilities (Native options))"
proof (cases "LocalDevelopment options")
  case None
  then show ?thesis
    using assms verified_bundle [of crypto os machine "Native options" files files' v]
    by (auto simp: verify_options_def options_hash_def release_evidence_def)
next
  case (Some p)
  then show ?thesis
    using assms verified_local [of os machine p files files' v crypto]
    by (auto simp: verify_options_def options_hash_def local_evidence_def load_error_def split: if_splits sum.splits)
qed

lemma load_ok:
  assumes "loadAndAttestNative dlopen machine (pr\<lparr>snapshot_files := files\<rparr>) v = (pr', Inr v')" "loadedNative pr = None"
    and "process_ok crypto dlopen machine pr" "files (vn_LibraryPath v) = Some contents" "admission_evidence crypto machine v contents"
  shows "process_ok crypto dlopen machine (pr'\<lparr>loadedNative := Some v'\<rparr>) \<and> vn_policyHash v' = vn_policyHash v
      \<and> vn_requiredCapabilities v' = vn_requiredCapabilities v \<and> Gates (vn_Info v') = Gates (vn_Info v)"
proof -
  have "native_library (pr\<lparr>snapshot_files := files\<rparr>) = None"
    using assms(2,3) by (simp add: process_ok_def)
  then obtain library where l: "dlopen contents = Inr library" "native_library pr' = Some (contents, library)" "attestLoadedNative machine library v = Inr v'"
    using loaded_snapshot(3) [OF assms(1)] assms(4) by auto
  then show ?thesis
    using attested_update [OF l(3)] assms(5) by (auto simp: process_ok_def evidence_update)
qed

lemma load_failed:
  assumes "loadAndAttestNative dlopen machine (pr\<lparr>snapshot_files := files\<rparr>) v = (pr', r)" "loadedNative pr = None"
    and "process_ok crypto dlopen machine pr" "r = Inl err"
  shows "process_ok crypto dlopen machine pr'"
proof -
  have "native_library (pr\<lparr>snapshot_files := files\<rparr>) = None"
    using assms(2,3) by (simp add: process_ok_def)
  then show ?thesis
    using loaded_snapshot [OF assms(1)] assms(2,4) by (simp add: process_ok_def)
qed

lemma ensure_ok:
  assumes "process_ok crypto dlopen machine pr" "ensureNativeLoadedOptions crypto os dlopen machine pr options = (pr', r)"
  shows "process_ok crypto dlopen machine pr'"
    "r = Inr v \<Longrightarrow> loadedNative pr' = Some v \<and> options_hash options = Inr (vn_policyHash v)"
    "r = Inr v \<Longrightarrow> loadedNative pr = None \<Longrightarrow> LocalDevelopment options = None \<Longrightarrow> vn_requiredCapabilities v = RequiredCapabilities (Native options)"
proof -
  have "process_ok crypto dlopen machine pr' \<and> (\<forall>v. r = Inr v \<longrightarrow> loadedNative pr' = Some v \<and> options_hash options = Inr (vn_policyHash v)
      \<and> (loadedNative pr = None \<longrightarrow> LocalDevelopment options = None \<longrightarrow> vn_requiredCapabilities v = RequiredCapabilities (Native options)))"
  proof (cases "options_hash options")
    case (Inr policyHash)
    show ?thesis
    proof (cases "loadedNative pr")
      case None
      obtain files s where ver: "verify_options crypto os machine options (snapshot_files pr) = (files, s)"
        by fastforce
      show ?thesis
      proof (cases s)
        case (Inl err)
        then show ?thesis
          using assms Inr None ver by (auto simp: ensureNativeLoadedOptions_def load_error_def)
      next
        case v: (Inr v)
        obtain pr1 r1 where load: "loadAndAttestNative dlopen machine (pr\<lparr>snapshot_files := files\<rparr>) v = (pr1, r1)"
          by fastforce
        from verified_options [OF ver [unfolded v] Inr] obtain contents where c: "vn_policyHash v = policyHash"
            "files (vn_LibraryPath v) = Some contents" "admission_evidence crypto machine v contents"
            "LocalDevelopment options = None \<longrightarrow> vn_requiredCapabilities v = RequiredCapabilities (Native options)"
          by (elim conjE exE) (rule that)
        show ?thesis
        proof (cases r1)
          case (Inl err)
          then show ?thesis
            using assms Inr None ver v load load_failed [OF load None assms(1)] by (auto simp: ensureNativeLoadedOptions_def)
        next
          case v1: (Inr v1)
          then show ?thesis
            using assms(2) Inr None ver v load load_ok [OF load [unfolded v1] None assms(1) c(2,3)] c
            by (auto simp: ensureNativeLoadedOptions_def)
        qed
      qed
    next
      case (Some v)
      then show ?thesis
        using assms Inr by (auto simp: ensureNativeLoadedOptions_def load_error_def split: if_splits)
    qed
  qed (use assms in \<open>auto simp: ensureNativeLoadedOptions_def\<close>)
  then show "process_ok crypto dlopen machine pr'" "r = Inr v \<Longrightarrow> loadedNative pr' = Some v \<and> options_hash options = Inr (vn_policyHash v)"
    "r = Inr v \<Longrightarrow> loadedNative pr = None \<Longrightarrow> LocalDevelopment options = None \<Longrightarrow> vn_requiredCapabilities v = RequiredCapabilities (Native options)"
    by blast+
qed

lemma open_process:
  "fst (OpenWithOptions crypto os dlopen machine pr path options) = pr
   \<or> fst (OpenWithOptions crypto os dlopen machine pr path options) = fst (ensureNativeLoadedOptions crypto os dlopen machine pr options)"
  by (auto simp: OpenWithOptions_def split: prod.splits sum.splits)

lemma probe_ok:
  assumes "process_ok crypto dlopen machine pr"
  shows "process_ok crypto dlopen machine (fst (AttestLocalDevelopmentPolicy os dlopen machine pr data pin))"
proof (cases "loadedNative pr")
  case None
  show ?thesis
  proof (cases "decodePinnedLocalDevelopmentPolicy data pin")
    case p: (Inr p)
    obtain files s where ver: "verifyLocalDevelopment os machine p (snapshot_files pr) = (files, s)"
      by fastforce
    show ?thesis
    proof (cases s)
      case v: (Inr v)
      obtain pr1 r1 where load: "loadAndAttestNative dlopen machine (pr\<lparr>snapshot_files := files\<rparr>) v = (pr1, r1)"
        by fastforce
      have "native_library (pr\<lparr>snapshot_files := files\<rparr>) = None"
        using assms None by (simp add: process_ok_def)
      then show ?thesis
        using None p ver v load loaded_snapshot [OF load]
        by (cases r1) (simp_all add: AttestLocalDevelopmentPolicy_def process_ok_def talon_sdk_unload_def)
    qed (use None p ver assms in \<open>simp add: AttestLocalDevelopmentPolicy_def\<close>)
  qed (use assms in \<open>simp add: AttestLocalDevelopmentPolicy_def\<close>)
next
  case (Some v)
  then show ?thesis
    using assms by (simp add: AttestLocalDevelopmentPolicy_def split: sum.split)
qed

lemma reachable_ok: "reachable crypto dlopen machine pr \<Longrightarrow> process_ok crypto dlopen machine pr"
proof (induction rule: reachable.induct)
  case started
  then show ?case
    by (simp add: process_ok_def initial_process_def)
next
  case (opened pr os path options)
  then show ?case
    using open_process [of crypto os dlopen machine pr path options] ensure_ok(1) [of crypto dlopen machine pr os options]
    by (metis prod.collapse)
next
  case (probed pr os data pin)
  show ?case
    by (rule probe_ok [OF probed.IH])
qed

section \<open>Required capabilities\<close>

lemma unambiguous_find:
  assumes "ambiguous_name capabilities = None" "name \<noteq> ''storage_conditional_snapshot_read''" "c \<in> set capabilities" "cap_Name c = name"
  shows "find (\<lambda>c. cap_Name c = name) capabilities = Some c"
proof -
  have "name \<in> set (map cap_Name capabilities)"
    using assms by auto
  then have "count_list (map cap_Name capabilities) name \<le> 1"
    using assms(1,2) unfolding ambiguous_name_def find_None_iff by force
  then show ?thesis
    using assms(3,4)
  proof (induction capabilities)
    case (Cons d capabilities)
    show ?case
    proof (cases "cap_Name d = name")
      case True
      then have "name \<notin> set (map cap_Name capabilities)"
        using Cons.prems(1) count_list_0_iff [of "map cap_Name capabilities" name] by simp
      then have "c = d"
        using Cons.prems by auto
      then show ?thesis
        using True by simp
    qed (use Cons in auto)
  qed simp
qed

lemma verified_required:
  "verifyRequiredRuntimeCapabilities build names = Inr () \<Longrightarrow> name \<in> set names \<Longrightarrow> runtime_requirement name = Some (capabilityName, version)
   \<Longrightarrow> requirement_met build name version (findNativeCapability (cb_Capabilities build) capabilityName version)"
  by (induction names) (auto simp: Let_def split: option.splits if_splits)

lemma verified_unambiguous:
  "verifyCoreBuildIdentity machine out v = Inr build \<Longrightarrow> ambiguous_name (cb_Capabilities build) = None"
  by (auto simp: verifyCoreBuildIdentity_def check_build_def split: if_splits sum.splits option.splits)

lemma requirement_names:
  assumes "runtime_requirement name = Some (capabilityName, version)"
  shows "name = ''storage_conditional_snapshot_read'' \<and> capabilityName = ''storage_conditional_snapshot_read'' \<and> version = 1
    \<or> name = ''storage_conditional_snapshot_read_v2'' \<and> capabilityName = ''storage_conditional_snapshot_read'' \<and> version = 2
    \<or> name = ''storage_conditional_point_read'' \<and> capabilityName = ''storage_conditional_point_read'' \<and> version = 1
    \<or> name = ''revision_stream'' \<and> capabilityName = ''revision_stream'' \<and> version = 2
    \<or> name = ''native_kv_read'' \<and> capabilityName = ''native_kv_read'' \<and> version = 1
    \<or> name = ''native_shared_core'' \<and> capabilityName = ''native_shared_core'' \<and> version = 1
    \<or> name = ''native_sql_context'' \<and> capabilityName = ''native_sql_context'' \<and> version = 1"
  using assms unfolding runtime_requirement_def by (simp split: if_split_asm)

lemma requirement_passes:
  assumes "attested machine library v" "name \<in> set (vn_requiredCapabilities v)" "runtime_requirement name \<noteq> None"
    and "dom (Gates (vn_Info v)) = {''storage_conditional_batch_v1''}"
  shows "RequireCapability (vn_Info v) name = Inr ()"
proof -
  from assms(1) obtain out build where b: "verifyCoreBuildIdentity machine out v = Inr build"
      "verifyRequiredRuntimeCapabilities build (vn_requiredCapabilities v) = Inr ()"
      "Features (vn_Info v) = cb_Features build" "Capabilities (vn_Info v) = cb_Capabilities build"
    by (auto simp: attested_def)
  from assms(3) obtain capabilityName version where req: "runtime_requirement name = Some (capabilityName, version)"
    by auto
  have met: "requirement_met build name version (findNativeCapability (cb_Capabilities build) capabilityName version)"
    by (rule verified_required [OF b(2) assms(2) req])
  then obtain c where c: "findNativeCapability (cb_Capabilities build) capabilityName version = Some c" "cap_Status c = ''available''"
    by (auto simp: requirement_met_def split: option.splits)
  then have named: "c \<in> set (cb_Capabilities build)" "cap_Name c = capabilityName" "cap_Version c = version"
    by (auto simp: findNativeCapability_def find_Some_iff)
  have "runtime_requirement ''storage_conditional_batch_v1'' = None"
    by (simp add: runtime_requirement_def)
  then have gate: "Gates (vn_Info v) name = None"
    using assms(3,4) by (metis domIff singletonD)
  have found: "find (\<lambda>c. cap_Name c = capabilityName) (cb_Capabilities build) = Some c" if "capabilityName \<noteq> ''storage_conditional_snapshot_read''"
    using unambiguous_find [OF verified_unambiguous [OF b(1)] that named(1,2)] .
  have "require_attested (vn_Info v) name = Inr ()"
  proof (cases "capabilityName = ''storage_conditional_snapshot_read''")
    case True
    then have "name = ''storage_conditional_snapshot_read'' \<and> version = 1 \<or> name = ''storage_conditional_snapshot_read_v2'' \<and> version = 2"
      using requirement_names [OF req] by (elim disjE) simp_all
    then show ?thesis
      using True met c b(3,4) by (auto simp: require_attested_def requireConditionalSnapshotReadVersion_def requirement_met_def has_feature_def int_str_def)
  next
    case False
    with requirement_names [OF req] have n: "name = capabilityName"
      by (elim disjE) simp_all
    have "capability_implemented name version (cb_Features build)"
      using requirement_names [OF req] met c(1) False
      by (elim disjE) (simp_all add: capability_implemented_def requirement_met_def has_feature_def)
    moreover have "name \<noteq> ''storage_conditional_batch_v1''" "name \<noteq> ''storage_conditional_snapshot_read_v2''" "name \<noteq> ''storage_conditional_snapshot_read''"
      using requirement_names [OF req] False by (elim disjE; simp)+
    ultimately show ?thesis
      using n found [OF False] c(2) b(3,4) named(3) by (simp add: require_attested_def)
  qed
  then show ?thesis
    using gate by (simp add: RequireCapability_def)
qed

section \<open>Admission\<close>

text \<open>
  C38: a process is admitted to a native library only after verification. In every reachable state, whatever files and
  environment the process meets, either no library is admitted and none is loaded, or the loaded image hashes to the
  library digest of the admitted identity, the library attested itself, and the identity has its evidence: a manifest signed under
  the key the release policy pins, recording exactly this image and repeating every identity the policy expects; or
  a valid local policy that pins this image.
\<close>

theorem admitted_library_is_verified:
  assumes "reachable crypto dlopen machine pr"
  shows "case loadedNative pr of
      None \<Rightarrow> native_library pr = None
    | Some v \<Rightarrow> \<exists>contents library. native_library pr = Some (contents, library) \<and> dlopen contents = Inr library
        \<and> LibrarySHA256 (vn_Info v) = sha256_hex contents \<and> attested machine library v
        \<and> ((\<exists>policy. release_evidence crypto machine policy v contents) \<or> (\<exists>p. local_evidence p v contents))"
  using reachable_ok [OF assms] by (auto simp: process_ok_def admission_evidence_def split: option.splits)

text \<open>
  C39: a capability that the release policy requires is usable. When a process that has admitted nothing yet opens a database
  under a release policy, every capability the policy requires passes \<open>RequireCapability\<close> on that database.
\<close>

theorem required_capabilities_pass:
  assumes "reachable crypto dlopen machine pr" "loadedNative pr = None" "LocalDevelopment options = None"
    and "OpenWithOptions crypto os dlopen machine pr path options = (pr', Inr db)"
    and "name \<in> set (RequiredCapabilities (Native options))"
  shows "RequireCapability (db_nativeInfo db) name = Inr ()"
proof -
  obtain pr1 r where e: "ensureNativeLoadedOptions crypto os dlopen machine pr options = (pr1, r)"
    by fastforce
  with assms(4) obtain v where v: "r = Inr v" "db_nativeInfo db = vn_Info v"
    by (auto simp: OpenWithOptions_def split: if_splits sum.splits)
  note ok = ensure_ok [OF reachable_ok [OF assms(1)] e]
  have "vn_requiredCapabilities v = RequiredCapabilities (Native options)"
    by (rule ok(3) [OF v(1) assms(2,3)])
  moreover obtain contents library where "dlopen contents = Inr library" "admission_evidence crypto machine v contents" "attested machine library v"
    using ok(1) ok(2) [OF v(1)] by (auto simp: process_ok_def)
  ultimately have "attested machine library v" "name \<in> set (vn_requiredCapabilities v)" "runtime_requirement name \<noteq> None"
    "dom (Gates (vn_Info v)) = {''storage_conditional_batch_v1''}"
    using assms(5) by (simp_all add: admission_evidence_def)
  then show ?thesis
    unfolding v(2) by (rule requirement_passes)
qed

end
