(* ===== verification/AdmissionExample.thy ===== *)
theory AdmissionExample
  imports NativeAdmissionProofs
begin

text \<open>
  A release that is admitted from end to end: a runtime bundle for Linux with its manifest as JSON text, the files of the
  bundle, a library that attests itself, and the policy that pins them. The signature scheme of the example accepts
  everything; the rest of the verification runs as it is.
\<close>

section \<open>The library\<close>

definition demo_host :: host where "demo_host = (''linux'', ''amd64'')"

definition demo_platform :: nativePlatform where
  "demo_platform = \<lparr>pl_Name = ''linux-amd64'', pl_Target = ''x86_64-unknown-linux-gnu'', pl_Runner = ''ubuntu-24.04'',
     pl_StaticLibrary = ''libtalon.a'', pl_DynamicLibrary = ''libtalon.so''\<rparr>"

definition demo_commit :: string where "demo_commit = replicate 40 CHR ''a''"

definition demo_symbols :: "string list" where "demo_symbols = sdkRequiredSymbols @ [''talon_kv_read_v1'']"

definition demo_features :: "string list" where
  "demo_features = [''native_build_manifest_v1'', ''native_error_codes_v1'', ''sql_tlv_v1'', ''native_conditional_transaction_v2'',
     ''conditional_transaction_command_digest_v1'', ''native_kv_read_v1'']"

definition demo_capabilities :: "NativeCapability list" where
  "demo_capabilities =
     [\<lparr>cap_Name = ''native_conditional_transaction_v2'', cap_Version = 2, cap_Status = ''available'', cap_Reason = None, cap_Limits = None\<rparr>,
      \<lparr>cap_Name = ''native_kv_read'', cap_Version = 1, cap_Status = ''available'', cap_Reason = None, cap_Limits = None\<rparr>]"

text \<open>The digests of the example: of the header, of the lock file, and the binding.\<close>

definition demo_header :: string where "demo_header = sha256_hex [2]"
definition demo_lock :: string where "demo_lock = sha256_hex [8]"

definition demo_build :: coreBuildManifest where
  "demo_build = (let unbound = \<lparr>cb_ManifestVersion = 1, cb_CoreSemver = ''1.2.3'', cb_GitCommit = demo_commit, cb_GitDirty = Some False,
       cb_Target = ''x86_64-unknown-linux-gnu'', cb_CargoLockSHA256 = demo_lock, cb_HeaderSHA256 = demo_header,
       cb_ABI = \<lparr>cba_Profile = ''talon-native-c'', cba_Version = 1, cba_RequiredSymbols = demo_symbols\<rparr>, cb_Features = demo_features,
       cb_Capabilities = demo_capabilities, cb_BuildBindingSHA256 = []\<rparr>
     in unbound\<lparr>cb_BuildBindingSHA256 := computeBuildBinding unbound\<rparr>)"

definition demo_build_json :: json where
  "demo_build_json = JObj
     [(''manifest_version'', JNum (int_str 1)), (''core_semver'', JStr ''1.2.3''), (''git_commit'', JStr demo_commit), (''git_dirty'', JBool False),
      (''target'', JStr ''x86_64-unknown-linux-gnu''), (''cargo_lock_sha256'', JStr demo_lock), (''header_sha256'', JStr demo_header),
      (''abi'', JObj [(''profile'', JStr ''talon-native-c''), (''version'', JNum (int_str 1)), (''required_symbols'', JArr (map JStr demo_symbols))]),
      (''features'', JArr (map JStr demo_features)),
      (''capabilities'', JArr
         [JObj [(''name'', JStr ''native_conditional_transaction_v2''), (''version'', JNum (int_str 2)), (''status'', JStr ''available'')],
          JObj [(''name'', JStr ''native_kv_read''), (''version'', JNum (int_str 1)), (''status'', JStr ''available'')]]),
      (''build_binding_sha256'', JStr (cb_BuildBindingSHA256 demo_build))]"

definition demo_library :: "nat core" where
  "demo_library = \<lparr>core_manifest = NativeOutput (Some (marshal_json demo_build_json)), core_symbols = (\<lambda>s. s \<in> set demo_symbols), core_open = (\<lambda>_. Inr 0)\<rparr>"

lemma demo_digests [simp]:
  "shaPattern demo_header" "shaPattern demo_lock" "length demo_header = 64" "length demo_lock = 64"
  "length (sha256_hex m) = 64" "utf8_valid (sha256_hex m)" "utf8_valid demo_header" "utf8_valid demo_lock"
  by (simp_all add: shaPattern_def demo_header_def demo_lock_def sha256_hex_def length_hex_encode sha_pattern_text [OF sha_pattern_sha256_hex, unfolded sha256_hex_def])

lemma demo_binding [simp]:
  "computeBuildBinding demo_build = cb_BuildBindingSHA256 demo_build" "shaPattern (cb_BuildBindingSHA256 demo_build)"
  "length (cb_BuildBindingSHA256 demo_build) = 64" "utf8_valid (cb_BuildBindingSHA256 demo_build)"
proof -
  show eq: "computeBuildBinding demo_build = cb_BuildBindingSHA256 demo_build"
    by (simp add: demo_build_def Let_def computeBuildBinding_def build_fields_def)
  show "shaPattern (cb_BuildBindingSHA256 demo_build)" "length (cb_BuildBindingSHA256 demo_build) = 64" "utf8_valid (cb_BuildBindingSHA256 demo_build)"
    using sha_pattern_sha256_hex demo_digests(5,6) unfolding eq [symmetric] computeBuildBinding_def shaPattern_def sha256_hex_def by blast+
qed

lemma json_goint_int [simp]: "- (2 ^ 63) \<le> i \<Longrightarrow> i < 2 ^ 63 \<Longrightarrow> json_goint old (JNum (int_str i)) = Inr i"
  by (simp add: json_goint_def parse_int_int_str)

lemma string_elements: "decode_elements [] json_string old (map JStr xs) = Inr xs"
  by (induction xs arbitrary: old) (simp_all add: json_string_def)

lemma json_list_strings [simp]: "json_list [] json_string old (JArr (map JStr xs)) = Inr xs"
  by (simp add: json_list_def json_slice_def string_elements)

lemma demo_commit_facts [simp]: "commitPattern demo_commit" "length demo_commit = 40" "utf8_valid demo_commit"
  by (simp_all add: demo_commit_def commitPattern_def class_pattern_def lower_hex_def numeral_eq_Suc)

lemma visit_strings [simp]: "d < 128 \<Longrightarrow> visit_elements d (map JStr xs) = Inr ()"
  by (induction xs) simp_all

lemmas decoding = decode_struct_def find_field_def field_def json_string_def json_bool_def json_ptr_def json_list_def json_slice_def

lemma demo_build_visited: "visit 0 demo_build_json = Inr ()"
  by (simp add: demo_build_json_def)

lemma demo_abi_decodes:
  "coreBuildABI_decoder zero_coreBuildABI (JObj [(''profile'', JStr ''talon-native-c''), (''version'', JNum (int_str 1)), (''required_symbols'', JArr (map JStr xs))])
   = Inr \<lparr>cba_Profile = ''talon-native-c'', cba_Version = 1, cba_RequiredSymbols = xs\<rparr>"
  by (simp add: coreBuildABI_decoder_def decoding string_elements zero_coreBuildABI_def)

lemma demo_capability_decodes:
  "- (2 ^ 63) \<le> n \<Longrightarrow> n < 2 ^ 63 \<Longrightarrow>
   NativeCapability_decoder zero_NativeCapability (JObj [(''name'', JStr name), (''version'', JNum (int_str n)), (''status'', JStr status)])
   = Inr \<lparr>cap_Name = name, cap_Version = n, cap_Status = status, cap_Reason = None, cap_Limits = None\<rparr>"
  by (simp add: NativeCapability_decoder_def decoding zero_NativeCapability_def)

lemma demo_build_fields:
  "coreBuildManifest_decoder zero_coreBuildManifest demo_build_json = Inr demo_build"
  by (simp add: coreBuildManifest_decoder_def demo_build_json_def decoding string_elements zero_coreBuildManifest_def demo_abi_decodes
      demo_capability_decodes demo_build_def Let_def demo_capabilities_def)

lemma ascii_words [simp]: "list_all utf8_valid demo_symbols" "list_all utf8_valid demo_features"
  by (simp_all add: demo_symbols_def sdkRequiredSymbols_def demo_features_def)

lemma demo_build_text: "decodeStrictJSON coreBuildManifest_decoder zero_coreBuildManifest (marshal_json demo_build_json) = Inr demo_build"
proof -
  have "printable demo_build_json"
    by (auto simp: demo_build_json_def)
  moreover have "json_strings utf8_valid demo_build_json"
    using ascii_words by (simp add: demo_build_json_def list_all_iff)
  ultimately have "decodeStrictJSON coreBuildManifest_decoder zero_coreBuildManifest (marshal_json demo_build_json)
      = decodeStrictRaw coreBuildManifest_decoder zero_coreBuildManifest demo_build_json"
    by (rule marshal_json_reads_back(2))
  then show ?thesis
    by (simp add: decodeStrictRaw_def demo_build_visited demo_build_fields del: visit.simps)
qed

lemma demo_build_size: "length (marshal_json demo_build_json) \<le> maxManifestBytes" "marshal_json demo_build_json \<noteq> []"
proof -
  have "json_weight demo_build_json \<le> 2 ^ 20"
    by (simp add: demo_build_json_def demo_symbols_def sdkRequiredSymbols_def demo_features_def int_str_def nat_str.simps)
  then show "length (marshal_json demo_build_json) \<le> maxManifestBytes"
    using marshal_weight [of demo_build_json] by (simp add: maxManifestBytes_def)
  show "marshal_json demo_build_json \<noteq> []"
    by (simp add: marshal_json_def demo_build_json_def)
qed

section \<open>The bundle\<close>

definition demo_record :: "string \<Rightarrow> bytes \<Rightarrow> fileRecord" where
  "demo_record path contents = \<lparr>fr_Path = path, fr_Size = int (length contents), fr_SHA256 = sha256_hex contents\<rparr>"

definition demo_manifest :: nativeManifest where
  "demo_manifest = \<lparr>mf_SchemaVersion = ''1.0'',
     mf_Release = \<lparr>rel_Tag = ''v1.0.0'', rel_Channel = ''enterprise-core'', rel_TalonBinCommit = demo_commit\<rparr>,
     mf_Source = \<lparr>src_Repository = ''https://core'', src_Tag = ''v1.2.3'', src_Commit = demo_commit, src_CargoVersion = ''1.2.3'',
       src_CargoLockSHA256 = demo_lock, src_SourceDateEpoch = 1, src_Clean = True\<rparr>,
     mf_ABI = \<lparr>abi_Profile = ''talon-native-c'', abi_Version = 1, abi_HeaderSHA256 = demo_header, abi_RequiredSymbols = demo_symbols\<rparr>,
     mf_Build = \<lparr>bld_Source = ''ci'', bld_WorkflowRunID = ''1'', bld_Runner = ''ubuntu-24.04'', bld_Target = ''x86_64-unknown-linux-gnu'',
       bld_Rustc = ''r'', bld_Cargo = ''c'', bld_Command = [''build'', ''--locked'', ''--release'', ''--lib''], bld_Reproducibility = ''none''\<rparr>,
     mf_Artifact = \<lparr>art_Kind = ''talon-core-native-runtime'', art_Platform = ''linux-amd64'',
       art_Archive = demo_record ''libtalon-core-runtime-linux-amd64.tar.gz'' [7],
       art_Files = [demo_record ''libtalon.so'' [1], demo_record ''talon.h'' [2], demo_record ''LICENSE.core'' [3], demo_record ''NOTICE'' [4]]\<rparr>,
     mf_Materials = \<lparr>mat_SBOM = demo_record ''libtalon-core-runtime-linux-amd64.sbom.cdx.json'' [5],
       mat_LicenseInventory = demo_record ''libtalon-core-runtime-linux-amd64.licenses.json'' [6],
       mat_CoreLicense = demo_record ''LICENSE.core'' [3], mat_Notice = demo_record ''NOTICE'' [4]\<rparr>,
     mf_Signing = \<lparr>sig_Algorithm = ''Ed25519'', sig_KeyID = ''key'', sig_PublicKeySHA256 = sha256_hex [9],
       sig_Signature = ''libtalon-core-runtime-linux-amd64.manifest.json.sig''\<rparr>,
     mf_Compatibility = \<lparr>cmp_SDKContract = ''talon-native-manifest-v1'', cmp_RuntimeVerification = ''ed25519-manifest+sha256-native+abi-identity'',
       cmp_BinarySelfAttestation = True\<rparr>,
     mf_Gates = \<lparr>gts_StorageConditionalBatchV1 = \<lparr>gate_Status = ''gated'', gate_Reason = ''later''\<rparr>\<rparr>\<rparr>"

definition demo_policy :: NativePolicy where
  "demo_policy = \<lparr>BundleDir = ''/b'', RuntimeOnly = True, PublicKeyPEM = [9], ExpectedKeyID = ''key'', ExpectedKeySHA256 = sha256_hex [9],
     ExpectedReleaseTag = ''v1.0.0'', ExpectedTalonBinCommit = demo_commit, ExpectedCoreRepository = ''https://core'', ExpectedCoreTag = ''v1.2.3'',
     ExpectedCoreCommit = demo_commit, ExpectedCoreVersion = ''1.2.3'', ExpectedABIProfile = ''talon-native-c'', ExpectedABIVersion = 1,
     ExpectedHeaderSHA256 = demo_header, RequiredCapabilities = [''native_kv_read'']\<rparr>"

lemmas patterns = namePattern_def tagPattern_def semverPattern_def after_version_def after_number_def after_dot_def alphanumeric_def is_digit_def
  is_lower_def is_upper_def less_eq_char_def HasPrefix_def

lemma demo_symbols_supported: "supportedNativeSymbolSet demo_symbols" "sameStringSet demo_symbols demo_symbols"
proof -
  show same: "sameStringSet demo_symbols demo_symbols"
    by (simp add: sameStringSet_iff demo_symbols_def sdkRequiredSymbols_def symbolPattern_def patterns)
  then show "supportedNativeSymbolSet demo_symbols"
    unfolding supportedNativeSymbolSet_def Let_def demo_symbols_def by simp
qed

lemma demo_policy_valid: "validateNativePolicy demo_policy = Inr ()"
  by (simp add: validateNativePolicy_def demo_policy_def maxPublicKeyBytes_def patterns known_capabilities_def shaPattern_def demo_header_def)

lemma demo_file_valid:
  "fr_Path r \<noteq> [] \<Longrightarrow> fr_Path r = filepath_Base (fr_Path r) \<Longrightarrow> namePattern (fr_Path r) \<Longrightarrow> 0 < fr_Size r \<Longrightarrow> shaPattern (fr_SHA256 r)
   \<Longrightarrow> name = [] \<or> name = fr_Path r \<Longrightarrow> validateFileRecord r name = Inr ()"
  by (auto simp: validateFileRecord_def)

lemma demo_manifest_valid: "validateNativeManifest demo_manifest (manifest_name demo_policy demo_platform) demo_platform demo_policy = Inr ()"
proof -
  have "check_identity demo_manifest demo_platform demo_policy = Inr ()"
    by (simp add: check_identity_def demo_manifest_def demo_policy_def demo_platform_def demo_symbols_supported sameStrings_iff nativeReleaseChannel_def patterns)
  moreover have "check_artifact demo_manifest demo_platform demo_policy = Inr ()"
    by (simp add: check_artifact_def demo_manifest_def demo_policy_def demo_platform_def validateFileRecord_def demo_record_def
        filepath_Base_def patterns shaPattern_def expected_files_def file_named_def demo_header_def)
  moreover have "check_contract demo_manifest (manifest_name demo_policy demo_platform) demo_policy = Inr ()"
    by (simp add: check_contract_def demo_manifest_def demo_policy_def demo_platform_def manifest_name_def nativeManifestContract_def patterns)
  ultimately show ?thesis
    by (simp add: validateNativeManifest_def)
qed

section \<open>The manifest as text\<close>

definition file_json :: "fileRecord \<Rightarrow> json" where
  "file_json r = JObj [(''path'', JStr (fr_Path r)), (''size'', JNum (int_str (fr_Size r))), (''sha256'', JStr (fr_SHA256 r))]"

definition demo_manifest_json :: json where
  "demo_manifest_json = JObj
     [(''schema_version'', JStr ''1.0''),
      (''release'', JObj [(''tag'', JStr ''v1.0.0''), (''channel'', JStr ''enterprise-core''), (''talon_bin_commit'', JStr demo_commit)]),
      (''source'', JObj [(''repository'', JStr ''https://core''), (''tag'', JStr ''v1.2.3''), (''commit'', JStr demo_commit), (''cargo_version'', JStr ''1.2.3''),
         (''cargo_lock_sha256'', JStr demo_lock), (''source_date_epoch'', JNum (int_str 1)), (''clean'', JBool True)]),
      (''abi'', JObj [(''profile'', JStr ''talon-native-c''), (''version'', JNum (int_str 1)), (''header_sha256'', JStr demo_header),
         (''required_symbols'', JArr (map JStr demo_symbols))]),
      (''build'', JObj [(''source'', JStr ''ci''), (''workflow_run_id'', JStr ''1''), (''runner'', JStr ''ubuntu-24.04''), (''target'', JStr ''x86_64-unknown-linux-gnu''),
         (''rustc'', JStr ''r''), (''cargo'', JStr ''c''), (''command'', JArr (map JStr [''build'', ''--locked'', ''--release'', ''--lib''])), (''reproducibility'', JStr ''none'')]),
      (''artifact'', JObj [(''kind'', JStr ''talon-core-native-runtime''), (''platform'', JStr ''linux-amd64''),
         (''archive'', file_json (art_Archive (mf_Artifact demo_manifest))), (''files'', JArr (map file_json (art_Files (mf_Artifact demo_manifest))))]),
      (''materials'', JObj [(''sbom'', file_json (mat_SBOM (mf_Materials demo_manifest))),
         (''license_inventory'', file_json (mat_LicenseInventory (mf_Materials demo_manifest))),
         (''core_license'', file_json (mat_CoreLicense (mf_Materials demo_manifest))), (''notice'', file_json (mat_Notice (mf_Materials demo_manifest)))]),
      (''signing'', JObj [(''algorithm'', JStr ''Ed25519''), (''key_id'', JStr ''key''), (''public_key_sha256'', JStr (sha256_hex [9])),
         (''signature'', JStr ''libtalon-core-runtime-linux-amd64.manifest.json.sig'')]),
      (''compatibility'', JObj [(''sdk_contract'', JStr ''talon-native-manifest-v1''),
         (''runtime_verification'', JStr ''ed25519-manifest+sha256-native+abi-identity''), (''binary_self_attestation'', JBool True)]),
      (''gates'', JObj [(''storage_conditional_batch_v1'', JObj [(''status'', JStr ''gated''), (''reason'', JStr ''later'')])])]"

definition small :: "fileRecord \<Rightarrow> bool" where
  "small r \<longleftrightarrow> 0 \<le> fr_Size r \<and> fr_Size r < 10"

lemma file_decodes: "small r \<Longrightarrow> fileRecord_decoder old (file_json r) = Inr r"
  by (simp add: fileRecord_decoder_def file_json_def decoding small_def)

lemma files_decode: "list_all small rs \<Longrightarrow> decode_elements zero_fileRecord fileRecord_decoder old (map file_json rs) = Inr rs"
  by (induction rs arbitrary: old) (simp_all add: file_decodes)

lemma demo_small: "small (demo_record path [b])"
  by (simp add: small_def demo_record_def)

lemma visit_files: "d < 128 \<Longrightarrow> visit d (file_json r) = Inr ()"
  by (simp add: file_json_def)

lemma demo_manifest_visited: "visit 0 demo_manifest_json = Inr ()"
  by (simp add: demo_manifest_json_def demo_manifest_def file_json_def)

lemma demo_parts_decode:
  "nativeRelease_decoder zero_nativeRelease (JObj [(''tag'', JStr ''v1.0.0''), (''channel'', JStr ''enterprise-core''), (''talon_bin_commit'', JStr demo_commit)])
     = Inr (mf_Release demo_manifest)"
  "nativeSource_decoder zero_nativeSource (JObj [(''repository'', JStr ''https://core''), (''tag'', JStr ''v1.2.3''), (''commit'', JStr demo_commit), (''cargo_version'', JStr ''1.2.3''),
     (''cargo_lock_sha256'', JStr demo_lock), (''source_date_epoch'', JNum (int_str 1)), (''clean'', JBool True)]) = Inr (mf_Source demo_manifest)"
  "nativeABI_decoder zero_nativeABI (JObj [(''profile'', JStr ''talon-native-c''), (''version'', JNum (int_str 1)), (''header_sha256'', JStr demo_header),
     (''required_symbols'', JArr (map JStr demo_symbols))]) = Inr (mf_ABI demo_manifest)"
  "nativeBuild_decoder zero_nativeBuild (JObj [(''source'', JStr ''ci''), (''workflow_run_id'', JStr ''1''), (''runner'', JStr ''ubuntu-24.04''), (''target'', JStr ''x86_64-unknown-linux-gnu''),
     (''rustc'', JStr ''r''), (''cargo'', JStr ''c''), (''command'', JArr (map JStr [''build'', ''--locked'', ''--release'', ''--lib''])), (''reproducibility'', JStr ''none'')])
     = Inr (mf_Build demo_manifest)"
  "nativeArtifact_decoder zero_nativeArtifact (JObj [(''kind'', JStr ''talon-core-native-runtime''), (''platform'', JStr ''linux-amd64''),
     (''archive'', file_json (art_Archive (mf_Artifact demo_manifest))), (''files'', JArr (map file_json (art_Files (mf_Artifact demo_manifest))))])
     = Inr (mf_Artifact demo_manifest)"
  "nativeMaterials_decoder zero_nativeMaterials (JObj [(''sbom'', file_json (mat_SBOM (mf_Materials demo_manifest))),
     (''license_inventory'', file_json (mat_LicenseInventory (mf_Materials demo_manifest))),
     (''core_license'', file_json (mat_CoreLicense (mf_Materials demo_manifest))), (''notice'', file_json (mat_Notice (mf_Materials demo_manifest)))])
     = Inr (mf_Materials demo_manifest)"
  "nativeSigning_decoder zero_nativeSigning (JObj [(''algorithm'', JStr ''Ed25519''), (''key_id'', JStr ''key''), (''public_key_sha256'', JStr (sha256_hex [9])),
     (''signature'', JStr ''libtalon-core-runtime-linux-amd64.manifest.json.sig'')]) = Inr (mf_Signing demo_manifest)"
  "nativeCompatibility_decoder zero_nativeCompatibility (JObj [(''sdk_contract'', JStr ''talon-native-manifest-v1''),
     (''runtime_verification'', JStr ''ed25519-manifest+sha256-native+abi-identity''), (''binary_self_attestation'', JBool True)]) = Inr (mf_Compatibility demo_manifest)"
  "nativeGates_decoder zero_nativeGates (JObj [(''storage_conditional_batch_v1'', JObj [(''status'', JStr ''gated''), (''reason'', JStr ''later'')])]) = Inr (mf_Gates demo_manifest)"
  by (simp_all add: demo_manifest_def nativeRelease_decoder_def zero_nativeRelease_def nativeSource_decoder_def zero_nativeSource_def nativeABI_decoder_def
      zero_nativeABI_def nativeBuild_decoder_def zero_nativeBuild_def nativeArtifact_decoder_def zero_nativeArtifact_def nativeMaterials_decoder_def
      zero_nativeMaterials_def nativeSigning_decoder_def zero_nativeSigning_def nativeCompatibility_decoder_def zero_nativeCompatibility_def nativeGates_decoder_def
      zero_nativeGates_def CapabilityGate_decoder_def zero_CapabilityGate_def decoding string_elements file_decodes demo_small)

lemma demo_manifest_fields: "nativeManifest_decoder zero_nativeManifest demo_manifest_json = Inr demo_manifest"
  unfolding nativeManifest_decoder_def demo_manifest_json_def
  by (simp add: decode_struct_def find_field_def field_def json_string_def zero_nativeManifest_def demo_parts_decode [simplified]) (simp add: demo_manifest_def)

lemma demo_manifest_text: "decodeStrictJSON nativeManifest_decoder zero_nativeManifest (marshal_json demo_manifest_json) = Inr demo_manifest"
proof -
  have "printable demo_manifest_json"
    by (auto simp: demo_manifest_json_def file_json_def)
  moreover have "json_strings utf8_valid demo_manifest_json"
    using ascii_words by (simp add: demo_manifest_json_def file_json_def demo_manifest_def demo_record_def list_all_iff)
  ultimately have "decodeStrictJSON nativeManifest_decoder zero_nativeManifest (marshal_json demo_manifest_json)
      = decodeStrictRaw nativeManifest_decoder zero_nativeManifest demo_manifest_json"
    by (rule marshal_json_reads_back(2))
  then show ?thesis
    by (simp add: decodeStrictRaw_def demo_manifest_visited demo_manifest_fields del: visit.simps)
qed

lemma demo_manifest_size: "length (marshal_json demo_manifest_json) \<le> maxManifestBytes" "marshal_json demo_manifest_json \<noteq> []"
proof -
  have "json_weight demo_manifest_json \<le> 2 ^ 20"
    by (simp add: demo_manifest_json_def demo_manifest_def file_json_def demo_record_def demo_symbols_def sdkRequiredSymbols_def int_str_def nat_str.simps)
  then show "length (marshal_json demo_manifest_json) \<le> maxManifestBytes"
    using marshal_weight [of demo_manifest_json] by (simp add: maxManifestBytes_def)
  show "marshal_json demo_manifest_json \<noteq> []"
    by (simp add: marshal_json_def demo_manifest_json_def)
qed

section \<open>Opening a database\<close>

definition demo_files :: "string \<Rightarrow> bytes option" where
  "demo_files = map_of
     [(''/b/libtalon-core-runtime-linux-amd64.manifest.json'', bytes_of (marshal_json demo_manifest_json)),
      (''/b/libtalon-core-runtime-linux-amd64.manifest.json.sig'', replicate 64 0),
      (''/b/libtalon-core-runtime-linux-amd64.tar.gz'', [7]),
      (''/b/libtalon-core-runtime-linux-amd64.sbom.cdx.json'', [5]), (''/b/libtalon-core-runtime-linux-amd64.licenses.json'', [6]),
      (''/b/LICENSE.core'', [3]), (''/b/NOTICE'', [4])]"

definition demo_stat :: "bytes \<Rightarrow> file_info" where
  "demo_stat contents = \<lparr>fi_kind = RegularFile, fi_size = length contents, fi_perm = 420, fi_identity = 0\<rparr>"

definition demo_os :: operating_system where
  "demo_os = \<lparr>os_Abs = Inr,
     os_Lstat = (\<lambda>path. if path = ''/b'' then Inr \<lparr>fi_kind = Directory, fi_size = 0, fi_perm = 493, fi_identity = 1\<rparr>
       else case demo_files path of None \<Rightarrow> Inl (ErrorString ''no such file'') | Some contents \<Rightarrow> Inr (demo_stat contents)),
     os_Open = (\<lambda>path. case demo_files path of
         None \<Rightarrow> Inl (ErrorString ''no such file'')
       | Some contents \<Rightarrow> Inr \<lparr>of_stat = Inr (demo_stat contents), of_stat_again = Inr (demo_stat contents), of_read = Inr contents,
           of_seek = Inr (), of_read_again = Inr contents\<rparr>),
     os_MkdirTemp = (\<lambda>_. Inr ''/t''), os_WriteFile = (\<lambda>_ _. Written)\<rparr>"

definition demo_entry :: "string \<Rightarrow> byte \<Rightarrow> tar_entry" where
  "demo_entry name b = \<lparr>te_Name = name, te_regular = True, te_Size = 1, te_data = [b], te_failed = False\<rparr>"

definition demo_crypto :: trust_library where
  "demo_crypto = \<lparr>pem_Decode = (\<lambda>pem. Some (''PUBLIC KEY'', pem, [])), ParsePKIXPublicKey = (\<lambda>_. Inr (Ed25519Key (replicate 32 0))),
     ed25519_Verify = (\<lambda>_ _ _. True),
     untar = (\<lambda>_. Inr ([demo_entry ''libtalon.so'' 1, demo_entry ''talon.h'' 2, demo_entry ''LICENSE.core'' 3, demo_entry ''NOTICE'' 4], None))\<rparr>"

definition demo_dlopen :: "bytes \<Rightarrow> string + nat core" where
  "demo_dlopen contents = (if contents = [1] then Inr demo_library else Inl ''not a library'')"

definition demo_options :: OpenOptions where
  "demo_options = \<lparr>Native = demo_policy, LocalDevelopment = None\<rparr>"

lemma demo_open_file:
  assumes "demo_files path = Some contents" "path \<noteq> ''/b''" "contents \<noteq> []" "length contents \<le> bound" "expected < 0 \<or> expected = int (length contents)"
  shows "openBoundedRegularFile demo_os path expected bound = Inr \<lparr>of_stat = Inr (demo_stat contents), of_stat_again = Inr (demo_stat contents),
     of_read = Inr contents, of_seek = Inr (), of_read_again = Inr contents\<rparr>"
  using assms by (auto simp: openBoundedRegularFile_def demo_os_def demo_stat_def)

lemma demo_read:
  assumes "demo_files path = Some contents" "path \<noteq> ''/b''" "contents \<noteq> []" "length contents \<le> bound"
  shows "readBoundedRegularFile demo_os path bound = Inr contents"
  using assms by (simp add: readBoundedRegularFile_def demo_open_file read_bounded_def)

lemma demo_verify:
  assumes "demo_files path = Some [b]" "path \<noteq> ''/b''" "0 < bound"
  shows "verifyFileRecord demo_os path (demo_record name [b]) bound = Inr ()"
  using assms by (simp add: verifyFileRecord_def demo_open_file demo_record_def sha256_hex_def)

lemma demo_paths:
  "filepath_Join ''/b'' ''libtalon-core-runtime-linux-amd64.manifest.json'' = ''/b/libtalon-core-runtime-linux-amd64.manifest.json''"
  "filepath_Join ''/b'' ''libtalon-core-runtime-linux-amd64.manifest.json.sig'' = ''/b/libtalon-core-runtime-linux-amd64.manifest.json.sig''"
  "filepath_Join ''/b'' ''libtalon-core-runtime-linux-amd64.tar.gz'' = ''/b/libtalon-core-runtime-linux-amd64.tar.gz''"
  "filepath_Join ''/b'' ''libtalon-core-runtime-linux-amd64.sbom.cdx.json'' = ''/b/libtalon-core-runtime-linux-amd64.sbom.cdx.json''"
  "filepath_Join ''/b'' ''libtalon-core-runtime-linux-amd64.licenses.json'' = ''/b/libtalon-core-runtime-linux-amd64.licenses.json''"
  "filepath_Join ''/b'' ''LICENSE.core'' = ''/b/LICENSE.core''" "filepath_Join ''/b'' ''NOTICE'' = ''/b/NOTICE''"
  "filepath_Join ''/t'' ''libtalon.so'' = ''/t/libtalon.so''"
  by (simp_all add: filepath_Join_def filepath_Clean_def filepath_IsAbs_def HasPrefix_def clean_step_def)

lemma demo_current: "currentNativePlatform demo_host = Inr demo_platform"
  by (simp add: currentNativePlatform_def nativePlatformFor_def demo_host_def demo_platform_def)

lemma demo_manifest_verified: "verify_manifest demo_crypto demo_os demo_platform demo_policy ''/b'' = Inr demo_manifest"
proof -
  have name: "manifest_name demo_policy demo_platform = ''libtalon-core-runtime-linux-amd64.manifest.json''"
    by (simp add: manifest_name_def demo_policy_def demo_platform_def)
  have "readBoundedRegularFile demo_os ''/b/libtalon-core-runtime-linux-amd64.manifest.json'' maxManifestBytes = Inr (bytes_of (marshal_json demo_manifest_json))"
    using demo_manifest_size by (intro demo_read) (simp_all add: demo_files_def bytes_of_def)
  moreover have "readBoundedRegularFile demo_os ''/b/libtalon-core-runtime-linux-amd64.manifest.json.sig'' 64 = Inr (replicate 64 0)"
    by (intro demo_read) (simp_all add: demo_files_def)
  moreover have "parseTrustedEd25519Key demo_crypto (PublicKeyPEM demo_policy) = Inr (replicate 32 0, sha256_hex [9])"
    by (simp add: parseTrustedEd25519Key_def demo_crypto_def demo_policy_def sha256_hex_def string_of_def)
  moreover have "ExpectedKeySHA256 demo_policy = sha256_hex [9]" "sig_PublicKeySHA256 (mf_Signing demo_manifest) = sha256_hex [9]"
    "sig_Signature (mf_Signing demo_manifest) = ''libtalon-core-runtime-linux-amd64.manifest.json.sig''" "ed25519_Verify demo_crypto k m g" for k m g
    by (simp_all add: demo_policy_def demo_manifest_def demo_crypto_def)
  ultimately show ?thesis
    using demo_manifest_valid by (simp add: verify_manifest_def name demo_paths demo_manifest_text)
qed

lemma demo_archive_verified:
  "verifyNativeArchive demo_crypto demo_os ''/b/libtalon-core-runtime-linux-amd64.tar.gz'' demo_manifest demo_platform = Inr ([1], demo_record ''libtalon.so'' [1])"
proof -
  have "openBoundedRegularFile demo_os ''/b/libtalon-core-runtime-linux-amd64.tar.gz'' 1 maxNativeArchiveBytes
      = Inr \<lparr>of_stat = Inr (demo_stat [7]), of_stat_again = Inr (demo_stat [7]), of_read = Inr [7], of_seek = Inr (), of_read_again = Inr [7]\<rparr>"
    by (intro demo_open_file) (simp_all add: demo_files_def maxNativeArchiveBytes_def)
  then show ?thesis
    by (simp add: verifyNativeArchive_def demo_manifest_def demo_record_def demo_platform_def demo_crypto_def demo_entry_def sha256_hex_def
        filepath_Base_def patterns expected_record_def maxNativeMemberBytes_def Let_def)
qed

lemma demo_artifact_verified: "verify_artifact demo_crypto demo_os demo_platform demo_policy = Inr (demo_manifest, [1], demo_record ''libtalon.so'' [1])"
proof -
  have "verify_materials demo_os ''/b''
      [(''sbom'', mat_SBOM (mf_Materials demo_manifest)), (''license inventory'', mat_LicenseInventory (mf_Materials demo_manifest)),
       (''core license'', mat_CoreLicense (mf_Materials demo_manifest)), (''notice'', mat_Notice (mf_Materials demo_manifest))] = Inr ()"
    by (simp add: demo_manifest_def demo_paths demo_verify demo_files_def maxNativeMemberBytes_def demo_record_def [of _ "[_]", THEN arg_cong [where f = fr_Path]])
  moreover have "fr_Path (art_Archive (mf_Artifact demo_manifest)) = ''libtalon-core-runtime-linux-amd64.tar.gz''"
    by (simp add: demo_manifest_def demo_record_def)
  moreover have "os_Abs demo_os (BundleDir demo_policy) = Inr ''/b''"
    "os_Lstat demo_os ''/b'' = Inr \<lparr>fi_kind = Directory, fi_size = 0, fi_perm = 493, fi_identity = 1\<rparr>"
    by (simp_all add: demo_os_def demo_policy_def)
  ultimately show ?thesis
    by (simp add: verify_artifact_def demo_manifest_verified demo_archive_verified demo_paths)
qed

definition demo_verified :: verifiedNative where
  "demo_verified = \<lparr>vn_Development = None, vn_developmentBuild = zero_coreBuildManifest, vn_Info = release_info demo_manifest demo_platform (demo_record ''libtalon.so'' [1]),
     vn_Manifest = demo_manifest, vn_LibraryPath = ''/t/libtalon.so'', vn_tempDir = ''/t'', vn_policyHash = hashNativePolicy demo_policy,
     vn_requiredCapabilities = [''native_kv_read'']\<rparr>"

lemma demo_bundle_verified: "verifyNativeBundle demo_crypto demo_os demo_host demo_policy Map.empty = ([''/t/libtalon.so'' \<mapsto> [1]], Inr demo_verified)"
proof -
  have "os_MkdirTemp demo_os pattern = Inr ''/t''" "os_WriteFile demo_os p c = Written" "pl_DynamicLibrary demo_platform = ''libtalon.so''"
    "RequiredCapabilities demo_policy = [''native_kv_read'']" for pattern p c
    by (simp_all add: demo_os_def demo_platform_def demo_policy_def)
  then show ?thesis
    by (simp add: verifyNativeBundle_def demo_current demo_policy_valid demo_artifact_verified demo_paths demo_verified_def Let_def)
qed

lemma small_numbers [simp]: "int_str 1 = ''1''" "int_str 2 = ''2''"
  by (simp_all add: int_str_def nat_str.simps digit_char_def char_of_def bit_Suc_0_iff bit_iff_odd)

lemma demo_build_verified: "verifyCoreBuildIdentity demo_host (marshal_json demo_build_json) demo_verified = Inr demo_build"
proof -
  have fields: "cb_ManifestVersion demo_build = 1" "cb_Features demo_build = demo_features" "cb_Capabilities demo_build = demo_capabilities"
    "cba_RequiredSymbols (cb_ABI demo_build) = demo_symbols"
    by (simp_all add: demo_build_def Let_def)
  have "check_release_build demo_build demo_manifest = Inr ()"
    by (simp add: check_release_build_def demo_build_def Let_def demo_manifest_def demo_symbols_supported)
  moreover have "check_groups demo_build = Inr ()"
    by (simp add: check_groups_def fields has_feature_def has_symbol_def demo_features_def demo_capabilities_def demo_symbols_def sdkRequiredSymbols_def
        sqlContextSymbols_def capability_at_def versioned_def singleNativeCapability_def)
  moreover have "check_features [] demo_features = Inr ()" "ambiguous_name demo_capabilities = None"
    by (simp_all add: demo_features_def demo_capabilities_def ambiguous_name_def)
  moreover have "check_capabilities 1 [] demo_capabilities = Inr ()"
    by (simp add: demo_capabilities_def versioned_def)
  moreover have "check_required_features demo_features [''native_build_manifest_v'' @ int_str 1, ''native_error_codes_v1'', ''sql_tlv_v1'',
      ''native_conditional_transaction_v2'', ''conditional_transaction_command_digest_v1''] = Inr ()"
    by (simp add: demo_features_def)
  moreover have "gate_Status (gts_StorageConditionalBatchV1 (mf_Gates demo_manifest)) = ''gated''"
    by (simp add: demo_manifest_def)
  ultimately have "check_build demo_build demo_manifest = Inr ()" "check_release_build demo_build demo_manifest = Inr ()"
    by (simp_all add: check_build_def fields)
  then show ?thesis
    using demo_build_size by (simp add: verifyCoreBuildIdentity_def check_build_identity_def demo_build_text demo_verified_def)
qed

definition demo_info :: NativeInfo where
  "demo_info = (vn_Info demo_verified)\<lparr>Features := demo_features, Capabilities := demo_capabilities\<rparr>"

definition demo_process :: "nat process" where
  "demo_process = \<lparr>snapshot_files = [''/t/libtalon.so'' \<mapsto> [1]], native_library = Some ([1], demo_library),
     loadedNative = Some (demo_verified\<lparr>vn_Info := demo_info\<rparr>)\<rparr>"

definition demo_db :: "nat DB" where
  "demo_db = \<lparr>db_handle = Some 0, db_nativeInfo = demo_info, db_nativePolicyHash = hashNativePolicy demo_policy\<rparr>"

lemma demo_attested: "attestLoadedNative demo_host demo_library demo_verified = Inr (demo_verified\<lparr>vn_Info := demo_info\<rparr>)"
proof -
  have "core_manifest demo_library = NativeOutput (Some (marshal_json demo_build_json))"
    by (simp add: demo_library_def)
  moreover have "boundedCString (marshal_json demo_build_json) maxManifestBytes = Inr (marshal_json demo_build_json)"
    using demo_build_size(1) by (simp add: boundedCString_def maxManifestBytes_def)
  moreover have "verifyRequiredRuntimeCapabilities demo_build (vn_requiredCapabilities demo_verified) = Inr ()"
    by (simp add: demo_verified_def runtime_requirement_def requirement_met_def findNativeCapability_def demo_build_def Let_def demo_capabilities_def
        has_feature_def has_symbol_def demo_features_def demo_symbols_def)
  moreover have "missing_symbol demo_library (abi_RequiredSymbols (mf_ABI (vn_Manifest demo_verified))) = None" "vn_Development demo_verified = None"
    by (simp_all add: missing_symbol_def find_None_iff demo_library_def demo_verified_def demo_manifest_def)
  moreover have "cb_Features demo_build = demo_features" "cb_Capabilities demo_build = demo_capabilities"
    by (simp_all add: demo_build_def Let_def)
  ultimately show ?thesis
    by (simp add: attestLoadedNative_def demo_build_verified demo_info_def)
qed

lemma demo_loaded:
  "loadAndAttestNative demo_dlopen demo_host (initial_process\<lparr>snapshot_files := [''/t/libtalon.so'' \<mapsto> [1]]\<rparr>) demo_verified
   = (demo_process\<lparr>loadedNative := None\<rparr>, Inr (demo_verified\<lparr>vn_Info := demo_info\<rparr>))"
proof -
  have "find (\<lambda>s. \<not> core_symbols demo_library s) loader_symbols = None"
    by (simp add: find_None_iff loader_symbols_def demo_library_def demo_symbols_def sdkRequiredSymbols_def)
  then have "talon_sdk_load demo_dlopen (initial_process\<lparr>snapshot_files := [''/t/libtalon.so'' \<mapsto> [1]]\<rparr>) ''/t/libtalon.so''
      = (demo_process\<lparr>loadedNative := None\<rparr>, Inr ())"
    by (simp add: talon_sdk_load_def initial_process_def demo_dlopen_def demo_process_def)
  moreover have "vn_LibraryPath demo_verified = ''/t/libtalon.so''" "native_library (demo_process\<lparr>loadedNative := None\<rparr>) = Some ([1], demo_library)"
    by (simp_all add: demo_verified_def demo_process_def)
  ultimately show ?thesis
    by (simp add: loadAndAttestNative_def demo_attested)
qed

lemma demo_opened: "OpenWithOptions demo_crypto demo_os demo_dlopen demo_host initial_process ''d'' demo_options = (demo_process, Inr demo_db)"
proof -
  have "options_hash demo_options = Inr (hashNativePolicy demo_policy)" "LocalDevelopment demo_options = None" "Native demo_options = demo_policy"
    by (simp_all add: options_hash_def demo_options_def)
  then have "ensureNativeLoadedOptions demo_crypto demo_os demo_dlopen demo_host initial_process demo_options = (demo_process, Inr (demo_verified\<lparr>vn_Info := demo_info\<rparr>))"
    using demo_bundle_verified demo_loaded
    by (simp add: ensureNativeLoadedOptions_def verify_options_def initial_process_def demo_process_def)
  then show ?thesis
    by (simp add: OpenWithOptions_def utf8_valid_ascii ascii_def demo_process_def demo_library_def demo_db_def demo_verified_def)
qed

lemma admitted_library_is_verified_witness:
  "reachable demo_crypto demo_dlopen demo_host demo_process \<and> loadedNative demo_process = Some (demo_verified\<lparr>vn_Info := demo_info\<rparr>)
   \<and> LibrarySHA256 demo_info = sha256_hex [1]"
proof -
  have r: "reachable demo_crypto demo_dlopen demo_host demo_process"
    using reachable.opened [OF reachable.started, of demo_crypto demo_dlopen demo_host demo_os "''d''" demo_options] by (simp add: demo_opened)
  then show ?thesis
    using admitted_library_is_verified [OF r] by (auto simp: demo_process_def)
qed

lemma required_capabilities_pass_witness:
  "OpenWithOptions demo_crypto demo_os demo_dlopen demo_host initial_process ''d'' demo_options = (demo_process, Inr demo_db)
   \<and> RequireCapability (db_nativeInfo demo_db) ''native_kv_read'' = Inr ()"
  using required_capabilities_pass [OF reachable.started _ _ demo_opened, of "''native_kv_read''"] demo_opened
  by (simp add: initial_process_def demo_options_def demo_policy_def)

section \<open>The policy hash\<close>

text \<open>
  The hash of a policy does not tell where the required capabilities end and the key begins: a policy that requires a further
  capability and one whose key text starts with that name hash the same, although both are valid.
\<close>

theorem policy_hash_ambiguous:
  "\<exists>weak strong. validateNativePolicy weak = Inr () \<and> validateNativePolicy strong = Inr () \<and> RequiredCapabilities weak = []
     \<and> RequiredCapabilities strong = [''native_kv_read''] \<and> hashNativePolicy weak = hashNativePolicy strong"
proof (intro exI conjI)
  define weak where "weak = demo_policy\<lparr>RequiredCapabilities := [], PublicKeyPEM := 0 # bytes_of ''native_kv_read'' @ [9]\<rparr>"
  show "validateNativePolicy weak = Inr ()" "validateNativePolicy demo_policy = Inr ()"
    using demo_policy_valid by (simp_all add: weak_def validateNativePolicy_def maxPublicKeyBytes_def bytes_of_def split: if_splits)
  show "RequiredCapabilities weak = []" "RequiredCapabilities demo_policy = [''native_kv_read'']"
    by (simp_all add: weak_def demo_policy_def)
  show "hashNativePolicy weak = hashNativePolicy demo_policy"
    by (simp add: hashNativePolicy_def policy_message_def policy_values_def weak_def demo_policy_def)
qed

end
