(* ===== verification/Spec2Isabelle.thy ===== *)
theory Spec2Isabelle
  imports MerkleProofs CommandDigest RevisionEvidence WireValueProofs Session RevisionPaging PrefixScanServer ServerClientProofs SqlDriverProofs DatabaseTransactions AdmissionExample
begin

text \<open>
  A verification library for the Talon Go SDK.
\<close>

end
